(* ===== verification/Prelude.thy ===== *)
theory Prelude
  imports Main "HOL-Library.Sublist" "HOL-Library.Char_ord" "HOL-Library.List_Lexorder"
begin

text \<open>
  The shared base of the development: the collections the component theories
  fill (\<open>go_simps\<close> for the unfolding of Go library functions, \<open>inv_intros\<close>
  for invariant introduction), the Go string functions the sources call,
  translated to byte strings (\<open>string\<close> is a list of 8-bit characters, as a Go
  string is a list of bytes), decimal printing, the two locales every component
  shares (folding a step function over a list; a strict order given as a
  "less" function, as \<open>sort.SliceStable\<close> takes it), and the insertion sort
  that stands for Go's stable sort.

  ASCII is exact.  The Unicode parts of \<open>strings.ToLower\<close> and
  \<open>strings.EqualFold\<close> (letters outside ASCII) are not modelled: bytes from 128
  up are left as they are.  \<open>strings.TrimSpace\<close> does trim the UTF-8 encodings of
  the Unicode white space characters.
\<close>

named_theorems go_simps
named_theorems inv_intros

section \<open>Go strings\<close>

abbreviation HasPrefix :: "string \<Rightarrow> string \<Rightarrow> bool" where
  "HasPrefix s p \<equiv> prefix p s"

abbreviation HasSuffix :: "string \<Rightarrow> string \<Rightarrow> bool" where
  "HasSuffix s p \<equiv> suffix p s"

definition TrimPrefix :: "string \<Rightarrow> string \<Rightarrow> string" where
  "TrimPrefix s p = (if prefix p s then drop (length p) s else s)"

definition TrimSuffix :: "string \<Rightarrow> string \<Rightarrow> string" where
  "TrimSuffix s p = (if suffix p s then take (length s - length p) s else s)"

text \<open>\<open>strings.Contains\<close>.\<close>

fun Contains :: "string \<Rightarrow> string \<Rightarrow> bool" where
  "Contains [] p = (p = [])"
| "Contains (c # s) p = (prefix p (c # s) \<or> Contains s p)"

text \<open>
  ASCII lower case: \<open>A\<close>..\<open>Z\<close> (65..90) move up by 32, every other byte stays.
\<close>

definition lower_char :: "char \<Rightarrow> char" where
  "lower_char c = (let n = (of_char c :: nat) in if 65 \<le> n \<and> n \<le> 90 then char_of (n + 32) else c)"

definition ToLower :: "string \<Rightarrow> string" where
  "ToLower s = map lower_char s"

definition EqualFold :: "string \<Rightarrow> string \<Rightarrow> bool" where
  "EqualFold s t = (ToLower s = ToLower t)"

definition ReplaceChar :: "char \<Rightarrow> char \<Rightarrow> string \<Rightarrow> string" where
  "ReplaceChar a b s = map (\<lambda>c. if c = a then b else c) s"

text \<open>\<open>strings.Split(s, sep)\<close> for a one-byte separator; never empty.\<close>

fun split_on :: "char \<Rightarrow> string \<Rightarrow> string list" where
  "split_on c [] = [[]]"
| "split_on c (x # xs) =
     (if x = c then [] # split_on c xs
      else (case split_on c xs of [] \<Rightarrow> [[x]] | w # ws \<Rightarrow> (x # w) # ws))"

fun join_with :: "string \<Rightarrow> string list \<Rightarrow> string" where
  "join_with sep [] = []"
| "join_with sep [w] = w"
| "join_with sep (w # ws) = w @ sep @ join_with sep ws"

abbreviation newline :: char where "newline \<equiv> CHR 0x0A"

definition lines_of :: "string \<Rightarrow> string list" where
  "lines_of s = split_on newline s"

text \<open>\<open>s[strings.LastIndexByte(s, c)+1:]\<close>, and all of \<open>s\<close> when \<open>c\<close> is absent.\<close>

definition after_last :: "char \<Rightarrow> string \<Rightarrow> string" where
  "after_last c s = rev (takeWhile (\<lambda>x. x \<noteq> c) (rev s))"

text \<open>
  The byte sequences \<open>strings.TrimSpace\<close> removes: the ASCII white space
  characters and the UTF-8 encodings of the Unicode ones.
\<close>

definition space_seqs :: "string list" where
  "space_seqs =
     [[CHR 0x20], [CHR 0x09], [CHR 0x0A], [CHR 0x0B], [CHR 0x0C], [CHR 0x0D],
      [CHR 0xC2, CHR 0x85], [CHR 0xC2, CHR 0xA0], [CHR 0xE1, CHR 0x9A, CHR 0x80],
      [CHR 0xE2, CHR 0x80, CHR 0x80], [CHR 0xE2, CHR 0x80, CHR 0x81],
      [CHR 0xE2, CHR 0x80, CHR 0x82], [CHR 0xE2, CHR 0x80, CHR 0x83],
      [CHR 0xE2, CHR 0x80, CHR 0x84], [CHR 0xE2, CHR 0x80, CHR 0x85],
      [CHR 0xE2, CHR 0x80, CHR 0x86], [CHR 0xE2, CHR 0x80, CHR 0x87],
      [CHR 0xE2, CHR 0x80, CHR 0x88], [CHR 0xE2, CHR 0x80, CHR 0x89],
      [CHR 0xE2, CHR 0x80, CHR 0x8A], [CHR 0xE2, CHR 0x80, CHR 0xA8],
      [CHR 0xE2, CHR 0x80, CHR 0xA9], [CHR 0xE2, CHR 0x80, CHR 0xAF],
      [CHR 0xE2, CHR 0x81, CHR 0x9F], [CHR 0xE3, CHR 0x80, CHR 0x80]]"

fun strip_one :: "string list \<Rightarrow> string \<Rightarrow> string option" where
  "strip_one [] s = None"
| "strip_one (q # qs) s =
     (if q \<noteq> [] \<and> prefix q s then Some (drop (length q) s) else strip_one qs s)"

lemma strip_one_shorter: "strip_one qs s = Some t \<Longrightarrow> length t < length s"
  by (induction qs s rule: strip_one.induct) (auto split: if_splits simp: prefix_def)

function trim_left_by :: "string list \<Rightarrow> string \<Rightarrow> string" where
  "trim_left_by qs s = (case strip_one qs s of None \<Rightarrow> s | Some t \<Rightarrow> trim_left_by qs t)"
  by pat_completeness auto
termination
  by (relation "measure (\<lambda>(qs, s). length s)") (auto dest: strip_one_shorter)

declare trim_left_by.simps [simp del]

definition TrimSpace :: "string \<Rightarrow> string" where
  "TrimSpace s =
     rev (trim_left_by (map rev space_seqs) (rev (trim_left_by space_seqs s)))"

text \<open>Trimming ends where no sequence can be stripped, and is idempotent.\<close>

lemma trim_left_by_stuck: "strip_one qs (trim_left_by qs s) = None"
proof (induction qs s rule: trim_left_by.induct)
  case (1 qs s)
  then show ?case
    by (cases "strip_one qs s") (simp_all add: trim_left_by.simps [of qs s])
qed

lemma trim_left_by_idem: "trim_left_by qs (trim_left_by qs s) = trim_left_by qs s"
  by (subst trim_left_by.simps) (simp add: trim_left_by_stuck)

lemma strip_one_suffix: "strip_one qs s = Some t \<Longrightarrow> suffix t s"
  by (induction qs s rule: strip_one.induct) (auto split: if_splits simp: suffix_drop)

lemma trim_left_by_suffix: "suffix (trim_left_by qs s) s"
proof (induction qs s rule: trim_left_by.induct)
  case (1 qs s)
  then show ?case
    by (cases "strip_one qs s")
      (auto simp: trim_left_by.simps [of qs s] dest: strip_one_suffix intro: suffix_order.trans)
qed

lemma TrimSpace_Nil [simp]: "TrimSpace [] = []"
  by (simp add: TrimSpace_def trim_left_by.simps [of _ "[]"] space_seqs_def)

lemma length_TrimSpace_le: "length (TrimSpace s) \<le> length s"
  using suffix_length_le [OF trim_left_by_suffix [of space_seqs s]]
    suffix_length_le [OF trim_left_by_suffix
      [of "map rev space_seqs" "rev (trim_left_by space_seqs s)"]]
  by (simp add: TrimSpace_def)

lemma ToLower_append [simp]: "ToLower (s @ t) = ToLower s @ ToLower t"
  by (simp add: ToLower_def)

lemma ToLower_Nil [simp]: "ToLower [] = []"
  by (simp add: ToLower_def)

lemma length_ToLower [simp]: "length (ToLower s) = length s"
  by (simp add: ToLower_def)

lemma lower_char_idem [simp]: "lower_char (lower_char c) = lower_char c"
  by (simp add: lower_char_def Let_def)

lemma ToLower_idem [simp]: "ToLower (ToLower s) = ToLower s"
  by (simp add: ToLower_def)

lemma split_on_nonempty [simp]: "split_on c s \<noteq> []"
  by (induction c s rule: split_on.induct) (auto split: list.splits)

lemma split_on_no_sep: "w \<in> set (split_on c s) \<Longrightarrow> c \<notin> set w"
  by (induction c s arbitrary: w rule: split_on.induct) (auto split: if_splits list.splits)

lemma join_split_on: "join_with [c] (split_on c s) = s"
proof (induction c s rule: split_on.induct)
  case (2 c x xs)
  show ?case
  proof (cases "x = c")
    case True
    then show ?thesis using 2 by (cases "split_on c xs") auto
  next
    case False
    show ?thesis
    proof (cases "split_on c xs")
      case Nil
      then show ?thesis by simp
    next
      case (Cons w ws)
      with False 2 show ?thesis by (cases ws) auto
    qed
  qed
qed simp

lemma split_on_plain: "c \<notin> set a \<Longrightarrow> split_on c a = [a]"
  by (induction a) auto

lemma split_on_append_sep: "split_on c (a @ c # b) = split_on c a @ split_on c b"
  by (induction a) (auto split: list.splits)

lemma split_on_join:
  "ws \<noteq> [] \<Longrightarrow> \<forall>w \<in> set ws. c \<notin> set w \<Longrightarrow> split_on c (join_with [c] ws) = ws"
proof (induction "[c]" ws rule: join_with.induct)
  case (2 w)
  then show ?case by (simp add: split_on_plain)
next
  case (3 w v vs)
  then show ?case by (simp add: split_on_append_sep split_on_plain)
qed simp

lemma TrimPrefix_append [simp]: "TrimPrefix (p @ s) p = s"
  by (simp add: TrimPrefix_def)

lemma after_last_no_sep: "c \<notin> set (after_last c s)"
  by (auto simp: after_last_def dest: set_takeWhileD)

lemma Contains_iff_sublist: "Contains s p \<longleftrightarrow> sublist p s"
  by (induction s p rule: Contains.induct) (auto simp: sublist_Cons_right)

section \<open>Decimal printing\<close>

text \<open>\<open>%d\<close> of a non-negative number, and of an int.\<close>

fun dec_nat :: "nat \<Rightarrow> string" where
  "dec_nat n = (if n < 10 then [char_of (48 + n)]
                else dec_nat (n div 10) @ [char_of (48 + n mod 10)])"

declare dec_nat.simps [simp del]

definition dec_int :: "int \<Rightarrow> string" where
  "dec_int i = (if i < 0 then CHR ''-'' # dec_nat (nat (- i)) else dec_nat (nat i))"

definition is_digit :: "char \<Rightarrow> bool" where
  "is_digit c = (let n = (of_char c :: nat) in 48 \<le> n \<and> n \<le> 57)"

text \<open>The inverse: the value of a digit string.\<close>

definition dec_val :: "string \<Rightarrow> nat" where
  "dec_val s = foldl (\<lambda>a c. a * 10 + (of_char c - 48)) 0 s"

lemma dec_nat_digits: "c \<in> set (dec_nat n) \<Longrightarrow> is_digit c"
proof (induction n rule: dec_nat.induct)
  case (1 n)
  have digit: "k < 10 \<Longrightarrow> is_digit (char_of (48 + k))" for k :: nat
    by (simp add: is_digit_def)
  show ?case
  proof (cases "n < 10")
    case True
    then have "c = char_of (48 + n)" using 1(2) by (subst (asm) dec_nat.simps) simp
    with True show ?thesis using digit by blast
  next
    case False
    then have "c \<in> set (dec_nat (n div 10)) \<or> c = char_of (48 + n mod 10)"
      using 1(2) by (subst (asm) dec_nat.simps) auto
    with False 1(1) digit [of "n mod 10"] show ?thesis by auto
  qed
qed

lemma dec_val_dec_nat: "dec_val (dec_nat n) = n"
proof (induction n rule: dec_nat.induct)
  case (1 n)
  show ?case
  proof (cases "n < 10")
    case True
    then show ?thesis by (subst dec_nat.simps) (simp add: dec_val_def)
  next
    case False
    then have "dec_val (dec_nat n) = dec_val (dec_nat (n div 10)) * 10 + n mod 10"
      by (subst dec_nat.simps) (simp add: dec_val_def)
    with False 1 show ?thesis by simp
  qed
qed

lemma dec_nat_inj: "dec_nat m = dec_nat n \<Longrightarrow> m = n"
  by (metis dec_val_dec_nat)

lemma not_digit_colon [simp]: "\<not> is_digit CHR '':''"
  by (simp add: is_digit_def)

lemma not_digit_newline [simp]: "\<not> is_digit newline"
  by (simp add: is_digit_def)

lemma takeWhile_digits:
  "\<not> is_digit c \<Longrightarrow> takeWhile is_digit (dec_nat n @ c # r) = dec_nat n"
  by (simp add: takeWhile_append2 dec_nat_digits)

text \<open>A number followed by a non-digit can be read back in one way only.\<close>

lemma dec_nat_sep_inj:
  assumes "\<not> is_digit c" and eq: "dec_nat m @ c # r = dec_nat n @ c # r'"
  shows "m = n \<and> r = r'"
proof -
  have "dec_nat m = dec_nat n"
    using arg_cong [OF eq, of "takeWhile is_digit"] assms(1) by (simp add: takeWhile_digits)
  then have "m = n" by (rule dec_nat_inj)
  with eq show ?thesis by simp
qed

lemma dec_int_sep_inj:
  assumes "\<not> is_digit c" and eq: "dec_int i @ c # r = dec_int k @ c # r'"
  shows "i = k \<and> r = r'"
proof -
  have hd: "\<not> (CHR ''-'' # u = dec_nat n @ v)" for u v n
  proof
    assume a: "CHR ''-'' # u = dec_nat n @ v"
    have "dec_nat n \<noteq> []" by (subst dec_nat.simps) simp
    then have "hd (dec_nat n) = CHR ''-''" using a by (cases "dec_nat n") auto
    moreover have "is_digit (hd (dec_nat n))"
      using \<open>dec_nat n \<noteq> []\<close> by (intro dec_nat_digits [of _ n]) simp
    ultimately show False by (simp add: is_digit_def)
  qed
  show ?thesis
    using eq assms(1) hd hd [symmetric]
    by (auto simp: dec_int_def split: if_splits dest: dec_nat_sep_inj)
qed

section \<open>Folding a step function: the event-sourced components\<close>

text \<open>
  A component that is a left fold of a step function over its events.  An
  invariant of the step is an invariant of every fold, and folding is
  incremental: one more event is one more step.
\<close>

locale event_fold =
  fixes step :: "'s \<Rightarrow> 'e \<Rightarrow> 's"
    and start :: 's
    and run :: "'e list \<Rightarrow> 's"
  assumes run_Nil: "run [] = start"
    and run_snoc: "run (es @ [e]) = step (run es) e"
begin

lemma run_foldl: "run es = foldl step start es"
  by (induction es rule: rev_induct) (simp_all add: run_Nil run_snoc)

lemma run_append: "run (es @ es') = foldl step (run es) es'"
  by (simp add: run_foldl)

lemma run_invariant:
  assumes "I start" and "\<And>s e. I s \<Longrightarrow> I (step s e)"
  shows "I (run es)"
  by (induction es rule: rev_induct) (simp_all add: run_Nil run_snoc assms)

text \<open>A property every step establishes holds of every non-empty fold.\<close>

lemma run_establishes:
  assumes "\<And>s e. I (step s e)" and "es \<noteq> []"
  shows "I (run es)"
  using assms(2) by (cases es rule: rev_cases) (simp_all add: run_snoc assms(1))

text \<open>A property that holds at the start and is kept or established by each step of the list.\<close>

lemma run_invariant_on:
  assumes "I start" and "\<And>s e. e \<in> set es \<Longrightarrow> I s \<Longrightarrow> I (step s e)"
  shows "I (run es)"
  using assms(2)
proof (induction es rule: rev_induct)
  case Nil
  show ?case by (simp add: run_Nil assms(1))
next
  case (snoc e es)
  then show ?case by (simp add: run_snoc)
qed

end

section \<open>Orders given as a less function\<close>

text \<open>
  The insertion of an element before the first element it is less than keeps
  equal elements in their order, so inserting from the right is a stable sort,
  as \<open>sort.SliceStable\<close> is.
\<close>

fun insert_by :: "('a \<Rightarrow> 'a \<Rightarrow> bool) \<Rightarrow> 'a \<Rightarrow> 'a list \<Rightarrow> 'a list" where
  "insert_by lt x [] = [x]"
| "insert_by lt x (y # ys) = (if lt y x then y # insert_by lt x ys else x # y # ys)"

fun stable_sort_by :: "('a \<Rightarrow> 'a \<Rightarrow> bool) \<Rightarrow> 'a list \<Rightarrow> 'a list" where
  "stable_sort_by lt [] = []"
| "stable_sort_by lt (x # xs) = insert_by lt x (stable_sort_by lt xs)"

lemma set_insert_by [simp]: "set (insert_by lt x ys) = insert x (set ys)"
  by (induction ys) auto

lemma set_stable_sort_by [simp]: "set (stable_sort_by lt xs) = set xs"
  by (induction xs) auto

lemma stable_sort_by_eq_Nil [simp]: "stable_sort_by lt xs = [] \<longleftrightarrow> xs = []"
  by (metis set_empty set_stable_sort_by)

locale strict_weak_less =
  fixes lt :: "'a \<Rightarrow> 'a \<Rightarrow> bool"
  assumes lt_asym: "lt a b \<Longrightarrow> \<not> lt b a"
    and not_lt_trans: "\<not> lt b a \<Longrightarrow> \<not> lt c b \<Longrightarrow> \<not> lt c a"
begin

lemma lt_irrefl: "\<not> lt a a"
  using lt_asym by blast

lemma insert_by_sorted:
  "sorted_wrt (\<lambda>a b. \<not> lt b a) ys \<Longrightarrow> sorted_wrt (\<lambda>a b. \<not> lt b a) (insert_by lt x ys)"
  by (induction ys) (auto dest: lt_asym not_lt_trans)

lemma stable_sort_sorted: "sorted_wrt (\<lambda>a b. \<not> lt b a) (stable_sort_by lt xs)"
  by (induction xs) (simp_all add: insert_by_sorted)

text \<open>The head of the sorted list is an element nothing is less than.\<close>

lemma stable_sort_head:
  assumes "xs \<noteq> []" and "y \<in> set xs"
  shows "hd (stable_sort_by lt xs) \<in> set xs \<and> \<not> lt y (hd (stable_sort_by lt xs))"
proof -
  obtain h t where ht: "stable_sort_by lt xs = h # t"
    using assms(1) by (cases "stable_sort_by lt xs") auto
  have "y \<in> set (h # t)" using assms(2) by (metis ht set_stable_sort_by)
  moreover have "sorted_wrt (\<lambda>a b. \<not> lt b a) (h # t)"
    using stable_sort_sorted ht by metis
  ultimately have "\<not> lt y h" by (auto simp: lt_irrefl)
  moreover have "h \<in> set xs" by (metis ht list.set_intros(1) set_stable_sort_by)
  ultimately show ?thesis by (simp add: ht)
qed

end

end
