(* ===== verification/Diff_Paths.thy ===== *)
theory Diff_Paths
  imports Prelude
begin

text \<open>
  The structural parsing of a unified diff in \<open>internal/content/content.go\<close>:
  path normalisation (with Go's \<open>path.Clean\<close>), git's C-quoting undone, the
  \<open>diff --git\<close> line, \<open>TouchedPaths\<close> and the added lines.  The diff is
  untrusted data: the lemmas say that no spelling of a path hides it.
\<close>

section \<open>path.Clean and normalizePath\<close>

text \<open>
  \<open>path.Clean\<close>, by segments: empty and \<open>.\<close> segments go, \<open>..\<close> removes the
  segment before it, or stays at the front of a path that is not rooted.  The
  kept segments are in reverse.
\<close>

fun clean_segs :: "bool \<Rightarrow> string list \<Rightarrow> string list \<Rightarrow> string list" where
  "clean_segs rooted out [] = rev out"
| "clean_segs rooted out (w # ws) =
     (if w = [] \<or> w = ''.'' then clean_segs rooted out ws
      else if w = ''..'' then
        (case out of
           v # vs \<Rightarrow> if v = ''..'' then clean_segs rooted (''..'' # out) ws
                     else clean_segs rooted vs ws
         | [] \<Rightarrow> if rooted then clean_segs rooted [] ws
                 else clean_segs rooted [''..''] ws)
      else clean_segs rooted (w # out) ws)"

definition path_Clean :: "string \<Rightarrow> string" where
  "path_Clean p =
     (let rooted = prefix ''/'' p;
          body = join_with ''/'' (clean_segs rooted [] (split_on CHR ''/'' p))
      in if rooted then CHR ''/'' # body else if body = [] then ''.'' else body)"

definition dev_null :: string where
  "dev_null = ''/dev/null''"

definition normalizePath :: "string \<Rightarrow> string" where
  "normalizePath raw =
     (let p = TrimSpace raw in
      if p = dev_null then p
      else
        (let q = TrimPrefix (TrimPrefix (ReplaceChar CHR 0x5C CHR ''/'' p) ''./'') ''/'' in
         if q = [] then []
         else (let c = path_Clean q in if c = ''.'' then [] else c)))"

definition baseName :: "string \<Rightarrow> string" where
  "baseName p = after_last CHR ''/'' p"

definition hasAnyBase :: "string \<Rightarrow> string list \<Rightarrow> bool" where
  "hasAnyBase p names = list_ex (\<lambda>n. baseName p = n \<or> p = n) names"

section \<open>git's C-quoting\<close>

definition is_octal :: "char \<Rightarrow> bool" where
  "is_octal c = (48 \<le> (of_char c :: nat) \<and> (of_char c :: nat) \<le> 55)"

definition octal_val :: "char \<Rightarrow> nat" where
  "octal_val c = of_char c - 48"

definition backslash :: char where
  "backslash = CHR 0x5C"

text \<open>The single-letter escapes, in the order of the source's switch.\<close>

definition escape_char :: "char \<Rightarrow> char option" where
  "escape_char e =
     map_of [(CHR ''a'', CHR 0x07), (CHR ''b'', CHR 0x08), (CHR ''t'', CHR 0x09),
             (CHR ''n'', CHR 0x0A), (CHR ''v'', CHR 0x0B), (CHR ''f'', CHR 0x0C),
             (CHR ''r'', CHR 0x0D), (CHR 0x22, CHR 0x22), (CHR 0x5C, CHR 0x5C)] e"

text \<open>Up to \<open>k\<close> more octal digits; the value and the rest of the input.\<close>

fun octal_more :: "nat \<Rightarrow> nat \<Rightarrow> string \<Rightarrow> nat \<times> string" where
  "octal_more (Suc k) v (c # cs) =
     (if is_octal c then octal_more k (v * 8 + octal_val c) cs else (v, c # cs))"
| "octal_more _ v cs = (v, cs)"

lemma octal_more_length: "length (snd (octal_more k v cs)) \<le> length cs"
  by (induction k v cs rule: octal_more.induct) auto

function unquote_body :: "string \<Rightarrow> string" where
  "unquote_body [] = []"
| "unquote_body (c # cs) =
     (if c \<noteq> backslash then c # unquote_body cs
      else (case cs of
              [] \<Rightarrow> [backslash]
            | e # r \<Rightarrow>
                (case escape_char e of
                   Some x \<Rightarrow> x # unquote_body r
                 | None \<Rightarrow>
                     if is_octal e
                     then char_of (fst (octal_more 2 (octal_val e) r))
                            # unquote_body (snd (octal_more 2 (octal_val e) r))
                     else e # unquote_body r)))"
  by pat_completeness auto
termination
  by (relation "measure length") (auto intro: le_less_trans [OF octal_more_length])

definition unquoteGitPath :: "string \<Rightarrow> string" where
  "unquoteGitPath p =
     (if length p < 2 \<or> hd p \<noteq> CHR 0x22 \<or> last p \<noteq> CHR 0x22 then p
      else unquote_body (butlast (tl p)))"

definition stripDiffPathPrefix :: "string \<Rightarrow> string" where
  "stripDiffPathPrefix raw =
     (let p = unquoteGitPath (TrimSpace (takeWhile (\<lambda>c. c \<noteq> CHR 0x09) raw)) in
      if p = dev_null then p else TrimPrefix (TrimPrefix p ''a/'') ''b/'')"

section \<open>The diff --git line\<close>

definition symmetricDiffGitPath :: "string \<Rightarrow> string" where
  "symmetricDiffGitPath rest =
     (if \<not> prefix ''a/'' rest then []
      else
        (let n = int (length rest) - 5 in
         if n < 2 \<or> n mod 2 \<noteq> 0 then []
         else (let p = take (nat n div 2) (drop 2 rest) in
               if p \<noteq> [] \<and> rest = ''a/'' @ p @ '' b/'' @ p then p else [])))"

definition parseDiffGit :: "string \<Rightarrow> string \<times> string" where
  "parseDiffGit line =
     (let rest = TrimPrefix line ''diff --git ''; p = symmetricDiffGitPath rest in
      if p \<noteq> [] then (p, p)
      else if CHR '' '' \<in> set rest
      then (stripDiffPathPrefix (takeWhile (\<lambda>c. c \<noteq> CHR '' '') rest),
            stripDiffPathPrefix (tl (dropWhile (\<lambda>c. c \<noteq> CHR '' '') rest)))
      else ([], []))"

section \<open>TouchedPaths\<close>

text \<open>The \<open>add\<close> closure: a set kept as the list of first occurrences.\<close>

definition add_path :: "string list \<Rightarrow> string \<Rightarrow> string list" where
  "add_path out p =
     (let np = normalizePath p in
      if np = [] \<or> np = dev_null \<or> np \<in> set out then out else out @ [np])"

text \<open>The paths one line offers to \<open>add\<close>, in the order of the source's switch.\<close>

definition line_paths :: "string \<Rightarrow> string list" where
  "line_paths line =
     (if prefix ''diff --git '' line then
        (let (a, b) = parseDiffGit line in b # (if b = [] then [a] else []))
      else if prefix ''+++ '' line then [stripDiffPathPrefix (TrimSpace (drop 4 line))]
      else if prefix ''--- '' line then []
      else if prefix ''rename to '' line then [unquoteGitPath (TrimSpace (drop 10 line))]
      else if prefix ''rename from '' line then [unquoteGitPath (TrimSpace (drop 12 line))]
      else [])"

fun scanDeletes :: "string list \<Rightarrow> string list" where
  "scanDeletes (l # m # ls) =
     (if prefix ''--- '' l \<and> prefix ''+++ '' m then
        (let from = stripDiffPathPrefix (TrimSpace (drop 4 l));
             to = stripDiffPathPrefix (TrimSpace (drop 4 m))
         in if to = dev_null \<and> from \<noteq> dev_null then [from] else [])
      else []) @ scanDeletes (m # ls)"
| "scanDeletes _ = []"

definition TouchedPaths :: "string \<Rightarrow> string list" where
  "TouchedPaths diff =
     sort (foldl add_path []
             (concat (map line_paths (lines_of diff)) @ scanDeletes (lines_of diff)))"

definition addedLines :: "string \<Rightarrow> string list" where
  "addedLines diff =
     map tl (filter (\<lambda>l. prefix ''+'' l \<and> \<not> prefix ''+++'' l) (lines_of diff))"

section \<open>Facts about cleaning\<close>

text \<open>A kept segment is neither empty nor a dot, and dot-dots stand only at the front.\<close>

definition clean_ok :: "bool \<Rightarrow> string list \<Rightarrow> bool" where
  "clean_ok rooted ws \<longleftrightarrow>
     (\<exists>k us. ws = replicate k ''..'' @ us \<and> (rooted \<longrightarrow> k = 0)
        \<and> (\<forall>u \<in> set us. u \<noteq> [] \<and> u \<noteq> ''.'' \<and> u \<noteq> ''..''))"

lemma clean_okI [inv_intros]:
  "ws = replicate k ''..'' @ us \<Longrightarrow> (rooted \<longrightarrow> k = 0) \<Longrightarrow>
   (\<forall>u \<in> set us. u \<noteq> [] \<and> u \<noteq> ''.'' \<and> u \<noteq> ''..'') \<Longrightarrow> clean_ok rooted ws"
  unfolding clean_ok_def by blast

lemma clean_ok_Nil: "clean_ok rooted []"
  by (rule clean_okI [of _ 0 "[]"]) simp_all

lemma clean_ok_rooted: "clean_ok True ws \<Longrightarrow> ''..'' \<notin> set ws"
  unfolding clean_ok_def by fastforce

lemma clean_ok_push:
  assumes "clean_ok rooted ws" and "w \<noteq> []" "w \<noteq> ''.''" "w \<noteq> ''..''"
  shows "clean_ok rooted (ws @ [w])"
proof -
  obtain k us where "ws = replicate k ''..'' @ us" "rooted \<longrightarrow> k = 0"
    "\<forall>u \<in> set us. u \<noteq> [] \<and> u \<noteq> ''.'' \<and> u \<noteq> ''..''"
    using assms(1) unfolding clean_ok_def by blast
  then show ?thesis using assms(2-4) by (intro clean_okI [of _ k "us @ [w]"]) auto
qed

lemma clean_ok_pop:
  assumes "clean_ok rooted (ws @ [w])"
  shows "clean_ok rooted ws"
proof -
  obtain k us where ku: "ws @ [w] = replicate k ''..'' @ us" "rooted \<longrightarrow> k = 0"
    "\<forall>u \<in> set us. u \<noteq> [] \<and> u \<noteq> ''.'' \<and> u \<noteq> ''..''"
    using assms unfolding clean_ok_def by blast
  show ?thesis
  proof (cases us rule: rev_cases)
    case Nil
    with ku(1) obtain j where "k = Suc j" by (cases k) auto
    with ku(1) Nil have "ws = replicate j ''..'' @ []"
      by (simp add: replicate_append_same [symmetric])
    with ku(2) \<open>k = Suc j\<close> show ?thesis by (intro clean_okI [of _ j "[]"]) auto
  next
    case (snoc vs v)
    with ku show ?thesis by (intro clean_okI [of _ k vs]) auto
  qed
qed

lemma clean_ok_dots:
  assumes "clean_ok False (ws @ [''..''])" 
  shows "clean_ok False (ws @ [''..''] @ [''..''])"
proof -
  obtain k us where ku: "ws @ [''..''] = replicate k ''..'' @ us"
    "\<forall>u \<in> set us. u \<noteq> [] \<and> u \<noteq> ''.'' \<and> u \<noteq> ''..''"
    using assms unfolding clean_ok_def by blast
  have "us = []"
  proof (rule ccontr)
    assume "us \<noteq> []"
    then have "last us = ''..''" using ku(1) by (metis last_append last_snoc)
    with ku(2) \<open>us \<noteq> []\<close> show False by (metis last_in_set)
  qed
  with ku(1) have "ws @ [''..''] @ [''..''] = replicate (Suc k) ''..'' @ []"
    by (simp add: replicate_append_same [symmetric])
  then show ?thesis by (intro clean_okI [of _ "Suc k" "[]"]) auto
qed

lemma clean_segs_ok: "clean_ok rooted (rev out) \<Longrightarrow> clean_ok rooted (clean_segs rooted out ws)"
proof (induction rooted out ws rule: clean_segs.induct)
  case (2 rooted out w ws)
  show ?case
  proof (cases "w = [] \<or> w = ''.''")
    case True
    with 2 show ?thesis by simp
  next
    case plain: False
    show ?thesis
    proof (cases "w = ''..''")
      case False
      with plain 2 show ?thesis by (simp add: clean_ok_push)
    next
      case dots: True
      show ?thesis
      proof (cases out)
        case Nil
        have d: "clean_ok False [''..'']" by (rule clean_okI [of _ 1 "[]"]) simp_all
        show ?thesis
        proof (cases rooted)
          case True
          with Nil dots 2 show ?thesis by (simp add: clean_ok_Nil)
        next
          case False
          with Nil dots 2 d show ?thesis by simp
        qed
      next
        case (Cons v vs)
        have pop: "clean_ok rooted (rev vs)"
          using "2.prems" Cons clean_ok_pop by simp
        have front: "v = ''..'' \<Longrightarrow> \<not> rooted"
          using "2.prems" Cons clean_ok_rooted [of "rev vs @ [v]"] by (cases rooted) auto
        show ?thesis
        proof (cases "v = ''..''")
          case True
          with front have "\<not> rooted" by simp
          then have "clean_ok rooted (rev (''..'' # out))"
            using "2.prems" Cons True clean_ok_dots by simp
          with True dots Cons 2 show ?thesis by simp
        next
          case False
          with dots Cons 2 pop show ?thesis by simp
        qed
      qed
    qed
  qed
qed simp

text \<open>Traversal through a plain segment is undone: \<open>x/..\<close> leaves nothing behind.\<close>

lemma clean_segs_traversal:
  assumes "w \<noteq> []" "w \<noteq> ''.''" "w \<noteq> ''..''"
  shows "clean_segs rooted out (w # ''..'' # ws) = clean_segs rooted out ws"
  using assms by simp

lemma clean_segs_no_slash:
  "\<forall>w \<in> set out \<union> set ws. CHR ''/'' \<notin> set w \<Longrightarrow>
   \<forall>w \<in> set (clean_segs rooted out ws). CHR ''/'' \<notin> set w"
  by (induction rooted out ws rule: clean_segs.induct) (auto split: list.splits if_splits)

text \<open>
  Beside the properties: a normalised path cannot hide a segment behind traversal.  Its
  segments are plain (not empty, not a dot, not a dot-dot) but for leading
  dot-dots, which only a path that is not rooted keeps.
\<close>

theorem normalized_no_traversal:
  assumes q: "normalizePath raw = q" and "q \<notin> {[], dev_null, ''/''}"
  shows "clean_ok (prefix ''/'' q) (split_on CHR ''/'' (TrimPrefix q ''/''))"
proof -
  let ?p = "TrimPrefix (TrimPrefix (ReplaceChar CHR 0x5C CHR ''/'' (TrimSpace raw)) ''./'') ''/''"
  let ?rooted = "prefix ''/'' ?p"
  let ?ws = "clean_segs ?rooted [] (split_on CHR ''/'' ?p)"
  have qp: "q = path_Clean ?p"
    using q assms(2) by (auto simp: normalizePath_def Let_def split: if_splits)
  have ok: "clean_ok ?rooted ?ws"
    by (rule clean_segs_ok) (simp add: clean_ok_Nil)
  have ns: "\<forall>w \<in> set ?ws. CHR ''/'' \<notin> set w"
    by (rule clean_segs_no_slash) (auto dest: split_on_no_sep)
  show ?thesis
  proof (cases ?rooted)
    case True
    with qp have "q = CHR ''/'' # join_with ''/'' ?ws" by (simp add: path_Clean_def Let_def)
    moreover from this assms(2) have "?ws \<noteq> []" by auto
    ultimately show ?thesis using ok ns True split_on_join [of ?ws "CHR ''/''"]
      by (simp add: TrimPrefix_def)
  next
    case False
    define ws where "ws = ?ws"
    have q': "q = (if join_with ''/'' ws = [] then ''.'' else join_with ''/'' ws)"
      using qp False by (simp add: path_Clean_def Let_def ws_def)
    have "q \<noteq> ''.''"
      using q assms(2) by (auto simp: normalizePath_def Let_def split: if_splits)
    with q' have j: "q = join_with ''/'' ws" and ne: "ws \<noteq> []"
      by (auto split: if_splits)
    have sp: "split_on CHR ''/'' q = ws"
      unfolding j using ne ns by (intro split_on_join) (simp_all add: ws_def)
    have "hd ws \<noteq> []"
    proof -
      obtain k us where "ws = replicate k ''..'' @ us" "\<forall>u \<in> set us. u \<noteq> []"
        using ok by (auto simp: clean_ok_def ws_def)
      with ne show ?thesis by (cases k; cases us) auto
    qed
    moreover have "hd (split_on CHR ''/'' (CHR ''/'' # r)) = []" for r
      by simp
    ultimately have "\<not> prefix ''/'' q"
      using sp by (metis append_Cons append_Nil prefix_def)
    then show ?thesis using ok False sp by (simp add: TrimPrefix_def ws_def)
  qed
qed

theorem normalized_no_traversal_witness:
  "clean_ok False [''.github'', ''workflows'', ''ci.yml'']"
proof -
  have n: "normalizePath ''pkg/../.github/./workflows/ci.yml'' = ''.github/workflows/ci.yml''"
    by code_simp
  show ?thesis
    using normalized_no_traversal [OF n] by (simp add: dev_null_def TrimPrefix_def)
qed

text \<open>
  Beside the properties: cleaning undoes traversal.  A detour \<open>x/../\<close> through a plain
  segment in front of a path that is not rooted leaves no trace in the cleaned
  path.
\<close>

theorem clean_undoes_detour:
  assumes "CHR ''/'' \<notin> set x" and "x \<notin> {[], ''.'', ''..''}" and "\<not> prefix ''/'' b"
  shows "path_Clean (x @ ''/../'' @ b) = path_Clean b"
proof -
  have "split_on CHR ''/'' (x @ CHR ''/'' # (''..'' @ CHR ''/'' # b)) = x # ''..'' # split_on CHR ''/'' b"
    using assms(1) by (simp only: split_on_append_sep) (simp add: split_on_plain)
  moreover have "\<not> prefix ''/'' (x @ ''/../'' @ b)"
    using assms(1,2) by (cases x) auto
  ultimately show ?thesis
    using assms(2,3) by (simp add: path_Clean_def Let_def)
qed

theorem clean_undoes_detour_witness:
  "path_Clean (''pkg'' @ ''/../'' @ ''go.mod'') = path_Clean ''go.mod''"
  by (rule clean_undoes_detour) simp_all

section \<open>Facts about the diff headers\<close>

lemma symmetric_roundtrip_aux:
  assumes "p \<noteq> []"
  shows "parseDiffGit (''diff --git a/'' @ p @ '' b/'' @ p) = (p, p)"
proof -
  let ?r = "''a/'' @ p @ '' b/'' @ p"
  have "nat (int (length ?r) - 5) div 2 = length p" by simp
  moreover have "\<not> int (length ?r) - 5 < 2"
    using assms by (cases p) auto
  moreover have "(int (length ?r) - 5) mod 2 = 0" by simp
  ultimately have "symmetricDiffGitPath ?r = p"
    using assms by (simp add: symmetricDiffGitPath_def Let_def)
  moreover have "TrimPrefix (''diff --git a/'' @ p @ '' b/'' @ p) ''diff --git '' = ?r"
    by (simp add: TrimPrefix_def)
  ultimately show ?thesis using assms by (simp add: parseDiffGit_def Let_def)
qed

text \<open>
  Beside the properties: the \<open>diff --git\<close> line of a diff that is no rename is read back
  exactly, whatever bytes (spaces and \<open> b/\<close> included) its path holds.
\<close>

theorem symmetric_roundtrip:
  assumes "p \<noteq> []"
  shows "parseDiffGit (''diff --git a/'' @ p @ '' b/'' @ p) = (p, p)"
  using assms by (rule symmetric_roundtrip_aux)

theorem symmetric_roundtrip_witness:
  "parseDiffGit (''diff --git a/'' @ ''.github/workflows/deploy v2.yml'' @ '' b/'' @ ''.github/workflows/deploy v2.yml'')
     = (''.github/workflows/deploy v2.yml'', ''.github/workflows/deploy v2.yml'')"
  by (rule symmetric_roundtrip) simp

lemma set_add_path:
  "set (foldl add_path acc ps) =
     set acc \<union> {np. \<exists>p \<in> set ps. np = normalizePath p \<and> np \<noteq> [] \<and> np \<noteq> dev_null}"
  by (induction ps arbitrary: acc) (auto simp: add_path_def Let_def)

lemma distinct_add_path: "distinct acc \<Longrightarrow> distinct (foldl add_path acc ps)"
  by (induction ps arbitrary: acc) (auto simp: add_path_def Let_def)

lemma set_TouchedPaths:
  "np \<in> set (TouchedPaths diff) \<longleftrightarrow> np \<noteq> [] \<and> np \<noteq> dev_null \<and>
     (\<exists>p. normalizePath p = np \<and>
        (p \<in> set (scanDeletes (lines_of diff)) \<or> (\<exists>l \<in> set (lines_of diff). p \<in> set (line_paths l))))"
  by (auto simp: TouchedPaths_def set_add_path)

lemma distinct_TouchedPaths: "distinct (TouchedPaths diff)"
  by (simp add: TouchedPaths_def distinct_add_path)

lemma sorted_TouchedPaths: "sorted (TouchedPaths diff)"
  by (simp add: TouchedPaths_def)

lemma header_path_touched:
  assumes "''diff --git a/'' @ p @ '' b/'' @ p \<in> set (lines_of diff)" and "p \<noteq> []"
    and "normalizePath p \<notin> {[], dev_null}"
  shows "normalizePath p \<in> set (TouchedPaths diff)"
proof -
  have "prefix ''diff --git '' (''diff --git a/'' @ p @ '' b/'' @ p)" by simp
  then have "p \<in> set (line_paths (''diff --git a/'' @ p @ '' b/'' @ p))"
    using symmetric_roundtrip_aux [OF assms(2)] by (simp only: line_paths_def if_True Let_def) simp
  with assms show ?thesis by (auto simp: set_TouchedPaths)
qed

text \<open>
  Beside the properties: a header alone is enough to touch a path.  A diff with a line
  \<open>diff --git a/P b/P\<close> (a mode change has no other header) touches the
  normalised \<open>P\<close>, and the touched paths are sorted and without duplicates.
\<close>

theorem git_header_touches:
  assumes "''diff --git a/'' @ p @ '' b/'' @ p \<in> set (lines_of diff)" and "p \<noteq> []"
    and "normalizePath p \<notin> {[], dev_null}"
  shows "normalizePath p \<in> set (TouchedPaths diff) \<and> sorted (TouchedPaths diff)
     \<and> distinct (TouchedPaths diff)"
  using header_path_touched [OF assms] by (simp add: sorted_TouchedPaths distinct_TouchedPaths)

theorem git_header_touches_witness:
  "''.github/workflows/deploy v2.yml'' \<in> set (TouchedPaths
     (''diff --git a/.github/workflows/deploy v2.yml b/.github/workflows/deploy v2.yml'' @ [newline]
      @ ''old mode 100644''))"
proof -
  have n: "normalizePath ''.github/workflows/deploy v2.yml'' = ''.github/workflows/deploy v2.yml''"
    by code_simp
  show ?thesis
    using git_header_touches [of "''.github/workflows/deploy v2.yml''"
      "''diff --git a/.github/workflows/deploy v2.yml b/.github/workflows/deploy v2.yml'' @ [newline] @ ''old mode 100644''"]
    by (simp add: n lines_of_def dev_null_def)
qed

section \<open>C-quoting is undone\<close>

text \<open>
  git's own quoting (\<open>quote_c_style\<close>), the reference encoder: the named escapes,
  three octal digits for the other control bytes and for bytes from 127 up.
\<close>

definition octal_digit :: "nat \<Rightarrow> char" where
  "octal_digit d = char_of (48 + d mod 8)"

definition git_quote_char :: "char \<Rightarrow> string" where
  "git_quote_char c =
     (case map_of [(CHR 0x07, CHR ''a''), (CHR 0x08, CHR ''b''), (CHR 0x09, CHR ''t''),
                   (CHR 0x0A, CHR ''n''), (CHR 0x0B, CHR ''v''), (CHR 0x0C, CHR ''f''),
                   (CHR 0x0D, CHR ''r''), (CHR 0x22, CHR 0x22), (CHR 0x5C, CHR 0x5C)] c of
        Some e \<Rightarrow> [backslash, e]
      | None \<Rightarrow>
          (let n = (of_char c :: nat) in
           if n < 32 \<or> 127 \<le> n
           then [backslash, octal_digit (n div 64), octal_digit (n div 8), octal_digit n]
           else [c]))"

definition git_quote :: "string \<Rightarrow> string" where
  "git_quote s = CHR 0x22 # concat (map git_quote_char s) @ [CHR 0x22]"

lemma octal_digit_facts:
  "is_octal (octal_digit d)" "octal_val (octal_digit d) = d mod 8" "escape_char (octal_digit d) = None"
proof -
  have "d mod 8 \<in> set [0..<8]" by simp
  moreover have "\<forall>k \<in> set [0..<8]. is_octal (char_of (48 + k)) \<and> octal_val (char_of (48 + k)) = k
      \<and> escape_char (char_of (48 + k)) = None"
    by code_simp
  ultimately show "is_octal (octal_digit d)" "octal_val (octal_digit d) = d mod 8"
    "escape_char (octal_digit d) = None"
    unfolding octal_digit_def by blast+
qed

lemma octal_more_two:
  "is_octal x \<Longrightarrow> is_octal y \<Longrightarrow>
     octal_more 2 v (x # y # r) = ((v * 8 + octal_val x) * 8 + octal_val y, r)"
  by (simp add: numeral_2_eq_2)

lemma unquote_git_quote_char: "unquote_body (git_quote_char c @ r) = c # unquote_body r"
proof (cases "map_of [(CHR 0x07, CHR ''a''), (CHR 0x08, CHR ''b''), (CHR 0x09, CHR ''t''),
                   (CHR 0x0A, CHR ''n''), (CHR 0x0B, CHR ''v''), (CHR 0x0C, CHR ''f''),
                   (CHR 0x0D, CHR ''r''), (CHR 0x22, CHR 0x22), (CHR 0x5C, CHR 0x5C)] c")
  case (Some e)
  then show ?thesis
    by (auto simp: git_quote_char_def escape_char_def backslash_def split: if_splits)
next
  case None
  let ?n = "of_char c :: nat"
  have val: "(?n div 64 mod 8 * 8 + ?n div 8 mod 8) * 8 + ?n mod 8 = ?n"
  proof -
    have "?n < 8 * 64" using nat_of_char_less_256 [of c] by linarith
    then have "?n div 64 < 8" by (rule less_mult_imp_div_less)
    then have "?n div 64 mod 8 * 8 + ?n div 8 mod 8 = ?n div 8 div 8 * 8 + ?n div 8 mod 8"
      by (simp add: div_mult2_eq [symmetric])
    also have "\<dots> = ?n div 8" by (rule div_mult_mod_eq)
    finally show ?thesis by (simp only: div_mult_mod_eq)
  qed
  show ?thesis
  proof (cases "?n < 32 \<or> 127 \<le> ?n")
    case True
    with None have q: "git_quote_char c
        = [backslash, octal_digit (?n div 64), octal_digit (?n div 8), octal_digit ?n]"
      by (simp add: git_quote_char_def Let_def)
    have "octal_more 2 (?n div 64 mod 8) (octal_digit (?n div 8) # octal_digit ?n # r) = (?n, r)"
      by (simp only: octal_more_two octal_digit_facts val simp_thms)
    then show ?thesis by (simp add: q octal_digit_facts)
  next
    case False
    with None have "git_quote_char c = [c]" by (simp add: git_quote_char_def Let_def)
    moreover have "c \<noteq> backslash" using None by (auto simp: backslash_def)
    ultimately show ?thesis by simp
  qed
qed

text \<open>
  Property C40: unquoting inverts git's C-quoting on every path, non-ASCII bytes
  included, so a quoted path is classified by its true bytes.
\<close>

theorem unquote_git_quote: "unquoteGitPath (git_quote s) = s"
proof -
  have "unquote_body (concat (map git_quote_char s)) = s"
    by (induction s) (simp_all add: unquote_git_quote_char)
  then show ?thesis by (simp add: unquoteGitPath_def git_quote_def butlast_append)
qed

end
