(* ===== verification/Regex.thy ===== *)
theory Regex
  imports Prelude
begin

text \<open>
  The part of Go's \<open>regexp\<close> the content gate uses, over ASCII bytes: a
  backtracking matcher that lists the end positions of a match in the order of
  leftmost-first (Perl) priority, with submatch positions.  The declarative
  meaning \<open>matches\<close> is proved equivalent to it, so a fact about an expression
  can be argued without running it.
\<close>

text \<open>
  \<open>Cls rs\<close> is one byte in one of the ranges, \<open>ClsI\<close> the same under \<open>(?i)\<close>
  (ASCII case folding); \<open>WordB\<close> is \<open>\b\<close>, \<open>Bol\<close> and \<open>Eol\<close> are \<open>^\<close> and \<open>$\<close>
  without \<open>(?m)\<close>, \<open>Cap\<close> a numbered group.
\<close>

datatype regex =
    REmpty
  | Cls "(nat \<times> nat) list"
  | ClsI "(nat \<times> nat) list"
  | RSeq regex regex
  | RAlt regex regex
  | RStar regex
  | Cap nat regex
  | WordB
  | Bol
  | Eol

type_synonym caps = "(nat \<times> nat \<times> nat) list"

definition in_ranges :: "(nat \<times> nat) list \<Rightarrow> nat \<Rightarrow> bool" where
  "in_ranges rs n = list_ex (\<lambda>(a, b). a \<le> n \<and> n \<le> b) rs"

definition in_class :: "(nat \<times> nat) list \<Rightarrow> char \<Rightarrow> bool" where
  "in_class rs c = in_ranges rs (of_char c)"

definition upper_char :: "char \<Rightarrow> char" where
  "upper_char c = (let n = (of_char c :: nat) in if 97 \<le> n \<and> n \<le> 122 then char_of (n - 32) else c)"

definition in_class_fold :: "(nat \<times> nat) list \<Rightarrow> char \<Rightarrow> bool" where
  "in_class_fold rs c = (in_class rs c \<or> in_class rs (lower_char c) \<or> in_class rs (upper_char c))"

definition word_ranges :: "(nat \<times> nat) list" where
  "word_ranges = [(48, 57), (65, 90), (95, 95), (97, 122)]"

definition is_word_at :: "string \<Rightarrow> nat \<Rightarrow> bool" where
  "is_word_at s i = (i < length s \<and> in_class word_ranges (s ! i))"

definition at_word_boundary :: "string \<Rightarrow> nat \<Rightarrow> bool" where
  "at_word_boundary s i = ((0 < i \<and> is_word_at s (i - 1)) \<noteq> is_word_at s i)"

text \<open>
  Greedy iteration: every pass must consume, so the remaining length of the
  input bounds the number of passes.
\<close>

fun star_run :: "(nat \<times> caps \<Rightarrow> (nat \<times> caps) list) \<Rightarrow> nat \<Rightarrow> nat \<times> caps \<Rightarrow> (nat \<times> caps) list" where
  "star_run f 0 p = [p]"
| "star_run f (Suc n) p =
     concat (map (star_run f n) (filter (\<lambda>q. fst p < fst q) (f p))) @ [p]"

primrec runs :: "regex \<Rightarrow> string \<Rightarrow> nat \<times> caps \<Rightarrow> (nat \<times> caps) list" where
  "runs REmpty s p = [p]"
| "runs (Cls rs) s p =
     (if fst p < length s \<and> in_class rs (s ! fst p) then [(Suc (fst p), snd p)] else [])"
| "runs (ClsI rs) s p =
     (if fst p < length s \<and> in_class_fold rs (s ! fst p) then [(Suc (fst p), snd p)] else [])"
| "runs (RSeq a b) s p = concat (map (runs b s) (runs a s p))"
| "runs (RAlt a b) s p = runs a s p @ runs b s p"
| "runs (RStar a) s p = star_run (runs a s) (length s - fst p) p"
| "runs (Cap k a) s p = map (\<lambda>q. (fst q, (k, fst p, fst q) # snd q)) (runs a s p)"
| "runs WordB s p = (if at_word_boundary s (fst p) then [p] else [])"
| "runs Bol s p = (if fst p = 0 then [p] else [])"
| "runs Eol s p = (if fst p = length s then [p] else [])"

text \<open>\<open>MatchString\<close> and \<open>FindStringSubmatch\<close>: the leftmost start, the preferred end.\<close>

definition MatchString :: "regex \<Rightarrow> string \<Rightarrow> bool" where
  "MatchString r s = list_ex (\<lambda>i. runs r s (i, []) \<noteq> []) [0..<Suc (length s)]"

fun first_match :: "regex \<Rightarrow> string \<Rightarrow> nat list \<Rightarrow> (nat \<times> nat \<times> caps) option" where
  "first_match r s [] = None"
| "first_match r s (i # is) =
     (case runs r s (i, []) of [] \<Rightarrow> first_match r s is | q # _ \<Rightarrow> Some (i, q))"

definition FindSubmatch :: "regex \<Rightarrow> string \<Rightarrow> (nat \<times> nat \<times> caps) option" where
  "FindSubmatch r s = first_match r s [0..<Suc (length s)]"

definition group_text :: "string \<Rightarrow> caps \<Rightarrow> nat \<Rightarrow> string" where
  "group_text s cs k =
     (case map_of cs k of None \<Rightarrow> [] | Some (i, j) \<Rightarrow> take (j - i) (drop i s))"

section \<open>Shorthands\<close>

definition code :: "char \<Rightarrow> nat" where
  "code c = of_char c"

definition lit :: "string \<Rightarrow> regex" where
  "lit w = foldr (\<lambda>c r. RSeq (Cls [(code c, code c)]) r) w REmpty"

definition liti :: "string \<Rightarrow> regex" where
  "liti w = foldr (\<lambda>c r. RSeq (ClsI [(code c, code c)]) r) w REmpty"

fun times_re :: "nat \<Rightarrow> regex \<Rightarrow> regex" where
  "times_re 0 r = REmpty"
| "times_re (Suc n) r = RSeq r (times_re n r)"

definition at_least :: "nat \<Rightarrow> regex \<Rightarrow> regex" where
  "at_least n r = RSeq (times_re n r) (RStar r)"

definition opt :: "regex \<Rightarrow> regex" where
  "opt r = RAlt r REmpty"

fun seqs :: "regex list \<Rightarrow> regex" where
  "seqs [] = REmpty"
| "seqs (r # rs) = RSeq r (seqs rs)"

fun alts :: "regex list \<Rightarrow> regex" where
  "alts [] = Cls []"
| "alts [r] = r"
| "alts (r # rs) = RAlt r (alts rs)"

section \<open>The declarative meaning\<close>

inductive matches :: "string \<Rightarrow> regex \<Rightarrow> nat \<Rightarrow> nat \<Rightarrow> bool" for s where
  m_empty: "matches s REmpty i i"
| m_cls: "i < length s \<Longrightarrow> in_class rs (s ! i) \<Longrightarrow> matches s (Cls rs) i (Suc i)"
| m_clsi: "i < length s \<Longrightarrow> in_class_fold rs (s ! i) \<Longrightarrow> matches s (ClsI rs) i (Suc i)"
| m_seq: "matches s a i j \<Longrightarrow> matches s b j k \<Longrightarrow> matches s (RSeq a b) i k"
| m_alt1: "matches s a i j \<Longrightarrow> matches s (RAlt a b) i j"
| m_alt2: "matches s b i j \<Longrightarrow> matches s (RAlt a b) i j"
| m_star0: "matches s (RStar a) i i"
| m_star1: "matches s a i j \<Longrightarrow> i < j \<Longrightarrow> matches s (RStar a) j k \<Longrightarrow> matches s (RStar a) i k"
| m_cap: "matches s a i j \<Longrightarrow> matches s (Cap n a) i j"
| m_wordb: "at_word_boundary s i \<Longrightarrow> matches s WordB i i"
| m_bol: "matches s Bol 0 0"
| m_eol: "matches s Eol (length s) (length s)"

inductive_cases matches_EmptyE [elim!]: "matches s REmpty i j"
inductive_cases matches_ClsE [elim!]: "matches s (Cls rs) i j"
inductive_cases matches_ClsIE [elim!]: "matches s (ClsI rs) i j"
inductive_cases matches_SeqE [elim!]: "matches s (RSeq a b) i j"
inductive_cases matches_AltE [elim!]: "matches s (RAlt a b) i j"
inductive_cases matches_StarE: "matches s (RStar a) i j"
inductive_cases matches_CapE [elim!]: "matches s (Cap n a) i j"
inductive_cases matches_WordBE [elim!]: "matches s WordB i j"
inductive_cases matches_BolE [elim!]: "matches s Bol i j"
inductive_cases matches_EolE [elim!]: "matches s Eol i j"

lemmas matches_intros = matches.intros

lemma star_run_sound:
  assumes "\<And>p q. q \<in> set (f p) \<Longrightarrow> matches s a (fst p) (fst q)"
  shows "q \<in> set (star_run f n p) \<Longrightarrow> matches s (RStar a) (fst p) (fst q)"
proof (induction n arbitrary: p q)
  case 0
  then show ?case by (simp add: m_star0)
next
  case (Suc n)
  show ?case
  proof (cases "q = p")
    case True
    then show ?thesis by (simp add: m_star0)
  next
    case False
    with Suc.prems obtain u where u: "u \<in> set (f p)" "fst p < fst u" "q \<in> set (star_run f n u)"
      by auto
    show ?thesis by (rule m_star1 [OF assms [OF u(1)] u(2) Suc.IH [OF u(3)]])
  qed
qed

lemma runs_sound: "q \<in> set (runs r s p) \<Longrightarrow> matches s r (fst p) (fst q)"
proof (induction r arbitrary: p q)
  case (RStar r)
  then show ?case using star_run_sound [of "runs r s" s r] by simp
next
  case Bol
  then show ?case using m_bol by (auto split: if_splits)
next
  case Eol
  then show ?case using m_eol by (auto split: if_splits)
next
  case (RSeq a b)
  then obtain u where u: "u \<in> set (runs a s p)" "q \<in> set (runs b s u)" by auto
  show ?case by (rule m_seq [OF RSeq.IH(1) [OF u(1)] RSeq.IH(2) [OF u(2)]])
next
  case (RAlt a b)
  from RAlt.prems consider "q \<in> set (runs a s p)" | "q \<in> set (runs b s p)" by auto
  then show ?case using RAlt.IH by cases (blast intro: m_alt1 m_alt2)+
next
  case (Cap k a)
  then obtain u where u: "u \<in> set (runs a s p)" "fst q = fst u" by auto
  show ?case using m_cap [OF Cap.IH [OF u(1)]] u(2) by simp
qed (auto intro: m_empty m_cls m_clsi m_wordb split: if_splits)

lemma matches_bounds: "matches s r i j \<Longrightarrow> i \<le> length s \<Longrightarrow> i \<le> j \<and> j \<le> length s"
  by (induction rule: matches.induct) auto

text \<open>Whatever the submatches collected so far, the matcher finds every declarative match.\<close>

lemma matches_start_fuel:
  assumes "matches s (RStar a) i k"
    and comp: "\<And>i j cs. matches s a i j \<Longrightarrow> i \<le> length s \<Longrightarrow> \<exists>cs'. (j, cs') \<in> set (runs a s (i, cs))"
    and "i \<le> length s" and "length s - i \<le> n"
  shows "\<exists>cs'. (k, cs') \<in> set (star_run (runs a s) n (i, cs))"
  using assms(1,3,4)
proof (induction n arbitrary: i cs)
  case 0
  then have i: "i = length s" by simp
  from "0.prems"(1) have "i \<le> k \<and> k \<le> length s"
    using matches_bounds "0.prems"(2) by blast
  with i have "k = i" by simp
  then show ?case by auto
next
  case (Suc n)
  from Suc.prems(1) consider (stop) "k = i"
    | (pass) j where "matches s a i j" "i < j" "matches s (RStar a) j k"
    by (auto elim: matches_StarE)
  then show ?case
  proof cases
    case stop
    then have "(k, cs) \<in> set (star_run (runs a s) (Suc n) (i, cs))" by simp
    then show ?thesis ..
  next
    case (pass j)
    note 2 = pass
    have j: "j \<le> length s" using matches_bounds [OF 2(1) Suc.prems(2)] by simp
    obtain cs1 where c1: "(j, cs1) \<in> set (runs a s (i, cs))"
      using comp [OF 2(1) Suc.prems(2)] by blast
    have "length s - j \<le> n" using 2(2) Suc.prems(3) j by linarith
    then obtain cs2 where "(k, cs2) \<in> set (star_run (runs a s) n (j, cs1))"
      using Suc.IH [OF 2(3) j] by blast
    then have "(k, cs2) \<in> set (star_run (runs a s) (Suc n) (i, cs))"
      using c1 2(2) by auto
    then show ?thesis ..
  qed
qed

lemma runs_complete:
  "matches s r i j \<Longrightarrow> i \<le> length s \<Longrightarrow> \<exists>cs'. (j, cs') \<in> set (runs r s (i, cs))"
proof (induction r arbitrary: i j cs)
  case (RSeq a b)
  then obtain k where k: "matches s a i k" "matches s b k j" by blast
  obtain c1 where c1: "(k, c1) \<in> set (runs a s (i, cs))" using RSeq.IH(1) k(1) RSeq.prems(2) by blast
  have "k \<le> length s" using matches_bounds k(1) RSeq.prems(2) by blast
  then obtain c2 where c2: "(j, c2) \<in> set (runs b s (k, c1))" using RSeq.IH(2) k(2) by blast
  have "(j, c2) \<in> set (runs (RSeq a b) s (i, cs))" using c1 c2 by auto
  then show ?case ..
next
  case (RStar a)
  then show ?case
    using matches_start_fuel [of s a i j "length s - i" cs] by auto
next
  case (RAlt a b)
  from RAlt.prems(1) show ?case
  proof (rule matches_AltE)
    assume "matches s a i j"
    then show ?thesis using RAlt.IH(1) [of i j cs] RAlt.prems(2) by auto
  next
    assume "matches s b i j"
    then show ?thesis using RAlt.IH(2) [of i j cs] RAlt.prems(2) by auto
  qed
next
  case (Cap n a)
  then have "matches s a i j" by blast
  then obtain c where "(j, c) \<in> set (runs a s (i, cs))" using Cap.IH Cap.prems(2) by blast
  then have "(j, (n, i, j) # c) \<in> set (runs (Cap n a) s (i, cs))" by force
  then show ?case ..
qed (auto split: if_splits)

lemma runs_iff_matches:
  "i \<le> length s \<Longrightarrow> runs r s (i, cs) \<noteq> [] \<longleftrightarrow> (\<exists>j. matches s r i j)"
proof
  assume "runs r s (i, cs) \<noteq> []"
  then obtain q where "q \<in> set (runs r s (i, cs))" by (cases "runs r s (i, cs)") auto
  then show "\<exists>j. matches s r i j" using runs_sound by fastforce
next
  assume "i \<le> length s" "\<exists>j. matches s r i j"
  then obtain j cs' where "(j, cs') \<in> set (runs r s (i, cs))" using runs_complete by blast
  then show "runs r s (i, cs) \<noteq> []" by auto
qed

text \<open>The matcher decides the declarative meaning.\<close>

lemma MatchString_iff: "MatchString r s \<longleftrightarrow> (\<exists>i j. i \<le> length s \<and> matches s r i j)"
proof -
  have "MatchString r s \<longleftrightarrow> (\<exists>i \<le> length s. runs r s (i, []) \<noteq> [])"
    by (auto simp: MatchString_def list_ex_iff less_Suc_eq_le simp del: upt_Suc)
  then show ?thesis using runs_iff_matches by blast
qed

lemma MatchStringI: "matches s r i j \<Longrightarrow> i \<le> length s \<Longrightarrow> MatchString r s"
  using MatchString_iff by blast

section \<open>Facts about the shorthands\<close>

lemma matches_lit:
  assumes "prefix w (drop i s)" and "i \<le> length s"
  shows "matches s (lit w) i (i + length w)"
  using assms
proof (induction w arbitrary: i)
  case Nil
  then show ?case by (simp add: lit_def m_empty)
next
  case (Cons c w)
  have i: "i < length s" using Cons.prems by (cases "i = length s") auto
  then have "drop i s = s ! i # drop (Suc i) s" by (simp add: Cons_nth_drop_Suc)
  with Cons.prems(1) have c: "s ! i = c" and pre: "prefix w (drop (Suc i) s)" by auto
  have "matches s (Cls [(code c, code c)]) i (Suc i)"
    using i c by (intro m_cls) (simp_all add: in_class_def in_ranges_def code_def)
  moreover have "matches s (lit w) (Suc i) (Suc i + length w)"
    using Cons.IH [OF pre] i by simp
  ultimately have "matches s (RSeq (Cls [(code c, code c)]) (lit w)) i (Suc i + length w)"
    by (rule m_seq)
  then show ?case by (simp add: lit_def)
qed

lemma matches_times_cls:
  assumes "\<forall>k < n. in_class rs (s ! (i + k))" and "i + n \<le> length s"
  shows "matches s (times_re n (Cls rs)) i (i + n)"
  using assms
proof (induction n arbitrary: i)
  case 0
  then show ?case by (simp add: m_empty)
next
  case (Suc n)
  have "matches s (Cls rs) i (Suc i)"
    using Suc.prems by (intro m_cls) auto
  moreover have "\<forall>k < n. in_class rs (s ! (Suc i + k))"
    using Suc.prems(1) by (auto dest: spec [of _ "Suc _"])
  then have "matches s (times_re n (Cls rs)) (Suc i) (Suc i + n)"
    using Suc.IH [of "Suc i"] Suc.prems(2) by simp
  ultimately have "matches s (RSeq (Cls rs) (times_re n (Cls rs))) i (Suc i + n)"
    by (rule m_seq)
  then show ?case by simp
qed

end
