(* ===== verification/Secret_Scan.thy ===== *)
theory Secret_Scan
  imports Complex_Main Regex
begin

text \<open>
  The secret scan of the content gate (\<open>internal/content/content.go\<close>,
  \<open>secretPatterns\<close> to \<open>shannonEntropy\<close>): the known credential shapes as
  regular expressions, the assigned-secret heuristic with its submatches, and
  the entropy.  The entropy is over the reals where Go computes in float64; the
  threshold test has an exact integer form, proved equivalent, by which it runs.
\<close>

section \<open>The credential shapes\<close>

abbreviation rg :: "char \<Rightarrow> char \<Rightarrow> nat \<times> nat" where
  "rg a b \<equiv> (code a, code b)"

abbreviation ch :: "char \<Rightarrow> nat \<times> nat" where
  "ch a \<equiv> (code a, code a)"

definition alnum :: "(nat \<times> nat) list" where
  "alnum = [rg CHR ''A'' CHR ''Z'', rg CHR ''a'' CHR ''z'', rg CHR ''0'' CHR ''9'']"

definition alnum_us_dash :: "(nat \<times> nat) list" where
  "alnum_us_dash = alnum @ [ch CHR ''_'', ch CHR ''-'']"

definition token_chars :: "(nat \<times> nat) list" where
  "token_chars = alnum @ [ch CHR ''/'', ch CHR ''+'', ch CHR ''_'', ch CHR ''-'']"

definition space_cls :: regex where
  "space_cls = Cls [(9, 10), (12, 13), (32, 32)]"

definition upper_digit :: "(nat \<times> nat) list" where
  "upper_digit = [rg CHR ''0'' CHR ''9'', rg CHR ''A'' CHR ''Z'']"

definition quote_cls :: regex where
  "quote_cls = Cls [(34, 34), (39, 39)]"

definition assign_cls :: regex where
  "assign_cls = Cls [ch CHR ''='', ch CHR '':'']"

definition aws_key_re :: regex where
  "aws_key_re = seqs [lit ''AKIA'', times_re 16 (Cls upper_digit)]"

definition secretPatterns :: "regex list" where
  "secretPatterns =
     [aws_key_re,
      seqs [liti ''aws_secret_access_key'', RStar space_cls, assign_cls, RStar space_cls,
            at_least 20 (Cls (alnum @ [ch CHR ''/'', ch CHR ''+'']))],
      seqs [lit ''-----BEGIN '', RStar (Cls [rg CHR ''A'' CHR ''Z'', ch CHR '' '']),
            lit ''PRIVATE KEY-----''],
      seqs [lit ''gh'', Cls [ch CHR ''p'', ch CHR ''o'', ch CHR ''u'', ch CHR ''s'', ch CHR ''r''],
            lit ''_'', at_least 30 (Cls alnum)],
      seqs [lit ''github_pat_'', at_least 30 (Cls (alnum @ [ch CHR ''_'']))],
      seqs [lit ''xox'', Cls [ch CHR ''b'', ch CHR ''a'', ch CHR ''p'', ch CHR ''r'', ch CHR ''s''],
            lit ''-'', at_least 10 (Cls (alnum @ [ch CHR ''-'']))],
      seqs [lit ''sk-ant-'', at_least 20 (Cls alnum_us_dash)],
      seqs [WordB, lit ''sk-'', opt (Cap 1 (lit ''proj-'')), at_least 20 (Cls alnum)],
      seqs [WordB, Cls [ch CHR ''r'', ch CHR ''s''], lit ''k_live_'', at_least 20 (Cls alnum)],
      seqs [lit ''AIza'', times_re 35 (Cls alnum_us_dash)],
      seqs [lit ''SG.'', at_least 20 (Cls alnum_us_dash), lit ''.'', at_least 20 (Cls alnum_us_dash)],
      seqs [lit ''ya29.'', at_least 20 (Cls alnum_us_dash)],
      seqs [Cap 1 (alts [seqs [liti ''api'', opt (ClsI [ch CHR ''_'', ch CHR ''-'']), liti ''key''],
                         liti ''secret'', liti ''token'', liti ''password'']),
            RStar space_cls, assign_cls, RStar space_cls, opt quote_cls,
            at_least 24 (ClsI token_chars)]]"

definition assignRe :: regex where
  "assignRe =
     seqs [Cap 1 (alts [liti ''secret'', liti ''token'', liti ''key'', liti ''password'',
                        liti ''passwd'', liti ''credential'']),
           RStar (Cls word_ranges), RStar space_cls, Cap 2 assign_cls, RStar space_cls,
           Cap 3 (opt quote_cls), Cap 4 (at_least 20 (ClsI token_chars))]"

definition camelOrPascalIdent :: regex where
  "camelOrPascalIdent =
     seqs [Bol, Cls [rg CHR ''A'' CHR ''Z'', rg CHR ''a'' CHR ''z''], RStar (Cls alnum), Eol]"

section \<open>Case transitions and entropy\<close>

definition is_lower :: "char \<Rightarrow> bool" where
  "is_lower c = (97 \<le> (of_char c :: nat) \<and> (of_char c :: nat) \<le> 122)"

definition is_upper :: "char \<Rightarrow> bool" where
  "is_upper c = (65 \<le> (of_char c :: nat) \<and> (of_char c :: nat) \<le> 90)"

fun hasCaseTransition :: "string \<Rightarrow> bool" where
  "hasCaseTransition (a # b # r) =
     ((is_lower a \<and> is_upper b) \<or> (is_upper a \<and> is_lower b) \<or> hasCaseTransition (b # r))"
| "hasCaseTransition _ = False"

definition freq :: "string \<Rightarrow> nat \<Rightarrow> nat" where
  "freq s b = count_list (map of_char s) b"

definition shannonEntropy :: "string \<Rightarrow> real" where
  "shannonEntropy s =
     (if s = [] then 0
      else \<Sum>b\<leftarrow>[0..<256]. if freq s b = 0 then 0
             else - (real (freq s b) / real (length s)) * log 2 (real (freq s b) / real (length s)))"

text \<open>The exact form of "at least 3.5 bits per character".\<close>

definition entropy_test :: "string \<Rightarrow> bool" where
  "entropy_test s =
     (let n = length s; cs = filter (\<lambda>c. c \<noteq> 0) (map (freq s) [0..<256])
      in s \<noteq> [] \<and> 2 ^ (7 * n) * prod_list (map (\<lambda>c. c ^ (2 * c)) cs) \<le> n ^ (2 * n))"

definition high_entropy :: "string \<Rightarrow> bool" where
  "high_entropy s \<longleftrightarrow> 3.5 \<le> shannonEntropy s"

lemma sum_freq: "(\<Sum>b\<leftarrow>[0..<256]. freq s b) = length s"
proof -
  have "(\<Sum>b\<in>{0..<256::nat}. count_list (map of_char s) b) = length (map of_char s :: nat list)"
    by (rule sum_count_set) (auto simp: image_subset_iff)
  then show ?thesis by (simp add: freq_def sum_list_distinct_conv_sum_set)
qed

lemma entropy_scaled:
  assumes "s \<noteq> []"
  shows "real (length s) * shannonEntropy s =
     real (length s) * log 2 (real (length s))
     - (\<Sum>b\<leftarrow>[0..<256]. if freq s b = 0 then 0 else real (freq s b) * log 2 (real (freq s b)))"
proof -
  let ?n = "real (length s)"
  have n: "?n > 0" using assms by simp
  have summand: "?n * (if freq s b = 0 then 0 else - (real (freq s b) / ?n) * log 2 (real (freq s b) / ?n))
      = real (freq s b) * log 2 ?n - (if freq s b = 0 then 0 else real (freq s b) * log 2 (real (freq s b)))"
    for b using n by (simp add: log_divide field_simps)
  have "?n * shannonEntropy s =
      (\<Sum>b\<leftarrow>[0..<256]. real (freq s b) * log 2 ?n
          - (if freq s b = 0 then 0 else real (freq s b) * log 2 (real (freq s b))))"
    using assms by (simp add: shannonEntropy_def sum_list_const_mult [symmetric] summand)
  also have "\<dots> = (\<Sum>b\<leftarrow>[0..<256]. real (freq s b) * log 2 ?n)
          - (\<Sum>b\<leftarrow>[0..<256]. if freq s b = 0 then 0 else real (freq s b) * log 2 (real (freq s b)))"
    by (rule sum_list_subtractf)
  also have "(\<Sum>b\<leftarrow>[0..<256]. real (freq s b) * log 2 ?n) = ?n * log 2 ?n"
  proof -
    have "(\<Sum>b\<leftarrow>xs. real (freq s b)) = real (\<Sum>b\<leftarrow>xs. freq s b)" for xs
      by (induction xs) simp_all
    then show ?thesis using sum_freq [of s] by (simp only: sum_list_mult_const)
  qed
  finally show ?thesis .
qed

lemma log_prod_list:
  "(\<forall>c \<in> set cs. 0 < c) \<Longrightarrow>
     log 2 (real (prod_list (map (\<lambda>c. c ^ (2 * c)) cs))) = (\<Sum>c\<leftarrow>cs. real (2 * c) * log 2 (real c))
     \<and> 0 < prod_list (map (\<lambda>c. c ^ (2 * c)) cs)"
  by (induction cs) (auto simp: log_mult log_nat_power)

lemma sum_list_filter_pos:
  "(\<Sum>c\<leftarrow>filter (\<lambda>c. c \<noteq> 0) (map f xs). g c) = (\<Sum>b\<leftarrow>xs. if f b = (0::nat) then 0 else (g (f b) :: real))"
  by (induction xs) auto

text \<open>
  Beside the properties: the float threshold of the assigned-secret heuristic has an exact
  integer form.  For every string, the Shannon entropy is at least 3.5 bits per
  character iff \<open>2^(7n) * \<Prod> c^(2c) \<le> n^(2n)\<close>, where \<open>n\<close> is the length and \<open>c\<close>
  ranges over the byte counts that are not zero.
\<close>

theorem high_entropy_exact: "high_entropy s \<longleftrightarrow> entropy_test s"
proof (cases "s = []")
  case True
  then show ?thesis by (simp add: high_entropy_def shannonEntropy_def entropy_test_def)
next
  case False
  let ?n = "length s"
  let ?cs = "filter (\<lambda>c. c \<noteq> 0) (map (freq s) [0..<256])"
  let ?P = "prod_list (map (\<lambda>c. c ^ (2 * c)) ?cs)"
  let ?S = "\<Sum>b\<leftarrow>[0..<256]. if freq s b = 0 then 0 else real (freq s b) * log 2 (real (freq s b))"
  have n: "0 < real ?n" using False by simp
  have P: "log 2 (real ?P) = (\<Sum>c\<leftarrow>?cs. real (2 * c) * log 2 (real c))" and P0: "0 < ?P"
    using log_prod_list [of ?cs] by auto
  have "(\<Sum>c\<leftarrow>?cs. real (2 * c) * log 2 (real c)) = 2 * ?S"
    unfolding sum_list_filter_pos sum_list_const_mult [symmetric] by (simp add: if_distrib algebra_simps cong: if_cong)
  with P have P2: "log 2 (real ?P) = 2 * ?S" by simp
  have "high_entropy s \<longleftrightarrow> 7 * real ?n \<le> 2 * (real ?n * shannonEntropy s)"
    using n by (simp add: high_entropy_def field_simps)
  also have "\<dots> \<longleftrightarrow> 7 * real ?n + 2 * ?S \<le> 2 * real ?n * log 2 (real ?n)"
    unfolding entropy_scaled [OF False] by (simp add: algebra_simps)
  also have "\<dots> \<longleftrightarrow> log 2 (real (2 ^ (7 * ?n) * ?P)) \<le> log 2 (real (?n ^ (2 * ?n)))"
    using P0 P2 n by (simp add: log_mult log_nat_power)
  also have "\<dots> \<longleftrightarrow> real (2 ^ (7 * ?n) * ?P) \<le> real (?n ^ (2 * ?n))"
  proof (rule log_le_cancel_iff)
    show "0 < real (2 ^ (7 * ?n) * ?P)" using P0 by (simp only: of_nat_0_less_iff) simp
    show "0 < real (?n ^ (2 * ?n))" using n by simp
  qed simp
  also have "\<dots> \<longleftrightarrow> entropy_test s"
    using False by (simp only: of_nat_le_iff entropy_test_def Let_def) simp
  finally show ?thesis .
qed

section \<open>The scan of one line\<close>

definition looksLikeAssignedSecret :: "string \<Rightarrow> bool" where
  "looksLikeAssignedSecret line =
     (case FindSubmatch assignRe line of
        None \<Rightarrow> False
      | Some (i, j, cs) \<Rightarrow>
          (let quote = group_text line cs 3; val = group_text line cs 4 in
           if quote = [] \<and> MatchString camelOrPascalIdent val \<and> hasCaseTransition val then False
           else high_entropy val))"

definition scanSecret :: "string \<Rightarrow> string" where
  "scanSecret line =
     (if list_ex (\<lambda>re. MatchString re line) secretPatterns then ''known credential pattern''
      else if looksLikeAssignedSecret line then ''high-entropy token''
      else '''')"

lemma scanSecret_pattern:
  assumes "re \<in> set secretPatterns" and "MatchString re line"
  shows "scanSecret line = ''known credential pattern''"
  using assms by (auto simp: scanSecret_def list_ex_iff)

text \<open>
  Beside the properties: an AWS access key id cannot hide in a line.  Whatever stands
  before and after it, a line with \<open>AKIA\<close> followed by sixteen upper-case letters
  or digits is reported.
\<close>

theorem aws_key_reported:
  assumes "length k = 16" and "\<forall>c \<in> set k. in_class upper_digit c"
  shows "scanSecret (pre @ ''AKIA'' @ k @ post) = ''known credential pattern''"
proof (rule scanSecret_pattern)
  let ?s = "pre @ ''AKIA'' @ k @ post"
  show "aws_key_re \<in> set secretPatterns" by (simp add: secretPatterns_def)
  have "matches ?s (lit ''AKIA'') (length pre) (length pre + length ''AKIA'')"
    by (rule matches_lit) simp_all
  moreover have "matches ?s (times_re 16 (Cls upper_digit)) (length pre + length ''AKIA'')
      (length pre + length ''AKIA'' + 16)"
    by (rule matches_times_cls) (use assms in \<open>auto simp: nth_append\<close>)
  ultimately have "matches ?s aws_key_re (length pre) (length pre + length ''AKIA'' + 16)"
    unfolding aws_key_re_def seqs.simps by (rule m_seq [OF _ m_seq [OF _ m_empty]])
  then show "MatchString aws_key_re ?s" by (rule MatchStringI) simp
qed

theorem aws_key_reported_witness:
  "scanSecret (''key := '' @ ''AKIA'' @ ''0123456789ABCDEF'' @ '';'') = ''known credential pattern''"
  by (rule aws_key_reported) (simp_all add: upper_digit_def in_class_def in_ranges_def code_def)

end
