(* ===== verification/Content_Gate.thy ===== *)
theory Content_Gate
  imports Diff_Paths Secret_Scan
begin

text \<open>
  The content-integrity gate (\<open>internal/content/content.go\<close>): the path
  denylist, the declared against the actual blast radius, the static checks, and
  \<open>CheckWithPolicy\<close> that combines them.  The main lemma characterises an
  eligible diff; the rest says what no policy can switch off.
\<close>

section \<open>Data\<close>

record BlastRadius =
  brPaths :: "string list"
  brScope :: string

record Patch =
  pDiff :: string
  pBaseSHA :: string
  pDeclared :: BlastRadius
  pAppliesClean :: bool
  pAppliesCleanKnown :: bool

record ContentResult =
  rDenylistClear :: bool
  rBlastRadiusConsistent :: bool
  rStaticChecksPass :: bool
  rDenylistHits :: "string list"
  rUndeclaredPaths :: "string list"
  rStaticFailures :: "string list"

definition Eligible :: "ContentResult \<Rightarrow> bool" where
  "Eligible r = (rDenylistClear r \<and> rBlastRadiusConsistent r \<and> rStaticChecksPass r)"

definition Tampered :: "ContentResult \<Rightarrow> bool" where
  "Tampered r = (\<not> rDenylistClear r \<or> \<not> rBlastRadiusConsistent r)"

record Limits =
  lMaxDiffBytes :: int
  lMaxChangedFiles :: int

definition DefaultLimits :: Limits where
  "DefaultLimits = \<lparr>lMaxDiffBytes = 1048576, lMaxChangedFiles = 200\<rparr>"

definition resolve_limits :: "Limits \<Rightarrow> Limits" where
  "resolve_limits l =
     (let l1 = (if lMaxDiffBytes l = 0 then l\<lparr>lMaxDiffBytes := lMaxDiffBytes DefaultLimits\<rparr> else l) in
      if lMaxChangedFiles l1 = 0 then l1\<lparr>lMaxChangedFiles := lMaxChangedFiles DefaultLimits\<rparr> else l1)"

record ContentPolicy =
  cpLimits :: Limits
  cpExtraDenyPrefixes :: "string list"
  cpAllowOwnSource :: bool

section \<open>The path denylist\<close>

definition m_ci_workflow :: "string \<Rightarrow> bool" where
  "m_ci_workflow p =
     (prefix ''.github/workflows/'' p \<or> prefix ''.github/actions/'' p \<or> p = ''.github/workflows''
      \<or> hasAnyBase p [''.gitlab-ci.yml'', ''azure-pipelines.yml'', ''.circleci/config.yml'']
      \<or> prefix ''.circleci/'' p)"

definition lockfile_names :: "string list" where
  "lockfile_names =
     [''package-lock.json'', ''yarn.lock'', ''pnpm-lock.yaml'', ''npm-shrinkwrap.json'',
      ''gemfile.lock'', ''poetry.lock'', ''pipfile.lock'', ''go.sum'', ''cargo.lock'',
      ''composer.lock'', ''go.mod'', ''cargo.toml'', ''package.json'', ''pyproject.toml'', ''gemfile'']"

definition lifecycle_hooks :: "string list" where
  "lifecycle_hooks =
     [''preinstall'', ''postinstall'', ''preuninstall'', ''postuninstall'', ''prepare'', ''prepublish'']"

definition m_lockfile :: "string \<Rightarrow> bool" where
  "m_lockfile p =
     (let base = baseName p in
      base \<in> set lockfile_names \<or> suffix ''.lock'' base
      \<or> list_ex (\<lambda>h. base = h \<or> base = h @ ''.js'' \<or> base = h @ ''.sh'') lifecycle_hooks)"

definition m_dockerfile :: "string \<Rightarrow> bool" where
  "m_dockerfile p =
     (let base = baseName p in
      base = ''dockerfile'' \<or> prefix ''dockerfile.'' base \<or> suffix ''.dockerfile'' base
      \<or> base = ''.dockerignore'' \<or> prefix ''.devcontainer/'' p \<or> base = ''devcontainer.json'')"

definition m_secret :: "string \<Rightarrow> bool" where
  "m_secret p =
     (let base = baseName p; low = ToLower p in
      (base = ''.env'' \<or> suffix ''.env'' base)
      \<or> (prefix ''.env.'' base \<and>
         TrimPrefix base ''.env.'' \<notin> {''example'', ''sample'', ''template'', ''dist''})
      \<or> suffix ''.pem'' base \<or> suffix ''.key'' base \<or> suffix ''.pfx'' base
      \<or> suffix ''.p12'' base \<or> suffix ''.keystore'' base \<or> suffix ''.jks'' base
      \<or> base \<in> {''id_rsa'', ''id_ed25519'', ''id_dsa'', ''id_ecdsa'', ''.npmrc'', ''.netrc'', ''.pypirc''}
      \<or> Contains low ''/secrets/'' \<or> prefix ''secrets/'' low
      \<or> Contains low ''/credentials'' \<or> prefix ''credentials'' low)"

definition m_flowbee_source :: "string \<Rightarrow> bool" where
  "m_flowbee_source p =
     (prefix ''internal/'' p \<or> prefix ''cmd/flowbee/'' p \<or> prefix ''tools/'' p \<or> prefix ''flows/'' p
      \<or> baseName p = ''flowbee.yaml'' \<or> p = ''internal/content/content.go'')"

definition denyMatchers :: "(string \<times> (string \<Rightarrow> bool)) list" where
  "denyMatchers =
     [(''ci_workflow'', m_ci_workflow),
      (''lockfile_or_lifecycle'', m_lockfile),
      (''dockerfile_or_devcontainer'', m_dockerfile),
      (''secret_material'', m_secret),
      (''flowbee_source'', m_flowbee_source)]"

text \<open>A path equals a prefix or lies beneath it as a directory.\<close>

definition under_prefix :: "string \<Rightarrow> string \<Rightarrow> bool" where
  "under_prefix np path =
     (np \<noteq> [] \<and> (path = np \<or> prefix (if suffix ''/'' np then np else np @ ''/'') path))"

definition matchesAnyPrefix :: "string \<Rightarrow> string list \<Rightarrow> bool" where
  "matchesAnyPrefix path pres =
     list_ex (\<lambda>raw. under_prefix (ToLower (normalizePath raw)) path) pres"

definition hit_name :: "string \<Rightarrow> string \<Rightarrow> string" where
  "hit_name cls np = cls @ '':'' @ np"

definition path_hits :: "string list \<Rightarrow> string \<Rightarrow> string list" where
  "path_hits extra p =
     (let np = normalizePath p; lp = ToLower np in
      if np = [] then []
      else map (\<lambda>(n, m). hit_name n np) (filter (\<lambda>(n, m). m lp) denyMatchers)
           @ (if matchesAnyPrefix lp extra then [hit_name ''configured'' np] else []))"

definition add_hit :: "string list \<Rightarrow> string \<Rightarrow> string list" where
  "add_hit out h = (if h \<in> set out then out else out @ [h])"

definition denylistHitsWith :: "string list \<Rightarrow> string list \<Rightarrow> string list" where
  "denylistHitsWith touched extra = sort (foldl add_hit [] (concat (map (path_hits extra) touched)))"

definition DenylistHits :: "string list \<Rightarrow> string list" where
  "DenylistHits touched = denylistHitsWith touched []"

definition withoutClass :: "string list \<Rightarrow> string \<Rightarrow> string list" where
  "withoutClass hits cls = filter (\<lambda>h. \<not> prefix (cls @ '':'') h) hits"

definition IsDenylisted :: "string \<Rightarrow> bool" where
  "IsDenylisted p =
     (let np = normalizePath p in
      np \<noteq> [] \<and> list_ex (\<lambda>(n, m). m (ToLower np)) denyMatchers)"

section \<open>Blast radius\<close>

definition declarationCovers :: "string \<Rightarrow> BlastRadius \<Rightarrow> bool" where
  "declarationCovers path decl =
     list_ex (\<lambda>d. under_prefix (normalizePath d) path) (brPaths decl)"

fun dedup :: "string list \<Rightarrow> string list" where
  "dedup (a # b # r) = (if a = b then dedup (a # r) else a # dedup (b # r))"
| "dedup xs = xs"

definition undeclaredPaths :: "string list \<Rightarrow> BlastRadius \<Rightarrow> string list" where
  "undeclaredPaths touched decl =
     dedup (sort (filter (\<lambda>nt. nt \<noteq> [] \<and> \<not> declarationCovers nt decl) (map normalizePath touched)))"

section \<open>Static checks\<close>

definition isConflictMarker :: "string \<Rightarrow> bool" where
  "isConflictMarker line =
     list_ex (\<lambda>c. 7 \<le> length line \<and> take 7 line = replicate 7 c
                  \<and> (length line = 7 \<or> line ! 7 = CHR '' ''))
       [CHR ''<'', CHR ''>'', CHR ''|'']"

definition introducesBinary :: "string \<Rightarrow> bool" where
  "introducesBinary diff =
     (Contains diff ''GIT binary patch''
      \<or> (Contains diff ''Binary files '' \<and> Contains diff '' differ''))"

definition staticChecks :: "Patch \<Rightarrow> string list \<Rightarrow> Limits \<Rightarrow> string list" where
  "staticChecks p touched lims =
     (if pAppliesCleanKnown p \<and> \<not> pAppliesClean p
        then [''patch does not apply cleanly at base_sha''] else [])
     @ (if TrimSpace (pDiff p) \<noteq> [] \<and> touched = []
        then [''diff parses to no touched paths (malformed unified diff)''] else [])
     @ (case find (\<lambda>l. scanSecret l \<noteq> []) (addedLines (pDiff p)) of
          Some l \<Rightarrow> [''secret-scan: '' @ scanSecret l] | None \<Rightarrow> [])
     @ (case find isConflictMarker (addedLines (pDiff p)) of
          Some l \<Rightarrow> [''unresolved git conflict marker in the diff''] | None \<Rightarrow> [])
     @ (if introducesBinary (pDiff p) then [''binary blob outside the allowlist''] else [])
     @ (if int (length (pDiff p)) > lMaxDiffBytes lims then [''diff exceeds the size bound''] else [])
     @ (if int (length touched) > lMaxChangedFiles lims then [''diff touches too many files''] else [])"

section \<open>The gate\<close>

definition CheckWithPolicy :: "Patch \<Rightarrow> ContentPolicy \<Rightarrow> ContentResult" where
  "CheckWithPolicy p pol =
     (let lims = resolve_limits (cpLimits pol);
          touched = TouchedPaths (pDiff p);
          hits0 = denylistHitsWith touched (cpExtraDenyPrefixes pol);
          hits = (if cpAllowOwnSource pol then withoutClass hits0 ''flowbee_source'' else hits0);
          undeclared = undeclaredPaths touched (pDeclared p);
          failures = staticChecks p touched lims
      in \<lparr>rDenylistClear = (hits = []), rBlastRadiusConsistent = (undeclared = []),
          rStaticChecksPass = (failures = []), rDenylistHits = hits,
          rUndeclaredPaths = undeclared, rStaticFailures = failures\<rparr>)"

definition Check :: "Patch \<Rightarrow> Limits \<Rightarrow> ContentResult" where
  "Check p lims =
     CheckWithPolicy p \<lparr>cpLimits = lims, cpExtraDenyPrefixes = [], cpAllowOwnSource = False\<rparr>"

section \<open>Facts\<close>

lemma set_add_hit: "set (foldl add_hit acc hs) = set acc \<union> set hs"
  by (induction hs arbitrary: acc) (auto simp: add_hit_def)

lemma set_denylistHits:
  "set (denylistHitsWith touched extra) = (\<Union>p \<in> set touched. set (path_hits extra p))"
  by (simp add: denylistHitsWith_def set_add_hit)

lemma path_hits_empty:
  "path_hits extra p = [] \<longleftrightarrow> \<not> IsDenylisted p
     \<and> (normalizePath p \<noteq> [] \<longrightarrow> \<not> matchesAnyPrefix (ToLower (normalizePath p)) extra)"
proof -
  have "filter (\<lambda>(n, m). m lp) denyMatchers = [] \<longleftrightarrow> \<not> list_ex (\<lambda>(n, m). m lp) denyMatchers" for lp
    by (simp only: filter_empty_conv list_ex_iff) blast
  then show ?thesis by (simp add: path_hits_def Let_def IsDenylisted_def)
qed

lemma hits_empty_iff:
  "denylistHitsWith touched extra = [] \<longleftrightarrow>
     (\<forall>p \<in> set touched. \<not> IsDenylisted p
        \<and> (normalizePath p \<noteq> [] \<longrightarrow> \<not> matchesAnyPrefix (ToLower (normalizePath p)) extra))"
proof -
  have "denylistHitsWith touched extra = [] \<longleftrightarrow> set (denylistHitsWith touched extra) = {}"
    by (simp only: set_empty)
  also have "\<dots> \<longleftrightarrow> (\<forall>p \<in> set touched. path_hits extra p = [])"
    unfolding set_denylistHits by simp
  finally show ?thesis by (simp only: path_hits_empty)
qed

definition own_source_only :: "string \<Rightarrow> bool" where
  "own_source_only p =
     (let lp = ToLower (normalizePath p) in
      \<not> m_ci_workflow lp \<and> \<not> m_lockfile lp \<and> \<not> m_dockerfile lp \<and> \<not> m_secret lp)"

lemma ball_map_filter:
  "(\<forall>h \<in> set (map f (filter Q xs)). P h) \<longleftrightarrow> (\<forall>x \<in> set xs. Q x \<longrightarrow> P (f x))"
  by auto

lemma path_hits_without:
  "filter (\<lambda>h. \<not> prefix ''flowbee_source:'' h) (path_hits extra p) = [] \<longleftrightarrow>
     normalizePath p = [] \<or> own_source_only p \<and> \<not> matchesAnyPrefix (ToLower (normalizePath p)) extra"
proof -
  have own: "\<not> prefix ''flowbee_source:'' (hit_name n np) \<longleftrightarrow> n \<noteq> ''flowbee_source''"
    if "n \<in> {''ci_workflow'', ''lockfile_or_lifecycle'', ''dockerfile_or_devcontainer'',
          ''secret_material'', ''flowbee_source'', ''configured''}" for n np
    using that by (elim insertE emptyE) (simp_all add: hit_name_def)
  have "(\<forall>h \<in> set (map (\<lambda>(n, m). hit_name n np) (filter (\<lambda>(n, m). m lp) denyMatchers)).
            prefix ''flowbee_source:'' h)
      \<longleftrightarrow> \<not> m_ci_workflow lp \<and> \<not> m_lockfile lp \<and> \<not> m_dockerfile lp \<and> \<not> m_secret lp" for np lp
    using own unfolding ball_map_filter denyMatchers_def by simp
  then show ?thesis
    using own by (auto simp: path_hits_def own_source_only_def Let_def filter_empty_conv ball_Un
        simp del: set_map)
qed

lemma withoutClass_empty_iff:
  "withoutClass (denylistHitsWith touched extra) ''flowbee_source'' = [] \<longleftrightarrow>
     (\<forall>p \<in> set touched. normalizePath p = []
        \<or> own_source_only p \<and> \<not> matchesAnyPrefix (ToLower (normalizePath p)) extra)"
proof -
  have "withoutClass (denylistHitsWith touched extra) ''flowbee_source'' = [] \<longleftrightarrow>
      (\<forall>p \<in> set touched. filter (\<lambda>h. \<not> prefix ''flowbee_source:'' h) (path_hits extra p) = [])"
    by (auto simp: withoutClass_def filter_empty_conv set_denylistHits)
  then show ?thesis by (simp only: path_hits_without)
qed

lemma set_dedup [simp]: "set (dedup xs) = set xs"
  by (induction xs rule: dedup.induct) auto

lemma undeclared_empty_iff:
  "undeclaredPaths touched decl = [] \<longleftrightarrow>
     (\<forall>t \<in> set touched. normalizePath t = [] \<or> declarationCovers (normalizePath t) decl)"
proof -
  have "undeclaredPaths touched decl = [] \<longleftrightarrow> set (undeclaredPaths touched decl) = {}" by simp
  then show ?thesis by (auto simp: undeclaredPaths_def)
qed

lemma static_empty_iff:
  "staticChecks p touched lims = [] \<longleftrightarrow>
     \<not> (pAppliesCleanKnown p \<and> \<not> pAppliesClean p)
     \<and> (TrimSpace (pDiff p) = [] \<or> touched \<noteq> [])
     \<and> (\<forall>l \<in> set (addedLines (pDiff p)). scanSecret l = [] \<and> \<not> isConflictMarker l)
     \<and> \<not> introducesBinary (pDiff p)
     \<and> int (length (pDiff p)) \<le> lMaxDiffBytes lims
     \<and> int (length touched) \<le> lMaxChangedFiles lims"
  by (auto simp: staticChecks_def find_None_iff find_Some_iff split: option.splits)

definition path_allowed :: "ContentPolicy \<Rightarrow> string \<Rightarrow> bool" where
  "path_allowed pol t \<longleftrightarrow>
     normalizePath t = []
     \<or> (if cpAllowOwnSource pol then own_source_only t else \<not> IsDenylisted t)
       \<and> \<not> matchesAnyPrefix (ToLower (normalizePath t)) (cpExtraDenyPrefixes pol)"

lemma deny_clear_iff:
  "rDenylistClear (CheckWithPolicy p pol) \<longleftrightarrow> (\<forall>t \<in> set (TouchedPaths (pDiff p)). path_allowed pol t)"
proof -
  have "\<not> IsDenylisted t" if "normalizePath t = []" for t
    using that by (simp add: IsDenylisted_def)
  then show ?thesis
    by (auto simp: CheckWithPolicy_def Let_def path_allowed_def withoutClass_empty_iff hits_empty_iff)
qed

text \<open>
  Beside the properties: what an eligible diff is.  The gate finds a diff eligible for an
  unattended merge iff every touched path is allowed by the denylist and the
  policy, every touched path is covered by the worker's declaration, the patch
  was not shown to fail to apply, a diff with content names a path, no added
  line holds a secret or a conflict marker, no binary is introduced, and both
  size bounds hold.
\<close>

theorem eligible_iff:
  "Eligible (CheckWithPolicy p pol) \<longleftrightarrow>
     (\<forall>t \<in> set (TouchedPaths (pDiff p)). path_allowed pol t)
     \<and> (\<forall>t \<in> set (TouchedPaths (pDiff p)).
          normalizePath t = [] \<or> declarationCovers (normalizePath t) (pDeclared p))
     \<and> \<not> (pAppliesCleanKnown p \<and> \<not> pAppliesClean p)
     \<and> (TrimSpace (pDiff p) = [] \<or> TouchedPaths (pDiff p) \<noteq> [])
     \<and> (\<forall>l \<in> set (addedLines (pDiff p)). scanSecret l = [] \<and> \<not> isConflictMarker l)
     \<and> \<not> introducesBinary (pDiff p)
     \<and> int (length (pDiff p)) \<le> lMaxDiffBytes (resolve_limits (cpLimits pol))
     \<and> int (length (TouchedPaths (pDiff p))) \<le> lMaxChangedFiles (resolve_limits (cpLimits pol))"
  using deny_clear_iff [of p pol]
  by (simp add: Eligible_def CheckWithPolicy_def Let_def undeclared_empty_iff static_empty_iff)

theorem eligible_iff_witness:
  "\<not> isConflictMarker ''x := 1''
   \<and> Eligible (CheckWithPolicy
       \<lparr>pDiff = [], pBaseSHA = ''b'', pDeclared = \<lparr>brPaths = [], brScope = []\<rparr>,
        pAppliesClean = True, pAppliesCleanKnown = True\<rparr>
       \<lparr>cpLimits = \<lparr>lMaxDiffBytes = 0, lMaxChangedFiles = 0\<rparr>, cpExtraDenyPrefixes = [],
        cpAllowOwnSource = False\<rparr>)"
  unfolding eligible_iff
  by (simp add: isConflictMarker_def TouchedPaths_def lines_of_def line_paths_def addedLines_def
      introducesBinary_def resolve_limits_def DefaultLimits_def)

lemma universal_not_clear:
  assumes "t \<in> set (TouchedPaths (pDiff p))" "normalizePath t \<noteq> []" "\<not> own_source_only t"
  shows "\<not> Eligible (CheckWithPolicy p pol)"
proof -
  have "IsDenylisted t"
    using assms by (auto simp: own_source_only_def IsDenylisted_def denyMatchers_def Let_def)
  then have "\<not> path_allowed pol t" using assms by (simp add: path_allowed_def)
  then show ?thesis using assms(1) deny_clear_iff [of p pol] by (auto simp: Eligible_def)
qed

text \<open>
  Beside the properties: no policy weakens the universal classes.  Whatever the operator
  configures (extra prefixes, own-source merges), a diff that touches a path of
  the CI, lockfile, Dockerfile or secret class is never denylist-clear, so never
  eligible; extra prefixes only ever deny more.
\<close>

theorem universal_classes_stay:
  "(t \<in> set (TouchedPaths (pDiff p)) \<longrightarrow> normalizePath t \<noteq> [] \<longrightarrow> \<not> own_source_only t \<longrightarrow>
      \<not> Eligible (CheckWithPolicy p pol))
   \<and> (rDenylistClear (CheckWithPolicy p (pol\<lparr>cpExtraDenyPrefixes := cpExtraDenyPrefixes pol @ extra_pres\<rparr>)) \<longrightarrow>
      rDenylistClear (CheckWithPolicy p pol))"
proof -
  have mono: "path_allowed (pol\<lparr>cpExtraDenyPrefixes := cpExtraDenyPrefixes pol @ extra_pres\<rparr>) u \<Longrightarrow>
      path_allowed pol u" for u
    by (auto simp: path_allowed_def matchesAnyPrefix_def)
  show ?thesis
  proof (intro conjI impI)
    assume "t \<in> set (TouchedPaths (pDiff p))" "normalizePath t \<noteq> []" "\<not> own_source_only t"
    then show "\<not> Eligible (CheckWithPolicy p pol)" by (rule universal_not_clear)
  next
    assume "rDenylistClear (CheckWithPolicy p (pol\<lparr>cpExtraDenyPrefixes := cpExtraDenyPrefixes pol @ extra_pres\<rparr>))"
    then show "rDenylistClear (CheckWithPolicy p pol)"
      unfolding deny_clear_iff using mono by blast
  qed
qed

lemma deploy_v2_normal: "normalizePath ''.GitHub/workflows/x.yml'' = ''.GitHub/workflows/x.yml''"
  by code_simp

lemma deploy_v2_lower: "ToLower ''.GitHub/workflows/x.yml'' = ''.github/workflows/x.yml''"
  by code_simp

theorem universal_classes_stay_witness:
  "\<not> Eligible (CheckWithPolicy
       \<lparr>pDiff = ''diff --git a/.GitHub/workflows/x.yml b/.GitHub/workflows/x.yml'',
        pBaseSHA = ''b'', pDeclared = \<lparr>brPaths = [''.GitHub''], brScope = []\<rparr>,
        pAppliesClean = True, pAppliesCleanKnown = True\<rparr>
       \<lparr>cpLimits = DefaultLimits, cpExtraDenyPrefixes = [], cpAllowOwnSource = True\<rparr>)"
proof -
  let ?d = "''diff --git a/.GitHub/workflows/x.yml b/.GitHub/workflows/x.yml''"
  have "''diff --git a/'' @ ''.GitHub/workflows/x.yml'' @ '' b/'' @ ''.GitHub/workflows/x.yml''
      \<in> set (lines_of ?d)"
    by (simp add: lines_of_def)
  from header_path_touched [OF this] have "''.GitHub/workflows/x.yml'' \<in> set (TouchedPaths ?d)"
    by (simp add: deploy_v2_normal dev_null_def)
  moreover have "\<not> own_source_only ''.GitHub/workflows/x.yml''"
    by (simp add: own_source_only_def deploy_v2_normal deploy_v2_lower m_ci_workflow_def)
  ultimately show ?thesis
    using universal_classes_stay [of "''.GitHub/workflows/x.yml''"
      "\<lparr>pDiff = ?d, pBaseSHA = ''b'', pDeclared = \<lparr>brPaths = [''.GitHub''], brScope = []\<rparr>,
        pAppliesClean = True, pAppliesCleanKnown = True\<rparr>"
      "\<lparr>cpLimits = DefaultLimits, cpExtraDenyPrefixes = [], cpAllowOwnSource = True\<rparr>"]
    by (simp add: deploy_v2_normal)
qed

text \<open>
  Beside the properties: the denylist folds case.  Two paths whose normal forms differ
  only in the case of ASCII letters are denylisted together, and a path whose
  lower-cased normal form lies in \<open>.github/workflows/\<close> is denylisted.
\<close>

theorem denylist_case_folds:
  "(ToLower (normalizePath p) = ToLower (normalizePath q) \<longrightarrow> IsDenylisted p = IsDenylisted q)
   \<and> (prefix ''.github/workflows/'' (ToLower (normalizePath p)) \<longrightarrow> IsDenylisted p)"
proof (intro conjI impI)
  assume eq: "ToLower (normalizePath p) = ToLower (normalizePath q)"
  then have "normalizePath p = [] \<longleftrightarrow> normalizePath q = []"
    by (metis length_ToLower length_0_conv)
  with eq show "IsDenylisted p = IsDenylisted q" by (simp add: IsDenylisted_def Let_def)
next
  assume "prefix ''.github/workflows/'' (ToLower (normalizePath p))"
  moreover from this have "normalizePath p \<noteq> []" by auto
  ultimately show "IsDenylisted p"
    by (simp add: IsDenylisted_def denyMatchers_def m_ci_workflow_def)
qed

theorem denylist_case_folds_witness: "IsDenylisted ''.GitHub/workflows/x.yml''"
  using denylist_case_folds [of "''.GitHub/workflows/x.yml''"]
  by (simp add: deploy_v2_normal deploy_v2_lower)

end
