(* ===== verification/Job_State.thy ===== *)
theory Job_State
  imports Prelude
begin

text \<open>
  The pure job state machine: \<open>internal/job/transition.go\<close> and the state, role
  and kind catalogues of \<open>internal/job/job.go\<close>.  Each Go string enumeration is a
  datatype with the source's constant names; the extra constructor \<open>...Empty\<close>
  is the empty string, Go's zero value.  The transition table is the source's
  map literal, entry by entry and in its order; \<open>Next\<close> is its lookup.  The
  step relation \<open>job_step\<close> and the paths over it are what the properties of
  the table are stated on.
\<close>

section \<open>The catalogues\<close>

datatype State =
    StateEmpty | StateSpecAuthoring | StateSpecReview | StateReady | StateLeased |
    StateBuilding | StateReviewPending | StateCodeReview | StateMergeable |
    StateMerging | StateMergeHandoff | StateDone | StateBlocked | StateNeedsHuman |
    StateSuperseded | StateCancelled | StateFailed | StateNeedsDesign |
    StateBacklog | StateQuiescent | StateResolvingConflict

fun state_str :: "State \<Rightarrow> string" where
  "state_str StateEmpty = []"
| "state_str StateSpecAuthoring = ''spec_authoring''"
| "state_str StateSpecReview = ''spec_review''"
| "state_str StateReady = ''ready''"
| "state_str StateLeased = ''leased''"
| "state_str StateBuilding = ''building''"
| "state_str StateReviewPending = ''review_pending''"
| "state_str StateCodeReview = ''code_review''"
| "state_str StateMergeable = ''mergeable''"
| "state_str StateMerging = ''merging''"
| "state_str StateMergeHandoff = ''merge_handoff''"
| "state_str StateDone = ''done''"
| "state_str StateBlocked = ''blocked''"
| "state_str StateNeedsHuman = ''needs_human''"
| "state_str StateSuperseded = ''superseded''"
| "state_str StateCancelled = ''cancelled''"
| "state_str StateFailed = ''failed''"
| "state_str StateNeedsDesign = ''needs_design''"
| "state_str StateBacklog = ''backlog''"
| "state_str StateQuiescent = ''quiescent''"
| "state_str StateResolvingConflict = ''resolving_conflict''"

datatype Role =
    RoleEmpty | RoleSpecAuthor | RoleSpecReviewer | RoleEngWorker | RoleCodeReviewer |
    RoleMerger | RoleConflictResolver | RoleTester

fun role_str :: "Role \<Rightarrow> string" where
  "role_str RoleEmpty = []"
| "role_str RoleSpecAuthor = ''spec_author''"
| "role_str RoleSpecReviewer = ''spec_reviewer''"
| "role_str RoleEngWorker = ''eng_worker''"
| "role_str RoleCodeReviewer = ''code_reviewer''"
| "role_str RoleMerger = ''merger''"
| "role_str RoleConflictResolver = ''conflict_resolver''"
| "role_str RoleTester = ''tester''"

datatype Kind =
    KindEmpty | KindSpec | KindBuild | KindTest

fun kind_str :: "Kind \<Rightarrow> string" where
  "kind_str KindEmpty = []"
| "kind_str KindSpec = ''spec''"
| "kind_str KindBuild = ''build''"
| "kind_str KindTest = ''test''"

datatype EscalationReason =
    EscalationEmpty | EscalationAttempts | EscalationBounces | EscalationCost |
    EscalationStall | EscalationProjectOut | EscalationCIStalled | EscalationPostMergeCI |
    EscalationPRClosed | EscalationReviewerRejections | EscalationDesign

fun escalation_str :: "EscalationReason \<Rightarrow> string" where
  "escalation_str EscalationEmpty = []"
| "escalation_str EscalationAttempts = ''attempts''"
| "escalation_str EscalationBounces = ''bounces''"
| "escalation_str EscalationCost = ''cost''"
| "escalation_str EscalationStall = ''stall''"
| "escalation_str EscalationProjectOut = ''project_out''"
| "escalation_str EscalationCIStalled = ''ci_stalled''"
| "escalation_str EscalationPostMergeCI = ''post_merge_ci''"
| "escalation_str EscalationPRClosed = ''pr_closed''"
| "escalation_str EscalationReviewerRejections = ''reviewer_rejections''"
| "escalation_str EscalationDesign = ''design''"

lemma state_str_inj: "state_str s = state_str s' \<longleftrightarrow> s = s'"
  by (cases s; cases s') simp_all

lemma role_str_inj: "role_str r = role_str r' \<longleftrightarrow> r = r'"
  by (cases r; cases r') simp_all

text \<open>The order of the catalogues is the byte order of their names, as SQL and
  \<open>sort.Strings\<close> see them.\<close>

instantiation State :: linorder
begin

definition less_eq_State :: "State \<Rightarrow> State \<Rightarrow> bool" where
  "less_eq_State a b \<longleftrightarrow> state_str a \<le> state_str b"

definition less_State :: "State \<Rightarrow> State \<Rightarrow> bool" where
  "less_State a b \<longleftrightarrow> state_str a < state_str b"

instance
  by standard (auto simp: less_eq_State_def less_State_def less_le state_str_inj)

end

section \<open>Active leases\<close>

definition ActiveLeaseStates :: "State list" where
  "ActiveLeaseStates =
     [StateLeased, StateBuilding, StateCodeReview, StateMerging,
      StateMergeHandoff, StateSpecAuthoring, StateSpecReview, StateResolvingConflict]"

definition HasActiveLease :: "State \<Rightarrow> bool" where
  "HasActiveLease s = (s \<in> set ActiveLeaseStates)"

text \<open>\<open>ActiveLeaseStatesSQL\<close>: the quoted names, sorted, as a SQL IN list.\<close>

definition ActiveLeaseStatesSQL :: string where
  "ActiveLeaseStatesSQL =
     CHR ''('' # join_with '','' (sort (map (\<lambda>s. CHR 0x27 # state_str s @ [CHR 0x27]) ActiveLeaseStates)) @ '')''"

definition livenessEvaluableStates :: "State list" where
  "livenessEvaluableStates =
     filter (\<lambda>s. s \<noteq> StateMergeHandoff \<and> s \<noteq> StateMerging) ActiveLeaseStates"

definition LivenessEvaluable :: "State \<Rightarrow> bool" where
  "LivenessEvaluable s = (s \<in> set livenessEvaluableStates)"

lemma HasActiveLease_simps [simp]:
  "\<not> HasActiveLease StateEmpty"
  "HasActiveLease StateSpecAuthoring"
  "HasActiveLease StateSpecReview"
  "\<not> HasActiveLease StateReady"
  "HasActiveLease StateLeased"
  "HasActiveLease StateBuilding"
  "\<not> HasActiveLease StateReviewPending"
  "HasActiveLease StateCodeReview"
  "\<not> HasActiveLease StateMergeable"
  "HasActiveLease StateMerging"
  "HasActiveLease StateMergeHandoff"
  "\<not> HasActiveLease StateDone"
  "\<not> HasActiveLease StateBlocked"
  "\<not> HasActiveLease StateNeedsHuman"
  "\<not> HasActiveLease StateSuperseded"
  "\<not> HasActiveLease StateCancelled"
  "\<not> HasActiveLease StateFailed"
  "\<not> HasActiveLease StateNeedsDesign"
  "\<not> HasActiveLease StateBacklog"
  "\<not> HasActiveLease StateQuiescent"
  "HasActiveLease StateResolvingConflict"
  by (simp_all add: HasActiveLease_def ActiveLeaseStates_def)

lemma LivenessEvaluable_iff:
  "LivenessEvaluable s \<longleftrightarrow> HasActiveLease s \<and> s \<noteq> StateMergeHandoff \<and> s \<noteq> StateMerging"
  by (auto simp: LivenessEvaluable_def livenessEvaluableStates_def HasActiveLease_def)

section \<open>Triggers and the transition table\<close>

datatype Trigger =
    TriggerClaimed | TriggerWorkStarted | TriggerResultReceived | TriggerReleased |
    TriggerLeaseExpiredRetry | TriggerLeaseExpiredExhaust | TriggerDepsCleared |
    TriggerCompleted | TriggerReviewClaimed | TriggerReviewStarted | TriggerApproved |
    TriggerBounce | TriggerBounceExhausted | TriggerHandoff | TriggerSelfMerge |
    TriggerSpecReviewClaimed | TriggerSpecSignedOff | TriggerSpecSuperseded |
    TriggerSpecAuthored | TriggerSpecAmended | TriggerSpecNeedsDesign |
    TriggerDesignResolved | TriggerPromotedToSpec | TriggerPromotedToReady |
    TriggerAdoptedForReview | TriggerStallRevokedRetry | TriggerStallRevokedExhaust |
    TriggerLeaseCappedRetry | TriggerLeaseCappedExhaust | TriggerAgentExited |
    TriggerAwaitingInputCancel

definition transitions :: "((State \<times> Trigger) \<times> State) list" where
  "transitions =
     [((StateReady, TriggerClaimed), StateLeased),
      ((StateLeased, TriggerWorkStarted), StateBuilding),
      ((StateBuilding, TriggerResultReceived), StateReviewPending),
      ((StateLeased, TriggerReleased), StateReady),
      ((StateBuilding, TriggerReleased), StateReady),
      ((StateLeased, TriggerLeaseExpiredRetry), StateReady),
      ((StateBuilding, TriggerLeaseExpiredRetry), StateReady),
      ((StateLeased, TriggerLeaseExpiredExhaust), StateNeedsHuman),
      ((StateBuilding, TriggerLeaseExpiredExhaust), StateNeedsHuman),
      ((StateBlocked, TriggerDepsCleared), StateReady),
      ((StateReviewPending, TriggerCompleted), StateDone),
      ((StateReviewPending, TriggerReviewClaimed), StateCodeReview),
      ((StateCodeReview, TriggerApproved), StateMergeable),
      ((StateCodeReview, TriggerBounce), StateReady),
      ((StateCodeReview, TriggerBounceExhausted), StateNeedsHuman),
      ((StateCodeReview, TriggerReleased), StateReviewPending),
      ((StateCodeReview, TriggerLeaseExpiredRetry), StateReviewPending),
      ((StateMergeable, TriggerHandoff), StateMergeHandoff),
      ((StateMergeable, TriggerSelfMerge), StateMerging),
      ((StateSpecAuthoring, TriggerSpecAuthored), StateSpecReview),
      ((StateSpecReview, TriggerSpecSignedOff), StateDone),
      ((StateSpecReview, TriggerBounce), StateSpecAuthoring),
      ((StateSpecReview, TriggerBounceExhausted), StateNeedsHuman),
      ((StateSpecReview, TriggerSpecSuperseded), StateSpecAuthoring),
      ((StateSpecReview, TriggerReleased), StateSpecAuthoring),
      ((StateSpecReview, TriggerLeaseExpiredRetry), StateSpecAuthoring),
      ((StateSpecReview, TriggerSpecAmended), StateDone),
      ((StateSpecReview, TriggerSpecNeedsDesign), StateNeedsDesign),
      ((StateResolvingConflict, TriggerReleased), StateResolvingConflict),
      ((StateResolvingConflict, TriggerLeaseExpiredRetry), StateResolvingConflict),
      ((StateNeedsDesign, TriggerDesignResolved), StateSpecReview),
      ((StateBacklog, TriggerPromotedToSpec), StateSpecAuthoring),
      ((StateBacklog, TriggerPromotedToReady), StateReady),
      ((StateQuiescent, TriggerAdoptedForReview), StateSpecReview),
      ((StateLeased, TriggerStallRevokedRetry), StateReady),
      ((StateBuilding, TriggerStallRevokedRetry), StateReady),
      ((StateCodeReview, TriggerStallRevokedRetry), StateReviewPending),
      ((StateSpecAuthoring, TriggerStallRevokedRetry), StateSpecAuthoring),
      ((StateSpecReview, TriggerStallRevokedRetry), StateSpecAuthoring),
      ((StateLeased, TriggerStallRevokedExhaust), StateNeedsHuman),
      ((StateBuilding, TriggerStallRevokedExhaust), StateNeedsHuman),
      ((StateCodeReview, TriggerStallRevokedExhaust), StateNeedsHuman),
      ((StateSpecAuthoring, TriggerStallRevokedExhaust), StateNeedsHuman),
      ((StateSpecReview, TriggerStallRevokedExhaust), StateNeedsHuman),
      ((StateLeased, TriggerLeaseCappedRetry), StateReady),
      ((StateBuilding, TriggerLeaseCappedRetry), StateReady),
      ((StateCodeReview, TriggerLeaseCappedRetry), StateReviewPending),
      ((StateSpecAuthoring, TriggerLeaseCappedRetry), StateSpecAuthoring),
      ((StateSpecReview, TriggerLeaseCappedRetry), StateSpecAuthoring),
      ((StateLeased, TriggerLeaseCappedExhaust), StateNeedsHuman),
      ((StateBuilding, TriggerLeaseCappedExhaust), StateNeedsHuman),
      ((StateCodeReview, TriggerLeaseCappedExhaust), StateNeedsHuman),
      ((StateSpecAuthoring, TriggerLeaseCappedExhaust), StateNeedsHuman),
      ((StateSpecReview, TriggerLeaseCappedExhaust), StateNeedsHuman),
      ((StateLeased, TriggerAgentExited), StateFailed),
      ((StateBuilding, TriggerAgentExited), StateFailed),
      ((StateCodeReview, TriggerAgentExited), StateFailed),
      ((StateSpecAuthoring, TriggerAgentExited), StateFailed),
      ((StateSpecReview, TriggerAgentExited), StateFailed),
      ((StateLeased, TriggerAwaitingInputCancel), StateReady),
      ((StateBuilding, TriggerAwaitingInputCancel), StateReady),
      ((StateCodeReview, TriggerAwaitingInputCancel), StateReviewPending),
      ((StateSpecAuthoring, TriggerAwaitingInputCancel), StateSpecAuthoring),
      ((StateSpecReview, TriggerAwaitingInputCancel), StateSpecAuthoring),
      ((StateFailed, TriggerLeaseExpiredRetry), StateReady)]"

datatype job_error = ErrIllegalTransition

text \<open>
  \<open>Next\<close> returns Go's pair: the state, and the error of a pair absent from the
  table, in which case the state is the one given.
\<close>

definition Next :: "State \<Rightarrow> Trigger \<Rightarrow> State \<times> job_error option" where
  "Next s t = (case map_of transitions (s, t) of
                 None \<Rightarrow> (s, Some ErrIllegalTransition)
               | Some s' \<Rightarrow> (s', None))"

lemma Next_ok_iff: "Next s t = (s', None) \<longleftrightarrow> map_of transitions (s, t) = Some s'"
  by (simp add: Next_def split: option.splits)

lemma Next_error_iff: "snd (Next s t) \<noteq> None \<longleftrightarrow> map_of transitions (s, t) = None"
  by (simp add: Next_def split: option.splits)

lemma Next_ok_in_table: "Next s t = (s', None) \<Longrightarrow> ((s, t), s') \<in> set transitions"
  by (simp add: Next_ok_iff map_of_SomeD)

text \<open>The keys of the map literal are distinct, as Go demands.\<close>

lemma transitions_distinct: "distinct (map fst transitions)"
  by (simp add: transitions_def)

lemma Next_ok_table_iff: "Next s t = (s', None) \<longleftrightarrow> ((s, t), s') \<in> set transitions"
  using transitions_distinct by (simp add: Next_ok_iff)

section \<open>The step relation and its paths\<close>

inductive job_step :: "State \<Rightarrow> Trigger \<Rightarrow> State \<Rightarrow> bool" where
  job_stepI: "Next s t = (s', None) \<Longrightarrow> job_step s t s'"

code_pred job_step .

inductive_simps job_step_iff: "job_step s t s'"

inductive job_path :: "State \<Rightarrow> Trigger list \<Rightarrow> State \<Rightarrow> bool" where
  path_nil: "job_path s [] s"
| path_snoc: "job_path s ts s' \<Longrightarrow> job_step s' t s'' \<Longrightarrow> job_path s (ts @ [t]) s''"

inductive_cases path_nilE: "job_path s [] s'"
inductive_cases path_snocE: "job_path s (ts @ [t]) s''"

lemma job_step_in_table: "job_step s t s' \<Longrightarrow> ((s, t), s') \<in> set transitions"
  by (simp add: job_step_iff Next_ok_in_table)

text \<open>Facts of the whole table are checked entry by entry.\<close>

lemma job_step_table:
  assumes "job_step s t s'" and "list_all (\<lambda>((a, b), c). P a b c) transitions"
  shows "P s t s'"
  using job_step_in_table [OF assms(1)] assms(2) by (auto simp: list_all_iff)

lemma merge_arm_from_mergeable:
  assumes "job_step s t s'" and "s' = StateMerging \<or> s' = StateMergeHandoff"
  shows "s = StateMergeable"
  using job_step_table [OF assms(1), of "\<lambda>a b c. (c = StateMerging \<or> c = StateMergeHandoff) \<longrightarrow> a = StateMergeable"]
    assms(2) by (simp add: transitions_def)

lemma mergeable_from_approval:
  assumes "job_step s t StateMergeable"
  shows "s = StateCodeReview \<and> t = TriggerApproved"
  using job_step_table [OF assms, of "\<lambda>a b c. c = StateMergeable \<longrightarrow> a = StateCodeReview \<and> b = TriggerApproved"]
  by (simp add: transitions_def)

lemma mergeable_path_approved:
  assumes "job_path s ts StateMergeable" and "s \<noteq> StateMergeable"
  shows "\<exists>ts1. ts = ts1 @ [TriggerApproved] \<and> job_path s ts1 StateCodeReview"
  using assms(1)
proof (cases rule: job_path.cases)
  case path_nil
  with assms(2) show ?thesis by simp
next
  case (path_snoc ts1 s' t)
  with mergeable_from_approval [of s' t] show ?thesis by auto
qed

text \<open>
  Beside the properties: no job reaches a merge arm (\<open>merging\<close> or \<open>merge_handoff\<close>) unless
  an approval was minted: on every path of the state machine that starts
  outside the merge stage and ends in a merge arm, the last but one step is the
  \<open>approved\<close> edge out of \<open>code_review\<close>.
\<close>

theorem merge_requires_approval:
  assumes "job_path s ts s'" and "s' \<in> {StateMerging, StateMergeHandoff}"
    and "s \<notin> {StateMergeable, StateMerging, StateMergeHandoff}"
  shows "\<exists>ts1 t. ts = ts1 @ [TriggerApproved, t] \<and> job_path s ts1 StateCodeReview"
  using assms(1)
proof (cases rule: job_path.cases)
  case path_nil
  with assms(2,3) show ?thesis by auto
next
  case (path_snoc ts1 u t)
  with merge_arm_from_mergeable assms(2) have "u = StateMergeable" by blast
  with path_snoc(2) obtain ts2 where "ts1 = ts2 @ [TriggerApproved]" "job_path s ts2 StateCodeReview"
    using mergeable_path_approved assms(3) by auto
  with path_snoc(1) show ?thesis by auto
qed

lemma happy_path:
  "job_path StateReady
     [TriggerClaimed, TriggerWorkStarted, TriggerResultReceived, TriggerReviewClaimed,
      TriggerApproved, TriggerSelfMerge] StateMerging"
proof -
  have step: "job_path s ts s' \<Longrightarrow> Next s' t = (s'', None) \<Longrightarrow> job_path s (ts @ [t]) s''" for s ts s' t s''
    by (rule path_snoc) (simp_all add: job_step_iff)
  note p = path_nil [of StateReady]
  note p = step [OF p, of TriggerClaimed StateLeased]
  note p = step [OF p, of TriggerWorkStarted StateBuilding]
  note p = step [OF p, of TriggerResultReceived StateReviewPending]
  note p = step [OF p, of TriggerReviewClaimed StateCodeReview]
  note p = step [OF p, of TriggerApproved StateMergeable]
  note p = step [OF p, of TriggerSelfMerge StateMerging]
  from p show ?thesis by (simp add: Next_ok_table_iff transitions_def)
qed

theorem merge_requires_approval_witness:
  "\<exists>ts1 t. [TriggerClaimed, TriggerWorkStarted, TriggerResultReceived, TriggerReviewClaimed,
      TriggerApproved, TriggerSelfMerge] = ts1 @ [TriggerApproved, t]
     \<and> job_path StateReady ts1 StateCodeReview"
  by (rule merge_requires_approval [OF happy_path]) simp_all

text \<open>
  Beside the properties: the liveness edges are complete for every worker-bound state but
  one.  A state the liveness ladder evaluates, other than
  \<open>resolving_conflict\<close>, has an edge for each of the six liveness triggers: the
  retries and the cancel lead to a state without a bound worker's lease or back
  to the entry of its own stage, the exhausts to \<open>needs_human\<close>, the agent exit
  to \<open>failed\<close>.  For \<open>resolving_conflict\<close> every one of the six is an illegal
  transition, although the ladder evaluates it.
\<close>

definition liveness_triggers :: "Trigger list" where
  "liveness_triggers =
     [TriggerStallRevokedRetry, TriggerStallRevokedExhaust, TriggerLeaseCappedRetry,
      TriggerLeaseCappedExhaust, TriggerAgentExited, TriggerAwaitingInputCancel]"

theorem liveness_edges:
  "(LivenessEvaluable s \<longrightarrow> s \<noteq> StateResolvingConflict \<longrightarrow>
      (\<forall>t \<in> set liveness_triggers.
         snd (Next s t) = None
         \<and> (t \<in> {TriggerStallRevokedExhaust, TriggerLeaseCappedExhaust} \<longrightarrow> fst (Next s t) = StateNeedsHuman)
         \<and> (t = TriggerAgentExited \<longrightarrow> fst (Next s t) = StateFailed)
         \<and> (t \<in> {TriggerStallRevokedRetry, TriggerLeaseCappedRetry, TriggerAwaitingInputCancel} \<longrightarrow>
              fst (Next s t) \<in> {StateReady, StateReviewPending, StateSpecAuthoring})))
   \<and> LivenessEvaluable StateResolvingConflict
   \<and> (\<forall>t \<in> set liveness_triggers. snd (Next StateResolvingConflict t) = Some ErrIllegalTransition)"
proof -
  have evaluable: "LivenessEvaluable s \<longleftrightarrow> s \<in> {StateLeased, StateBuilding, StateCodeReview,
      StateSpecAuthoring, StateSpecReview, StateResolvingConflict}" for s
    by (cases s) (simp_all add: LivenessEvaluable_iff)
  show ?thesis
    unfolding evaluable liveness_triggers_def Next_def transitions_def by auto
qed

theorem liveness_edges_witness:
  "LivenessEvaluable StateCodeReview \<and> Next StateCodeReview TriggerStallRevokedRetry = (StateReviewPending, None)
   \<and> snd (Next StateCodeReview TriggerAgentExited) = None"
  using liveness_edges [of StateCodeReview]
  by (simp add: LivenessEvaluable_iff liveness_triggers_def Next_def transitions_def)

text \<open>
  Beside the properties: the sinks.  No trigger leaves \<open>done\<close>, \<open>superseded\<close>,
  \<open>cancelled\<close>, \<open>needs_human\<close> or the merge arms inside the pure machine (their
  exits are reconciliation and operator actions of the store), and a job is
  never moved into \<open>done\<close> but from \<open>review_pending\<close> or \<open>spec_review\<close>.
\<close>

theorem machine_sinks:
  "(s \<in> {StateDone, StateSuperseded, StateCancelled, StateNeedsHuman, StateMerging, StateMergeHandoff}
      \<longrightarrow> Next s t = (s, Some ErrIllegalTransition))
   \<and> (Next s t = (StateDone, None) \<longrightarrow> s \<in> {StateReviewPending, StateSpecReview})"
proof -
  have "\<forall>((a, b), c) \<in> set transitions.
      a \<notin> {StateDone, StateSuperseded, StateCancelled, StateNeedsHuman, StateMerging, StateMergeHandoff}
      \<and> (c = StateDone \<longrightarrow> a \<in> {StateReviewPending, StateSpecReview})"
    by (simp add: transitions_def)
  then show ?thesis
    by (auto simp: Next_def split: option.splits dest!: map_of_SomeD)
qed

theorem machine_sinks_witness:
  "Next StateDone TriggerClaimed = (StateDone, Some ErrIllegalTransition)"
  using machine_sinks [of StateDone TriggerClaimed] by simp

end
