(* ===== verification/Sha256.thy ===== *)
theory Sha256
  imports Prelude "HOL-Library.Word"
begin

unbundle bit_operations_syntax

text \<open>
  Go's \<open>crypto/sha256\<close> followed by \<open>hex.EncodeToString\<close>, as the verdict and
  sign-off integrity hashes use them (\<open>internal/job/verdict.go\<close>): FIPS 180-4
  SHA-256 over 32-bit words, executable.  The development never assumes that
  the function is injective: tamper evidence is stated as "or here are two
  different inputs with one hash".
\<close>

type_synonym w32 = "32 word"

definition rotr32 :: "nat \<Rightarrow> w32 \<Rightarrow> w32" where
  "rotr32 n x = (drop_bit n x OR push_bit (32 - n) x)"

definition sha_ch :: "w32 \<Rightarrow> w32 \<Rightarrow> w32 \<Rightarrow> w32" where
  "sha_ch x y z = ((x AND y) XOR (NOT x AND z))"

definition sha_maj :: "w32 \<Rightarrow> w32 \<Rightarrow> w32 \<Rightarrow> w32" where
  "sha_maj x y z = ((x AND y) XOR (x AND z) XOR (y AND z))"

definition big_sigma0 :: "w32 \<Rightarrow> w32" where
  "big_sigma0 x = (rotr32 2 x XOR rotr32 13 x XOR rotr32 22 x)"

definition big_sigma1 :: "w32 \<Rightarrow> w32" where
  "big_sigma1 x = (rotr32 6 x XOR rotr32 11 x XOR rotr32 25 x)"

definition small_sigma0 :: "w32 \<Rightarrow> w32" where
  "small_sigma0 x = (rotr32 7 x XOR rotr32 18 x XOR drop_bit 3 x)"

definition small_sigma1 :: "w32 \<Rightarrow> w32" where
  "small_sigma1 x = (rotr32 17 x XOR rotr32 19 x XOR drop_bit 10 x)"

text \<open>
  The round constants are the first 32 bits of the fractional parts of the cube
  roots of the first 64 primes: \<open>cube_root b n 0\<close> is the integer cube root of \<open>n\<close>
  when it has at most \<open>b\<close> bits, found bit by bit, and the word drops the integer
  part.
\<close>

fun cube_root :: "nat \<Rightarrow> nat \<Rightarrow> nat \<Rightarrow> nat" where
  "cube_root 0 n r = r"
| "cube_root (Suc b) n r = cube_root b n (if (r + 2 ^ b) ^ 3 \<le> n then r + 2 ^ b else r)"

definition sha_primes :: "nat list" where
  "sha_primes =
     filter (\<lambda>p. list_all (\<lambda>d. p mod d \<noteq> 0) [2 ..< p]) [2 ..< 312]"

definition sha_k :: "w32 list" where
  "sha_k = map (\<lambda>p. word_of_nat (cube_root 35 (p * 2 ^ 96) 0)) sha_primes"

type_synonym sha_state = "w32 \<times> w32 \<times> w32 \<times> w32 \<times> w32 \<times> w32 \<times> w32 \<times> w32"

definition sha_init :: sha_state where
  "sha_init =
     (0x6a09e667, 0xbb67ae85, 0x3c6ef372, 0xa54ff53a,
      0x510e527f, 0x9b05688c, 0x1f83d9ab, 0x5be0cd19)"

fun sha_extend :: "nat \<Rightarrow> w32 list \<Rightarrow> w32 list" where
  "sha_extend 0 ws = ws"
| "sha_extend (Suc n) ws =
     (let k = length ws in
      sha_extend n (ws @ [small_sigma1 (ws ! (k - 2)) + ws ! (k - 7)
                          + small_sigma0 (ws ! (k - 15)) + ws ! (k - 16)]))"

fun sha_round :: "sha_state \<Rightarrow> w32 \<times> w32 \<Rightarrow> sha_state" where
  "sha_round (a, b, c, d, e, f, g, h) (k, w) =
     (let t1 = h + big_sigma1 e + sha_ch e f g + k + w;
          t2 = big_sigma0 a + sha_maj a b c
      in (t1 + t2, a, b, c, d + t1, e, f, g))"

fun sha_add :: "sha_state \<Rightarrow> sha_state \<Rightarrow> sha_state" where
  "sha_add (a, b, c, d, e, f, g, h) (a', b', c', d', e', f', g', h') =
     (a + a', b + b', c + c', d + d', e + e', f + f', g + g', h + h')"

definition sha_block :: "sha_state \<Rightarrow> w32 list \<Rightarrow> sha_state" where
  "sha_block st ws = sha_add st (foldl sha_round st (zip sha_k (sha_extend 48 ws)))"

fun be_words :: "nat list \<Rightarrow> w32 list" where
  "be_words (a # b # c # d # r) =
     word_of_nat (a * 16777216 + b * 65536 + c * 256 + d) # be_words r"
| "be_words _ = []"

fun be_bytes :: "nat \<Rightarrow> nat \<Rightarrow> nat list" where
  "be_bytes 0 n = []"
| "be_bytes (Suc k) n = be_bytes k (n div 256) @ [n mod 256]"

definition sha_pad :: "nat list \<Rightarrow> nat list" where
  "sha_pad m = (let l = length m in
     m @ [128] @ replicate ((119 - l mod 64) mod 64) 0 @ be_bytes 8 (8 * l))"

fun sha_blocks :: "nat \<Rightarrow> sha_state \<Rightarrow> w32 list \<Rightarrow> sha_state" where
  "sha_blocks 0 st ws = st"
| "sha_blocks (Suc n) st ws = sha_blocks n (sha_block st (take 16 ws)) (drop 16 ws)"

definition sha256_state :: "string \<Rightarrow> sha_state" where
  "sha256_state s =
     (let ws = be_words (sha_pad (map of_char s)) in sha_blocks (length ws div 16) sha_init ws)"

definition hex_digit :: "nat \<Rightarrow> char" where
  "hex_digit n = (if n < 10 then char_of (48 + n) else char_of (87 + n))"

definition hex_word :: "w32 \<Rightarrow> string" where
  "hex_word w = map (\<lambda>k. hex_digit (unat (drop_bit k w) mod 16)) [28, 24, 20, 16, 12, 8, 4, 0]"

text \<open>\<open>hex.EncodeToString(sha256.Sum256(s))\<close>.\<close>

definition sha256_hex :: "string \<Rightarrow> string" where
  "sha256_hex s =
     (case sha256_state s of (a, b, c, d, e, f, g, h) \<Rightarrow>
        concat (map hex_word [a, b, c, d, e, f, g, h]))"

lemma cube_root_floor:
  "r ^ 3 \<le> n \<Longrightarrow> n < (r + 2 ^ b) ^ 3 \<Longrightarrow>
     cube_root b n r ^ 3 \<le> n \<and> n < (cube_root b n r + 1) ^ 3"
proof (induction b n r rule: cube_root.induct)
  case (2 b n r)
  then show ?case by (cases "(r + 2 ^ b) ^ 3 \<le> n") (simp_all add: mult_2 add.assoc)
qed simp

lemma length_sha256_hex [simp]: "length (sha256_hex s) = 64"
  by (simp add: sha256_hex_def hex_word_def split: prod.splits)

lemma hex_digit_range: "n < 16 \<Longrightarrow> hex_digit n \<in> set ''0123456789abcdef''"
proof -
  assume "n < 16"
  then have "n \<in> set [0..<16]" by simp
  moreover have "\<forall>n \<in> set [0..<16]. hex_digit n \<in> set ''0123456789abcdef''"
    by code_simp
  ultimately show ?thesis by blast
qed

text \<open>Every character of a digest is a lower-case hexadecimal digit.\<close>

lemma hex_word_digits: "set (hex_word w) \<subseteq> set ''0123456789abcdef''"
  unfolding hex_word_def set_map
  by (rule image_subsetI) (rule hex_digit_range, simp)

lemma sha256_hex_digits: "set (sha256_hex s) \<subseteq> set ''0123456789abcdef''"
proof -
  have "set (concat (map hex_word ws)) \<subseteq> set ''0123456789abcdef''" for ws
    unfolding set_concat set_map using hex_word_digits by blast
  then show ?thesis unfolding sha256_hex_def by (auto simp only: split: prod.splits)
qed

text \<open>The padded message is a whole number of 64-byte blocks.\<close>

lemma length_be_bytes [simp]: "length (be_bytes k n) = k"
  by (induction k arbitrary: n) auto

lemma sha_pad_blocks: "length (sha_pad m) mod 64 = 0"
proof -
  have pad: "(119 - r) mod 64 = (if r \<le> 55 then 55 - r else 119 - r)" if "r < 64" for r :: nat
    using that by (simp add: mod_if)
  have "(r + (1 + ((119 - r) mod 64 + 8))) mod 64 = 0" if "r < 64" for r :: nat
    using that by (simp add: pad)
  then have "(l mod 64 + (1 + ((119 - l mod 64) mod 64 + 8))) mod 64 = 0" for l :: nat
    by simp
  then have "(l + (1 + ((119 - l mod 64) mod 64 + 8))) mod 64 = 0" for l :: nat
    by (metis mod_add_left_eq)
  then show ?thesis by (simp add: sha_pad_def Let_def)
qed

end
