(* ===== verification/Verdict_Gate.thy ===== *)
theory Verdict_Gate
  imports Job_State Content_Gate Sha256
begin

text \<open>
  The gates of \<open>internal/job/verdict.go\<close>: the tamper-evident verdict and spec
  sign-off, the self-merge predicate, and the two pure gates \<open>EvaluateGate\<close>
  (code review) and \<open>EvaluateSpecGate\<close> (spec review).  A claim is a worker's
  untrusted string, so its type has the constructor \<open>VerdictOther\<close> for any
  string but the source's constants (the empty one included).
\<close>

section \<open>Claims, dispositions, verdicts\<close>

datatype VerdictValue =
    VerdictApproved | VerdictChangesRequested | VerdictSignedOff | VerdictAmended
  | VerdictNeedsDesign | VerdictOther string

fun verdict_str :: "VerdictValue \<Rightarrow> string" where
  "verdict_str VerdictApproved = ''approved''"
| "verdict_str VerdictChangesRequested = ''changes_requested''"
| "verdict_str VerdictSignedOff = ''signed_off''"
| "verdict_str VerdictAmended = ''amended''"
| "verdict_str VerdictNeedsDesign = ''needs_design''"
| "verdict_str (VerdictOther s) = s"

datatype Disposition = DispositionSelfMerge | DispositionHandoff | DispositionOther string

fun disposition_str :: "Disposition \<Rightarrow> string" where
  "disposition_str DispositionSelfMerge = ''self_merge''"
| "disposition_str DispositionHandoff = ''handoff''"
| "disposition_str (DispositionOther s) = s"

record Verdict =
  vValue :: VerdictValue
  vDisposition :: Disposition
  vHeadSHA :: string
  vBaseSHA :: string
  vProvenance :: string
  vTamperEvident :: bool
  vIntegrityHash :: string

text \<open>One length-prefixed field: \<open>%d:%s\n\<close>.\<close>

definition enc_field :: "string \<Rightarrow> string" where
  "enc_field f = dec_nat (length f) @ CHR '':'' # f @ [newline]"

definition verdict_encoding :: "Verdict \<Rightarrow> string" where
  "verdict_encoding v =
     ''flowbee-verdict-v1'' @ [newline]
     @ concat (map enc_field
         [verdict_str (vValue v), disposition_str (vDisposition v), vHeadSHA v, vBaseSHA v, vProvenance v])"

definition verdict_computeHash :: "Verdict \<Rightarrow> string" where
  "verdict_computeHash v = ''sha256:'' @ sha256_hex (verdict_encoding v)"

definition MintVerdict :: "VerdictValue \<Rightarrow> Disposition \<Rightarrow> string \<Rightarrow> string \<Rightarrow> Verdict" where
  "MintVerdict value disp headSHA baseSHA =
     (let v = \<lparr>vValue = value, vDisposition = disp, vHeadSHA = headSHA, vBaseSHA = baseSHA,
               vProvenance = ''reconciled'', vTamperEvident = True, vIntegrityHash = []\<rparr>
      in v\<lparr>vIntegrityHash := verdict_computeHash v\<rparr>)"

definition verdict_Verify :: "Verdict \<Rightarrow> string \<Rightarrow> string \<Rightarrow> bool" where
  "verdict_Verify v headSHA baseSHA =
     (if \<not> vTamperEvident v \<or> vProvenance v \<noteq> ''reconciled'' then False
      else if vIntegrityHash v \<noteq> verdict_computeHash v then False
      else vHeadSHA v = headSHA \<and> vBaseSHA v = baseSHA)"

record SpecSignoff =
  sValue :: VerdictValue
  sSpecHash :: string
  sSpecVersion :: int
  sReviewerLens :: string
  sProvenance :: string
  sTamperEvident :: bool
  sIntegrityHash :: string

definition signoff_encoding :: "SpecSignoff \<Rightarrow> string" where
  "signoff_encoding s =
     ''flowbee-spec-signoff-v1'' @ [newline]
     @ enc_field (verdict_str (sValue s)) @ enc_field (sSpecHash s)
     @ ''version:'' @ dec_int (sSpecVersion s) @ [newline]
     @ enc_field (sReviewerLens s) @ enc_field (sProvenance s)"

definition signoff_computeHash :: "SpecSignoff \<Rightarrow> string" where
  "signoff_computeHash s = ''sha256:'' @ sha256_hex (signoff_encoding s)"

definition MintSpecSignoff :: "string \<Rightarrow> int \<Rightarrow> string \<Rightarrow> SpecSignoff" where
  "MintSpecSignoff specHash version lens =
     (let s = \<lparr>sValue = VerdictSignedOff, sSpecHash = specHash, sSpecVersion = version,
               sReviewerLens = lens, sProvenance = ''minted'', sTamperEvident = True,
               sIntegrityHash = []\<rparr>
      in s\<lparr>sIntegrityHash := signoff_computeHash s\<rparr>)"

definition signoff_Verify :: "SpecSignoff \<Rightarrow> string \<Rightarrow> bool" where
  "signoff_Verify s currentSpecHash =
     (if \<not> sTamperEvident s \<or> sProvenance s \<noteq> ''minted'' then False
      else if sIntegrityHash s \<noteq> signoff_computeHash s then False
      else sSpecHash s = currentSpecHash)"

section \<open>The interface of a hash-bound record\<close>

text \<open>
  What both records promise: the stored hash covers an encoding from which the
  bound facts can be read back, and verification recomputes it.  Two verified
  records with one stored hash carry the same facts, or exhibit two different
  inputs on which SHA-256 collides.
\<close>

locale hash_bound =
  fixes encode :: "'r \<Rightarrow> string" and facts :: "'r \<Rightarrow> 'f" and stored :: "'r \<Rightarrow> string"
    and verify :: "'r \<Rightarrow> 'k \<Rightarrow> bool" and key :: "'r \<Rightarrow> 'k"
  assumes encode_facts: "encode r = encode s \<Longrightarrow> facts r = facts s"
    and verify_stored: "verify r k \<Longrightarrow> stored r = ''sha256:'' @ sha256_hex (encode r)"
    and verify_key: "verify r k \<Longrightarrow> key r = k"
begin

lemma one_key: "verify r k \<Longrightarrow> verify r l \<Longrightarrow> k = l"
  using verify_key by blast

lemma tamper_evident:
  assumes "verify r k" and "verify s l" and "stored r = stored s"
  shows "facts r = facts s \<or> (encode r \<noteq> encode s \<and> sha256_hex (encode r) = sha256_hex (encode s))"
proof (cases "encode r = encode s")
  case True
  then show ?thesis by (rule disjI1 [OF encode_facts])
next
  case False
  have "''sha256:'' @ sha256_hex (encode r) = ''sha256:'' @ sha256_hex (encode s)"
    using verify_stored [OF assms(1)] verify_stored [OF assms(2)] assms(3) by (simp only:)
  with False show ?thesis by (simp only: append_same_eq same_append_eq simp_thms)
qed

end

lemma enc_field_inj:
  assumes "enc_field f @ r = enc_field g @ r'"
  shows "f = g \<and> r = r'"
proof -
  have eq: "dec_nat (length f) @ CHR '':'' # (f @ newline # r)
      = dec_nat (length g) @ CHR '':'' # (g @ newline # r')"
    using assms by (simp only: enc_field_def append.simps append_assoc)
  have "length f = length g \<and> f @ newline # r = g @ newline # r'"
    by (rule dec_nat_sep_inj [OF not_digit_colon eq])
  then have len: "length f = length g" and tl: "f @ newline # r = g @ newline # r'" by blast+
  show ?thesis using tl append_eq_append_conv [OF disjI1 [OF len]] by blast
qed

lemma enc_field_last: "enc_field f = enc_field g \<Longrightarrow> f = g"
  using enc_field_inj [of f "[]" g "[]"] by simp

type_synonym verdict_facts = "string \<times> string \<times> string \<times> string \<times> string"

definition verdict_facts_of :: "Verdict \<Rightarrow> verdict_facts" where
  "verdict_facts_of v =
     (verdict_str (vValue v), disposition_str (vDisposition v), vHeadSHA v, vBaseSHA v, vProvenance v)"

lemma verdict_encoding_facts:
  "verdict_encoding v = verdict_encoding w \<Longrightarrow> verdict_facts_of v = verdict_facts_of w"
  by (simp add: verdict_encoding_def verdict_facts_of_def)
    (metis enc_field_inj enc_field_last)

definition signoff_facts_of :: "SpecSignoff \<Rightarrow> string \<times> string \<times> int \<times> string \<times> string" where
  "signoff_facts_of s =
     (verdict_str (sValue s), sSpecHash s, sSpecVersion s, sReviewerLens s, sProvenance s)"

lemma signoff_encoding_facts:
  assumes "signoff_encoding s = signoff_encoding t"
  shows "signoff_facts_of s = signoff_facts_of t"
proof -
  let ?tail = "\<lambda>s. enc_field (sReviewerLens s) @ enc_field (sProvenance s)"
  have "enc_field (verdict_str (sValue s)) @ enc_field (sSpecHash s)
      @ ''version:'' @ dec_int (sSpecVersion s) @ newline # ?tail s
      = enc_field (verdict_str (sValue t)) @ enc_field (sSpecHash t)
      @ ''version:'' @ dec_int (sSpecVersion t) @ newline # ?tail t"
    using assms by (simp add: signoff_encoding_def)
  then have "verdict_str (sValue s) = verdict_str (sValue t)" "sSpecHash s = sSpecHash t"
    and v: "dec_int (sSpecVersion s) @ newline # ?tail s = dec_int (sSpecVersion t) @ newline # ?tail t"
    by (auto dest!: enc_field_inj)
  moreover have "sSpecVersion s = sSpecVersion t" and t: "?tail s = ?tail t"
    using dec_int_sep_inj [OF not_digit_newline v] by auto
  moreover from t have "sReviewerLens s = sReviewerLens t" "sProvenance s = sProvenance t"
    using enc_field_inj enc_field_last by blast+
  ultimately show ?thesis by (simp add: signoff_facts_of_def)
qed

lemma verdict_Verify_iff:
  "verdict_Verify v h b \<longleftrightarrow>
     vTamperEvident v \<and> vProvenance v = ''reconciled'' \<and> vIntegrityHash v = verdict_computeHash v
     \<and> vHeadSHA v = h \<and> vBaseSHA v = b"
  unfolding verdict_Verify_def by meson

lemma signoff_Verify_iff:
  "signoff_Verify s h \<longleftrightarrow>
     sTamperEvident s \<and> sProvenance s = ''minted'' \<and> sIntegrityHash s = signoff_computeHash s
     \<and> sSpecHash s = h"
  unfolding signoff_Verify_def by meson

interpretation vd: hash_bound verdict_encoding verdict_facts_of vIntegrityHash
  "\<lambda>v (h, b). verdict_Verify v h b" "\<lambda>v. (vHeadSHA v, vBaseSHA v)"
proof
  show "verdict_encoding r = verdict_encoding s \<Longrightarrow> verdict_facts_of r = verdict_facts_of s" for r s
    by (rule verdict_encoding_facts)
  show "vIntegrityHash r = ''sha256:'' @ sha256_hex (verdict_encoding r)"
    and "(vHeadSHA r, vBaseSHA r) = k"
    if "case k of (h, b) \<Rightarrow> verdict_Verify r h b" for r k
    using that by (cases k; simp only: prod.case verdict_Verify_iff verdict_computeHash_def)+
qed

interpretation so: hash_bound signoff_encoding signoff_facts_of sIntegrityHash
  signoff_Verify sSpecHash
proof
  show "signoff_encoding r = signoff_encoding s \<Longrightarrow> signoff_facts_of r = signoff_facts_of s" for r s
    by (rule signoff_encoding_facts)
  show "sIntegrityHash r = ''sha256:'' @ sha256_hex (signoff_encoding r)" and "sSpecHash r = k"
    if "signoff_Verify r k" for r k
    using that by (simp_all only: signoff_Verify_iff signoff_computeHash_def)
qed

lemma MintVerdict_sel [simp]:
  "vValue (MintVerdict v d h b) = v" "vDisposition (MintVerdict v d h b) = d"
  "vHeadSHA (MintVerdict v d h b) = h" "vBaseSHA (MintVerdict v d h b) = b"
  "vProvenance (MintVerdict v d h b) = ''reconciled''" "vTamperEvident (MintVerdict v d h b)"
  by (simp_all add: MintVerdict_def Let_def)

lemma MintVerdict_hash [simp]:
  "vIntegrityHash (MintVerdict v d h b) = verdict_computeHash (MintVerdict v d h b)"
  by (simp add: MintVerdict_def Let_def verdict_computeHash_def verdict_encoding_def)

lemma Verify_MintVerdict [simp]: "verdict_Verify (MintVerdict v d h b) h' b' \<longleftrightarrow> h = h' \<and> b = b'"
  by (simp add: verdict_Verify_iff)

lemma Verify_MintSpecSignoff [simp]: "signoff_Verify (MintSpecSignoff h n l) h' \<longleftrightarrow> h = h'"
  by (simp add: signoff_Verify_iff MintSpecSignoff_def Let_def signoff_computeHash_def
      signoff_encoding_def)

text \<open>
  Property C38: a verdict is bound to its SHA pair and tamper evident.  A minted
  verdict verifies for exactly the head and base it was minted for; and if two
  verdicts with the same integrity hash verify (for whatever pairs), they agree
  on value, disposition, head and base, or their encodings are a SHA-256
  collision.
\<close>

theorem verdict_binding:
  "(verdict_Verify (MintVerdict val d h b) h' b' \<longleftrightarrow> h = h' \<and> b = b')
   \<and> (verdict_Verify v h1 b1 \<longrightarrow> verdict_Verify w h2 b2 \<longrightarrow> vIntegrityHash v = vIntegrityHash w \<longrightarrow>
        verdict_facts_of v = verdict_facts_of w \<and> h1 = h2 \<and> b1 = b2
        \<or> verdict_encoding v \<noteq> verdict_encoding w
          \<and> sha256_hex (verdict_encoding v) = sha256_hex (verdict_encoding w))"
proof (intro conjI impI)
  show "verdict_Verify (MintVerdict val d h b) h' b' \<longleftrightarrow> h = h' \<and> b = b'" by simp
next
  assume v: "verdict_Verify v h1 b1" and w: "verdict_Verify w h2 b2"
    and eq: "vIntegrityHash v = vIntegrityHash w"
  have "vHeadSHA v = h1 \<and> vBaseSHA v = b1" "vHeadSHA w = h2 \<and> vBaseSHA w = b2"
    using vd.verify_key [of v "(h1, b1)"] vd.verify_key [of w "(h2, b2)"] v w by simp_all
  then show "verdict_facts_of v = verdict_facts_of w \<and> h1 = h2 \<and> b1 = b2
        \<or> verdict_encoding v \<noteq> verdict_encoding w
          \<and> sha256_hex (verdict_encoding v) = sha256_hex (verdict_encoding w)"
    using vd.tamper_evident [of v "(h1, b1)" w "(h2, b2)"] v w eq
    by (auto simp: verdict_facts_of_def)
qed

definition sample_verdict :: "string \<Rightarrow> Verdict" where
  "sample_verdict h = MintVerdict VerdictApproved DispositionHandoff h ''b1''"

theorem verdict_binding_witness:
  "verdict_Verify (sample_verdict ''h1'') ''h1'' ''b1''
   \<and> \<not> verdict_Verify (sample_verdict ''h1'') ''h2'' ''b1''
   \<and> verdict_facts_of (sample_verdict ''h1'') = verdict_facts_of (sample_verdict ''h1'')"
  using verdict_binding [of VerdictApproved DispositionHandoff "''h1''" "''b1''" "''h1''" "''b1''"
      "sample_verdict ''h1''" "''h1''" "''b1''" "sample_verdict ''h1''" "''h1''" "''b1''"]
    verdict_binding [of VerdictApproved DispositionHandoff "''h1''" "''b1''" "''h2''" "''b1''"]
  by (simp add: sample_verdict_def)

text \<open>
  Beside the properties: the same for a spec sign-off and its content hash.
\<close>

theorem signoff_binding:
  "(signoff_Verify (MintSpecSignoff h n l) h' \<longleftrightarrow> h = h')
   \<and> (signoff_Verify s h1 \<longrightarrow> signoff_Verify t h2 \<longrightarrow> sIntegrityHash s = sIntegrityHash t \<longrightarrow>
        signoff_facts_of s = signoff_facts_of t \<and> h1 = h2
        \<or> signoff_encoding s \<noteq> signoff_encoding t
          \<and> sha256_hex (signoff_encoding s) = sha256_hex (signoff_encoding t))"
proof (intro conjI impI)
  show "signoff_Verify (MintSpecSignoff h n l) h' \<longleftrightarrow> h = h'" by simp
next
  assume s: "signoff_Verify s h1" and t: "signoff_Verify t h2"
    and eq: "sIntegrityHash s = sIntegrityHash t"
  then have "sSpecHash s = h1" "sSpecHash t = h2"
    using so.verify_key by blast+
  then show "signoff_facts_of s = signoff_facts_of t \<and> h1 = h2
        \<or> signoff_encoding s \<noteq> signoff_encoding t
          \<and> sha256_hex (signoff_encoding s) = sha256_hex (signoff_encoding t)"
    using so.tamper_evident [OF s t eq] by (auto simp: signoff_facts_of_def)
qed

theorem signoff_binding_witness:
  "signoff_Verify (MintSpecSignoff ''h1'' 3 ''security'') ''h1''
   \<and> \<not> signoff_Verify (MintSpecSignoff ''h1'' 3 ''security'') ''h2''"
  using signoff_binding [of "''h1''" 3 "''security''" "''h1''"]
    signoff_binding [of "''h1''" 3 "''security''" "''h2''"]
  by simp

end
