(* ===== verification/Review_Gate.thy ===== *)
theory Review_Gate
  imports Verdict_Gate
begin

text \<open>
  The two pure gates of \<open>internal/job/verdict.go\<close>: \<open>EvaluateGate\<close> (code review)
  turns a reviewer's claim and the reconciled GitHub facts into an approval, a
  bounce or a human escalation; \<open>EvaluateSpecGate\<close> does so for a spec and its
  content hash.  The lemmas show when a verdict or a sign-off is minted, when
  an unattended merge is permitted, and that rework is bounded.
\<close>

section \<open>Inputs\<close>

record Policy =
  AllowSelfMerge :: bool
  RequiredReviewers :: int

definition RequiredReviewersOrDefault :: "Policy \<Rightarrow> int" where
  "RequiredReviewersOrDefault p = (if RequiredReviewers p < 1 then 1 else RequiredReviewers p)"

record DomainBFacts =
  dbPRExists :: bool
  dbPRNumber :: int
  dbHeadSHA :: string
  dbBaseSHA :: string
  dbCIGreen :: bool
  dbMerged :: bool
  dbMergeableState :: string

record GateInputs =
  giClaim :: VerdictValue
  giDisp :: Disposition
  giFacts :: DomainBFacts
  giBounces :: int
  giMaxBounce :: int
  giReviewerRejections :: int
  giPolicy :: Policy
  giContent :: "ContentResult option"

record GateOutcome =
  goTrigger :: Trigger
  goVerdict :: "Verdict option"
  goReason :: string

section \<open>The code-review gate\<close>

definition gatePredicate :: "DomainBFacts \<Rightarrow> bool" where
  "gatePredicate f =
     (dbPRExists f \<and> dbCIGreen f \<and> \<not> dbMerged f \<and> dbHeadSHA f \<noteq> [] \<and> dbBaseSHA f \<noteq> [])"

definition MergeReady :: "DomainBFacts \<Rightarrow> bool" where
  "MergeReady f = (gatePredicate f \<and> \<not> EqualFold (dbMergeableState f) ''unknown'')"

definition SelfMergeEligible ::
  "Verdict \<Rightarrow> DomainBFacts \<Rightarrow> ContentResult option \<Rightarrow> Policy \<Rightarrow> bool" where
  "SelfMergeEligible v gh chk p =
     (if \<not> AllowSelfMerge p then False
      else case chk of
        None \<Rightarrow> False
      | Some c \<Rightarrow>
          if \<not> Eligible c then False
          else if \<not> MergeReady gh then False
          else verdict_Verify v (dbHeadSHA gh) (dbBaseSHA gh))"

text \<open>The two bytes of the section sign in the source's UTF-8 literals.\<close>

definition section_sign :: string where
  "section_sign = [CHR 0xC2, CHR 0xA7]"

definition denyReason :: "ContentResult option \<Rightarrow> Policy \<Rightarrow> string" where
  "denyReason chk p =
     (if \<not> AllowSelfMerge p then ''policy human-merge gate is ON (Branch A)''
      else case chk of
        None \<Rightarrow> ''no content-integrity gate ran (untrusted diff not cleared)''
      | Some c \<Rightarrow>
          if \<not> rDenylistClear c
          then ''denylisted path touched (forced human gate, '' @ section_sign @ ''9.2a)''
          else if \<not> rBlastRadiusConsistent c
          then ''declared blast-radius does not match the actual diff (tamper signal, ''
               @ section_sign @ ''9.2b)''
          else if \<not> rStaticChecksPass c
          then ''deterministic static checks failed ('' @ section_sign @ ''9.2c)''
          else ''SHA moved since review (binding superseded)'')"

definition MaxReviewerRejections :: int where
  "MaxReviewerRejections = 6"

definition outcome :: "Trigger \<Rightarrow> string \<Rightarrow> GateOutcome" where
  "outcome t r = \<lparr>goTrigger = t, goVerdict = None, goReason = r\<rparr>"

definition gate_changes_requested :: "GateInputs \<Rightarrow> GateOutcome" where
  "gate_changes_requested i =
     (if giReviewerRejections i + 1 \<ge> MaxReviewerRejections
      then outcome TriggerBounceExhausted ''max_reviewer_rejections reached''
      else if giBounces i + 1 \<ge> giMaxBounce i
      then outcome TriggerBounceExhausted ''max_bounces reached''
      else outcome TriggerBounce ''changes_requested'')"

definition gate_approved :: "GateInputs \<Rightarrow> GateOutcome" where
  "gate_approved i =
     (if \<not> gatePredicate (giFacts i) then
        (if giBounces i + 1 \<ge> giMaxBounce i
         then outcome TriggerBounceExhausted ''approval claim failed reconciliation''
         else outcome TriggerBounce
           ''approval claim failed reconciliation (CI not green / PR drift)'')
      else
        (let h = dbHeadSHA (giFacts i); b = dbBaseSHA (giFacts i);
             provisional = MintVerdict VerdictApproved DispositionSelfMerge h b;
             (disp, reason) =
               (if giDisp i = DispositionSelfMerge
                    \<and> SelfMergeEligible provisional (giFacts i) (giContent i) (giPolicy i)
                then (DispositionSelfMerge,
                  ''approved from reconciled facts -> self_merge eligible (denylist-clear, blast-radius-consistent, static-checks-green)'')
                else if giDisp i = DispositionSelfMerge
                then (DispositionHandoff,
                  ''self_merge requested but '' @ denyReason (giContent i) (giPolicy i))
                else (DispositionHandoff, ''approved from reconciled facts -> handoff''))
         in \<lparr>goTrigger = TriggerApproved, goVerdict = Some (MintVerdict VerdictApproved disp h b),
             goReason = reason\<rparr>))"

definition gate_other :: "GateInputs \<Rightarrow> GateOutcome" where
  "gate_other i =
     (if giBounces i + 1 \<ge> giMaxBounce i
      then outcome TriggerBounceExhausted ''no valid verdict claim''
      else outcome TriggerBounce ''no valid verdict claim'')"

definition EvaluateGate :: "GateInputs \<Rightarrow> GateOutcome" where
  "EvaluateGate i =
     (case giClaim i of
        VerdictChangesRequested \<Rightarrow> gate_changes_requested i
      | VerdictApproved \<Rightarrow> gate_approved i
      | _ \<Rightarrow> gate_other i)"

section \<open>The spec gate\<close>

record SpecGateInputs =
  siClaim :: VerdictValue
  siClaimBindsTo :: string
  siMeetsStyle :: bool
  siMeetsRequirements :: bool
  siCurrentSpecHash :: string
  siSpecVersion :: int
  siReviewerLens :: string
  siAuthorLens :: string
  siBounces :: int
  siMaxBounce :: int
  siReviewerRejections :: int
  siAmendedHash :: string
  siAmendedVersion :: int

record SpecGateOutcome =
  soTrigger :: Trigger
  soSignoff :: "SpecSignoff option"
  soAmendedHash :: string
  soAmendedVersion :: int
  soReason :: string

definition spec_outcome :: "Trigger \<Rightarrow> string \<Rightarrow> SpecGateOutcome" where
  "spec_outcome t r =
     \<lparr>soTrigger = t, soSignoff = None, soAmendedHash = [], soAmendedVersion = 0, soReason = r\<rparr>"

definition EvaluateSpecGate :: "SpecGateInputs \<Rightarrow> SpecGateOutcome" where
  "EvaluateSpecGate i =
     (if siClaimBindsTo i \<noteq> siCurrentSpecHash i
      then spec_outcome TriggerSpecSuperseded ''claim binds to a stale spec_content_hash''
      else if siAuthorLens i \<noteq> [] \<and> siReviewerLens i = siAuthorLens i
      then spec_outcome TriggerBounce
        (''reviewer lens must differ from author lens ('' @ section_sign @ ''5.5)'')
      else if siClaim i = VerdictNeedsDesign
      then spec_outcome TriggerSpecNeedsDesign ''needs human design input (design fork)''
      else if siClaim i = VerdictAmended \<and> siAmendedHash i \<noteq> []
        \<and> siAmendedHash i \<noteq> siCurrentSpecHash i
      then \<lparr>soTrigger = TriggerSpecAmended,
            soSignoff = Some (MintSpecSignoff (siAmendedHash i) (siAmendedVersion i) (siReviewerLens i)),
            soAmendedHash = siAmendedHash i, soAmendedVersion = siAmendedVersion i,
            soReason = ''amended in place + signed off from amended bytes (F4)''\<rparr>
      else if siClaim i = VerdictSignedOff \<and> siMeetsStyle i \<and> siMeetsRequirements i
      then \<lparr>soTrigger = TriggerSpecSignedOff,
            soSignoff = Some (MintSpecSignoff (siCurrentSpecHash i) (siSpecVersion i) (siReviewerLens i)),
            soAmendedHash = [], soAmendedVersion = 0,
            soReason = ''signed off from reviewed bytes''\<rparr>
      else if siReviewerRejections i + 1 \<ge> MaxReviewerRejections
      then spec_outcome TriggerBounceExhausted ''max_reviewer_rejections reached''
      else if siBounces i + 1 \<ge> siMaxBounce i
      then spec_outcome TriggerBounceExhausted ''max_bounces reached''
      else spec_outcome TriggerBounce ''changes_requested (conjunction not met)'')"

section \<open>What the code gate mints\<close>

lemma outcome_sel [simp]:
  "goTrigger (outcome t r) = t" "goVerdict (outcome t r) = None" "goReason (outcome t r) = r"
  by (simp_all add: outcome_def)

lemma spec_outcome_sel [simp]:
  "soTrigger (spec_outcome t r) = t" "soSignoff (spec_outcome t r) = None"
  by (simp_all add: spec_outcome_def)

text \<open>The disposition an approval gets: the four conditions of an unattended merge.\<close>

definition self_merge_granted :: "GateInputs \<Rightarrow> bool" where
  "self_merge_granted i \<longleftrightarrow>
     giDisp i = DispositionSelfMerge \<and> AllowSelfMerge (giPolicy i)
     \<and> (\<exists>c. giContent i = Some c \<and> Eligible c) \<and> MergeReady (giFacts i)"

lemma SelfMergeEligible_iff:
  "SelfMergeEligible v f chk p \<longleftrightarrow>
     AllowSelfMerge p \<and> (\<exists>c. chk = Some c \<and> Eligible c) \<and> MergeReady f
     \<and> verdict_Verify v (dbHeadSHA f) (dbBaseSHA f)"
  by (auto simp: SelfMergeEligible_def split: option.splits)

lemma gate_approved_green:
  assumes "gatePredicate (giFacts i)"
  shows "goTrigger (gate_approved i) = TriggerApproved"
    and "goVerdict (gate_approved i) =
      Some (MintVerdict VerdictApproved
        (if self_merge_granted i then DispositionSelfMerge else DispositionHandoff)
        (dbHeadSHA (giFacts i)) (dbBaseSHA (giFacts i)))"
proof -
  let ?i = "self_merge_granted i"
  have "SelfMergeEligible (MintVerdict VerdictApproved DispositionSelfMerge
        (dbHeadSHA (giFacts i)) (dbBaseSHA (giFacts i))) (giFacts i) (giContent i) (giPolicy i)
      \<and> giDisp i = DispositionSelfMerge \<longleftrightarrow> ?i"
    by (auto simp: SelfMergeEligible_iff self_merge_granted_def)
  then show "goTrigger (gate_approved i) = TriggerApproved"
    and "goVerdict (gate_approved i) =
      Some (MintVerdict VerdictApproved (if ?i then DispositionSelfMerge else DispositionHandoff)
        (dbHeadSHA (giFacts i)) (dbBaseSHA (giFacts i)))"
    using assms by (auto simp: gate_approved_def Let_def)
qed

lemma gate_approved_red:
  assumes "\<not> gatePredicate (giFacts i)"
  shows "goVerdict (gate_approved i) = None"
    and "goTrigger (gate_approved i) =
      (if giBounces i + 1 \<ge> giMaxBounce i then TriggerBounceExhausted else TriggerBounce)"
  using assms by (simp_all add: gate_approved_def)

lemma EvaluateGate_verdict:
  "goVerdict (EvaluateGate i) =
     (if giClaim i = VerdictApproved \<and> gatePredicate (giFacts i)
      then Some (MintVerdict VerdictApproved
        (if self_merge_granted i then DispositionSelfMerge else DispositionHandoff)
        (dbHeadSHA (giFacts i)) (dbBaseSHA (giFacts i)))
      else None)"
  by (cases "giClaim i")
    (simp_all add: EvaluateGate_def gate_approved_green gate_approved_red gate_other_def
      gate_changes_requested_def)

lemma EvaluateGate_trigger:
  "goTrigger (EvaluateGate i) =
     (if giClaim i = VerdictApproved \<and> gatePredicate (giFacts i) then TriggerApproved
      else if giBounces i + 1 \<ge> giMaxBounce i
        \<or> giClaim i = VerdictChangesRequested \<and> giReviewerRejections i + 1 \<ge> MaxReviewerRejections
      then TriggerBounceExhausted else TriggerBounce)"
  by (cases "giClaim i"; cases "gatePredicate (giFacts i)")
    (simp_all add: EvaluateGate_def gate_approved_green gate_approved_red gate_other_def
      gate_changes_requested_def)

text \<open>
  Property C1: a claim is never a verdict.  The gate approves iff the reviewer
  claims \<open>approved\<close> and the reconciled facts are green (an open PR, CI green, both
  SHAs present); a verdict exists iff the gate approved, and it verifies for the
  reconciled head and base and for no other pair, whatever the worker said.
\<close>

theorem verdict_only_from_green_facts:
  "(goTrigger (EvaluateGate i) = TriggerApproved
      \<longleftrightarrow> giClaim i = VerdictApproved \<and> dbPRExists (giFacts i) \<and> dbCIGreen (giFacts i)
        \<and> \<not> dbMerged (giFacts i) \<and> dbHeadSHA (giFacts i) \<noteq> [] \<and> dbBaseSHA (giFacts i) \<noteq> [])
   \<and> (goVerdict (EvaluateGate i) \<noteq> None \<longleftrightarrow> goTrigger (EvaluateGate i) = TriggerApproved)
   \<and> (\<forall>v. goVerdict (EvaluateGate i) = Some v \<longrightarrow>
        vValue v = VerdictApproved
        \<and> (\<forall>h b. verdict_Verify v h b \<longleftrightarrow> h = dbHeadSHA (giFacts i) \<and> b = dbBaseSHA (giFacts i)))"
  by (auto simp: EvaluateGate_verdict EvaluateGate_trigger gatePredicate_def)

definition green_facts :: DomainBFacts where
  "green_facts = \<lparr>dbPRExists = True, dbPRNumber = 7, dbHeadSHA = ''h1'', dbBaseSHA = ''b1'',
     dbCIGreen = True, dbMerged = False, dbMergeableState = ''CLEAN''\<rparr>"

definition clear_content :: ContentResult where
  "clear_content = \<lparr>rDenylistClear = True, rBlastRadiusConsistent = True, rStaticChecksPass = True,
     rDenylistHits = [], rUndeclaredPaths = [], rStaticFailures = []\<rparr>"

definition sample_gate :: "VerdictValue \<Rightarrow> int \<Rightarrow> GateInputs" where
  "sample_gate c n = \<lparr>giClaim = c, giDisp = DispositionSelfMerge, giFacts = green_facts,
     giBounces = n, giMaxBounce = 4, giReviewerRejections = 0,
     giPolicy = \<lparr>AllowSelfMerge = True, RequiredReviewers = 0\<rparr>, giContent = Some clear_content\<rparr>"

lemma green_facts_ready: "gatePredicate green_facts" "MergeReady green_facts"
  by (code_simp, code_simp)

theorem verdict_only_from_green_facts_witness:
  "\<exists>v. goVerdict (EvaluateGate (sample_gate VerdictApproved 0)) = Some v \<and> verdict_Verify v ''h1'' ''b1''"
proof -
  have "goVerdict (EvaluateGate (sample_gate VerdictApproved 0)) \<noteq> None"
    using verdict_only_from_green_facts [of "sample_gate VerdictApproved 0"]
    by (simp add: sample_gate_def green_facts_def)
  then obtain v where "goVerdict (EvaluateGate (sample_gate VerdictApproved 0)) = Some v" by blast
  then show ?thesis
    using verdict_only_from_green_facts [of "sample_gate VerdictApproved 0"]
    by (simp add: sample_gate_def green_facts_def)
qed

text \<open>
  Property C2: when the gate permits an unattended merge.  The minted verdict
  carries \<open>self_merge\<close> iff the reviewer claimed approval and asked for it, the
  policy allows it, a content check ran and found the diff eligible, and the
  facts are merge-ready (green, and GitHub's mergeability not \<open>unknown\<close> in any
  case); every other approval is a hand-off.
\<close>

theorem self_merge_conditions:
  "(\<exists>v. goVerdict (EvaluateGate i) = Some v \<and> vDisposition v = DispositionSelfMerge)
     \<longleftrightarrow> giClaim i = VerdictApproved \<and> giDisp i = DispositionSelfMerge
        \<and> AllowSelfMerge (giPolicy i) \<and> (\<exists>c. giContent i = Some c \<and> Eligible c)
        \<and> gatePredicate (giFacts i) \<and> ToLower (dbMergeableState (giFacts i)) \<noteq> ''unknown''"
proof -
  have "ToLower ''unknown'' = ''unknown''" by code_simp
  then show ?thesis
    by (auto simp: EvaluateGate_verdict self_merge_granted_def MergeReady_def EqualFold_def)
qed

text \<open>
  Beside the properties: a diff that touches a universal denylist class is never merged
  unattended through the gate.  If the content result is the check's own on a
  patch that touches a path of the CI, lockfile, Dockerfile or secret class, the
  approval (if any) is a hand-off, whatever the claim, policy and content policy.
\<close>

theorem denylisted_diff_hands_off:
  assumes "giContent i = Some (CheckWithPolicy p pol)"
    and "t \<in> set (TouchedPaths (pDiff p))" "normalizePath t \<noteq> []" "\<not> own_source_only t"
    and "goVerdict (EvaluateGate i) = Some v"
  shows "vDisposition v = DispositionHandoff"
proof -
  have "\<not> self_merge_granted i"
    using assms(1) universal_not_clear [OF assms(2-4)] by (simp add: self_merge_granted_def)
  then show ?thesis using assms(5) by (auto simp: EvaluateGate_verdict split: if_splits)
qed

definition workflow_patch :: Patch where
  "workflow_patch =
     \<lparr>pDiff = ''diff --git a/.github/workflows/x.yml b/.github/workflows/x.yml'',
      pBaseSHA = ''b1'', pDeclared = \<lparr>brPaths = [''.github''], brScope = []\<rparr>,
      pAppliesClean = True, pAppliesCleanKnown = True\<rparr>"

lemma workflow_path: "normalizePath ''.github/workflows/x.yml'' = ''.github/workflows/x.yml''"
    "ToLower ''.github/workflows/x.yml'' = ''.github/workflows/x.yml''"
  by (code_simp, code_simp)

lemma workflow_patch_touches: "''.github/workflows/x.yml'' \<in> set (TouchedPaths (pDiff workflow_patch))"
proof -
  have "''diff --git a/'' @ ''.github/workflows/x.yml'' @ '' b/'' @ ''.github/workflows/x.yml''
      \<in> set (lines_of (pDiff workflow_patch))"
    by (simp add: workflow_patch_def lines_of_def)
  from header_path_touched [OF this] show ?thesis
    by (simp add: workflow_path dev_null_def)
qed

theorem denylisted_diff_hands_off_witness:
  "\<exists>v. goVerdict (EvaluateGate (sample_gate VerdictApproved 0
          \<lparr>giContent := Some (CheckWithPolicy workflow_patch
             \<lparr>cpLimits = DefaultLimits, cpExtraDenyPrefixes = [], cpAllowOwnSource = True\<rparr>)\<rparr>)) = Some v
      \<and> vDisposition v = DispositionHandoff" (is "\<exists>v. goVerdict (EvaluateGate ?i) = _ \<and> _")
proof -
  obtain v where v: "goVerdict (EvaluateGate ?i) = Some v"
    by (simp add: EvaluateGate_verdict sample_gate_def green_facts_ready)
  have "\<not> own_source_only ''.github/workflows/x.yml''"
    by (simp add: own_source_only_def workflow_path m_ci_workflow_def)
  then have "vDisposition v = DispositionHandoff"
    using denylisted_diff_hands_off [of ?i workflow_patch
        "\<lparr>cpLimits = DefaultLimits, cpExtraDenyPrefixes = [], cpAllowOwnSource = True\<rparr>"
        "''.github/workflows/x.yml''" v] v workflow_patch_touches
    by (simp add: sample_gate_def workflow_path)
  with v show ?thesis by blast
qed

section \<open>Rework is bounded\<close>

text \<open>
  A history of rejected reviews of one job: review number \<open>k\<close> (from 0) sees \<open>k\<close>
  bounces, and every one of them bounced.
\<close>

definition bounce_run :: "int \<Rightarrow> GateInputs list \<Rightarrow> bool" where
  "bounce_run m is \<longleftrightarrow>
     (\<forall>k < length is. giBounces (is ! k) = int k \<and> giMaxBounce (is ! k) = m
        \<and> goTrigger (EvaluateGate (is ! k)) = TriggerBounce)"

text \<open>
  Beside the properties: rework ends.  A job bounces fewer times than its limit, whoever
  reviews it and whatever they claim: a run of consecutive bounces is shorter
  than \<open>MaxBounce\<close>, and no bounce is granted to a reviewer whose sixth
  rejection of the job this is.
\<close>

theorem rework_is_bounded:
  "(bounce_run m is \<longrightarrow> is \<noteq> [] \<longrightarrow> int (length is) < m)
   \<and> (goTrigger (EvaluateGate i) = TriggerBounce \<longrightarrow> giClaim i = VerdictChangesRequested \<longrightarrow>
        giReviewerRejections i + 1 < 6)"
proof (intro conjI impI)
  assume run: "bounce_run m is" and "is \<noteq> []"
  let ?k = "length is - 1"
  have k: "?k < length is" using \<open>is \<noteq> []\<close> by simp
  with run have "giBounces (is ! ?k) = int ?k" "giMaxBounce (is ! ?k) = m"
    "goTrigger (EvaluateGate (is ! ?k)) = TriggerBounce"
    unfolding bounce_run_def by blast+
  then have "int ?k + 1 < m" by (simp add: EvaluateGate_trigger split: if_splits)
  with k show "int (length is) < m" by linarith
next
  assume "goTrigger (EvaluateGate i) = TriggerBounce" "giClaim i = VerdictChangesRequested"
  then show "giReviewerRejections i + 1 < 6"
    by (auto simp: EvaluateGate_trigger MaxReviewerRejections_def split: if_splits)
qed

theorem rework_is_bounded_witness:
  "bounce_run 4 (map (sample_gate VerdictChangesRequested) [0, 1, 2])
   \<and> int (length (map (sample_gate VerdictChangesRequested) [0, 1, 2])) < 4"
proof -
  have "bounce_run 4 (map (sample_gate VerdictChangesRequested) [0, 1, 2])"
    by (simp add: bounce_run_def All_less_Suc eval_nat_numeral sample_gate_def EvaluateGate_trigger
        MaxReviewerRejections_def)
  then show ?thesis
    using rework_is_bounded [of 4 "map (sample_gate VerdictChangesRequested) [0, 1, 2]"
        "sample_gate VerdictChangesRequested 0"]
    by simp
qed

section \<open>What the spec gate mints\<close>

text \<open>
  Property C37: a sign-off is bound to judged bytes by another lens.  The spec
  gate mints a sign-off iff the claim binds to the current hash, the reviewer's
  lens is not the author's, and either the claim is \<open>signed_off\<close> with both
  sub-checks met, or it is an amendment to new bytes; the sign-off verifies for
  the amended hash in the second case, for the current hash in the first, and
  for nothing else.
\<close>

theorem signoff_only_from_conjunction:
  "(soSignoff (EvaluateSpecGate i) \<noteq> None \<longleftrightarrow>
     siClaimBindsTo i = siCurrentSpecHash i
     \<and> (siAuthorLens i = [] \<or> siReviewerLens i \<noteq> siAuthorLens i)
     \<and> (siClaim i = VerdictSignedOff \<and> siMeetsStyle i \<and> siMeetsRequirements i
        \<or> siClaim i = VerdictAmended \<and> siAmendedHash i \<notin> {[], siCurrentSpecHash i}))
   \<and> (soSignoff (EvaluateSpecGate i) = Some s \<longrightarrow>
        (signoff_Verify s h \<longleftrightarrow>
          h = (if siClaim i = VerdictAmended then siAmendedHash i else siCurrentSpecHash i)))"
  by (auto simp: EvaluateSpecGate_def split: if_splits)

definition sample_spec :: "VerdictValue \<Rightarrow> SpecGateInputs" where
  "sample_spec c = \<lparr>siClaim = c, siClaimBindsTo = ''h1'', siMeetsStyle = True,
     siMeetsRequirements = True, siCurrentSpecHash = ''h1'', siSpecVersion = 3,
     siReviewerLens = ''security'', siAuthorLens = ''product'', siBounces = 0, siMaxBounce = 4,
     siReviewerRejections = 0, siAmendedHash = ''h2'', siAmendedVersion = 4\<rparr>"

theorem signoff_only_from_conjunction_witness:
  "(\<exists>s. soSignoff (EvaluateSpecGate (sample_spec VerdictSignedOff)) = Some s
        \<and> signoff_Verify s ''h1'' \<and> \<not> signoff_Verify s ''h2'')
   \<and> (\<exists>s. soSignoff (EvaluateSpecGate (sample_spec VerdictAmended)) = Some s
        \<and> signoff_Verify s ''h2'' \<and> \<not> signoff_Verify s ''h1'')"
proof -
  obtain s where s: "soSignoff (EvaluateSpecGate (sample_spec VerdictSignedOff)) = Some s"
    using signoff_only_from_conjunction [of "sample_spec VerdictSignedOff"]
    by (auto simp: sample_spec_def)
  obtain t where t: "soSignoff (EvaluateSpecGate (sample_spec VerdictAmended)) = Some t"
    using signoff_only_from_conjunction [of "sample_spec VerdictAmended"]
    by (auto simp: sample_spec_def)
  have "signoff_Verify s ''h1''" "\<not> signoff_Verify s ''h2''"
    using signoff_only_from_conjunction [of "sample_spec VerdictSignedOff" s] s
    by (simp_all add: sample_spec_def)
  moreover have "signoff_Verify t ''h2''" "\<not> signoff_Verify t ''h1''"
    using signoff_only_from_conjunction [of "sample_spec VerdictAmended" t] t
    by (simp_all add: sample_spec_def)
  ultimately show ?thesis using s t by blast
qed

lemma spec_bounce_bounded:
  "soTrigger (EvaluateSpecGate i) = TriggerBounce \<Longrightarrow>
     siReviewerLens i = siAuthorLens i \<and> siAuthorLens i \<noteq> []
     \<or> siBounces i + 1 < siMaxBounce i \<and> siReviewerRejections i + 1 < MaxReviewerRejections"
  by (auto simp: EvaluateSpecGate_def split: if_splits)

text \<open>
  The lens conflict is the one bounce that no limit guards: it is granted at any
  bounce count.
\<close>

lemma spec_lens_bounce_unbounded:
  "siClaimBindsTo i = siCurrentSpecHash i \<Longrightarrow> siAuthorLens i \<noteq> [] \<Longrightarrow>
     siReviewerLens i = siAuthorLens i \<Longrightarrow> soTrigger (EvaluateSpecGate i) = TriggerBounce"
  by (simp add: EvaluateSpecGate_def)

end
