(* ===== verification/Job_Record.thy ===== *)
theory Job_Record
  imports Verdict_Gate
begin

text \<open>
  The job row of \<open>internal/job/job.go\<close> (\<open>Job\<close>, the projection folded from the
  ledger), its counters and defaults, the priority band and the cost-ceiling
  predicate.  Every field of the struct is a field of the record, in the
  source's order and named by the source's name with the prefix \<open>j\<close>.  A
  \<open>time.Time\<close> is its distance from Go's zero time in nanoseconds (so 0 is
  \<open>IsZero\<close>); the \<open>int64\<close> cost meter is a \<open>64 word\<close> read as signed; a nil
  pointer is \<open>None\<close>.
\<close>

type_synonym int64 = "64 word"

record Job =
  jID :: string
  jKind :: Kind
  jFlow :: string
  jStage :: string
  jState :: State
  jRole :: Role
  jRepo :: string
  jChatRef :: string
  jSpecRef :: string
  jParentJob :: string
  jIssueNum :: int
  jPRNumber :: int
  jEpicID :: string
  jIsEpic :: bool
  jEpicReviewed :: bool
  jBaseSHA :: string
  jHeadSHA :: string
  jTaskText :: string
  jSpecText :: string
  jAcceptanceCriteria :: string
  jSpecContentHash :: string
  jSpecVersion :: int
  jSpecSignoff :: "SpecSignoff option"
  jBlockedBy :: "string list"
  jPriority :: int
  jEnqueuedAt :: int
  jRequiredCapabilities :: "string list"
  jLeaseID :: string
  jLeaseEpoch :: int
  jBoundIdentity :: string
  jBoundModelFamily :: string
  jBoundLens :: string
  jLastReviewNotes :: string
  jLastCIFailures :: string
  jDiffEmpty :: bool
  jAttempts :: int
  jMaxAttempts :: int
  jBounces :: int
  jMaxBounces :: int
  jStallRevocations :: int
  jUnblockAttempts :: int
  jLastProgressSHA :: string
  jStuckHint :: string
  jCostTokensIn :: int64
  jCostTokensOut :: int64
  jCostMicroUSD :: int64
  jCostCeilingMicroUSD :: "int64 option"
  jOverBudget :: bool
  jFlowID :: string
  jEscalationReason :: string
  jBuildEpoch :: int
  jMergeProvenance :: string
  jVerdict :: "Verdict option"
  jJobSeq :: int

text \<open>Go's zero value of the struct.\<close>

definition zero_job :: Job where
  "zero_job = \<lparr>
     jID = [], jKind = KindEmpty, jFlow = [], jStage = [], jState = StateEmpty, jRole = RoleEmpty,
     jRepo = [], jChatRef = [], jSpecRef = [], jParentJob = [], jIssueNum = 0, jPRNumber = 0,
     jEpicID = [], jIsEpic = False, jEpicReviewed = False, jBaseSHA = [], jHeadSHA = [],
     jTaskText = [], jSpecText = [], jAcceptanceCriteria = [], jSpecContentHash = [],
     jSpecVersion = 0, jSpecSignoff = None, jBlockedBy = [], jPriority = 0, jEnqueuedAt = 0,
     jRequiredCapabilities = [], jLeaseID = [], jLeaseEpoch = 0, jBoundIdentity = [],
     jBoundModelFamily = [], jBoundLens = [], jLastReviewNotes = [], jLastCIFailures = [],
     jDiffEmpty = False, jAttempts = 0, jMaxAttempts = 0, jBounces = 0, jMaxBounces = 0,
     jStallRevocations = 0, jUnblockAttempts = 0, jLastProgressSHA = [], jStuckHint = [],
     jCostTokensIn = 0, jCostTokensOut = 0, jCostMicroUSD = 0, jCostCeilingMicroUSD = None,
     jOverBudget = False, jFlowID = [], jEscalationReason = [], jBuildEpoch = 0,
     jMergeProvenance = [], jVerdict = None, jJobSeq = 0\<rparr>"

definition DefaultMaxAttempts :: int where "DefaultMaxAttempts = 5"
definition DefaultMaxBounces :: int where "DefaultMaxBounces = 4"

section \<open>The cost ceiling\<close>

definition CostExceeded :: "int64 \<Rightarrow> int64 option \<Rightarrow> bool" where
  "CostExceeded cost maxCost =
     (case maxCost of None \<Rightarrow> False | Some c \<Rightarrow> c \<le>s cost)"

text \<open>
  The meter is added to without an overflow check.  As long as the sum of the
  (non-negative) reports stays below \<open>2 ^ 63\<close> micro-dollars, the comparison is
  the one on the integers; at the boundary it is not.
\<close>

lemma CostExceeded_sint: "CostExceeded c (Some l) \<longleftrightarrow> sint l \<le> sint c"
  by (simp add: CostExceeded_def word_sle_eq)

lemma CostExceeded_sum:
  assumes "0 \<le> sint a" "0 \<le> sint b" "sint a + sint b < 2 ^ 63"
  shows "CostExceeded (a + b) (Some l) \<longleftrightarrow> sint l \<le> sint a + sint b"
proof -
  have "sint (a + b) = sint a + sint b"
    using assms by (simp add: sint_word_ariths signed_take_bit_int_eq_self)
  then show ?thesis by (simp add: CostExceeded_sint)
qed

lemma CostExceeded_wraps: "\<not> CostExceeded (0x7FFFFFFFFFFFFFFF + 1) (Some 1000000)"
  by (simp add: CostExceeded_def word_sle_eq)

section \<open>The priority band\<close>

definition MostUrgentPriority :: int where "MostUrgentPriority = 1"
definition DefaultPriority :: int where "DefaultPriority = 5"
definition LeastUrgentPriority :: int where "LeastUrgentPriority = 10"

definition NormalizePriority :: "int \<Rightarrow> int" where
  "NormalizePriority p =
     (if p = 0 then DefaultPriority
      else if p < MostUrgentPriority then MostUrgentPriority
      else if p > LeastUrgentPriority then LeastUrgentPriority
      else p)"

lemmas priority_defs =
  NormalizePriority_def MostUrgentPriority_def DefaultPriority_def LeastUrgentPriority_def

lemma NormalizePriority_range: "1 \<le> NormalizePriority p \<and> NormalizePriority p \<le> 10"
  by (simp add: priority_defs)

lemma NormalizePriority_fixed: "NormalizePriority p = p \<longleftrightarrow> 1 \<le> p \<and> p \<le> 10"
  by (auto simp: priority_defs)

lemma NormalizePriority_mono:
  "p \<le> q \<Longrightarrow> p \<noteq> 0 \<Longrightarrow> q \<noteq> 0 \<Longrightarrow> NormalizePriority p \<le> NormalizePriority q"
  by (simp add: priority_defs)

section \<open>Capability matching\<close>

fun hasPrefix :: "string list \<Rightarrow> string \<Rightarrow> bool" where
  "hasPrefix [] p = False"
| "hasPrefix (c # caps) p =
     (if length c \<ge> length p \<and> take (length p) c = p then True else hasPrefix caps p)"

fun caps_loop :: "string list \<Rightarrow> string list \<Rightarrow> bool" where
  "caps_loop attested [] = True"
| "caps_loop attested (req # rest) =
     (if req = ''model_family:*'' then
        (if \<not> hasPrefix attested ''model_family:'' then False else caps_loop attested rest)
      else if req \<notin> set attested then False
      else caps_loop attested rest)"

definition CapabilitiesSatisfy :: "string list \<Rightarrow> string list \<Rightarrow> bool" where
  "CapabilitiesSatisfy attested required = caps_loop attested required"

lemma hasPrefix_iff: "hasPrefix caps p \<longleftrightarrow> (\<exists>c \<in> set caps. prefix p c)"
proof (induction caps)
  case (Cons c caps)
  have "length c \<ge> length p \<and> take (length p) c = p \<longleftrightarrow> prefix p c"
    by (metis append_take_drop_id prefixI prefix_length_le prefix_def append_eq_conv_conj)
  with Cons show ?case by simp
qed simp

definition cap_met :: "string list \<Rightarrow> string \<Rightarrow> bool" where
  "cap_met attested req \<longleftrightarrow>
     (if req = ''model_family:*'' then \<exists>c \<in> set attested. prefix ''model_family:'' c
      else req \<in> set attested)"

lemma CapabilitiesSatisfy_iff:
  "CapabilitiesSatisfy attested required \<longleftrightarrow> (\<forall>req \<in> set required. cap_met attested req)"
  unfolding CapabilitiesSatisfy_def
  by (induction required) (auto simp: cap_met_def hasPrefix_iff)

lemma cap_met_mono: "set att \<subseteq> set att' \<Longrightarrow> cap_met att req \<Longrightarrow> cap_met att' req"
  by (auto simp: cap_met_def split: if_splits)

lemma CapabilitiesSatisfy_mono:
  "set att \<subseteq> set att' \<Longrightarrow> set req' \<subseteq> set req \<Longrightarrow>
     CapabilitiesSatisfy att req \<Longrightarrow> CapabilitiesSatisfy att' req'"
  unfolding CapabilitiesSatisfy_iff using cap_met_mono by blast

lemma CapabilitiesSatisfy_append:
  "CapabilitiesSatisfy att (r @ r') \<longleftrightarrow> CapabilitiesSatisfy att r \<and> CapabilitiesSatisfy att r'"
  by (auto simp: CapabilitiesSatisfy_iff)

end
