(* ===== verification/Test_Job.thy ===== *)
theory Test_Job
  imports Job_Record
begin

text \<open>
  \<open>internal/job/testjob.go\<close> (the capability tags a test job needs, derived from
  the declared matrix and the touched paths) and \<open>internal/job/cifact.go\<close> (CI
  green at a head, from either producer).  Go's map used as a set is the list of
  its insertions; sorting the keys removes the duplicates.
\<close>

record TestMatrix =
  tmArch :: string
  tmOS :: string
  tmTools :: "string list"

definition normalizeTag :: "string \<Rightarrow> string" where
  "normalizeTag s = ToLower (TrimSpace s)"

definition sorted_keys :: "string list \<Rightarrow> string list" where
  "sorted_keys ks = sort (remdups ks)"

definition path_tool :: "string \<Rightarrow> string option" where
  "path_tool raw =
     (let p = ToLower (normalizeTag raw) in
      if p = [] then None
      else let base = (if CHR ''/'' \<in> set p then after_last (CHR ''/'') p else p) in
        if base = ''dockerfile'' \<or> HasPrefix base ''dockerfile.'' \<or> HasSuffix base ''.dockerfile''
           \<or> base = ''docker-compose.yml'' \<or> base = ''compose.yml''
        then Some ''docker''
        else if HasSuffix base ''.c'' \<or> HasSuffix base ''.h'' \<or> HasSuffix base ''.cc''
           \<or> HasSuffix base ''.cpp'' \<or> HasSuffix base ''.m''
        then Some ''cgo''
        else None)"

definition diffDerivedTools :: "string list \<Rightarrow> string list" where
  "diffDerivedTools touched = sorted_keys (List.map_filter path_tool touched)"

definition tag_unless_empty :: "string \<Rightarrow> string \<Rightarrow> string list" where
  "tag_unless_empty pre v = (let n = normalizeTag v in if n \<noteq> [] then [pre @ n] else [])"

definition DeriveTestConstraints :: "TestMatrix \<Rightarrow> string list \<Rightarrow> string list" where
  "DeriveTestConstraints m touchedPaths =
     sorted_keys
       ([''role:tester'']
        @ tag_unless_empty ''arch:'' (tmArch m)
        @ tag_unless_empty ''os:'' (tmOS m)
        @ concat (map (tag_unless_empty ''tool:'') (tmTools m))
        @ map (\<lambda>tool. ''tool:'' @ tool) (diffDerivedTools touchedPaths))"

datatype CIProvenance = CIProvReconciledActions | CIProvFlowbeeTest | CIProvOther string

record CIFact =
  cfHeadSHA :: string
  cfGreen :: bool
  cfProvenance :: CIProvenance

fun any_bound_green :: "string \<Rightarrow> CIFact list \<Rightarrow> bool" where
  "any_bound_green headSHA [] = False"
| "any_bound_green headSHA (f # fs) =
     (if cfGreen f \<and> cfProvenance f = CIProvFlowbeeTest \<and> cfHeadSHA f = headSHA then True
      else any_bound_green headSHA fs)"

definition CIGreenAtHead :: "bool \<Rightarrow> string \<Rightarrow> CIFact list \<Rightarrow> bool" where
  "CIGreenAtHead reconciledGreen headSHA testFacts =
     (if reconciledGreen then True
      else if headSHA = [] then False
      else any_bound_green headSHA testFacts)"

section \<open>Facts\<close>

lemma set_sorted_keys [simp]: "set (sorted_keys ks) = set ks"
  by (simp add: sorted_keys_def)

lemma sorted_keys_canonical: "sorted (sorted_keys ks) \<and> distinct (sorted_keys ks)"
  by (simp add: sorted_keys_def)

lemma sorted_keys_determined: "set ks = set ks' \<Longrightarrow> sorted_keys ks = sorted_keys ks'"
  by (intro sorted_distinct_set_unique) (simp_all add: sorted_keys_canonical)

lemma set_diffDerivedTools: "set (diffDerivedTools ps) = {t. \<exists>p \<in> set ps. path_tool p = Some t}"
  by (force simp: diffDerivedTools_def map_filter_def)

lemma set_tag_unless_empty:
  "set (tag_unless_empty pre v) = (if normalizeTag v = [] then {} else {pre @ normalizeTag v})"
  by (simp add: tag_unless_empty_def Let_def)

lemma set_DeriveTestConstraints:
  "set (DeriveTestConstraints m ps) =
     {''role:tester''}
     \<union> (if normalizeTag (tmArch m) = [] then {} else {''arch:'' @ normalizeTag (tmArch m)})
     \<union> (if normalizeTag (tmOS m) = [] then {} else {''os:'' @ normalizeTag (tmOS m)})
     \<union> {''tool:'' @ normalizeTag t |t. t \<in> set (tmTools m) \<and> normalizeTag t \<noteq> []}
     \<union> {''tool:'' @ t |t p. p \<in> set ps \<and> path_tool p = Some t}"
proof -
  have "(\<Union>t \<in> set ts. set (tag_unless_empty ''tool:'' t))
      = {''tool:'' @ normalizeTag t |t. t \<in> set ts \<and> normalizeTag t \<noteq> []}" for ts
    by (auto simp: set_tag_unless_empty)
  moreover have "(\<lambda>t. ''tool:'' @ t) ` {t. \<exists>p \<in> set ps. path_tool p = Some t}
      = {''tool:'' @ t |t p. p \<in> set ps \<and> path_tool p = Some t}"
    by blast
  ultimately show ?thesis
    unfolding DeriveTestConstraints_def set_sorted_keys set_append set_concat set_map image_image
      set_diffDerivedTools set_tag_unless_empty
    by (simp add: Un_assoc)
qed

lemma CIGreenAtHead_iff:
  "CIGreenAtHead g h fs \<longleftrightarrow>
     g \<or> h \<noteq> [] \<and> (\<exists>f \<in> set fs. cfGreen f \<and> cfProvenance f = CIProvFlowbeeTest \<and> cfHeadSHA f = h)"
proof -
  have "any_bound_green h fs \<longleftrightarrow>
      (\<exists>f \<in> set fs. cfGreen f \<and> cfProvenance f = CIProvFlowbeeTest \<and> cfHeadSHA f = h)"
    by (induction fs) auto
  then show ?thesis by (simp add: CIGreenAtHead_def)
qed

text \<open>
  Beside the properties: a test job runs where its tests can run.  A worker the scheduler
  matches to a test job's derived tags has attested \<open>role:tester\<close>, the declared
  architecture (trimmed and lower-cased) when one is declared, and the tool any
  touched path demands; the tags are sorted, free of duplicates, determined by
  the set of touched paths, and only grow with it.
\<close>

theorem test_job_routing:
  "(CapabilitiesSatisfy worker (DeriveTestConstraints m ps) \<longrightarrow>
      ''role:tester'' \<in> set worker
      \<and> (normalizeTag (tmArch m) \<noteq> [] \<longrightarrow> ''arch:'' @ normalizeTag (tmArch m) \<in> set worker)
      \<and> (\<forall>p \<in> set ps. \<forall>t. path_tool p = Some t \<longrightarrow> ''tool:'' @ t \<in> set worker))
   \<and> sorted (DeriveTestConstraints m ps) \<and> distinct (DeriveTestConstraints m ps)
   \<and> (set ps \<subseteq> set qs \<longrightarrow> set (DeriveTestConstraints m ps) \<subseteq> set (DeriveTestConstraints m qs))
   \<and> (set ps = set qs \<longrightarrow> DeriveTestConstraints m ps = DeriveTestConstraints m qs)"
proof (intro conjI impI)
  assume sat: "CapabilitiesSatisfy worker (DeriveTestConstraints m ps)"
  have met: "t \<in> set worker" if "t \<in> set (DeriveTestConstraints m ps)" "\<not> prefix ''model'' t" for t
  proof -
    have "t \<noteq> ''model_family:*''" using that(2) by auto
    then show ?thesis using sat that(1) by (auto simp: CapabilitiesSatisfy_iff cap_met_def)
  qed
  show "''role:tester'' \<in> set worker" by (rule met) (simp_all add: set_DeriveTestConstraints)
  show "''arch:'' @ normalizeTag (tmArch m) \<in> set worker" if "normalizeTag (tmArch m) \<noteq> []"
    by (rule met) (use that in \<open>simp_all add: set_DeriveTestConstraints\<close>)
  show "\<forall>p \<in> set ps. \<forall>t. path_tool p = Some t \<longrightarrow> ''tool:'' @ t \<in> set worker"
  proof (intro ballI allI impI)
    fix p t assume "p \<in> set ps" "path_tool p = Some t"
    then show "''tool:'' @ t \<in> set worker"
      by (intro met) (auto simp: set_DeriveTestConstraints)
  qed
next
  show "sorted (DeriveTestConstraints m ps)" "distinct (DeriveTestConstraints m ps)"
    by (simp_all add: DeriveTestConstraints_def sorted_keys_canonical)
next
  assume "set ps \<subseteq> set qs"
  then show "set (DeriveTestConstraints m ps) \<subseteq> set (DeriveTestConstraints m qs)"
    unfolding set_DeriveTestConstraints by blast
next
  assume "set ps = set qs"
  then have "set (DeriveTestConstraints m ps) = set (DeriveTestConstraints m qs)"
    unfolding set_DeriveTestConstraints by simp
  then show "DeriveTestConstraints m ps = DeriveTestConstraints m qs"
    by (intro sorted_distinct_set_unique) (simp_all add: DeriveTestConstraints_def sorted_keys_canonical)
qed

definition arm_worker :: "string list" where
  "arm_worker = [''arch:arm64'', ''role:tester'', ''tool:cgo'']"

definition arm_matrix :: TestMatrix where
  "arm_matrix = \<lparr>tmArch = '' ARM64'', tmOS = [], tmTools = []\<rparr>"

lemma arm_constraints: "DeriveTestConstraints arm_matrix [''src/x.C''] = arm_worker"
  by code_simp

theorem test_job_routing_witness:
  "CapabilitiesSatisfy arm_worker (DeriveTestConstraints arm_matrix [''src/x.C''])
   \<and> ''arch:'' @ normalizeTag (tmArch arm_matrix) \<in> set arm_worker
   \<and> ''tool:cgo'' \<in> set arm_worker"
proof -
  have c: "CapabilitiesSatisfy arm_worker (DeriveTestConstraints arm_matrix [''src/x.C''])"
    unfolding arm_constraints by (simp add: arm_worker_def CapabilitiesSatisfy_iff cap_met_def)
  have "normalizeTag (tmArch arm_matrix) \<noteq> []" "path_tool ''src/x.C'' = Some ''cgo''"
    by (code_simp, code_simp)
  then show ?thesis
    using test_job_routing [of arm_worker arm_matrix "[''src/x.C'']" "[''src/x.C'']"] c by simp
qed

text \<open>
  Beside the properties: a stale green never counts.  Without the reconciled green, CI is
  green at a head only for a non-empty head and through a test job's green fact
  bound to that very head; after a push, the facts recorded for the old head
  leave CI not green.
\<close>

theorem ci_green_is_sha_bound:
  "(CIGreenAtHead False h fs \<longleftrightarrow>
      h \<noteq> [] \<and> (\<exists>f \<in> set fs. cfGreen f \<and> cfProvenance f = CIProvFlowbeeTest \<and> cfHeadSHA f = h))
   \<and> ((\<forall>f \<in> set fs. cfHeadSHA f = h) \<longrightarrow> h' \<noteq> h \<longrightarrow> \<not> CIGreenAtHead False h' fs)
   \<and> CIGreenAtHead True h fs"
  by (auto simp: CIGreenAtHead_iff)

theorem ci_green_is_sha_bound_witness:
  "\<not> CIGreenAtHead False ''h2'' [\<lparr>cfHeadSHA = ''h1'', cfGreen = True, cfProvenance = CIProvFlowbeeTest\<rparr>]
   \<and> CIGreenAtHead False ''h1'' [\<lparr>cfHeadSHA = ''h1'', cfGreen = True, cfProvenance = CIProvFlowbeeTest\<rparr>]"
  using ci_green_is_sha_bound [of "''h1''"
      "[\<lparr>cfHeadSHA = ''h1'', cfGreen = True, cfProvenance = CIProvFlowbeeTest\<rparr>]" "''h2''"]
  by simp

end
