(* ===== verification/Ledger_Event.thy ===== *)
theory Ledger_Event
  imports Job_Record
begin

text \<open>
  The events of \<open>internal/ledger/ledger.go\<close>: the event kinds with their wire
  names, the payload of resolved facts and the ledger row.  The fields are the
  source's, in its order, with the prefix \<open>p\<close> (payload) or \<open>e\<close> (event).
\<close>

datatype EventKind =
    KindJobCreated | KindLeaseClaimed | KindWorkerStarted | KindHeartbeat | KindResultAccepted |
    KindLeaseReleased | KindStateChanged | KindDepsCleared | KindJobCompleted |
    KindNoEligibleWorker | KindReviewClaimed | KindVerdictClaim | KindVerdictMinted |
    KindReviewBounced | KindReviewApproved | KindBounceExhausted | KindMergeHandoff |
    KindMergeStarted | KindFactsReconciled | KindSuperseded | KindAdoptRearmed |
    KindBaseRefreshed | KindSpecAuthored | KindSpecClaim | KindSpecSignoffMinted |
    KindSpecBounced | KindSpecSuperseded | KindIssueMaterialized | KindSpecAmended |
    KindSpecNeedsDesign | KindDesignResolved | KindEpicReviewed | KindPROpened | KindAdopted |
    KindBacklogged | KindPromoted | KindIssueAdopted | KindTrackingLabelled | KindLeaseRevoked |
    KindStallEscalated | KindAgentExited | KindFastCancelled | KindCostMetered |
    KindCostEscalated | KindEpochPromoted | KindCompensated | KindUnattendedMerged |
    KindConflictDetected | KindRebased | KindConflictResolved | KindStackedRebased |
    KindJanitorUnblocked | KindTestCIRecorded

fun event_kind_str :: "EventKind \<Rightarrow> string" where
  "event_kind_str KindJobCreated = ''job_created''"
| "event_kind_str KindLeaseClaimed = ''lease_claimed''"
| "event_kind_str KindWorkerStarted = ''worker_started''"
| "event_kind_str KindHeartbeat = ''heartbeat''"
| "event_kind_str KindResultAccepted = ''result_accepted''"
| "event_kind_str KindLeaseReleased = ''lease_released''"
| "event_kind_str KindStateChanged = ''state_changed''"
| "event_kind_str KindDepsCleared = ''deps_cleared''"
| "event_kind_str KindJobCompleted = ''job_completed''"
| "event_kind_str KindNoEligibleWorker = ''no_eligible_worker''"
| "event_kind_str KindReviewClaimed = ''review_claimed''"
| "event_kind_str KindVerdictClaim = ''verdict_claim''"
| "event_kind_str KindVerdictMinted = ''verdict_minted''"
| "event_kind_str KindReviewBounced = ''review_bounced''"
| "event_kind_str KindReviewApproved = ''review_approved''"
| "event_kind_str KindBounceExhausted = ''bounce_exhausted''"
| "event_kind_str KindMergeHandoff = ''merge_handoff''"
| "event_kind_str KindMergeStarted = ''merge_started''"
| "event_kind_str KindFactsReconciled = ''facts_reconciled''"
| "event_kind_str KindSuperseded = ''superseded''"
| "event_kind_str KindAdoptRearmed = ''adopt_rearmed''"
| "event_kind_str KindBaseRefreshed = ''base_refreshed''"
| "event_kind_str KindSpecAuthored = ''spec_authored''"
| "event_kind_str KindSpecClaim = ''spec_claim''"
| "event_kind_str KindSpecSignoffMinted = ''spec_signoff_minted''"
| "event_kind_str KindSpecBounced = ''spec_bounced''"
| "event_kind_str KindSpecSuperseded = ''spec_superseded''"
| "event_kind_str KindIssueMaterialized = ''issue_materialized''"
| "event_kind_str KindSpecAmended = ''spec_amended''"
| "event_kind_str KindSpecNeedsDesign = ''spec_needs_design''"
| "event_kind_str KindDesignResolved = ''design_resolved''"
| "event_kind_str KindEpicReviewed = ''epic_reviewed''"
| "event_kind_str KindPROpened = ''pr_opened''"
| "event_kind_str KindAdopted = ''adopted''"
| "event_kind_str KindBacklogged = ''backlogged''"
| "event_kind_str KindPromoted = ''promoted''"
| "event_kind_str KindIssueAdopted = ''issue_adopted''"
| "event_kind_str KindTrackingLabelled = ''tracking_labelled''"
| "event_kind_str KindLeaseRevoked = ''lease_revoked''"
| "event_kind_str KindStallEscalated = ''stall_escalated''"
| "event_kind_str KindAgentExited = ''agent_exited''"
| "event_kind_str KindFastCancelled = ''fast_cancelled''"
| "event_kind_str KindCostMetered = ''cost_metered''"
| "event_kind_str KindCostEscalated = ''cost_escalated''"
| "event_kind_str KindEpochPromoted = ''epoch_promoted''"
| "event_kind_str KindCompensated = ''compensated''"
| "event_kind_str KindUnattendedMerged = ''unattended_merged''"
| "event_kind_str KindConflictDetected = ''conflict_detected''"
| "event_kind_str KindRebased = ''rebased''"
| "event_kind_str KindConflictResolved = ''conflict_resolved''"
| "event_kind_str KindStackedRebased = ''stacked_rebased''"
| "event_kind_str KindJanitorUnblocked = ''janitor_unblocked''"
| "event_kind_str KindTestCIRecorded = ''test_ci_recorded''"

record Payload =
  pKind :: Kind
  pFlow :: string
  pStage :: string
  pRole :: Role
  pBaseSHA :: string
  pPriority :: int
  pBlockedBy :: "string list"
  pRequiredCapabilities :: "string list"
  pTaskText :: string
  pSpecText :: string
  pAcceptanceCriteria :: string
  pLeaseID :: string
  pBoundIdentity :: string
  pBoundModelFamily :: string
  pBoundModel :: string
  pAttemptsDelta :: int
  pBouncesDelta :: int
  pResetCounters :: bool
  pUnblockSHA :: string
  pStuckHint :: string
  pReviewNotes :: string
  pCIFailures :: string
  pStallRevocationsDelta :: int
  pRevokeReason :: string
  pVerdictClaim :: VerdictValue
  pDisposition :: Disposition
  pVerdict :: "Verdict option"
  pSpecContentHash :: string
  pSpecVersion :: int
  pSpecSignoff :: "SpecSignoff option"
  pIssueNumber :: int
  pPRNumber :: int
  pCostTokensInDelta :: int64
  pCostTokensOutDelta :: int64
  pCostMicroUSDDelta :: int64
  pEscalationReason :: string
  pBuildEpoch :: int
  pDeadEpoch :: int
  pMergeProvenance :: string
  pHeadSHA :: string
  pCIGreen :: bool
  pTestJobID :: string

definition zero_payload :: Payload where
  "zero_payload = \<lparr>
     pKind = KindEmpty, pFlow = [], pStage = [], pRole = RoleEmpty, pBaseSHA = [], pPriority = 0,
     pBlockedBy = [], pRequiredCapabilities = [], pTaskText = [], pSpecText = [],
     pAcceptanceCriteria = [], pLeaseID = [], pBoundIdentity = [], pBoundModelFamily = [],
     pBoundModel = [], pAttemptsDelta = 0, pBouncesDelta = 0, pResetCounters = False,
     pUnblockSHA = [], pStuckHint = [], pReviewNotes = [], pCIFailures = [],
     pStallRevocationsDelta = 0, pRevokeReason = [], pVerdictClaim = VerdictOther [],
     pDisposition = DispositionOther [], pVerdict = None, pSpecContentHash = [],
     pSpecVersion = 0, pSpecSignoff = None, pIssueNumber = 0, pPRNumber = 0,
     pCostTokensInDelta = 0, pCostTokensOutDelta = 0, pCostMicroUSDDelta = 0,
     pEscalationReason = [], pBuildEpoch = 0, pDeadEpoch = 0, pMergeProvenance = [],
     pHeadSHA = [], pCIGreen = False, pTestJobID = []\<rparr>"

record Event =
  eJobID :: string
  eJobSeq :: int
  eKind :: EventKind
  eFromState :: State
  eToState :: State
  eLeaseEpoch :: int
  eActor :: string
  eCreatedAt :: int
  ePayload :: Payload

lemma event_kind_str_inj: "event_kind_str k = event_kind_str k' \<Longrightarrow> k = k'"
proof -
  have "distinct (map event_kind_str ks)" if "ks = [KindJobCreated, KindLeaseClaimed, KindWorkerStarted, KindHeartbeat, KindResultAccepted, KindLeaseReleased, KindStateChanged, KindDepsCleared, KindJobCompleted, KindNoEligibleWorker, KindReviewClaimed, KindVerdictClaim, KindVerdictMinted, KindReviewBounced, KindReviewApproved, KindBounceExhausted, KindMergeHandoff, KindMergeStarted, KindFactsReconciled, KindSuperseded, KindAdoptRearmed, KindBaseRefreshed, KindSpecAuthored, KindSpecClaim, KindSpecSignoffMinted, KindSpecBounced, KindSpecSuperseded, KindIssueMaterialized, KindSpecAmended, KindSpecNeedsDesign, KindDesignResolved, KindEpicReviewed, KindPROpened, KindAdopted, KindBacklogged, KindPromoted, KindIssueAdopted, KindTrackingLabelled, KindLeaseRevoked, KindStallEscalated, KindAgentExited, KindFastCancelled, KindCostMetered, KindCostEscalated, KindEpochPromoted, KindCompensated, KindUnattendedMerged, KindConflictDetected, KindRebased, KindConflictResolved, KindStackedRebased, KindJanitorUnblocked, KindTestCIRecorded]" for ks
    using that by simp
  moreover have "k \<in> set [KindJobCreated, KindLeaseClaimed, KindWorkerStarted, KindHeartbeat, KindResultAccepted, KindLeaseReleased, KindStateChanged, KindDepsCleared, KindJobCompleted, KindNoEligibleWorker, KindReviewClaimed, KindVerdictClaim, KindVerdictMinted, KindReviewBounced, KindReviewApproved, KindBounceExhausted, KindMergeHandoff, KindMergeStarted, KindFactsReconciled, KindSuperseded, KindAdoptRearmed, KindBaseRefreshed, KindSpecAuthored, KindSpecClaim, KindSpecSignoffMinted, KindSpecBounced, KindSpecSuperseded, KindIssueMaterialized, KindSpecAmended, KindSpecNeedsDesign, KindDesignResolved, KindEpicReviewed, KindPROpened, KindAdopted, KindBacklogged, KindPromoted, KindIssueAdopted, KindTrackingLabelled, KindLeaseRevoked, KindStallEscalated, KindAgentExited, KindFastCancelled, KindCostMetered, KindCostEscalated, KindEpochPromoted, KindCompensated, KindUnattendedMerged, KindConflictDetected, KindRebased, KindConflictResolved, KindStackedRebased, KindJanitorUnblocked, KindTestCIRecorded]" for k
    by (cases k) simp_all
  ultimately show "event_kind_str k = event_kind_str k' \<Longrightarrow> k = k'"
    by (meson distinct_map inj_onD)
qed

end
