(* ===== verification/Ledger_Fold.thy ===== *)
theory Ledger_Fold
  imports Ledger_Event
begin

text \<open>
  The pure fold of \<open>internal/ledger/ledger.go\<close>: one definition per \<open>case\<close> of the
  switch in \<open>Fold\<close> (named \<open>on_<kind>\<close>), the dispatch \<open>kind_step\<close>, the syncs that
  follow the switch, and \<open>Fold\<close> itself, a left fold of \<open>fold_event\<close> from Go's
  zero job.  Go's \<open>Fold\<close> also returns an error, which is nil on every path.
\<close>

section \<open>One definition per event kind\<close>

text \<open>The three columns every release clears.\<close>

definition clear_lease :: "Job \<Rightarrow> Job" where
  "clear_lease j = j\<lparr>jLeaseID := [], jBoundIdentity := [], jBoundModelFamily := []\<rparr>"

definition on_job_created :: "Event \<Rightarrow> Job \<Rightarrow> Job" where
  "on_job_created e j =
     (let p = ePayload e;
          j1 = j\<lparr>jID := eJobID e, jKind := pKind p, jFlow := pFlow p, jStage := pStage p,
                 jRole := pRole p, jBaseSHA := pBaseSHA p, jPriority := pPriority p,
                 jBlockedBy := pBlockedBy p, jRequiredCapabilities := pRequiredCapabilities p,
                 jTaskText := pTaskText p, jSpecText := pSpecText p,
                 jAcceptanceCriteria := pAcceptanceCriteria p,
                 jSpecContentHash := pSpecContentHash p, jSpecVersion := pSpecVersion p,
                 jState := eToState e\<rparr>;
          j2 = (if eToState e = StateReady then j1\<lparr>jEnqueuedAt := eCreatedAt e\<rparr> else j1)
      in j2\<lparr>jMaxAttempts := DefaultMaxAttempts, jMaxBounces := DefaultMaxBounces\<rparr>)"

definition on_lease_claimed :: "Event \<Rightarrow> Job \<Rightarrow> Job" where
  "on_lease_claimed e j =
     j\<lparr>jState := eToState e, jLeaseEpoch := eLeaseEpoch e, jLeaseID := pLeaseID (ePayload e),
       jBoundIdentity := pBoundIdentity (ePayload e),
       jBoundModelFamily := pBoundModelFamily (ePayload e)\<rparr>"

definition on_worker_started :: "Event \<Rightarrow> Job \<Rightarrow> Job" where
  "on_worker_started e j = j\<lparr>jState := eToState e\<rparr>"

definition on_result_accepted :: "Event \<Rightarrow> Job \<Rightarrow> Job" where
  "on_result_accepted e j =
     clear_lease (j\<lparr>jState := eToState e, jRequiredCapabilities := [''role:code_reviewer''],
                    jHeadSHA := pHeadSHA (ePayload e)\<rparr>)"

definition on_lease_released :: "Event \<Rightarrow> Job \<Rightarrow> Job" where
  "on_lease_released e j =
     clear_lease (j\<lparr>jState := eToState e, jAttempts := jAttempts j + pAttemptsDelta (ePayload e)\<rparr>)"

definition on_state_changed :: "Event \<Rightarrow> Job \<Rightarrow> Job" where
  "on_state_changed e j =
     (let j1 = j\<lparr>jState := eToState e, jLeaseEpoch := eLeaseEpoch e\<rparr> in
      if pResetCounters (ePayload e)
      then (let j2 = j1\<lparr>jAttempts := 0, jBounces := 0, jStallRevocations := 0, jHeadSHA := [],
                        jVerdict := None\<rparr>
            in if eToState e = StateSpecAuthoring then j2\<lparr>jStage := ''spec''\<rparr>
               else j2\<lparr>jStage := ''build''\<rparr>)
      else j1)"

definition on_janitor_unblocked :: "Event \<Rightarrow> Job \<Rightarrow> Job" where
  "on_janitor_unblocked e j =
     (let j1 = j\<lparr>jState := eToState e, jLeaseEpoch := eLeaseEpoch e,
                 jUnblockAttempts := jUnblockAttempts j + 1,
                 jLastProgressSHA := pUnblockSHA (ePayload e), jHeadSHA := [], jVerdict := None,
                 jStuckHint := pStuckHint (ePayload e)\<rparr>;
          j2 = (if eToState e = StateSpecAuthoring then j1\<lparr>jStage := ''spec''\<rparr>
                else j1\<lparr>jStage := ''build'', jEnqueuedAt := eCreatedAt e\<rparr>)
      in clear_lease j2)"

definition on_base_refreshed :: "Event \<Rightarrow> Job \<Rightarrow> Job" where
  "on_base_refreshed e j = j\<lparr>jBaseSHA := pBaseSHA (ePayload e)\<rparr>"

definition on_deps_cleared :: "Event \<Rightarrow> Job \<Rightarrow> Job" where
  "on_deps_cleared e j = j\<lparr>jState := eToState e, jEnqueuedAt := eCreatedAt e, jBlockedBy := []\<rparr>"

definition on_job_completed :: "Event \<Rightarrow> Job \<Rightarrow> Job" where
  "on_job_completed e j =
     (let j1 = j\<lparr>jState := eToState e\<rparr> in
      if pMergeProvenance (ePayload e) \<noteq> []
      then j1\<lparr>jMergeProvenance := pMergeProvenance (ePayload e)\<rparr> else j1)"

definition on_review_claimed :: "Event \<Rightarrow> Job \<Rightarrow> Job" where
  "on_review_claimed e j =
     j\<lparr>jState := eToState e, jRole := RoleCodeReviewer, jLeaseEpoch := eLeaseEpoch e,
       jLeaseID := pLeaseID (ePayload e), jBoundIdentity := pBoundIdentity (ePayload e),
       jBoundModelFamily := pBoundModelFamily (ePayload e)\<rparr>"

definition on_verdict_minted :: "Event \<Rightarrow> Job \<Rightarrow> Job" where
  "on_verdict_minted e j =
     (let j1 = j\<lparr>jState := eToState e, jVerdict := pVerdict (ePayload e)\<rparr>;
          j2 = (case pVerdict (ePayload e) of
                  None \<Rightarrow> j1
                | Some v \<Rightarrow>
                    (let k = j1\<lparr>jHeadSHA := vHeadSHA v\<rparr> in
                     if vBaseSHA v \<noteq> [] then k\<lparr>jBaseSHA := vBaseSHA v\<rparr> else k))
      in clear_lease j2)"

definition on_review_bounced :: "Event \<Rightarrow> Job \<Rightarrow> Job" where
  "on_review_bounced e j =
     clear_lease (j\<lparr>jState := eToState e, jBounces := jBounces j + pBouncesDelta (ePayload e),
       jRole := RoleEngWorker, jRequiredCapabilities := [''role:eng_worker''],
       jEnqueuedAt := eCreatedAt e\<rparr>)"

definition on_review_approved :: "Event \<Rightarrow> Job \<Rightarrow> Job" where
  "on_review_approved e j =
     (let j1 = j\<lparr>jState := eToState e, jRole := RoleEngWorker,
                 jRequiredCapabilities := [''role:code_reviewer'']\<rparr>;
          j2 = (if pHeadSHA (ePayload e) \<noteq> [] then j1\<lparr>jHeadSHA := pHeadSHA (ePayload e)\<rparr> else j1)
      in clear_lease j2)"

definition on_bounce_exhausted :: "Event \<Rightarrow> Job \<Rightarrow> Job" where
  "on_bounce_exhausted e j =
     clear_lease (j\<lparr>jState := eToState e, jBounces := jBounces j + pBouncesDelta (ePayload e)\<rparr>)"

definition on_merge_handoff :: "Event \<Rightarrow> Job \<Rightarrow> Job" where
  "on_merge_handoff e j = j\<lparr>jState := eToState e\<rparr>"

definition on_merge_started :: "Event \<Rightarrow> Job \<Rightarrow> Job" where
  "on_merge_started e j = j\<lparr>jState := eToState e\<rparr>"

definition on_superseded :: "Event \<Rightarrow> Job \<Rightarrow> Job" where
  "on_superseded e j =
     (let j1 = j\<lparr>jState := eToState e, jRole := RoleEngWorker, jStage := ''build'',
                 jRequiredCapabilities := [''role:eng_worker''], jLeaseEpoch := eLeaseEpoch e,
                 jVerdict := None, jHeadSHA := []\<rparr>;
          j2 = (if pBaseSHA (ePayload e) \<noteq> [] then j1\<lparr>jBaseSHA := pBaseSHA (ePayload e)\<rparr> else j1)
      in (clear_lease (j2\<lparr>jEnqueuedAt := eCreatedAt e\<rparr>))\<lparr>jBoundLens := []\<rparr>)"

definition on_adopt_rearmed :: "Event \<Rightarrow> Job \<Rightarrow> Job" where
  "on_adopt_rearmed e j =
     (clear_lease (j\<lparr>jState := eToState e, jRole := RoleCodeReviewer, jStage := ''review'',
        jRequiredCapabilities := [''role:code_reviewer''], jLeaseEpoch := eLeaseEpoch e,
        jVerdict := None, jBaseSHA := pBaseSHA (ePayload e), jHeadSHA := pHeadSHA (ePayload e),
        jEnqueuedAt := eCreatedAt e\<rparr>))\<lparr>jBoundLens := []\<rparr>"

text \<open>The two conditional overwrites the spec events share.\<close>

definition set_spec_hash :: "Payload \<Rightarrow> Job \<Rightarrow> Job" where
  "set_spec_hash p j =
     (if pSpecContentHash p \<noteq> []
      then j\<lparr>jSpecContentHash := pSpecContentHash p, jSpecVersion := pSpecVersion p\<rparr> else j)"

definition set_spec_text :: "Payload \<Rightarrow> Job \<Rightarrow> Job" where
  "set_spec_text p j = (if pSpecText p \<noteq> [] then j\<lparr>jSpecText := pSpecText p\<rparr> else j)"

definition on_spec_authored :: "Event \<Rightarrow> Job \<Rightarrow> Job" where
  "on_spec_authored e j =
     clear_lease (set_spec_text (ePayload e)
       (j\<lparr>jState := eToState e, jStage := ''review'',
          jSpecContentHash := pSpecContentHash (ePayload e),
          jSpecVersion := pSpecVersion (ePayload e)\<rparr>))"

definition on_spec_signoff_minted :: "Event \<Rightarrow> Job \<Rightarrow> Job" where
  "on_spec_signoff_minted e j =
     clear_lease (j\<lparr>jState := eToState e, jSpecSignoff := pSpecSignoff (ePayload e)\<rparr>)"

definition on_spec_bounced :: "Event \<Rightarrow> Job \<Rightarrow> Job" where
  "on_spec_bounced e j =
     clear_lease (j\<lparr>jState := eToState e, jBounces := jBounces j + pBouncesDelta (ePayload e)\<rparr>)"

definition on_spec_superseded :: "Event \<Rightarrow> Job \<Rightarrow> Job" where
  "on_spec_superseded e j =
     clear_lease (set_spec_hash (ePayload e) (j\<lparr>jState := eToState e, jSpecSignoff := None\<rparr>))"

definition on_spec_amended :: "Event \<Rightarrow> Job \<Rightarrow> Job" where
  "on_spec_amended e j =
     clear_lease ((set_spec_text (ePayload e) (set_spec_hash (ePayload e) (j\<lparr>jState := eToState e\<rparr>)))
       \<lparr>jSpecSignoff := pSpecSignoff (ePayload e)\<rparr>)"

definition on_spec_needs_design :: "Event \<Rightarrow> Job \<Rightarrow> Job" where
  "on_spec_needs_design e j =
     clear_lease (j\<lparr>jState := eToState e, jEscalationReason := escalation_str EscalationDesign\<rparr>)"

definition on_design_resolved :: "Event \<Rightarrow> Job \<Rightarrow> Job" where
  "on_design_resolved e j =
     set_spec_hash (ePayload e) (j\<lparr>jState := eToState e, jEscalationReason := []\<rparr>)"

definition on_epic_reviewed :: "Event \<Rightarrow> Job \<Rightarrow> Job" where
  "on_epic_reviewed e j = j\<lparr>jEpicReviewed := True\<rparr>"

definition on_issue_materialized :: "Event \<Rightarrow> Job \<Rightarrow> Job" where
  "on_issue_materialized e j = j\<lparr>jIssueNum := pIssueNumber (ePayload e)\<rparr>"

definition on_pr_opened :: "Event \<Rightarrow> Job \<Rightarrow> Job" where
  "on_pr_opened e j =
     (let j1 = j\<lparr>jPRNumber := pPRNumber (ePayload e)\<rparr> in
      if pHeadSHA (ePayload e) \<noteq> [] then j1\<lparr>jHeadSHA := pHeadSHA (ePayload e)\<rparr> else j1)"

definition on_lease_revoked :: "Event \<Rightarrow> Job \<Rightarrow> Job" where
  "on_lease_revoked e j =
     (let j1 = clear_lease (j\<lparr>jState := eToState e, jLeaseEpoch := eLeaseEpoch e,
                 jAttempts := jAttempts j + pAttemptsDelta (ePayload e),
                 jStallRevocations := jStallRevocations j + pStallRevocationsDelta (ePayload e)\<rparr>)
      in if eToState e = StateReady \<and> pRole (ePayload e) \<noteq> RoleEmpty
         then j1\<lparr>jRole := pRole (ePayload e)\<rparr> else j1)"

definition on_stall_escalated :: "Event \<Rightarrow> Job \<Rightarrow> Job" where
  "on_stall_escalated e j =
     clear_lease (j\<lparr>jState := eToState e, jLeaseEpoch := eLeaseEpoch e,
       jStallRevocations := jStallRevocations j + pStallRevocationsDelta (ePayload e)\<rparr>)"

definition on_agent_exited :: "Event \<Rightarrow> Job \<Rightarrow> Job" where
  "on_agent_exited e j = clear_lease (j\<lparr>jState := eToState e, jLeaseEpoch := eLeaseEpoch e\<rparr>)"

definition on_fast_cancelled :: "Event \<Rightarrow> Job \<Rightarrow> Job" where
  "on_fast_cancelled e j =
     clear_lease (j\<lparr>jState := eToState e, jLeaseEpoch := eLeaseEpoch e,
       jAttempts := jAttempts j + pAttemptsDelta (ePayload e)\<rparr>)"

definition add_costs :: "Payload \<Rightarrow> Job \<Rightarrow> Job" where
  "add_costs p j =
     j\<lparr>jCostTokensIn := jCostTokensIn j + pCostTokensInDelta p,
       jCostTokensOut := jCostTokensOut j + pCostTokensOutDelta p,
       jCostMicroUSD := jCostMicroUSD j + pCostMicroUSDDelta p\<rparr>"

definition on_cost_metered :: "Event \<Rightarrow> Job \<Rightarrow> Job" where
  "on_cost_metered e j = add_costs (ePayload e) j"

definition on_cost_escalated :: "Event \<Rightarrow> Job \<Rightarrow> Job" where
  "on_cost_escalated e j =
     clear_lease ((add_costs (ePayload e) j)
       \<lparr>jState := eToState e, jLeaseEpoch := eLeaseEpoch e, jOverBudget := True,
        jEscalationReason := pEscalationReason (ePayload e)\<rparr>)"

definition on_epoch_promoted :: "Event \<Rightarrow> Job \<Rightarrow> Job" where
  "on_epoch_promoted e j = j\<lparr>jBuildEpoch := pBuildEpoch (ePayload e)\<rparr>"

definition on_unattended_merged :: "Event \<Rightarrow> Job \<Rightarrow> Job" where
  "on_unattended_merged e j = j\<lparr>jMergeProvenance := pMergeProvenance (ePayload e)\<rparr>"

definition on_adopted :: "Event \<Rightarrow> Job \<Rightarrow> Job" where
  "on_adopted e j =
     (let j1 = j\<lparr>jState := eToState e\<rparr>;
          j2 = (if pPRNumber (ePayload e) \<noteq> 0 then j1\<lparr>jPRNumber := pPRNumber (ePayload e)\<rparr> else j1)
      in if pIssueNumber (ePayload e) \<noteq> 0 then j2\<lparr>jIssueNum := pIssueNumber (ePayload e)\<rparr> else j2)"

definition on_backlogged :: "Event \<Rightarrow> Job \<Rightarrow> Job" where
  "on_backlogged e j =
     (let p = ePayload e;
          j1 = j\<lparr>jState := eToState e, jKind := pKind p, jFlow := pFlow p, jStage := pStage p,
                 jRole := pRole p, jRequiredCapabilities := [''role:'' @ role_str (pRole p)],
                 jPriority := pPriority p, jMaxAttempts := DefaultMaxAttempts,
                 jMaxBounces := DefaultMaxBounces, jTaskText := pTaskText p,
                 jSpecText := pSpecText p, jAcceptanceCriteria := pAcceptanceCriteria p\<rparr>
      in if pIssueNumber p \<noteq> 0 then j1\<lparr>jIssueNum := pIssueNumber p\<rparr> else j1)"

definition on_promoted :: "Event \<Rightarrow> Job \<Rightarrow> Job" where
  "on_promoted e j =
     (let j1 = j\<lparr>jState := eToState e, jStage := pStage (ePayload e), jRole := pRole (ePayload e)\<rparr>
      in if eToState e = StateReady then j1\<lparr>jEnqueuedAt := eCreatedAt e\<rparr> else j1)"

definition on_issue_adopted :: "Event \<Rightarrow> Job \<Rightarrow> Job" where
  "on_issue_adopted e j =
     j\<lparr>jState := eToState e, jStage := pStage (ePayload e), jRole := pRole (ePayload e)\<rparr>"

definition on_rebased :: "Event \<Rightarrow> Job \<Rightarrow> Job" where
  "on_rebased e j =
     (let j1 = j\<lparr>jState := eToState e, jRole := RoleEngWorker, jStage := ''build'',
                 jRequiredCapabilities := [''role:code_reviewer''], jLeaseEpoch := eLeaseEpoch e,
                 jVerdict := None, jHeadSHA := pHeadSHA (ePayload e)\<rparr>;
          j2 = (if pBaseSHA (ePayload e) \<noteq> [] then j1\<lparr>jBaseSHA := pBaseSHA (ePayload e)\<rparr> else j1)
      in clear_lease j2)"

definition on_conflict_detected :: "Event \<Rightarrow> Job \<Rightarrow> Job" where
  "on_conflict_detected e j =
     (let j1 = j\<lparr>jState := eToState e, jRole := RoleConflictResolver,
                 jStage := ''resolve_conflict'',
                 jRequiredCapabilities := [''role:conflict_resolver''],
                 jLeaseEpoch := eLeaseEpoch e, jVerdict := None\<rparr>;
          j2 = (if pBaseSHA (ePayload e) \<noteq> [] then j1\<lparr>jBaseSHA := pBaseSHA (ePayload e)\<rparr> else j1)
      in clear_lease (j2\<lparr>jEnqueuedAt := eCreatedAt e\<rparr>))"

definition on_conflict_resolved :: "Event \<Rightarrow> Job \<Rightarrow> Job" where
  "on_conflict_resolved e j =
     clear_lease (j\<lparr>jState := eToState e, jRole := RoleEngWorker, jStage := ''build'',
       jRequiredCapabilities := [''role:code_reviewer''], jVerdict := None,
       jHeadSHA := pHeadSHA (ePayload e)\<rparr>)"

section \<open>The switch\<close>

text \<open>
  The kinds without an equation of their own are the empty cases of the switch
  and \<open>test_ci_recorded\<close>, which has no case: they change no field.
\<close>

fun kind_step :: "EventKind \<Rightarrow> Event \<Rightarrow> Job \<Rightarrow> Job" where
  "kind_step KindJobCreated e j = on_job_created e j"
| "kind_step KindLeaseClaimed e j = on_lease_claimed e j"
| "kind_step KindWorkerStarted e j = on_worker_started e j"
| "kind_step KindHeartbeat e j = j"
| "kind_step KindResultAccepted e j = on_result_accepted e j"
| "kind_step KindLeaseReleased e j = on_lease_released e j"
| "kind_step KindStateChanged e j = on_state_changed e j"
| "kind_step KindJanitorUnblocked e j = on_janitor_unblocked e j"
| "kind_step KindBaseRefreshed e j = on_base_refreshed e j"
| "kind_step KindDepsCleared e j = on_deps_cleared e j"
| "kind_step KindJobCompleted e j = on_job_completed e j"
| "kind_step KindNoEligibleWorker e j = j"
| "kind_step KindReviewClaimed e j = on_review_claimed e j"
| "kind_step KindVerdictClaim e j = j"
| "kind_step KindVerdictMinted e j = on_verdict_minted e j"
| "kind_step KindReviewBounced e j = on_review_bounced e j"
| "kind_step KindReviewApproved e j = on_review_approved e j"
| "kind_step KindBounceExhausted e j = on_bounce_exhausted e j"
| "kind_step KindMergeHandoff e j = on_merge_handoff e j"
| "kind_step KindMergeStarted e j = on_merge_started e j"
| "kind_step KindFactsReconciled e j = j"
| "kind_step KindSuperseded e j = on_superseded e j"
| "kind_step KindAdoptRearmed e j = on_adopt_rearmed e j"
| "kind_step KindSpecAuthored e j = on_spec_authored e j"
| "kind_step KindSpecClaim e j = j"
| "kind_step KindSpecSignoffMinted e j = on_spec_signoff_minted e j"
| "kind_step KindSpecBounced e j = on_spec_bounced e j"
| "kind_step KindSpecSuperseded e j = on_spec_superseded e j"
| "kind_step KindSpecAmended e j = on_spec_amended e j"
| "kind_step KindSpecNeedsDesign e j = on_spec_needs_design e j"
| "kind_step KindDesignResolved e j = on_design_resolved e j"
| "kind_step KindEpicReviewed e j = on_epic_reviewed e j"
| "kind_step KindIssueMaterialized e j = on_issue_materialized e j"
| "kind_step KindPROpened e j = on_pr_opened e j"
| "kind_step KindLeaseRevoked e j = on_lease_revoked e j"
| "kind_step KindStallEscalated e j = on_stall_escalated e j"
| "kind_step KindAgentExited e j = on_agent_exited e j"
| "kind_step KindFastCancelled e j = on_fast_cancelled e j"
| "kind_step KindCostMetered e j = on_cost_metered e j"
| "kind_step KindCostEscalated e j = on_cost_escalated e j"
| "kind_step KindEpochPromoted e j = on_epoch_promoted e j"
| "kind_step KindCompensated e j = j"
| "kind_step KindUnattendedMerged e j = on_unattended_merged e j"
| "kind_step KindAdopted e j = on_adopted e j"
| "kind_step KindBacklogged e j = on_backlogged e j"
| "kind_step KindPromoted e j = on_promoted e j"
| "kind_step KindIssueAdopted e j = on_issue_adopted e j"
| "kind_step KindTrackingLabelled e j = j"
| "kind_step KindRebased e j = on_rebased e j"
| "kind_step KindConflictDetected e j = on_conflict_detected e j"
| "kind_step KindConflictResolved e j = on_conflict_resolved e j"
| "kind_step KindStackedRebased e j = j"
| "kind_step KindTestCIRecorded e j = j"

section \<open>The syncs after the switch, and the fold\<close>

definition sync_notes :: "Payload \<Rightarrow> Job \<Rightarrow> Job" where
  "sync_notes p j =
     (let j1 = (if pReviewNotes p \<noteq> [] then j\<lparr>jLastReviewNotes := pReviewNotes p\<rparr> else j) in
      if pCIFailures p \<noteq> [] then j1\<lparr>jLastCIFailures := pCIFailures p\<rparr> else j1)"

definition sync_human_gate :: "Payload \<Rightarrow> Job \<Rightarrow> Job" where
  "sync_human_gate p j =
     (if jState j = StateNeedsHuman \<or> jState j = StateNeedsDesign
      then (if pEscalationReason p \<noteq> [] then j\<lparr>jEscalationReason := pEscalationReason p\<rparr> else j)
      else j\<lparr>jEscalationReason := [], jOverBudget := False\<rparr>)"

definition sync_role_caps :: "Job \<Rightarrow> Job" where
  "sync_role_caps j =
     (if jState j = StateReady \<and> jKind j = KindBuild
      then j\<lparr>jRole := RoleEngWorker, jRequiredCapabilities := [''role:eng_worker'']\<rparr>
      else if jState j = StateSpecAuthoring
      then j\<lparr>jRole := RoleSpecAuthor, jRequiredCapabilities := [''role:spec_author'']\<rparr>
      else if jState j = StateSpecReview
      then j\<lparr>jRole := RoleSpecReviewer, jRequiredCapabilities := [''role:spec_reviewer'']\<rparr>
      else if jState j = StateResolvingConflict
      then j\<lparr>jRole := RoleConflictResolver, jRequiredCapabilities := [''role:conflict_resolver'']\<rparr>
      else j)"

definition fold_event :: "Job \<Rightarrow> Event \<Rightarrow> Job" where
  "fold_event j e =
     (sync_role_caps (sync_human_gate (ePayload e) (sync_notes (ePayload e) (kind_step (eKind e) e j))))
       \<lparr>jJobSeq := eJobSeq e\<rparr>"

fun fold_from :: "Job \<Rightarrow> Event list \<Rightarrow> Job" where
  "fold_from j [] = j"
| "fold_from j (e # es) = fold_from (fold_event j e) es"

definition Fold :: "Event list \<Rightarrow> Job" where
  "Fold events = fold_from zero_job events"

end
