(* ===== verification/Ledger_Facts.thy ===== *)
theory Ledger_Facts
  imports Ledger_Fold
begin

text \<open>
  What the ledger fold guarantees: the interpretation of the fold interface on
  \<open>fold_event\<close>, the effect of a step on each field the properties speak of, and
  the properties of every folded row, whatever the events.
\<close>

section \<open>The fold is an event fold\<close>

lemma fold_from_foldl: "fold_from j es = foldl fold_event j es"
  by (induction es arbitrary: j) simp_all

interpretation ledger: event_fold fold_event zero_job Fold
  by unfold_locales (simp_all add: Fold_def fold_from_foldl)

lemmas on_defs =
  on_job_created_def on_lease_claimed_def on_worker_started_def on_result_accepted_def
  on_lease_released_def on_state_changed_def on_janitor_unblocked_def on_base_refreshed_def
  on_deps_cleared_def on_job_completed_def on_review_claimed_def on_verdict_minted_def
  on_review_bounced_def on_review_approved_def on_bounce_exhausted_def on_merge_handoff_def
  on_merge_started_def on_superseded_def on_adopt_rearmed_def on_spec_authored_def
  on_spec_signoff_minted_def on_spec_bounced_def on_spec_superseded_def on_spec_amended_def
  on_spec_needs_design_def on_design_resolved_def on_epic_reviewed_def on_issue_materialized_def
  on_pr_opened_def on_lease_revoked_def on_stall_escalated_def on_agent_exited_def
  on_fast_cancelled_def on_cost_metered_def on_cost_escalated_def on_epoch_promoted_def
  on_unattended_merged_def on_adopted_def on_backlogged_def on_promoted_def on_issue_adopted_def
  on_rebased_def on_conflict_detected_def on_conflict_resolved_def
  clear_lease_def set_spec_hash_def set_spec_text_def add_costs_def Let_def

lemmas sync_defs = sync_notes_def sync_human_gate_def sync_role_caps_def Let_def

section \<open>Fields the syncs leave alone\<close>

lemma sync_role_caps_sel [simp]:
  "jState (sync_role_caps j) = jState j" "jKind (sync_role_caps j) = jKind j"
  "jVerdict (sync_role_caps j) = jVerdict j" "jLeaseID (sync_role_caps j) = jLeaseID j"
  "jLeaseEpoch (sync_role_caps j) = jLeaseEpoch j" "jBounces (sync_role_caps j) = jBounces j"
  "jAttempts (sync_role_caps j) = jAttempts j"
  "jUnblockAttempts (sync_role_caps j) = jUnblockAttempts j"
  "jCostMicroUSD (sync_role_caps j) = jCostMicroUSD j"
  "jEscalationReason (sync_role_caps j) = jEscalationReason j"
  "jOverBudget (sync_role_caps j) = jOverBudget j"
  "jSpecSignoff (sync_role_caps j) = jSpecSignoff j"
  by (simp_all add: sync_defs)

lemma sync_human_gate_sel [simp]:
  "jState (sync_human_gate p j) = jState j" "jKind (sync_human_gate p j) = jKind j"
  "jVerdict (sync_human_gate p j) = jVerdict j" "jLeaseID (sync_human_gate p j) = jLeaseID j"
  "jLeaseEpoch (sync_human_gate p j) = jLeaseEpoch j"
  "jBounces (sync_human_gate p j) = jBounces j"
  "jAttempts (sync_human_gate p j) = jAttempts j"
  "jUnblockAttempts (sync_human_gate p j) = jUnblockAttempts j"
  "jCostMicroUSD (sync_human_gate p j) = jCostMicroUSD j"
  "jSpecSignoff (sync_human_gate p j) = jSpecSignoff j"
  by (simp_all add: sync_defs)

lemma sync_notes_sel [simp]:
  "jState (sync_notes p j) = jState j" "jKind (sync_notes p j) = jKind j"
  "jVerdict (sync_notes p j) = jVerdict j" "jLeaseID (sync_notes p j) = jLeaseID j"
  "jLeaseEpoch (sync_notes p j) = jLeaseEpoch j" "jBounces (sync_notes p j) = jBounces j"
  "jAttempts (sync_notes p j) = jAttempts j"
  "jUnblockAttempts (sync_notes p j) = jUnblockAttempts j"
  "jCostMicroUSD (sync_notes p j) = jCostMicroUSD j"
  "jEscalationReason (sync_notes p j) = jEscalationReason j"
  "jOverBudget (sync_notes p j) = jOverBudget j"
  "jSpecSignoff (sync_notes p j) = jSpecSignoff j"
  by (simp_all add: sync_defs)

section \<open>The effect of one event on a field\<close>

definition voids_verdict :: "Event \<Rightarrow> bool" where
  "voids_verdict e \<longleftrightarrow>
     eKind e \<in> {KindJanitorUnblocked, KindSuperseded, KindAdoptRearmed, KindRebased,
                KindConflictDetected, KindConflictResolved}
     \<or> eKind e = KindStateChanged \<and> pResetCounters (ePayload e)"

lemma fold_event_verdict:
  "jVerdict (fold_event j e) =
     (if eKind e = KindVerdictMinted then pVerdict (ePayload e)
      else if voids_verdict e then None else jVerdict j)"
  unfolding fold_event_def voids_verdict_def
  by (cases "eKind e") (simp_all add: on_defs split: option.split)

definition voids_signoff :: "Event \<Rightarrow> bool" where
  "voids_signoff e \<longleftrightarrow> eKind e = KindSpecSuperseded"

lemma fold_event_signoff:
  "jSpecSignoff (fold_event j e) =
     (if eKind e \<in> {KindSpecSignoffMinted, KindSpecAmended} then pSpecSignoff (ePayload e)
      else if voids_signoff e then None else jSpecSignoff j)"
  unfolding fold_event_def voids_signoff_def
  by (cases "eKind e") (simp_all add: on_defs split: option.split)

definition keeps_lease :: "EventKind set" where
  "keeps_lease =
     {KindJobCreated, KindWorkerStarted, KindHeartbeat, KindStateChanged, KindBaseRefreshed,
      KindDepsCleared, KindJobCompleted, KindNoEligibleWorker, KindVerdictClaim, KindMergeHandoff,
      KindMergeStarted, KindFactsReconciled, KindSpecClaim, KindDesignResolved, KindEpicReviewed,
      KindIssueMaterialized, KindPROpened, KindCostMetered, KindEpochPromoted, KindCompensated,
      KindUnattendedMerged, KindAdopted, KindBacklogged, KindPromoted, KindIssueAdopted,
      KindTrackingLabelled, KindStackedRebased, KindTestCIRecorded}"

lemma fold_event_lease:
  "jLeaseID (fold_event j e) =
     (if eKind e \<in> {KindLeaseClaimed, KindReviewClaimed} then pLeaseID (ePayload e)
      else if eKind e \<in> keeps_lease then jLeaseID j else [])"
  unfolding fold_event_def keeps_lease_def
  by (cases "eKind e") (simp_all add: on_defs split: option.split)

lemma fold_event_unblocks:
  "jUnblockAttempts (fold_event j e) =
     jUnblockAttempts j + (if eKind e = KindJanitorUnblocked then 1 else 0)"
  unfolding fold_event_def
  by (cases "eKind e") (simp_all add: on_defs split: option.split)

lemma fold_event_cost:
  "jCostMicroUSD (fold_event j e) =
     jCostMicroUSD j + (if eKind e \<in> {KindCostMetered, KindCostEscalated}
                        then pCostMicroUSDDelta (ePayload e) else 0)"
  unfolding fold_event_def
  by (cases "eKind e") (simp_all add: on_defs split: option.split)

definition bounce_kinds :: "EventKind set" where
  "bounce_kinds = {KindReviewBounced, KindBounceExhausted, KindSpecBounced}"

definition resets :: "Event \<Rightarrow> bool" where
  "resets e \<longleftrightarrow> eKind e = KindStateChanged \<and> pResetCounters (ePayload e)"

lemma fold_event_bounces:
  "jBounces (fold_event j e) =
     (if resets e then 0
      else jBounces j + (if eKind e \<in> bounce_kinds then pBouncesDelta (ePayload e) else 0))"
  unfolding fold_event_def bounce_kinds_def resets_def
  by (cases "eKind e") (simp_all add: on_defs split: option.split)

lemma fold_event_seq: "jJobSeq (fold_event j e) = eJobSeq e"
  by (simp add: fold_event_def)

section \<open>A field that only some events write\<close>

text \<open>
  An optional field that some events set, some void and all others keep.  Its
  value after a fold comes from the last event that touched it.
\<close>

locale written_field = event_fold step start run
  for step :: "'s \<Rightarrow> 'e \<Rightarrow> 's" and start :: 's and run :: "'e list \<Rightarrow> 's" +
  fixes field :: "'s \<Rightarrow> 'v option" and writes :: "'e \<Rightarrow> bool" and val :: "'e \<Rightarrow> 'v option"
    and voids :: "'e \<Rightarrow> bool"
  assumes field_start: "field start = None"
    and field_step: "field (step s e) =
      (if writes e then val e else if voids e then None else field s)"
begin

definition last_written :: "'e list \<Rightarrow> 'v \<Rightarrow> bool" where
  "last_written es v \<longleftrightarrow>
     (\<exists>pre e post. es = pre @ e # post \<and> writes e \<and> val e = Some v
        \<and> (\<forall>x \<in> set post. \<not> writes x \<and> \<not> voids x))"

lemma last_writtenE:
  assumes "last_written es v"
  obtains pre x post where "es = pre @ x # post" and "writes x" and "val x = Some v"
    and "\<forall>y \<in> set post. \<not> writes y \<and> \<not> voids y"
  using assms unfolding last_written_def by (elim exE conjE) (rule that)

lemma last_writtenI:
  assumes "es = pre @ x # post" and "writes x" and "val x = Some v"
    and "\<forall>y \<in> set post. \<not> writes y \<and> \<not> voids y"
  shows "last_written es v"
  unfolding last_written_def using assms by (intro exI conjI)

lemma last_written_snoc:
  "last_written (es @ [e]) v \<longleftrightarrow>
     (if writes e then val e = Some v else \<not> voids e \<and> last_written es v)"
proof
  assume "last_written (es @ [e]) v"
  then obtain pre x post where h: "es @ [e] = pre @ x # post" "writes x" "val x = Some v"
      "\<forall>y \<in> set post. \<not> writes y \<and> \<not> voids y"
    by (rule last_writtenE)
  show "if writes e then val e = Some v else \<not> voids e \<and> last_written es v"
  proof (cases post rule: rev_cases)
    case Nil
    then have "x = e" using h(1) by simp
    with h show ?thesis by simp
  next
    case (snoc post' y)
    then have "y = e" "es = pre @ x # post'" using h(1) by simp_all
    with h snoc last_writtenI [of es pre x post' v] show ?thesis by simp
  qed
next
  assume r: "if writes e then val e = Some v else \<not> voids e \<and> last_written es v"
  show "last_written (es @ [e]) v"
  proof (cases "writes e")
    case True
    with r last_writtenI [of "es @ [e]" es e "[]" v] show ?thesis by simp
  next
    case False
    with r have "last_written es v" "\<not> voids e" by simp_all
    from this(1) obtain pre x post where h: "es = pre @ x # post" "writes x" "val x = Some v"
        "\<forall>y \<in> set post. \<not> writes y \<and> \<not> voids y"
      by (rule last_writtenE)
    with False \<open>\<not> voids e\<close> last_writtenI [of "es @ [e]" pre x "post @ [e]" v]
    show ?thesis by simp
  qed
qed

lemma field_run: "field (run es) = Some v \<longleftrightarrow> last_written es v"
proof (induction es rule: rev_induct)
  case Nil
  show ?case by (simp add: run_Nil field_start last_written_def)
next
  case (snoc e es)
  then show ?case by (simp add: run_snoc field_step last_written_snoc)
qed

end

lemma zero_job_sel [simp]:
  "jVerdict zero_job = None" "jSpecSignoff zero_job = None" "jLeaseID zero_job = []"
  "jState zero_job = StateEmpty" "jBounces zero_job = 0" "jUnblockAttempts zero_job = 0"
  "jCostMicroUSD zero_job = 0" "jEscalationReason zero_job = []" "jOverBudget zero_job = False"
  by (simp_all add: zero_job_def)

definition lease_of :: "Job \<Rightarrow> string option" where
  "lease_of j = (if jLeaseID j = [] then None else Some (jLeaseID j))"

definition claims_lease :: "Event \<Rightarrow> bool" where
  "claims_lease e \<longleftrightarrow> eKind e \<in> {KindLeaseClaimed, KindReviewClaimed}"

definition claimed_lease :: "Event \<Rightarrow> string option" where
  "claimed_lease e = (if pLeaseID (ePayload e) = [] then None else Some (pLeaseID (ePayload e)))"

definition ends_lease :: "Event \<Rightarrow> bool" where
  "ends_lease e \<longleftrightarrow> \<not> claims_lease e \<and> eKind e \<notin> keeps_lease"

interpretation verdict_field: written_field fold_event zero_job Fold jVerdict
  "\<lambda>e. eKind e = KindVerdictMinted" "\<lambda>e. pVerdict (ePayload e)" voids_verdict
  by unfold_locales (simp_all add: fold_event_verdict)

interpretation signoff_field: written_field fold_event zero_job Fold jSpecSignoff
  "\<lambda>e. eKind e \<in> {KindSpecSignoffMinted, KindSpecAmended}" "\<lambda>e. pSpecSignoff (ePayload e)"
  voids_signoff
  by unfold_locales (simp_all add: fold_event_signoff)

interpretation lease_field: written_field fold_event zero_job Fold lease_of
  claims_lease claimed_lease ends_lease
  by unfold_locales
    (auto simp: lease_of_def claims_lease_def claimed_lease_def ends_lease_def fold_event_lease)

section \<open>Properties of every folded row\<close>

text \<open>
  Property C8: a verdict in the row is the gate's, and current.  The folded row
  carries verdict \<open>v\<close> iff the ledger has a \<open>verdict_minted\<close> event with \<open>v\<close> after
  which no verdict was minted and nothing voided it: no supersession, rebase,
  conflict, adoption re-arm, janitor or operator re-arm.  A worker's claim event
  never puts one there.
\<close>

theorem verdict_provenance:
  "jVerdict (Fold es) = Some v \<longleftrightarrow>
     (\<exists>pre e post. es = pre @ e # post \<and> eKind e = KindVerdictMinted
        \<and> pVerdict (ePayload e) = Some v
        \<and> (\<forall>x \<in> set post. eKind x \<noteq> KindVerdictMinted \<and> \<not> voids_verdict x))"
  using verdict_field.field_run [of es v] by (simp add: verdict_field.last_written_def)

definition sample_event :: "EventKind \<Rightarrow> State \<Rightarrow> Event" where
  "sample_event k s =
     \<lparr>eJobID = ''j1'', eJobSeq = 1, eKind = k, eFromState = StateCodeReview, eToState = s,
      eLeaseEpoch = 1, eActor = ''gate'', eCreatedAt = 7, ePayload = zero_payload\<rparr>"

definition mint_event :: Event where
  "mint_event = (sample_event KindVerdictMinted StateMergeable)
     \<lparr>ePayload := zero_payload\<lparr>pVerdict := Some (sample_verdict ''h1'')\<rparr>\<rparr>"

theorem verdict_provenance_witness:
  "jVerdict (Fold [mint_event]) = Some (sample_verdict ''h1'')
   \<and> jVerdict (Fold [mint_event, sample_event KindSuperseded StateReady]) \<noteq> Some (sample_verdict ''h1'')"
proof
  have "[mint_event] = [] @ mint_event # []" by simp
  then show "jVerdict (Fold [mint_event]) = Some (sample_verdict ''h1'')"
    unfolding verdict_provenance
    by (intro exI [of _ "[]"] exI [of _ mint_event])
      (simp add: mint_event_def sample_event_def)
  show "jVerdict (Fold [mint_event, sample_event KindSuperseded StateReady]) \<noteq> Some (sample_verdict ''h1'')"
    unfolding verdict_provenance
    by (auto simp: Cons_eq_append_conv sample_event_def voids_verdict_def)
qed

text \<open>
  Beside the properties: a lease in the row was claimed and not ended.  A non-empty lease
  id comes from a claim (of the job or of its review) with that id, after which
  no event ended or replaced the lease.
\<close>

theorem lease_provenance:
  assumes "jLeaseID (Fold es) \<noteq> []"
  shows "\<exists>pre e post. es = pre @ e # post \<and> claims_lease e
     \<and> pLeaseID (ePayload e) = jLeaseID (Fold es)
     \<and> (\<forall>x \<in> set post. eKind x \<in> keeps_lease \<and> \<not> claims_lease x)"
proof -
  have "lease_of (Fold es) = Some (jLeaseID (Fold es))" using assms by (simp add: lease_of_def)
  then have "lease_field.last_written es (jLeaseID (Fold es))"
    by (simp only: lease_field.field_run)
  then show ?thesis
    unfolding lease_field.last_written_def
    by (elim exE conjE, intro exI conjI)
      (auto simp: ends_lease_def claimed_lease_def split: if_splits)
qed

definition claim_event :: Event where
  "claim_event = (sample_event KindLeaseClaimed StateLeased)
     \<lparr>ePayload := zero_payload\<lparr>pLeaseID := ''l1''\<rparr>\<rparr>"

theorem lease_provenance_witness:
  "jLeaseID (Fold [claim_event]) = ''l1''
   \<and> (\<exists>pre e post. [claim_event] = pre @ e # post \<and> pLeaseID (ePayload e) = ''l1'')"
proof -
  have l: "jLeaseID (Fold [claim_event]) = ''l1''"
    by (simp add: Fold_def fold_event_lease claim_event_def sample_event_def)
  with lease_provenance [of "[claim_event]"] show ?thesis by (simp only: l) blast
qed

text \<open>
  Beside the properties: the human-gate fields follow the state.  Outside \<open>needs_human\<close> and
  \<open>needs_design\<close> a folded row has no escalation reason and is not over budget,
  whatever path left the gate.
\<close>

lemma fold_event_gate:
  "jState (fold_event j e) \<notin> {StateNeedsHuman, StateNeedsDesign} \<Longrightarrow>
     jEscalationReason (fold_event j e) = [] \<and> \<not> jOverBudget (fold_event j e)"
  unfolding fold_event_def by (auto simp: sync_human_gate_def)

theorem human_gate_fields:
  assumes "jState (Fold es) \<notin> {StateNeedsHuman, StateNeedsDesign}"
  shows "jEscalationReason (Fold es) = [] \<and> \<not> jOverBudget (Fold es)"
proof -
  have "jState (Fold es) \<notin> {StateNeedsHuman, StateNeedsDesign} \<longrightarrow>
      jEscalationReason (Fold es) = [] \<and> \<not> jOverBudget (Fold es)"
    by (rule ledger.run_invariant) (simp, use fold_event_gate in blast)
  with assms show ?thesis by blast
qed

theorem human_gate_fields_witness:
  "\<not> jOverBudget (Fold [sample_event KindCostEscalated StateNeedsHuman,
                        sample_event KindStateChanged StateReady])"
proof -
  have "jState (Fold [sample_event KindCostEscalated StateNeedsHuman,
      sample_event KindStateChanged StateReady]) = StateReady"
    by (simp add: Fold_def fold_event_def on_defs sample_event_def zero_payload_def)
  then show ?thesis
    using human_gate_fields [of "[sample_event KindCostEscalated StateNeedsHuman,
      sample_event KindStateChanged StateReady]"] by simp
qed

definition surface_role :: "Job \<Rightarrow> Role option" where
  "surface_role j =
     (if jState j = StateReady \<and> jKind j = KindBuild then Some RoleEngWorker
      else if jState j = StateSpecAuthoring then Some RoleSpecAuthor
      else if jState j = StateSpecReview then Some RoleSpecReviewer
      else if jState j = StateResolvingConflict then Some RoleConflictResolver
      else None)"

lemma fold_event_surface:
  "surface_role (fold_event j e) = Some r \<Longrightarrow>
     jRole (fold_event j e) = r \<and> jRequiredCapabilities (fold_event j e) = [''role:'' @ role_str r]"
  unfolding fold_event_def surface_role_def
  by (simp add: sync_role_caps_def split: if_splits)

text \<open>
  Property C9: a gate state has one role and one capability.  A folded row in
  \<open>ready\<close> (of a build), \<open>spec_authoring\<close>, \<open>spec_review\<close> or \<open>resolving_conflict\<close>
  carries exactly the role of that surface and its capability, so only workers
  of that role can lease it, whatever path led there.
\<close>

theorem surface_role_and_caps:
  assumes "surface_role (Fold es) = Some r"
  shows "jRole (Fold es) = r \<and> jRequiredCapabilities (Fold es) = [''role:'' @ role_str r]
     \<and> (\<forall>worker. CapabilitiesSatisfy worker (jRequiredCapabilities (Fold es))
          \<longleftrightarrow> ''role:'' @ role_str r \<in> set worker)"
proof -
  have *: "surface_role (Fold es) = Some r \<longrightarrow>
      jRole (Fold es) = r \<and> jRequiredCapabilities (Fold es) = [''role:'' @ role_str r]"
    by (rule ledger.run_invariant) (simp add: surface_role_def, use fold_event_surface in blast)
  have "''role:'' @ role_str r \<noteq> ''model_family:*''" by simp
  with * assms show ?thesis by (simp add: CapabilitiesSatisfy_iff cap_met_def)
qed

theorem surface_role_and_caps_witness:
  "jRole (Fold [sample_event KindLeaseRevoked StateSpecReview]) = RoleSpecReviewer"
proof -
  have "surface_role (Fold [sample_event KindLeaseRevoked StateSpecReview]) = Some RoleSpecReviewer"
    by (simp add: surface_role_def Fold_def fold_event_def on_defs sample_event_def zero_payload_def)
  then show ?thesis
    using surface_role_and_caps [of "[sample_event KindLeaseRevoked StateSpecReview]"] by simp
qed

section \<open>Accounting\<close>

definition since_reset :: "Event list \<Rightarrow> Event list" where
  "since_reset es = rev (takeWhile (\<lambda>e. \<not> resets e) (rev es))"

definition bounce_delta :: "Event \<Rightarrow> int" where
  "bounce_delta e = (if eKind e \<in> bounce_kinds then pBouncesDelta (ePayload e) else 0)"

definition cost_delta :: "Event \<Rightarrow> int64" where
  "cost_delta e = (if eKind e \<in> {KindCostMetered, KindCostEscalated}
                   then pCostMicroUSDDelta (ePayload e) else 0)"

text \<open>
  Beside the properties: the counters account for the ledger.  After any events, the
  bounce count is the sum of the deltas of the bounce events since the last
  counter reset, the janitor's count is the number of its events (no other
  event, the operator's reset included, changes it), and the cost meter is the
  sum of every reported delta (as int64).
\<close>

theorem counters_account:
  "jBounces (Fold es) = sum_list (map bounce_delta (since_reset es))
   \<and> jUnblockAttempts (Fold es) = int (length (filter (\<lambda>e. eKind e = KindJanitorUnblocked) es))
   \<and> jCostMicroUSD (Fold es) = sum_list (map cost_delta es)"
proof (induction es rule: rev_induct)
  case Nil
  show ?case by (simp add: ledger.run_Nil since_reset_def)
next
  case (snoc e es)
  then show ?case
    by (simp add: ledger.run_snoc fold_event_bounces fold_event_unblocks fold_event_cost
        since_reset_def bounce_delta_def cost_delta_def)
qed

section \<open>Audit events\<close>

definition audit_kinds :: "EventKind set" where
  "audit_kinds =
     {KindHeartbeat, KindNoEligibleWorker, KindVerdictClaim, KindFactsReconciled, KindSpecClaim,
      KindCompensated, KindTrackingLabelled, KindStackedRebased, KindTestCIRecorded}"

lemma kind_step_audit: "k \<in> audit_kinds \<Longrightarrow> kind_step k e j = j"
  by (auto simp: audit_kinds_def)

definition synced :: "Job \<Rightarrow> bool" where
  "synced j \<longleftrightarrow> sync_role_caps j = j
     \<and> (jState j \<notin> {StateNeedsHuman, StateNeedsDesign} \<longrightarrow> jEscalationReason j = [] \<and> \<not> jOverBudget j)"

lemma sync_role_caps_seq: "sync_role_caps (j\<lparr>jJobSeq := n\<rparr>) = (sync_role_caps j)\<lparr>jJobSeq := n\<rparr>"
  by (simp add: sync_role_caps_def)

lemma sync_role_caps_idem: "sync_role_caps (sync_role_caps j) = sync_role_caps j"
  by (cases "jState j"; cases "jKind j") (simp_all add: sync_role_caps_def)

lemma synced_fold_event: "synced (fold_event j e)"
proof -
  have "sync_role_caps (fold_event j e) = fold_event j e"
    by (simp only: fold_event_def sync_role_caps_seq sync_role_caps_idem)
  then show ?thesis using fold_event_gate [of j e] by (simp add: synced_def)
qed

lemma synced_Fold: "synced (Fold es)"
  by (rule ledger.run_invariant) (simp add: synced_def sync_role_caps_def, rule synced_fold_event)

lemma synced_gate:
  "synced j \<Longrightarrow> pEscalationReason p = [] \<Longrightarrow> sync_human_gate p j = j"
  by (auto simp: synced_def sync_human_gate_def)

text \<open>
  Beside the properties: a claim is only a record.  An event of an audit kind (heartbeats,
  the workers' verdict and spec claims, alarms, reconciled facts, compensation,
  labels, test results) that carries no notes and no reason moves nothing but
  the row's cursor.
\<close>

theorem audit_events_are_inert:
  assumes "eKind e \<in> audit_kinds"
    and "pReviewNotes (ePayload e) = []" "pCIFailures (ePayload e) = []"
    and "pEscalationReason (ePayload e) = []"
  shows "Fold (es @ [e]) = (Fold es)\<lparr>jJobSeq := eJobSeq e\<rparr>"
proof -
  have "sync_notes (ePayload e) (Fold es) = Fold es"
    using assms by (simp add: sync_notes_def)
  then show ?thesis
    using assms synced_Fold [of es] synced_gate [OF synced_Fold]
    by (simp add: ledger.run_snoc fold_event_def kind_step_audit synced_def)
qed

theorem audit_events_are_inert_witness:
  "Fold [mint_event, sample_event KindVerdictClaim StateDone] = (Fold [mint_event])\<lparr>jJobSeq := 1\<rparr>"
  using audit_events_are_inert [of "sample_event KindVerdictClaim StateDone" "[mint_event]"]
  by (simp add: sample_event_def audit_kinds_def zero_payload_def)

end
