(* ===== verification/Liveness.thy ===== *)
theory Liveness
  imports Prelude
begin

text \<open>
  The stall ladder (\<open>internal/liveness/liveness.go\<close>): the rung observations, the
  two-rung kill rule \<open>EvaluateKill\<close> and the heartbeat fast paths.  Strings a
  worker reports are kept open: the constructor \<open>...Other\<close> is any string that is
  not one of the source's constants.  The abstract rule is stated over the set
  of voting rungs, and \<open>EvaluateKill\<close> is proved to implement it.
\<close>

datatype AgentHealth =
    HealthOK | HealthZombie | HealthStdinBlock | HealthCPUSpin | HealthOOM | HealthHungChild
  | HealthUnknown | HealthOther string

datatype Rung1Class = Rung1Working | Rung1Frozen | Rung1Spinning | Rung1Unknown | Rung1Other string

datatype Rung2Verdict = Rung2Converging | Rung2Stalled | Rung2Abstain | Rung2Other string

record Rung3State =
  SoftCrossed :: bool
  AbsoluteCap :: bool
  HeartbeatStale :: bool

record RungSet =
  rsHealth :: AgentHealth
  rsRung1 :: Rung1Class
  rsRung2 :: Rung2Verdict
  rsRung3 :: Rung3State
  rsCircuitBreakerTripped :: bool

record KillDecision =
  kdKill :: bool
  kdUnilateral :: bool
  kdReason :: string

fun rung0Suspect :: "AgentHealth \<Rightarrow> bool" where
  "rung0Suspect HealthStdinBlock = True"
| "rung0Suspect HealthCPUSpin = True"
| "rung0Suspect HealthOOM = True"
| "rung0Suspect HealthHungChild = True"
| "rung0Suspect _ = False"

fun rung1Suspect :: "Rung1Class \<Rightarrow> AgentHealth \<Rightarrow> bool" where
  "rung1Suspect Rung1Spinning h = True"
| "rung1Suspect Rung1Frozen h = (h \<noteq> HealthOK \<and> h \<noteq> HealthUnknown)"
| "rung1Suspect _ h = False"

definition kd :: "bool \<Rightarrow> bool \<Rightarrow> string \<Rightarrow> KillDecision" where
  "kd k u r = \<lparr>kdKill = k, kdUnilateral = u, kdReason = r\<rparr>"

lemma kd_simps [simp]: "kdKill (kd k u r) = k" "kdUnilateral (kd k u r) = u" "kdReason (kd k u r) = r"
  by (simp_all add: kd_def)

definition EvaluateKill :: "RungSet \<Rightarrow> KillDecision" where
  "EvaluateKill rs =
     (let r3 = rsRung3 rs; stalled = (rsRung2 rs = Rung2Stalled) in
      if AbsoluteCap r3 then kd True True ''absolute lease cap (Rung-3)''
      else if HeartbeatStale r3 then kd True True ''heartbeat stale (worker presumed dead)''
      else if rsCircuitBreakerTripped rs
        then kd False False ''Rung-2 circuit breaker tripped: deadlines widened''
      else if SoftCrossed r3 then
        (if stalled then kd True False ''soft deadline (Rung-3) + Rung-2 stalled''
         else if rung1Suspect (rsRung1 rs) (rsHealth rs)
           then kd True False ''soft deadline (Rung-3) + Rung-1 suspicion''
         else if rung0Suspect (rsHealth rs)
           then kd True False ''soft deadline (Rung-3) + Rung-0 hint''
         else kd False False ''soft deadline crossed but no second rung (Rung-2 abstains)'')
      else if stalled \<and> (rung1Suspect (rsRung1 rs) (rsHealth rs) \<or> rung0Suspect (rsHealth rs))
        then kd True False ''Rung-2 stalled + worker-reported suspicion''
      else kd False False ''no two-rung agreement'')"

datatype FastPath = FastPathNone | FastPathCancel | FastPathFailed

definition EvaluateFastPath :: "AgentHealth \<Rightarrow> bool \<Rightarrow> bool \<Rightarrow> FastPath" where
  "EvaluateFastPath health awaitingInput exited =
     (if exited \<or> health = HealthZombie then FastPathFailed
      else if awaitingInput then FastPathCancel
      else FastPathNone)"

section \<open>The abstract rule: votes of independent rungs\<close>

datatype Rung = Rung0 | Rung1 | Rung2 | Rung3

definition votes :: "RungSet \<Rightarrow> Rung set" where
  "votes rs =
     (if rung0Suspect (rsHealth rs) then {Rung0} else {})
     \<union> (if rung1Suspect (rsRung1 rs) (rsHealth rs) then {Rung1} else {})
     \<union> (if rsRung2 rs = Rung2Stalled then {Rung2} else {})
     \<union> (if SoftCrossed (rsRung3 rs) then {Rung3} else {})"

definition clock_kill :: "RungSet \<Rightarrow> bool" where
  "clock_kill rs \<longleftrightarrow> AbsoluteCap (rsRung3 rs) \<or> HeartbeatStale (rsRung3 rs)"

definition two_rung_agreement :: "RungSet \<Rightarrow> bool" where
  "two_rung_agreement rs \<longleftrightarrow> 2 \<le> card (votes rs) \<and> votes rs \<inter> {Rung2, Rung3} \<noteq> {}"

lemma EvaluateKill_kill:
  "kdKill (EvaluateKill rs) \<longleftrightarrow>
     clock_kill rs \<or> \<not> rsCircuitBreakerTripped rs \<and> two_rung_agreement rs"
  unfolding EvaluateKill_def clock_kill_def two_rung_agreement_def votes_def Let_def
  by (simp add: insert_commute)

lemma EvaluateKill_unilateral: "kdUnilateral (EvaluateKill rs) \<longleftrightarrow> clock_kill rs"
  by (simp add: EvaluateKill_def clock_kill_def Let_def)

text \<open>
  Beside the properties: \<open>EvaluateKill\<close> implements the two-rung rule exactly.  A job is
  killed iff the clock alone condemns it (absolute cap or silent worker), or the
  circuit breaker is not tripped and at least two rungs vote, one of them a rung
  the worker cannot forge (the external oracle or the clock).  The kill is
  unilateral iff it is the clock's.
\<close>

theorem two_rung_rule:
  "(kdKill (EvaluateKill rs) \<longleftrightarrow>
      clock_kill rs \<or> \<not> rsCircuitBreakerTripped rs \<and> two_rung_agreement rs)
   \<and> (kdUnilateral (EvaluateKill rs) \<longleftrightarrow> clock_kill rs)"
  by (simp only: EvaluateKill_kill EvaluateKill_unilateral simp_thms)

text \<open>
  Beside the properties: a worker that thinks is not killed for it.  Without a clock kill,
  a job whose agent reports \<open>ok\<close> (or nothing) and whose progress is merely frozen
  survives unless the clock's soft deadline and the external oracle agree, and no
  combination of worker-reported hints kills on its own.
\<close>

theorem frozen_while_ok_survives:
  "(\<not> clock_kill rs \<longrightarrow> rsHealth rs \<in> {HealthOK, HealthUnknown} \<longrightarrow> rsRung1 rs \<noteq> Rung1Spinning \<longrightarrow>
      kdKill (EvaluateKill rs) \<longrightarrow> SoftCrossed (rsRung3 rs) \<and> rsRung2 rs = Rung2Stalled)
   \<and> (\<not> clock_kill rs \<longrightarrow> \<not> SoftCrossed (rsRung3 rs) \<longrightarrow> rsRung2 rs \<noteq> Rung2Stalled \<longrightarrow>
      \<not> kdKill (EvaluateKill rs))"
proof (intro conjI impI)
  assume "\<not> clock_kill rs" and h: "rsHealth rs \<in> {HealthOK, HealthUnknown}"
    and r: "rsRung1 rs \<noteq> Rung1Spinning" and k: "kdKill (EvaluateKill rs)"
  have "\<not> rung1Suspect (rsRung1 rs) (rsHealth rs)" "\<not> rung0Suspect (rsHealth rs)"
    using h r by (cases "rsRung1 rs"; auto)+
  then show "SoftCrossed (rsRung3 rs)" "rsRung2 rs = Rung2Stalled"
    using k \<open>\<not> clock_kill rs\<close> by (simp_all add: EvaluateKill_def clock_kill_def Let_def split: if_splits)
next
  assume "\<not> clock_kill rs" "\<not> SoftCrossed (rsRung3 rs)" "rsRung2 rs \<noteq> Rung2Stalled"
  then show "\<not> kdKill (EvaluateKill rs)"
    by (simp add: EvaluateKill_def clock_kill_def Let_def)
qed

definition thinking_rungs :: RungSet where
  "thinking_rungs =
     \<lparr>rsHealth = HealthOK, rsRung1 = Rung1Frozen, rsRung2 = Rung2Abstain,
      rsRung3 = \<lparr>SoftCrossed = True, AbsoluteCap = False, HeartbeatStale = False\<rparr>,
      rsCircuitBreakerTripped = False\<rparr>"

theorem frozen_while_ok_survives_witness: "\<not> kdKill (EvaluateKill thinking_rungs)"
  using frozen_while_ok_survives [of thinking_rungs]
  by (auto simp: thinking_rungs_def clock_kill_def)

text \<open>The fast paths: a proven exit wins over awaiting input.\<close>

lemma fast_path_cases:
  "EvaluateFastPath h a x = FastPathFailed \<longleftrightarrow> x \<or> h = HealthZombie"
  "EvaluateFastPath h a x = FastPathCancel \<longleftrightarrow> \<not> x \<and> h \<noteq> HealthZombie \<and> a"
  "EvaluateFastPath h a x = FastPathNone \<longleftrightarrow> \<not> x \<and> h \<noteq> HealthZombie \<and> \<not> a"
  by (auto simp: EvaluateFastPath_def)

end
