(* ===== verification/Engine.thy ===== *)
theory Engine
  imports Review_Gate Liveness Ledger_Fold
begin

text \<open>
  The deterministic core, \<open>internal/engine/engine.go\<close>: the snapshot it reads, the
  closed set of events (the types that implement the \<open>Event\<close> interface are the
  constructors of one datatype), the decision it returns, and \<open>Decide\<close>, with one
  definition per \<open>case\<close> of its type switch.  The interface is sealed by an
  unexported method, so only a nil interface value reaches the default branch;
  it is the constructor \<open>NilEvent\<close>.
\<close>

section \<open>Snapshot, events, decision\<close>

record SpecState =
  ssCurrentHash :: string
  ssVersion :: int
  ssAuthorLens :: string
  ssReviewerLens :: string

record EngineState =
  esJob :: Job
  esNow :: int
  esEpoch :: int
  esGitHub :: DomainBFacts
  esPolicy :: Policy
  esSpec :: SpecState
  esContent :: "ContentResult option"

record ReviewClaimT =
  rcEpoch :: int
  rcValue :: VerdictValue
  rcDisposition :: Disposition
  rcReviewerPriorRejections :: int
  rcPriorApprovals :: int

record SpecReviewClaimT =
  scEpoch :: int
  scClaim :: VerdictValue
  scClaimBindsTo :: string
  scMeetsStyle :: bool
  scMeetsRequirements :: bool
  scAmendedHash :: string
  scAmendedVersion :: int
  scReviewerPriorRejections :: int

record HeartbeatT =
  hbEpoch :: int
  hbHealth :: AgentHealth
  hbAwaitingInput :: bool
  hbAgentExited :: bool

record LivenessVerdictT =
  lvRungs :: RungSet
  lvGovernorCeilingReached :: bool
  lvAttemptsExhausted :: bool

datatype EngineEvent =
    Heartbeat HeartbeatT
  | LivenessVerdict LivenessVerdictT
  | WorkResult int
  | Release int
  | ReviewClaim ReviewClaimT
  | MergeDispatch
  | CostMeter int
  | SpecReviewClaim SpecReviewClaimT
  | NilEvent

datatype Directive = DirectiveContinue | DirectiveCancel

record Transition =
  tFrom :: State
  tTo :: State
  tKind :: EventKind
  tBouncesDelta :: int
  tAttemptsDelta :: int
  tVerdict :: "Verdict option"
  tSpecSignoff :: "SpecSignoff option"
  tStallRevocationsDelta :: int
  tBumpEpoch :: bool
  tRevokeReason :: string

record Decision =
  dTransitions :: "Transition list"
  dVerdictMint :: "Verdict option"
  dSpecMint :: "SpecSignoff option"
  dDirective :: "Directive option"
  dReject :: "string option"

text \<open>A transition and a decision with the fields a composite literal leaves zero.\<close>

definition move :: "State \<Rightarrow> State \<Rightarrow> EventKind \<Rightarrow> Transition" where
  "move f t k = \<lparr>tFrom = f, tTo = t, tKind = k, tBouncesDelta = 0, tAttemptsDelta = 0,
     tVerdict = None, tSpecSignoff = None, tStallRevocationsDelta = 0, tBumpEpoch = False,
     tRevokeReason = []\<rparr>"

definition no_decision :: Decision where
  "no_decision = \<lparr>dTransitions = [], dVerdictMint = None, dSpecMint = None, dDirective = None,
     dReject = None\<rparr>"

definition reject :: "string \<Rightarrow> Decision" where
  "reject r = no_decision\<lparr>dReject := Some r\<rparr>"

definition moves :: "Transition list \<Rightarrow> Decision" where
  "moves ts = no_decision\<lparr>dTransitions := ts\<rparr>"

section \<open>The decision, case by case\<close>

fun redispatchTarget :: "State \<Rightarrow> State" where
  "redispatchTarget StateCodeReview = StateReviewPending"
| "redispatchTarget StateSpecAuthoring = StateSpecAuthoring"
| "redispatchTarget StateSpecReview = StateSpecAuthoring"
| "redispatchTarget StateResolvingConflict = StateResolvingConflict"
| "redispatchTarget _ = StateReady"

definition staleEpoch :: "int \<Rightarrow> int \<Rightarrow> string option" where
  "staleEpoch claimed live = (if claimed \<noteq> live then Some ''stale lease epoch'' else None)"

definition decide_heartbeat :: "EngineState \<Rightarrow> HeartbeatT \<Rightarrow> Decision" where
  "decide_heartbeat s ev =
     (case staleEpoch (hbEpoch ev) (esEpoch s) of
        Some r \<Rightarrow> reject r
      | None \<Rightarrow>
        if \<not> HasActiveLease (jState (esJob s)) then reject ''job not in an active lease state''
        else case EvaluateFastPath (hbHealth ev) (hbAwaitingInput ev) (hbAgentExited ev) of
          FastPathFailed \<Rightarrow>
            (moves [(move (jState (esJob s)) StateFailed KindAgentExited)
                      \<lparr>tBumpEpoch := True, tRevokeReason := ''agent_exited''\<rparr>])
              \<lparr>dDirective := Some DirectiveCancel\<rparr>
        | FastPathCancel \<Rightarrow>
            (moves [(move (jState (esJob s)) (redispatchTarget (jState (esJob s))) KindFastCancelled)
                      \<lparr>tAttemptsDelta := 1, tBumpEpoch := True, tRevokeReason := ''awaiting_input''\<rparr>])
              \<lparr>dDirective := Some DirectiveCancel\<rparr>
        | FastPathNone \<Rightarrow>
            if jOverBudget (esJob s)
               \<or> CostExceeded (jCostMicroUSD (esJob s)) (jCostCeilingMicroUSD (esJob s))
            then no_decision\<lparr>dDirective := Some DirectiveCancel\<rparr>
            else no_decision\<lparr>dDirective := Some DirectiveContinue\<rparr>)"

definition decide_cost_meter :: "EngineState \<Rightarrow> int \<Rightarrow> Decision" where
  "decide_cost_meter s epoch =
     (case staleEpoch epoch (esEpoch s) of
        Some r \<Rightarrow> reject r
      | None \<Rightarrow>
        if \<not> HasActiveLease (jState (esJob s)) then reject ''job not in an active lease state''
        else if \<not> CostExceeded (jCostMicroUSD (esJob s)) (jCostCeilingMicroUSD (esJob s))
        then no_decision\<lparr>dDirective := Some DirectiveContinue\<rparr>
        else (moves [(move (jState (esJob s)) StateNeedsHuman KindCostEscalated)
                       \<lparr>tBumpEpoch := True, tRevokeReason := escalation_str EscalationCost\<rparr>])
               \<lparr>dDirective := Some DirectiveCancel\<rparr>)"

definition revoke_reason :: "KillDecision \<Rightarrow> RungSet \<Rightarrow> string" where
  "revoke_reason k rs =
     (if kdUnilateral k
      then (if \<not> AbsoluteCap (rsRung3 rs) \<and> HeartbeatStale (rsRung3 rs) then ''heartbeat_stale''
            else ''absolute_cap'')
      else ''two_rung_stall'')"

definition decide_liveness :: "EngineState \<Rightarrow> LivenessVerdictT \<Rightarrow> Decision" where
  "decide_liveness s ev =
     (if \<not> HasActiveLease (jState (esJob s)) then reject ''job not in an active lease state''
      else let k = EvaluateKill (lvRungs ev) in
        if \<not> kdKill k then no_decision
        else let reason = revoke_reason k (lvRungs ev);
                 escalate = (if kdUnilateral k
                             then lvAttemptsExhausted ev \<or> lvGovernorCeilingReached ev
                             else lvGovernorCeilingReached ev)
             in if escalate
                then moves [(move (jState (esJob s)) StateNeedsHuman KindStallEscalated)
                       \<lparr>tStallRevocationsDelta := 1, tBumpEpoch := True, tRevokeReason := reason\<rparr>]
                else moves [(move (jState (esJob s)) (redispatchTarget (jState (esJob s)))
                         KindLeaseRevoked)
                       \<lparr>tAttemptsDelta := 1, tStallRevocationsDelta := 1, tBumpEpoch := True,
                        tRevokeReason := reason\<rparr>])"

definition decide_work_result :: "EngineState \<Rightarrow> int \<Rightarrow> Decision" where
  "decide_work_result s epoch =
     (case staleEpoch epoch (esEpoch s) of
        Some r \<Rightarrow> reject r
      | None \<Rightarrow>
        let from = jState (esJob s);
            (ts, from') = (if from = StateLeased
                           then ([move StateLeased StateBuilding KindWorkerStarted], StateBuilding)
                           else ([], from))
        in if from' \<noteq> StateBuilding then reject ''job not in a state that accepts a result''
           else moves (ts @ [move StateBuilding StateReviewPending KindResultAccepted]))"

definition decide_release :: "EngineState \<Rightarrow> int \<Rightarrow> Decision" where
  "decide_release s epoch =
     (case staleEpoch epoch (esEpoch s) of
        Some r \<Rightarrow> reject r
      | None \<Rightarrow>
        if \<not> HasActiveLease (jState (esJob s)) then reject ''job not in an active lease state''
        else let to = (if jState (esJob s) = StateCodeReview then StateReviewPending else StateReady)
             in moves [(move (jState (esJob s)) to KindLeaseReleased)\<lparr>tAttemptsDelta := 1\<rparr>])"

definition review_gate_inputs :: "EngineState \<Rightarrow> ReviewClaimT \<Rightarrow> GateInputs" where
  "review_gate_inputs s ev =
     \<lparr>giClaim = rcValue ev, giDisp = rcDisposition ev, giFacts = esGitHub s,
      giBounces = jBounces (esJob s), giMaxBounce = jMaxBounces (esJob s),
      giReviewerRejections = rcReviewerPriorRejections ev, giPolicy = esPolicy s,
      giContent = esContent s\<rparr>"

definition decide_review_claim :: "EngineState \<Rightarrow> ReviewClaimT \<Rightarrow> Decision" where
  "decide_review_claim s ev =
     (case staleEpoch (rcEpoch ev) (esEpoch s) of
        Some r \<Rightarrow> reject r
      | None \<Rightarrow>
        if jState (esJob s) \<noteq> StateCodeReview then reject ''job not in code_review''
        else let out = EvaluateGate (review_gate_inputs s ev) in
          case goTrigger out of
            TriggerApproved \<Rightarrow>
              if rcPriorApprovals ev + 1 < RequiredReviewersOrDefault (esPolicy s)
              then moves [move StateCodeReview StateReviewPending KindReviewApproved]
              else (moves [(move StateCodeReview StateMergeable KindVerdictMinted)
                             \<lparr>tVerdict := goVerdict out\<rparr>])
                     \<lparr>dVerdictMint := goVerdict out\<rparr>
          | TriggerBounce \<Rightarrow>
              moves [(move StateCodeReview StateReady KindReviewBounced)\<lparr>tBouncesDelta := 1\<rparr>]
          | TriggerBounceExhausted \<Rightarrow>
              moves [(move StateCodeReview StateNeedsHuman KindBounceExhausted)\<lparr>tBouncesDelta := 1\<rparr>]
          | _ \<Rightarrow> reject ''gate produced no transition'')"

definition spec_gate_inputs :: "EngineState \<Rightarrow> SpecReviewClaimT \<Rightarrow> SpecGateInputs" where
  "spec_gate_inputs s ev =
     \<lparr>siClaim = scClaim ev, siClaimBindsTo = scClaimBindsTo ev, siMeetsStyle = scMeetsStyle ev,
      siMeetsRequirements = scMeetsRequirements ev, siCurrentSpecHash = ssCurrentHash (esSpec s),
      siSpecVersion = ssVersion (esSpec s), siReviewerLens = ssReviewerLens (esSpec s),
      siAuthorLens = ssAuthorLens (esSpec s), siBounces = jBounces (esJob s),
      siMaxBounce = jMaxBounces (esJob s), siReviewerRejections = scReviewerPriorRejections ev,
      siAmendedHash = scAmendedHash ev, siAmendedVersion = scAmendedVersion ev\<rparr>"

definition decide_spec_review_claim :: "EngineState \<Rightarrow> SpecReviewClaimT \<Rightarrow> Decision" where
  "decide_spec_review_claim s ev =
     (case staleEpoch (scEpoch ev) (esEpoch s) of
        Some r \<Rightarrow> reject r
      | None \<Rightarrow>
        if jState (esJob s) \<noteq> StateSpecReview then reject ''job not in spec_review''
        else let out = EvaluateSpecGate (spec_gate_inputs s ev) in
          case soTrigger out of
            TriggerSpecSignedOff \<Rightarrow>
              (moves [(move StateSpecReview StateDone KindSpecSignoffMinted)
                        \<lparr>tSpecSignoff := soSignoff out\<rparr>])\<lparr>dSpecMint := soSignoff out\<rparr>
          | TriggerSpecAmended \<Rightarrow>
              (moves [(move StateSpecReview StateDone KindSpecAmended)
                        \<lparr>tSpecSignoff := soSignoff out\<rparr>])\<lparr>dSpecMint := soSignoff out\<rparr>
          | TriggerSpecNeedsDesign \<Rightarrow>
              moves [move StateSpecReview StateNeedsDesign KindSpecNeedsDesign]
          | TriggerSpecSuperseded \<Rightarrow>
              moves [move StateSpecReview StateSpecAuthoring KindSpecSuperseded]
          | TriggerBounce \<Rightarrow>
              if jIsEpic (esJob s)
              then moves [(move StateSpecReview StateNeedsHuman KindBounceExhausted)
                            \<lparr>tBouncesDelta := 1\<rparr>]
              else moves [(move StateSpecReview StateSpecAuthoring KindSpecBounced)
                            \<lparr>tBouncesDelta := 1\<rparr>]
          | TriggerBounceExhausted \<Rightarrow>
              moves [(move StateSpecReview StateNeedsHuman KindBounceExhausted)\<lparr>tBouncesDelta := 1\<rparr>]
          | _ \<Rightarrow> reject ''spec gate produced no transition'')"

definition decide_merge_dispatch :: "EngineState \<Rightarrow> Decision" where
  "decide_merge_dispatch s =
     (if jState (esJob s) \<noteq> StateMergeable then reject ''job not mergeable''
      else case jVerdict (esJob s) of
        None \<Rightarrow> no_decision
      | Some v \<Rightarrow>
          if \<not> MergeReady (esGitHub s)
             \<or> \<not> verdict_Verify v (dbHeadSHA (esGitHub s)) (dbBaseSHA (esGitHub s))
          then no_decision
          else if vDisposition v = DispositionSelfMerge
             \<and> SelfMergeEligible v (esGitHub s) (esContent s) (esPolicy s)
          then moves [move StateMergeable StateMerging KindMergeStarted]
          else moves [move StateMergeable StateMergeHandoff KindMergeHandoff])"

fun Decide :: "EngineState \<Rightarrow> EngineEvent \<Rightarrow> Decision" where
  "Decide s (Heartbeat ev) = decide_heartbeat s ev"
| "Decide s (CostMeter epoch) = decide_cost_meter s epoch"
| "Decide s (LivenessVerdict ev) = decide_liveness s ev"
| "Decide s (WorkResult epoch) = decide_work_result s epoch"
| "Decide s (Release epoch) = decide_release s epoch"
| "Decide s (ReviewClaim ev) = decide_review_claim s ev"
| "Decide s (SpecReviewClaim ev) = decide_spec_review_claim s ev"
| "Decide s MergeDispatch = decide_merge_dispatch s"
| "Decide s NilEvent = reject ''unknown event''"

end
