(* ===== verification/Engine_Facts.thy ===== *)
theory Engine_Facts
  imports Engine
begin

text \<open>
  What the deterministic core guarantees: every call is fenced by the lease
  epoch, a rejection has no effect, the transitions of a decision form a path
  of the transition table (with the exceptions named), verdicts and sign-offs
  are minted under the gates' conditions only, and merges are dispatched under
  the single self-merge predicate.
\<close>

section \<open>Decisions\<close>

lemma move_sel [simp]:
  "tFrom (move f t k) = f" "tTo (move f t k) = t" "tKind (move f t k) = k"
  "tBouncesDelta (move f t k) = 0" "tAttemptsDelta (move f t k) = 0" "tVerdict (move f t k) = None"
  "tSpecSignoff (move f t k) = None" "tStallRevocationsDelta (move f t k) = 0"
  "\<not> tBumpEpoch (move f t k)" "tRevokeReason (move f t k) = []"
  by (simp_all add: move_def)

lemma decision_sel [simp]:
  "dTransitions no_decision = []" "dVerdictMint no_decision = None" "dSpecMint no_decision = None"
  "dDirective no_decision = None" "dReject no_decision = None"
  "dTransitions (moves ts) = ts" "dVerdictMint (moves ts) = None" "dSpecMint (moves ts) = None"
  "dDirective (moves ts) = None" "dReject (moves ts) = None"
  "dTransitions (reject r) = []" "dVerdictMint (reject r) = None" "dSpecMint (reject r) = None"
  "dDirective (reject r) = None" "dReject (reject r) = Some r"
  by (simp_all add: no_decision_def moves_def reject_def)

lemma staleEpoch_iff [simp]: "staleEpoch c l = None \<longleftrightarrow> c = l"
  by (simp add: staleEpoch_def)

lemma staleEpoch_stale: "c \<noteq> l \<Longrightarrow> staleEpoch c l = Some ''stale lease epoch''"
  by (simp add: staleEpoch_def)

text \<open>The epoch a fenced event claims.\<close>

fun claimed_epoch :: "EngineEvent \<Rightarrow> int option" where
  "claimed_epoch (Heartbeat ev) = Some (hbEpoch ev)"
| "claimed_epoch (CostMeter n) = Some n"
| "claimed_epoch (WorkResult n) = Some n"
| "claimed_epoch (Release n) = Some n"
| "claimed_epoch (ReviewClaim ev) = Some (rcEpoch ev)"
| "claimed_epoch (SpecReviewClaim ev) = Some (scEpoch ev)"
| "claimed_epoch _ = None"

lemma stale_rejected:
  "claimed_epoch ev = Some n \<Longrightarrow> n \<noteq> esEpoch s \<Longrightarrow> Decide s ev = reject ''stale lease epoch''"
  by (cases ev)
    (simp_all add: decide_heartbeat_def decide_cost_meter_def decide_work_result_def
      decide_release_def decide_review_claim_def decide_spec_review_claim_def staleEpoch_stale)

text \<open>What each event decides, on an epoch that matches.\<close>

lemma decide_review_claim_fresh:
  "rcEpoch ev = esEpoch s \<Longrightarrow> jState (esJob s) = StateCodeReview \<Longrightarrow>
   decide_review_claim s ev =
     (let i = review_gate_inputs s ev in
      if goTrigger (EvaluateGate i) = TriggerApproved
      then (if rcPriorApprovals ev + 1 < RequiredReviewersOrDefault (esPolicy s)
            then moves [move StateCodeReview StateReviewPending KindReviewApproved]
            else (moves [(move StateCodeReview StateMergeable KindVerdictMinted)
                           \<lparr>tVerdict := goVerdict (EvaluateGate i)\<rparr>])
                   \<lparr>dVerdictMint := goVerdict (EvaluateGate i)\<rparr>)
      else if goTrigger (EvaluateGate i) = TriggerBounceExhausted
      then moves [(move StateCodeReview StateNeedsHuman KindBounceExhausted)\<lparr>tBouncesDelta := 1\<rparr>]
      else moves [(move StateCodeReview StateReady KindReviewBounced)\<lparr>tBouncesDelta := 1\<rparr>])"
  by (simp add: decide_review_claim_def Let_def EvaluateGate_trigger staleEpoch_def)

lemma spec_trigger_cases:
  "soTrigger (EvaluateSpecGate i) \<in> {TriggerSpecSignedOff, TriggerSpecAmended, TriggerSpecNeedsDesign,
     TriggerSpecSuperseded, TriggerBounce, TriggerBounceExhausted}"
  by (simp add: EvaluateSpecGate_def)

lemma decide_work_result_fresh:
  "n = esEpoch s \<Longrightarrow> decide_work_result s n =
     (if jState (esJob s) = StateLeased
      then moves [move StateLeased StateBuilding KindWorkerStarted,
                  move StateBuilding StateReviewPending KindResultAccepted]
      else if jState (esJob s) = StateBuilding
      then moves [move StateBuilding StateReviewPending KindResultAccepted]
      else reject ''job not in a state that accepts a result'')"
  by (simp add: decide_work_result_def staleEpoch_def)

lemmas decide_defs =
  decide_heartbeat_def decide_cost_meter_def decide_liveness_def decide_release_def
  decide_spec_review_claim_def decide_merge_dispatch_def

definition bare_if_rejected :: "Decision \<Rightarrow> bool" where
  "bare_if_rejected d \<longleftrightarrow> (dReject d \<noteq> None \<longrightarrow>
     dTransitions d = [] \<and> dVerdictMint d = None \<and> dSpecMint d = None \<and> dDirective d = None)"

lemma bare_simps [simp]:
  "bare_if_rejected (reject r)" "bare_if_rejected no_decision" "bare_if_rejected (moves ts)"
  "bare_if_rejected ((moves ts)\<lparr>dDirective := x\<rparr>)" "bare_if_rejected (no_decision\<lparr>dDirective := x\<rparr>)"
  "bare_if_rejected ((moves ts)\<lparr>dVerdictMint := v\<rparr>)" "bare_if_rejected ((moves ts)\<lparr>dSpecMint := g\<rparr>)"
  by (simp_all add: bare_if_rejected_def)

lemma Decide_bare: "bare_if_rejected (Decide s ev)"
proof (cases ev)
  case (Heartbeat hb)
  then show ?thesis by (simp add: decide_heartbeat_def split: option.split FastPath.split)
next
  case (ReviewClaim rc)
  then show ?thesis by (simp add: decide_review_claim_def Let_def split: option.split Trigger.split)
next
  case (WorkResult n)
  then show ?thesis by (simp add: decide_work_result_def Let_def split: option.split prod.split)
next
  case (SpecReviewClaim sc)
  then show ?thesis
    by (simp add: decide_spec_review_claim_def Let_def split: option.split Trigger.split)
qed (simp_all add: decide_defs Let_def split: option.split)

text \<open>
  Property C5: the epoch fences every worker call.  A heartbeat, cost report,
  result, release, review or spec claim that carries another epoch than the
  live one is rejected as stale; and a rejection of any event is a decision
  without transitions, mints or directive.
\<close>

theorem epoch_fences_calls:
  "(claimed_epoch ev = Some n \<longrightarrow> n \<noteq> esEpoch s \<longrightarrow> Decide s ev = reject ''stale lease epoch'')
   \<and> (dReject (Decide s ev) \<noteq> None \<longrightarrow>
        dTransitions (Decide s ev) = [] \<and> dVerdictMint (Decide s ev) = None
        \<and> dSpecMint (Decide s ev) = None \<and> dDirective (Decide s ev) = None)"
  using stale_rejected [of ev n s] Decide_bare [of s ev] by (simp add: bare_if_rejected_def)

definition sample_state :: "State \<Rightarrow> EngineState" where
  "sample_state st = \<lparr>esJob = zero_job\<lparr>jState := st, jMaxBounces := 4, jVerdict := Some (sample_verdict ''h1'')\<rparr>,
     esNow = 0, esEpoch = 3, esGitHub = green_facts,
     esPolicy = \<lparr>AllowSelfMerge = True, RequiredReviewers = 0\<rparr>,
     esSpec = \<lparr>ssCurrentHash = ''s1'', ssVersion = 1, ssAuthorLens = [], ssReviewerLens = []\<rparr>,
     esContent = Some clear_content\<rparr>"

theorem epoch_fences_calls_witness:
  "Decide (sample_state StateBuilding) (WorkResult 2) = reject ''stale lease epoch''
   \<and> dTransitions (Decide (sample_state StateBuilding) (WorkResult 2)) = []"
  using epoch_fences_calls [of "WorkResult 2" 2 "sample_state StateBuilding"]
  by (simp add: sample_state_def)

section \<open>Transitions against the table\<close>

text \<open>The trigger of the transition table an event kind stands for.\<close>

fun kind_trigger :: "EventKind \<Rightarrow> Trigger option" where
  "kind_trigger KindWorkerStarted = Some TriggerWorkStarted"
| "kind_trigger KindResultAccepted = Some TriggerResultReceived"
| "kind_trigger KindLeaseReleased = Some TriggerReleased"
| "kind_trigger KindAgentExited = Some TriggerAgentExited"
| "kind_trigger KindFastCancelled = Some TriggerAwaitingInputCancel"
| "kind_trigger KindLeaseRevoked = Some TriggerStallRevokedRetry"
| "kind_trigger KindStallEscalated = Some TriggerStallRevokedExhaust"
| "kind_trigger KindVerdictMinted = Some TriggerApproved"
| "kind_trigger KindReviewBounced = Some TriggerBounce"
| "kind_trigger KindBounceExhausted = Some TriggerBounceExhausted"
| "kind_trigger KindSpecSignoffMinted = Some TriggerSpecSignedOff"
| "kind_trigger KindSpecAmended = Some TriggerSpecAmended"
| "kind_trigger KindSpecNeedsDesign = Some TriggerSpecNeedsDesign"
| "kind_trigger KindSpecSuperseded = Some TriggerSpecSuperseded"
| "kind_trigger KindSpecBounced = Some TriggerBounce"
| "kind_trigger KindMergeStarted = Some TriggerSelfMerge"
| "kind_trigger KindMergeHandoff = Some TriggerHandoff"
| "kind_trigger _ = None"

definition on_table :: "Transition \<Rightarrow> bool" where
  "on_table t \<longleftrightarrow> (\<exists>g. kind_trigger (tKind t) = Some g \<and> Next (tFrom t) g = (tTo t, None))"

text \<open>
  The moves the table has no edge for: the cost ceiling, a panel approval below
  the threshold, the ladder and the fast paths on the three active states the
  table has no liveness edges for, and a release from the states whose release
  the store maps itself.
\<close>

definition off_table :: "Transition \<Rightarrow> bool" where
  "off_table t \<longleftrightarrow>
     tKind t \<in> {KindCostEscalated, KindReviewApproved}
     \<or> tKind t \<in> {KindAgentExited, KindFastCancelled, KindLeaseRevoked, KindStallEscalated}
       \<and> tFrom t \<in> {StateResolvingConflict, StateMerging, StateMergeHandoff}
     \<or> tKind t = KindLeaseReleased
       \<and> tFrom t \<in> {StateResolvingConflict, StateMerging, StateMergeHandoff, StateSpecAuthoring,
                     StateSpecReview}"

fun chained :: "State \<Rightarrow> Transition list \<Rightarrow> bool" where
  "chained s [] = True"
| "chained s (t # ts) = (tFrom t = s \<and> chained (tTo t) ts)"

definition table_moves :: "State \<Rightarrow> Decision \<Rightarrow> bool" where
  "table_moves s d \<longleftrightarrow>
     chained s (dTransitions d) \<and> (\<forall>t \<in> set (dTransitions d). on_table t \<or> off_table t)"

lemmas table_simps = on_table_def off_table_def Next_ok_table_iff transitions_def

lemma on_table_edges:
  "on_table (move StateLeased StateBuilding KindWorkerStarted)"
  "on_table (move StateBuilding StateReviewPending KindResultAccepted)"
  "on_table (move StateMergeable StateMerging KindMergeStarted)"
  "on_table (move StateMergeable StateMergeHandoff KindMergeHandoff)"
  "on_table (move StateSpecReview StateNeedsDesign KindSpecNeedsDesign)"
  "on_table (move StateSpecReview StateSpecAuthoring KindSpecSuperseded)"
  by (simp_all add: table_simps)

lemma on_table_with [simp]:
  "on_table (t\<lparr>tBouncesDelta := n\<rparr>) = on_table t" "on_table (t\<lparr>tVerdict := v\<rparr>) = on_table t"
  "on_table (t\<lparr>tSpecSignoff := g\<rparr>) = on_table t"
  by (simp_all add: on_table_def)

lemma on_table_gates:
  "on_table (move StateCodeReview StateMergeable KindVerdictMinted)"
  "on_table (move StateCodeReview StateReady KindReviewBounced)"
  "on_table (move StateCodeReview StateNeedsHuman KindBounceExhausted)"
  "on_table (move StateSpecReview StateDone KindSpecSignoffMinted)"
  "on_table (move StateSpecReview StateDone KindSpecAmended)"
  "on_table (move StateSpecReview StateNeedsHuman KindBounceExhausted)"
  "on_table (move StateSpecReview StateSpecAuthoring KindSpecBounced)"
  by (simp_all add: table_simps)

lemma ladder_moves:
  assumes "HasActiveLease s"
    and "tFrom t = s" and "(tKind t, tTo t) \<in> {(KindAgentExited, StateFailed),
      (KindFastCancelled, redispatchTarget s), (KindLeaseRevoked, redispatchTarget s),
      (KindStallEscalated, StateNeedsHuman)}"
  shows "on_table t \<or> off_table t"
  using assms by (cases s) (auto simp: table_simps)

lemma release_moves:
  assumes "HasActiveLease s" and "tFrom t = s" and "tKind t = KindLeaseReleased"
    and "tTo t = (if s = StateCodeReview then StateReviewPending else StateReady)"
  shows "on_table t \<or> off_table t"
  using assms by (cases s) (auto simp: table_simps)

lemma review_claim_moves: "table_moves (jState (esJob s)) (decide_review_claim s rc)"
proof (cases "rcEpoch rc = esEpoch s \<and> jState (esJob s) = StateCodeReview")
  case True
  moreover have "off_table (move StateCodeReview StateReviewPending KindReviewApproved)"
    by (simp add: off_table_def)
  ultimately show ?thesis
    using decide_review_claim_fresh [of rc s] on_table_gates by (simp add: table_moves_def Let_def)
next
  case False
  then show ?thesis
    by (auto simp: table_moves_def decide_review_claim_def split: option.split)
qed

text \<open>
  Property C6: decisions walk the transition table.  The transitions of a
  decision start at the job's state and each begins where the one before
  ended; each is an edge of the table under its kind's trigger, or is one of
  the moves listed in \<open>off_table\<close>.
\<close>

theorem decide_walks_table: "table_moves (jState (esJob s)) (Decide s ev)"
proof (cases ev)
  case (Heartbeat hb)
  then show ?thesis
    using ladder_moves [of "jState (esJob s)"]
    by (auto simp: table_moves_def decide_heartbeat_def split: option.split FastPath.split)
next
  case (CostMeter n)
  then show ?thesis
    by (auto simp: table_moves_def decide_cost_meter_def off_table_def split: option.split)
next
  case (LivenessVerdict lv)
  then show ?thesis
    using ladder_moves [of "jState (esJob s)"]
    by (auto simp: table_moves_def decide_liveness_def Let_def)
next
  case (WorkResult n)
  then show ?thesis
    using stale_rejected [of ev n s] decide_work_result_fresh [of n s] on_table_edges
    by (cases "n = esEpoch s") (auto simp: table_moves_def)
next
  case (Release n)
  then show ?thesis
    using release_moves [of "jState (esJob s)"]
    by (auto simp: table_moves_def decide_release_def Let_def split: option.split)
next
  case (ReviewClaim rc)
  then show ?thesis using review_claim_moves by simp
next
  case (SpecReviewClaim sc)
  then show ?thesis
    using spec_trigger_cases [of "spec_gate_inputs s sc"] on_table_edges on_table_gates
    by (auto simp: table_moves_def decide_spec_review_claim_def Let_def split: option.split)
next
  case MergeDispatch
  then show ?thesis
    using on_table_edges
    by (auto simp: table_moves_def decide_merge_dispatch_def split: option.split)
qed (simp add: table_moves_def)

section \<open>Minting and merging\<close>

lemma EvaluateGate_approved_iff:
  "goTrigger (EvaluateGate (review_gate_inputs s rc)) = TriggerApproved
     \<longleftrightarrow> rcValue rc = VerdictApproved \<and> gatePredicate (esGitHub s)"
  by (simp add: EvaluateGate_trigger review_gate_inputs_def)

lemma mint_only_by_review:
  "dVerdictMint (Decide s ev) \<noteq> None \<Longrightarrow> \<exists>rc. ev = ReviewClaim rc"
proof (cases ev)
  case (Heartbeat hb)
  assume "dVerdictMint (Decide s ev) \<noteq> None"
  with Heartbeat show ?thesis
    by (auto simp: decide_heartbeat_def split: option.splits if_splits FastPath.splits)
next
  case (WorkResult n)
  assume "dVerdictMint (Decide s ev) \<noteq> None"
  with WorkResult stale_rejected [of ev n s] decide_work_result_fresh [of n s] show ?thesis
    by (cases "n = esEpoch s") (auto split: if_splits)
next
  case (SpecReviewClaim sc)
  assume "dVerdictMint (Decide s ev) \<noteq> None"
  with SpecReviewClaim show ?thesis
    by (auto simp: decide_spec_review_claim_def Let_def split: option.splits if_splits Trigger.splits)
qed (auto simp: decide_defs Let_def split: option.splits if_splits)

lemma review_mint_iff:
  "dVerdictMint (decide_review_claim s rc) = Some v \<longleftrightarrow>
     rcEpoch rc = esEpoch s \<and> jState (esJob s) = StateCodeReview
     \<and> rcValue rc = VerdictApproved \<and> gatePredicate (esGitHub s)
     \<and> RequiredReviewersOrDefault (esPolicy s) \<le> rcPriorApprovals rc + 1
     \<and> goVerdict (EvaluateGate (review_gate_inputs s rc)) = Some v"
proof (cases "rcEpoch rc = esEpoch s \<and> jState (esJob s) = StateCodeReview")
  case True
  then show ?thesis
    by (auto simp: decide_review_claim_fresh Let_def EvaluateGate_approved_iff)
next
  case False
  then show ?thesis
    by (auto simp: decide_review_claim_def split: option.split)
qed

text \<open>
  Property C3: only a reviewed, green and current head gets a verdict.  The
  core mints a verdict only for a review claim with the live epoch, on a job in
  \<open>code_review\<close>, that claims approval, over green reconciled facts, and when it
  completes the panel; the verdict then verifies for exactly the reconciled
  head and base, and it rides the single transition to \<open>mergeable\<close>.
\<close>

theorem core_mints_only_reviewed_green:
  assumes "dVerdictMint (Decide s ev) = Some v"
  shows "(\<exists>rc. ev = ReviewClaim rc \<and> rcEpoch rc = esEpoch s \<and> rcValue rc = VerdictApproved
            \<and> RequiredReviewersOrDefault (esPolicy s) \<le> rcPriorApprovals rc + 1)
     \<and> jState (esJob s) = StateCodeReview \<and> gatePredicate (esGitHub s)
     \<and> (\<forall>h b. verdict_Verify v h b \<longleftrightarrow> h = dbHeadSHA (esGitHub s) \<and> b = dbBaseSHA (esGitHub s))
     \<and> (\<exists>t. dTransitions (Decide s ev) = [t] \<and> tTo t = StateMergeable
            \<and> tKind t = KindVerdictMinted \<and> tVerdict t = Some v)"
proof -
  obtain rc where rc: "ev = ReviewClaim rc" using mint_only_by_review [of s ev] assms by auto
  then have m: "dVerdictMint (decide_review_claim s rc) = Some v" using assms by simp
  from m have conds: "rcEpoch rc = esEpoch s" "jState (esJob s) = StateCodeReview"
      "rcValue rc = VerdictApproved" "gatePredicate (esGitHub s)"
      "RequiredReviewersOrDefault (esPolicy s) \<le> rcPriorApprovals rc + 1"
      "goVerdict (EvaluateGate (review_gate_inputs s rc)) = Some v"
    by (simp_all add: review_mint_iff)
  have "verdict_Verify v h b \<longleftrightarrow> h = dbHeadSHA (esGitHub s) \<and> b = dbBaseSHA (esGitHub s)" for h b
    using conds(6) by (auto simp: EvaluateGate_verdict review_gate_inputs_def split: if_splits)
  moreover have "dTransitions (Decide s ev)
      = [(move StateCodeReview StateMergeable KindVerdictMinted)\<lparr>tVerdict := Some v\<rparr>]"
    using rc conds
    by (simp add: decide_review_claim_fresh Let_def EvaluateGate_approved_iff not_less)
  ultimately show ?thesis using rc conds by auto
qed

definition sample_claim :: ReviewClaimT where
  "sample_claim = \<lparr>rcEpoch = 3, rcValue = VerdictApproved, rcDisposition = DispositionSelfMerge,
     rcReviewerPriorRejections = 0, rcPriorApprovals = 0\<rparr>"

theorem core_mints_only_reviewed_green_witness:
  "\<exists>v. dVerdictMint (Decide (sample_state StateCodeReview) (ReviewClaim sample_claim)) = Some v
     \<and> verdict_Verify v ''h1'' ''b1''"
proof -
  obtain v where v: "dVerdictMint (Decide (sample_state StateCodeReview) (ReviewClaim sample_claim)) = Some v"
    by (simp add: review_mint_iff sample_state_def sample_claim_def green_facts_ready
        RequiredReviewersOrDefault_def review_gate_inputs_def EvaluateGate_verdict)
  from core_mints_only_reviewed_green [OF v] have "verdict_Verify v ''h1'' ''b1''"
    by (simp add: sample_state_def green_facts_def)
  with v show ?thesis by blast
qed

lemma merge_arm_only_by_dispatch:
  assumes "t \<in> set (dTransitions (Decide s ev))" and "tTo t \<in> {StateMerging, StateMergeHandoff}"
  shows "ev = MergeDispatch"
proof -
  have r: "redispatchTarget x \<notin> {StateMerging, StateMergeHandoff}" for x by (cases x) simp_all
  show ?thesis
  proof (cases ev)
    case (Heartbeat hb)
    with assms r [of "jState (esJob s)"] show ?thesis
      by (auto simp: decide_heartbeat_def split: option.splits if_splits FastPath.splits)
  next
    case (LivenessVerdict lv)
    with assms r [of "jState (esJob s)"] show ?thesis
      by (auto simp: decide_liveness_def Let_def split: if_splits)
  next
    case (WorkResult n)
    with assms stale_rejected [of ev n s] decide_work_result_fresh [of n s] show ?thesis
      by (cases "n = esEpoch s") (auto split: if_splits)
  next
    case (ReviewClaim rc)
    with assms show ?thesis
      by (auto simp: decide_review_claim_def Let_def split: option.splits if_splits Trigger.splits)
  next
    case (SpecReviewClaim sc)
    with assms show ?thesis
      by (auto simp: decide_spec_review_claim_def Let_def split: option.splits if_splits Trigger.splits)
  qed (use assms in \<open>auto simp: decide_defs Let_def split: option.splits if_splits\<close>)
qed

text \<open>
  Property C4: what may leave \<open>mergeable\<close>.  Only a merge dispatch moves a job
  into a merge arm, and only with a stored verdict that still verifies for the
  reconciled head and base over merge-ready facts; it goes to the unattended
  arm iff moreover the verdict carries \<open>self_merge\<close>, the policy allows it and
  the content check found the diff eligible.
\<close>

theorem merge_dispatch_conditions:
  assumes "t \<in> set (dTransitions (Decide s ev))" and "tTo t \<in> {StateMerging, StateMergeHandoff}"
  shows "ev = MergeDispatch \<and> jState (esJob s) = StateMergeable
     \<and> (\<exists>v. jVerdict (esJob s) = Some v
            \<and> verdict_Verify v (dbHeadSHA (esGitHub s)) (dbBaseSHA (esGitHub s))
            \<and> MergeReady (esGitHub s)
            \<and> (tTo t = StateMerging \<longleftrightarrow>
                 vDisposition v = DispositionSelfMerge \<and> AllowSelfMerge (esPolicy s)
                 \<and> (\<exists>c. esContent s = Some c \<and> Eligible c)))"
proof -
  have "ev = MergeDispatch" by (rule merge_arm_only_by_dispatch [OF assms])
  then show ?thesis
    using assms(1)
    by (auto simp: decide_merge_dispatch_def SelfMergeEligible_iff split: if_splits option.splits)
qed

theorem merge_dispatch_conditions_witness:
  "\<exists>t \<in> set (dTransitions (Decide (sample_state StateMergeable) MergeDispatch)).
     tTo t = StateMergeHandoff \<and> verdict_Verify (sample_verdict ''h1'') ''h1'' ''b1''"
proof -
  let ?s = "sample_state StateMergeable"
  have d: "dTransitions (Decide ?s MergeDispatch) = [move StateMergeable StateMergeHandoff KindMergeHandoff]"
    by (simp add: decide_merge_dispatch_def sample_state_def sample_verdict_def green_facts_ready)
      (simp add: green_facts_def)
  have "jVerdict (esJob ?s) = Some (sample_verdict ''h1'')" "dbHeadSHA (esGitHub ?s) = ''h1''"
      "dbBaseSHA (esGitHub ?s) = ''b1''"
    by (simp_all add: sample_state_def green_facts_def)
  then show ?thesis
    using merge_dispatch_conditions [of "move StateMergeable StateMergeHandoff KindMergeHandoff" ?s MergeDispatch]
    unfolding d by simp
qed

section \<open>Revocation\<close>

text \<open>
  Property C7: taking a job from its worker fences the worker.  The ladder
  moves a job iff it holds an active lease and either the clock alone condemns it (the
  absolute cap, or a worker silent past the reap window: both unilateral, and the circuit
  breaker stops neither) or the breaker is not tripped and two rungs agree.  The comments
  and the design name only the absolute cap as unilateral and breaker-proof; the code
  kills on silence as well.  Every transition that a heartbeat, a cost report or the ladder causes
  bumps the epoch and leads to \<open>failed\<close>, \<open>needs_human\<close> or a state from which
  another worker can claim the job, never to a state of a live build or review.
\<close>

theorem revocation_fences_worker:
  "(\<forall>lv. dTransitions (Decide s (LivenessVerdict lv)) \<noteq> [] \<longleftrightarrow>
      HasActiveLease (jState (esJob s))
      \<and> (AbsoluteCap (rsRung3 (lvRungs lv)) \<or> HeartbeatStale (rsRung3 (lvRungs lv))
         \<or> \<not> rsCircuitBreakerTripped (lvRungs lv) \<and> two_rung_agreement (lvRungs lv)))
   \<and> (\<forall>hb lv n. \<forall>ev \<in> {Heartbeat hb, LivenessVerdict lv, CostMeter n}.
        \<forall>t \<in> set (dTransitions (Decide s ev)).
          tBumpEpoch t
          \<and> tTo t \<in> {StateFailed, StateNeedsHuman, StateReady, StateReviewPending,
                     StateSpecAuthoring, StateResolvingConflict})"
proof -
  have r: "redispatchTarget x \<in> {StateReady, StateReviewPending, StateSpecAuthoring, StateResolvingConflict}"
    for x by (cases x) simp_all
  have "dTransitions (Decide s (LivenessVerdict lv)) \<noteq> [] \<longleftrightarrow>
      HasActiveLease (jState (esJob s)) \<and> kdKill (EvaluateKill (lvRungs lv))" for lv
    by (simp add: decide_liveness_def Let_def)
  moreover have "tBumpEpoch t \<and> tTo t \<in> {StateFailed, StateNeedsHuman, StateReady, StateReviewPending,
      StateSpecAuthoring, StateResolvingConflict}"
    if "ev \<in> {Heartbeat hb, LivenessVerdict lv, CostMeter n}" "t \<in> set (dTransitions (Decide s ev))"
    for hb lv n ev t
    using that r [of "jState (esJob s)"]
    by (auto simp: decide_heartbeat_def decide_cost_meter_def decide_liveness_def Let_def
        split: option.splits if_splits FastPath.splits)
  ultimately show ?thesis by (simp add: EvaluateKill_kill clock_kill_def)
qed

text \<open>A silent worker is taken off its job with the breaker tripped, and no second rung agreeing.\<close>

definition silent_worker :: LivenessVerdictT where
  "silent_worker = \<lparr>lvRungs = \<lparr>rsHealth = HealthOK, rsRung1 = Rung1Working, rsRung2 = Rung2Converging,
      rsRung3 = \<lparr>SoftCrossed = False, AbsoluteCap = False, HeartbeatStale = True\<rparr>,
      rsCircuitBreakerTripped = True\<rparr>, lvGovernorCeilingReached = False, lvAttemptsExhausted = False\<rparr>"

theorem revocation_fences_worker_witness:
  "rsCircuitBreakerTripped (lvRungs silent_worker) \<and> \<not> AbsoluteCap (rsRung3 (lvRungs silent_worker))
   \<and> \<not> two_rung_agreement (lvRungs silent_worker)
   \<and> dTransitions (Decide (sample_state StateCodeReview) (LivenessVerdict silent_worker)) \<noteq> []
   \<and> list_all tBumpEpoch (dTransitions (Decide (sample_state StateCodeReview) (LivenessVerdict silent_worker)))"
  unfolding list_all_iff
  using revocation_fences_worker [of "sample_state StateCodeReview"]
  by (simp add: sample_state_def silent_worker_def two_rung_agreement_def votes_def)

end
