(* ===== verification/Scheduler.thy ===== *)
theory Scheduler
  imports Job_Record
begin

text \<open>
  The scheduler core, \<open>internal/scheduler/scheduler.go\<close>: aged priorities, \<open>Pick\<close>
  and \<open>Order\<close>.  Instants and durations are nanoseconds; \<open>time.Time.Sub\<close>
  saturates at the bounds of a 64-bit duration and Go's division truncates.
  \<open>sort.SliceStable\<close> is \<open>stable_sort_by\<close>; both less functions are interpretations of
  \<open>strict_weak_less\<close>.
\<close>

section \<open>Candidates and aged priority\<close>

record Candidate =
  cJobID :: string
  cPriority :: int
  cEnqueuedAt :: int
  cRequiredCapabilities :: "string list"
  cCIReady :: bool

definition AgingRate :: int where
  "AgingRate = 600 * 1000000000"

definition max_duration :: int where "max_duration = 2 ^ 63 - 1"

text \<open>\<open>t.Sub(u)\<close>.\<close>

definition time_Sub :: "int \<Rightarrow> int \<Rightarrow> int" where
  "time_Sub t u =
     (let d = t - u in if d > max_duration then max_duration
      else if d < - max_duration - 1 then - max_duration - 1 else d)"

text \<open>The quotient is taken of two non-negative numbers, where \<open>div\<close> truncates as Go does.\<close>

definition EffectivePriority :: "Candidate \<Rightarrow> int \<Rightarrow> int \<Rightarrow> int" where
  "EffectivePriority c now agingRate =
     (if agingRate \<le> 0 then - cPriority c
      else let wait = time_Sub now (cEnqueuedAt c);
               wait' = (if wait < 0 then 0 else wait)
           in - cPriority c + wait' div agingRate)"

section \<open>Ranking\<close>

definition pick_less :: "int \<Rightarrow> int \<Rightarrow> Candidate \<Rightarrow> Candidate \<Rightarrow> bool" where
  "pick_less now agingRate a b =
     (let ei = EffectivePriority a now agingRate; ek = EffectivePriority b now agingRate in
      if ei \<noteq> ek then ei > ek
      else if cEnqueuedAt a \<noteq> cEnqueuedAt b then cEnqueuedAt a < cEnqueuedAt b
      else cJobID a < cJobID b)"

definition eligible_for :: "string list \<Rightarrow> Candidate list \<Rightarrow> Candidate list" where
  "eligible_for attested cands =
     filter (\<lambda>c. CapabilitiesSatisfy attested (cRequiredCapabilities c)) cands"

definition PickWith :: "Candidate list \<Rightarrow> string list \<Rightarrow> int \<Rightarrow> int \<Rightarrow> Candidate option" where
  "PickWith cands attested now agingRate =
     (let eligible = eligible_for attested cands in
      if eligible = [] then None
      else Some (hd (stable_sort_by (pick_less now agingRate) eligible)))"

definition Pick :: "Candidate list \<Rightarrow> string list \<Rightarrow> int \<Rightarrow> Candidate option" where
  "Pick cands attested now = PickWith cands attested now AgingRate"

definition order_less :: "int \<Rightarrow> Candidate \<Rightarrow> Candidate \<Rightarrow> bool" where
  "order_less now a b =
     (if cCIReady a \<noteq> cCIReady b then cCIReady a
      else let ei = EffectivePriority a now AgingRate; ek = EffectivePriority b now AgingRate in
        if ei \<noteq> ek then ei > ek
        else if cEnqueuedAt a \<noteq> cEnqueuedAt b then cEnqueuedAt a < cEnqueuedAt b
        else cJobID a < cJobID b)"

definition Order :: "Candidate list \<Rightarrow> string list \<Rightarrow> int \<Rightarrow> Candidate list" where
  "Order cands attested now = stable_sort_by (order_less now) (eligible_for attested cands)"

section \<open>Both less functions are strict weak orders\<close>

interpretation pick: strict_weak_less "pick_less now rate" for now rate
  by unfold_locales (auto simp: pick_less_def Let_def split: if_splits)

interpretation order: strict_weak_less "order_less now" for now
  by unfold_locales (auto simp: order_less_def Let_def split: if_splits)

lemma set_eligible_for:
  "c \<in> set (eligible_for att cs) \<longleftrightarrow> c \<in> set cs \<and> CapabilitiesSatisfy att (cRequiredCapabilities c)"
  by (simp add: eligible_for_def)

lemma PickWith_SomeD:
  assumes "PickWith cs att now rate = Some c"
  shows "c \<in> set (eligible_for att cs)"
    and "d \<in> set (eligible_for att cs) \<Longrightarrow> \<not> pick_less now rate d c"
proof -
  have ne: "eligible_for att cs \<noteq> []" and c: "c = hd (stable_sort_by (pick_less now rate) (eligible_for att cs))"
    using assms by (auto simp: PickWith_def Let_def split: if_splits)
  from ne obtain e where "e \<in> set (eligible_for att cs)" by (meson list.set_sel(1))
  with ne c show "c \<in> set (eligible_for att cs)" using pick.stable_sort_head by blast
  show "\<not> pick_less now rate d c" if "d \<in> set (eligible_for att cs)"
    using ne c that pick.stable_sort_head by blast
qed

text \<open>
  Beside the properties: the pick is an eligible job of highest aged priority.  \<open>Pick\<close>
  returns no job iff the worker satisfies none; a job it returns is a candidate
  the worker satisfies, no eligible candidate has a higher aged priority, and
  none of equal aged priority has waited longer.
\<close>

theorem pick_is_best:
  "(Pick cs att now = None \<longleftrightarrow>
      (\<forall>c \<in> set cs. \<not> CapabilitiesSatisfy att (cRequiredCapabilities c)))
   \<and> (Pick cs att now = Some c \<longrightarrow>
        c \<in> set cs \<and> CapabilitiesSatisfy att (cRequiredCapabilities c)
        \<and> (\<forall>d \<in> set cs. CapabilitiesSatisfy att (cRequiredCapabilities d) \<longrightarrow>
             EffectivePriority d now AgingRate \<le> EffectivePriority c now AgingRate
             \<and> (EffectivePriority d now AgingRate = EffectivePriority c now AgingRate \<longrightarrow>
                  cEnqueuedAt c \<le> cEnqueuedAt d)))"
proof (intro conjI impI)
  show "Pick cs att now = None \<longleftrightarrow>
      (\<forall>c \<in> set cs. \<not> CapabilitiesSatisfy att (cRequiredCapabilities c))"
    by (simp add: Pick_def PickWith_def eligible_for_def filter_empty_conv)
  assume p: "Pick cs att now = Some c"
  have in_c: "c \<in> set (eligible_for att cs)"
    and best: "\<And>d. d \<in> set (eligible_for att cs) \<Longrightarrow> \<not> pick_less now AgingRate d c"
    using p unfolding Pick_def by (auto dest: PickWith_SomeD)
  show "c \<in> set cs" "CapabilitiesSatisfy att (cRequiredCapabilities c)"
    using in_c by (simp_all add: set_eligible_for)
  show "\<forall>d \<in> set cs. CapabilitiesSatisfy att (cRequiredCapabilities d) \<longrightarrow>
      EffectivePriority d now AgingRate \<le> EffectivePriority c now AgingRate
      \<and> (EffectivePriority d now AgingRate = EffectivePriority c now AgingRate \<longrightarrow>
           cEnqueuedAt c \<le> cEnqueuedAt d)"
    using best by (fastforce simp: set_eligible_for pick_less_def Let_def split: if_splits)
qed

definition old_job :: Candidate where
  "old_job = \<lparr>cJobID = ''j1'', cPriority = 9, cEnqueuedAt = 0, cRequiredCapabilities = [],
     cCIReady = False\<rparr>"

definition new_job :: Candidate where
  "new_job = \<lparr>cJobID = ''j2'', cPriority = 5, cEnqueuedAt = 3600 * 1000000000,
     cRequiredCapabilities = [], cCIReady = True\<rparr>"

lemma pick_old: "Pick [new_job, old_job] [] (3600 * 1000000000) = Some old_job"
  by (simp add: Pick_def PickWith_def eligible_for_def CapabilitiesSatisfy_iff new_job_def old_job_def
      pick_less_def EffectivePriority_def time_Sub_def max_duration_def AgingRate_def)

theorem pick_is_best_witness:
  "Pick [new_job, old_job] [] (3600 * 1000000000) = Some old_job
   \<and> EffectivePriority new_job (3600 * 1000000000) AgingRate
       \<le> EffectivePriority old_job (3600 * 1000000000) AgingRate"
  using pick_is_best [of "[new_job, old_job]" "[]" "3600 * 1000000000" old_job] pick_old
  by (simp add: new_job_def CapabilitiesSatisfy_iff)

section \<open>Aging\<close>

lemma time_Sub_mono: "t \<le> t' \<Longrightarrow> time_Sub t u \<le> time_Sub t' u"
  by (simp add: time_Sub_def Let_def max_duration_def)

lemma EffectivePriority_mono:
  "now \<le> now' \<Longrightarrow> EffectivePriority c now r \<le> EffectivePriority c now' r"
  using time_Sub_mono [of now now' "cEnqueuedAt c"]
  by (simp add: EffectivePriority_def Let_def zdiv_mono1 pos_imp_zdiv_nonneg_iff)

text \<open>
  Beside the properties: nothing starves.  A waiting job's aged priority never falls, and
  after \<open>k\<close> aging periods it has risen by \<open>k\<close>: once a job has waited ten
  periods it outranks every job of the band that is just enqueued (for waits
  within the range of a duration, about 292 years).
\<close>

theorem aging_prevents_starvation:
  assumes "1 \<le> cPriority c" "cPriority c \<le> 10" "1 \<le> cPriority d" "cPriority d \<le> 10"
    and "cEnqueuedAt c + 10 * AgingRate \<le> now" "now - cEnqueuedAt c \<le> max_duration"
    and "now \<le> cEnqueuedAt d"
  shows "EffectivePriority d now AgingRate < EffectivePriority c now AgingRate
     \<and> pick_less now AgingRate c d"
proof -
  have r: "AgingRate > 0" by (simp add: AgingRate_def)
  have "10 \<le> (now - cEnqueuedAt c) div AgingRate"
  proof -
    have "10 * AgingRate div AgingRate \<le> (now - cEnqueuedAt c) div AgingRate"
      by (rule zdiv_mono1) (use assms(5) r in auto)
    then show ?thesis using r by simp
  qed
  moreover have "EffectivePriority c now AgingRate = - cPriority c + (now - cEnqueuedAt c) div AgingRate"
    using assms(5,6) r by (simp add: EffectivePriority_def time_Sub_def Let_def max_duration_def)
  moreover have "EffectivePriority d now AgingRate = - cPriority d"
    using assms(7) r by (auto simp: EffectivePriority_def time_Sub_def Let_def max_duration_def)
  ultimately have "EffectivePriority d now AgingRate < EffectivePriority c now AgingRate"
    using assms(1-4) by linarith
  then show ?thesis by (simp add: pick_less_def Let_def)
qed

theorem aging_prevents_starvation_witness:
  "pick_less (6000 * 1000000000) AgingRate old_job (new_job\<lparr>cEnqueuedAt := 6000 * 1000000000\<rparr>)"
  using aging_prevents_starvation [of old_job "new_job\<lparr>cEnqueuedAt := 6000 * 1000000000\<rparr>" "6000 * 1000000000"]
  by (simp add: old_job_def new_job_def AgingRate_def max_duration_def)

section \<open>The offer order\<close>

lemma set_Order: "set (Order cs att now) = set (eligible_for att cs)"
  by (simp add: Order_def)

lemma Order_sorted: "sorted_wrt (\<lambda>a b. \<not> order_less now b a) (Order cs att now)"
  by (simp add: Order_def order.stable_sort_sorted)

text \<open>
  Beside the properties: the offer order.  \<open>Order\<close> offers exactly the candidates the worker
  satisfies; of two offered candidates the earlier is CI-ready if the later is
  (a review whose CI is not green is never offered before one whose CI is),
  and of two equally ready ones the earlier has the higher or equal aged priority.
\<close>

theorem order_offers_ready_first:
  "set (Order cs att now) =
     {c \<in> set cs. CapabilitiesSatisfy att (cRequiredCapabilities c)}
   \<and> (\<forall>i k. i < k \<longrightarrow> k < length (Order cs att now) \<longrightarrow>
        (cCIReady (Order cs att now ! k) \<longrightarrow> cCIReady (Order cs att now ! i))
        \<and> (cCIReady (Order cs att now ! k) = cCIReady (Order cs att now ! i) \<longrightarrow>
             EffectivePriority (Order cs att now ! k) now AgingRate
               \<le> EffectivePriority (Order cs att now ! i) now AgingRate))"
proof (intro conjI allI impI)
  show "set (Order cs att now) = {c \<in> set cs. CapabilitiesSatisfy att (cRequiredCapabilities c)}"
    by (auto simp: set_Order set_eligible_for)
  fix i k assume ik: "i < k" "k < length (Order cs att now)"
  then have nl: "\<not> order_less now (Order cs att now ! k) (Order cs att now ! i)"
    using Order_sorted by (auto simp: sorted_wrt_iff_nth_less)
  then show "cCIReady (Order cs att now ! i)" if "cCIReady (Order cs att now ! k)"
    using that by (auto simp: order_less_def split: if_splits)
  show "EffectivePriority (Order cs att now ! k) now AgingRate
      \<le> EffectivePriority (Order cs att now ! i) now AgingRate"
    if "cCIReady (Order cs att now ! k) = cCIReady (Order cs att now ! i)"
    using nl that by (auto simp: order_less_def Let_def split: if_splits)
qed

theorem order_offers_ready_first_witness:
  "cCIReady (Order [old_job\<lparr>cCIReady := True\<rparr>, new_job] [] 0 ! 0)
   \<and> EffectivePriority (old_job\<lparr>cCIReady := True\<rparr>) 0 AgingRate \<le> EffectivePriority new_job 0 AgingRate"
proof -
  have o: "Order [old_job\<lparr>cCIReady := True\<rparr>, new_job] [] 0 = [new_job, old_job\<lparr>cCIReady := True\<rparr>]"
    by (simp add: Order_def eligible_for_def CapabilitiesSatisfy_iff order_less_def old_job_def
        new_job_def EffectivePriority_def time_Sub_def max_duration_def AgingRate_def)
  have r: "cCIReady new_job" by (simp add: new_job_def)
  show ?thesis
    using conjunct2 [OF order_offers_ready_first [of "[old_job\<lparr>cCIReady := True\<rparr>, new_job]" "[]" 0],
        rule_format, of 0 1]
    unfolding o by (simp add: r)
qed

text \<open>
  \<open>Pick\<close> ignores readiness, so the two rankings differ when a job that is not
  CI-ready has the higher aged priority.
\<close>

lemma pick_and_order_differ:
  "Pick [old_job, new_job] [] (3600 * 1000000000) = Some old_job
   \<and> hd (Order [old_job, new_job] [] (3600 * 1000000000)) = new_job"
  by (simp add: Pick_def PickWith_def Order_def eligible_for_def CapabilitiesSatisfy_iff new_job_def
      old_job_def order_less_def pick_less_def EffectivePriority_def time_Sub_def max_duration_def
      AgingRate_def)

end
