(* ===== verification/Reservation.thy ===== *)
theory Reservation
  imports Scheduler Diff_Paths
begin

text \<open>
  Blast-radius reservations, \<open>internal/scheduler/reservation.go\<close>: write-sets,
  their overlap and the filter that withholds a candidate from dispatch while
  an overlapping build is in flight.  Go's \<open>map[string]WriteSet\<close> is a partial map.
\<close>

record WriteSet =
  wsPaths :: "string list"
  wsWide :: bool

record Reservation =
  rsvJobID :: string
  rsvWriteSet :: WriteSet

definition normalizeResvPath :: "string \<Rightarrow> string" where
  "normalizeResvPath p =
     TrimPrefix (TrimPrefix (ReplaceChar (CHR 0x5C) (CHR ''/'') (TrimSpace p)) ''./'') ''/''"

definition normalizedNonEmpty :: "string list \<Rightarrow> string list" where
  "normalizedNonEmpty ps = filter (\<lambda>np. np \<noteq> []) (map normalizeResvPath ps)"

definition IsWide :: "WriteSet \<Rightarrow> bool" where
  "IsWide w = (wsWide w \<or> length (normalizedNonEmpty (wsPaths w)) = 0)"

definition isPrefixDir :: "string \<Rightarrow> string \<Rightarrow> bool" where
  "isPrefixDir parent child =
     (let p = (if \<not> HasSuffix parent ''/'' then parent @ ''/'' else parent) in HasPrefix child p)"

definition pathsOverlap :: "string \<Rightarrow> string \<Rightarrow> bool" where
  "pathsOverlap a b = (if a = b then True else isPrefixDir a b \<or> isPrefixDir b a)"

definition Overlaps :: "WriteSet \<Rightarrow> WriteSet \<Rightarrow> bool" where
  "Overlaps w other =
     (if IsWide w \<or> IsWide other then True
      else list_ex (\<lambda>a. list_ex (\<lambda>b. pathsOverlap a b) (normalizedNonEmpty (wsPaths other)))
        (normalizedNonEmpty (wsPaths w)))"

definition candidateWriteSet :: "string \<Rightarrow> (string \<rightharpoonup> WriteSet) \<Rightarrow> WriteSet \<times> bool" where
  "candidateWriteSet jobID writeSetOf =
     (case writeSetOf jobID of
        None \<Rightarrow> (\<lparr>wsPaths = [], wsWide = False\<rparr>, False)
      | Some ws \<Rightarrow> (ws, wsWide ws \<or> length (normalizedNonEmpty (wsPaths ws)) > 0))"

fun blockingReservation :: "string \<Rightarrow> WriteSet \<Rightarrow> bool \<Rightarrow> Reservation list \<Rightarrow> string option" where
  "blockingReservation jobID ws declared [] = None"
| "blockingReservation jobID ws declared (r # rs) =
     (if rsvJobID r = jobID then blockingReservation jobID ws declared rs
      else if declared then
        (if Overlaps ws (rsvWriteSet r) then Some (rsvJobID r)
         else blockingReservation jobID ws declared rs)
      else if IsWide (rsvWriteSet r) then Some (rsvJobID r)
      else blockingReservation jobID ws declared rs)"

definition reservationConflicts :: "string \<Rightarrow> WriteSet \<Rightarrow> bool \<Rightarrow> Reservation list \<Rightarrow> bool" where
  "reservationConflicts jobID ws declared active =
     (blockingReservation jobID ws declared active \<noteq> None)"

definition ReservationFilter ::
  "Candidate list \<Rightarrow> Reservation list \<Rightarrow> (string \<rightharpoonup> WriteSet) \<Rightarrow> Candidate list" where
  "ReservationFilter cands active writeSetOf =
     (if active = [] then cands
      else filter (\<lambda>c. let (ws, declared) = candidateWriteSet (cJobID c) writeSetOf in
                     \<not> reservationConflicts (cJobID c) ws declared active) cands)"

definition BlockedBy :: "string \<Rightarrow> Reservation list \<Rightarrow> (string \<rightharpoonup> WriteSet) \<Rightarrow> string option" where
  "BlockedBy jobID active writeSetOf =
     (let (ws, declared) = candidateWriteSet jobID writeSetOf in
      blockingReservation jobID ws declared active)"

section \<open>Overlap\<close>

lemma isPrefixDir_iff:
  "isPrefixDir a b \<longleftrightarrow> prefix (if suffix ''/'' a then a else a @ ''/'') b"
  by (simp add: isPrefixDir_def)

lemma pathsOverlap_sym: "pathsOverlap a b \<longleftrightarrow> pathsOverlap b a"
  by (auto simp: pathsOverlap_def)

lemma Overlaps_iff:
  "Overlaps w v \<longleftrightarrow> IsWide w \<or> IsWide v
     \<or> (\<exists>a \<in> set (normalizedNonEmpty (wsPaths w)). \<exists>b \<in> set (normalizedNonEmpty (wsPaths v)).
          pathsOverlap a b)"
  by (simp add: Overlaps_def list_ex_iff)

text \<open>
  A path lies in the tree of a reserved prefix when it is the prefix or lies
  beneath it.
\<close>

definition in_tree :: "string \<Rightarrow> string \<Rightarrow> bool" where
  "in_tree p x \<longleftrightarrow> x = p \<or> isPrefixDir p x"

lemma prefix_dir_common:
  assumes "isPrefixDir a x" "isPrefixDir b x"
  shows "pathsOverlap a b"
proof -
  let ?d = "\<lambda>p. if suffix ''/'' p then p else p @ ''/''"
  have "prefix (?d a) x" "prefix (?d b) x" using assms by (simp_all only: isPrefixDir_iff)
  then have "prefix (?d a) (?d b) \<or> prefix (?d b) (?d a)" by (rule prefix_same_cases)
  moreover have "pathsOverlap p q" if pq: "prefix (?d p) (?d q)" for p q
  proof (cases "suffix ''/'' q")
    case True
    with pq have "prefix (?d p) q" by simp
    then have "isPrefixDir p q" by (simp only: isPrefixDir_iff)
    then show ?thesis by (simp add: pathsOverlap_def)
  next
    case False
    then have "prefix (?d p) (q @ ''/'')" using pq by simp
    then have "?d p = q @ ''/'' \<or> prefix (?d p) q" by simp
    then show ?thesis
    proof
      assume "prefix (?d p) q"
      then have "isPrefixDir p q" by (simp only: isPrefixDir_iff)
      then show ?thesis by (simp add: pathsOverlap_def)
    next
      assume eq: "?d p = q @ ''/''"
      show ?thesis
      proof (cases "suffix ''/'' p")
        case True
        then have "p = q @ ''/''" using eq by simp
        with False have "isPrefixDir q p" by (simp add: isPrefixDir_iff)
        then show ?thesis by (simp add: pathsOverlap_def)
      next
        case False
        then have "p = q" using eq by simp
        then show ?thesis by (simp add: pathsOverlap_def)
      qed
    qed
  qed
  ultimately show ?thesis using pathsOverlap_sym by blast
qed

lemma common_path_overlaps:
  "in_tree a x \<Longrightarrow> in_tree b x \<Longrightarrow> pathsOverlap a b"
  using prefix_dir_common [of a x b] unfolding in_tree_def pathsOverlap_def by metis

lemma blockingReservation_SomeD:
  "blockingReservation i ws d rs = Some h \<Longrightarrow>
     \<exists>r \<in> set rs. rsvJobID r = h \<and> h \<noteq> i
       \<and> (if d then Overlaps ws (rsvWriteSet r) else IsWide (rsvWriteSet r))"
  by (induction rs) (auto split: if_splits)

lemma blockingReservation_None_iff:
  "blockingReservation i ws d rs = None \<longleftrightarrow>
     (\<forall>r \<in> set rs. rsvJobID r = i
        \<or> \<not> (if d then Overlaps ws (rsvWriteSet r) else IsWide (rsvWriteSet r)))"
  by (induction rs) auto

lemma filter_keeps_iff:
  "c \<in> set (ReservationFilter cs active wso) \<longleftrightarrow>
     c \<in> set cs \<and> BlockedBy (cJobID c) active wso = None"
  by (auto simp: ReservationFilter_def reservationConflicts_def BlockedBy_def Let_def
      split: prod.splits)

definition covers :: "WriteSet \<Rightarrow> string \<Rightarrow> bool" where
  "covers w x \<longleftrightarrow> IsWide w \<or> (\<exists>p \<in> set (normalizedNonEmpty (wsPaths w)). in_tree p x)"

lemma covers_overlap: "covers w x \<Longrightarrow> covers v x \<Longrightarrow> Overlaps w v"
  unfolding covers_def Overlaps_iff using common_path_overlaps by blast

lemma not_blocked:
  assumes "BlockedBy i active wso = None" and "r \<in> set active" and "rsvJobID r \<noteq> i"
  shows "\<not> IsWide (rsvWriteSet r)"
    and "wso i = Some ws \<Longrightarrow> normalizedNonEmpty (wsPaths ws) \<noteq> [] \<Longrightarrow> covers ws x \<Longrightarrow>
      \<not> covers (rsvWriteSet r) x"
proof -
  show "\<not> IsWide (rsvWriteSet r)"
    using assms
    by (auto simp: BlockedBy_def candidateWriteSet_def blockingReservation_None_iff Overlaps_iff
        split: option.splits if_splits)
  assume "wso i = Some ws" "normalizedNonEmpty (wsPaths ws) \<noteq> []" "covers ws x"
  moreover from this assms have "\<not> Overlaps ws (rsvWriteSet r)"
    by (auto simp: BlockedBy_def candidateWriteSet_def blockingReservation_None_iff)
  ultimately show "\<not> covers (rsvWriteSet r) x" using covers_overlap by blast
qed

text \<open>
  Beside the properties: no co-dispatch of builds that can touch one path.  Overlap is
  symmetric, and two write-sets that both cover some path overlap.  Hence a
  candidate with declared paths that the filter lets through covers no path
  covered by the reservation of another in-flight job, and it is let through
  only past reservations that are not wide; and the filter withholds exactly
  the candidates for which \<open>BlockedBy\<close> names a holder, which is another job.
\<close>

theorem reservations_exclude:
  "(Overlaps w v \<longleftrightarrow> Overlaps v w)
   \<and> (c \<in> set (ReservationFilter cs active wso) \<longrightarrow> r \<in> set active \<longrightarrow> rsvJobID r \<noteq> cJobID c \<longrightarrow>
        \<not> IsWide (rsvWriteSet r)
        \<and> (\<forall>ws. wso (cJobID c) = Some ws \<longrightarrow> normalizedNonEmpty (wsPaths ws) \<noteq> [] \<longrightarrow>
             (\<forall>x. covers ws x \<longrightarrow> \<not> covers (rsvWriteSet r) x)))
   \<and> (c \<in> set (ReservationFilter cs active wso)
        \<longleftrightarrow> c \<in> set cs \<and> BlockedBy (cJobID c) active wso = None)
   \<and> (BlockedBy i active wso = Some h \<longrightarrow> h \<noteq> i \<and> h \<in> rsvJobID ` set active)"
proof (intro conjI impI)
  show "Overlaps w v \<longleftrightarrow> Overlaps v w"
    unfolding Overlaps_iff using pathsOverlap_sym by blast
  show "c \<in> set (ReservationFilter cs active wso)
      \<longleftrightarrow> c \<in> set cs \<and> BlockedBy (cJobID c) active wso = None"
    by (rule filter_keeps_iff)
  show "h \<noteq> i" "h \<in> rsvJobID ` set active" if "BlockedBy i active wso = Some h"
    using that by (auto simp: BlockedBy_def split: prod.splits dest!: blockingReservation_SomeD)
next
  assume c: "c \<in> set (ReservationFilter cs active wso)" and r: "r \<in> set active"
    and other: "rsvJobID r \<noteq> cJobID c"
  then have "BlockedBy (cJobID c) active wso = None" by (simp only: filter_keeps_iff)
  note disjoint = not_blocked [OF this r other]
  show "\<not> IsWide (rsvWriteSet r)" by (rule disjoint(1))
  show "\<forall>ws. wso (cJobID c) = Some ws \<longrightarrow> normalizedNonEmpty (wsPaths ws) \<noteq> [] \<longrightarrow>
      (\<forall>x. covers ws x \<longrightarrow> \<not> covers (rsvWriteSet r) x)"
    using disjoint(2) by blast
qed

definition src_set :: WriteSet where
  "src_set = \<lparr>wsPaths = [''./src/a''], wsWide = False\<rparr>"

definition lib_reservation :: Reservation where
  "lib_reservation = \<lparr>rsvJobID = ''j9'', rsvWriteSet = \<lparr>wsPaths = [''lib''], wsWide = False\<rparr>\<rparr>"

lemma src_norm: "normalizedNonEmpty [''./src/a''] = [''src/a'']" "normalizedNonEmpty [''lib''] = [''lib'']"
  by (code_simp, code_simp)

theorem reservations_exclude_witness:
  "old_job \<in> set (ReservationFilter [old_job] [lib_reservation] [''j1'' \<mapsto> src_set])
   \<and> covers src_set ''src/a'' \<and> \<not> covers (rsvWriteSet lib_reservation) ''src/a''"
proof -
  have "BlockedBy ''j1'' [lib_reservation] [''j1'' \<mapsto> src_set] = None"
    by (simp add: BlockedBy_def candidateWriteSet_def src_set_def lib_reservation_def src_norm
        Overlaps_def IsWide_def pathsOverlap_def isPrefixDir_iff)
  then have k: "old_job \<in> set (ReservationFilter [old_job] [lib_reservation] [''j1'' \<mapsto> src_set])"
    by (simp add: filter_keeps_iff old_job_def)
  have cov: "covers src_set ''src/a''"
    by (simp add: covers_def src_set_def src_norm in_tree_def)
  have "\<not> covers (rsvWriteSet lib_reservation) ''src/a''"
    using reservations_exclude [of src_set src_set old_job "[old_job]" "[lib_reservation]"
        "[''j1'' \<mapsto> src_set]" lib_reservation "''j1''" "''j9''"] k cov
    by (simp add: lib_reservation_def old_job_def src_set_def src_norm)
  with k cov show ?thesis by blast
qed

text \<open>
  The normal form strips one \<open>./\<close> only and does not clean the path, so two
  declarations of one path can be taken as disjoint where the content gate's
  \<open>normalizePath\<close> identifies them.
\<close>

lemma reservation_normal_form_weaker:
  "normalizePath ''././src/a'' = normalizePath ''src/a''
   \<and> \<not> Overlaps \<lparr>wsPaths = [''././src/a''], wsWide = False\<rparr> \<lparr>wsPaths = [''src/a''], wsWide = False\<rparr>"
  by code_simp

end
