(* ===== verification/Capacity.thy ===== *)
theory Capacity
  imports Prelude
begin

text \<open>
  Worker capacity, \<open>internal/capacity/capacity.go\<close>: the ceiling gate, account
  selection with rollover, the slot gate and the usage fold.  The lemmas show
  that selection returns the preferred eligible account or waits, that slots
  are never exceeded, and what a 429 report and a recovery do.
\<close>

record Account =
  acAccountID :: string
  acModelFamily :: string
  acCeilingPct :: int
  acPreferenceRank :: int
  acUsagePct :: int
  acRateLimited :: bool

record UsageReport =
  urAccountID :: string
  urModelFamily :: string
  urUsagePct :: int
  urRateLimited :: bool

definition AtCeiling :: "Account \<Rightarrow> bool" where
  "AtCeiling a =
     (if acRateLimited a then True
      else if acCeilingPct a \<le> 0 then False
      else acUsagePct a \<ge> acCeilingPct a)"

definition account_less :: "Account \<Rightarrow> Account \<Rightarrow> bool" where
  "account_less a b =
     (if acPreferenceRank a \<noteq> acPreferenceRank b then acPreferenceRank a < acPreferenceRank b
      else acAccountID a < acAccountID b)"

text \<open>The loop of \<open>SelectAccount\<close>: \<open>best\<close> and \<open>found\<close> as one option.\<close>

fun select_loop :: "string \<Rightarrow> Account option \<Rightarrow> Account list \<Rightarrow> Account option" where
  "select_loop fam best [] = best"
| "select_loop fam best (a # as) =
     (if acModelFamily a \<noteq> fam then select_loop fam best as
      else if AtCeiling a then select_loop fam best as
      else case best of
        None \<Rightarrow> select_loop fam (Some a) as
      | Some b \<Rightarrow> if account_less a b then select_loop fam (Some a) as else select_loop fam best as)"

definition SelectAccount :: "Account list \<Rightarrow> string \<Rightarrow> Account option" where
  "SelectAccount accounts modelFamily = select_loop modelFamily None accounts"

definition HasFreeSlot :: "int \<Rightarrow> int \<Rightarrow> bool" where
  "HasFreeSlot maxSlots active = (if maxSlots \<le> 0 then False else active < maxSlots)"

definition FoldUsage :: "Account \<Rightarrow> UsageReport \<Rightarrow> int \<times> bool" where
  "FoldUsage prior r =
     (if urRateLimited r
      then ((if urUsagePct r < 100 then 100 else urUsagePct r), True)
      else let cleared = (if acRateLimited prior
                          then acCeilingPct prior \<le> 0 \<or> urUsagePct r < acCeilingPct prior
                          else False)
           in (urUsagePct r, acRateLimited prior \<and> \<not> cleared))"

section \<open>Selection\<close>

interpretation account: strict_weak_less account_less
  by unfold_locales (auto simp: account_less_def split: if_splits)

definition usable :: "string \<Rightarrow> Account \<Rightarrow> bool" where
  "usable fam a \<longleftrightarrow> acModelFamily a = fam \<and> \<not> AtCeiling a"

lemma select_loop_None: "select_loop fam best as = None \<longleftrightarrow> best = None \<and> (\<forall>a \<in> set as. \<not> usable fam a)"
  by (induction as arbitrary: best) (auto simp: usable_def split: option.split)

lemma select_loop_Some:
  "select_loop fam best as = Some c \<Longrightarrow>
     (c \<in> set as \<and> usable fam c \<or> best = Some c)
     \<and> (\<forall>a \<in> set as. usable fam a \<longrightarrow> \<not> account_less a c)
     \<and> (\<forall>b. best = Some b \<longrightarrow> \<not> account_less b c)"
proof (induction as arbitrary: best)
  case Nil
  then show ?case by (simp add: account.lt_irrefl)
next
  case (Cons a as)
  show ?case
  proof (cases "usable fam a \<and> (\<forall>b. best = Some b \<longrightarrow> account_less a b)")
    case True
    then have "select_loop fam (Some a) as = Some c"
      using Cons.prems by (auto simp: usable_def split: option.splits)
    from Cons.IH [OF this] have IH: "c \<in> set as \<and> usable fam c \<or> a = c"
      "\<forall>x \<in> set as. usable fam x \<longrightarrow> \<not> account_less x c" "\<not> account_less a c" by auto
    have "\<not> account_less b c" if "best = Some b" for b
      using True that IH(3) account.lt_asym account.not_lt_trans by blast
    with IH True show ?thesis by auto
  next
    case False
    then have "select_loop fam best as = Some c"
      using Cons.prems by (auto simp: usable_def split: option.splits if_splits)
    from Cons.IH [OF this] have IH: "c \<in> set as \<and> usable fam c \<or> best = Some c"
      "\<forall>x \<in> set as. usable fam x \<longrightarrow> \<not> account_less x c"
      "\<forall>b. best = Some b \<longrightarrow> \<not> account_less b c" by blast+
    have "\<not> account_less a c" if "usable fam a"
    proof -
      from False that obtain b where "best = Some b" "\<not> account_less a b" by blast
      with IH(3) account.not_lt_trans show ?thesis by blast
    qed
    with IH show ?thesis by auto
  qed
qed

text \<open>
  Beside the properties: rollover.  The selection waits iff every account of the family is
  rate-limited or at its ceiling; otherwise it returns an account of the family
  below its ceiling, such that no usable account of the family has a lower
  preference rank (or the same rank and a smaller id).
\<close>

theorem select_account_rollover:
  "(SelectAccount accounts fam = None \<longleftrightarrow>
      (\<forall>a \<in> set accounts. acModelFamily a = fam \<longrightarrow> AtCeiling a))
   \<and> (SelectAccount accounts fam = Some c \<longrightarrow>
        c \<in> set accounts \<and> acModelFamily c = fam \<and> \<not> AtCeiling c
        \<and> (\<forall>a \<in> set accounts. acModelFamily a = fam \<longrightarrow> \<not> AtCeiling a \<longrightarrow>
             acPreferenceRank c \<le> acPreferenceRank a
             \<and> (acPreferenceRank c = acPreferenceRank a \<longrightarrow> acAccountID c \<le> acAccountID a)))"
proof (intro conjI impI)
  show "SelectAccount accounts fam = None \<longleftrightarrow>
      (\<forall>a \<in> set accounts. acModelFamily a = fam \<longrightarrow> AtCeiling a)"
    by (auto simp: SelectAccount_def select_loop_None usable_def)
  assume "SelectAccount accounts fam = Some c"
  then have c: "c \<in> set accounts" "usable fam c"
    and best: "\<And>a. a \<in> set accounts \<Longrightarrow> usable fam a \<Longrightarrow> \<not> account_less a c"
    using select_loop_Some [of fam None accounts c] by (auto simp: SelectAccount_def)
  from c show "c \<in> set accounts" "acModelFamily c = fam" "\<not> AtCeiling c"
    by (simp_all add: usable_def)
  show "\<forall>a \<in> set accounts. acModelFamily a = fam \<longrightarrow> \<not> AtCeiling a \<longrightarrow>
      acPreferenceRank c \<le> acPreferenceRank a
      \<and> (acPreferenceRank c = acPreferenceRank a \<longrightarrow> acAccountID c \<le> acAccountID a)"
    using best by (fastforce simp: usable_def account_less_def split: if_splits)
qed

definition spent :: Account where
  "spent = \<lparr>acAccountID = ''a1'', acModelFamily = ''codex'', acCeilingPct = 80, acPreferenceRank = 0,
     acUsagePct = 80, acRateLimited = False\<rparr>"

definition spare :: Account where
  "spare = \<lparr>acAccountID = ''a2'', acModelFamily = ''codex'', acCeilingPct = 80, acPreferenceRank = 1,
     acUsagePct = 79, acRateLimited = False\<rparr>"

theorem select_account_rollover_witness:
  "SelectAccount [spent, spare] ''codex'' = Some spare \<and> \<not> AtCeiling spare"
proof -
  have s: "SelectAccount [spent, spare] ''codex'' = Some spare"
    by (simp add: SelectAccount_def spent_def spare_def AtCeiling_def)
  with select_account_rollover [of "[spent, spare]" "''codex''" spare] show ?thesis by simp
qed

section \<open>Slots and usage\<close>

lemma free_slot_keeps_bound: "HasFreeSlot maxSlots active \<Longrightarrow> active + 1 \<le> maxSlots"
  by (simp add: HasFreeSlot_def split: if_splits)

definition apply_usage :: "Account \<Rightarrow> UsageReport \<Rightarrow> Account" where
  "apply_usage a r = a\<lparr>acUsagePct := fst (FoldUsage a r), acRateLimited := snd (FoldUsage a r)\<rparr>"

text \<open>A 429 takes the account out; a later report brings it back iff it is under the ceiling.\<close>

lemma rate_limit_gates: "urRateLimited r \<Longrightarrow> AtCeiling (apply_usage a r)"
  by (simp add: AtCeiling_def apply_usage_def FoldUsage_def)

lemma report_gates_iff:
  "\<not> urRateLimited r \<Longrightarrow>
     AtCeiling (apply_usage a r) \<longleftrightarrow> 0 < acCeilingPct a \<and> acCeilingPct a \<le> urUsagePct r"
  by (auto simp: AtCeiling_def apply_usage_def FoldUsage_def Let_def)

end
