(* ===== verification/Flow.thy ===== *)
theory Flow
  imports Prelude
begin

text \<open>
  Configurable flows, \<open>internal/flow\<close>: the word matcher and the literal finder of
  the neutrality lint (\<open>flow.go\<close>), the identity precedence and role defaults
  (\<open>identity.go\<close>), and the resolution of a flow document into staffed stages with
  its anti-affinity checks and verdict aggregation (\<open>resolve.go\<close>).  A Go map is a
  partial map where it is only read, and an association list with distinct keys
  where the code ranges over it.  Errors keep the facts of their messages and
  leave the formatting out; a \<open>%w\<close> wrap is \<open>StageError\<close>.
\<close>

section \<open>Whole words and provider literals\<close>

definition ProviderLiterals :: "string list" where
  "ProviderLiterals =
     [''codex'', ''opus'', ''sonnet'', ''haiku'', ''claude'', ''anthropic'',
      ''gpt'', ''openai'', ''gemini'', ''llama'', ''mistral'', ''cohere'', ''ollama'', ''aider'',
      ''grok'']"

definition isAlphaNum :: "char \<Rightarrow> bool" where
  "isAlphaNum b =
     ((CHR ''a'' \<le> b \<and> b \<le> CHR ''z'') \<or> (CHR ''A'' \<le> b \<and> b \<le> CHR ''Z'')
      \<or> (CHR ''0'' \<le> b \<and> b \<le> CHR ''9''))"

text \<open>\<open>strings.Index\<close>, with \<open>None\<close> for -1.\<close>

fun str_index :: "string \<Rightarrow> string \<Rightarrow> nat option" where
  "str_index [] w = (if w = [] then Some 0 else None)"
| "str_index (c # cs) w =
     (if prefix w (c # cs) then Some 0
      else case str_index cs w of None \<Rightarrow> None | Some i \<Rightarrow> Some (Suc i))"

function contains_word_from :: "string \<Rightarrow> string \<Rightarrow> nat \<Rightarrow> bool" where
  "contains_word_from s w idx =
     (case str_index (drop idx s) w of
        None \<Rightarrow> False
      | Some i \<Rightarrow>
          let start = idx + i; stop = start + length w;
              leftOK = (start = 0 \<or> \<not> isAlphaNum (s ! (start - 1)));
              rightOK = (stop = length s \<or> \<not> isAlphaNum (s ! stop))
          in if leftOK \<and> rightOK then True
             else if start + 1 \<ge> length s then False
             else contains_word_from s w (start + 1))"
  by pat_completeness auto
termination by (relation "measure (\<lambda>(s, w, idx). length s - idx)") auto

declare contains_word_from.simps [simp del]

definition containsWord :: "string \<Rightarrow> string \<Rightarrow> bool" where
  "containsWord s w = contains_word_from s w 0"

definition findProviderLiteral :: "string \<Rightarrow> string" where
  "findProviderLiteral s =
     (if s = [] then []
      else case find (\<lambda>p. containsWord (ToLower s) p) ProviderLiterals of
        None \<Rightarrow> [] | Some p \<Rightarrow> p)"

section \<open>Identities\<close>

record Identity =
  idID :: string
  idRole :: string
  idStage :: string
  idReviewLens :: string
  idSourceSlug :: string
  idDisplayName :: string
  idRoleName :: string
  idTagline :: string
  idModel :: string
  idModelTier :: string
  idModelFamily :: string
  idLens :: string

record Overrides =
  ovFlow :: string
  ovEpic :: string
  ovJob :: string

datatype flow_error =
    UnknownIdentity string string
  | NoIdentityResolved
  | SharedIdentity string string string string
  | SharedFamily string string string string
  | SharesBuilderIdentity string string
  | SharesBuilderFamily string string
  | UnknownDecision string
  | StageError string string flow_error

type_synonym registry = "string \<rightharpoonup> Identity"

fun resolve_layers :: "registry \<Rightarrow> (string \<times> string) list \<Rightarrow> flow_error + Identity" where
  "resolve_layers reg [] = Inl NoIdentityResolved"
| "resolve_layers reg ((layer, i) # ls) =
     (if i = [] then resolve_layers reg ls
      else case reg i of None \<Rightarrow> Inl (UnknownIdentity layer i) | Some x \<Rightarrow> Inr x)"

definition ResolveIdentity :: "registry \<Rightarrow> string \<Rightarrow> Overrides \<Rightarrow> flow_error + Identity" where
  "ResolveIdentity reg roleDefault ov =
     resolve_layers reg [(''job'', ovJob ov), (''epic'', ovEpic ov), (''flow'', ovFlow ov),
                         (''role'', roleDefault)]"

text \<open>\<open>RoleDefaults\<close> over the loaded identities (distinct ids, as \<open>LoadIdentities\<close> demands).\<close>

definition ids_of_role :: "(string \<times> Identity) list \<Rightarrow> string \<Rightarrow> string list" where
  "ids_of_role ids role = map (\<lambda>(k, i). idID i) (filter (\<lambda>(k, i). idRole i \<noteq> [] \<and> idRole i = role) ids)"

definition RoleDefaults :: "(string \<times> Identity) list \<Rightarrow> string \<rightharpoonup> string" where
  "RoleDefaults ids role = (case ids_of_role ids role of [x] \<Rightarrow> Some x | _ \<Rightarrow> None)"

section \<open>Stages\<close>

record ReviewerSlot =
  rlIdentity :: string
  rlLens :: string

record Stage =
  stRole :: string
  stNeeds :: "string list"
  stGate :: bool
  stWhen :: string
  stContext :: string
  stMaxBounces :: int
  stOptional :: bool
  stIdentity :: string
  stDecision :: string
  stReviewers :: "ReviewerSlot list"

record ResolvedActor =
  raStage :: string
  raRole :: string
  raLens :: string
  raIdentity :: Identity

record ResolvedStage =
  rsName :: string
  rsRole :: string
  rsGate :: bool
  rsDecision :: string
  rsActors :: "ResolvedActor list"
  rsSkipped :: bool
  rsSystem :: bool

record ResolveOptions =
  roEpicOverrides :: "string \<rightharpoonup> string"
  roJobOverrides :: "string \<rightharpoonup> string"
  roIncludeOptional :: "(string \<rightharpoonup> bool) option"
  roRequireDistinctModelFamily :: bool

text \<open>Reading a missing key of a Go map yields the zero value.\<close>

definition map_get :: "('k \<rightharpoonup> string) \<Rightarrow> 'k \<Rightarrow> string" where
  "map_get m k = (case m k of None \<Rightarrow> [] | Some v \<Rightarrow> v)"

definition anyOverride :: "string list \<Rightarrow> bool" where
  "anyOverride layers = list_ex (\<lambda>l. l \<noteq> []) layers"

definition decisionOrDefault :: "string \<Rightarrow> string" where
  "decisionOrDefault d =
     (if d \<in> {''all_pass'', ''majority'', ''any_veto''} then d
      else if d = [] then ''all_pass'' else d)"

fun anti_affinity_loop ::
  "string \<Rightarrow> bool \<Rightarrow> (string \<rightharpoonup> string) \<Rightarrow> (string \<rightharpoonup> string) \<Rightarrow> ResolvedActor list
     \<Rightarrow> flow_error option" where
  "anti_affinity_loop stage req seenID seenFam [] = None"
| "anti_affinity_loop stage req seenID seenFam (a # as) =
     (let i = idID (raIdentity a); fam = idModelFamily (raIdentity a) in
      case seenID i of
        Some prev \<Rightarrow> Some (SharedIdentity stage i prev (raLens a))
      | None \<Rightarrow>
        if req \<and> fam \<noteq> [] then
          (case seenFam fam of
             Some prev \<Rightarrow> Some (SharedFamily stage fam prev (raLens a))
           | None \<Rightarrow> anti_affinity_loop stage req (seenID(i \<mapsto> raLens a)) (seenFam(fam \<mapsto> raLens a)) as)
        else anti_affinity_loop stage req (seenID(i \<mapsto> raLens a)) seenFam as)"

definition checkAntiAffinity :: "string \<Rightarrow> ResolvedActor list \<Rightarrow> bool \<Rightarrow> flow_error option" where
  "checkAntiAffinity stage actors requireDistinctFamily =
     anti_affinity_loop stage requireDistinctFamily Map.empty Map.empty actors"

fun AntiAffinityBuilderVsReviewers ::
  "Identity \<Rightarrow> ResolvedActor list \<Rightarrow> bool \<Rightarrow> flow_error option" where
  "AntiAffinityBuilderVsReviewers builder [] req = None"
| "AntiAffinityBuilderVsReviewers builder (r # rs) req =
     (if idID (raIdentity r) = idID builder then Some (SharesBuilderIdentity (raLens r) (idID builder))
      else if req \<and> idModelFamily builder \<noteq> [] \<and> idModelFamily (raIdentity r) = idModelFamily builder
      then Some (SharesBuilderFamily (raLens r) (idModelFamily builder))
      else AntiAffinityBuilderVsReviewers builder rs req)"

definition AggregateVerdicts :: "string \<Rightarrow> bool list \<Rightarrow> flow_error + bool" where
  "AggregateVerdicts decision passes =
     (let total = length passes; pass = length (filter (\<lambda>p. p) passes);
          d = decisionOrDefault decision in
      if d = ''all_pass'' \<or> d = ''any_veto'' then Inr (pass = total)
      else if d = ''majority'' then Inr (pass * 2 > total)
      else Inl (UnknownDecision decision))"

section \<open>Resolution\<close>

definition stage_overrides :: "ResolveOptions \<Rightarrow> string \<Rightarrow> string \<Rightarrow> Overrides" where
  "stage_overrides opt name flowLevel =
     \<lparr>ovFlow = flowLevel, ovEpic = map_get (roEpicOverrides opt) name,
      ovJob = map_get (roJobOverrides opt) name\<rparr>"

fun resolve_slots ::
  "registry \<Rightarrow> (string \<rightharpoonup> string) \<Rightarrow> ResolveOptions \<Rightarrow> string \<Rightarrow> Stage \<Rightarrow> ReviewerSlot list
     \<Rightarrow> flow_error + ResolvedActor list" where
  "resolve_slots reg rd opt name st [] = Inr []"
| "resolve_slots reg rd opt name st (sl # sls) =
     (case ResolveIdentity reg (map_get rd (stRole st)) (stage_overrides opt name (rlIdentity sl)) of
        Inl e \<Rightarrow> Inl (StageError name (rlIdentity sl) e)
      | Inr i \<Rightarrow>
          (case resolve_slots reg rd opt name st sls of
             Inl e \<Rightarrow> Inl e
           | Inr as \<Rightarrow> Inr (\<lparr>raStage = name, raRole = stRole st, raLens = rlLens sl, raIdentity = i\<rparr> # as)))"

definition resolve_stage ::
  "registry \<Rightarrow> (string \<rightharpoonup> string) \<Rightarrow> ResolveOptions \<Rightarrow> string \<Rightarrow> Stage \<Rightarrow> flow_error + ResolvedStage" where
  "resolve_stage reg rd opt name st =
     (let base = \<lparr>rsName = name, rsRole = stRole st, rsGate = stGate st, rsDecision = [],
                  rsActors = [], rsSkipped = False, rsSystem = False\<rparr> in
      if stOptional st \<and> (case roIncludeOptional opt of None \<Rightarrow> False
                          | Some keep \<Rightarrow> keep name \<noteq> Some True)
      then Inr (base\<lparr>rsSkipped := True\<rparr>)
      else
        (let rs = base\<lparr>rsDecision := decisionOrDefault (stDecision st)\<rparr> in
         if stReviewers st \<noteq> [] then
           (case resolve_slots reg rd opt name st (stReviewers st) of
              Inl e \<Rightarrow> Inl e
            | Inr as \<Rightarrow>
                (case checkAntiAffinity name as (roRequireDistinctModelFamily opt) of
                   Some e \<Rightarrow> Inl e
                 | None \<Rightarrow> Inr (rs\<lparr>rsActors := as\<rparr>)))
         else if \<not> anyOverride [stIdentity st, map_get (roEpicOverrides opt) name,
                                map_get (roJobOverrides opt) name, map_get rd (stRole st)]
         then Inr (rs\<lparr>rsSystem := True\<rparr>)
         else
           (case ResolveIdentity reg (map_get rd (stRole st)) (stage_overrides opt name (stIdentity st)) of
              Inl e \<Rightarrow> Inl (StageError name [] e)
            | Inr i \<Rightarrow> Inr (rs\<lparr>rsActors := [\<lparr>raStage = name, raRole = stRole st,
                                            raLens = idReviewLens i, raIdentity = i\<rparr>]\<rparr>))))"

fun resolve_all ::
  "registry \<Rightarrow> (string \<rightharpoonup> string) \<Rightarrow> ResolveOptions \<Rightarrow> (string \<times> Stage) list
     \<Rightarrow> flow_error + ResolvedStage list" where
  "resolve_all reg rd opt [] = Inr []"
| "resolve_all reg rd opt ((name, st) # sts) =
     (case resolve_stage reg rd opt name st of
        Inl e \<Rightarrow> Inl e
      | Inr r \<Rightarrow> (case resolve_all reg rd opt sts of Inl e \<Rightarrow> Inl e | Inr rs \<Rightarrow> Inr (r # rs)))"

definition Resolve ::
  "(string \<times> Stage) list \<Rightarrow> registry \<Rightarrow> (string \<rightharpoonup> string) \<Rightarrow> ResolveOptions
     \<Rightarrow> flow_error + ResolvedStage list" where
  "Resolve stages reg rd opt = resolve_all reg rd opt (sort_key fst stages)"

section \<open>The word matcher\<close>

text \<open>An occurrence of \<open>w\<close> at \<open>i\<close> with no letter or digit on either side.\<close>

definition word_at :: "string \<Rightarrow> string \<Rightarrow> nat \<Rightarrow> bool" where
  "word_at s w i \<longleftrightarrow>
     i + length w \<le> length s \<and> prefix w (drop i s)
     \<and> (i = 0 \<or> \<not> isAlphaNum (s ! (i - 1)))
     \<and> (i + length w = length s \<or> \<not> isAlphaNum (s ! (i + length w)))"

lemma str_index_Some:
  "str_index s w = Some i \<Longrightarrow>
     i + length w \<le> length s \<and> prefix w (drop i s) \<and> (\<forall>k < i. \<not> prefix w (drop k s))"
proof (induction s w arbitrary: i rule: str_index.induct)
  case (2 c cs w)
  show ?case
  proof (cases "prefix w (c # cs)")
    case True
    with "2.prems" have "i = 0" by simp
    with True prefix_length_le [OF True] show ?thesis by simp
  next
    case False
    with "2.prems" obtain k where k: "str_index cs w = Some k" "i = Suc k"
      by (auto split: option.splits)
    with "2.IH" [OF False] have "k + length w \<le> length cs \<and> prefix w (drop k cs)
        \<and> (\<forall>m < k. \<not> prefix w (drop m cs))" by simp
    with k False show ?thesis by (auto simp: less_Suc_eq_0_disj)
  qed
qed (auto split: if_splits)

lemma str_index_None: "str_index s w = None \<Longrightarrow> w \<noteq> [] \<Longrightarrow> \<not> prefix w (drop k s)"
proof (induction s w arbitrary: k rule: str_index.induct)
  case (2 c cs w)
  then show ?case by (cases k) (auto split: if_splits option.splits)
qed (auto split: if_splits)

lemma contains_word_from_iff:
  "w \<noteq> [] \<Longrightarrow> contains_word_from s w idx \<longleftrightarrow> (\<exists>i \<ge> idx. word_at s w i)"
proof (induction s w idx rule: contains_word_from.induct)
  case (1 s w idx)
  show ?case
  proof (cases "str_index (drop idx s) w")
    case None
    have "\<not> prefix w (drop i s)" if "idx \<le> i" for i
      using str_index_None [OF None "1.prems", of "i - idx"] that by simp
    then show ?thesis by (subst contains_word_from.simps) (auto simp: None word_at_def)
  next
    case (Some k)
    let ?st = "idx + k"
    have k: "k + length w \<le> length s - idx" "prefix w (drop ?st s)"
      "\<And>m. m < k \<Longrightarrow> \<not> prefix w (drop (m + idx) s)"
      using str_index_Some [OF Some] by (auto simp: add.commute)
    have bound: "?st + length w \<le> length s" using k(1) "1.prems" by (cases w) auto
    have at_st: "word_at s w ?st \<longleftrightarrow>
        (?st = 0 \<or> \<not> isAlphaNum (s ! (?st - 1)))
        \<and> (?st + length w = length s \<or> \<not> isAlphaNum (s ! (?st + length w)))"
      using k(2) bound by (auto simp: word_at_def)
    have none_before: "\<not> word_at s w i" if "idx \<le> i" "i < ?st" for i
      using k(3) [of "i - idx"] that by (auto simp: word_at_def)
    have split: "(\<exists>i \<ge> idx. word_at s w i) \<longleftrightarrow> word_at s w ?st \<or> (\<exists>i \<ge> ?st + 1. word_at s w i)"
    proof
      assume "\<exists>i \<ge> idx. word_at s w i"
      then obtain i where i: "idx \<le> i" "word_at s w i" by blast
      with none_before have "\<not> i < ?st" by blast
      then have "i = ?st \<or> ?st + 1 \<le> i" by linarith
      with i(2) show "word_at s w ?st \<or> (\<exists>i \<ge> ?st + 1. word_at s w i)" by blast
    next
      assume "word_at s w ?st \<or> (\<exists>i \<ge> ?st + 1. word_at s w i)"
      then show "\<exists>i \<ge> idx. word_at s w i" by (meson add_leE le_add1)
    qed
    have none_after: "\<not> (\<exists>i \<ge> ?st + 1. word_at s w i)" if "?st + 1 \<ge> length s"
      using that "1.prems" by (cases w) (auto simp: word_at_def)
    have eq: "contains_word_from s w idx \<longleftrightarrow>
        word_at s w ?st \<or> (\<not> ?st + 1 \<ge> length s \<and> contains_word_from s w (?st + 1))"
      unfolding at_st by (subst contains_word_from.simps) (auto simp: Some Let_def)
    show ?thesis
    proof (cases "word_at s w ?st \<or> ?st + 1 \<ge> length s")
      case True
      then show ?thesis unfolding eq split using none_after by blast
    next
      case False
      with at_st have "contains_word_from s w (?st + 1) \<longleftrightarrow> (\<exists>i \<ge> ?st + 1. word_at s w i)"
        by (intro "1.IH" [OF Some refl refl refl refl _ _ "1.prems"]) auto
      with False show ?thesis unfolding eq split by blast
    qed
  qed
qed

lemma containsWord_iff:
  assumes "w \<noteq> []"
  shows "containsWord s w \<longleftrightarrow>
    (\<exists>p q. s = p @ w @ q \<and> (p = [] \<or> \<not> isAlphaNum (last p)) \<and> (q = [] \<or> \<not> isAlphaNum (hd q)))"
proof -
  have "containsWord s w \<longleftrightarrow> (\<exists>i. word_at s w i)"
    using contains_word_from_iff [OF assms, of s 0] by (simp add: containsWord_def)
  also have "\<dots> \<longleftrightarrow> (\<exists>p q. s = p @ w @ q \<and> (p = [] \<or> \<not> isAlphaNum (last p))
      \<and> (q = [] \<or> \<not> isAlphaNum (hd q)))"
  proof
    assume "\<exists>i. word_at s w i"
    then obtain i q where i: "word_at s w i" and q: "drop i s = w @ q"
      by (auto simp: word_at_def prefix_def)
    have s: "s = take i s @ w @ q" using q by (metis append_take_drop_id)
    have len: "length (take i s) = i" using i by (simp add: word_at_def)
    have "take i s = [] \<or> \<not> isAlphaNum (last (take i s))"
      using i len by (auto simp: word_at_def last_conv_nth)
    moreover have "q = [] \<or> \<not> isAlphaNum (hd q)"
    proof (cases q)
      case (Cons x xs)
      have "s ! (i + length w) = x" using s len Cons by (metis nth_append_length append_assoc length_append)
      moreover have "i + length w \<noteq> length s"
        using s len Cons by (metis length_append add_left_cancel length_0_conv list.distinct(1)
            add.assoc add_cancel_right_right)
      ultimately show ?thesis using i Cons by (simp add: word_at_def)
    qed simp
    ultimately show "\<exists>p q. s = p @ w @ q \<and> (p = [] \<or> \<not> isAlphaNum (last p))
        \<and> (q = [] \<or> \<not> isAlphaNum (hd q))" using s by blast
  next
    assume "\<exists>p q. s = p @ w @ q \<and> (p = [] \<or> \<not> isAlphaNum (last p))
      \<and> (q = [] \<or> \<not> isAlphaNum (hd q))"
    then obtain p q where "s = p @ w @ q" "p = [] \<or> \<not> isAlphaNum (last p)"
      "q = [] \<or> \<not> isAlphaNum (hd q)" by blast
    then have "word_at s w (length p)"
      by (auto simp: word_at_def nth_append last_conv_nth hd_conv_nth)
    then show "\<exists>i. word_at s w i" by blast
  qed
  finally show ?thesis .
qed

lemma find_Some_in: "find P xs = Some x \<Longrightarrow> x \<in> set xs \<and> P x"
  by (induction xs) (auto split: if_splits)

lemma ToLower_literal: "p \<in> set ProviderLiterals \<Longrightarrow> p \<noteq> []"
  by (auto simp: ProviderLiterals_def)

text \<open>
  Beside the properties: the neutrality lint finds exactly whole words.  The finder returns
  a literal iff the lower-cased text contains a provider name with no letter or
  digit on either side; it then returns such a name.
\<close>

theorem literal_found_iff_word:
  "(findProviderLiteral s \<noteq> [] \<longleftrightarrow>
     (\<exists>w \<in> set ProviderLiterals. \<exists>p q. ToLower s = p @ w @ q
        \<and> (p = [] \<or> \<not> isAlphaNum (last p)) \<and> (q = [] \<or> \<not> isAlphaNum (hd q))))
   \<and> (findProviderLiteral s \<noteq> [] \<longrightarrow> findProviderLiteral s \<in> set ProviderLiterals)"
proof -
  have f: "findProviderLiteral s \<noteq> [] \<longleftrightarrow> (\<exists>w \<in> set ProviderLiterals. containsWord (ToLower s) w)"
  proof (cases "s = []")
    case True
    have "\<not> containsWord (ToLower s) w" if "w \<in> set ProviderLiterals" for w
      using that True ToLower_literal [OF that] by (simp add: containsWord_iff ToLower_def)
    with True show ?thesis by (simp add: findProviderLiteral_def)
  next
    case False
    show ?thesis
    proof (cases "find (containsWord (ToLower s)) ProviderLiterals")
      case None
      then have "findProviderLiteral s = []" by (simp add: findProviderLiteral_def)
      moreover have "\<forall>w \<in> set ProviderLiterals. \<not> containsWord (ToLower s) w"
        using None unfolding find_None_iff by blast
      ultimately show ?thesis by blast
    next
      case (Some w)
      then have "w \<in> set ProviderLiterals" "containsWord (ToLower s) w"
        by (auto dest: find_Some_in)
      moreover have "findProviderLiteral s = w" using False Some by (simp add: findProviderLiteral_def)
      ultimately show ?thesis using ToLower_literal by blast
    qed
  qed
  moreover have "findProviderLiteral s \<in> set ProviderLiterals" if "findProviderLiteral s \<noteq> []"
    using that by (auto simp: findProviderLiteral_def dest: find_Some_in split: if_splits option.splits)
  ultimately show ?thesis using containsWord_iff ToLower_literal by auto
qed

theorem literal_found_iff_word_witness:
  "findProviderLiteral ''Opus_reviewer'' = ''opus'' \<and> ''opus'' \<in> set ProviderLiterals"
proof -
  have "findProviderLiteral ''Opus_reviewer'' = ''opus''" by code_simp
  with literal_found_iff_word [of "''Opus_reviewer''"] show ?thesis by simp
qed

section \<open>Resolution\<close>

lemma ResolveIdentity_precedence:
  "ResolveIdentity reg rd ov =
     (let layers = [(''job'', ovJob ov), (''epic'', ovEpic ov), (''flow'', ovFlow ov), (''role'', rd)] in
      case find (\<lambda>(l, i). i \<noteq> []) layers of
        None \<Rightarrow> Inl NoIdentityResolved
      | Some (l, i) \<Rightarrow> (case reg i of None \<Rightarrow> Inl (UnknownIdentity l i) | Some x \<Rightarrow> Inr x))"
  by (simp add: ResolveIdentity_def Let_def)

definition ids_of :: "ResolvedActor list \<Rightarrow> string list" where
  "ids_of as = map (\<lambda>a. idID (raIdentity a)) as"

definition fams_of :: "ResolvedActor list \<Rightarrow> string list" where
  "fams_of as = filter (\<lambda>f. f \<noteq> []) (map (\<lambda>a. idModelFamily (raIdentity a)) as)"

lemma ids_fams_simps [simp]:
  "ids_of [] = []" "fams_of [] = []" "ids_of (a # as) = idID (raIdentity a) # ids_of as"
  "fams_of (a # as) = (if idModelFamily (raIdentity a) = [] then fams_of as
     else idModelFamily (raIdentity a) # fams_of as)"
  by (simp_all add: ids_of_def fams_of_def)

lemma anti_affinity_None:
  "anti_affinity_loop stage req seenID seenFam as = None \<longleftrightarrow>
     distinct (ids_of as) \<and> (\<forall>i \<in> set (ids_of as). seenID i = None)
     \<and> (req \<longrightarrow> distinct (fams_of as) \<and> (\<forall>f \<in> set (fams_of as). seenFam f = None))"
proof (induction as arbitrary: req seenID seenFam)
  case (Cons a as)
  have upd: "(\<forall>i \<in> set xs. (m(k \<mapsto> v)) i = None) \<longleftrightarrow> k \<notin> set xs \<and> (\<forall>i \<in> set xs. m i = None)"
    for m :: "string \<rightharpoonup> string" and k v xs by auto
  show ?case
    by (cases "seenID (idID (raIdentity a))"; cases "seenFam (idModelFamily (raIdentity a))")
      (auto simp: Let_def Cons.IH upd simp del: fun_upd_apply)
qed simp

lemma checkAntiAffinity_None:
  "checkAntiAffinity stage as req = None \<longleftrightarrow>
     distinct (ids_of as) \<and> (req \<longrightarrow> distinct (fams_of as))"
  by (simp add: checkAntiAffinity_def anti_affinity_None)

lemma resolve_slots_lens:
  "resolve_slots reg rd opt name st sls = Inr as \<Longrightarrow> map raLens as = map rlLens sls"
  by (induction sls arbitrary: as) (auto split: sum.splits)

definition staffed_apart :: "ResolveOptions \<Rightarrow> ResolvedStage \<Rightarrow> bool" where
  "staffed_apart opt r \<longleftrightarrow>
     distinct (ids_of (rsActors r))
     \<and> (roRequireDistinctModelFamily opt \<longrightarrow> distinct (fams_of (rsActors r)))
     \<and> (rsActors r = [] \<longleftrightarrow> rsSkipped r \<or> rsSystem r)"

lemma resolve_stage_ok:
  assumes "resolve_stage reg rd opt name st = Inr r"
  shows "rsName r = name \<and> staffed_apart opt r
    \<and> (stReviewers st \<noteq> [] \<longrightarrow> \<not> rsSkipped r \<longrightarrow> map raLens (rsActors r) = map rlLens (stReviewers st))"
  using assms
  by (auto simp: resolve_stage_def Let_def staffed_apart_def checkAntiAffinity_None
      split: if_splits sum.splits option.splits dest: resolve_slots_lens)

lemma resolve_all_ok:
  "resolve_all reg rd opt sts = Inr rs \<Longrightarrow>
     list_all2 (\<lambda>(n, st) r. resolve_stage reg rd opt n st = Inr r) sts rs"
  by (induction sts arbitrary: rs) (auto split: sum.splits)

lemma map_fst_sort_key: "map fst (sort_key fst (xs :: (string \<times> Stage) list)) = sort (map fst xs)"
proof -
  have "map fst (insort_key fst x ys) = insort (fst x) (map fst ys)" for x and ys :: "(string \<times> Stage) list"
    by (induction ys) auto
  then show ?thesis by (induction xs) simp_all
qed

text \<open>
  Property C39: a resolved flow is staffed apart.  When a flow resolves, its stages
  come out one for one in the order of their names; within a stage no identity
  staffs two actors (nor, when required, does a model family); and a stage
  without an actor is exactly a dropped optional stage or a system stage.
\<close>

theorem resolved_flow_staffed_apart:
  assumes "Resolve stages reg rd opt = Inr rs"
  shows "map rsName rs = sort (map fst stages) \<and> (\<forall>r \<in> set rs. staffed_apart opt r)"
proof -
  have all: "list_all2 (\<lambda>(n, st) r. resolve_stage reg rd opt n st = Inr r) (sort_key fst stages) rs"
    using assms resolve_all_ok by (simp add: Resolve_def)
  have "list_all2 (\<lambda>p r. fst p = rsName r \<and> staffed_apart opt r) (sort_key fst stages) rs"
    using all by (rule list_all2_mono) (auto dest: resolve_stage_ok)
  then have "map fst (sort_key fst stages) = map rsName rs \<and> (\<forall>r \<in> set rs. staffed_apart opt r)"
    by (induction rule: list_all2_induct) auto
  then show ?thesis by (simp add: map_fst_sort_key)
qed

definition sample_identity :: "string \<Rightarrow> string \<Rightarrow> Identity" where
  "sample_identity i fam = \<lparr>idID = i, idRole = ''code_reviewer'', idStage = [], idReviewLens = [],
     idSourceSlug = [], idDisplayName = [], idRoleName = [], idTagline = [], idModel = [],
     idModelTier = [], idModelFamily = fam, idLens = []\<rparr>"

definition sample_stage :: "ReviewerSlot list \<Rightarrow> Stage" where
  "sample_stage sls = \<lparr>stRole = ''code_reviewer'', stNeeds = [], stGate = True, stWhen = [],
     stContext = [], stMaxBounces = 0, stOptional = False, stIdentity = [], stDecision = [],
     stReviewers = sls\<rparr>"

definition sample_flow :: "(string \<times> Stage) list" where
  "sample_flow =
     [(''review'', sample_stage [\<lparr>rlIdentity = ''r1'', rlLens = ''tests''\<rparr>,
                                 \<lparr>rlIdentity = ''r2'', rlLens = ''security''\<rparr>]),
      (''merge'', sample_stage [])]"

definition sample_resolution :: "flow_error + ResolvedStage list" where
  "sample_resolution = Resolve sample_flow
     [''r1'' \<mapsto> sample_identity ''r1'' ''m1'', ''r2'' \<mapsto> sample_identity ''r2'' ''m2''] Map.empty
     \<lparr>roEpicOverrides = Map.empty, roJobOverrides = Map.empty, roIncludeOptional = None,
      roRequireDistinctModelFamily = True\<rparr>"

theorem resolved_flow_staffed_apart_witness:
  "\<exists>rs. sample_resolution = Inr rs \<and> map rsName rs = [''merge'', ''review'']
     \<and> list_all (\<lambda>r. distinct (fams_of (rsActors r))) rs"
proof -
  have names: "sort (map fst sample_flow) = [''merge'', ''review'']"
    by (simp add: sample_flow_def)
  have "case sample_resolution of Inl e \<Rightarrow> False | Inr rs \<Rightarrow> True"
    by (simp add: sample_resolution_def Resolve_def sample_flow_def sample_stage_def resolve_stage_def
        ResolveIdentity_def stage_overrides_def map_get_def anyOverride_def checkAntiAffinity_def
        sample_identity_def Let_def)
  then obtain rs where rs: "sample_resolution = Inr rs" by (auto split: sum.splits)
  from resolved_flow_staffed_apart [OF rs [unfolded sample_resolution_def]] names rs show ?thesis
    by (auto simp: staffed_apart_def list_all_iff)
qed

section \<open>Aggregation\<close>

lemma pass_count: "length (filter (\<lambda>p. p) ps) = length ps \<longleftrightarrow> (\<forall>p \<in> set ps. p)"
proof
  assume eq: "length (filter (\<lambda>p. p) ps) = length ps"
  show "\<forall>p \<in> set ps. p"
  proof
    fix p assume "p \<in> set ps"
    with length_filter_less [of p ps "\<lambda>p. p"] eq show p by linarith
  qed
qed (simp add: filter_id_conv [THEN iffD2])

lemma aggregate_all_pass:
  "AggregateVerdicts [] ps = Inr (\<forall>p \<in> set ps. p)"
  "AggregateVerdicts ''all_pass'' ps = Inr (\<forall>p \<in> set ps. p)"
  "AggregateVerdicts ''any_veto'' ps = Inr (\<forall>p \<in> set ps. p)"
  by (simp_all add: AggregateVerdicts_def decisionOrDefault_def Let_def pass_count)

text \<open>A unanimous non-empty panel has a strict majority; no panel does not.\<close>

lemma aggregate_majority:
  "ps \<noteq> [] \<Longrightarrow> \<forall>p \<in> set ps. p \<Longrightarrow> AggregateVerdicts ''majority'' ps = Inr True"
  "AggregateVerdicts ''majority'' [] = Inr False"
  by (simp_all add: AggregateVerdicts_def decisionOrDefault_def Let_def pass_count [THEN iffD2])

end
