(* ===== verification/Json.thy ===== *)
theory Json
  imports Prelude "HOL-Library.Word"
begin

text \<open>
  JSON values as the sources use \<open>encoding/json\<close>, and \<open>strconv.Atoi\<close>.  A document is
  the tree it encodes; decoding into a struct reads its members, and a member
  that is missing, null or of another type leaves Go's zero value.  (A type
  mismatch also makes \<open>json.Unmarshal\<close> return an error; the documents decoded here
  come from an interface that fixes the types of their members, and the
  payloads of the outbox are written by the program itself.)  Numbers are
  integers, the only ones the sources encode or read.
\<close>

datatype JSONValue =
    JStr string | JInt int | JBool bool | JNull
  | JList "JSONValue list" | JObj "(string \<times> JSONValue) list"

fun jmember :: "string \<Rightarrow> JSONValue \<Rightarrow> JSONValue" where
  "jmember k (JObj fs) = (case map_of fs k of None \<Rightarrow> JNull | Some v \<Rightarrow> v)"
| "jmember k v = JNull"

fun jstring :: "JSONValue \<Rightarrow> string" where
  "jstring (JStr s) = s"
| "jstring v = []"

fun jint :: "JSONValue \<Rightarrow> int" where
  "jint (JInt n) = n"
| "jint v = 0"

fun jbool :: "JSONValue \<Rightarrow> bool" where
  "jbool (JBool b) = b"
| "jbool v = False"

fun jlist :: "JSONValue \<Rightarrow> JSONValue list" where
  "jlist (JList vs) = vs"
| "jlist v = []"

text \<open>A path of member names, and a pointer to a struct (nil for null).\<close>

fun jpath :: "string list \<Rightarrow> JSONValue \<Rightarrow> JSONValue" where
  "jpath [] v = v"
| "jpath (k # ks) v = jpath ks (jmember k v)"

definition jpresent :: "JSONValue \<Rightarrow> bool" where
  "jpresent v \<longleftrightarrow> v \<noteq> JNull"

section \<open>Reading integers\<close>

text \<open>
  \<open>strconv.Atoi\<close> and \<open>strconv.ParseInt(s, 10, 64)\<close>: an optional sign, one or more
  decimal digits, and a value that fits in 64 bits.
\<close>

definition digits_value :: "string \<Rightarrow> int option" where
  "digits_value s = (if s \<noteq> [] \<and> list_all is_digit s then Some (int (dec_val s)) else None)"

definition Atoi :: "string \<Rightarrow> int option" where
  "Atoi s =
     (case (case s of
        [] \<Rightarrow> None
      | c # t \<Rightarrow> if c = CHR ''-'' then map_option uminus (digits_value t)
                  else if c = CHR ''+'' then digits_value t
                  else digits_value s) of
        None \<Rightarrow> None
      | Some n \<Rightarrow> if - (2 ^ 63) \<le> n \<and> n < 2 ^ 63 then Some n else None)"

lemma dec_nat_not_Nil [simp]: "dec_nat n \<noteq> []"
  by (subst dec_nat.simps) simp

lemma digits_value_dec_nat: "digits_value (dec_nat n) = Some (int n)"
  by (simp add: digits_value_def dec_val_dec_nat list_all_iff dec_nat_digits)

lemma Atoi_dec_int:
  assumes "- (2 ^ 63) \<le> i" and "i < 2 ^ 63"
  shows "Atoi (dec_int i) = Some i"
proof (cases "i < 0")
  case True
  then show ?thesis using assms
    by (simp add: dec_int_def Atoi_def digits_value_dec_nat)
next
  case False
  obtain c t where ct: "dec_nat (nat i) = c # t" by (cases "dec_nat (nat i)") simp_all
  have "is_digit c" by (rule dec_nat_digits [of c "nat i"]) (simp add: ct)
  then have "c \<noteq> CHR ''-''" "c \<noteq> CHR ''+''" by (auto simp: is_digit_def)
  moreover have "digits_value (c # t) = Some i"
    using False digits_value_dec_nat [of "nat i"] by (simp add: ct)
  ultimately show ?thesis using False assms by (simp add: dec_int_def Atoi_def ct)
qed

end
