(* ===== verification/Store_Tables.thy ===== *)
theory Store_Tables
  imports Engine Capacity Scheduler Content_Gate Json "HOL-Library.AList"
begin

text \<open>
  The database of \<open>internal/store\<close>: the tables its transactions read and write,
  as lists in row order (or maps, where a table is only ever read by its key),
  the primitives of \<open>queries.go\<close> (\<open>loadJobTx\<close>, \<open>appendEvent\<close>, \<open>setJobSeq\<close>),
  the capacity gates of \<open>capacity.go\<close>, the content check of \<open>content.go\<close>, the
  epoch-scoped CI read of \<open>epoch.go\<close> and the alarm timer of \<open>timers.go\<close>.

  A transaction is a function from the database to an error or the new
  database and the result: an error rolls back, so it carries no database.
  Transactions are serialized by the store (one connection), so they compose
  sequentially.  Columns stamped with SQLite's own clock (\<open>updated_at\<close>,
  \<open>granted_at\<close>, \<open>ended_at\<close>, \<open>created_at\<close>) are not modelled; \<open>ended_at\<close> being
  set is \<open>lrEnded\<close> being \<open>Some\<close> end reason.  JSON columns hold the value they encode.
\<close>

section \<open>Rows\<close>

text \<open>
  A row of \<open>jobs\<close>: the columns \<open>scanJob\<close> reads are the fields of \<open>rwJob\<close>, but for
  the two that SQL predicates compare and that can be NULL, which are options
  of their own (\<open>rwBoundIdentity\<close>, \<open>rwBoundModelFamily\<close>) and coalesced by \<open>scanJob\<close>.
\<close>

record Row =
  rwJob :: Job
  rwBoundIdentity :: "string option"
  rwBoundModelFamily :: "string option"
  rwBuilderIdentity :: "string option"
  rwBuilderModelFamily :: "string option"
  rwEngWorkerJob :: "string option"
  rwCodeReviewerJob :: "string option"
  rwBoundAccount :: string
  rwLeaseDeadline :: "int option"
  rwLeaseHbDue :: "int option"
  rwPhaseDeadlineAt :: "int option"
  rwLastHeartbeatAt :: "int option"
  rwAgentHealth :: AgentHealth
  rwRung1Class :: Rung1Class
  rwRung2LastVerdict :: Rung2Verdict
  rwRung2WindowHead :: string
  rwRung2WindowStartedAt :: "int option"
  rwCIRunning :: bool
  rwHeadRef :: "string option"
  rwPatchDiff :: string
  rwDeclaredBlastRadius :: string
  rwReservationPaths :: "string list option"
  rwReservationWide :: bool
  rwConflictBaseSHA :: string
  rwStackedOnPR :: int
  rwAdopted :: bool
  rwOptedIn :: bool
  rwAuthorLens :: string
  rwReviewerLens :: string
  rwContentResult :: "ContentResult option"

definition coalesce :: "string option \<Rightarrow> string" where
  "coalesce c = (case c of None \<Rightarrow> [] | Some s \<Rightarrow> s)"

definition scanJob :: "Row \<Rightarrow> Job" where
  "scanJob r = (rwJob r)\<lparr>jBoundIdentity := coalesce (rwBoundIdentity r),
     jBoundModelFamily := coalesce (rwBoundModelFamily r)\<rparr>"

record LeaseRow =
  lrLeaseID :: string
  lrJobID :: string
  lrEpoch :: int
  lrIdentity :: string
  lrModelFamily :: string
  lrTTLSeconds :: int
  lrDeadline :: int
  lrEnded :: "string option"

record TimerRow =
  tmID :: string
  tmJobID :: string
  tmKind :: string
  tmDueAt :: int
  tmExpectedEpoch :: int
  tmFired :: bool

record WorkerRow =
  wkWorkerID :: string
  wkIdentity :: string
  wkMaxConcurrentLeases :: int
  wkLastSeenAt :: int

text \<open>
  The cached response of \<open>result_idempotency\<close>: three response types share the
  column.  \<open>ResultResponse\<close> has the first two of these fields,
  \<open>ReviewResultResponse\<close> the first four and \<open>SpecReviewResultResponse\<close> all but the
  verdict; decoding an object into another type drops the fields it has not and
  leaves those it was not given zero.
\<close>

record Response =
  rpAccepted :: bool
  rpJobState :: string
  rpVerdict :: string
  rpMinted :: bool
  rpSuperseded :: bool
  rpAmended :: bool
  rpNeedsDesign :: bool

definition answer :: "string \<Rightarrow> string \<Rightarrow> bool \<Rightarrow> Response" where
  "answer st v minted = \<lparr>rpAccepted = True, rpJobState = st, rpVerdict = v, rpMinted = minted,
     rpSuperseded = False, rpAmended = False, rpNeedsDesign = False\<rparr>"

definition as_result :: "Response \<Rightarrow> Response" where
  "as_result c = c\<lparr>rpVerdict := [], rpMinted := False, rpSuperseded := False, rpAmended := False,
     rpNeedsDesign := False\<rparr>"

definition as_review :: "Response \<Rightarrow> Response" where
  "as_review c = c\<lparr>rpSuperseded := False, rpAmended := False, rpNeedsDesign := False\<rparr>"

definition as_spec :: "Response \<Rightarrow> Response" where
  "as_spec c = c\<lparr>rpVerdict := []\<rparr>"

lemma answer_sel [simp]:
  "rpAccepted (answer st v m)" "rpJobState (answer st v m) = st" "rpVerdict (answer st v m) = v"
  "rpMinted (answer st v m) = m"
  by (simp_all add: answer_def)

lemma as_answer [simp]:
  "as_result (answer st [] False) = answer st [] False" "as_review (answer st v m) = answer st v m"
  "as_result (as_result c) = as_result c" "as_review (as_review c) = as_review c"
  "as_spec (as_spec c) = as_spec c"
  by (simp_all add: answer_def as_result_def as_review_def as_spec_def)

text \<open>
  \<open>domain_b_facts\<close>: the columns the gates read are a \<open>DomainBFacts\<close>, the other three
  are \<open>FactMarks\<close>, with the column defaults while there is no row.  An instant of
  0 is the empty string (Go's zero time).
\<close>

record FactMarks =
  fmHeadUpdatedAt :: int
  fmMergeCommit :: string
  fmIsDraft :: bool

definition no_marks :: FactMarks where
  "no_marks = \<lparr>fmHeadUpdatedAt = 0, fmMergeCommit = [], fmIsDraft = False\<rparr>"

text \<open>
  A row of \<open>outbox\<close>; the payload is the JSON object as its fields, none for \<open>{}\<close>.
  A row of \<open>audit_log\<close> is its unique key and the detail.
\<close>

datatype OutboxStatus = ObPending | ObSent | ObAbandoned

record OutboxRow =
  obID :: int
  obJobID :: string
  obAction :: string
  obHeadSHA :: string
  obPayload :: "(string \<times> JSONValue) list"
  obStatus :: OutboxStatus
  obAttempts :: int

record AuditRow =
  auJobID :: string
  auAction :: string
  auHeadSHA :: string
  auDetail :: string

record DB =
  tbJobs :: "Row list"
  tbEvents :: "Event list"
  tbLeases :: "LeaseRow list"
  tbTimers :: "TimerRow list"
  tbAlarms :: "((string \<times> string) \<times> int) list"
  tbIdempotency :: "((string \<times> string) \<times> Response) list"
  tbFacts :: "string \<Rightarrow> DomainBFacts option"
  tbWorkers :: "WorkerRow list"
  tbSlots :: "string \<times> string \<Rightarrow> int option"
  tbAccounts :: "Account list"
  tbEpochCI :: "((string \<times> int) \<times> string) list"
  tbMarks :: "string \<Rightarrow> FactMarks"
  tbOutbox :: "OutboxRow list"
  tbNextOutbox :: int
  tbAudit :: "AuditRow list"
  tbCompensations :: "((string \<times> int) \<times> (bool \<times> bool \<times> bool)) list"

text \<open>
  The store's configuration.  \<open>scDecodeBlast\<close> is \<open>json.Unmarshal\<close> of a non-empty
  declared blast radius (undecodable input yields what it decoded so far), and
  \<open>scBlastValid\<close> that it returns no error.
\<close>

record StoreCfg =
  scNoEligibleWorkerDelay :: int
  scContentPolicy :: ContentPolicy
  scAllowOwnSourceRepos :: "string \<Rightarrow> bool"
  scDecodeBlast :: "string \<Rightarrow> BlastRadius"
  scBlastValid :: "string \<Rightarrow> bool"

datatype store_error =
    ErrLostRace | ErrStaleEpoch | ErrNoCapacity | ErrJobNotFound | ErrJobActivelyLeased
  | ErrNoRows | ErrConstraint | ErrTransition | ErrDispatch string | ErrRebase

section \<open>Transactions\<close>

definition and_then :: "'e + 'a \<Rightarrow> ('a \<Rightarrow> 'e + 'b) \<Rightarrow> 'e + 'b" where
  "and_then m f = (case m of Inl e \<Rightarrow> Inl e | Inr x \<Rightarrow> f x)"

lemma and_then_simps [simp]: "and_then (Inl e) f = Inl e" "and_then (Inr x) f = f x"
  by (simp_all add: and_then_def)

lemma and_then_Inr_iff: "and_then m f = Inr y \<longleftrightarrow> (\<exists>x. m = Inr x \<and> f x = Inr y)"
  by (cases m) simp_all

definition row_id :: "Row \<Rightarrow> string" where
  "row_id r = jID (rwJob r)"

definition find_row :: "DB \<Rightarrow> string \<Rightarrow> Row option" where
  "find_row d i = List.find (\<lambda>r. row_id r = i) (tbJobs d)"

definition update_row :: "string \<Rightarrow> (Row \<Rightarrow> Row) \<Rightarrow> DB \<Rightarrow> DB" where
  "update_row i f d = d\<lparr>tbJobs := map (\<lambda>r. if row_id r = i then f r else r) (tbJobs d)\<rparr>"

definition loadJobTx :: "DB \<Rightarrow> string \<Rightarrow> store_error + (Row \<times> Job \<times> int)" where
  "loadJobTx d i = (case find_row d i of
     None \<Rightarrow> Inl ErrNoRows
   | Some r \<Rightarrow> Inr (r, scanJob r, jJobSeq (rwJob r)))"

text \<open>\<open>UNIQUE (job_id, job_seq)\<close> is the append's only constraint.\<close>

definition appendEvent :: "Event \<Rightarrow> DB \<Rightarrow> store_error + DB" where
  "appendEvent e d =
     (if list_ex (\<lambda>x. eJobID x = eJobID e \<and> eJobSeq x = eJobSeq e) (tbEvents d)
      then Inl ErrConstraint
      else Inr (d\<lparr>tbEvents := tbEvents d @ [e]\<rparr>))"

definition setJobSeq :: "string \<Rightarrow> int \<Rightarrow> DB \<Rightarrow> DB" where
  "setJobSeq i n = update_row i (\<lambda>r. r\<lparr>rwJob := (rwJob r)\<lparr>jJobSeq := n\<rparr>\<rparr>)"

definition LoadEvents :: "DB \<Rightarrow> string \<Rightarrow> Event list" where
  "LoadEvents d i = sort_key eJobSeq (filter (\<lambda>e. eJobID e = i) (tbEvents d))"

text \<open>\<open>int(ttl / time.Second)\<close>: Go's division truncates towards zero.\<close>

definition ttl_seconds :: "int \<Rightarrow> int" where
  "ttl_seconds d = (if d \<ge> 0 then d div 1000000000 else - ((- d) div 1000000000))"

definition insert_lease :: "LeaseRow \<Rightarrow> DB \<Rightarrow> store_error + DB" where
  "insert_lease l d =
     (if list_ex (\<lambda>x. lrLeaseID x = lrLeaseID l \<or> lrJobID x = lrJobID l \<and> lrEpoch x = lrEpoch l)
           (tbLeases d)
      then Inl ErrConstraint
      else Inr (d\<lparr>tbLeases := tbLeases d @ [l]\<rparr>))"

definition close_lease :: "string \<Rightarrow> int \<Rightarrow> string \<Rightarrow> DB \<Rightarrow> DB" where
  "close_lease i epoch reason d =
     d\<lparr>tbLeases := map (\<lambda>l. if lrJobID l = i \<and> lrEpoch l = epoch \<and> lrEnded l = None
                            then l\<lparr>lrEnded := Some reason\<rparr> else l) (tbLeases d)\<rparr>"

definition close_leases :: "string \<Rightarrow> string \<Rightarrow> DB \<Rightarrow> DB" where
  "close_leases i reason d =
     d\<lparr>tbLeases := map (\<lambda>l. if lrJobID l = i \<and> lrEnded l = None
                            then l\<lparr>lrEnded := Some reason\<rparr> else l) (tbLeases d)\<rparr>"

section \<open>Timers\<close>

definition insert_timer :: "TimerRow \<Rightarrow> DB \<Rightarrow> store_error + DB" where
  "insert_timer t d =
     (if list_ex (\<lambda>x. tmID x = tmID t) (tbTimers d) then Inl ErrConstraint
      else Inr (d\<lparr>tbTimers := tbTimers d @ [t]\<rparr>))"

text \<open>\<open>t.UnixNano()\<close>, with instants counted from Go's zero time.\<close>

definition UnixNano :: "int \<Rightarrow> int" where
  "UnixNano t = t - 62135596800 * 1000000000"

definition armNoEligibleTimerTx :: "StoreCfg \<Rightarrow> string \<Rightarrow> int \<Rightarrow> int \<Rightarrow> DB \<Rightarrow> store_error + DB" where
  "armNoEligibleTimerTx cfg i epoch now d =
     (if scNoEligibleWorkerDelay cfg \<le> 0 then Inr d
      else insert_timer
        \<lparr>tmID = i @ ''-noelig-e'' @ dec_int epoch @ ''-'' @ dec_int (UnixNano now), tmJobID = i,
         tmKind = ''no_eligible_worker'', tmDueAt = now + scNoEligibleWorkerDelay cfg,
         tmExpectedEpoch = epoch, tmFired = False\<rparr> d)"

text \<open>\<open>armTimerTx\<close>: \<open>ON CONFLICT (id) DO NOTHING\<close>.\<close>

definition armTimerTx :: "TimerRow \<Rightarrow> DB \<Rightarrow> DB" where
  "armTimerTx t d =
     (if list_ex (\<lambda>x. tmID x = tmID t) (tbTimers d) then d
      else d\<lparr>tbTimers := tbTimers d @ [t]\<rparr>)"

definition fire_timers :: "(TimerRow \<Rightarrow> bool) \<Rightarrow> DB \<Rightarrow> DB" where
  "fire_timers p d =
     d\<lparr>tbTimers := map (\<lambda>t. if p t then t\<lparr>tmFired := True\<rparr> else t) (tbTimers d)\<rparr>"

definition markTimerFired :: "string \<Rightarrow> DB \<Rightarrow> DB" where
  "markTimerFired i = fire_timers (\<lambda>t. tmID t = i)"

section \<open>Capacity gates\<close>

definition count_active :: "(Row \<Rightarrow> bool) \<Rightarrow> DB \<Rightarrow> int" where
  "count_active p d =
     int (length (filter (\<lambda>r. p r \<and> HasActiveLease (jState (rwJob r))) (tbJobs d)))"

definition legacyWorkerSlotGateTx :: "DB \<Rightarrow> string \<Rightarrow> string \<Rightarrow> store_error option" where
  "legacyWorkerSlotGateTx d workerID identity =
     (case List.find (\<lambda>w. wkWorkerID w = workerID) (tbWorkers d) of
        None \<Rightarrow> None
      | Some w \<Rightarrow>
          (let maxSlots = (if wkMaxConcurrentLeases w < 1 then 1 else wkMaxConcurrentLeases w) in
           if HasFreeSlot maxSlots (count_active (\<lambda>r. rwBoundIdentity r = Some identity) d)
           then None else Some ErrNoCapacity))"

definition gate_for_worker :: "DB \<Rightarrow> string \<Rightarrow> string \<Rightarrow> string \<Rightarrow> store_error option" where
  "gate_for_worker d workerID identity modelFamily =
     (case tbSlots d (workerID, modelFamily) of
        None \<Rightarrow> legacyWorkerSlotGateTx d workerID identity
      | Some maxSlots \<Rightarrow>
          if HasFreeSlot maxSlots
               (count_active (\<lambda>r. rwBoundIdentity r = Some identity
                               \<and> rwBoundModelFamily r = Some modelFamily) d)
          then None else Some ErrNoCapacity)"

definition modelSlotGateTx :: "DB \<Rightarrow> string \<Rightarrow> string \<Rightarrow> string \<Rightarrow> store_error option" where
  "modelSlotGateTx d workerID identity modelFamily =
     (if identity = [] \<or> modelFamily = [] then None
      else if workerID = [] then
        (case List.find (\<lambda>w. wkIdentity w = identity) (tbWorkers d) of
           None \<Rightarrow> None
         | Some w \<Rightarrow> gate_for_worker d (wkWorkerID w) identity modelFamily)
      else gate_for_worker d workerID identity modelFamily)"

text \<open>
  \<open>selectAccountTx\<close>: the id of the account it returns (the empty account when
  there is no gate).  The query orders by rank and id.
\<close>

definition selectAccountTx :: "DB \<Rightarrow> string \<Rightarrow> store_error + string" where
  "selectAccountTx d modelFamily =
     (if modelFamily = [] then Inr []
      else let accts = stable_sort_by account_less
                 (filter (\<lambda>a. acModelFamily a = modelFamily) (tbAccounts d))
           in if accts = [] then Inr []
              else case SelectAccount accts modelFamily of
                None \<Rightarrow> Inl ErrNoCapacity
              | Some a \<Rightarrow> Inr (acAccountID a))"

section \<open>Facts and the content check\<close>

definition zero_facts :: DomainBFacts where
  "zero_facts = \<lparr>dbPRExists = False, dbPRNumber = 0, dbHeadSHA = [], dbBaseSHA = [],
     dbCIGreen = False, dbMerged = False, dbMergeableState = []\<rparr>"

definition domainBFactsTx :: "DB \<Rightarrow> string \<Rightarrow> DomainBFacts" where
  "domainBFactsTx d i = (case tbFacts d i of None \<Rightarrow> zero_facts | Some f \<Rightarrow> f)"

definition UpsertDomainBFacts :: "string \<Rightarrow> DomainBFacts \<Rightarrow> DB \<Rightarrow> DB" where
  "UpsertDomainBFacts i f d = d\<lparr>tbFacts := (tbFacts d)(i \<mapsto> f)\<rparr>"

definition computeContent :: "StoreCfg \<Rightarrow> string \<Rightarrow> string \<Rightarrow> ContentPolicy \<Rightarrow> ContentResult" where
  "computeContent cfg diff declared pol =
     (let br = (if declared \<noteq> [] then scDecodeBlast cfg declared else \<lparr>brPaths = [], brScope = []\<rparr>)
      in CheckWithPolicy \<lparr>pDiff = diff, pBaseSHA = [], pDeclared = br, pAppliesClean = False,
           pAppliesCleanKnown = False\<rparr> pol)"

definition contentResultTx :: "StoreCfg \<Rightarrow> Row \<Rightarrow> ContentResult" where
  "contentResultTx cfg r =
     (let pol = scContentPolicy cfg;
          pol' = (if scAllowOwnSourceRepos cfg (jRepo (rwJob r))
                  then pol\<lparr>cpAllowOwnSource := True\<rparr> else pol)
      in computeContent cfg (rwPatchDiff r) (rwDeclaredBlastRadius r) pol')"

definition persistContentResultTx :: "string \<Rightarrow> ContentResult \<Rightarrow> DB \<Rightarrow> DB" where
  "persistContentResultTx i c = update_row i (\<lambda>r. r\<lparr>rwContentResult := Some c\<rparr>)"

section \<open>CI of the live epoch\<close>

definition RecordEpochCI :: "string \<Rightarrow> int \<Rightarrow> string \<Rightarrow> DB \<Rightarrow> DB" where
  "RecordEpochCI i epoch st d = d\<lparr>tbEpochCI := AList.update (i, epoch) st (tbEpochCI d)\<rparr>"

definition LiveEpochCIGreen :: "DB \<Rightarrow> string \<Rightarrow> store_error + bool" where
  "LiveEpochCIGreen d i = (case find_row d i of
     None \<Rightarrow> Inl ErrNoRows
   | Some r \<Rightarrow> (case map_of (tbEpochCI d) (i, jBuildEpoch (rwJob r)) of
        None \<Rightarrow> Inr False
      | Some st \<Rightarrow> Inr (st = ''success'')))"

definition epochGatedCITx :: "DB \<Rightarrow> Row \<Rightarrow> bool \<times> bool" where
  "epochGatedCITx d r =
     (if filter (\<lambda>x. fst (fst x) = row_id r) (tbEpochCI d) = [] then (False, False)
      else case map_of (tbEpochCI d) (row_id r, jBuildEpoch (rwJob r)) of
        None \<Rightarrow> (True, False)
      | Some st \<Rightarrow> (True, st = ''success''))"

section \<open>Events of the engine's transitions\<close>

text \<open>
  The loop \<open>for _, t := range dec.Transitions\<close> of the result handlers: one event
  per transition, with the next sequence number each.
\<close>

fun append_transitions ::
  "(Transition \<Rightarrow> int \<Rightarrow> Event) \<Rightarrow> Transition list \<Rightarrow> int \<Rightarrow> DB \<Rightarrow> store_error + (DB \<times> int)" where
  "append_transitions ev [] n d = Inr (d, n)"
| "append_transitions ev (t # ts) n d =
     and_then (appendEvent (ev t (n + 1)) d) (append_transitions ev ts (n + 1))"

definition final_state :: "State \<Rightarrow> Transition list \<Rightarrow> State" where
  "final_state s ts = (if ts = [] then s else tTo (last ts))"

end
