(* ===== verification/Store_Lease.thy ===== *)
theory Store_Lease
  imports Store_Tables
begin

text \<open>
  The transactions that move a job through its leases: seeding, the build
  claim, heartbeat, result, release and completion (\<open>store/queries.go\<close>), the
  liveness revoke (\<open>store/liveness.go\<close>), the operator's requeue and cancel
  (\<open>store/requeue.go\<close>) and the alarm (\<open>store/timers.go\<close>).  Each is the body of
  the transaction: its reads and guards, its events, its UPDATEs.
\<close>

section \<open>Seeding\<close>

record SeedParams =
  sdID :: string
  sdKind :: Kind
  sdFlow :: string
  sdStage :: string
  sdRole :: Role
  sdBaseSHA :: string
  sdPriority :: int
  sdBlockedBy :: "string list"
  sdRequiredCapabilities :: "string list"
  sdNow :: int
  sdCostCeilingMicroUSD :: "int64 option"
  sdFlowID :: string
  sdTaskText :: string
  sdSpecText :: string
  sdAcceptanceCriteria :: string
  sdRepo :: string
  sdIssueNumber :: "int option"

definition hasUnsatisfiedDeps :: "DB \<Rightarrow> string list \<Rightarrow> bool" where
  "hasUnsatisfiedDeps d deps =
     list_ex (\<lambda>dep. case find_row d dep of
                None \<Rightarrow> True
              | Some r \<Rightarrow> jState (rwJob r) \<noteq> StateDone) deps"

definition seed_row :: "SeedParams \<Rightarrow> State \<Rightarrow> Row" where
  "seed_row p state =
     \<lparr>rwJob = zero_job\<lparr>jID := sdID p, jKind := sdKind p, jFlow := sdFlow p, jStage := sdStage p,
        jState := state, jRole := sdRole p, jBaseSHA := sdBaseSHA p, jPriority := sdPriority p,
        jBlockedBy := sdBlockedBy p, jRequiredCapabilities := sdRequiredCapabilities p,
        jEnqueuedAt := sdNow p, jMaxAttempts := 5, jMaxBounces := 4,
        jCostCeilingMicroUSD := sdCostCeilingMicroUSD p,
        jFlowID := (if sdFlowID p = [] then sdID p else sdFlowID p),
        jTaskText := sdTaskText p, jSpecText := sdSpecText p,
        jAcceptanceCriteria := sdAcceptanceCriteria p, jRepo := sdRepo p,
        jIssueNum := (case sdIssueNumber p of None \<Rightarrow> 0 | Some n \<Rightarrow> n)\<rparr>,
      rwBoundIdentity = None, rwBoundModelFamily = None, rwBuilderIdentity = None,
      rwBuilderModelFamily = None, rwEngWorkerJob = None, rwCodeReviewerJob = None,
      rwBoundAccount = [], rwLeaseDeadline = None, rwLeaseHbDue = None, rwPhaseDeadlineAt = None,
      rwLastHeartbeatAt = None, rwAgentHealth = HealthOther [], rwRung1Class = Rung1Other [],
      rwRung2LastVerdict = Rung2Abstain, rwRung2WindowHead = [], rwRung2WindowStartedAt = None,
      rwCIRunning = False, rwHeadRef = None, rwPatchDiff = [], rwDeclaredBlastRadius = [],
      rwReservationPaths = None, rwReservationWide = False, rwConflictBaseSHA = [],
      rwStackedOnPR = 0, rwAdopted = False, rwOptedIn = False,
      rwAuthorLens = [], rwReviewerLens = [],
      rwContentResult = None\<rparr>"

definition insert_row :: "Row \<Rightarrow> DB \<Rightarrow> store_error + DB" where
  "insert_row r d =
     (if find_row d (row_id r) \<noteq> None \<or> jKind (rwJob r) = KindEmpty
        \<or> jFlow (rwJob r) \<notin> {''spec'', ''build'', ''test''}
      then Inl ErrConstraint
      else Inr (d\<lparr>tbJobs := tbJobs d @ [r]\<rparr>))"

definition seed_event :: "SeedParams \<Rightarrow> State \<Rightarrow> Event" where
  "seed_event p state =
     \<lparr>eJobID = sdID p, eJobSeq = 1, eKind = KindJobCreated, eFromState = StateEmpty,
      eToState = state, eLeaseEpoch = 0, eActor = ''system'', eCreatedAt = sdNow p,
      ePayload = zero_payload\<lparr>pKind := sdKind p, pFlow := sdFlow p, pStage := sdStage p,
        pRole := sdRole p, pBaseSHA := sdBaseSHA p, pPriority := sdPriority p,
        pBlockedBy := sdBlockedBy p, pRequiredCapabilities := sdRequiredCapabilities p,
        pTaskText := sdTaskText p, pSpecText := sdSpecText p,
        pAcceptanceCriteria := sdAcceptanceCriteria p\<rparr>\<rparr>"

definition seedJobTx :: "StoreCfg \<Rightarrow> DB \<Rightarrow> SeedParams \<Rightarrow> store_error + DB" where
  "seedJobTx cfg d p =
     (let state = (if hasUnsatisfiedDeps d (sdBlockedBy p) then StateBlocked else StateReady) in
      and_then (insert_row (seed_row p state) d) (\<lambda>d1.
      and_then (appendEvent (seed_event p state) d1) (\<lambda>d2.
      let d3 = setJobSeq (sdID p) 1 d2 in
      if state = StateReady then armNoEligibleTimerTx cfg (sdID p) 0 (sdNow p) d3 else Inr d3)))"

section \<open>The build claim\<close>

record ClaimParams =
  cpJobID :: string
  cpLeaseID :: string
  cpIdentity :: string
  cpModelFamily :: string
  cpModel :: string
  cpWorkerID :: string
  cpLens :: string
  cpRole :: Role
  cpAttested :: "string list"
  cpTTL :: int
  cpNow :: int

text \<open>The two \<open>NOT EXISTS\<close> clauses of the claim's UPDATE.\<close>

definition sibling_conflict :: "DB \<Rightarrow> ClaimParams \<Rightarrow> Row \<Rightarrow> bool" where
  "sibling_conflict d p r =
     (list_ex (\<lambda>sib. rwEngWorkerJob r = Some (row_id sib) \<and> cpRole p = RoleCodeReviewer
         \<and> (rwBoundIdentity sib = Some (cpIdentity p)
            \<or> rwBoundModelFamily sib = Some (cpModelFamily p))) (tbJobs d)
      \<or> list_ex (\<lambda>sib. rwCodeReviewerJob r = Some (row_id sib) \<and> cpRole p = RoleMerger
         \<and> rwBoundIdentity sib = Some (cpIdentity p)) (tbJobs d))"

definition claim_row :: "ClaimParams \<Rightarrow> string \<Rightarrow> Row \<Rightarrow> Row" where
  "claim_row p acct r =
     r\<lparr>rwJob := (rwJob r)\<lparr>jState := StateLeased, jBoundLens := cpLens p,
         jLeaseEpoch := jLeaseEpoch (rwJob r) + 1, jLeaseID := cpLeaseID p\<rparr>,
       rwBoundIdentity := Some (cpIdentity p), rwBoundModelFamily := Some (cpModelFamily p),
       rwBoundAccount := acct, rwLeaseDeadline := Some (cpNow p + cpTTL p),
       rwLeaseHbDue := Some (cpNow p + cpTTL p)\<rparr>"

definition claim_ledger_event :: "ClaimParams \<Rightarrow> EventKind \<Rightarrow> State \<Rightarrow> State \<Rightarrow> int \<Rightarrow> int \<Rightarrow> Event" where
  "claim_ledger_event p k from to epoch seq =
     \<lparr>eJobID = cpJobID p, eJobSeq = seq, eKind = k, eFromState = from, eToState = to,
      eLeaseEpoch = epoch, eActor = cpIdentity p, eCreatedAt = cpNow p,
      ePayload = zero_payload\<lparr>pLeaseID := cpLeaseID p, pBoundIdentity := cpIdentity p,
        pBoundModelFamily := cpModelFamily p, pBoundModel := cpModel p\<rparr>\<rparr>"

definition claim_lease_row :: "ClaimParams \<Rightarrow> int \<Rightarrow> LeaseRow" where
  "claim_lease_row p epoch =
     \<lparr>lrLeaseID = cpLeaseID p, lrJobID = cpJobID p, lrEpoch = epoch, lrIdentity = cpIdentity p,
      lrModelFamily = cpModelFamily p, lrTTLSeconds = ttl_seconds (cpTTL p),
      lrDeadline = cpNow p + cpTTL p, lrEnded = None\<rparr>"

text \<open>The result is the lease's epoch; the other fields of the lease are the parameters.\<close>

definition ClaimReadyJob :: "DB \<Rightarrow> ClaimParams \<Rightarrow> store_error + (DB \<times> int)" where
  "ClaimReadyJob d p = (case find_row d (cpJobID p) of
     None \<Rightarrow> Inl ErrLostRace
   | Some r \<Rightarrow>
       if jState (rwJob r) \<noteq> StateReady then Inl ErrLostRace
       else if \<not> CapabilitiesSatisfy (cpAttested p) (jRequiredCapabilities (rwJob r))
       then Inl ErrLostRace
       else case modelSlotGateTx d (cpWorkerID p) (cpIdentity p) (cpModelFamily p) of
         Some e \<Rightarrow> Inl ErrLostRace
       | None \<Rightarrow> (case selectAccountTx d (cpModelFamily p) of
           Inl e \<Rightarrow> Inl ErrLostRace
         | Inr acct \<Rightarrow>
             if sibling_conflict d p r then Inl ErrLostRace
             else let newEpoch = jLeaseEpoch (rwJob r) + 1; nextSeq = jJobSeq (rwJob r) + 1;
                      d1 = update_row (cpJobID p) (claim_row p acct) d in
               and_then (appendEvent (claim_ledger_event p KindLeaseClaimed StateReady StateLeased
                           newEpoch nextSeq) d1) (\<lambda>d2.
               and_then (insert_lease (claim_lease_row p newEpoch)
                           (setJobSeq (cpJobID p) nextSeq d2)) (\<lambda>d3.
               Inr (d3, newEpoch)))))"

section \<open>The liveness revoke\<close>

definition fenced_event ::
  "string \<Rightarrow> int \<Rightarrow> EventKind \<Rightarrow> State \<Rightarrow> State \<Rightarrow> int \<Rightarrow> string \<Rightarrow> int \<Rightarrow> Payload \<Rightarrow> Event" where
  "fenced_event i seq k from to epoch actor now pay =
     \<lparr>eJobID = i, eJobSeq = seq, eKind = k, eFromState = from, eToState = to,
      eLeaseEpoch = epoch, eActor = actor, eCreatedAt = now, ePayload = pay\<rparr>"

definition revoke_payload :: "Transition \<Rightarrow> string \<Rightarrow> Payload" where
  "revoke_payload t escReason =
     (let p = zero_payload\<lparr>pAttemptsDelta := tAttemptsDelta t,
                pStallRevocationsDelta := tStallRevocationsDelta t,
                pRevokeReason := tRevokeReason t, pEscalationReason := escReason\<rparr>
      in if tTo t = StateReady then p\<lparr>pRole := RoleEngWorker\<rparr> else p)"

definition revoke_row :: "Transition \<Rightarrow> int \<Rightarrow> int \<Rightarrow> string \<Rightarrow> Row \<Rightarrow> Row" where
  "revoke_row t newEpoch now escReason r =
     (let j1 = (rwJob r)\<lparr>jLeaseEpoch := newEpoch,
                 jAttempts := jAttempts (rwJob r) + tAttemptsDelta t,
                 jStallRevocations := jStallRevocations (rwJob r) + tStallRevocationsDelta t,
                 jState := tTo t, jLeaseID := []\<rparr>;
          j2 = (if tTo t = StateReady
                then j1\<lparr>jRole := RoleEngWorker, jRequiredCapabilities := [''role:eng_worker''],
                        jEnqueuedAt := now\<rparr> else j1);
          j3 = (if escReason \<noteq> [] then j2\<lparr>jEscalationReason := escReason\<rparr> else j2)
      in r\<lparr>rwJob := j3, rwBoundIdentity := None, rwBoundModelFamily := None, rwLeaseHbDue := None,
           rwLeaseDeadline := None, rwPhaseDeadlineAt := None, rwAgentHealth := HealthOther [],
           rwRung1Class := Rung1Other [], rwRung2LastVerdict := Rung2Abstain,
           rwRung2WindowHead := [], rwRung2WindowStartedAt := None, rwCIRunning := False\<rparr>)"

definition end_reason :: "string \<Rightarrow> string" where
  "end_reason r = (if r = ''agent_exited'' then ''expired''
                   else if r = ''awaiting_input'' then ''released'' else ''revoked'')"

definition applyRevokeTx ::
  "Job \<Rightarrow> int \<Rightarrow> Transition \<Rightarrow> int \<Rightarrow> int \<Rightarrow> string \<Rightarrow> DB \<Rightarrow> store_error + DB" where
  "applyRevokeTx j seq t newEpoch now escReason d =
     and_then (appendEvent (fenced_event (jID j) (seq + 1) (tKind t) (tFrom t) (tTo t) newEpoch
                 ''system'' now (revoke_payload t escReason)) d) (\<lambda>d1.
     Inr (fire_timers (\<lambda>x. tmJobID x = jID j \<and> tmExpectedEpoch x = jLeaseEpoch j \<and> \<not> tmFired x)
       (close_lease (jID j) (jLeaseEpoch j) (end_reason (tRevokeReason t))
         (setJobSeq (jID j) (seq + 1)
           (update_row (jID j) (revoke_row t newEpoch now escReason) d1)))))"

definition new_epoch :: "Job \<Rightarrow> Transition \<Rightarrow> int" where
  "new_epoch j t = (if tBumpEpoch t then jLeaseEpoch j + 1 else jLeaseEpoch j)"

text \<open>The engine snapshot the fenced handlers build: only \<open>Job\<close>, \<open>Now\<close> and \<open>Epoch\<close> are set.\<close>

definition zero_spec :: SpecState where
  "zero_spec = \<lparr>ssCurrentHash = [], ssVersion = 0, ssAuthorLens = [], ssReviewerLens = []\<rparr>"

definition bare_state :: "Job \<Rightarrow> int \<Rightarrow> EngineState" where
  "bare_state j now =
     \<lparr>esJob = j, esNow = now, esEpoch = jLeaseEpoch j, esGitHub = zero_facts,
      esPolicy = \<lparr>AllowSelfMerge = False, RequiredReviewers = 0\<rparr>, esSpec = zero_spec,
      esContent = None\<rparr>"

record LivenessConfig =
  lcPhaseBudget :: int
  lcAbsoluteCap :: int
  lcGovernorCeiling :: int
  lcHeartbeatReapAfter :: int

definition phase_timer :: "string \<Rightarrow> int \<Rightarrow> int \<Rightarrow> TimerRow" where
  "phase_timer i epoch due =
     \<lparr>tmID = i @ ''-phase-e'' @ dec_int epoch, tmJobID = i, tmKind = ''phase_deadline_check'',
      tmDueAt = due, tmExpectedEpoch = epoch, tmFired = False\<rparr>"

definition cap_timer :: "string \<Rightarrow> int \<Rightarrow> int \<Rightarrow> TimerRow" where
  "cap_timer i epoch due =
     \<lparr>tmID = i @ ''-cap-e'' @ dec_int epoch, tmJobID = i, tmKind = ''lease_deadline_check'',
      tmDueAt = due, tmExpectedEpoch = epoch, tmFired = False\<rparr>"

definition ArmLeaseLivenessTimers :: "DB \<Rightarrow> string \<Rightarrow> int \<Rightarrow> int \<Rightarrow> LivenessConfig \<Rightarrow> DB" where
  "ArmLeaseLivenessTimers d i epoch now cfg =
     (let phaseAt = now + lcPhaseBudget cfg; capAt = now + lcAbsoluteCap cfg;
          d1 = update_row i (\<lambda>r. r\<lparr>rwPhaseDeadlineAt := Some phaseAt, rwLeaseDeadline := Some capAt,
                 rwLastHeartbeatAt := Some now, rwRung2LastVerdict := Rung2Abstain,
                 rwRung2WindowHead := [], rwRung2WindowStartedAt := None, rwCIRunning := False\<rparr>) d;
          d2 = (if lcPhaseBudget cfg > 0 then armTimerTx (phase_timer i epoch phaseAt) d1 else d1)
      in if lcAbsoluteCap cfg > 0 then armTimerTx (cap_timer i epoch capAt) d2 else d2)"

text \<open>The last activity: the grant time (deadline less cap) or the last heartbeat, if later.\<close>

definition last_seen :: "Row \<Rightarrow> LivenessConfig \<Rightarrow> int" where
  "last_seen r cfg =
     (let grant = (case rwLeaseDeadline r of
                     Some t \<Rightarrow> if lcAbsoluteCap cfg > 0 then t - lcAbsoluteCap cfg else 0
                   | None \<Rightarrow> 0)
      in case rwLastHeartbeatAt r of
           Some t \<Rightarrow> if t > grant then t else grant
         | None \<Rightarrow> grant)"

definition row_rungs :: "Row \<Rightarrow> int \<Rightarrow> LivenessConfig \<Rightarrow> bool \<Rightarrow> RungSet" where
  "row_rungs r now cfg breakerTripped =
     \<lparr>rsHealth = rwAgentHealth r, rsRung1 = rwRung1Class r, rsRung2 = rwRung2LastVerdict r,
      rsRung3 = \<lparr>SoftCrossed = (case rwPhaseDeadlineAt r of None \<Rightarrow> False | Some t \<Rightarrow> t \<le> now),
        AbsoluteCap = (case rwLeaseDeadline r of None \<Rightarrow> False | Some t \<Rightarrow> t \<le> now),
        HeartbeatStale = (lcHeartbeatReapAfter cfg > 0 \<and> last_seen r cfg \<noteq> 0
          \<and> time_Sub now (last_seen r cfg) > lcHeartbeatReapAfter cfg)\<rparr>,
      rsCircuitBreakerTripped = breakerTripped\<rparr>"

record LivenessResult =
  lsKilled :: bool
  lsToState :: State
  lsReason :: string
  lsEscalated :: bool
  lsNewEpoch :: int

definition survived :: LivenessResult where
  "survived = \<lparr>lsKilled = False, lsToState = StateEmpty, lsReason = [], lsEscalated = False,
     lsNewEpoch = 0\<rparr>"

definition EvaluateLiveness ::
  "DB \<Rightarrow> string \<Rightarrow> int \<Rightarrow> LivenessConfig \<Rightarrow> bool \<Rightarrow> store_error + (DB \<times> LivenessResult)" where
  "EvaluateLiveness d i now cfg breakerTripped =
     and_then (loadJobTx d i) (\<lambda>(r, j, seq).
     if \<not> LivenessEvaluable (jState j) then Inr (d, survived)
     else let governorReached = (lcGovernorCeiling cfg > 0
                \<and> jStallRevocations j + 1 \<ge> lcGovernorCeiling cfg);
              attemptsExhausted = (jAttempts j + 1 \<ge> jMaxAttempts j);
              dec = Decide (bare_state j now)
                (LivenessVerdict \<lparr>lvRungs = row_rungs r now cfg breakerTripped,
                   lvGovernorCeilingReached = governorReached,
                   lvAttemptsExhausted = attemptsExhausted\<rparr>)
       in case dTransitions dec of
            [] \<Rightarrow> Inr (d, survived)
          | t # _ \<Rightarrow>
              (let escReason = (if tTo t = StateNeedsHuman
                     then (if attemptsExhausted \<and> \<not> governorReached
                           then escalation_str EscalationAttempts
                           else escalation_str EscalationStall) else [])
               in and_then (applyRevokeTx j seq t (new_epoch j t) now escReason d) (\<lambda>d1.
                  Inr (d1, \<lparr>lsKilled = True, lsToState = tTo t, lsReason = tRevokeReason t,
                    lsEscalated = (tTo t = StateNeedsHuman), lsNewEpoch = new_epoch j t\<rparr>))))"

text \<open>A stale deadline timer is marked fired and does nothing else.\<close>

definition FireLeaseDeadline ::
  "DB \<Rightarrow> TimerRow \<Rightarrow> int \<Rightarrow> LivenessConfig \<Rightarrow> bool \<Rightarrow> store_error + (DB \<times> LivenessResult)" where
  "FireLeaseDeadline d t now cfg breakerTripped = (case find_row d (tmJobID t) of
     None \<Rightarrow> Inr (markTimerFired (tmID t) d, survived)
   | Some r \<Rightarrow>
       if jLeaseEpoch (rwJob r) \<noteq> tmExpectedEpoch t \<or> \<not> LivenessEvaluable (jState (rwJob r))
       then Inr (markTimerFired (tmID t) d, survived)
       else and_then (EvaluateLiveness d (tmJobID t) now cfg breakerTripped)
              (\<lambda>(d1, res). Inr (markTimerFired (tmID t) d1, res)))"

section \<open>Heartbeat\<close>

record HeartbeatParams =
  hpJobID :: string
  hpEpoch :: int
  hpNow :: int
  hpHealth :: AgentHealth
  hpRung1 :: Rung1Class
  hpAwaitingInput :: bool
  hpAgentExited :: bool

definition beat_row :: "HeartbeatParams \<Rightarrow> Row \<Rightarrow> Row" where
  "beat_row p r = r\<lparr>rwLeaseHbDue := Some (hpNow p), rwLastHeartbeatAt := Some (hpNow p),
     rwAgentHealth := hpHealth p, rwRung1Class := hpRung1 p\<rparr>"

definition touch_worker :: "string \<Rightarrow> int \<Rightarrow> DB \<Rightarrow> DB" where
  "touch_worker identity now d =
     (if identity = [] then d
      else d\<lparr>tbWorkers := map (\<lambda>w. if wkIdentity w = identity
               then w\<lparr>wkLastSeenAt := now\<rparr> else w) (tbWorkers d)\<rparr>)"

definition Heartbeat_tx :: "DB \<Rightarrow> HeartbeatParams \<Rightarrow> store_error + (DB \<times> Directive option)" where
  "Heartbeat_tx d p =
     and_then (loadJobTx d (hpJobID p)) (\<lambda>(r, j, seq).
     let dec = Decide (bare_state j (hpNow p))
           (Heartbeat \<lparr>hbEpoch = hpEpoch p, hbHealth = hpHealth p,
              hbAwaitingInput = hpAwaitingInput p, hbAgentExited = hpAgentExited p\<rparr>)
     in if dReject dec \<noteq> None then Inl ErrStaleEpoch
        else case dTransitions dec of
          t # _ \<Rightarrow> and_then (applyRevokeTx j seq t (new_epoch j t) (hpNow p) [] d)
                    (\<lambda>d1. Inr (d1, dDirective dec))
        | [] \<Rightarrow>
            (let d1 = touch_worker (jBoundIdentity j) (hpNow p)
                        (update_row (hpJobID p) (beat_row p) d) in
             and_then (appendEvent (fenced_event (hpJobID p) (seq + 1) KindHeartbeat (jState j)
                         (jState j) (jLeaseEpoch j) (jBoundIdentity j) (hpNow p) zero_payload) d1)
               (\<lambda>d2. Inr (setJobSeq (hpJobID p) (seq + 1) d2, dDirective dec))))"

section \<open>Result\<close>

record ResultParams =
  rsJobID :: string
  rsEpoch :: int
  rsIdempotencyKey :: string
  rsNow :: int
  rsPushedRef :: string
  rsPushedSHA :: string
  rsPatchDiff :: string
  rsDeclaredBlastRadius :: string

definition cached_response :: "DB \<Rightarrow> string \<Rightarrow> string \<Rightarrow> Response option" where
  "cached_response d i key =
     (if key = [] then None else map_of (tbIdempotency d) (i, key))"

definition store_response :: "string \<Rightarrow> string \<Rightarrow> Response \<Rightarrow> DB \<Rightarrow> DB" where
  "store_response i key resp d =
     (if key = [] then d else d\<lparr>tbIdempotency := tbIdempotency d @ [((i, key), resp)]\<rparr>)"

definition result_event :: "ResultParams \<Rightarrow> Job \<Rightarrow> Transition \<Rightarrow> int \<Rightarrow> Event" where
  "result_event p j t n =
     fenced_event (rsJobID p) n (tKind t) (tFrom t) (tTo t) (jLeaseEpoch j) (jBoundIdentity j)
       (rsNow p) (if tKind t = KindResultAccepted then zero_payload\<lparr>pHeadSHA := rsPushedSHA p\<rparr>
                  else zero_payload)"

definition opt_or :: "'a option \<Rightarrow> 'a option \<Rightarrow> 'a option" where
  "opt_or a b = (case a of None \<Rightarrow> b | Some x \<Rightarrow> Some x)"

definition result_row :: "ResultParams \<Rightarrow> State \<Rightarrow> Row \<Rightarrow> Row" where
  "result_row p final r =
     r\<lparr>rwJob := (rwJob r)\<lparr>jState := final, jRole := RoleEngWorker,
         jRequiredCapabilities := [''role:code_reviewer''], jHeadSHA := rsPushedSHA p,
         jLeaseID := []\<rparr>,
       rwBuilderIdentity := opt_or (rwBuilderIdentity r) (rwBoundIdentity r),
       rwBuilderModelFamily := opt_or (rwBuilderModelFamily r) (rwBoundModelFamily r),
       rwHeadRef := (if rsPushedRef p \<noteq> [] then Some (rsPushedRef p) else rwHeadRef r),
       rwPatchDiff := rsPatchDiff p, rwDeclaredBlastRadius := rsDeclaredBlastRadius p,
       rwBoundIdentity := None, rwBoundModelFamily := None, rwLeaseHbDue := None,
       rwEngWorkerJob := opt_or (rwEngWorkerJob r) (Some (row_id r))\<rparr>"

definition end_lease_row :: "State \<Rightarrow> Row \<Rightarrow> Row" where
  "end_lease_row final r =
     r\<lparr>rwJob := (rwJob r)\<lparr>jState := final, jLeaseID := []\<rparr>, rwBoundIdentity := None,
       rwBoundModelFamily := None, rwLeaseHbDue := None\<rparr>"

definition clear_ci :: "string \<Rightarrow> DB \<Rightarrow> DB" where
  "clear_ci i d = d\<lparr>tbFacts := (tbFacts d)(i := map_option (\<lambda>f. f\<lparr>dbCIGreen := False\<rparr>) (tbFacts d i))\<rparr>"

definition Result :: "StoreCfg \<Rightarrow> DB \<Rightarrow> ResultParams \<Rightarrow> store_error + (DB \<times> Response)" where
  "Result cfg d p = (case cached_response d (rsJobID p) (rsIdempotencyKey p) of
     Some c \<Rightarrow> Inr (d, as_result c)
   | None \<Rightarrow>
     and_then (loadJobTx d (rsJobID p)) (\<lambda>(r, j, seq).
     let dec = Decide (bare_state j (rsNow p)) (WorkResult (rsEpoch p)) in
     if dReject dec \<noteq> None then Inl ErrStaleEpoch
     else and_then (append_transitions (result_event p j) (dTransitions dec) seq d) (\<lambda>(d1, nextSeq).
       let final = final_state (jState j) (dTransitions dec) in
       and_then
         (if final = StateReviewPending
          then armNoEligibleTimerTx cfg (rsJobID p) (jLeaseEpoch j) (rsNow p)
                 (clear_ci (rsJobID p) (update_row (rsJobID p) (result_row p final) d1))
          else Inr (update_row (rsJobID p) (end_lease_row final) d1)) (\<lambda>d2.
       let resp = answer (state_str final) [] False in
       Inr (store_response (rsJobID p) (rsIdempotencyKey p) resp
              (close_lease (rsJobID p) (jLeaseEpoch j) ''completed''
                (setJobSeq (rsJobID p) nextSeq d2)), resp)))))"

section \<open>Release\<close>

record ReleaseParams =
  rlJobID :: string
  rlEpoch :: int
  rlNow :: int
  rlNoPenalty :: bool
  rlFailed :: bool

definition release_target :: "State \<Rightarrow> State" where
  "release_target s = (case Next s TriggerReleased of
     (s', None) \<Rightarrow> s'
   | (s', Some e) \<Rightarrow> StateReady)"

definition attempts_delta :: "ReleaseParams \<Rightarrow> State \<Rightarrow> int" where
  "attempts_delta p to =
     (if rlFailed p \<or> (\<not> rlNoPenalty p \<and> (to = StateReady \<or> to = StateResolvingConflict))
      then 1 else 0)"

definition release_row :: "State \<Rightarrow> int \<Rightarrow> Row \<Rightarrow> Row" where
  "release_row to delta r =
     (let r1 = (end_lease_row to r);
          r2 = r1\<lparr>rwJob := (rwJob r1)\<lparr>jAttempts := jAttempts (rwJob r1) + delta\<rparr>\<rparr>
      in if to = StateReady
         then r2\<lparr>rwPatchDiff := [], rwDeclaredBlastRadius := [], rwReservationPaths := None,
                 rwReservationWide := False\<rparr>
         else r2)"

definition escalate_row :: "string \<Rightarrow> Row \<Rightarrow> Row" where
  "escalate_row reason r =
     r\<lparr>rwJob := (rwJob r)\<lparr>jState := StateNeedsHuman, jEscalationReason := reason\<rparr>\<rparr>"

definition Release_tx :: "DB \<Rightarrow> ReleaseParams \<Rightarrow> store_error + DB" where
  "Release_tx d p =
     and_then (loadJobTx d (rlJobID p)) (\<lambda>(r, j, seq).
     if dReject (Decide (bare_state j (rlNow p)) (Release (rlEpoch p))) \<noteq> None
     then Inl ErrStaleEpoch
     else let toState = release_target (jState j); delta = attempts_delta p toState in
       and_then (appendEvent (fenced_event (rlJobID p) (seq + 1) KindLeaseReleased (jState j) toState
                   (jLeaseEpoch j) (jBoundIdentity j) (rlNow p)
                   (zero_payload\<lparr>pAttemptsDelta := delta\<rparr>)) d) (\<lambda>d1.
       let d2 = close_lease (rlJobID p) (jLeaseEpoch j) ''released''
                  (update_row (rlJobID p) (release_row toState delta) d1) in
       if delta = 1 \<and> jMaxAttempts j > 0 \<and> jAttempts j + 1 \<ge> jMaxAttempts j
       then and_then (appendEvent (fenced_event (rlJobID p) (seq + 2) KindStateChanged toState
                        StateNeedsHuman (jLeaseEpoch j) ''attempts-exhausted'' (rlNow p)
                        (zero_payload\<lparr>pEscalationReason := escalation_str EscalationAttempts\<rparr>)) d2)
              (\<lambda>d3. Inr (setJobSeq (rlJobID p) (seq + 2)
                 (update_row (rlJobID p) (escalate_row (escalation_str EscalationAttempts)) d3)))
       else Inr (setJobSeq (rlJobID p) (seq + 1) d2)))"

section \<open>Completion\<close>

definition set_state_row :: "State \<Rightarrow> Row \<Rightarrow> Row" where
  "set_state_row s r = r\<lparr>rwJob := (rwJob r)\<lparr>jState := s\<rparr>\<rparr>"

definition unblock_row :: "int \<Rightarrow> Row \<Rightarrow> Row" where
  "unblock_row now r = r\<lparr>rwJob := (rwJob r)\<lparr>jState := StateReady, jEnqueuedAt := now\<rparr>\<rparr>"

text \<open>The loop over the blocked rows read before it.\<close>

fun clear_dependents ::
  "StoreCfg \<Rightarrow> string \<Rightarrow> int \<Rightarrow> Row list \<Rightarrow> DB \<Rightarrow> store_error + (DB \<times> string list)" where
  "clear_dependents cfg i now [] d = Inr (d, [])"
| "clear_dependents cfg i now (x # xs) d =
     (if i \<notin> set (jBlockedBy (rwJob x)) then clear_dependents cfg i now xs d
      else if hasUnsatisfiedDeps d (jBlockedBy (rwJob x)) then clear_dependents cfg i now xs d
      else let dseq = jJobSeq (rwJob x) + 1 in
        and_then (appendEvent (fenced_event (row_id x) dseq KindDepsCleared StateBlocked StateReady 0
                    ''system'' now zero_payload) d) (\<lambda>d1.
        and_then (armNoEligibleTimerTx cfg (row_id x) 0 now
                    (setJobSeq (row_id x) dseq (update_row (row_id x) (unblock_row now) d1))) (\<lambda>d2.
        and_then (clear_dependents cfg i now xs d2) (\<lambda>(d3, ids). Inr (d3, row_id x # ids)))))"

definition CompleteJob :: "StoreCfg \<Rightarrow> DB \<Rightarrow> string \<Rightarrow> int \<Rightarrow> store_error + (DB \<times> string list)" where
  "CompleteJob cfg d i now =
     and_then (loadJobTx d i) (\<lambda>(r, j, seq).
     case Next (jState j) TriggerCompleted of
       (to, Some e) \<Rightarrow> Inl ErrTransition
     | (to, None) \<Rightarrow>
         and_then (appendEvent (fenced_event i (seq + 1) KindJobCompleted (jState j) to 0 ''system''
                     now zero_payload) d) (\<lambda>d1.
         let d2 = setJobSeq i (seq + 1) (update_row i (set_state_row to) d1) in
         clear_dependents cfg i now
           (filter (\<lambda>x. jState (rwJob x) = StateBlocked) (tbJobs d2)) d2))"

section \<open>Requeue, cancel, alarm\<close>

definition requeue_row :: "State \<Rightarrow> Role \<Rightarrow> string \<Rightarrow> string \<Rightarrow> int \<Rightarrow> Row \<Rightarrow> Row" where
  "requeue_row target role stage tag now r =
     r\<lparr>rwJob := (rwJob r)\<lparr>jState := target, jRole := role, jStage := stage,
         jRequiredCapabilities := [tag], jHeadSHA := [], jVerdict := None, jAttempts := 0,
         jBounces := 0, jStallRevocations := 0, jOverBudget := False, jEscalationReason := [],
         jLeaseEpoch := jLeaseEpoch (rwJob r) + 1, jLeaseID := [], jEnqueuedAt := now\<rparr>,
       rwPatchDiff := [], rwDeclaredBlastRadius := [], rwReservationPaths := None,
       rwReservationWide := False, rwBoundIdentity := None, rwBoundModelFamily := None,
       rwLeaseHbDue := None, rwLeaseDeadline := None\<rparr>"

definition RequeueJob :: "DB \<Rightarrow> string \<Rightarrow> bool \<Rightarrow> int \<Rightarrow> store_error + (DB \<times> State)" where
  "RequeueJob d i force now = (case find_row d i of
     None \<Rightarrow> Inl ErrJobNotFound
   | Some r \<Rightarrow>
     (let j = scanJob r; seq = jJobSeq j in
      if \<not> force \<and> HasActiveLease (jState j) then Inl ErrJobActivelyLeased
      else let (target, role, stage, tag) =
             (if jKind j = KindSpec
              then (StateSpecAuthoring, RoleSpecAuthor, ''spec'', ''role:spec_author'')
              else (StateReady, RoleEngWorker, ''build'', ''role:eng_worker'')) in
        and_then (appendEvent (fenced_event i (seq + 1) KindStateChanged (jState j) target
                    (jLeaseEpoch j + 1) ''operator'' now (zero_payload\<lparr>pResetCounters := True\<rparr>)) d)
          (\<lambda>d1. Inr (setJobSeq i (seq + 1) (close_leases i ''requeued''
             (update_row i (requeue_row target role stage tag now) d1)), target))))"

definition cancel_row :: "Row \<Rightarrow> Row" where
  "cancel_row r =
     r\<lparr>rwJob := (rwJob r)\<lparr>jState := StateCancelled, jLeaseEpoch := jLeaseEpoch (rwJob r) + 1,
         jLeaseID := []\<rparr>,
       rwBoundIdentity := None, rwBoundModelFamily := None, rwLeaseHbDue := None,
       rwLeaseDeadline := None\<rparr>"

definition CancelJob :: "DB \<Rightarrow> string \<Rightarrow> bool \<Rightarrow> int \<Rightarrow> store_error + (DB \<times> State)" where
  "CancelJob d i force now = (case find_row d i of
     None \<Rightarrow> Inl ErrJobNotFound
   | Some r \<Rightarrow>
     (let j = scanJob r; seq = jJobSeq j in
      if jState j = StateDone \<or> jState j = StateCancelled then Inr (d, jState j)
      else if \<not> force \<and> HasActiveLease (jState j) then Inl ErrJobActivelyLeased
      else and_then (appendEvent (fenced_event i (seq + 1) KindStateChanged (jState j) StateCancelled
                       (jLeaseEpoch j + 1) ''operator'' now zero_payload) d)
             (\<lambda>d1. Inr (setJobSeq i (seq + 1) (close_leases i ''cancelled''
                (update_row i cancel_row d1)), StateCancelled))))"

definition FireNoEligibleWorker :: "DB \<Rightarrow> TimerRow \<Rightarrow> int \<Rightarrow> store_error + (DB \<times> bool)" where
  "FireNoEligibleWorker d t now = (case find_row d (tmJobID t) of
     None \<Rightarrow> Inr (markTimerFired (tmID t) d, False)
   | Some r \<Rightarrow>
     (let s = jState (rwJob r); epoch = jLeaseEpoch (rwJob r); seq = jJobSeq (rwJob r) in
      if epoch \<noteq> tmExpectedEpoch t \<or> \<not> (s = StateReady \<or> s = StateReviewPending)
      then Inr (markTimerFired (tmID t) d, False)
      else let d1 = d\<lparr>tbAlarms := AList.update (tmJobID t, tmKind t) now (tbAlarms d)\<rparr> in
        and_then (appendEvent (fenced_event (tmJobID t) (seq + 1) KindNoEligibleWorker s s epoch
                    ''system'' now zero_payload) d1) (\<lambda>d2.
        Inr (markTimerFired (tmID t) (setJobSeq (tmJobID t) (seq + 1) d2), True))))"

end
