(* ===== verification/Store_Review.thy ===== *)
theory Store_Review
  imports Store_Lease
begin

text \<open>
  The review transactions of \<open>store/flow.go\<close>: the review claim with its
  anti-affinity clauses, the review result (the reviewer's untrusted claim, the
  gate over reconciled facts, the panel count) and the dispatch of a mergeable
  job to a merge arm.
\<close>

section \<open>The round of a job and its approvals\<close>

text \<open>
  \<open>SELECT COALESCE(MAX(job_seq),0) ... kind IN (...)\<close>: where the current round
  starts, for a list of boundary kinds.
\<close>

definition round_start :: "EventKind list \<Rightarrow> DB \<Rightarrow> string \<Rightarrow> int" where
  "round_start ks d i =
     (let seqs = map eJobSeq (filter (\<lambda>e. eJobID e = i \<and> eKind e \<in> set ks) (tbEvents d))
      in if seqs = [] then 0 else Max (set seqs))"

definition is_approval :: "Event \<Rightarrow> bool" where
  "is_approval e = (eKind e = KindVerdictClaim \<and> pVerdictClaim (ePayload e) = VerdictApproved)"

text \<open>The actors of the approvals of a job after a sequence number.\<close>

definition approvers_after :: "DB \<Rightarrow> string \<Rightarrow> int \<Rightarrow> string list" where
  "approvers_after d i n =
     map eActor (filter (\<lambda>e. eJobID e = i \<and> is_approval e \<and> eJobSeq e > n) (tbEvents d))"

definition claim_boundary :: "EventKind list" where
  "claim_boundary = [KindResultAccepted, KindRebased, KindConflictResolved]"

definition count_boundary :: "EventKind list" where
  "count_boundary = [KindResultAccepted, KindRebased, KindConflictResolved, KindAdoptRearmed]"

definition prior_approvals :: "DB \<Rightarrow> string \<Rightarrow> int" where
  "prior_approvals d i = int (card (set (approvers_after d i (round_start count_boundary d i))))"

definition prior_rejections :: "DB \<Rightarrow> string \<Rightarrow> string \<Rightarrow> int" where
  "prior_rejections d i identity =
     (if identity = [] then 0
      else int (length (filter (\<lambda>e. eJobID e = i \<and> eKind e = KindVerdictClaim
             \<and> eActor e = identity \<and> pVerdictClaim (ePayload e) = VerdictChangesRequested)
           (tbEvents d))))"

section \<open>The review claim\<close>

text \<open>The two \<open>NOT EXISTS\<close> clauses: the builder, and an approver of this round.\<close>

definition builder_conflict :: "DB \<Rightarrow> ClaimParams \<Rightarrow> Row \<Rightarrow> bool" where
  "builder_conflict d p r =
     list_ex (\<lambda>sib. row_id sib = (case rwEngWorkerJob r of Some e \<Rightarrow> e | None \<Rightarrow> row_id r)
        \<and> (rwBuilderIdentity sib = Some (cpIdentity p)
           \<or> rwBuilderModelFamily sib = Some (cpModelFamily p))) (tbJobs d)"

definition already_approved :: "DB \<Rightarrow> ClaimParams \<Rightarrow> bool" where
  "already_approved d p =
     (cpIdentity p \<in> set (approvers_after d (cpJobID p) (round_start claim_boundary d (cpJobID p))))"

definition review_claim_row :: "ClaimParams \<Rightarrow> Row \<Rightarrow> Row" where
  "review_claim_row p r =
     r\<lparr>rwJob := (rwJob r)\<lparr>jState := StateCodeReview, jRole := RoleCodeReviewer,
         jStage := ''review'', jBoundLens := cpLens p,
         jLeaseEpoch := jLeaseEpoch (rwJob r) + 1, jLeaseID := cpLeaseID p\<rparr>,
       rwBoundIdentity := Some (cpIdentity p), rwBoundModelFamily := Some (cpModelFamily p),
       rwLeaseDeadline := Some (cpNow p + cpTTL p), rwLeaseHbDue := Some (cpNow p + cpTTL p)\<rparr>"

text \<open>
  \<open>ClaimReviewParams\<close> has the fields of \<open>ClaimParams\<close> but \<open>WorkerID\<close> and \<open>Role\<close>, which
  this transaction does not read.
\<close>

definition ClaimReviewJob :: "DB \<Rightarrow> ClaimParams \<Rightarrow> store_error + (DB \<times> int)" where
  "ClaimReviewJob d p = (case find_row d (cpJobID p) of
     None \<Rightarrow> Inl ErrLostRace
   | Some r \<Rightarrow>
       if jState (rwJob r) \<noteq> StateReviewPending then Inl ErrLostRace
       else if \<not> CapabilitiesSatisfy (cpAttested p) (jRequiredCapabilities (rwJob r))
       then Inl ErrLostRace
       else case modelSlotGateTx d [] (cpIdentity p) (cpModelFamily p) of
         Some e \<Rightarrow> Inl e
       | None \<Rightarrow>
           if builder_conflict d p r \<or> already_approved d p then Inl ErrLostRace
           else let newEpoch = jLeaseEpoch (rwJob r) + 1; nextSeq = jJobSeq (rwJob r) + 1;
                    d1 = update_row (cpJobID p) (review_claim_row p) d in
             and_then (appendEvent (claim_ledger_event p KindReviewClaimed StateReviewPending
                         StateCodeReview newEpoch nextSeq) d1) (\<lambda>d2.
             and_then (insert_lease (claim_lease_row p newEpoch)
                         (setJobSeq (cpJobID p) nextSeq d2)) (\<lambda>d3.
             Inr (d3, newEpoch))))"

section \<open>The review result\<close>

record ReviewResultParams =
  rvJobID :: string
  rvEpoch :: int
  rvClaim :: VerdictValue
  rvDisposition :: Disposition
  rvIdempotencyKey :: string
  rvNotes :: string
  rvReviewerHead :: string
  rvNow :: int

text \<open>
  What the gate is given: green only if the job's known head and base are the
  reconciled ones, and only if the live epoch's CI is green where it is used.
\<close>

definition gate_facts :: "DB \<Rightarrow> Row \<Rightarrow> DomainBFacts \<Rightarrow> DomainBFacts" where
  "gate_facts d r facts =
     (let j = rwJob r;
          f1 = (if jHeadSHA j \<noteq> [] \<and> dbHeadSHA facts \<noteq> jHeadSHA j
                   \<or> jBaseSHA j \<noteq> [] \<and> dbBaseSHA facts \<noteq> jBaseSHA j
                then facts\<lparr>dbCIGreen := False\<rparr> else facts);
          (inUse, liveGreen) = epochGatedCITx d r
      in if inUse then f1\<lparr>dbCIGreen := dbCIGreen f1 \<and> liveGreen\<rparr> else f1)"

definition review_state :: "Job \<Rightarrow> int \<Rightarrow> DomainBFacts \<Rightarrow> Policy \<Rightarrow> ContentResult \<Rightarrow> EngineState" where
  "review_state j now facts pol chk =
     \<lparr>esJob = j, esNow = now, esEpoch = jLeaseEpoch j, esGitHub = facts, esPolicy = pol,
      esSpec = zero_spec, esContent = Some chk\<rparr>"

definition review_decision ::
  "StoreCfg \<Rightarrow> DB \<Rightarrow> Row \<Rightarrow> DomainBFacts \<Rightarrow> Policy \<Rightarrow> ReviewResultParams \<Rightarrow> Decision" where
  "review_decision cfg d r facts pol p =
     Decide (review_state (scanJob r) (rvNow p) (gate_facts d r facts) pol (contentResultTx cfg r))
       (ReviewClaim \<lparr>rcEpoch = rvEpoch p, rcValue = rvClaim p, rcDisposition = rvDisposition p,
          rcReviewerPriorRejections = prior_rejections d (rvJobID p) (jBoundIdentity (scanJob r)),
          rcPriorApprovals = prior_approvals d (rvJobID p)\<rparr>)"

definition rejection_reason :: "ReviewResultParams \<Rightarrow> int \<Rightarrow> string" where
  "rejection_reason p prior =
     (if rvClaim p = VerdictChangesRequested \<and> prior + 1 \<ge> MaxReviewerRejections
      then escalation_str EscalationReviewerRejections else [])"

definition review_payload :: "ReviewResultParams \<Rightarrow> int \<Rightarrow> Transition \<Rightarrow> Payload" where
  "review_payload p prior t =
     (let y = zero_payload\<lparr>pBouncesDelta := tBouncesDelta t, pVerdict := tVerdict t\<rparr>;
          y1 = (if tTo t = StateNeedsHuman
                then y\<lparr>pEscalationReason := rejection_reason p prior\<rparr> else y);
          y2 = (if tKind t = KindReviewApproved \<and> rvReviewerHead p \<noteq> []
                then y1\<lparr>pHeadSHA := rvReviewerHead p\<rparr> else y1)
      in if rvClaim p = VerdictChangesRequested then y2\<lparr>pReviewNotes := rvNotes p\<rparr> else y2)"

definition review_event :: "ReviewResultParams \<Rightarrow> Job \<Rightarrow> int \<Rightarrow> Transition \<Rightarrow> int \<Rightarrow> Event" where
  "review_event p j prior t n =
     fenced_event (rvJobID p) n (tKind t) (tFrom t) (tTo t) (jLeaseEpoch j) ''system'' (rvNow p)
       (review_payload p prior t)"

definition verdict_claim_event :: "ReviewResultParams \<Rightarrow> Job \<Rightarrow> int \<Rightarrow> Event" where
  "verdict_claim_event p j n =
     fenced_event (rvJobID p) n KindVerdictClaim (jState j) (jState j) (jLeaseEpoch j)
       (jBoundIdentity j) (rvNow p)
       (zero_payload\<lparr>pVerdictClaim := rvClaim p, pDisposition := rvDisposition p\<rparr>)"

definition minted_verdict :: "Transition list \<Rightarrow> Verdict option" where
  "minted_verdict ts = foldl (\<lambda>m t. if tVerdict t \<noteq> None then tVerdict t else m) None ts"

definition bounce_row :: "ReviewResultParams \<Rightarrow> int \<Rightarrow> Row \<Rightarrow> Row" where
  "bounce_row p bounces r =
     r\<lparr>rwJob := (rwJob r)\<lparr>jState := StateReady, jRole := RoleEngWorker, jStage := ''build'',
         jRequiredCapabilities := [''role:eng_worker''],
         jBounces := jBounces (rwJob r) + bounces, jEnqueuedAt := rvNow p,
         jLastReviewNotes := (if rvNotes p \<noteq> [] then rvNotes p else jLastReviewNotes (rwJob r)),
         jLeaseID := []\<rparr>,
       rwPatchDiff := (if rwAdopted r then rwPatchDiff r else []),
       rwDeclaredBlastRadius := (if rwAdopted r then rwDeclaredBlastRadius r else []),
       rwReservationPaths := None, rwReservationWide := False,
       rwBoundIdentity := None, rwBoundModelFamily := None, rwLeaseHbDue := None\<rparr>"

definition accumulate_row :: "ReviewResultParams \<Rightarrow> Row \<Rightarrow> Row" where
  "accumulate_row p r =
     r\<lparr>rwJob := (rwJob r)\<lparr>jState := StateReviewPending, jRole := RoleEngWorker,
         jRequiredCapabilities := [''role:code_reviewer''],
         jHeadSHA := (if rvReviewerHead p \<noteq> [] then rvReviewerHead p else jHeadSHA (rwJob r)),
         jLeaseID := []\<rparr>,
       rwBoundIdentity := None, rwBoundModelFamily := None, rwLeaseHbDue := None\<rparr>"

definition verdict_row :: "State \<Rightarrow> Verdict option \<Rightarrow> int \<Rightarrow> Row \<Rightarrow> Row" where
  "verdict_row final minted bounces r =
     r\<lparr>rwJob := (rwJob r)\<lparr>jState := final, jVerdict := minted,
         jHeadSHA := (case minted of
            Some v \<Rightarrow> if vHeadSHA v \<noteq> [] then vHeadSHA v else jHeadSHA (rwJob r)
          | None \<Rightarrow> jHeadSHA (rwJob r)),
         jBounces := jBounces (rwJob r) + bounces, jLeaseID := []\<rparr>,
       rwBoundIdentity := None, rwBoundModelFamily := None, rwLeaseHbDue := None\<rparr>"

definition review_row :: "ReviewResultParams \<Rightarrow> int \<Rightarrow> State \<Rightarrow> Transition list \<Rightarrow> Row \<Rightarrow> Row" where
  "review_row p prior final ts r =
     (let bounces = sum_list (map tBouncesDelta ts); minted = minted_verdict ts;
          r1 = (if final = StateReady then bounce_row p bounces r
                else if final = StateReviewPending then accumulate_row p r
                else verdict_row final minted bounces r)
      in if final = StateNeedsHuman \<and> rejection_reason p prior \<noteq> []
         then r1\<lparr>rwJob := (rwJob r1)\<lparr>jEscalationReason := rejection_reason p prior\<rparr>\<rparr>
         else r1)"

text \<open>
  \<open>facts\<close> is what the fact source returned before the transaction; the
  decision uses nothing the worker reported but its claim.
\<close>

definition ReviewResult ::
  "StoreCfg \<Rightarrow> DB \<Rightarrow> DomainBFacts \<Rightarrow> Policy \<Rightarrow> ReviewResultParams \<Rightarrow> store_error + (DB \<times> Response)" where
  "ReviewResult cfg d facts pol p = (case cached_response d (rvJobID p) (rvIdempotencyKey p) of
     Some c \<Rightarrow> Inr (d, as_review c)
   | None \<Rightarrow>
     and_then (loadJobTx d (rvJobID p)) (\<lambda>(r, j, seq).
     let dec = review_decision cfg d r facts pol p;
         prior = prior_rejections d (rvJobID p) (jBoundIdentity j) in
     if dReject dec \<noteq> None then Inl ErrStaleEpoch
     else let d1 = persistContentResultTx (rvJobID p) (contentResultTx cfg r) d in
       and_then (appendEvent (verdict_claim_event p j (seq + 1)) d1) (\<lambda>d2.
       and_then (append_transitions (review_event p j prior) (dTransitions dec) (seq + 1) d2)
         (\<lambda>(d3, nextSeq).
       let final = final_state (jState j) (dTransitions dec);
           minted = minted_verdict (dTransitions dec);
           resp = answer (state_str final)
                   (case minted of None \<Rightarrow> [] | Some v \<Rightarrow> verdict_str (vValue v)) (minted \<noteq> None)
       in Inr (store_response (rvJobID p) (rvIdempotencyKey p) resp
                (close_lease (rvJobID p) (jLeaseEpoch j) ''completed''
                  (setJobSeq (rvJobID p) nextSeq
                    (update_row (rvJobID p) (review_row p prior final (dTransitions dec)) d3))),
               resp)))))"

section \<open>Merge dispatch\<close>

definition dispatch_event :: "string \<Rightarrow> int \<Rightarrow> Job \<Rightarrow> Transition \<Rightarrow> int \<Rightarrow> Event" where
  "dispatch_event i now j t n =
     fenced_event i n (tKind t) (tFrom t) (tTo t) (jLeaseEpoch j) ''system'' now zero_payload"

definition DispatchMerge ::
  "StoreCfg \<Rightarrow> DB \<Rightarrow> Policy \<Rightarrow> string \<Rightarrow> int \<Rightarrow> store_error + (DB \<times> State)" where
  "DispatchMerge cfg d pol i now =
     and_then (loadJobTx d i) (\<lambda>(r, j, seq).
     let dec = Decide (review_state j now (domainBFactsTx d i) pol (contentResultTx cfg r)) MergeDispatch in
     case dReject dec of
       Some e \<Rightarrow> Inl (ErrDispatch e)
     | None \<Rightarrow>
         and_then (append_transitions (dispatch_event i now j) (dTransitions dec) seq d)
           (\<lambda>(d1, nextSeq).
         let final = final_state (jState j) (dTransitions dec) in
         Inr (setJobSeq i nextSeq (update_row i (set_state_row final) d1), final)))"

end
