(* ===== verification/Store_Conflict.thy ===== *)
theory Store_Conflict
  imports Store_Review Reservation
begin

text \<open>
  Merge conflicts, \<open>internal/store/conflict.go\<close>: the write-sets builds reserve and
  the candidates they withhold, the rebase of a build onto a new base (clean, or
  routed to a conflict resolver), the resolver's claim and result, and the
  re-arming of the jobs stacked on a merged pull request.

  The mirror's \<open>TryRebasePatch\<close> runs git: it is the argument \<open>mirror\<close>, absent when
  the caller passes nil.
\<close>

section \<open>One event, one update\<close>

text \<open>
  The shape the transactions share: one event, one row update, whatever else
  the transaction writes (\<open>extra\<close>), and the cursor.
\<close>

definition one_step :: "string \<Rightarrow> int \<Rightarrow> Event \<Rightarrow> (Row \<Rightarrow> Row) \<Rightarrow> (DB \<Rightarrow> DB) \<Rightarrow> DB \<Rightarrow> store_error + DB" where
  "one_step i nextSeq e f extra d =
     and_then (appendEvent e d) (\<lambda>d1. Inr (setJobSeq i nextSeq (extra (update_row i f d1))))"

section \<open>Reservations\<close>

definition decoded_blast :: "StoreCfg \<Rightarrow> string \<Rightarrow> BlastRadius" where
  "decoded_blast cfg declared =
     (if declared \<noteq> [] then scDecodeBlast cfg declared else \<lparr>brPaths = [], brScope = []\<rparr>)"

definition wide_scope :: "BlastRadius \<Rightarrow> bool" where
  "wide_scope br = EqualFold (TrimSpace (brScope br)) ''wide''"

definition declaredWriteSet :: "StoreCfg \<Rightarrow> string \<Rightarrow> WriteSet" where
  "declaredWriteSet cfg declared =
     (let br = decoded_blast cfg declared in \<lparr>wsPaths = brPaths br, wsWide = wide_scope br\<rparr>)"

definition hasDeclaration :: "StoreCfg \<Rightarrow> string \<Rightarrow> bool" where
  "hasDeclaration cfg declared =
     (declared \<noteq> [] \<and> scBlastValid cfg declared
      \<and> (let br = scDecodeBlast cfg declared in length (brPaths br) > 0 \<or> wide_scope br))"

definition in_build :: "State \<Rightarrow> bool" where
  "in_build s \<longleftrightarrow> s = StateLeased \<or> s = StateBuilding \<or> s = StateResolvingConflict"

text \<open>The body of the loop: the reservation one in-flight row holds.\<close>

definition row_reservation :: "StoreCfg \<Rightarrow> Row \<Rightarrow> Reservation option" where
  "row_reservation cfg r =
     (if rwReservationWide r \<or> rwReservationPaths r \<noteq> None
      then Some \<lparr>rsvJobID = row_id r,
             rsvWriteSet = \<lparr>wsPaths = (case rwReservationPaths r of None \<Rightarrow> [] | Some ps \<Rightarrow> ps),
                           wsWide = rwReservationWide r\<rparr>\<rparr>
      else if \<not> hasDeclaration cfg (rwDeclaredBlastRadius r) then None
      else Some \<lparr>rsvJobID = row_id r, rsvWriteSet = declaredWriteSet cfg (rwDeclaredBlastRadius r)\<rparr>)"

definition ActiveReservations :: "StoreCfg \<Rightarrow> DB \<Rightarrow> Reservation list" where
  "ActiveReservations cfg d =
     List.map_filter (row_reservation cfg) (filter (\<lambda>r. in_build (jState (rwJob r))) (tbJobs d))"

definition row_candidate :: "Row \<Rightarrow> Candidate" where
  "row_candidate r =
     \<lparr>cJobID = row_id r, cPriority = jPriority (rwJob r), cEnqueuedAt = jEnqueuedAt (rwJob r),
      cRequiredCapabilities = jRequiredCapabilities (rwJob r), cCIReady = False\<rparr>"

definition ready_rows :: "DB \<Rightarrow> Row list" where
  "ready_rows d = filter (\<lambda>r. jState (rwJob r) = StateReady) (tbJobs d)"

definition ReadyCandidates :: "DB \<Rightarrow> Candidate list" where
  "ReadyCandidates d = map row_candidate (ready_rows d)"

definition readyWriteSets :: "StoreCfg \<Rightarrow> DB \<Rightarrow> string \<Rightarrow> WriteSet option" where
  "readyWriteSets cfg d =
     map_of (map (\<lambda>r. (row_id r, declaredWriteSet cfg (rwDeclaredBlastRadius r))) (ready_rows d))"

definition ReadyCandidatesReserved :: "StoreCfg \<Rightarrow> DB \<Rightarrow> Candidate list" where
  "ReadyCandidatesReserved cfg d =
     (let cands = ReadyCandidates d; active = ActiveReservations cfg d in
      if length active = 0 then cands
      else ReservationFilter cands active (readyWriteSets cfg d))"

record ReservationHeld =
  rhJobID :: string
  rhWide :: bool
  rhPaths :: "string list"

record ReadyReservationView =
  rrJobID :: string
  rrWide :: bool
  rrPaths :: "string list"
  rrBlocked :: bool
  rrBlockedBy :: string

definition zero_ws :: WriteSet where "zero_ws = \<lparr>wsPaths = [], wsWide = False\<rparr>"

definition ready_view ::
  "Reservation list \<Rightarrow> (string \<Rightarrow> WriteSet option) \<Rightarrow> Candidate \<Rightarrow> ReadyReservationView" where
  "ready_view active writeSets c =
     (let ws = (case writeSets (cJobID c) of None \<Rightarrow> zero_ws | Some w \<Rightarrow> w);
          blocker = BlockedBy (cJobID c) active writeSets
      in \<lparr>rrJobID = cJobID c, rrWide = wsWide ws, rrPaths = wsPaths ws,
          rrBlocked = (blocker \<noteq> None), rrBlockedBy = coalesce blocker\<rparr>)"

definition ReservationReport ::
  "StoreCfg \<Rightarrow> DB \<Rightarrow> ReservationHeld list \<times> ReadyReservationView list" where
  "ReservationReport cfg d =
     (let active = ActiveReservations cfg d; writeSets = readyWriteSets cfg d in
      (map (\<lambda>r. \<lparr>rhJobID = rsvJobID r, rhWide = IsWide (rsvWriteSet r), rhPaths = wsPaths (rsvWriteSet r)\<rparr>)
         active,
       map (ready_view active writeSets) (ReadyCandidates d)))"

definition reserve_row :: "WriteSet \<Rightarrow> Row \<Rightarrow> Row" where
  "reserve_row ws r = r\<lparr>rwReservationPaths := Some (wsPaths ws), rwReservationWide := wsWide ws\<rparr>"

definition RecordReservation :: "StoreCfg \<Rightarrow> DB \<Rightarrow> string \<Rightarrow> store_error + DB" where
  "RecordReservation cfg d i = (case find_row d i of
     None \<Rightarrow> Inl ErrNoRows
   | Some r \<Rightarrow>
       Inr (update_row i (reserve_row (declaredWriteSet cfg (rwDeclaredBlastRadius r))) d))"

section \<open>The rebase\<close>

record RebaseResult =
  rbClean :: bool
  rbConflictJob :: string
  rbNewSHA :: string
  rbNewBaseSHA :: string
  rbResolverNeeded :: bool

record RebaseOntoParams =
  roJobID :: string
  roNewBaseSHA :: string
  roNow :: int
  roForceConflict :: bool

text \<open>\<open>TryRebasePatch\<close>: job, epoch, base and diff to an error, or whether it applied and the new commit.\<close>

type_synonym mirror = "string \<Rightarrow> int \<Rightarrow> string \<Rightarrow> string \<Rightarrow> store_error + (bool \<times> string)"

definition rebase_outcome :: "mirror option \<Rightarrow> DB \<Rightarrow> RebaseOntoParams \<Rightarrow> store_error + (bool \<times> string)" where
  "rebase_outcome mirror d p = (case mirror of
     None \<Rightarrow> Inr (\<not> roForceConflict p, [])
   | Some try_rebase \<Rightarrow> (case find_row d (roJobID p) of
       None \<Rightarrow> Inl ErrNoRows
     | Some r \<Rightarrow>
         if TrimSpace (rwPatchDiff r) = [] then Inr (True, [])
         else try_rebase (roJobID p) (jLeaseEpoch (rwJob r)) (roNewBaseSHA p) (rwPatchDiff r)))"

definition rebased_row :: "string \<Rightarrow> string \<Rightarrow> Row \<Rightarrow> Row" where
  "rebased_row base newSHA r =
     r\<lparr>rwJob := (rwJob r)\<lparr>jState := StateReviewPending, jRole := RoleEngWorker, jStage := ''build'',
         jRequiredCapabilities := [''role:code_reviewer''], jBaseSHA := base, jHeadSHA := newSHA,
         jVerdict := None, jLeaseEpoch := jLeaseEpoch (rwJob r) + 1, jLeaseID := []\<rparr>,
       rwBoundIdentity := None, rwBoundModelFamily := None, rwLeaseHbDue := None,
       rwLeaseDeadline := None\<rparr>"

text \<open>The UPDATE the three routes to a resolver share.\<close>

definition conflict_row :: "string \<Rightarrow> int \<Rightarrow> Row \<Rightarrow> Row" where
  "conflict_row base now r =
     r\<lparr>rwJob := (rwJob r)\<lparr>jState := StateResolvingConflict, jRole := RoleConflictResolver,
         jStage := ''resolve_conflict'', jRequiredCapabilities := [''role:conflict_resolver''],
         jBaseSHA := base, jVerdict := None, jLeaseEpoch := jLeaseEpoch (rwJob r) + 1,
         jLeaseID := [], jEnqueuedAt := now\<rparr>,
       rwConflictBaseSHA := base, rwBoundIdentity := None, rwBoundModelFamily := None,
       rwLeaseHbDue := None, rwLeaseDeadline := None\<rparr>"

definition conflict_event :: "string \<Rightarrow> Job \<Rightarrow> string \<Rightarrow> string \<Rightarrow> int \<Rightarrow> int \<Rightarrow> Event" where
  "conflict_event i j base actor now seq =
     fenced_event i seq KindConflictDetected (jState j) StateResolvingConflict (jLeaseEpoch j + 1)
       actor now (zero_payload\<lparr>pBaseSHA := base\<rparr>)"

definition rebased_event :: "string \<Rightarrow> Job \<Rightarrow> string \<Rightarrow> string \<Rightarrow> int \<Rightarrow> int \<Rightarrow> Event" where
  "rebased_event i j base newSHA now seq =
     fenced_event i seq KindRebased (jState j) StateReviewPending (jLeaseEpoch j + 1) ''system'' now
       (zero_payload\<lparr>pBaseSHA := base, pHeadSHA := newSHA\<rparr>)"

definition RebaseOnto ::
  "mirror option \<Rightarrow> DB \<Rightarrow> RebaseOntoParams \<Rightarrow> store_error + (DB \<times> RebaseResult)" where
  "RebaseOnto mirror d p =
     and_then (rebase_outcome mirror d p) (\<lambda>(clean, newSHA).
     and_then (loadJobTx d (roJobID p)) (\<lambda>(r, j, seq).
     if clean
     then and_then (one_step (roJobID p) (seq + 1)
         (rebased_event (roJobID p) j (roNewBaseSHA p) newSHA (roNow p) (seq + 1))
         (rebased_row (roNewBaseSHA p) newSHA) id d)
       (\<lambda>d1. Inr (d1, \<lparr>rbClean = True, rbConflictJob = [], rbNewSHA = newSHA, rbNewBaseSHA = roNewBaseSHA p,
           rbResolverNeeded = False\<rparr>))
     else and_then (one_step (roJobID p) (seq + 1)
         (conflict_event (roJobID p) j (roNewBaseSHA p) ''system'' (roNow p) (seq + 1))
         (conflict_row (roNewBaseSHA p) (roNow p)) id d)
       (\<lambda>d1. Inr (d1, \<lparr>rbClean = False, rbConflictJob = roJobID p, rbNewSHA = [], rbNewBaseSHA = roNewBaseSHA p,
           rbResolverNeeded = True\<rparr>))))"

section \<open>The routes to a resolver\<close>

record RouteBuildConflictParams =
  bcJobID :: string
  bcEpoch :: int
  bcNewBaseSHA :: string
  bcBranchDiff :: string
  bcNow :: int

definition build_conflict_row :: "RouteBuildConflictParams \<Rightarrow> Row \<Rightarrow> Row" where
  "build_conflict_row p r =
     (conflict_row (bcNewBaseSHA p) (bcNow p) r)\<lparr>rwPatchDiff := bcBranchDiff p\<rparr>"

definition RouteBuildConflict :: "DB \<Rightarrow> RouteBuildConflictParams \<Rightarrow> store_error + DB" where
  "RouteBuildConflict d p =
     and_then (loadJobTx d (bcJobID p)) (\<lambda>(r, j, seq).
     if bcEpoch p \<noteq> jLeaseEpoch j then Inl ErrStaleEpoch
     else if jState j \<noteq> StateLeased \<and> jState j \<noteq> StateBuilding then Inr d
     else one_step (bcJobID p) (seq + 1)
       (conflict_event (bcJobID p) j (bcNewBaseSHA p) (jBoundIdentity j) (bcNow p) (seq + 1))
       (build_conflict_row p) (close_lease (bcJobID p) (jLeaseEpoch j) ''rebase_conflict'') d)"

definition RouteMergeConflict :: "DB \<Rightarrow> string \<Rightarrow> string \<Rightarrow> int \<Rightarrow> store_error + DB" where
  "RouteMergeConflict d i newBaseSHA now =
     and_then (loadJobTx d i) (\<lambda>(r, j, seq).
     if jState j \<noteq> StateMerging \<and> jState j \<noteq> StateMergeable then Inr d
     else one_step i (seq + 1) (conflict_event i j newBaseSHA ''project-out'' now (seq + 1))
       (conflict_row newBaseSHA now) id d)"

definition handoff_event :: "string \<Rightarrow> Job \<Rightarrow> string \<Rightarrow> int \<Rightarrow> int \<Rightarrow> Event" where
  "handoff_event i j reason now seq =
     fenced_event i seq KindStateChanged (jState j) StateMergeHandoff (jLeaseEpoch j) ''project-out''
       now (zero_payload\<lparr>pRevokeReason := reason\<rparr>)"

definition RouteSelfMergeToHandoff :: "DB \<Rightarrow> string \<Rightarrow> string \<Rightarrow> int \<Rightarrow> store_error + DB" where
  "RouteSelfMergeToHandoff d i reason now =
     and_then (loadJobTx d i) (\<lambda>(r, j, seq).
     if jState j \<noteq> StateMerging \<and> jState j \<noteq> StateMergeable then Inr d
     else one_step i (seq + 1) (handoff_event i j reason now (seq + 1))
       (set_state_row StateMergeHandoff) id d)"

text \<open>
  The review_pending builds behind the integration tip.  The query orders by
  \<open>updated_at\<close>, which the model leaves out: the rows keep their order.
\<close>

definition StaleReviewBuilds :: "DB \<Rightarrow> string \<Rightarrow> string \<Rightarrow> string list" where
  "StaleReviewBuilds d repoID mainTip =
     (if TrimSpace mainTip = [] then []
      else map row_id (filter (\<lambda>r. jState (rwJob r) = StateReviewPending \<and> jKind (rwJob r) = KindBuild
             \<and> (repoID = [] \<or> jRepo (rwJob r) = repoID)
             \<and> jBaseSHA (rwJob r) \<noteq> [] \<and> jBaseSHA (rwJob r) \<noteq> mainTip
             \<and> rwPatchDiff r \<noteq> []) (tbJobs d)))"

section \<open>The resolver\<close>

record ResolveConflictParams =
  rzJobID :: string
  rzEpoch :: int
  rzResolvedDiff :: string
  rzDeclaredBlastRadius :: string
  rzPushedRef :: string
  rzPushedSHA :: string
  rzNow :: int

definition resolved_event :: "ResolveConflictParams \<Rightarrow> Job \<Rightarrow> int \<Rightarrow> Event" where
  "resolved_event p j seq =
     fenced_event (rzJobID p) seq KindConflictResolved (jState j) StateReviewPending (jLeaseEpoch j)
       (jBoundIdentity j) (rzNow p) (zero_payload\<lparr>pBaseSHA := jBaseSHA j, pHeadSHA := rzPushedSHA p\<rparr>)"

definition resolved_row :: "ResolveConflictParams \<Rightarrow> Row \<Rightarrow> Row" where
  "resolved_row p r =
     r\<lparr>rwJob := (rwJob r)\<lparr>jState := StateReviewPending, jRole := RoleEngWorker, jStage := ''build'',
         jRequiredCapabilities := [''role:code_reviewer''], jHeadSHA := rzPushedSHA p,
         jVerdict := None, jLeaseID := []\<rparr>,
       rwBuilderIdentity := opt_or (rwBuilderIdentity r) (rwBoundIdentity r),
       rwBuilderModelFamily := opt_or (rwBuilderModelFamily r) (rwBoundModelFamily r),
       rwHeadRef := (if rzPushedRef p \<noteq> [] then Some (rzPushedRef p) else rwHeadRef r),
       rwPatchDiff := rzResolvedDiff p, rwDeclaredBlastRadius := rzDeclaredBlastRadius p,
       rwEngWorkerJob := opt_or (rwEngWorkerJob r) (Some (row_id r)),
       rwBoundIdentity := None, rwBoundModelFamily := None, rwLeaseHbDue := None\<rparr>"

definition ResolveConflictResult ::
  "DB \<Rightarrow> ResolveConflictParams \<Rightarrow> store_error + (DB \<times> Response)" where
  "ResolveConflictResult d p =
     and_then (loadJobTx d (rzJobID p)) (\<lambda>(r, j, seq).
     if rzEpoch p \<noteq> jLeaseEpoch j then Inl ErrStaleEpoch
     else if jState j \<noteq> StateResolvingConflict
     then Inl (ErrDispatch (''resolve_conflict result on non-resolving job (state='' @ state_str (jState j) @ '')''))
     else and_then (one_step (rzJobID p) (seq + 1) (resolved_event p j (seq + 1)) (resolved_row p)
         (\<lambda>d. close_lease (rzJobID p) (jLeaseEpoch j) ''completed'' (clear_ci (rzJobID p) d)) d) (\<lambda>d1.
       Inr (d1, answer (state_str StateReviewPending) [] False)))"

definition ResolvingConflictCandidates :: "DB \<Rightarrow> Candidate list" where
  "ResolvingConflictCandidates d =
     map row_candidate (filter (\<lambda>r. jState (rwJob r) = StateResolvingConflict
       \<and> jLeaseID (rwJob r) = []) (tbJobs d))"

definition conflict_claim_row :: "ClaimParams \<Rightarrow> Row \<Rightarrow> Row" where
  "conflict_claim_row p r =
     r\<lparr>rwJob := (rwJob r)\<lparr>jLeaseEpoch := jLeaseEpoch (rwJob r) + 1, jLeaseID := cpLeaseID p\<rparr>,
       rwBoundIdentity := Some (cpIdentity p), rwBoundModelFamily := Some (cpModelFamily p),
       rwLeaseDeadline := Some (cpNow p + cpTTL p), rwLeaseHbDue := Some (cpNow p + cpTTL p)\<rparr>"

text \<open>
  \<open>lease_id IS NULL\<close> is the empty lease id: every write of the column is NULL or
  the id of a claim, and the claims' ids are generated, never empty.
  \<open>ClaimConflictParams\<close> has the fields of \<open>ClaimParams\<close> this transaction reads.
\<close>

definition ClaimConflictJob :: "DB \<Rightarrow> ClaimParams \<Rightarrow> store_error + (DB \<times> int)" where
  "ClaimConflictJob d p = (case find_row d (cpJobID p) of
     None \<Rightarrow> Inl ErrLostRace
   | Some r \<Rightarrow>
       if jState (rwJob r) \<noteq> StateResolvingConflict \<or> jLeaseID (rwJob r) \<noteq> [] then Inl ErrLostRace
       else if \<not> CapabilitiesSatisfy (cpAttested p) (jRequiredCapabilities (rwJob r))
       then Inl ErrLostRace
       else case modelSlotGateTx d [] (cpIdentity p) (cpModelFamily p) of
         Some e \<Rightarrow> Inl e
       | None \<Rightarrow>
           if builder_conflict d p r then Inl ErrLostRace
           else let newEpoch = jLeaseEpoch (rwJob r) + 1; nextSeq = jJobSeq (rwJob r) + 1;
                    d1 = update_row (cpJobID p) (conflict_claim_row p) d in
             and_then (appendEvent (claim_ledger_event p KindLeaseClaimed StateResolvingConflict
                         StateResolvingConflict newEpoch nextSeq) d1) (\<lambda>d2.
             and_then (insert_lease (claim_lease_row p newEpoch)
                         (setJobSeq (cpJobID p) nextSeq d2)) (\<lambda>d3.
             Inr (d3, newEpoch))))"

section \<open>Stacked pull requests\<close>

definition stack_row :: "int \<Rightarrow> Row \<Rightarrow> Row" where
  "stack_row pr r = r\<lparr>rwStackedOnPR := pr\<rparr>"

definition MarkStackedOn :: "string \<Rightarrow> int \<Rightarrow> DB \<Rightarrow> DB" where
  "MarkStackedOn i parentPR = update_row i (stack_row parentPR)"

definition stacked_event :: "string \<Rightarrow> Job \<Rightarrow> int \<Rightarrow> string \<Rightarrow> int \<Rightarrow> int \<Rightarrow> Event" where
  "stacked_event i j parentPR newBaseSHA now seq =
     fenced_event i seq KindStackedRebased (jState j) (jState j) (jLeaseEpoch j) ''system'' now
       (zero_payload\<lparr>pBaseSHA := newBaseSHA, pPRNumber := parentPR\<rparr>)"

definition appendStackedRebased :: "DB \<Rightarrow> string \<Rightarrow> int \<Rightarrow> string \<Rightarrow> int \<Rightarrow> store_error + DB" where
  "appendStackedRebased d i parentPR newBaseSHA now =
     and_then (loadJobTx d i) (\<lambda>(r, j, seq).
     one_step i (seq + 1) (stacked_event i j parentPR newBaseSHA now (seq + 1)) id id d)"

text \<open>
  The loop runs a transaction per step; an error returns the ids re-armed so
  far, with the database the committed steps left.
\<close>

fun rearm_each ::
  "mirror option \<Rightarrow> int \<Rightarrow> string \<Rightarrow> int \<Rightarrow> string list \<Rightarrow> DB \<Rightarrow> DB \<times> string list \<times> store_error option" where
  "rearm_each mirror parentPR base now [] d = (d, [], None)"
| "rearm_each mirror parentPR base now (i # ids) d =
     (case appendStackedRebased d i parentPR base now of
        Inl e \<Rightarrow> (d, [], Some e)
      | Inr d1 \<Rightarrow>
          (case RebaseOnto mirror d1 \<lparr>roJobID = i, roNewBaseSHA = base, roNow = now,
                                     roForceConflict = False\<rparr> of
             Inl e \<Rightarrow> (d1, [], Some e)
           | Inr (d2, res) \<Rightarrow>
               (let (d3, rearmed, err) = rearm_each mirror parentPR base now ids (MarkStackedOn i 0 d2)
                in (d3, i # rearmed, err))))"

definition stacked_ids :: "DB \<Rightarrow> int \<Rightarrow> string list" where
  "stacked_ids d parentPR =
     map row_id (filter (\<lambda>r. rwStackedOnPR r = parentPR
       \<and> jState (rwJob r) \<notin> {StateDone, StateCancelled, StateSuperseded}) (tbJobs d))"

definition RearmStackedDescendants ::
  "mirror option \<Rightarrow> DB \<Rightarrow> int \<Rightarrow> string \<Rightarrow> int \<Rightarrow> DB \<times> string list \<times> store_error option" where
  "RearmStackedDescendants mirror d parentPR newBaseSHA now =
     rearm_each mirror parentPR newBaseSHA now (stacked_ids d parentPR) d"

end
