(* ===== verification/Store_Outbox.thy ===== *)
theory Store_Outbox
  imports Store_Conflict
begin

text \<open>
  The outbox of project-OUT, \<open>internal/store/outbox.go\<close>: the desired GitHub writes,
  each keyed (job, action, head SHA), enqueued with the state change that
  motivates them and drained by one sender; the audit log of those that took
  effect; dead letters.  The row enqueued by \<open>history.go\<close> is here too.
\<close>

section \<open>Enqueueing\<close>

definition same_key :: "OutboxRow \<Rightarrow> OutboxRow \<Rightarrow> bool" where
  "same_key x y \<longleftrightarrow> obJobID x = obJobID y \<and> obAction x = obAction y \<and> obHeadSHA x = obHeadSHA y"

definition enqueueOutboxTx :: "OutboxRow \<Rightarrow> DB \<Rightarrow> DB" where
  "enqueueOutboxTx row d =
     (if list_ex (\<lambda>x. same_key x row) (tbOutbox d) then d
      else d\<lparr>tbOutbox := tbOutbox d @ [row\<lparr>obID := tbNextOutbox d, obStatus := ObPending, obAttempts := 0\<rparr>],
             tbNextOutbox := tbNextOutbox d + 1\<rparr>)"

text \<open>The row literal of a caller: id, status and attempts are the table's.\<close>

definition outbox_row :: "string \<Rightarrow> string \<Rightarrow> string \<Rightarrow> (string \<times> JSONValue) list \<Rightarrow> OutboxRow" where
  "outbox_row i action sha payload =
     \<lparr>obID = 0, obJobID = i, obAction = action, obHeadSHA = sha, obPayload = payload,
      obStatus = ObPending, obAttempts = 0\<rparr>"

definition ActionOpenPR :: string where "ActionOpenPR = ''pulls.create''"
definition ActionEnqueueMerge :: string where "ActionEnqueueMerge = ''mergeQueue.enqueue''"
definition ActionComment :: string where "ActionComment = ''pulls.comment''"
definition ActionDraftPR :: string where "ActionDraftPR = ''pulls.draft''"
definition ActionDeleteBranch :: string where "ActionDeleteBranch = ''git.deleteBranch''"
definition ActionWriteHistory :: string where "ActionWriteHistory = ''history.write''"

definition enqueueHistoryWriteTx :: "string \<Rightarrow> DB \<Rightarrow> DB" where
  "enqueueHistoryWriteTx i = enqueueOutboxTx (outbox_row i ActionWriteHistory i [])"

section \<open>Draining\<close>

text \<open>The table is in id order: rows are appended with growing ids and never moved.\<close>

definition NextPendingOutbox :: "DB \<Rightarrow> OutboxRow option" where
  "NextPendingOutbox d = List.find (\<lambda>x. obStatus x = ObPending) (tbOutbox d)"

definition repo_of :: "DB \<Rightarrow> string \<Rightarrow> string option" where
  "repo_of d i = map_option (\<lambda>r. jRepo (rwJob r)) (find_row d i)"

definition NextPendingOutboxForRepo :: "DB \<Rightarrow> string \<Rightarrow> OutboxRow option" where
  "NextPendingOutboxForRepo d repo =
     List.find (\<lambda>x. obStatus x = ObPending \<and> repo_of d (obJobID x) = Some repo) (tbOutbox d)"

definition update_outbox :: "(OutboxRow \<Rightarrow> bool) \<Rightarrow> (OutboxRow \<Rightarrow> OutboxRow) \<Rightarrow> DB \<Rightarrow> DB" where
  "update_outbox q f d = d\<lparr>tbOutbox := map (\<lambda>x. if q x then f x else x) (tbOutbox d)\<rparr>"

definition audit_once :: "AuditRow \<Rightarrow> DB \<Rightarrow> DB" where
  "audit_once a d =
     (if list_ex (\<lambda>x. auJobID x = auJobID a \<and> auAction x = auAction a \<and> auHeadSHA x = auHeadSHA a)
           (tbAudit d)
      then d else d\<lparr>tbAudit := tbAudit d @ [a]\<rparr>)"

definition MarkOutboxSent :: "DB \<Rightarrow> int \<Rightarrow> string \<Rightarrow> store_error + DB" where
  "MarkOutboxSent d n detail = (case List.find (\<lambda>x. obID x = n) (tbOutbox d) of
     None \<Rightarrow> Inl ErrNoRows
   | Some x \<Rightarrow> Inr (audit_once \<lparr>auJobID = obJobID x, auAction = obAction x, auHeadSHA = obHeadSHA x,
                              auDetail = detail\<rparr>
       (update_outbox (\<lambda>y. obID y = n)
          (\<lambda>y. y\<lparr>obStatus := ObSent, obAttempts := obAttempts y + 1\<rparr>) d)))"

definition MarkOutboxSuppressed :: "int \<Rightarrow> DB \<Rightarrow> DB" where
  "MarkOutboxSuppressed n = update_outbox (\<lambda>x. obID x = n) (\<lambda>x. x\<lparr>obStatus := ObAbandoned\<rparr>)"

definition BumpOutboxAttempts :: "int \<Rightarrow> DB \<Rightarrow> DB" where
  "BumpOutboxAttempts n = update_outbox (\<lambda>x. obID x = n) (\<lambda>x. x\<lparr>obAttempts := obAttempts x + 1\<rparr>)"

definition rearm_outbox :: "(OutboxRow \<Rightarrow> bool) \<Rightarrow> DB \<Rightarrow> DB \<times> int" where
  "rearm_outbox q d =
     (let sel = (\<lambda>x. q x \<and> obStatus x = ObAbandoned) in
      (update_outbox sel (\<lambda>x. x\<lparr>obStatus := ObPending, obAttempts := 0\<rparr>) d,
       int (length (filter sel (tbOutbox d)))))"

definition RetryAbandonedOutbox :: "string \<Rightarrow> DB \<Rightarrow> DB \<times> int" where
  "RetryAbandonedOutbox i = rearm_outbox (\<lambda>x. obJobID x = i)"

definition RetryAbandonedOutboxForRepo :: "string \<Rightarrow> DB \<Rightarrow> DB \<times> int" where
  "RetryAbandonedOutboxForRepo repo d = rearm_outbox (\<lambda>x. repo_of d (obJobID x) = Some repo) d"

definition RetryAllAbandonedOutbox :: "DB \<Rightarrow> DB \<times> int" where
  "RetryAllAbandonedOutbox = rearm_outbox (\<lambda>x. True)"

definition actionable :: "DB \<Rightarrow> OutboxRow \<Rightarrow> bool" where
  "actionable d x \<longleftrightarrow> obStatus x = ObAbandoned
     \<and> (case find_row d (obJobID x) of None \<Rightarrow> True
        | Some r \<Rightarrow> jState (rwJob r) \<notin> {StateDone, StateCancelled})"

text \<open>The count of one action in the map the query groups by action.\<close>

definition OutboxAbandonedByAction :: "DB \<Rightarrow> string \<Rightarrow> int" where
  "OutboxAbandonedByAction d action =
     int (length (filter (\<lambda>x. actionable d x \<and> obAction x = action) (tbOutbox d)))"

definition AbandonOutboxForJobSHA :: "string \<Rightarrow> string \<Rightarrow> DB \<Rightarrow> DB" where
  "AbandonOutboxForJobSHA i sha =
     update_outbox (\<lambda>x. obJobID x = i \<and> obStatus x = ObPending \<and> obHeadSHA x \<noteq> [] \<and> obHeadSHA x \<noteq> sha)
       (\<lambda>x. x\<lparr>obStatus := ObAbandoned\<rparr>)"

section \<open>Dead letters\<close>

definition park_row :: "string \<Rightarrow> Row \<Rightarrow> Row" where
  "park_row reason r =
     r\<lparr>rwJob := (rwJob r)\<lparr>jState := StateNeedsHuman, jEscalationReason := reason, jLeaseID := []\<rparr>,
       rwBoundIdentity := None, rwLeaseHbDue := None\<rparr>"

definition park_event :: "string \<Rightarrow> Job \<Rightarrow> string \<Rightarrow> string \<Rightarrow> string \<Rightarrow> int \<Rightarrow> int \<Rightarrow> Event" where
  "park_event i j actor revoke reason now seq =
     fenced_event i seq KindStateChanged (jState j) StateNeedsHuman (jLeaseEpoch j) actor now
       (zero_payload\<lparr>pRevokeReason := revoke, pEscalationReason := reason\<rparr>)"

definition DeadLetterOutbox ::
  "DB \<Rightarrow> int \<Rightarrow> string \<Rightarrow> string \<Rightarrow> string \<Rightarrow> bool \<Rightarrow> int \<Rightarrow> store_error + DB" where
  "DeadLetterOutbox d rowID i reason detail escalate now =
     (let d0 = update_outbox (\<lambda>x. obID x = rowID)
                 (\<lambda>x. x\<lparr>obStatus := ObAbandoned, obAttempts := obAttempts x + 1\<rparr>) d in
      if \<not> escalate then Inr d0
      else and_then (loadJobTx d0 i) (\<lambda>(r, j, seq).
        if jState j \<in> {StateDone, StateNeedsHuman, StateCancelled} then Inr d0
        else one_step i (seq + 1) (park_event i j ''project-out'' (take 500 detail) reason now (seq + 1))
               (park_row reason) id d0))"

end
