(* ===== verification/Store_Reconcile.thy ===== *)
theory Store_Reconcile
  imports Store_Outbox
begin

text \<open>
  The store side of reconcile-IN, \<open>internal/store/reconcile.go\<close>: the ingest of one
  pull request's facts with its guards (terminal SHA, monotonic clock, the
  branch where Flowbee itself placed it) and the transitions a changed fact
  drives, with the outbox rows they enqueue or void.
\<close>

section \<open>Branches\<close>

definition resolveIssueNumTx :: "DB \<Rightarrow> Job \<Rightarrow> int" where
  "resolveIssueNumTx d j =
     (if jIssueNum j > 0 then jIssueNum j
      else if jFlowID j \<noteq> [] \<and> jFlowID j \<noteq> jID j
      then (case find_row d (jFlowID j) of None \<Rightarrow> 0 | Some r \<Rightarrow> jIssueNum (rwJob r))
      else 0)"

definition PRBranch :: "string \<Rightarrow> string" where
  "PRBranch i = ''flowbee/'' @ i"

definition IssueBranch :: "int \<Rightarrow> string \<Rightarrow> string" where
  "IssueBranch n i = (if n > 0 then ''flowbee/issue-'' @ dec_int n else PRBranch i)"

section \<open>The facts of one pull request\<close>

text \<open>An instant of 0 is Go's zero time; \<open>rpFailingCheckURLs\<close> is a map from check to URL.\<close>

record ReconciledPR =
  rpNumber :: int
  rpUpdatedAt :: int
  rpIsDraft :: bool
  rpMerged :: bool
  rpHeadSHA :: string
  rpBaseSHA :: string
  rpMergeCommit :: string
  rpCIGreen :: bool
  rpMergeableState :: string
  rpCIFailed :: bool
  rpFailingChecks :: "string list"
  rpFailingCheckURLs :: "string \<Rightarrow> string"
  rpClosedUnmerged :: bool
  rpMainCIRed :: bool

record ReconcileOutcome =
  ocApplied :: bool
  ocSuperseded :: bool
  ocFrozen :: bool
  ocDone :: bool

definition no_outcome :: ReconcileOutcome where
  "no_outcome = \<lparr>ocApplied = False, ocSuperseded = False, ocFrozen = False, ocDone = False\<rparr>"

fun ci_failure_lines :: "(string \<Rightarrow> string) \<Rightarrow> string list \<Rightarrow> string list" where
  "ci_failure_lines urls [] = []"
| "ci_failure_lines urls (name # names) =
     (if name = [] then ci_failure_lines urls names
      else if urls name \<noteq> [] then (name @ '' ('' @ urls name @ '')'') # ci_failure_lines urls names
      else name # ci_failure_lines urls names)"

definition FormatCIFailures :: "string list \<Rightarrow> (string \<Rightarrow> string) \<Rightarrow> string" where
  "FormatCIFailures failingChecks checkURLs =
     (if length failingChecks = 0 then []
      else join_with [newline] (ci_failure_lines checkURLs failingChecks))"

fun supersedable :: "State \<Rightarrow> bool" where
  "supersedable StateLeased = True"
| "supersedable StateBuilding = True"
| "supersedable StateReviewPending = True"
| "supersedable StateCodeReview = True"
| "supersedable StateMergeable = True"
| "supersedable StateMerging = True"
| "supersedable StateMergeHandoff = True"
| "supersedable _ = False"

fun prBoundActive :: "State \<Rightarrow> bool" where
  "prBoundActive StateReviewPending = True"
| "prBoundActive StateCodeReview = True"
| "prBoundActive StateMergeable = True"
| "prBoundActive StateMerging = True"
| "prBoundActive StateMergeHandoff = True"
| "prBoundActive StateResolvingConflict = True"
| "prBoundActive _ = False"

definition pr_facts :: "ReconciledPR \<Rightarrow> DomainBFacts" where
  "pr_facts pr =
     \<lparr>dbPRExists = True, dbPRNumber = rpNumber pr, dbHeadSHA = rpHeadSHA pr, dbBaseSHA = rpBaseSHA pr,
      dbCIGreen = rpCIGreen pr, dbMerged = rpMerged pr, dbMergeableState = rpMergeableState pr\<rparr>"

definition pr_marks :: "ReconciledPR \<Rightarrow> FactMarks" where
  "pr_marks pr = \<lparr>fmHeadUpdatedAt = rpUpdatedAt pr, fmMergeCommit = rpMergeCommit pr,
     fmIsDraft = rpIsDraft pr\<rparr>"

definition upsertDomainBFactsTx :: "string \<Rightarrow> ReconciledPR \<Rightarrow> DB \<Rightarrow> DB" where
  "upsertDomainBFactsTx i pr d =
     d\<lparr>tbFacts := (tbFacts d)(i \<mapsto> pr_facts pr), tbMarks := (tbMarks d)(i := pr_marks pr)\<rparr>"

section \<open>The transitions\<close>

definition reconcile_event :: "Job \<Rightarrow> EventKind \<Rightarrow> State \<Rightarrow> int \<Rightarrow> int \<Rightarrow> Payload \<Rightarrow> Event" where
  "reconcile_event j k to now seq pay =
     fenced_event (jID j) seq k (jState j) to (jLeaseEpoch j) ''reconcile'' now pay"

definition reconcileTransitionTx ::
  "Job \<Rightarrow> int \<Rightarrow> State \<Rightarrow> EventKind \<Rightarrow> int \<Rightarrow> Payload \<Rightarrow> DB \<Rightarrow> store_error + DB" where
  "reconcileTransitionTx j seq to k now pay =
     one_step (jID j) (seq + 1) (reconcile_event j k to now (seq + 1) pay) (set_state_row to) id"

definition post_merge_row :: "string \<Rightarrow> Row \<Rightarrow> Row" where
  "post_merge_row ciFails r =
     r\<lparr>rwJob := (rwJob r)\<lparr>jState := StateNeedsHuman,
         jEscalationReason := escalation_str EscalationPostMergeCI, jLastCIFailures := ciFails,
         jLeaseID := []\<rparr>,
       rwBoundIdentity := None, rwBoundModelFamily := None, rwLeaseHbDue := None\<rparr>"

definition postMergeCIFailureTx ::
  "Job \<Rightarrow> int \<Rightarrow> int \<Rightarrow> string list \<Rightarrow> (string \<Rightarrow> string) \<Rightarrow> DB \<Rightarrow> store_error + DB" where
  "postMergeCIFailureTx j seq now failingChecks checkURLs =
     (let ciFails = FormatCIFailures failingChecks checkURLs in
      one_step (jID j) (seq + 1)
        (reconcile_event j KindStateChanged StateNeedsHuman now (seq + 1)
           (zero_payload\<lparr>pEscalationReason := escalation_str EscalationPostMergeCI,
                         pCIFailures := ciFails\<rparr>))
        (post_merge_row ciFails) id)"

definition escalatePRClosedTx :: "Job \<Rightarrow> int \<Rightarrow> int \<Rightarrow> DB \<Rightarrow> store_error + DB" where
  "escalatePRClosedTx j seq now =
     one_step (jID j) (seq + 1)
       (park_event (jID j) j ''reconcile'' ''human closed the PR without merging''
          (escalation_str EscalationPRClosed) now (seq + 1))
       (park_row (escalation_str EscalationPRClosed)) id"

definition keep_or :: "string \<Rightarrow> string \<Rightarrow> string" where
  "keep_or new old = (if new \<noteq> [] then new else old)"

definition ci_exhausted_row :: "string \<Rightarrow> Row \<Rightarrow> Row" where
  "ci_exhausted_row ciFails r =
     r\<lparr>rwJob := (rwJob r)\<lparr>jState := StateNeedsHuman, jBounces := jBounces (rwJob r) + 1,
         jLastCIFailures := keep_or ciFails (jLastCIFailures (rwJob r)), jLeaseID := []\<rparr>,
       rwBoundIdentity := None, rwBoundModelFamily := None\<rparr>"

definition ci_bounced_row :: "string \<Rightarrow> int \<Rightarrow> Row \<Rightarrow> Row" where
  "ci_bounced_row ciFails now r =
     r\<lparr>rwJob := (rwJob r)\<lparr>jState := StateReady, jRole := RoleEngWorker,
         jRequiredCapabilities := [''role:eng_worker''], jBounces := jBounces (rwJob r) + 1,
         jLastCIFailures := keep_or ciFails (jLastCIFailures (rwJob r)), jEnqueuedAt := now,
         jLeaseID := []\<rparr>,
       rwPatchDiff := (if rwAdopted r then rwPatchDiff r else []),
       rwDeclaredBlastRadius := (if rwAdopted r then rwDeclaredBlastRadius r else []),
       rwReservationPaths := None, rwReservationWide := False,
       rwBoundIdentity := None, rwBoundModelFamily := None\<rparr>"

definition ciFailBounceTx ::
  "Job \<Rightarrow> int \<Rightarrow> int \<Rightarrow> string list \<Rightarrow> (string \<Rightarrow> string) \<Rightarrow> DB \<Rightarrow> store_error + DB" where
  "ciFailBounceTx j seq now failingChecks checkURLs =
     (let ciFails = FormatCIFailures failingChecks checkURLs;
          pay = zero_payload\<lparr>pBouncesDelta := 1, pCIFailures := ciFails\<rparr> in
      if jBounces j + 1 > jMaxBounces j
      then one_step (jID j) (seq + 1)
             (reconcile_event j KindBounceExhausted StateNeedsHuman now (seq + 1) pay)
             (ci_exhausted_row ciFails) id
      else one_step (jID j) (seq + 1)
             (reconcile_event j KindReviewBounced StateReady now (seq + 1) pay)
             (ci_bounced_row ciFails now) id)"

definition superseded_row :: "string \<Rightarrow> int \<Rightarrow> Row \<Rightarrow> Row" where
  "superseded_row base now r =
     r\<lparr>rwJob := (rwJob r)\<lparr>jState := StateReady, jRole := RoleEngWorker, jStage := ''build'',
         jRequiredCapabilities := [''role:eng_worker''], jBaseSHA := keep_or base (jBaseSHA (rwJob r)),
         jHeadSHA := [], jVerdict := None, jLeaseEpoch := jLeaseEpoch (rwJob r) + 1, jLeaseID := [],
         jEnqueuedAt := now\<rparr>,
       rwPatchDiff := [], rwDeclaredBlastRadius := [], rwReservationPaths := None,
       rwReservationWide := False, rwBoundIdentity := None, rwBoundModelFamily := None,
       rwLeaseHbDue := None, rwLeaseDeadline := None\<rparr>"

definition superseded_event :: "Job \<Rightarrow> ReconciledPR \<Rightarrow> string \<Rightarrow> int \<Rightarrow> int \<Rightarrow> string \<Rightarrow> Event" where
  "superseded_event j pr actor now seq ciFailures =
     fenced_event (jID j) seq KindSuperseded (jState j) StateReady (jLeaseEpoch j + 1) actor now
       (zero_payload\<lparr>pBaseSHA := rpBaseSHA pr, pHeadSHA := rpHeadSHA pr, pCIFailures := ciFailures\<rparr>)"

definition abandon_outbox :: "(OutboxRow \<Rightarrow> bool) \<Rightarrow> DB \<Rightarrow> DB" where
  "abandon_outbox q =
     update_outbox (\<lambda>x. obStatus x = ObPending \<and> q x) (\<lambda>x. x\<lparr>obStatus := ObAbandoned\<rparr>)"

definition abandon_stale :: "string \<Rightarrow> string \<Rightarrow> DB \<Rightarrow> DB" where
  "abandon_stale i sha =
     abandon_outbox (\<lambda>x. obJobID x = i \<and> obHeadSHA x \<noteq> [] \<and> (sha = [] \<or> obHeadSHA x \<noteq> sha))"

text \<open>The variadic \<open>ciFailures\<close> is the empty string when it is left out.\<close>

definition supersedeTx ::
  "Job \<Rightarrow> int \<Rightarrow> ReconciledPR \<Rightarrow> string \<Rightarrow> int \<Rightarrow> string \<Rightarrow> DB \<Rightarrow> store_error + DB" where
  "supersedeTx j seq pr actor now ciFailures =
     one_step (jID j) (seq + 1) (superseded_event j pr actor now (seq + 1) ciFailures)
       (superseded_row (rpBaseSHA pr) now)
       (\<lambda>d. close_leases (jID j) ''superseded'' (abandon_stale (jID j) (rpHeadSHA pr) d))"

section \<open>The base of the ready builds\<close>

definition base_row :: "string \<Rightarrow> Row \<Rightarrow> Row" where
  "base_row newBase r = r\<lparr>rwJob := (rwJob r)\<lparr>jBaseSHA := newBase\<rparr>\<rparr>"

definition base_event :: "Row \<Rightarrow> string \<Rightarrow> int \<Rightarrow> Event" where
  "base_event r newBase now =
     fenced_event (row_id r) (jJobSeq (rwJob r) + 1) KindBaseRefreshed StateEmpty StateEmpty
       (jLeaseEpoch (rwJob r)) ''reconcile'' now (zero_payload\<lparr>pBaseSHA := newBase\<rparr>)"

fun refresh_each :: "string \<Rightarrow> int \<Rightarrow> Row list \<Rightarrow> DB \<Rightarrow> store_error + DB" where
  "refresh_each newBase now [] d = Inr d"
| "refresh_each newBase now (r # rs) d =
     and_then (one_step (row_id r) (jJobSeq (rwJob r) + 1) (base_event r newBase now)
       (base_row newBase) id d) (refresh_each newBase now rs)"

definition stale_ready :: "string \<Rightarrow> string \<Rightarrow> string \<Rightarrow> Row \<Rightarrow> bool" where
  "stale_ready repo mergedID newBase r \<longleftrightarrow>
     jState (rwJob r) = StateReady \<and> jKind (rwJob r) = KindBuild \<and> jRepo (rwJob r) = repo
     \<and> row_id r \<noteq> mergedID \<and> jBaseSHA (rwJob r) \<noteq> newBase"

definition refreshReadyBaseTx ::
  "string \<Rightarrow> string \<Rightarrow> string \<Rightarrow> int \<Rightarrow> DB \<Rightarrow> store_error + (DB \<times> int)" where
  "refreshReadyBaseTx repo mergedID newBase now d =
     (let rs = filter (stale_ready repo mergedID newBase) (tbJobs d) in
      and_then (refresh_each newBase now rs d) (\<lambda>d'. Inr (d', int (length rs))))"

definition RefreshStaleReadyBuilds :: "DB \<Rightarrow> string \<Rightarrow> string \<Rightarrow> int \<Rightarrow> store_error + (DB \<times> int)" where
  "RefreshStaleReadyBuilds d repo mainTip now =
     (if mainTip = [] then Inr (d, 0) else refreshReadyBaseTx repo [] mainTip now d)"

section \<open>The ingest\<close>

definition flowbeePlaced :: "Job \<Rightarrow> ReconciledPR \<Rightarrow> bool" where
  "flowbeePlaced j pr \<longleftrightarrow>
     jHeadSHA j \<noteq> [] \<and> rpHeadSHA pr = jHeadSHA j
     \<and> (jBaseSHA j = [] \<or> rpBaseSHA pr = [] \<or> rpBaseSHA pr = jBaseSHA j)"

definition verdictStale :: "Job \<Rightarrow> ReconciledPR \<Rightarrow> bool" where
  "verdictStale j pr \<longleftrightarrow>
     (case jVerdict j of None \<Rightarrow> False | Some v \<Rightarrow> \<not> verdict_Verify v (rpHeadSHA pr) (rpBaseSHA pr))"

definition shaMoved :: "Job \<Rightarrow> DomainBFacts \<Rightarrow> ReconciledPR \<Rightarrow> bool" where
  "shaMoved j prior pr \<longleftrightarrow>
     \<not> rpMerged pr \<and> \<not> flowbeePlaced j pr
     \<and> (verdictStale j pr \<or> dbHeadSHA prior \<noteq> [] \<and> dbHeadSHA prior \<noteq> rpHeadSHA pr
        \<or> dbBaseSHA prior \<noteq> [] \<and> rpBaseSHA pr \<noteq> [] \<and> dbBaseSHA prior \<noteq> rpBaseSHA pr)"

definition merged_payload :: "string \<Rightarrow> Payload" where
  "merged_payload commit = zero_payload\<lparr>pMergeProvenance := commit\<rparr>"

text \<open>The completion of a merged job: done, its history, its siblings' base, its branch.\<close>

definition delete_branch :: "Job \<Rightarrow> DB \<Rightarrow> DB" where
  "delete_branch j d =
     (let br = IssueBranch (resolveIssueNumTx d j) (jID j) in
      if HasPrefix br ''flowbee/''
      then enqueueOutboxTx (outbox_row (jID j) ActionDeleteBranch [] [(''branch'', JStr br)]) d
      else d)"

definition complete_merged :: "Job \<Rightarrow> int \<Rightarrow> ReconciledPR \<Rightarrow> int \<Rightarrow> DB \<Rightarrow> store_error + DB" where
  "complete_merged j seq pr now d =
     and_then (reconcileTransitionTx j seq StateDone KindJobCompleted now
                 (merged_payload (rpMergeCommit pr)) d) (\<lambda>d1.
     and_then (if rpMergeCommit pr \<noteq> []
               then refreshReadyBaseTx (jRepo j) (jID j) (rpMergeCommit pr) now
                      (enqueueHistoryWriteTx (jID j) d1)
               else Inr (enqueueHistoryWriteTx (jID j) d1, 0)) (\<lambda>(d2, n).
     Inr (delete_branch j d2)))"

definition eviction_payload :: Payload where
  "eviction_payload = zero_payload\<lparr>pRevokeReason := ''needs_human eviction: PR closed without merging''\<rparr>"

text \<open>
  The switch that follows the write of the facts (\<open>d\<close> holds them already);
  \<open>moved\<close> was computed from the facts before.
\<close>

definition reconcile_switch ::
  "Job \<Rightarrow> int \<Rightarrow> bool \<Rightarrow> ReconciledPR \<Rightarrow> int \<Rightarrow> DB \<Rightarrow> store_error + (DB \<times> ReconcileOutcome)" where
  "reconcile_switch j seq moved pr now d =
     (let ok = no_outcome\<lparr>ocApplied := True\<rparr>;
          applied = (\<lambda>d'. Inr (d', ok)); done = (\<lambda>d'. Inr (d', ok\<lparr>ocDone := True\<rparr>)) in
      if rpMerged pr \<and> rpMergeCommit pr \<noteq> [] \<and> rpCIFailed pr \<and> prBoundActive (jState j)
      then and_then (postMergeCIFailureTx j seq now (rpFailingChecks pr) (rpFailingCheckURLs pr) d) applied
      else if rpMerged pr \<and> rpMergeCommit pr \<noteq> [] \<and> rpCIGreen pr \<and> prBoundActive (jState j)
      then and_then (complete_merged j seq pr now d) done
      else if rpClosedUnmerged pr \<and> prBoundActive (jState j)
      then and_then (escalatePRClosedTx j seq now d) applied
      else if jState j = StateNeedsHuman \<and> rpMerged pr \<and> rpMergeCommit pr \<noteq> []
      then and_then (reconcileTransitionTx j seq StateDone KindJobCompleted now
             (merged_payload (rpMergeCommit pr)) d) done
      else if jState j = StateNeedsHuman \<and> rpClosedUnmerged pr
      then and_then (reconcileTransitionTx j seq StateCancelled KindStateChanged now
             eviction_payload d) applied
      else if moved \<and> supersedable (jState j)
      then and_then (supersedeTx j seq pr ''reconcile'' now [] d)
             (\<lambda>d'. Inr (d', ok\<lparr>ocSuperseded := True\<rparr>))
      else if rpCIFailed pr \<and> jState j = StateReviewPending \<and> rpMainCIRed pr then applied d
      else if rpCIFailed pr \<and> jState j = StateReviewPending
      then and_then (ciFailBounceTx j seq now (rpFailingChecks pr) (rpFailingCheckURLs pr) d) applied
      else applied d)"

definition ApplyReconciledPR ::
  "DB \<Rightarrow> string \<Rightarrow> ReconciledPR \<Rightarrow> int \<Rightarrow> store_error + (DB \<times> ReconcileOutcome)" where
  "ApplyReconciledPR d i pr now =
     and_then (loadJobTx d i) (\<lambda>(r, j, seq).
     let marks = tbMarks d i in
     if fmMergeCommit marks \<noteq> []
     then (if prBoundActive (jState j)
           then and_then (reconcileTransitionTx j seq StateDone KindJobCompleted now
                  (merged_payload (fmMergeCommit marks)) d)
                  (\<lambda>d1. Inr (enqueueHistoryWriteTx i d1, no_outcome\<lparr>ocDone := True\<rparr>))
           else Inr (d, no_outcome\<lparr>ocFrozen := True\<rparr>))
     else if fmHeadUpdatedAt marks \<noteq> 0 \<and> rpUpdatedAt pr \<noteq> 0 \<and> rpUpdatedAt pr < fmHeadUpdatedAt marks
     then Inr (d, no_outcome)
     else reconcile_switch j seq (shaMoved j (domainBFactsTx d i) pr) pr now
            (upsertDomainBFactsTx i pr d))"

section \<open>Pull request numbers\<close>

definition bind_pr_row :: "int \<Rightarrow> Row \<Rightarrow> Row" where
  "bind_pr_row n r = r\<lparr>rwJob := (rwJob r)\<lparr>jPRNumber := n\<rparr>\<rparr>"

definition BindPRNumber :: "string \<Rightarrow> int \<Rightarrow> DB \<Rightarrow> DB" where
  "BindPRNumber i n = update_row i (bind_pr_row n)"

end
