(* ===== verification/Store_Project_Out.thy ===== *)
theory Store_Project_Out
  imports Store_Reconcile
begin

text \<open>
  The writes project-OUT asks for and the answers it records,
  \<open>internal/store/projectout.go\<close>: opening the pull request, commenting, stamping
  its number, enqueueing the merge of a verified verdict, and the two ways a
  merge authorization is taken back.
\<close>

definition EnqueuePROpen :: "DB \<Rightarrow> string \<Rightarrow> string \<Rightarrow> string \<Rightarrow> store_error + (DB \<times> bool)" where
  "EnqueuePROpen d i headSHA baseRef = (case find_row d i of
     None \<Rightarrow> Inl ErrNoRows
   | Some r \<Rightarrow>
       if jPRNumber (rwJob r) > 0 then Inr (d, False)
       else Inr (enqueueOutboxTx (outbox_row i ActionOpenPR headSHA
              [(''base_ref'', JStr baseRef), (''draft'', JBool True),
               (''head_ref'', JStr (coalesce (rwHeadRef r)))]) d, True))"

definition EnqueueIssueComment :: "DB \<Rightarrow> string \<Rightarrow> string \<Rightarrow> string \<Rightarrow> DB \<times> bool" where
  "EnqueueIssueComment d i body dedupeKey =
     (enqueueOutboxTx (outbox_row i ActionComment dedupeKey [(''body'', JStr body)]) d, True)"

definition pr_opened_event :: "string \<Rightarrow> Job \<Rightarrow> int \<Rightarrow> string \<Rightarrow> int \<Rightarrow> int \<Rightarrow> Event" where
  "pr_opened_event i j n headSHA now seq =
     fenced_event i seq KindPROpened (jState j) (jState j) (jLeaseEpoch j) ''project-out'' now
       (zero_payload\<lparr>pPRNumber := n, pHeadSHA := headSHA\<rparr>)"

definition stamp_row :: "int \<Rightarrow> string \<Rightarrow> Row \<Rightarrow> Row" where
  "stamp_row n headSHA r =
     r\<lparr>rwJob := (rwJob r)\<lparr>jPRNumber := n, jHeadSHA := keep_or headSHA (jHeadSHA (rwJob r))\<rparr>\<rparr>"

text \<open>The facts of a pull request of which only the number and SHAs are known.\<close>

definition bare_pr :: "int \<Rightarrow> string \<Rightarrow> string \<Rightarrow> ReconciledPR" where
  "bare_pr n headSHA baseSHA =
     \<lparr>rpNumber = n, rpUpdatedAt = 0, rpIsDraft = False, rpMerged = False, rpHeadSHA = headSHA,
      rpBaseSHA = baseSHA, rpMergeCommit = [], rpCIGreen = False, rpMergeableState = [],
      rpCIFailed = False, rpFailingChecks = [], rpFailingCheckURLs = (\<lambda>_. []),
      rpClosedUnmerged = False, rpMainCIRed = False\<rparr>"

definition StampPRNumber ::
  "DB \<Rightarrow> string \<Rightarrow> int \<Rightarrow> string \<Rightarrow> string \<Rightarrow> int \<Rightarrow> store_error + DB" where
  "StampPRNumber d i n headSHA baseSHA now =
     and_then (loadJobTx d i) (\<lambda>(r, j, seq).
     one_step i (seq + 1) (pr_opened_event i j n headSHA now (seq + 1)) (stamp_row n headSHA)
       (upsertDomainBFactsTx i (bare_pr n headSHA baseSHA)) d)"

definition merge_authorized :: "Job \<Rightarrow> bool" where
  "merge_authorized j \<longleftrightarrow>
     (jState j = StateMerging \<or> jState j = StateMergeHandoff)
     \<and> (case jVerdict j of None \<Rightarrow> False | Some v \<Rightarrow> verdict_Verify v (jHeadSHA j) (jBaseSHA j))"

definition EnqueueMergeForJob :: "DB \<Rightarrow> string \<Rightarrow> store_error + (DB \<times> bool)" where
  "EnqueueMergeForJob d i = (case find_row d i of
     None \<Rightarrow> Inl ErrNoRows
   | Some r \<Rightarrow>
       if jPRNumber (rwJob r) \<le> 0 then Inr (d, False)
       else if \<not> merge_authorized (rwJob r) then Inr (d, False)
       else Inr (enqueueOutboxTx (outbox_row i ActionEnqueueMerge (jHeadSHA (rwJob r))
              [(''pr_number'', JInt (jPRNumber (rwJob r)))]) d, True))"

definition abandon_merges :: "string \<Rightarrow> DB \<Rightarrow> DB" where
  "abandon_merges i = abandon_outbox (\<lambda>x. obJobID x = i \<and> obAction x = ActionEnqueueMerge)"

definition restore_patch :: "string \<Rightarrow> string \<Rightarrow> Row \<Rightarrow> Row" where
  "restore_patch diff declared r = r\<lparr>rwPatchDiff := diff, rwDeclaredBlastRadius := declared\<rparr>"

definition InvalidateStaleMergeAuthorization :: "DB \<Rightarrow> string \<Rightarrow> int \<Rightarrow> store_error + DB" where
  "InvalidateStaleMergeAuthorization d i now =
     and_then (loadJobTx d i) (\<lambda>(r, j, seq).
     if jState j \<noteq> StateMerging \<and> jState j \<noteq> StateMergeHandoff then Inr (abandon_merges i d)
     else and_then (supersedeTx j seq (bare_pr 0 [] (jBaseSHA j)) ''project-out'' now [] d) (\<lambda>d1.
       Inr (if rwAdopted r \<and> rwPatchDiff r \<noteq> []
            then update_row i (restore_patch (rwPatchDiff r) (rwDeclaredBlastRadius r)) d1 else d1)))"

definition ci_failures_row :: "string \<Rightarrow> Row \<Rightarrow> Row" where
  "ci_failures_row msg r = r\<lparr>rwJob := (rwJob r)\<lparr>jLastCIFailures := msg\<rparr>\<rparr>"

definition RoutePostApprovalCIFailure ::
  "DB \<Rightarrow> string \<Rightarrow> string list \<Rightarrow> (string \<Rightarrow> string) \<Rightarrow> int \<Rightarrow> store_error + DB" where
  "RoutePostApprovalCIFailure d i failingChecks checkURLs now =
     and_then (loadJobTx d i) (\<lambda>(r, j, seq).
     if jState j \<noteq> StateMerging \<and> jState j \<noteq> StateMergeHandoff \<and> jState j \<noteq> StateMergeable then Inr d
     else let msg = FormatCIFailures failingChecks checkURLs in
       and_then (supersedeTx j seq (bare_pr 0 (jHeadSHA j) (jBaseSHA j)) ''project-out'' now msg d) (\<lambda>d1.
       Inr (abandon_merges i
         (if msg \<noteq> [] then update_row i (ci_failures_row msg) d1 else d1))))"

definition JobPR :: "DB \<Rightarrow> string \<Rightarrow> store_error + int" where
  "JobPR d i = (case find_row d i of None \<Rightarrow> Inl ErrNoRows | Some r \<Rightarrow> Inr (jPRNumber (rwJob r)))"

end
