(* ===== verification/Store_View.thy ===== *)
theory Store_View
  imports Store_Project_Out Engine_Facts Ledger_Facts
begin

text \<open>
  What a transaction does to one job: the view of a database maps a job id to
  its row and its events, and each transaction of the store is shown to change
  the view of its own job only, by a row update and a list of appended events
  (\<open>commit\<close>).  The properties of the store are proved from these effects.
\<close>

section \<open>The view and the primitives\<close>

type_synonym job_view = "string \<Rightarrow> Row option \<times> Event list"

definition events_of :: "DB \<Rightarrow> string \<Rightarrow> Event list" where
  "events_of d i = filter (\<lambda>e. eJobID e = i) (tbEvents d)"

definition view :: "DB \<Rightarrow> job_view" where
  "view d = (\<lambda>i. (find_row d i, events_of d i))"

definition commit :: "string \<Rightarrow> Row \<Rightarrow> Event list \<Rightarrow> job_view \<Rightarrow> job_view" where
  "commit i r es v = v(i := (Some r, snd (v i) @ es))"

definition set_seq :: "int \<Rightarrow> Row \<Rightarrow> Row" where
  "set_seq n r = r\<lparr>rwJob := (rwJob r)\<lparr>jJobSeq := n\<rparr>\<rparr>"

lemma fst_view: "fst (view d i) = find_row d i" and snd_view: "snd (view d i) = events_of d i"
  by (simp_all add: view_def)

lemma find_row_id: "find_row d i = Some r \<Longrightarrow> row_id r = i"
  by (auto simp: find_row_def find_Some_iff)

lemma find_map_id:
  "(\<And>r. row_id (f r) = row_id r) \<Longrightarrow>
   List.find (\<lambda>r. row_id r = j) (map (\<lambda>r. if row_id r = i then f r else r) rs) =
     (if j = i then map_option f (List.find (\<lambda>r. row_id r = j) rs)
      else List.find (\<lambda>r. row_id r = j) rs)"
  by (induction rs) auto

lemma view_update_row:
  assumes "\<And>r. row_id (f r) = row_id r" and "find_row d i = Some r"
  shows "view (update_row i f d) = commit i (f r) [] (view d)"
  using assms find_map_id [of f]
  by (auto simp: view_def commit_def update_row_def find_row_def events_of_def fun_eq_iff)

lemma row_id_simps [simp]:
  "row_id (set_seq n r) = row_id r" "row_id (claim_row p a r) = row_id r"
  "row_id (revoke_row t e n x r) = row_id r" "row_id (beat_row hp r) = row_id r"
  "row_id (result_row rp s r) = row_id r" "row_id (end_lease_row s r) = row_id r"
  "row_id (release_row s k r) = row_id r" "row_id (escalate_row x r) = row_id r"
  "row_id (set_state_row s r) = row_id r" "row_id (unblock_row n r) = row_id r"
  "row_id (requeue_row s ro st tg n r) = row_id r" "row_id (cancel_row r) = row_id r"
  "row_id (review_claim_row p r) = row_id r" "row_id (bounce_row vp b r) = row_id r"
  "row_id (accumulate_row vp r) = row_id r" "row_id (verdict_row s m b r) = row_id r"
  "row_id (r\<lparr>rwContentResult := c\<rparr>) = row_id r"
  by (simp_all add: row_id_def set_seq_def claim_row_def revoke_row_def beat_row_def result_row_def
      end_lease_row_def release_row_def escalate_row_def set_state_row_def unblock_row_def
      requeue_row_def cancel_row_def review_claim_row_def bounce_row_def accumulate_row_def
      verdict_row_def Let_def)

lemma row_id_review_row [simp]: "row_id (review_row p b s ts r) = row_id r"
proof -
  have "row_id (x\<lparr>rwJob := (rwJob x)\<lparr>jEscalationReason := e\<rparr>\<rparr>) = row_id x" for x e
    by (simp add: row_id_def)
  then show ?thesis by (simp add: review_row_def Let_def)
qed

lemma view_frame [simp]:
  "view (close_lease i n x d) = view d" "view (close_leases i x d) = view d"
  "view (fire_timers q d) = view d" "view (armTimerTx t d) = view d"
  "view (markTimerFired x d) = view d" "view (touch_worker x n d) = view d"
  "view (store_response i x rp d) = view d" "view (clear_ci i d) = view d"
  "view (UpsertDomainBFacts i f d) = view d" "view (RecordEpochCI i n x d) = view d"
  "view (d\<lparr>tbAlarms := al\<rparr>) = view d"
  by (simp_all add: view_def find_row_def events_of_def close_lease_def close_leases_def
      fire_timers_def armTimerTx_def markTimerFired_def touch_worker_def store_response_def
      clear_ci_def UpsertDomainBFacts_def RecordEpochCI_def)

lemma view_insert_lease: "insert_lease l d = Inr d' \<Longrightarrow> view d' = view d"
  by (auto simp: insert_lease_def view_def find_row_def events_of_def split: if_splits)

lemma view_armNoEligible: "armNoEligibleTimerTx cfg i e n d = Inr d' \<Longrightarrow> view d' = view d"
  by (auto simp: armNoEligibleTimerTx_def insert_timer_def view_def find_row_def events_of_def
      split: if_splits)

lemma view_appendEvent:
  "appendEvent e d = Inr d' \<Longrightarrow>
   view d' = (view d)(eJobID e := (find_row d (eJobID e), events_of d (eJobID e) @ [e]))"
  by (auto simp: appendEvent_def view_def find_row_def events_of_def fun_eq_iff split: if_splits)

lemma find_row_view: "view d' = v \<Longrightarrow> find_row d' j = fst (v j)"
  and events_of_view: "view d' = v \<Longrightarrow> events_of d' j = snd (v j)"
  by (auto simp: view_def)

lemma view_setJobSeq:
  "find_row d i = Some r \<Longrightarrow> view (setJobSeq i n d) = commit i (set_seq n r) [] (view d)"
  using view_update_row [of "set_seq n" d i r]
  by (simp add: setJobSeq_def set_seq_def [abs_def] row_id_def)

text \<open>A step on job \<open>i\<close>: from row \<open>r\<close> to row \<open>r'\<close>, appending \<open>es\<close>.\<close>

definition does :: "string \<Rightarrow> Row \<Rightarrow> Row \<Rightarrow> Event list \<Rightarrow> DB \<Rightarrow> DB \<Rightarrow> bool" where
  "does i r r' es d d' \<longleftrightarrow> find_row d i = Some r \<and> view d' = commit i r' es (view d)"

lemma commit_sel [simp]:
  "fst (commit i r es v i) = Some r" "snd (commit i r es v i) = snd (v i) @ es"
  "j \<noteq> i \<Longrightarrow> commit i r es v j = v j"
  by (simp_all add: commit_def)

lemma commit_commit [simp]: "commit i r' es' (commit i r es v) = commit i r' (es @ es') v"
  by (simp add: commit_def)

lemma commit_same: "v i = (Some r, es) \<Longrightarrow> commit i r [] v = v"
  by (simp add: commit_def fun_upd_idem)

lemma does_find: "does i r r' es d d' \<Longrightarrow> find_row d' i = Some r'"
  unfolding does_def by (metis commit_sel(1) fst_view)

lemma does_trans:
  "does i r r1 es d d1 \<Longrightarrow> does i r1 r2 es' d1 d2 \<Longrightarrow> does i r r2 (es @ es') d d2"
  by (simp add: does_def)

lemma does_frame: "find_row d i = Some r \<Longrightarrow> view d' = view d \<Longrightarrow> does i r r [] d d'"
  by (simp add: does_def commit_same view_def)

lemma does_update:
  "find_row d i = Some r \<Longrightarrow> (\<And>x. row_id (f x) = row_id x) \<Longrightarrow> does i r (f r) [] d (update_row i f d)"
  by (simp add: does_def view_update_row)

lemma does_seq: "find_row d i = Some r \<Longrightarrow> does i r (set_seq n r) [] d (setJobSeq i n d)"
  by (simp add: does_def view_setJobSeq)

lemma does_append:
  "find_row d i = Some r \<Longrightarrow> appendEvent e d = Inr d' \<Longrightarrow> eJobID e = i \<Longrightarrow> does i r r [e] d d'"
  using view_appendEvent [of e d d'] by (simp add: does_def commit_def snd_view)

text \<open>The events of a list of transitions, numbered on from \<open>n\<close>.\<close>

fun numbered :: "(Transition \<Rightarrow> int \<Rightarrow> Event) \<Rightarrow> int \<Rightarrow> Transition list \<Rightarrow> Event list" where
  "numbered ev n [] = []"
| "numbered ev n (t # ts) = ev t (n + 1) # numbered ev (n + 1) ts"

lemma does_transitions:
  assumes "append_transitions ev ts n d = Inr (d', m)" and "find_row d i = Some r"
    and "\<And>t k. eJobID (ev t k) = i"
  shows "does i r r (numbered ev n ts) d d' \<and> m = n + int (length ts)"
  using assms(1,2)
proof (induction ts arbitrary: n d)
  case Nil
  then show ?case by (simp add: does_frame)
next
  case (Cons t ts)
  then obtain d1 where d1: "appendEvent (ev t (n + 1)) d = Inr d1"
    and rest: "append_transitions ev ts (n + 1) d1 = Inr (d', m)"
    by (auto simp: and_then_Inr_iff)
  have step: "does i r r [ev t (n + 1)] d d1" using does_append [OF Cons.prems(2) d1] assms(3) by simp
  from Cons.IH [OF rest does_find [OF step]] does_trans [OF step] show ?case by fastforce
qed

lemma loadJobTx_Inr: "loadJobTx d i = Inr x \<longleftrightarrow> (\<exists>r. find_row d i = Some r \<and> x = (r, scanJob r, jJobSeq (rwJob r)))"
  by (auto simp: loadJobTx_def split: option.split)

lemma scanJob_sel [simp]:
  "jID (scanJob r) = row_id r" "jState (scanJob r) = jState (rwJob r)"
  "jJobSeq (scanJob r) = jJobSeq (rwJob r)" "jLeaseEpoch (scanJob r) = jLeaseEpoch (rwJob r)"
  "jKind (scanJob r) = jKind (rwJob r)" "jAttempts (scanJob r) = jAttempts (rwJob r)"
  "jMaxAttempts (scanJob r) = jMaxAttempts (rwJob r)" "jVerdict (scanJob r) = jVerdict (rwJob r)"
  "jBoundIdentity (scanJob r) = coalesce (rwBoundIdentity r)"
  "jBounces (scanJob r) = jBounces (rwJob r)" "jMaxBounces (scanJob r) = jMaxBounces (rwJob r)"
  "jStallRevocations (scanJob r) = jStallRevocations (rwJob r)"
  by (simp_all add: scanJob_def row_id_def)

lemma fenced_event_sel [simp]:
  "eJobID (fenced_event i n k f t e a w y) = i" "eJobSeq (fenced_event i n k f t e a w y) = n"
  "eKind (fenced_event i n k f t e a w y) = k" "eFromState (fenced_event i n k f t e a w y) = f"
  "eToState (fenced_event i n k f t e a w y) = t" "eLeaseEpoch (fenced_event i n k f t e a w y) = e"
  "eActor (fenced_event i n k f t e a w y) = a" "eCreatedAt (fenced_event i n k f t e a w y) = w"
  "ePayload (fenced_event i n k f t e a w y) = y"
  by (simp_all add: fenced_event_def)

end
