(* ===== verification/Store_Effects.thy ===== *)
theory Store_Effects
  imports Store_View
begin

text \<open>
  The effect of every transaction of the store on the view: the guards under
  which it succeeds, the row it leaves and the events it appends.  A successful
  transaction either leaves the view alone or \<open>does\<close> one step on its own job.
\<close>

section \<open>Claims\<close>

lemma ClaimReadyJob_does:
  assumes "ClaimReadyJob d p = Inr (d', n)"
  obtains r acct where "jState (rwJob r) = StateReady"
    and "CapabilitiesSatisfy (cpAttested p) (jRequiredCapabilities (rwJob r))"
    and "n = jLeaseEpoch (rwJob r) + 1"
    and "does (cpJobID p) r (set_seq (jJobSeq (rwJob r) + 1) (claim_row p acct r))
      [claim_ledger_event p KindLeaseClaimed StateReady StateLeased n (jJobSeq (rwJob r) + 1)] d d'"
proof -
  from assms obtain r acct d2 where r: "find_row d (cpJobID p) = Some r"
    and g: "jState (rwJob r) = StateReady"
      "CapabilitiesSatisfy (cpAttested p) (jRequiredCapabilities (rwJob r))"
      "n = jLeaseEpoch (rwJob r) + 1"
    and ap: "appendEvent (claim_ledger_event p KindLeaseClaimed StateReady StateLeased n
        (jJobSeq (rwJob r) + 1)) (update_row (cpJobID p) (claim_row p acct) d) = Inr d2"
    and ins: "insert_lease (claim_lease_row p n)
        (setJobSeq (cpJobID p) (jJobSeq (rwJob r) + 1) d2) = Inr d'"
    by (auto simp: ClaimReadyJob_def Let_def and_then_Inr_iff split: option.splits sum.splits if_splits)
  note s1 = does_update [OF r, of "claim_row p acct", simplified]
  note s2 = does_append [OF does_find [OF s1] ap]
  have "does (cpJobID p) r (claim_row p acct r)
      [claim_ledger_event p KindLeaseClaimed StateReady StateLeased n (jJobSeq (rwJob r) + 1)] d d2"
    using does_trans [OF s1 s2] by (simp add: claim_ledger_event_def)
  then have "does (cpJobID p) r (set_seq (jJobSeq (rwJob r) + 1) (claim_row p acct r))
      [claim_ledger_event p KindLeaseClaimed StateReady StateLeased n (jJobSeq (rwJob r) + 1)] d d'"
    using does_trans [OF _ does_seq [OF does_find]] view_insert_lease [OF ins]
    by (fastforce simp: does_def)
  with g show ?thesis by (rule that)
qed

lemma ClaimReviewJob_does:
  assumes "ClaimReviewJob d p = Inr (d', n)"
  obtains r where "jState (rwJob r) = StateReviewPending"
    and "CapabilitiesSatisfy (cpAttested p) (jRequiredCapabilities (rwJob r))"
    and "\<not> builder_conflict d p r" and "\<not> already_approved d p"
    and "n = jLeaseEpoch (rwJob r) + 1"
    and "does (cpJobID p) r (set_seq (jJobSeq (rwJob r) + 1) (review_claim_row p r))
      [claim_ledger_event p KindReviewClaimed StateReviewPending StateCodeReview n
         (jJobSeq (rwJob r) + 1)] d d'"
proof -
  from assms obtain r d2 where r: "find_row d (cpJobID p) = Some r"
    and g: "jState (rwJob r) = StateReviewPending"
      "CapabilitiesSatisfy (cpAttested p) (jRequiredCapabilities (rwJob r))"
      "\<not> builder_conflict d p r" "\<not> already_approved d p" "n = jLeaseEpoch (rwJob r) + 1"
    and ap: "appendEvent (claim_ledger_event p KindReviewClaimed StateReviewPending StateCodeReview n
        (jJobSeq (rwJob r) + 1)) (update_row (cpJobID p) (review_claim_row p) d) = Inr d2"
    and ins: "insert_lease (claim_lease_row p n)
        (setJobSeq (cpJobID p) (jJobSeq (rwJob r) + 1) d2) = Inr d'"
    by (auto simp: ClaimReviewJob_def Let_def and_then_Inr_iff split: option.splits sum.splits if_splits)
  note s1 = does_update [OF r, of "review_claim_row p", simplified]
  note s2 = does_append [OF does_find [OF s1] ap]
  have "does (cpJobID p) r (review_claim_row p r)
      [claim_ledger_event p KindReviewClaimed StateReviewPending StateCodeReview n
         (jJobSeq (rwJob r) + 1)] d d2"
    using does_trans [OF s1 s2] by (simp add: claim_ledger_event_def)
  then have "does (cpJobID p) r (set_seq (jJobSeq (rwJob r) + 1) (review_claim_row p r))
      [claim_ledger_event p KindReviewClaimed StateReviewPending StateCodeReview n
         (jJobSeq (rwJob r) + 1)] d d'"
    using does_trans [OF _ does_seq [OF does_find]] view_insert_lease [OF ins]
    by (fastforce simp: does_def)
  with g show ?thesis by (rule that)
qed

section \<open>Revocations\<close>

definition revoke_event :: "string \<Rightarrow> Row \<Rightarrow> Transition \<Rightarrow> int \<Rightarrow> string \<Rightarrow> Event" where
  "revoke_event i r t now esc =
     fenced_event i (jJobSeq (rwJob r) + 1) (tKind t) (tFrom t) (tTo t) (new_epoch (scanJob r) t)
       ''system'' now (revoke_payload t esc)"

definition revoked :: "Row \<Rightarrow> Transition \<Rightarrow> int \<Rightarrow> string \<Rightarrow> Row" where
  "revoked r t now esc =
     set_seq (jJobSeq (rwJob r) + 1) (revoke_row t (new_epoch (scanJob r) t) now esc r)"

lemma applyRevokeTx_does:
  assumes "find_row d i = Some r"
    and "applyRevokeTx (scanJob r) (jJobSeq (rwJob r)) t (new_epoch (scanJob r) t) now esc d = Inr d'"
  shows "does i r (revoked r t now esc) [revoke_event i r t now esc] d d'"
proof -
  have i: "row_id r = i" using assms(1) by (rule find_row_id)
  from assms(2) obtain d1 where ap: "appendEvent (revoke_event i r t now esc) d = Inr d1"
    and d': "view d' = view (setJobSeq i (jJobSeq (rwJob r) + 1)
        (update_row i (revoke_row t (new_epoch (scanJob r) t) now esc) d1))"
    by (auto simp: applyRevokeTx_def and_then_Inr_iff i revoke_event_def)
  note s1 = does_append [OF assms(1) ap]
  have s1': "does i r r [revoke_event i r t now esc] d d1" using s1 by (simp add: revoke_event_def)
  note s2 = does_update [OF does_find [OF s1'], of "revoke_row t (new_epoch (scanJob r) t) now esc", simplified]
  note s3 = does_seq [OF does_find [OF s2], of "jJobSeq (rwJob r) + 1"]
  show ?thesis
    using does_trans [OF does_trans [OF s1' s2] s3] d' by (simp add: does_def revoked_def)
qed

lemma EvaluateLiveness_does:
  assumes "EvaluateLiveness d i now cfg brk = Inr (d', res)"
  obtains "d' = d"
  | r t ts lv esc where "LivenessEvaluable (jState (rwJob r))"
    and "dTransitions (decide_liveness (bare_state (scanJob r) now) lv) = t # ts"
    and "esc = (if tTo t = StateNeedsHuman
                then (if lvAttemptsExhausted lv \<and> \<not> lvGovernorCeilingReached lv
                      then escalation_str EscalationAttempts else escalation_str EscalationStall)
                else [])"
    and "does i r (revoked r t now esc) [revoke_event i r t now esc] d d'"
proof (cases "d' = d")
  case False
  from assms obtain r where r: "find_row d i = Some r"
    by (auto simp: EvaluateLiveness_def and_then_Inr_iff loadJobTx_Inr)
  define lv where "lv = \<lparr>lvRungs = row_rungs r now cfg brk,
      lvGovernorCeilingReached = lcGovernorCeiling cfg > 0
        \<and> jStallRevocations (rwJob r) + 1 \<ge> lcGovernorCeiling cfg,
      lvAttemptsExhausted = jAttempts (rwJob r) + 1 \<ge> jMaxAttempts (rwJob r)\<rparr>"
  have sel: "lvAttemptsExhausted lv \<longleftrightarrow> jAttempts (rwJob r) + 1 \<ge> jMaxAttempts (rwJob r)"
    "lvGovernorCeilingReached lv \<longleftrightarrow> lcGovernorCeiling cfg > 0
        \<and> jStallRevocations (rwJob r) + 1 \<ge> lcGovernorCeiling cfg"
    by (simp_all add: lv_def)
  from assms False obtain t ts where g: "LivenessEvaluable (jState (rwJob r))"
    and ts: "dTransitions (decide_liveness (bare_state (scanJob r) now) lv) = t # ts"
    and ap: "applyRevokeTx (scanJob r) (jJobSeq (rwJob r)) t (new_epoch (scanJob r) t) now
        (if tTo t = StateNeedsHuman
                then (if lvAttemptsExhausted lv \<and> \<not> lvGovernorCeilingReached lv
                      then escalation_str EscalationAttempts else escalation_str EscalationStall)
                else []) d = Inr d'"
    by (auto simp: EvaluateLiveness_def loadJobTx_Inr r Let_def sel lv_def [symmetric] and_then_Inr_iff
        split: if_splits list.splits)
  from applyRevokeTx_does [OF r ap] g ts that(2) show ?thesis by blast
qed (rule that(1))

lemma FireLeaseDeadline_view:
  assumes "FireLeaseDeadline d t now cfg brk = Inr (d', res)"
  obtains "view d' = view d"
  | d1 where "EvaluateLiveness d (tmJobID t) now cfg brk = Inr (d1, res)" and "view d' = view d1"
  using assms that
  by (auto simp: FireLeaseDeadline_def and_then_Inr_iff split: option.splits if_splits)

lemma Heartbeat_tx_does:
  assumes "Heartbeat_tx d p = Inr (d', dir)"
  obtains r t ts where "dTransitions (decide_heartbeat (bare_state (scanJob r) (hpNow p))
        \<lparr>hbEpoch = hpEpoch p, hbHealth = hpHealth p, hbAwaitingInput = hpAwaitingInput p,
         hbAgentExited = hpAgentExited p\<rparr>) = t # ts"
    and "hpEpoch p = jLeaseEpoch (rwJob r)"
    and "does (hpJobID p) r (revoked r t (hpNow p) []) [revoke_event (hpJobID p) r t (hpNow p) []] d d'"
  | r where "hpEpoch p = jLeaseEpoch (rwJob r)" and "does (hpJobID p) r (set_seq (jJobSeq (rwJob r) + 1) (beat_row p r))
      [fenced_event (hpJobID p) (jJobSeq (rwJob r) + 1) KindHeartbeat (jState (rwJob r))
         (jState (rwJob r)) (jLeaseEpoch (rwJob r)) (coalesce (rwBoundIdentity r)) (hpNow p)
         zero_payload] d d'"
proof -
  let ?hb = "\<lparr>hbEpoch = hpEpoch p, hbHealth = hpHealth p, hbAwaitingInput = hpAwaitingInput p,
         hbAgentExited = hpAgentExited p\<rparr>"
  from assms obtain r where r: "find_row d (hpJobID p) = Some r"
    and ok: "dReject (decide_heartbeat (bare_state (scanJob r) (hpNow p)) ?hb) = None"
    by (auto simp: Heartbeat_tx_def and_then_Inr_iff loadJobTx_Inr Let_def split: if_splits)
  let ?dec = "decide_heartbeat (bare_state (scanJob r) (hpNow p)) ?hb"
  have fresh: "hpEpoch p = jLeaseEpoch (rwJob r)"
    using ok by (auto simp: decide_heartbeat_def bare_state_def staleEpoch_def split: if_splits)
  show ?thesis
  proof (cases "dTransitions ?dec")
    case (Cons t ts)
    with assms ok r have "applyRevokeTx (scanJob r) (jJobSeq (rwJob r)) t (new_epoch (scanJob r) t)
        (hpNow p) [] d = Inr d'"
      by (auto simp: Heartbeat_tx_def loadJobTx_Inr and_then_Inr_iff Let_def)
    from that(1) [OF Cons fresh applyRevokeTx_does [OF r this]] show ?thesis .
  next
    case Nil
    let ?e = "fenced_event (hpJobID p) (jJobSeq (rwJob r) + 1) KindHeartbeat (jState (rwJob r))
         (jState (rwJob r)) (jLeaseEpoch (rwJob r)) (coalesce (rwBoundIdentity r)) (hpNow p)
         zero_payload"
    from Nil assms ok r obtain d2
      where ap: "appendEvent ?e (touch_worker (coalesce (rwBoundIdentity r)) (hpNow p)
          (update_row (hpJobID p) (beat_row p) d)) = Inr d2"
      and d': "d' = setJobSeq (hpJobID p) (jJobSeq (rwJob r) + 1) d2"
      by (auto simp: Heartbeat_tx_def loadJobTx_Inr and_then_Inr_iff Let_def)
    have "does (hpJobID p) r (beat_row p r) [] d
        (touch_worker (coalesce (rwBoundIdentity r)) (hpNow p) (update_row (hpJobID p) (beat_row p) d))"
      using does_update [OF r, of "beat_row p"] by (simp add: does_def)
    note s = does_trans [OF this does_append [OF does_find [OF this] ap]]
    have "does (hpJobID p) r (beat_row p r) [?e] d d2" using s by simp
    from does_trans [OF this does_seq [OF does_find [OF this]]] d' fresh show ?thesis
      by (auto intro: that(2))
  qed
qed

section \<open>Results and releases\<close>

lemma work_result_transitions:
  assumes "dReject (decide_work_result s n) = None"
  shows "n = esEpoch s
    \<and> (jState (esJob s) = StateLeased \<and> dTransitions (decide_work_result s n) =
         [move StateLeased StateBuilding KindWorkerStarted,
          move StateBuilding StateReviewPending KindResultAccepted]
       \<or> jState (esJob s) = StateBuilding \<and> dTransitions (decide_work_result s n) =
         [move StateBuilding StateReviewPending KindResultAccepted])"
  using assms
  by (auto simp: decide_work_result_def staleEpoch_def Let_def split: if_splits)

definition result_done :: "ResultParams \<Rightarrow> Row \<Rightarrow> Transition list \<Rightarrow> Row" where
  "result_done p r ts =
     set_seq (jJobSeq (rwJob r) + int (length ts)) (result_row p StateReviewPending r)"

lemma Result_does:
  assumes "Result cfg d p = Inr (d', resp)"
    and "cached_response d (rsJobID p) (rsIdempotencyKey p) = None"
  obtains r ts where "rsEpoch p = jLeaseEpoch (rwJob r)"
    and "jState (rwJob r) = StateLeased \<and>
           ts = [move StateLeased StateBuilding KindWorkerStarted,
                 move StateBuilding StateReviewPending KindResultAccepted]
         \<or> jState (rwJob r) = StateBuilding \<and>
           ts = [move StateBuilding StateReviewPending KindResultAccepted]"
    and "does (rsJobID p) r (result_done p r ts)
      (numbered (result_event p (scanJob r)) (jJobSeq (rwJob r)) ts) d d'"
proof -
  let ?dec = "\<lambda>r. decide_work_result (bare_state (scanJob r) (rsNow p)) (rsEpoch p)"
  from assms obtain r where r: "find_row d (rsJobID p) = Some r" and ok: "dReject (?dec r) = None"
    by (auto simp: Result_def and_then_Inr_iff loadJobTx_Inr Let_def split: if_splits)
  define ts where "ts = dTransitions (?dec r)"
  have ts: "rsEpoch p = jLeaseEpoch (rwJob r)"
    "jState (rwJob r) = StateLeased \<and>
       ts = [move StateLeased StateBuilding KindWorkerStarted,
             move StateBuilding StateReviewPending KindResultAccepted]
     \<or> jState (rwJob r) = StateBuilding \<and>
       ts = [move StateBuilding StateReviewPending KindResultAccepted]"
    using work_result_transitions [OF ok] by (auto simp: ts_def bare_state_def)
  then have final: "final_state (jState (rwJob r)) ts = StateReviewPending"
    by (auto simp: final_state_def)
  from assms r ok obtain d1 d2 m where
    ap: "append_transitions (result_event p (scanJob r)) ts (jJobSeq (rwJob r)) d = Inr (d1, m)"
    and arm: "armNoEligibleTimerTx cfg (rsJobID p) (jLeaseEpoch (rwJob r)) (rsNow p)
      (clear_ci (rsJobID p) (update_row (rsJobID p) (result_row p StateReviewPending) d1)) = Inr d2"
    and d': "view d' = view (setJobSeq (rsJobID p) m d2)"
    by (auto simp: Result_def and_then_Inr_iff loadJobTx_Inr Let_def ts_def [symmetric] final)
  have s1: "does (rsJobID p) r r (numbered (result_event p (scanJob r)) (jJobSeq (rwJob r)) ts) d d1"
    and m: "m = jJobSeq (rwJob r) + int (length ts)"
    using does_transitions [OF ap r] by (simp_all add: result_event_def)
  note s2 = does_update [OF does_find [OF s1], of "result_row p StateReviewPending", simplified]
  have s3: "does (rsJobID p) r (result_row p StateReviewPending r) [] d1 d2"
    using s2 view_armNoEligible [OF arm] by (simp add: does_def)
  have "does (rsJobID p) r (result_done p r ts) [] d1 d'"
    using does_trans [OF s3 does_seq [OF does_find [OF s3], of m]] d' m
    by (simp add: does_def result_done_def)
  from does_trans [OF s1 this] ts show ?thesis by (auto intro: that)
qed

definition release_event :: "ReleaseParams \<Rightarrow> Row \<Rightarrow> Event" where
  "release_event p r =
     (let to = release_target (jState (rwJob r)) in
      fenced_event (rlJobID p) (jJobSeq (rwJob r) + 1) KindLeaseReleased (jState (rwJob r)) to
        (jLeaseEpoch (rwJob r)) (coalesce (rwBoundIdentity r)) (rlNow p)
        (zero_payload\<lparr>pAttemptsDelta := attempts_delta p to\<rparr>))"

definition exhausted_event :: "ReleaseParams \<Rightarrow> Row \<Rightarrow> Event" where
  "exhausted_event p r =
     fenced_event (rlJobID p) (jJobSeq (rwJob r) + 2) KindStateChanged
       (release_target (jState (rwJob r))) StateNeedsHuman (jLeaseEpoch (rwJob r))
       ''attempts-exhausted'' (rlNow p)
       (zero_payload\<lparr>pEscalationReason := escalation_str EscalationAttempts\<rparr>)"

definition released_row :: "ReleaseParams \<Rightarrow> Row \<Rightarrow> Row" where
  "released_row p r =
     (let to = release_target (jState (rwJob r)) in release_row to (attempts_delta p to) r)"

lemma released_row_id [simp]: "row_id (released_row p r) = row_id r"
  by (simp add: released_row_def Let_def)

lemma decide_release_ok:
  "dReject (decide_release s n) = None \<Longrightarrow> n = esEpoch s \<and> HasActiveLease (jState (esJob s))"
  by (auto simp: decide_release_def staleEpoch_def Let_def split: if_splits)

lemma Release_tx_does:
  assumes "Release_tx d p = Inr d'"
  obtains r where "rlEpoch p = jLeaseEpoch (rwJob r)" and "HasActiveLease (jState (rwJob r))"
    and "does (rlJobID p) r (set_seq (jJobSeq (rwJob r) + 1) (released_row p r)) [release_event p r] d d'"
  | r where "rlEpoch p = jLeaseEpoch (rwJob r)" and "HasActiveLease (jState (rwJob r))"
    and "does (rlJobID p) r (set_seq (jJobSeq (rwJob r) + 2)
          (escalate_row (escalation_str EscalationAttempts) (released_row p r)))
        [release_event p r, exhausted_event p r] d d'"
proof -
  from assms obtain r where r: "find_row d (rlJobID p) = Some r"
    and ok: "dReject (decide_release (bare_state (scanJob r) (rlNow p)) (rlEpoch p)) = None"
    by (auto simp: Release_tx_def and_then_Inr_iff loadJobTx_Inr split: if_splits)
  have g: "rlEpoch p = jLeaseEpoch (rwJob r)" "HasActiveLease (jState (rwJob r))"
    using decide_release_ok [OF ok] by (simp_all add: bare_state_def)
  let ?to = "release_target (jState (rwJob r))"
  let ?d2 = "\<lambda>d1. close_lease (rlJobID p) (jLeaseEpoch (rwJob r)) ''released''
      (update_row (rlJobID p) (release_row ?to (attempts_delta p ?to)) d1)"
  let ?esc = "escalation_str EscalationAttempts"
  let ?exh = "attempts_delta p ?to = 1 \<and> jMaxAttempts (rwJob r) > 0
      \<and> jAttempts (rwJob r) + 1 \<ge> jMaxAttempts (rwJob r)"
  from assms r ok obtain d1 where ap: "appendEvent (release_event p r) d = Inr d1"
    and rest: "(if ?exh
       then and_then (appendEvent (exhausted_event p r) (?d2 d1))
              (\<lambda>d3. Inr (setJobSeq (rlJobID p) (jJobSeq (rwJob r) + 2)
                 (update_row (rlJobID p) (escalate_row ?esc) d3)))
       else Inr (setJobSeq (rlJobID p) (jJobSeq (rwJob r) + 1) (?d2 d1))) = Inr d'"
    by (auto simp: Release_tx_def and_then_Inr_iff loadJobTx_Inr Let_def release_event_def
        exhausted_event_def cong: if_cong)
  have s1: "does (rlJobID p) r r [release_event p r] d d1"
    using does_append [OF r ap] by (simp add: release_event_def Let_def)
  have "does (rlJobID p) r (released_row p r) [] d1 (?d2 d1)"
    using does_update [OF does_find [OF s1], of "release_row ?to (attempts_delta p ?to)"]
    by (simp add: does_def released_row_def Let_def)
  then have s2: "does (rlJobID p) r (released_row p r) [release_event p r] d (?d2 d1)"
    using does_trans [OF s1] by fastforce
  show ?thesis
  proof (cases ?exh)
    case False
    then show ?thesis
      using rest that(1) [OF g] does_trans [OF s2 does_seq [OF does_find [OF s2]]] by auto
  next
    case True
    with rest obtain d3 where ap3: "appendEvent (exhausted_event p r) (?d2 d1) = Inr d3"
      and d': "d' = setJobSeq (rlJobID p) (jJobSeq (rwJob r) + 2)
          (update_row (rlJobID p) (escalate_row ?esc) d3)"
      by (auto simp: and_then_Inr_iff)
    have s3: "does (rlJobID p) r (released_row p r) [release_event p r, exhausted_event p r] d d3"
      using does_trans [OF s2 does_append [OF does_find [OF s2] ap3]]
      by (simp add: exhausted_event_def)
    note s4 = does_trans [OF s3 does_update [OF does_find [OF s3], of "escalate_row ?esc", simplified]]
    from does_trans [OF s4 does_seq [OF does_find [OF s4]]] d' show ?thesis
      by (auto intro: that(2) [OF g])
  qed
qed

section \<open>Reviews and dispatch\<close>

text \<open>The one transition of an accepted review result.\<close>

definition review_step ::
  "DB \<Rightarrow> Row \<Rightarrow> DomainBFacts \<Rightarrow> Policy \<Rightarrow> ReviewResultParams \<Rightarrow> Transition \<Rightarrow> bool" where
  "review_step d r facts pol p t \<longleftrightarrow>
     t = move StateCodeReview StateReviewPending KindReviewApproved
       \<and> rvClaim p = VerdictApproved
       \<and> prior_approvals d (rvJobID p) + 1 < RequiredReviewersOrDefault pol
     \<or> (\<exists>v. t = (move StateCodeReview StateMergeable KindVerdictMinted)\<lparr>tVerdict := Some v\<rparr>
          \<and> rvClaim p = VerdictApproved
          \<and> RequiredReviewersOrDefault pol \<le> prior_approvals d (rvJobID p) + 1
          \<and> gatePredicate (gate_facts d r facts) \<and> vValue v = VerdictApproved
          \<and> vHeadSHA v = dbHeadSHA facts \<and> vBaseSHA v = dbBaseSHA facts)
     \<or> t = (move StateCodeReview StateReady KindReviewBounced)\<lparr>tBouncesDelta := 1\<rparr>
     \<or> t = (move StateCodeReview StateNeedsHuman KindBounceExhausted)\<lparr>tBouncesDelta := 1\<rparr>"

lemma gate_facts_sel [simp]:
  "dbHeadSHA (gate_facts d r facts) = dbHeadSHA facts" "dbBaseSHA (gate_facts d r facts) = dbBaseSHA facts"
  "dbPRExists (gate_facts d r facts) = dbPRExists facts" "dbMerged (gate_facts d r facts) = dbMerged facts"
  by (simp_all add: gate_facts_def Let_def split: prod.split)

text \<open>Green facts agree with every head and base the job knows.\<close>

lemma gate_facts_green:
  assumes "gatePredicate (gate_facts d r facts)"
  shows "jHeadSHA (rwJob r) \<noteq> [] \<Longrightarrow> dbHeadSHA facts = jHeadSHA (rwJob r)"
    and "jBaseSHA (rwJob r) \<noteq> [] \<Longrightarrow> dbBaseSHA facts = jBaseSHA (rwJob r)"
    and "dbCIGreen facts" and "dbHeadSHA facts \<noteq> []" and "dbBaseSHA facts \<noteq> []"
  using assms
  by (auto simp: gatePredicate_def gate_facts_def Let_def split: prod.splits if_splits)

lemma review_decision_cases:
  assumes "dReject (review_decision cfg d r facts pol p) = None"
  obtains t where "rvEpoch p = jLeaseEpoch (rwJob r)" and "jState (rwJob r) = StateCodeReview"
    and "dTransitions (review_decision cfg d r facts pol p) = [t]" and "review_step d r facts pol p t"
proof -
  define s where "s = review_state (scanJob r) (rvNow p) (gate_facts d r facts) pol (contentResultTx cfg r)"
  define c where "c = \<lparr>rcEpoch = rvEpoch p, rcValue = rvClaim p, rcDisposition = rvDisposition p,
      rcReviewerPriorRejections = prior_rejections d (rvJobID p) (jBoundIdentity (scanJob r)),
      rcPriorApprovals = prior_approvals d (rvJobID p)\<rparr>"
  have dec: "review_decision cfg d r facts pol p = decide_review_claim s c"
    by (simp add: review_decision_def s_def c_def)
  have sel: "esEpoch s = jLeaseEpoch (rwJob r)" "jState (esJob s) = jState (rwJob r)"
    "esPolicy s = pol" "esGitHub s = gate_facts d r facts" "rcEpoch c = rvEpoch p"
    "rcValue c = rvClaim p" "rcPriorApprovals c = prior_approvals d (rvJobID p)"
    by (simp_all add: s_def c_def review_state_def)
  have g: "rvEpoch p = jLeaseEpoch (rwJob r)" "jState (rwJob r) = StateCodeReview"
    using assms unfolding dec
    by (auto simp: decide_review_claim_def sel staleEpoch_def split: if_splits)
  have step: "\<exists>t. dTransitions (decide_review_claim s c) = [t] \<and> review_step d r facts pol p t"
  proof (cases "rvClaim p = VerdictApproved \<and> gatePredicate (gate_facts d r facts)")
    case True
    then obtain v where v: "goVerdict (EvaluateGate (review_gate_inputs s c)) = Some v"
      by (simp add: EvaluateGate_verdict review_gate_inputs_def sel)
    then have "vValue v = VerdictApproved" "vHeadSHA v = dbHeadSHA facts" "vBaseSHA v = dbBaseSHA facts"
      by (auto simp: EvaluateGate_verdict review_gate_inputs_def sel split: if_splits)
    with True v g show ?thesis
      by (auto simp: decide_review_claim_fresh sel Let_def EvaluateGate_approved_iff review_step_def)
  next
    case False
    with g show ?thesis
      by (auto simp: decide_review_claim_fresh sel Let_def EvaluateGate_approved_iff review_step_def)
  qed
  with g dec that show ?thesis by auto
qed

definition reviewed_row :: "StoreCfg \<Rightarrow> DB \<Rightarrow> ReviewResultParams \<Rightarrow> Row \<Rightarrow> Transition \<Rightarrow> Row" where
  "reviewed_row cfg d p r t =
     review_row p (prior_rejections d (rvJobID p) (jBoundIdentity (scanJob r))) (tTo t) [t]
       (r\<lparr>rwContentResult := Some (contentResultTx cfg r)\<rparr>)"

definition review_events :: "DB \<Rightarrow> ReviewResultParams \<Rightarrow> Row \<Rightarrow> Transition \<Rightarrow> Event list" where
  "review_events d p r t =
     [verdict_claim_event p (scanJob r) (jJobSeq (rwJob r) + 1),
      review_event p (scanJob r) (prior_rejections d (rvJobID p) (jBoundIdentity (scanJob r))) t
        (jJobSeq (rwJob r) + 2)]"

lemma ReviewResult_does:
  assumes "ReviewResult cfg d facts pol p = Inr (d', resp)"
    and "cached_response d (rvJobID p) (rvIdempotencyKey p) = None"
  obtains r t where "rvEpoch p = jLeaseEpoch (rwJob r)" and "jState (rwJob r) = StateCodeReview"
    and "review_step d r facts pol p t"
    and "resp = answer (state_str (tTo t))
                 (case tVerdict t of None \<Rightarrow> [] | Some v \<Rightarrow> verdict_str (vValue v)) (tVerdict t \<noteq> None)"
    and "does (rvJobID p) r (set_seq (jJobSeq (rwJob r) + 2) (reviewed_row cfg d p r t))
      (review_events d p r t) d d'"
proof -
  from assms obtain r where r: "find_row d (rvJobID p) = Some r"
    and ok: "dReject (review_decision cfg d r facts pol p) = None"
    by (auto simp: ReviewResult_def and_then_Inr_iff loadJobTx_Inr Let_def split: if_splits)
  from ok obtain t where g: "rvEpoch p = jLeaseEpoch (rwJob r)" "jState (rwJob r) = StateCodeReview"
    and ts: "dTransitions (review_decision cfg d r facts pol p) = [t]"
    and st: "review_step d r facts pol p t"
    by (rule review_decision_cases)
  let ?prior = "prior_rejections d (rvJobID p) (jBoundIdentity (scanJob r))"
  let ?seq = "jJobSeq (rwJob r)"
  let ?c = "verdict_claim_event p (scanJob r) (?seq + 1)"
  let ?e = "review_event p (scanJob r) ?prior t (?seq + 2)"
  let ?f = "\<lambda>r. r\<lparr>rwContentResult := Some (contentResultTx cfg r)\<rparr>"
  have minted: "minted_verdict [t] = tVerdict t" and final: "final_state s [t] = tTo t" for s
    by (simp_all add: minted_verdict_def final_state_def)
  from assms r ok obtain d2 d3 where
    c: "appendEvent ?c (update_row (rvJobID p) (\<lambda>x. x\<lparr>rwContentResult := Some (contentResultTx cfg r)\<rparr>) d) = Inr d2"
    and e: "appendEvent ?e d2 = Inr d3"
    and d': "view d' = view (setJobSeq (rvJobID p) (?seq + 2)
      (update_row (rvJobID p) (review_row p ?prior (tTo t) [t]) d3))"
    and resp: "resp = answer (state_str (tTo t))
                 (case tVerdict t of None \<Rightarrow> [] | Some v \<Rightarrow> verdict_str (vValue v)) (tVerdict t \<noteq> None)"
    by (auto simp: ReviewResult_def and_then_Inr_iff loadJobTx_Inr Let_def ts minted final
        persistContentResultTx_def add.commute [of 2 "jJobSeq (rwJob r)"] cong: if_cong)
  note s1 = does_update [OF r, of "\<lambda>x. x\<lparr>rwContentResult := Some (contentResultTx cfg r)\<rparr>", simplified]
  have s2: "does (rvJobID p) r (?f r) [?c] d d2"
    using does_trans [OF s1 does_append [OF does_find [OF s1] c]] by (simp add: verdict_claim_event_def)
  have s3: "does (rvJobID p) r (?f r) [?c, ?e] d d3"
    using does_trans [OF s2 does_append [OF does_find [OF s2] e]] by (simp add: review_event_def)
  note s4 = does_trans [OF s3 does_update [OF does_find [OF s3], of "review_row p ?prior (tTo t) [t]", simplified]]
  have "does (rvJobID p) r (set_seq (?seq + 2) (reviewed_row cfg d p r t)) (review_events d p r t) d d'"
    using does_trans [OF s4 does_seq [OF does_find [OF s4], of "?seq + 2"]] d'
    by (simp add: does_def reviewed_row_def review_events_def)
  with g st resp show ?thesis by (rule that)
qed

lemma DispatchMerge_does:
  assumes "DispatchMerge cfg d pol i now = Inr (d', s)"
  obtains r where "jState (rwJob r) = StateMergeable" and "s = StateMergeable" and "view d' = view d"
    and "find_row d i = Some r"
  | r t where "jState (rwJob r) = StateMergeable"
    and "dTransitions (Decide (review_state (scanJob r) now (domainBFactsTx d i) pol
           (contentResultTx cfg r)) MergeDispatch) = [t]"
    and "t = move StateMergeable StateMerging KindMergeStarted
         \<or> t = move StateMergeable StateMergeHandoff KindMergeHandoff"
    and "s = tTo t"
    and "does i r (set_seq (jJobSeq (rwJob r) + 1) (set_state_row s r))
      [dispatch_event i now (scanJob r) t (jJobSeq (rwJob r) + 1)] d d'"
proof -
  let ?s = "\<lambda>r. review_state (scanJob r) now (domainBFactsTx d i) pol (contentResultTx cfg r)"
  from assms obtain r where r: "find_row d i = Some r"
    and ok: "dReject (decide_merge_dispatch (?s r)) = None"
    by (auto simp: DispatchMerge_def and_then_Inr_iff loadJobTx_Inr Let_def split: option.splits)
  have st: "jState (rwJob r) = StateMergeable"
    and cs: "dTransitions (decide_merge_dispatch (?s r)) \<in>
      {[], [move StateMergeable StateMerging KindMergeStarted],
           [move StateMergeable StateMergeHandoff KindMergeHandoff]}"
    using ok by (auto simp: decide_merge_dispatch_def review_state_def split: if_splits option.splits)
  have ap: "\<exists>d1 m. append_transitions (dispatch_event i now (scanJob r))
        (dTransitions (decide_merge_dispatch (?s r))) (jJobSeq (rwJob r)) d = Inr (d1, m)
      \<and> s = final_state StateMergeable (dTransitions (decide_merge_dispatch (?s r)))
      \<and> d' = setJobSeq i m (update_row i (set_state_row s) d1)"
    using assms r ok st
    by (auto simp: DispatchMerge_def and_then_Inr_iff loadJobTx_Inr Let_def)
  then obtain d1 m where
    a: "append_transitions (dispatch_event i now (scanJob r))
        (dTransitions (decide_merge_dispatch (?s r))) (jJobSeq (rwJob r)) d = Inr (d1, m)"
    and s: "s = final_state StateMergeable (dTransitions (decide_merge_dispatch (?s r)))"
    and d': "d' = setJobSeq i m (update_row i (set_state_row s) d1)" by blast
  have s1: "does i r r (numbered (dispatch_event i now (scanJob r)) (jJobSeq (rwJob r))
        (dTransitions (decide_merge_dispatch (?s r)))) d d1"
    and m: "m = jJobSeq (rwJob r) + int (length (dTransitions (decide_merge_dispatch (?s r))))"
    using does_transitions [OF a r] by (simp_all add: dispatch_event_def)
  note s2 = does_trans [OF s1 does_update [OF does_find [OF s1], of "set_state_row s", simplified]]
  note s3 = does_trans [OF s2 does_seq [OF does_find [OF s2], of m], folded d']
  show ?thesis
  proof (cases "dTransitions (decide_merge_dispatch (?s r))")
    case Nil
    with s st have "s = StateMergeable" and "set_seq m (set_state_row s r) = r"
      using m by (simp_all add: final_state_def set_seq_def set_state_row_def)
    with s3 Nil r have "view d' = view d" by (simp add: does_def commit_same view_def)
    from that(1) [OF st \<open>s = StateMergeable\<close> this r] show ?thesis .
  next
    case (Cons t ts)
    with cs have "ts = []" and t: "t = move StateMergeable StateMerging KindMergeStarted
         \<or> t = move StateMergeable StateMergeHandoff KindMergeHandoff" by auto
    with s3 Cons m s show ?thesis by (intro that(2) [OF st _ t]) (simp_all add: final_state_def)
  qed
qed

section \<open>Operator moves, the alarm and seeding\<close>

definition requeue_target :: "Kind \<Rightarrow> State \<times> Role \<times> string \<times> string" where
  "requeue_target k =
     (if k = KindSpec then (StateSpecAuthoring, RoleSpecAuthor, ''spec'', ''role:spec_author'')
      else (StateReady, RoleEngWorker, ''build'', ''role:eng_worker''))"

definition operator_event :: "string \<Rightarrow> Row \<Rightarrow> State \<Rightarrow> int \<Rightarrow> Payload \<Rightarrow> Event" where
  "operator_event i r to now y =
     fenced_event i (jJobSeq (rwJob r) + 1) KindStateChanged (jState (rwJob r)) to
       (jLeaseEpoch (rwJob r) + 1) ''operator'' now y"

lemma RequeueJob_does:
  assumes "RequeueJob d i force now = Inr (d', s)"
  obtains r ro st tg where "force \<or> \<not> HasActiveLease (jState (rwJob r))"
    and "requeue_target (jKind (rwJob r)) = (s, ro, st, tg)"
    and "does i r (set_seq (jJobSeq (rwJob r) + 1) (requeue_row s ro st tg now r))
      [operator_event i r s now (zero_payload\<lparr>pResetCounters := True\<rparr>)] d d'"
proof -
  from assms obtain r ro st tg d1 where r: "find_row d i = Some r"
    and g: "force \<or> \<not> HasActiveLease (jState (rwJob r))"
      "requeue_target (jKind (rwJob r)) = (s, ro, st, tg)"
    and ap: "appendEvent (operator_event i r s now (zero_payload\<lparr>pResetCounters := True\<rparr>)) d = Inr d1"
    and d': "view d' = view (setJobSeq i (jJobSeq (rwJob r) + 1)
        (close_leases i ''requeued'' (update_row i (requeue_row s ro st tg now) d1)))"
    by (auto simp: RequeueJob_def and_then_Inr_iff Let_def requeue_target_def operator_event_def
        split: option.splits if_splits)
  have s1: "does i r r [operator_event i r s now (zero_payload\<lparr>pResetCounters := True\<rparr>)] d d1"
    using does_append [OF r ap] by (simp add: operator_event_def)
  have "does i r (requeue_row s ro st tg now r) [] d1
      (close_leases i ''requeued'' (update_row i (requeue_row s ro st tg now) d1))"
    using does_update [OF does_find [OF s1], of "requeue_row s ro st tg now"] by (simp add: does_def)
  note s2 = does_trans [OF s1 this]
  from does_trans [OF s2 does_seq [OF does_find [OF s2], of "jJobSeq (rwJob r) + 1"]] d'
  show ?thesis by (intro that [OF g]) (simp add: does_def)
qed

lemma CancelJob_does:
  assumes "CancelJob d i force now = Inr (d', s)"
  obtains "d' = d"
  | r where "force \<or> \<not> HasActiveLease (jState (rwJob r))"
    and "jState (rwJob r) \<notin> {StateDone, StateCancelled}" and "s = StateCancelled"
    and "does i r (set_seq (jJobSeq (rwJob r) + 1) (cancel_row r))
      [operator_event i r StateCancelled now zero_payload] d d'"
proof (cases "d' = d")
  case False
  with assms obtain r d1 where r: "find_row d i = Some r"
    and g: "force \<or> \<not> HasActiveLease (jState (rwJob r))"
      "jState (rwJob r) \<notin> {StateDone, StateCancelled}" "s = StateCancelled"
    and ap: "appendEvent (operator_event i r StateCancelled now zero_payload) d = Inr d1"
    and d': "view d' = view (setJobSeq i (jJobSeq (rwJob r) + 1)
        (close_leases i ''cancelled'' (update_row i cancel_row d1)))"
    by (auto simp: CancelJob_def and_then_Inr_iff Let_def operator_event_def
        split: option.splits if_splits)
  have s1: "does i r r [operator_event i r StateCancelled now zero_payload] d d1"
    using does_append [OF r ap] by (simp add: operator_event_def)
  have "does i r (cancel_row r) [] d1 (close_leases i ''cancelled'' (update_row i cancel_row d1))"
    using does_update [OF does_find [OF s1], of cancel_row] by (simp add: does_def)
  note s2 = does_trans [OF s1 this]
  from does_trans [OF s2 does_seq [OF does_find [OF s2], of "jJobSeq (rwJob r) + 1"]] d'
  show ?thesis by (intro that(2) [OF g]) (simp add: does_def)
qed (rule that(1))

lemma FireNoEligibleWorker_does:
  assumes "FireNoEligibleWorker d t now = Inr (d', fired)"
  obtains "view d' = view d" and "\<not> fired"
  | r where "fired" and "jState (rwJob r) \<in> {StateReady, StateReviewPending}"
    and "jLeaseEpoch (rwJob r) = tmExpectedEpoch t"
    and "does (tmJobID t) r (set_seq (jJobSeq (rwJob r) + 1) r)
      [fenced_event (tmJobID t) (jJobSeq (rwJob r) + 1) KindNoEligibleWorker (jState (rwJob r))
         (jState (rwJob r)) (jLeaseEpoch (rwJob r)) ''system'' now zero_payload] d d'"
proof (cases fired)
  case False
  with assms show ?thesis
    by (intro that(1)) (auto simp: FireNoEligibleWorker_def Let_def and_then_Inr_iff
      split: option.splits if_splits)
next
  case True
  with assms obtain r d2 where r: "find_row d (tmJobID t) = Some r"
    and g: "jState (rwJob r) \<in> {StateReady, StateReviewPending}"
      "jLeaseEpoch (rwJob r) = tmExpectedEpoch t"
    and ap: "appendEvent (fenced_event (tmJobID t) (jJobSeq (rwJob r) + 1) KindNoEligibleWorker
        (jState (rwJob r)) (jState (rwJob r)) (jLeaseEpoch (rwJob r)) ''system'' now zero_payload)
        (d\<lparr>tbAlarms := AList.update (tmJobID t, tmKind t) now (tbAlarms d)\<rparr>) = Inr d2"
    and d': "view d' = view (setJobSeq (tmJobID t) (jJobSeq (rwJob r) + 1) d2)"
    by (auto simp: FireNoEligibleWorker_def Let_def and_then_Inr_iff split: option.splits if_splits)
  have "does (tmJobID t) r r [] d (d\<lparr>tbAlarms := AList.update (tmJobID t, tmKind t) now (tbAlarms d)\<rparr>)"
    using r by (simp add: does_frame)
  from does_trans [OF this does_append [OF does_find [OF this] ap]]
  have s1: "does (tmJobID t) r r [fenced_event (tmJobID t) (jJobSeq (rwJob r) + 1)
      KindNoEligibleWorker (jState (rwJob r)) (jState (rwJob r)) (jLeaseEpoch (rwJob r)) ''system''
      now zero_payload] d d2" by simp
  from does_trans [OF s1 does_seq [OF does_find [OF s1], of "jJobSeq (rwJob r) + 1"]] d'
  have "does (tmJobID t) r (set_seq (jJobSeq (rwJob r) + 1) r)
      [fenced_event (tmJobID t) (jJobSeq (rwJob r) + 1) KindNoEligibleWorker (jState (rwJob r))
         (jState (rwJob r)) (jLeaseEpoch (rwJob r)) ''system'' now zero_payload] d d'"
    by (simp add: does_def)
  from that(2) [OF True g this] show ?thesis .
qed

lemma find_append:
  "List.find q (xs @ ys) = (case List.find q xs of None \<Rightarrow> List.find q ys | Some x \<Rightarrow> Some x)"
  by (induction xs) simp_all

lemma seedJobTx_view:
  assumes "seedJobTx cfg d p = Inr d'"
  obtains s where "s = (if hasUnsatisfiedDeps d (sdBlockedBy p) then StateBlocked else StateReady)"
    and "find_row d (sdID p) = None"
    and "view d' = (view d)(sdID p := (Some (set_seq 1 (seed_row p s)),
           events_of d (sdID p) @ [seed_event p s]))"
proof -
  define s where "s = (if hasUnsatisfiedDeps d (sdBlockedBy p) then StateBlocked else StateReady)"
  have i: "row_id (seed_row p s) = sdID p" by (simp add: row_id_def seed_row_def)
  from assms obtain d1 d2 where ins: "insert_row (seed_row p s) d = Inr d1"
    and ap: "appendEvent (seed_event p s) d1 = Inr d2"
    and d': "view d' = view (setJobSeq (sdID p) 1 d2)"
    by (auto simp: seedJobTx_def Let_def and_then_Inr_iff s_def [symmetric] dest: view_armNoEligible
        split: if_splits)
  have none: "find_row d (sdID p) = None" using ins by (simp add: insert_row_def i split: if_splits)
  then have v1: "view d1 = (view d)(sdID p := (Some (seed_row p s), events_of d (sdID p)))"
    using ins
    by (auto simp: insert_row_def view_def find_row_def events_of_def fun_eq_iff i find_append
        split: if_splits option.split)
  have e: "eJobID (seed_event p s) = sdID p" by (simp add: seed_event_def)
  have "view d2 = (view d)(sdID p := (Some (seed_row p s), events_of d (sdID p) @ [seed_event p s]))"
    using view_appendEvent [OF ap] find_row_view [OF v1] events_of_view [OF v1] by (simp add: e v1)
  then have "view d' = (view d)(sdID p := (Some (set_seq 1 (seed_row p s)),
           events_of d (sdID p) @ [seed_event p s]))"
    using view_setJobSeq [of d2 "sdID p" "seed_row p s" 1] find_row_view [of d2 _ "sdID p"] d'
    by (simp add: commit_def)
  with none show ?thesis using that s_def by blast
qed

end
