(* ===== verification/Store_Git_Effects.thy ===== *)
theory Store_Git_Effects
  imports Store_Effects
begin

text \<open>
  The effects of the conflict and reconcile transactions on the view: the
  guards under which each succeeds, the row it leaves and the event it appends.
\<close>

section \<open>One event, one update\<close>

lemma row_id_git [simp]:
  "row_id (rebased_row b h r) = row_id r" "row_id (conflict_row b n r) = row_id r"
  "row_id (build_conflict_row cp r) = row_id r" "row_id (resolved_row zp r) = row_id r"
  "row_id (conflict_claim_row p r) = row_id r" "row_id (stack_row k r) = row_id r"
  "row_id (reserve_row ws r) = row_id r" "row_id (post_merge_row x r) = row_id r"
  "row_id (park_row x r) = row_id r" "row_id (ci_exhausted_row x r) = row_id r"
  "row_id (ci_bounced_row x n r) = row_id r" "row_id (superseded_row b n r) = row_id r"
  "row_id (base_row b r) = row_id r" "row_id (bind_pr_row k r) = row_id r"
  "row_id (stamp_row k h r) = row_id r" "row_id (restore_patch x y r) = row_id r"
  "row_id (ci_failures_row x r) = row_id r"
  by (simp_all add: row_id_def rebased_row_def conflict_row_def build_conflict_row_def resolved_row_def
      conflict_claim_row_def stack_row_def reserve_row_def post_merge_row_def park_row_def
      ci_exhausted_row_def ci_bounced_row_def superseded_row_def base_row_def bind_pr_row_def
      stamp_row_def restore_patch_def ci_failures_row_def)

lemma view_git [simp]:
  "view (enqueueOutboxTx x d) = view d" "view (enqueueHistoryWriteTx i d) = view d"
  "view (abandon_outbox q d) = view d" "view (abandon_stale i s d) = view d"
  "view (upsertDomainBFactsTx i pr d) = view d" "view (delete_branch j d) = view d"
  "view (update_outbox q f d) = view d" "view (abandon_merges i d) = view d" "view (audit_once a d) = view d"
  by (simp_all add: view_def find_row_def events_of_def enqueueOutboxTx_def enqueueHistoryWriteTx_def
      abandon_outbox_def abandon_stale_def upsertDomainBFactsTx_def delete_branch_def update_outbox_def
      abandon_merges_def audit_once_def Let_def)

lemma one_step_does:
  assumes "one_step i n e f extra d = Inr d'" and "find_row d i = Some r" and "eJobID e = i"
    and "\<And>x. row_id (f x) = row_id x" and "\<And>x. view (extra x) = view x"
  shows "does i r (set_seq n (f r)) [e] d d'"
proof -
  from assms(1) obtain d1 where ap: "appendEvent e d = Inr d1"
    and d': "d' = setJobSeq i n (extra (update_row i f d1))"
    by (auto simp: one_step_def and_then_Inr_iff)
  note s1 = does_append [OF assms(2) ap assms(3)]
  note s2 = does_trans [OF s1 does_update [OF does_find [OF s1], of f, OF assms(4)]]
  have s3: "does i r (f r) [e] d (extra (update_row i f d1))"
    using s2 assms(5) by (simp add: does_def)
  from does_trans [OF s3 does_seq [OF does_find [OF s3], of n]] show ?thesis by (simp add: d')
qed

section \<open>Conflicts\<close>

lemma event_ids [simp]:
  "eJobID (rebased_event i j b h n s) = i" "eJobID (conflict_event i j b a n s) = i"
  "eJobID (handoff_event i j x n s) = i" "eJobID (resolved_event zp j s) = rzJobID zp"
  "eJobID (stacked_event i j k b n s) = i" "eJobID (reconcile_event j ek t n s y) = jID j"
  "eJobID (superseded_event j pr a n s c) = jID j" "eJobID (base_event r b n) = row_id r"
  "eJobID (park_event i j a x x2 n s) = i" "eJobID (pr_opened_event i j k h n s) = i"
  by (simp_all add: rebased_event_def conflict_event_def handoff_event_def resolved_event_def
      stacked_event_def reconcile_event_def superseded_event_def base_event_def
      park_event_def pr_opened_event_def)

lemma RebaseOnto_does:
  assumes "RebaseOnto mirror d p = Inr (d', res)"
  obtains r sha where "rbClean res" and "rbNewSHA res = sha" and "rebase_outcome mirror d p = Inr (True, sha)"
    and "does (roJobID p) r (set_seq (jJobSeq (rwJob r) + 1) (rebased_row (roNewBaseSHA p) sha r))
      [rebased_event (roJobID p) (scanJob r) (roNewBaseSHA p) sha (roNow p) (jJobSeq (rwJob r) + 1)] d d'"
  | r sha where "\<not> rbClean res" and "rebase_outcome mirror d p = Inr (False, sha)"
    and "does (roJobID p) r (set_seq (jJobSeq (rwJob r) + 1) (conflict_row (roNewBaseSHA p) (roNow p) r))
      [conflict_event (roJobID p) (scanJob r) (roNewBaseSHA p) ''system'' (roNow p) (jJobSeq (rwJob r) + 1)] d d'"
proof -
  from assms obtain clean sha r where o: "rebase_outcome mirror d p = Inr (clean, sha)"
    and r: "find_row d (roJobID p) = Some r"
    by (auto simp: RebaseOnto_def and_then_Inr_iff loadJobTx_Inr)
  show ?thesis
  proof (cases clean)
    case True
    with assms o r have "one_step (roJobID p) (jJobSeq (rwJob r) + 1)
         (rebased_event (roJobID p) (scanJob r) (roNewBaseSHA p) sha (roNow p) (jJobSeq (rwJob r) + 1))
         (rebased_row (roNewBaseSHA p) sha) id d = Inr d'" "rbClean res" "rbNewSHA res = sha"
      by (auto simp: RebaseOnto_def and_then_Inr_iff loadJobTx_Inr)
    from that(1) [OF this(2,3) _ one_step_does [OF this(1) r]] True o show ?thesis by simp
  next
    case False
    with assms o r have "one_step (roJobID p) (jJobSeq (rwJob r) + 1)
         (conflict_event (roJobID p) (scanJob r) (roNewBaseSHA p) ''system'' (roNow p) (jJobSeq (rwJob r) + 1))
         (conflict_row (roNewBaseSHA p) (roNow p)) id d = Inr d'" "\<not> rbClean res"
      by (auto simp: RebaseOnto_def and_then_Inr_iff loadJobTx_Inr)
    from that(2) [OF this(2) _ one_step_does [OF this(1) r]] False o show ?thesis by simp
  qed
qed

lemma RouteBuildConflict_does:
  assumes "RouteBuildConflict d p = Inr d'"
  obtains r where "find_row d (bcJobID p) = Some r" and "bcEpoch p = jLeaseEpoch (rwJob r)" and "d' = d"
      and "jState (rwJob r) \<notin> {StateLeased, StateBuilding}"
  | r where "bcEpoch p = jLeaseEpoch (rwJob r)" and "jState (rwJob r) \<in> {StateLeased, StateBuilding}"
    and "does (bcJobID p) r (set_seq (jJobSeq (rwJob r) + 1) (build_conflict_row p r))
      [conflict_event (bcJobID p) (scanJob r) (bcNewBaseSHA p) (coalesce (rwBoundIdentity r)) (bcNow p)
         (jJobSeq (rwJob r) + 1)] d d'"
proof -
  from assms obtain r where r: "find_row d (bcJobID p) = Some r" and e: "bcEpoch p = jLeaseEpoch (rwJob r)"
    by (auto simp: RouteBuildConflict_def and_then_Inr_iff loadJobTx_Inr split: if_splits)
  show ?thesis
  proof (cases "jState (rwJob r) \<in> {StateLeased, StateBuilding}")
    case True
    with assms r e have "one_step (bcJobID p) (jJobSeq (rwJob r) + 1)
       (conflict_event (bcJobID p) (scanJob r) (bcNewBaseSHA p) (coalesce (rwBoundIdentity r)) (bcNow p)
          (jJobSeq (rwJob r) + 1))
       (build_conflict_row p) (close_lease (bcJobID p) (jLeaseEpoch (rwJob r)) ''rebase_conflict'') d = Inr d'"
      by (auto simp: RouteBuildConflict_def and_then_Inr_iff loadJobTx_Inr)
    from that(2) [OF e True one_step_does [OF this r]] show ?thesis by simp
  next
    case False
    with assms r e have "d' = d" by (auto simp: RouteBuildConflict_def and_then_Inr_iff loadJobTx_Inr)
    from that(1) [OF r e this False] show ?thesis .
  qed
qed

lemma RouteMergeConflict_does:
  assumes "RouteMergeConflict d i base now = Inr d'"
  obtains "d' = d"
  | r where "jState (rwJob r) \<in> {StateMerging, StateMergeable}"
    and "does i r (set_seq (jJobSeq (rwJob r) + 1) (conflict_row base now r))
      [conflict_event i (scanJob r) base ''project-out'' now (jJobSeq (rwJob r) + 1)] d d'"
  using assms that
  by (auto simp: RouteMergeConflict_def and_then_Inr_iff loadJobTx_Inr split: if_splits
      dest!: one_step_does)

lemma RouteSelfMergeToHandoff_does:
  assumes "RouteSelfMergeToHandoff d i reason now = Inr d'"
  obtains "d' = d"
  | r where "jState (rwJob r) \<in> {StateMerging, StateMergeable}"
    and "does i r (set_seq (jJobSeq (rwJob r) + 1) (set_state_row StateMergeHandoff r))
      [handoff_event i (scanJob r) reason now (jJobSeq (rwJob r) + 1)] d d'"
  using assms that
  by (auto simp: RouteSelfMergeToHandoff_def and_then_Inr_iff loadJobTx_Inr split: if_splits
      dest!: one_step_does)

lemma ResolveConflictResult_does:
  assumes "ResolveConflictResult d p = Inr (d', resp)"
  obtains r where "rzEpoch p = jLeaseEpoch (rwJob r)" and "jState (rwJob r) = StateResolvingConflict"
    and "does (rzJobID p) r (set_seq (jJobSeq (rwJob r) + 1) (resolved_row p r))
      [resolved_event p (scanJob r) (jJobSeq (rwJob r) + 1)] d d'"
  using assms that
  by (auto simp: ResolveConflictResult_def and_then_Inr_iff loadJobTx_Inr split: if_splits
      dest!: one_step_does)

lemma ClaimConflictJob_does:
  assumes "ClaimConflictJob d p = Inr (d', n)"
  obtains r where "jState (rwJob r) = StateResolvingConflict" and "jLeaseID (rwJob r) = []"
    and "\<not> builder_conflict d p r" and "n = jLeaseEpoch (rwJob r) + 1"
    and "does (cpJobID p) r (set_seq (jJobSeq (rwJob r) + 1) (conflict_claim_row p r))
      [claim_ledger_event p KindLeaseClaimed StateResolvingConflict StateResolvingConflict n
         (jJobSeq (rwJob r) + 1)] d d'"
proof -
  from assms obtain r d2 where r: "find_row d (cpJobID p) = Some r"
    and g: "jState (rwJob r) = StateResolvingConflict" "jLeaseID (rwJob r) = []"
      "\<not> builder_conflict d p r" "n = jLeaseEpoch (rwJob r) + 1"
    and ap: "appendEvent (claim_ledger_event p KindLeaseClaimed StateResolvingConflict
        StateResolvingConflict n (jJobSeq (rwJob r) + 1))
        (update_row (cpJobID p) (conflict_claim_row p) d) = Inr d2"
    and ins: "insert_lease (claim_lease_row p n)
        (setJobSeq (cpJobID p) (jJobSeq (rwJob r) + 1) d2) = Inr d'"
    by (auto simp: ClaimConflictJob_def Let_def and_then_Inr_iff split: option.splits if_splits)
  note s1 = does_update [OF r, of "conflict_claim_row p", simplified]
  note s2 = does_append [OF does_find [OF s1] ap]
  have "does (cpJobID p) r (conflict_claim_row p r)
      [claim_ledger_event p KindLeaseClaimed StateResolvingConflict StateResolvingConflict n
         (jJobSeq (rwJob r) + 1)] d d2"
    using does_trans [OF s1 s2] by (simp add: claim_ledger_event_def)
  then have "does (cpJobID p) r (set_seq (jJobSeq (rwJob r) + 1) (conflict_claim_row p r))
      [claim_ledger_event p KindLeaseClaimed StateResolvingConflict StateResolvingConflict n
         (jJobSeq (rwJob r) + 1)] d d'"
    using does_trans [OF _ does_seq [OF does_find]] view_insert_lease [OF ins]
    by (fastforce simp: does_def)
  with g show ?thesis by (rule that)
qed

section \<open>Reconciliation\<close>

lemma transition_does:
  assumes "reconcileTransitionTx (scanJob r) (jJobSeq (rwJob r)) to k now pay d = Inr d'"
    and "find_row d i = Some r"
  shows "does i r (set_seq (jJobSeq (rwJob r) + 1) (set_state_row to r))
    [reconcile_event (scanJob r) k to now (jJobSeq (rwJob r) + 1) pay] d d'"
proof -
  have i: "row_id r = i" using assms(2) by (rule find_row_id)
  show ?thesis
    using one_step_does [OF assms(1) [unfolded reconcileTransitionTx_def scanJob_sel(1) i] assms(2)] i by simp
qed

text \<open>The row and the event of a supersession, whatever the caller carries over.\<close>

definition superseded_keeping :: "string \<Rightarrow> string \<Rightarrow> string \<Rightarrow> string \<Rightarrow> int \<Rightarrow> Row \<Rightarrow> Row" where
  "superseded_keeping base ci diff declared now r =
     (let r1 = superseded_row base now r in
      r1\<lparr>rwJob := (rwJob r1)\<lparr>jLastCIFailures := keep_or ci (jLastCIFailures (rwJob r1))\<rparr>,
         rwPatchDiff := diff, rwDeclaredBlastRadius := declared\<rparr>)"

lemma superseded_keeping_plain: "superseded_row base now r = superseded_keeping base [] [] [] now r"
  by (simp add: superseded_keeping_def superseded_row_def keep_or_def)

lemma supersede_does:
  assumes "supersedeTx (scanJob r) (jJobSeq (rwJob r)) pr actor now ci d = Inr d'"
    and "find_row d i = Some r"
  shows "does i r (set_seq (jJobSeq (rwJob r) + 1) (superseded_row (rpBaseSHA pr) now r))
    [superseded_event (scanJob r) pr actor now (jJobSeq (rwJob r) + 1) ci] d d'"
proof -
  have i: "row_id r = i" using assms(2) by (rule find_row_id)
  show ?thesis
    using one_step_does [OF assms(1) [unfolded supersedeTx_def scanJob_sel(1) i] assms(2)] i by simp
qed

text \<open>
  What the ingest does to the job it is for; \<open>frozen\<close> says that a merge commit was
  recorded before.
\<close>

inductive reconcile_does :: "bool \<Rightarrow> ReconciledPR \<Rightarrow> int \<Rightarrow> Row \<Rightarrow> Event list \<Rightarrow> Row \<Rightarrow> bool"
  for frozen pr now r where
  rec_none: "reconcile_does frozen pr now r [] r"
| rec_post_merge: "prBoundActive (jState (rwJob r)) \<Longrightarrow> rpCIFailed pr \<Longrightarrow> rpMerged pr \<Longrightarrow>
    reconcile_does frozen pr now r
      [reconcile_event (scanJob r) KindStateChanged StateNeedsHuman now (jJobSeq (rwJob r) + 1)
         (zero_payload\<lparr>pEscalationReason := escalation_str EscalationPostMergeCI,
            pCIFailures := FormatCIFailures (rpFailingChecks pr) (rpFailingCheckURLs pr)\<rparr>)]
      (set_seq (jJobSeq (rwJob r) + 1)
         (post_merge_row (FormatCIFailures (rpFailingChecks pr) (rpFailingCheckURLs pr)) r))"
| rec_merged: "prBoundActive (jState (rwJob r)) \<or> jState (rwJob r) = StateNeedsHuman \<Longrightarrow>
    frozen \<or> rpMerged pr \<Longrightarrow>
    reconcile_does frozen pr now r
      [reconcile_event (scanJob r) KindJobCompleted StateDone now (jJobSeq (rwJob r) + 1)
         (merged_payload c)]
      (set_seq (jJobSeq (rwJob r) + 1) (set_state_row StateDone r))"
| rec_closed: "prBoundActive (jState (rwJob r)) \<Longrightarrow> rpClosedUnmerged pr \<Longrightarrow>
    reconcile_does frozen pr now r
      [park_event (row_id r) (scanJob r) ''reconcile'' ''human closed the PR without merging''
         (escalation_str EscalationPRClosed) now (jJobSeq (rwJob r) + 1)]
      (set_seq (jJobSeq (rwJob r) + 1) (park_row (escalation_str EscalationPRClosed) r))"
| rec_evicted: "jState (rwJob r) = StateNeedsHuman \<Longrightarrow>
    reconcile_does frozen pr now r
      [reconcile_event (scanJob r) KindStateChanged StateCancelled now (jJobSeq (rwJob r) + 1)
         eviction_payload]
      (set_seq (jJobSeq (rwJob r) + 1) (set_state_row StateCancelled r))"
| rec_superseded: "supersedable (jState (rwJob r)) \<Longrightarrow>
    reconcile_does frozen pr now r
      [superseded_event (scanJob r) pr ''reconcile'' now (jJobSeq (rwJob r) + 1) []]
      (set_seq (jJobSeq (rwJob r) + 1) (superseded_row (rpBaseSHA pr) now r))"
| rec_exhausted: "jState (rwJob r) = StateReviewPending \<Longrightarrow>
    reconcile_does frozen pr now r
      [reconcile_event (scanJob r) KindBounceExhausted StateNeedsHuman now (jJobSeq (rwJob r) + 1)
         (zero_payload\<lparr>pBouncesDelta := 1, pCIFailures := ci\<rparr>)]
      (set_seq (jJobSeq (rwJob r) + 1) (ci_exhausted_row ci r))"
| rec_bounced: "jState (rwJob r) = StateReviewPending \<Longrightarrow>
    reconcile_does frozen pr now r
      [reconcile_event (scanJob r) KindReviewBounced StateReady now (jJobSeq (rwJob r) + 1)
         (zero_payload\<lparr>pBouncesDelta := 1, pCIFailures := ci\<rparr>)]
      (set_seq (jJobSeq (rwJob r) + 1) (ci_bounced_row ci now r))"

lemma one_step_scan:
  "one_step (jID (scanJob r)) n e f extra d = Inr d' \<Longrightarrow> find_row d i = Some r \<Longrightarrow>
   eJobID e = jID (scanJob r) \<Longrightarrow> (\<And>x. row_id (f x) = row_id x) \<Longrightarrow>
   (\<And>x. view (extra x) = view x) \<Longrightarrow> does i r (set_seq n (f r)) [e] d d'"
  using one_step_does [of i n e f extra d d' r] find_row_id [of d i r] by simp

lemma post_merge_does:
  assumes "postMergeCIFailureTx (scanJob r) (jJobSeq (rwJob r)) now (rpFailingChecks pr)
      (rpFailingCheckURLs pr) d = Inr d'"
    and "find_row d i = Some r" and "prBoundActive (jState (rwJob r))" and "rpCIFailed pr" and "rpMerged pr"
  obtains es r' where "reconcile_does frozen pr now r es r'" and "does i r r' es d d'"
  by (rule that [OF rec_post_merge [OF assms(3-5)]])
    (rule one_step_scan [OF assms(1) [unfolded postMergeCIFailureTx_def Let_def] assms(2)], simp_all)

lemma bounce_does:
  assumes "ciFailBounceTx (scanJob r) (jJobSeq (rwJob r)) now fc fu d = Inr d'"
    and "find_row d i = Some r" and "jState (rwJob r) = StateReviewPending"
  obtains es r' where "reconcile_does frozen pr now r es r'" and "does i r r' es d d'"
proof (cases "jBounces (scanJob r) + 1 > jMaxBounces (scanJob r)")
  case True
  with assms(1) have "one_step (jID (scanJob r)) (jJobSeq (rwJob r) + 1)
      (reconcile_event (scanJob r) KindBounceExhausted StateNeedsHuman now (jJobSeq (rwJob r) + 1)
        (zero_payload\<lparr>pBouncesDelta := 1, pCIFailures := FormatCIFailures fc fu\<rparr>))
      (ci_exhausted_row (FormatCIFailures fc fu)) id d = Inr d'" by (simp add: ciFailBounceTx_def Let_def)
  from that [OF rec_exhausted [OF assms(3)] one_step_scan [OF this assms(2)]] show ?thesis by simp
next
  case False
  with assms(1) have "one_step (jID (scanJob r)) (jJobSeq (rwJob r) + 1)
      (reconcile_event (scanJob r) KindReviewBounced StateReady now (jJobSeq (rwJob r) + 1)
        (zero_payload\<lparr>pBouncesDelta := 1, pCIFailures := FormatCIFailures fc fu\<rparr>))
      (ci_bounced_row (FormatCIFailures fc fu) now) id d = Inr d'" by (simp add: ciFailBounceTx_def Let_def)
  from that [OF rec_bounced [OF assms(3)] one_step_scan [OF this assms(2)]] show ?thesis by simp
qed

lemma closed_does:
  assumes "escalatePRClosedTx (scanJob r) (jJobSeq (rwJob r)) now d = Inr d'"
    and "find_row d i = Some r" and "prBoundActive (jState (rwJob r))" and "rpClosedUnmerged pr"
  obtains es r' where "reconcile_does frozen pr now r es r'" and "does i r r' es d d'"
proof (rule that [OF rec_closed [OF assms(3,4)]])
  have e: "eJobID (park_event (row_id r) (scanJob r) ''reconcile'' ''human closed the PR without merging''
         (escalation_str EscalationPRClosed) now (jJobSeq (rwJob r) + 1)) = jID (scanJob r)" by simp
  show "does i r (set_seq (jJobSeq (rwJob r) + 1) (park_row (escalation_str EscalationPRClosed) r))
      [park_event (row_id r) (scanJob r) ''reconcile'' ''human closed the PR without merging''
         (escalation_str EscalationPRClosed) now (jJobSeq (rwJob r) + 1)] d d'"
    using one_step_scan [OF assms(1) [unfolded escalatePRClosedTx_def] assms(2)] by simp
qed

text \<open>
  The switch either takes one of these steps, or completes a merged job: that
  step, then the refresh of the ready builds' bases.
\<close>

lemma reconcile_switch_does:
  assumes "reconcile_switch (scanJob r) (jJobSeq (rwJob r)) moved pr now d = Inr (d', oc)"
    and "find_row d i = Some r"
  obtains es r' where "reconcile_does frozen pr now r es r'" and "does i r r' es d d'"
  | "complete_merged (scanJob r) (jJobSeq (rwJob r)) pr now d = Inr d'"
    and "prBoundActive (jState (rwJob r))" and "rpMergeCommit pr \<noteq> []" and "rpMerged pr"
proof -
  note r = assms(2) and out = that
  let ?s = "jState (rwJob r)"
  have merged: thesis if "reconcileTransitionTx (scanJob r) (jJobSeq (rwJob r)) StateDone
      KindJobCompleted now (merged_payload (rpMergeCommit pr)) d = Inr d'" "?s = StateNeedsHuman" "rpMerged pr"
    by (rule out(1) [OF rec_merged transition_does [OF _ r]]) (use that in simp_all)
  consider (pm) "rpMerged pr" "rpMergeCommit pr \<noteq> []" "rpCIFailed pr" "prBoundActive ?s"
    | (cm) "\<not> (rpMerged pr \<and> rpMergeCommit pr \<noteq> [] \<and> rpCIFailed pr \<and> prBoundActive ?s)"
      "rpMerged pr" "rpMergeCommit pr \<noteq> []" "rpCIGreen pr" "prBoundActive ?s"
    | (other) "\<not> (rpMerged pr \<and> rpMergeCommit pr \<noteq> [] \<and> rpCIFailed pr \<and> prBoundActive ?s)"
      "\<not> (rpMerged pr \<and> rpMergeCommit pr \<noteq> [] \<and> rpCIGreen pr \<and> prBoundActive ?s)" by blast
  then show ?thesis
  proof cases
    case pm
    with assms(1) have "postMergeCIFailureTx (scanJob r) (jJobSeq (rwJob r)) now (rpFailingChecks pr)
      (rpFailingCheckURLs pr) d = Inr d'" by (auto simp: reconcile_switch_def Let_def and_then_Inr_iff)
    from post_merge_does [OF this r pm(4,3,1)] out(1) show ?thesis by blast
  next
    case cm
    with assms(1) have "complete_merged (scanJob r) (jJobSeq (rwJob r)) pr now d = Inr d'"
      by (auto simp: reconcile_switch_def Let_def and_then_Inr_iff)
    with cm out(2) show ?thesis by blast
  next
    case other
    then consider (cl) "rpClosedUnmerged pr" "prBoundActive ?s"
      | (dn) "\<not> (rpClosedUnmerged pr \<and> prBoundActive ?s)" "?s = StateNeedsHuman" "rpMerged pr" "rpMergeCommit pr \<noteq> []"
      | (ev) "\<not> (rpClosedUnmerged pr \<and> prBoundActive ?s)"
        "\<not> (?s = StateNeedsHuman \<and> rpMerged pr \<and> rpMergeCommit pr \<noteq> [])" "?s = StateNeedsHuman" "rpClosedUnmerged pr"
      | (rest) "\<not> (rpClosedUnmerged pr \<and> prBoundActive ?s)"
        "\<not> (?s = StateNeedsHuman \<and> rpMerged pr \<and> rpMergeCommit pr \<noteq> [])"
        "\<not> (?s = StateNeedsHuman \<and> rpClosedUnmerged pr)" by blast
    then show ?thesis
    proof cases
      case cl
      with other assms(1) have "escalatePRClosedTx (scanJob r) (jJobSeq (rwJob r)) now d = Inr d'"
        by (auto simp: reconcile_switch_def Let_def and_then_Inr_iff)
      from closed_does [OF this r cl(2,1)] out(1) show ?thesis by blast
    next
      case dn
      with other assms(1) have "reconcileTransitionTx (scanJob r) (jJobSeq (rwJob r)) StateDone
          KindJobCompleted now (merged_payload (rpMergeCommit pr)) d = Inr d'"
        by (auto simp: reconcile_switch_def Let_def and_then_Inr_iff)
      then show ?thesis using dn(2,3) by (rule merged)
    next
      case ev
      with other assms(1) have "reconcileTransitionTx (scanJob r) (jJobSeq (rwJob r)) StateCancelled
          KindStateChanged now eviction_payload d = Inr d'"
        by (auto simp: reconcile_switch_def Let_def and_then_Inr_iff)
      from out(1) [OF rec_evicted [OF ev(3)] transition_does [OF this r]] show ?thesis .
    next
      case rest
      have eq: "reconcile_switch (scanJob r) (jJobSeq (rwJob r)) moved pr now d =
        (if moved \<and> supersedable ?s
         then and_then (supersedeTx (scanJob r) (jJobSeq (rwJob r)) pr ''reconcile'' now [] d)
             (\<lambda>d'. Inr (d', no_outcome\<lparr>ocApplied := True, ocSuperseded := True\<rparr>))
         else if rpCIFailed pr \<and> ?s = StateReviewPending \<and> \<not> rpMainCIRed pr
         then and_then (ciFailBounceTx (scanJob r) (jJobSeq (rwJob r)) now (rpFailingChecks pr)
               (rpFailingCheckURLs pr) d) (\<lambda>d'. Inr (d', no_outcome\<lparr>ocApplied := True\<rparr>))
         else Inr (d, no_outcome\<lparr>ocApplied := True\<rparr>))"
        unfolding reconcile_switch_def Let_def scanJob_sel
          if_not_P [OF other(1)] if_not_P [OF other(2)] if_not_P [OF rest(1)] if_not_P [OF rest(2)]
          if_not_P [OF rest(3)]
        by auto
      show ?thesis
      proof (cases "moved \<and> supersedable ?s")
        case True
        with assms(1) [unfolded eq] have "supersedeTx (scanJob r) (jJobSeq (rwJob r)) pr ''reconcile'' now [] d = Inr d'"
          by (auto simp: and_then_Inr_iff)
        from out(1) [OF rec_superseded supersede_does [OF this r]] True show ?thesis by blast
      next
        case False
        note nsup = this
        show ?thesis
        proof (cases "rpCIFailed pr \<and> ?s = StateReviewPending \<and> \<not> rpMainCIRed pr")
          case True
          with assms(1) [unfolded eq if_not_P [OF nsup]] have "ciFailBounceTx (scanJob r) (jJobSeq (rwJob r)) now (rpFailingChecks pr)
               (rpFailingCheckURLs pr) d = Inr d'" by (auto simp: and_then_Inr_iff)
          from bounce_does [OF this r] True out(1) show ?thesis by blast
        next
          case False
          with assms(1) [unfolded eq if_not_P [OF nsup]] have "d' = d" by auto
          then show ?thesis by (intro out(1) [OF rec_none]) (simp add: does_frame [OF r])
        qed
      qed
    qed
  qed
qed

end
