(* ===== verification/Store_Out_Effects.thy ===== *)
theory Store_Out_Effects
  imports Store_Git_Effects
begin

text \<open>
  The effects of the outbox and project-OUT transactions on the view, and of
  the whole ingest of a pull request.
\<close>

lemma DeadLetterOutbox_does:
  assumes "DeadLetterOutbox d n i reason detail escalate now = Inr d'"
  obtains "view d' = view d"
  | r revoke where "escalate" and "jState (rwJob r) \<notin> {StateDone, StateNeedsHuman, StateCancelled}"
    and "does i r (set_seq (jJobSeq (rwJob r) + 1) (park_row reason r))
      [park_event i (scanJob r) ''project-out'' revoke reason now (jJobSeq (rwJob r) + 1)] d d'"
proof -
  let ?d0 = "update_outbox (\<lambda>x. obID x = n)
      (\<lambda>x. x\<lparr>obStatus := ObAbandoned, obAttempts := obAttempts x + 1\<rparr>) d"
  have f: "find_row ?d0 i = find_row d i" by (simp add: find_row_view [OF refl])
  show ?thesis
  proof (cases "escalate")
    case False
    with assms have "d' = ?d0" by (simp add: DeadLetterOutbox_def Let_def split: if_splits)
    then have "view d' = view d" by simp
    then show ?thesis by (rule that(1))
  next
    case True
    with assms f obtain r where r: "find_row d i = Some r"
      by (auto simp: DeadLetterOutbox_def Let_def and_then_Inr_iff loadJobTx_Inr)
    show ?thesis
    proof (cases "jState (rwJob r) \<in> {StateDone, StateNeedsHuman, StateCancelled}")
      case True
      with assms \<open>escalate\<close> f r have "d' = ?d0"
        by (auto simp: DeadLetterOutbox_def Let_def and_then_Inr_iff loadJobTx_Inr)
      then show ?thesis by (intro that(1)) simp
    next
      case False
      with assms \<open>escalate\<close> f r have st: "one_step i (jJobSeq (rwJob r) + 1)
          (park_event i (scanJob r) ''project-out'' (take 500 detail) reason now (jJobSeq (rwJob r) + 1))
          (park_row reason) id ?d0 = Inr d'"
        by (auto simp: DeadLetterOutbox_def Let_def and_then_Inr_iff loadJobTx_Inr)
      have "does i r (set_seq (jJobSeq (rwJob r) + 1) (park_row reason r))
        [park_event i (scanJob r) ''project-out'' (take 500 detail) reason now (jJobSeq (rwJob r) + 1)] d d'"
        using one_step_does [OF st] f r by (simp add: does_def)
      with \<open>escalate\<close> False show ?thesis by (rule that(2))
    qed
  qed
qed

lemma StampPRNumber_does:
  assumes "StampPRNumber d i n headSHA baseSHA now = Inr d'"
  obtains r where "does i r (set_seq (jJobSeq (rwJob r) + 1) (stamp_row n headSHA r))
      [pr_opened_event i (scanJob r) n headSHA now (jJobSeq (rwJob r) + 1)] d d'"
  using assms that
  by (auto simp: StampPRNumber_def and_then_Inr_iff loadJobTx_Inr dest!: one_step_does)

lemma EnqueuePROpen_view: "EnqueuePROpen d i h b = Inr (d', x) \<Longrightarrow> view d' = view d"
  and EnqueueMergeForJob_view: "EnqueueMergeForJob d i = Inr (d', x) \<Longrightarrow> view d' = view d"
  and MarkOutboxSent_view: "MarkOutboxSent d n t = Inr d' \<Longrightarrow> view d' = view d"
  by (auto simp: EnqueuePROpen_def EnqueueMergeForJob_def MarkOutboxSent_def split: option.splits if_splits)

section \<open>Merge authorizations taken back\<close>

lemma does_then_update:
  assumes "does i r r' es d d1" and "\<And>x. row_id (f x) = row_id x"
  shows "does i r (f r') es d (update_row i f d1)"
  using does_trans [OF assms(1) does_update [OF does_find [OF assms(1)], of f, OF assms(2)]] by simp

lemma keeping_eqs:
  "restore_patch x y (set_seq n (superseded_row b now r)) = set_seq n (superseded_keeping b [] x y now r)"
  "c \<noteq> [] \<Longrightarrow> ci_failures_row c (set_seq n (superseded_row b now r)) =
     set_seq n (superseded_keeping b c [] [] now r)"
  by (simp_all add: restore_patch_def ci_failures_row_def superseded_keeping_def superseded_row_def
      set_seq_def keep_or_def)

lemma InvalidateStaleMergeAuthorization_does:
  assumes "InvalidateStaleMergeAuthorization d i now = Inr d'"
  obtains "view d' = view d"
  | r diff declared where "jState (rwJob r) \<in> {StateMerging, StateMergeHandoff}"
    and "does i r (set_seq (jJobSeq (rwJob r) + 1)
        (superseded_keeping (jBaseSHA (rwJob r)) [] diff declared now r))
      [superseded_event (scanJob r) (bare_pr 0 [] (jBaseSHA (rwJob r))) ''project-out'' now
         (jJobSeq (rwJob r) + 1) []] d d'"
proof -
  from assms obtain r where r: "find_row d i = Some r"
    by (auto simp: InvalidateStaleMergeAuthorization_def and_then_Inr_iff loadJobTx_Inr)
  have b: "jBaseSHA (scanJob r) = jBaseSHA (rwJob r)" by (simp add: scanJob_def)
  show ?thesis
  proof (cases "jState (rwJob r) \<in> {StateMerging, StateMergeHandoff}")
    case False
    with assms r show ?thesis
      by (intro that(1)) (auto simp: InvalidateStaleMergeAuthorization_def and_then_Inr_iff loadJobTx_Inr)
  next
    case True
    with assms r b obtain d1 where s: "supersedeTx (scanJob r) (jJobSeq (rwJob r))
          (bare_pr 0 [] (jBaseSHA (rwJob r))) ''project-out'' now [] d = Inr d1"
      and d': "d' = (if rwAdopted r \<and> rwPatchDiff r \<noteq> []
            then update_row i (restore_patch (rwPatchDiff r) (rwDeclaredBlastRadius r)) d1 else d1)"
      by (auto simp: InvalidateStaleMergeAuthorization_def and_then_Inr_iff loadJobTx_Inr)
    note sd = supersede_does [OF s r]
    have base: "rpBaseSHA (bare_pr 0 [] (jBaseSHA (rwJob r))) = jBaseSHA (rwJob r)" by (simp add: bare_pr_def)
    show ?thesis
    proof (cases "rwAdopted r \<and> rwPatchDiff r \<noteq> []")
      case True
      from does_then_update [OF sd, of "restore_patch (rwPatchDiff r) (rwDeclaredBlastRadius r)"]
      show ?thesis
        by (intro that(2) [OF \<open>jState (rwJob r) \<in> _\<close>, of "rwPatchDiff r" "rwDeclaredBlastRadius r"])
          (simp add: d' True keeping_eqs base)
    next
      case False
      with sd show ?thesis
        by (intro that(2) [OF \<open>jState (rwJob r) \<in> _\<close>, of "[]" "[]"])
          (auto simp: d' base superseded_keeping_plain)
    qed
  qed
qed

lemma RoutePostApprovalCIFailure_does:
  assumes "RoutePostApprovalCIFailure d i fc fu now = Inr d'"
  obtains "d' = d"
  | r ci where "jState (rwJob r) \<in> {StateMerging, StateMergeHandoff, StateMergeable}"
    and "does i r (set_seq (jJobSeq (rwJob r) + 1)
        (superseded_keeping (jBaseSHA (rwJob r)) ci [] [] now r))
      [superseded_event (scanJob r) (bare_pr 0 (jHeadSHA (rwJob r)) (jBaseSHA (rwJob r))) ''project-out''
         now (jJobSeq (rwJob r) + 1) ci] d d'"
proof -
  from assms obtain r where r: "find_row d i = Some r"
    by (auto simp: RoutePostApprovalCIFailure_def and_then_Inr_iff loadJobTx_Inr)
  have b: "jBaseSHA (scanJob r) = jBaseSHA (rwJob r)" "jHeadSHA (scanJob r) = jHeadSHA (rwJob r)"
    by (simp_all add: scanJob_def)
  let ?ci = "FormatCIFailures fc fu"
  show ?thesis
  proof (cases "jState (rwJob r) \<in> {StateMerging, StateMergeHandoff, StateMergeable}")
    case False
    with assms r show ?thesis
      by (intro that(1)) (auto simp: RoutePostApprovalCIFailure_def and_then_Inr_iff loadJobTx_Inr)
  next
    case True
    with assms r b obtain d1 where s: "supersedeTx (scanJob r) (jJobSeq (rwJob r))
          (bare_pr 0 (jHeadSHA (rwJob r)) (jBaseSHA (rwJob r))) ''project-out'' now ?ci d = Inr d1"
      and d': "view d' = view (if ?ci \<noteq> [] then update_row i (ci_failures_row ?ci) d1 else d1)"
      by (auto simp: RoutePostApprovalCIFailure_def Let_def and_then_Inr_iff loadJobTx_Inr)
    note sd = supersede_does [OF s r]
    have base: "rpBaseSHA (bare_pr 0 h (jBaseSHA (rwJob r))) = jBaseSHA (rwJob r)" for h
      by (simp add: bare_pr_def)
    show ?thesis
    proof (cases "?ci = []")
      case False
      from does_then_update [OF sd, of "ci_failures_row ?ci"] False d' show ?thesis
        by (intro that(2) [OF True, of ?ci]) (simp add: keeping_eqs base does_def)
    next
      case True
      with sd d' show ?thesis
        by (intro that(2) [OF \<open>jState (rwJob r) \<in> _\<close>, of "[]"])
          (simp add: base superseded_keeping_plain does_def)
    qed
  qed
qed

section \<open>The ingest\<close>

lemma ApplyReconciledPR_does:
  assumes "ApplyReconciledPR d i pr now = Inr (d', oc)"
  obtains r es r' where "reconcile_does (fmMergeCommit (tbMarks d i) \<noteq> []) pr now r es r'" and "does i r r' es d d'"
  | r d0 where "find_row d0 i = Some r" and "view d0 = view d"
    and "complete_merged (scanJob r) (jJobSeq (rwJob r)) pr now d0 = Inr d'"
    and "prBoundActive (jState (rwJob r))" and "rpMergeCommit pr \<noteq> []" and "tbJobs d0 = tbJobs d"
    and "rpMerged pr"
proof -
  from assms obtain r where r: "find_row d i = Some r"
    by (auto simp: ApplyReconciledPR_def and_then_Inr_iff loadJobTx_Inr)
  note out = that
  let ?m = "tbMarks d i"
  consider (frozen) "fmMergeCommit ?m \<noteq> []" "\<not> prBoundActive (jState (rwJob r))"
    | (repair) "fmMergeCommit ?m \<noteq> []" "prBoundActive (jState (rwJob r))"
    | (stale) "fmMergeCommit ?m = []" "fmHeadUpdatedAt ?m \<noteq> 0 \<and> rpUpdatedAt pr \<noteq> 0
        \<and> rpUpdatedAt pr < fmHeadUpdatedAt ?m"
    | (fresh) "fmMergeCommit ?m = []" "\<not> (fmHeadUpdatedAt ?m \<noteq> 0 \<and> rpUpdatedAt pr \<noteq> 0
        \<and> rpUpdatedAt pr < fmHeadUpdatedAt ?m)" by blast
  then show ?thesis
  proof cases
    case frozen
    with assms r have "d' = d" by (simp add: ApplyReconciledPR_def loadJobTx_def)
    with does_frame [OF r refl] show ?thesis by (intro out(1) [OF rec_none, of r]) simp
  next
    case repair
    with assms r obtain d1 where t: "reconcileTransitionTx (scanJob r) (jJobSeq (rwJob r)) StateDone
        KindJobCompleted now (merged_payload (fmMergeCommit ?m)) d = Inr d1"
      and d': "d' = enqueueHistoryWriteTx i d1"
      by (auto simp: ApplyReconciledPR_def loadJobTx_def and_then_Inr_iff Let_def)
    show ?thesis
      by (rule out(1) [OF rec_merged]) (use repair transition_does [OF t r] in \<open>auto simp: d' does_def\<close>)
  next
    case stale
    with assms r have "d' = d" by (simp add: ApplyReconciledPR_def loadJobTx_def)
    with does_frame [OF r refl] show ?thesis by (intro out(1) [OF rec_none, of r]) simp
  next
    case fresh
    let ?d0 = "upsertDomainBFactsTx i pr d"
    have r0: "find_row ?d0 i = Some r" using r by (simp add: find_row_view [OF refl, of ?d0])  (simp add: fst_view)
    from fresh assms r have sw: "reconcile_switch (scanJob r) (jJobSeq (rwJob r))
        (shaMoved (scanJob r) (domainBFactsTx d i) pr) pr now ?d0 = Inr (d', oc)"
      by (auto simp: ApplyReconciledPR_def Let_def loadJobTx_def split: if_split_asm)
    from sw r0 show ?thesis
    proof (rule reconcile_switch_does)
      fix es r' assume "reconcile_does (fmMergeCommit (tbMarks d i) \<noteq> []) pr now r es r'" "does i r r' es ?d0 d'"
      then show ?thesis by (intro out(1)) (simp_all add: does_def r)
    next
      assume "complete_merged (scanJob r) (jJobSeq (rwJob r)) pr now ?d0 = Inr d'"
        "prBoundActive (jState (rwJob r))" "rpMergeCommit pr \<noteq> []" "rpMerged pr"
      then show ?thesis by (intro out(2) [OF r0]) (simp_all, simp add: upsertDomainBFactsTx_def)
    qed
  qed
qed

end
