(* ===== verification/Store_Invariant.thy ===== *)
theory Store_Invariant
  imports Store_Out_Effects
begin

text \<open>
  The invariant of the store's rows: a row is the fold of its events.  The
  shape of a build job's row in each state, the columns on which row and fold
  are compared, and the preservation of the invariant by each step.
\<close>

section \<open>Row and fold\<close>

text \<open>
  The columns a rebuild from the ledger restores.  Left out are those whose
  value is not on the events (\<open>issue_number\<close>, \<open>repo\<close>, \<open>flow_id\<close>, the cost ceiling,
  \<open>bound_lens\<close>) and those on which the projections of the source differ from
  the fold: \<open>stage\<close> (the review claim), \<open>enqueued_at\<close> (revocations, requeue),
  \<open>blocked_by\<close> (cleared dependents), \<open>last_review_notes\<close> (an exhausted review),
  and \<open>merge_provenance\<close> (reconciliation), and the human-gate columns of a cancelled job.
\<close>

definition projected :: "Job \<Rightarrow> Job" where
  "projected j =
     j\<lparr>jStage := [], jEnqueuedAt := 0, jBoundLens := [], jIssueNum := 0, jRepo := [], jFlowID := [],
       jCostCeilingMicroUSD := None, jBlockedBy := [], jLastReviewNotes := [],
       jMergeProvenance := [],
       jEscalationReason := (if jState j = StateCancelled then [] else jEscalationReason j),
       jOverBudget := (jState j \<noteq> StateCancelled \<and> jOverBudget j)\<rparr>"

lemma projected_iff:
  "projected j = projected k \<longleftrightarrow>
     jID j = jID k \<and> jKind j = jKind k \<and> jFlow j = jFlow k \<and>
     jState j = jState k \<and> jRole j = jRole k \<and> jChatRef j = jChatRef k \<and>
     jSpecRef j = jSpecRef k \<and> jParentJob j = jParentJob k \<and>
     jPRNumber j = jPRNumber k \<and> jEpicID j = jEpicID k \<and> jIsEpic j = jIsEpic k \<and>
     jEpicReviewed j = jEpicReviewed k \<and> jBaseSHA j = jBaseSHA k \<and>
     jHeadSHA j = jHeadSHA k \<and> jTaskText j = jTaskText k \<and>
     jSpecText j = jSpecText k \<and> jAcceptanceCriteria j = jAcceptanceCriteria k \<and>
     jSpecContentHash j = jSpecContentHash k \<and> jSpecVersion j = jSpecVersion k \<and>
     jSpecSignoff j = jSpecSignoff k \<and> jPriority j = jPriority k \<and>
     jRequiredCapabilities j = jRequiredCapabilities k \<and> jLeaseID j = jLeaseID k \<and>
     jLeaseEpoch j = jLeaseEpoch k \<and> jBoundIdentity j = jBoundIdentity k \<and>
     jBoundModelFamily j = jBoundModelFamily k \<and>
     jLastCIFailures j = jLastCIFailures k \<and> jDiffEmpty j = jDiffEmpty k \<and>
     jAttempts j = jAttempts k \<and> jMaxAttempts j = jMaxAttempts k \<and>
     jBounces j = jBounces k \<and> jMaxBounces j = jMaxBounces k \<and>
     jStallRevocations j = jStallRevocations k \<and>
     jUnblockAttempts j = jUnblockAttempts k \<and>
     jLastProgressSHA j = jLastProgressSHA k \<and> jStuckHint j = jStuckHint k \<and>
     jCostTokensIn j = jCostTokensIn k \<and> jCostTokensOut j = jCostTokensOut k \<and>
     jCostMicroUSD j = jCostMicroUSD k \<and> jBuildEpoch j = jBuildEpoch k \<and>
     jVerdict j = jVerdict k \<and> jJobSeq j = jJobSeq k
     \<and> (jState j \<noteq> StateCancelled \<longrightarrow>
          jEscalationReason j = jEscalationReason k \<and> jOverBudget j = jOverBudget k)"
  by (cases j; cases k) (auto simp: projected_def)

text \<open>The states a build job reaches through the transactions of this development.\<close>

fun build_state :: "State \<Rightarrow> bool" where
  "build_state StateBlocked = True"
| "build_state StateReady = True"
| "build_state StateLeased = True"
| "build_state StateReviewPending = True"
| "build_state StateCodeReview = True"
| "build_state StateMergeable = True"
| "build_state StateMerging = True"
| "build_state StateMergeHandoff = True"
| "build_state StateDone = True"
| "build_state StateNeedsHuman = True"
| "build_state StateFailed = True"
| "build_state StateCancelled = True"
| "build_state StateResolvingConflict = True"
| "build_state _ = False"

text \<open>Those in which the row is an eng worker's.\<close>

fun eng_state :: "State \<Rightarrow> bool" where
  "eng_state StateBlocked = True"
| "eng_state StateReady = True"
| "eng_state StateLeased = True"
| "eng_state _ = False"

text \<open>Those in which the human-gate columns may be set.\<close>

fun human_state :: "State \<Rightarrow> bool" where
  "human_state StateNeedsHuman = True"
| "human_state StateCancelled = True"
| "human_state _ = False"

text \<open>Those in which the row may carry a verdict.\<close>

fun verdict_state :: "State \<Rightarrow> bool" where
  "verdict_state StateMergeable = True"
| "verdict_state StateMerging = True"
| "verdict_state StateMergeHandoff = True"
| "verdict_state StateFailed = True"
| "verdict_state StateCancelled = True"
| "verdict_state StateDone = True"
| "verdict_state StateNeedsHuman = True"
| "verdict_state _ = False"

definition shape :: "Row \<Rightarrow> bool" where
  "shape r \<longleftrightarrow>
     (let s = jState (rwJob r) in
      jKind (rwJob r) = KindBuild \<and> jBaseSHA (rwJob r) \<noteq> [] \<and> build_state s
      \<and> (eng_state s \<longrightarrow>
           jRole (rwJob r) = RoleEngWorker \<and> jRequiredCapabilities (rwJob r) = [''role:eng_worker''])
      \<and> (s = StateResolvingConflict \<longrightarrow> jRole (rwJob r) = RoleConflictResolver
           \<and> jRequiredCapabilities (rwJob r) = [''role:conflict_resolver''])
      \<and> (\<not> HasActiveLease s \<longrightarrow>
           jLeaseID (rwJob r) = [] \<and> rwBoundIdentity r = None \<and> rwBoundModelFamily r = None)
      \<and> (\<not> human_state s \<longrightarrow> jEscalationReason (rwJob r) = [] \<and> \<not> jOverBudget (rwJob r))
      \<and> (jVerdict (rwJob r) \<noteq> None \<longrightarrow> verdict_state s))"

text \<open>The events of a job are numbered on from \<open>n\<close> without a gap.\<close>

fun numbered_from :: "int \<Rightarrow> Event list \<Rightarrow> bool" where
  "numbered_from n [] = True"
| "numbered_from n (e # es) = (eJobSeq e = n + 1 \<and> numbered_from (n + 1) es)"

lemma numbered_from_append [simp]:
  "numbered_from n (es @ fs) \<longleftrightarrow> numbered_from n es \<and> numbered_from (n + int (length es)) fs"
  by (induction es arbitrary: n) (auto simp: add_ac)

lemma numbered_from_nth:
  "numbered_from n es \<longleftrightarrow> (\<forall>k < length es. eJobSeq (es ! k) = n + 1 + int k)"
  by (induction es arbitrary: n) (auto simp: All_less_Suc2 add_ac)

text \<open>
  A row and its events agree: the events are numbered from 1, the row's cursor
  is the last of them, and row and fold agree on the columns above.
\<close>

definition good :: "Event list \<Rightarrow> Row \<Rightarrow> bool" where
  "good es r \<longleftrightarrow>
     numbered_from 0 es \<and> jJobSeq (rwJob r) = int (length es)
     \<and> projected (scanJob r) = projected (Fold es) \<and> shape r"

lemma good_step:
  assumes "good es r" and "numbered_from (jJobSeq (rwJob r)) new"
    and "jJobSeq (rwJob r') = jJobSeq (rwJob r) + int (length new)" and "shape r'"
    and "projected (scanJob r') = projected (fold_from (Fold es) new)"
  shows "good (es @ new) r'"
proof -
  have "Fold (es @ new) = fold_from (Fold es) new"
    by (simp add: Fold_def fold_from_foldl)
  then show ?thesis using assms by (simp add: good_def)
qed

section \<open>Each step keeps row and fold together\<close>

lemmas step_simps =
  projected_iff scanJob_def set_seq_def fold_event_def on_defs sync_defs coalesce_def
  zero_payload_def

lemma claim_projected:
  assumes "projected (scanJob r) = projected J" and "shape r" and "jState (rwJob r) = StateReady"
  shows "projected (scanJob (set_seq n (claim_row p a r))) =
    projected (fold_event J (claim_ledger_event p KindLeaseClaimed StateReady StateLeased
      (jLeaseEpoch (rwJob r) + 1) n))"
  using assms by (simp add: step_simps shape_def claim_row_def claim_ledger_event_def)

lemma review_claim_projected:
  assumes "projected (scanJob r) = projected J" and "shape r" and "jState (rwJob r) = StateReviewPending"
  shows "projected (scanJob (set_seq n (review_claim_row p r))) =
    projected (fold_event J (claim_ledger_event p KindReviewClaimed StateReviewPending StateCodeReview
      (jLeaseEpoch (rwJob r) + 1) n))"
  using assms by (simp add: step_simps shape_def review_claim_row_def claim_ledger_event_def)

lemma step_seq [simp]:
  "jJobSeq (rwJob (set_seq n r)) = n" "eJobSeq (claim_ledger_event p k f t e m) = m"
  "eJobSeq (revoke_event i r tr w x) = jJobSeq (rwJob r) + 1"
  "jJobSeq (rwJob (revoked r tr w x)) = jJobSeq (rwJob r) + 1"
  by (simp_all add: set_seq_def claim_ledger_event_def revoke_event_def revoked_def)

lemma goodD:
  assumes "good es r"
  shows "projected (scanJob r) = projected (Fold es)" and "shape r"
    and "jJobSeq (rwJob r) = int (length es)"
  using assms by (simp_all add: good_def)

lemma claim_good:
  assumes "good es r" and "jState (rwJob r) = StateReady"
  shows "good (es @ [claim_ledger_event p KindLeaseClaimed StateReady StateLeased
      (jLeaseEpoch (rwJob r) + 1) (jJobSeq (rwJob r) + 1)])
    (set_seq (jJobSeq (rwJob r) + 1) (claim_row p a r))"
proof (rule good_step [OF assms(1)])
  show "shape (set_seq (jJobSeq (rwJob r) + 1) (claim_row p a r))"
    using goodD(2) [OF assms(1)] assms(2) by (simp add: shape_def set_seq_def claim_row_def)
qed (simp_all add: claim_projected [OF goodD(1,2) [OF assms(1)] assms(2)])

lemma review_claim_good:
  assumes "good es r" and "jState (rwJob r) = StateReviewPending"
  shows "good (es @ [claim_ledger_event p KindReviewClaimed StateReviewPending StateCodeReview
      (jLeaseEpoch (rwJob r) + 1) (jJobSeq (rwJob r) + 1)])
    (set_seq (jJobSeq (rwJob r) + 1) (review_claim_row p r))"
proof (rule good_step [OF assms(1)])
  show "shape (set_seq (jJobSeq (rwJob r) + 1) (review_claim_row p r))"
    using goodD(2) [OF assms(1)] assms(2) by (simp add: shape_def set_seq_def review_claim_row_def)
qed (simp_all add: review_claim_projected [OF goodD(1,2) [OF assms(1)] assms(2)])

text \<open>The transitions of the ladder and of the fast paths.\<close>

definition revoke_move :: "State \<Rightarrow> Transition \<Rightarrow> string \<Rightarrow> bool" where
  "revoke_move s t esc \<longleftrightarrow> tFrom t = s \<and> tBumpEpoch t \<and>
     (tKind t = KindLeaseRevoked \<and> tTo t = redispatchTarget s \<and> tAttemptsDelta t = 1
        \<and> tStallRevocationsDelta t = 1 \<and> esc = [] \<and> LivenessEvaluable s
      \<or> tKind t = KindStallEscalated \<and> tTo t = StateNeedsHuman \<and> tAttemptsDelta t = 0
        \<and> tStallRevocationsDelta t = 1 \<and> esc \<noteq> [] \<and> LivenessEvaluable s
      \<or> tKind t = KindAgentExited \<and> tTo t = StateFailed \<and> tAttemptsDelta t = 0
        \<and> tStallRevocationsDelta t = 0 \<and> esc = [] \<and> HasActiveLease s
      \<or> tKind t = KindFastCancelled \<and> tTo t = redispatchTarget s \<and> tAttemptsDelta t = 1
        \<and> tStallRevocationsDelta t = 0 \<and> esc = [] \<and> HasActiveLease s)"

lemma redispatch_not_human: "redispatchTarget s \<noteq> StateNeedsHuman"
  by (cases s) simp_all

lemma liveness_revoke_move:
  assumes "dTransitions (decide_liveness st lv) = t # ts" and "LivenessEvaluable (jState (esJob st))"
    and esc: "esc = (if tTo t = StateNeedsHuman
                then (if lvAttemptsExhausted lv \<and> \<not> lvGovernorCeilingReached lv
                      then escalation_str EscalationAttempts else escalation_str EscalationStall)
                else [])"
  shows "revoke_move (jState (esJob st)) t esc"
proof -
  let ?k = "EvaluateKill (lvRungs lv)" and ?s = "jState (esJob st)"
  have "t = (move ?s StateNeedsHuman KindStallEscalated)\<lparr>tStallRevocationsDelta := 1, tBumpEpoch := True,
          tRevokeReason := revoke_reason ?k (lvRungs lv)\<rparr>
      \<or> t = (move ?s (redispatchTarget ?s) KindLeaseRevoked)\<lparr>tAttemptsDelta := 1,
          tStallRevocationsDelta := 1, tBumpEpoch := True,
          tRevokeReason := revoke_reason ?k (lvRungs lv)\<rparr>"
    using assms(1) unfolding decide_liveness_def Let_def
    by (simp only: decision_sel if_distrib [of dTransitions]) (simp split: if_split_asm)
  then show ?thesis
  proof
    assume t: "t = (move ?s StateNeedsHuman KindStallEscalated)\<lparr>tStallRevocationsDelta := 1,
        tBumpEpoch := True, tRevokeReason := revoke_reason ?k (lvRungs lv)\<rparr>"
    with esc have "esc \<noteq> []" by simp
    with t assms(2) show ?thesis by (simp add: revoke_move_def)
  next
    assume t: "t = (move ?s (redispatchTarget ?s) KindLeaseRevoked)\<lparr>tAttemptsDelta := 1,
          tStallRevocationsDelta := 1, tBumpEpoch := True,
          tRevokeReason := revoke_reason ?k (lvRungs lv)\<rparr>"
    with esc redispatch_not_human have "esc = []" by simp
    with t assms(2) show ?thesis by (simp add: revoke_move_def)
  qed
qed

lemma heartbeat_revoke_move:
  assumes "dTransitions (decide_heartbeat st hb) = t # ts"
  shows "revoke_move (jState (esJob st)) t [] \<and> (tKind t = KindFastCancelled \<longrightarrow> hbAwaitingInput hb)"
proof -
  have act: "HasActiveLease (jState (esJob st))"
    using assms by (simp add: decide_heartbeat_def split: option.splits if_split_asm)
  show ?thesis
  proof (cases "EvaluateFastPath (hbHealth hb) (hbAwaitingInput hb) (hbAgentExited hb)")
    case FastPathNone
    with assms show ?thesis by (simp add: decide_heartbeat_def split: option.splits if_split_asm)
  next
    case FastPathCancel
    moreover from this have "hbAwaitingInput hb"
      by (simp add: EvaluateFastPath_def split: if_split_asm)
    ultimately show ?thesis using assms act
      by (simp add: decide_heartbeat_def split: option.splits) (auto simp: revoke_move_def)
  next
    case FastPathFailed
    with assms act show ?thesis
      by (simp add: decide_heartbeat_def split: option.splits) (auto simp: revoke_move_def)
  qed
qed

lemma shapeD:
  assumes "shape r"
  shows "jKind (rwJob r) = KindBuild" and "jBaseSHA (rwJob r) \<noteq> []"
    and "jState (rwJob r) = StateLeased \<Longrightarrow> jRole (rwJob r) = RoleEngWorker"
    and "jState (rwJob r) = StateLeased \<Longrightarrow> jRequiredCapabilities (rwJob r) = [''role:eng_worker'']"
    and "HasActiveLease (jState (rwJob r)) \<Longrightarrow> jEscalationReason (rwJob r) = []"
    and "HasActiveLease (jState (rwJob r)) \<Longrightarrow> \<not> jOverBudget (rwJob r)"
    and "\<not> verdict_state (jState (rwJob r)) \<Longrightarrow> jVerdict (rwJob r) = None"
    and "build_state (jState (rwJob r))"
proof -
  have "HasActiveLease s \<Longrightarrow> \<not> human_state s" for s by (cases s) simp_all
  then show "HasActiveLease (jState (rwJob r)) \<Longrightarrow> jEscalationReason (rwJob r) = []"
    and "HasActiveLease (jState (rwJob r)) \<Longrightarrow> \<not> jOverBudget (rwJob r)"
    using assms unfolding shape_def Let_def by blast+
qed (use assms in \<open>auto simp: shape_def Let_def\<close>)

lemma revoke_states:
  "shape r \<Longrightarrow> revoke_move (jState (rwJob r)) t esc \<Longrightarrow>
     jState (rwJob r) \<in> {StateLeased, StateCodeReview, StateMerging, StateMergeHandoff,
       StateResolvingConflict}"
proof -
  have "build_state s \<Longrightarrow> HasActiveLease s \<or> LivenessEvaluable s \<Longrightarrow>
      s \<in> {StateLeased, StateCodeReview, StateMerging, StateMergeHandoff, StateResolvingConflict}" for s
    by (cases s) (simp_all add: LivenessEvaluable_iff)
  moreover assume "shape r" "revoke_move (jState (rwJob r)) t esc"
  ultimately show ?thesis using shapeD(8) [of r] by (auto simp only: revoke_move_def)
qed

lemmas revoke_simps = revoked_def revoke_row_def revoke_event_def revoke_payload_def new_epoch_def

lemma revoke_projected_leased:
  assumes "projected (scanJob r) = projected J" and "shape r" and "jState (rwJob r) = StateLeased"
    and "revoke_move StateLeased t esc"
  shows "projected (scanJob (revoked r t now esc)) = projected (fold_event J (revoke_event i r t now esc))"
proof -
  note facts = shapeD [OF assms(2)]
  have j: "jRole J = RoleEngWorker" "jKind J = KindBuild" "jRequiredCapabilities J = [''role:eng_worker'']"
    "jEscalationReason J = []" "\<not> jOverBudget J" "jEscalationReason (rwJob r) = []"
    "\<not> jOverBudget (rwJob r)"
    using assms(1,3) facts by (simp_all add: projected_iff scanJob_def)
  from assms(4) show ?thesis
    unfolding revoke_move_def using assms(1) j
    by (elim conjE disjE) (simp_all add: step_simps revoke_simps assms(3) facts)
qed

lemma revoke_projected_gate:
  assumes "projected (scanJob r) = projected J" and "shape r"
    and "jState (rwJob r) \<in> {StateCodeReview, StateMerging, StateMergeHandoff}"
    and "revoke_move (jState (rwJob r)) t esc"
    and "tTo t \<in> {StateReviewPending, StateNeedsHuman, StateFailed}"
  shows "projected (scanJob (revoked r t now esc)) = projected (fold_event J (revoke_event i r t now esc))"
proof -
  note facts = shapeD [OF assms(2)]
  have act: "HasActiveLease (jState (rwJob r))" using assms(3) by auto
  have j: "jEscalationReason J = []" "\<not> jOverBudget J" "jEscalationReason (rwJob r) = []"
    "\<not> jOverBudget (rwJob r)"
    using assms(1,3) facts(5,6) [OF act] by (auto simp: projected_iff scanJob_def)
  from assms(5,4) show ?thesis
    unfolding revoke_move_def insert_iff empty_iff using assms(1) j
    by (elim conjE disjE) (simp_all add: step_simps revoke_simps)
qed

lemma revoke_projected_resolving:
  assumes "projected (scanJob r) = projected J" and "shape r"
    and "jState (rwJob r) = StateResolvingConflict" and "revoke_move StateResolvingConflict t esc"
  shows "projected (scanJob (revoked r t now esc)) = projected (fold_event J (revoke_event i r t now esc))"
proof -
  have f: "jRole (rwJob r) = RoleConflictResolver"
    "jRequiredCapabilities (rwJob r) = [''role:conflict_resolver'']"
    using assms(2,3) by (simp_all add: shape_def)
  have act: "HasActiveLease (jState (rwJob r))" using assms(3) by simp
  note facts = shapeD(1,2) [OF assms(2)] shapeD(5,6) [OF assms(2) act]
  have j: "jRole J = RoleConflictResolver" "jKind J = KindBuild"
    "jRequiredCapabilities J = [''role:conflict_resolver'']"
    "jEscalationReason J = []" "\<not> jOverBudget J"
    using assms(1,3) f facts by (simp_all add: projected_iff scanJob_def)
  from assms(4) show ?thesis
    unfolding revoke_move_def using assms(1) j
    by (elim conjE disjE) (simp_all add: step_simps revoke_simps assms(3) f facts)
qed

text \<open>Where a revocation leads, if it does not take a merge arm back.\<close>

lemma revoke_target:
  assumes "revoke_move s t esc"
    and "s \<in> {StateLeased, StateCodeReview, StateMerging, StateMergeHandoff, StateResolvingConflict}"
    and "tKind t = KindFastCancelled \<Longrightarrow> s \<notin> {StateMerging, StateMergeHandoff}"
  shows "tTo t \<in> {StateNeedsHuman, StateFailed}
    \<or> s = StateLeased \<and> tTo t = StateReady \<or> s = StateCodeReview \<and> tTo t = StateReviewPending
    \<or> s = StateResolvingConflict \<and> tTo t = StateResolvingConflict"
    and "tTo t = StateNeedsHuman \<or> esc = []"
    and "tTo t \<noteq> StateFailed \<Longrightarrow> s \<in> {StateLeased, StateCodeReview, StateResolvingConflict}"
  using assms(1) unfolding revoke_move_def
  by (elim conjE disjE; use assms(2,3) in \<open>auto simp: LivenessEvaluable_iff\<close>)+

lemma revoke_projected:
  assumes "projected (scanJob r) = projected J" and "shape r"
    and "revoke_move (jState (rwJob r)) t esc"
    and "tKind t = KindFastCancelled \<Longrightarrow> jState (rwJob r) \<notin> {StateMerging, StateMergeHandoff}"
  shows "projected (scanJob (revoked r t now esc)) = projected (fold_event J (revoke_event i r t now esc))"
proof (cases "jState (rwJob r) \<in> {StateLeased, StateResolvingConflict}")
  case True
  with assms show ?thesis by (auto simp: revoke_projected_leased revoke_projected_resolving)
next
  case False
  note st = revoke_states [OF assms(2,3)]
  have "tTo t \<in> {StateReviewPending, StateNeedsHuman, StateFailed}"
    using revoke_target(1) [OF assms(3) st assms(4)] False by blast
  moreover have "jState (rwJob r) \<in> {StateCodeReview, StateMerging, StateMergeHandoff}"
    using st False by blast
  ultimately show ?thesis using revoke_projected_gate [OF assms(1,2) _ assms(3)] by blast
qed

lemma revoke_shape:
  assumes "shape r" and "revoke_move (jState (rwJob r)) t esc"
    and "tKind t = KindFastCancelled \<Longrightarrow> jState (rwJob r) \<notin> {StateMerging, StateMergeHandoff}"
  shows "shape (revoked r t now esc)"
proof -
  note st = revoke_states [OF assms(1,2)]
  note tgt = revoke_target [OF assms(2) st assms(3)]
  have to: "tTo t \<in> {StateReady, StateReviewPending, StateNeedsHuman, StateFailed, StateResolvingConflict}"
    using tgt(1) by blast
  have res: "tTo t = StateResolvingConflict \<Longrightarrow> jRole (rwJob r) = RoleConflictResolver
      \<and> jRequiredCapabilities (rwJob r) = [''role:conflict_resolver'']"
    using tgt(1) assms(1) by (auto simp: shape_def Let_def)
  have v: "tTo t \<noteq> StateFailed \<Longrightarrow> jVerdict (rwJob r) = None"
    using tgt(3) shapeD(7) [OF assms(1)] by auto
  have act: "HasActiveLease (jState (rwJob r))" using st by auto
  note facts = shapeD(1,2) [OF assms(1)] shapeD(5,6) [OF assms(1) act]
  from to show ?thesis
    unfolding insert_iff empty_iff
    by (elim disjE) (use tgt(2) v facts res in
      \<open>simp_all add: shape_def revoked_def revoke_row_def set_seq_def Let_def\<close>)
qed

lemma revoke_good:
  assumes "good es r" and "revoke_move (jState (rwJob r)) t esc"
    and "tKind t = KindFastCancelled \<Longrightarrow> jState (rwJob r) \<notin> {StateMerging, StateMergeHandoff}"
  shows "good (es @ [revoke_event i r t now esc]) (revoked r t now esc)"
proof (rule good_step [OF assms(1)])
  show "shape (revoked r t now esc)" using revoke_shape [OF goodD(2) [OF assms(1)] assms(2,3)] .
qed (simp_all add: revoke_projected [OF goodD(1,2) [OF assms(1)] assms(2,3)])

end
