(* ===== verification/Store_Steps.thy ===== *)
theory Store_Steps
  imports Store_Invariant
begin

text \<open>
  The remaining steps keep row and fold together: results, releases, reviews,
  dispatch, requeue and cancel, alarms and heartbeats, seeding and completion.
\<close>

lemma shape_gate:
  assumes "shape r" and "\<not> human_state (jState (rwJob r))"
  shows "jEscalationReason (rwJob r) = []" and "\<not> jOverBudget (rwJob r)"
  using assms by (simp_all add: shape_def Let_def)

lemma shape_eng:
  assumes "shape r" and "eng_state (jState (rwJob r))"
  shows "jRole (rwJob r) = RoleEngWorker" and "jRequiredCapabilities (rwJob r) = [''role:eng_worker'']"
  using assms by (simp_all add: shape_def Let_def)

lemma shape_idle:
  assumes "shape r" and "\<not> HasActiveLease (jState (rwJob r))"
  shows "jLeaseID (rwJob r) = []" and "rwBoundIdentity r = None" and "rwBoundModelFamily r = None"
  using assms by (simp_all add: shape_def Let_def)

lemma shape_resolver:
  assumes "shape r" and "jState (rwJob r) = StateResolvingConflict"
  shows "jRole (rwJob r) = RoleConflictResolver"
    and "jRequiredCapabilities (rwJob r) = [''role:conflict_resolver'']"
  using assms by (simp_all add: shape_def Let_def)

section \<open>Events that change nothing but the cursor\<close>

lemma sync_role_caps_noop:
  "build_state (jState j) \<Longrightarrow>
   (jState j = StateReady \<Longrightarrow>
      jRole j = RoleEngWorker \<and> jRequiredCapabilities j = [''role:eng_worker'']) \<Longrightarrow>
   (jState j = StateResolvingConflict \<Longrightarrow>
      jRole j = RoleConflictResolver \<and> jRequiredCapabilities j = [''role:conflict_resolver'']) \<Longrightarrow>
   sync_role_caps j = j"
  by (cases "jState j") (simp_all add: sync_role_caps_def)

lemma sync_human_gate_noop:
  "jState j \<noteq> StateNeedsHuman \<Longrightarrow> jState j \<noteq> StateNeedsDesign \<Longrightarrow> jEscalationReason j = [] \<Longrightarrow>
   \<not> jOverBudget j \<Longrightarrow> sync_human_gate p j = j"
  by (simp add: sync_human_gate_def)

definition audit_event :: "Event \<Rightarrow> bool" where
  "audit_event e \<longleftrightarrow>
     eKind e \<in> {KindHeartbeat, KindNoEligibleWorker, KindVerdictClaim, KindStackedRebased}
     \<and> pReviewNotes (ePayload e) = [] \<and> pCIFailures (ePayload e) = []"

lemma audit_projected:
  assumes "projected (scanJob r) = projected J" and "shape r" and "audit_event e"
    and "\<not> human_state (jState (rwJob r))"
  shows "projected (scanJob (set_seq (eJobSeq e) r)) = projected (fold_event J e)"
proof -
  have j: "jState J = jState (rwJob r)" "jRole J = jRole (rwJob r)"
    "jRequiredCapabilities J = jRequiredCapabilities (rwJob r)"
    using assms(1) by (simp_all add: projected_iff scanJob_def)
  have "jState (rwJob r) \<noteq> StateCancelled" using assms(4) by auto
  with assms(1) shape_gate [OF assms(2,4)] have g: "jEscalationReason J = []" "\<not> jOverBudget J"
    by (simp_all add: projected_iff scanJob_def)
  have k: "kind_step (eKind e) e J = J" and n: "sync_notes (ePayload e) J = J"
    using assms(3) by (auto simp: audit_event_def sync_notes_def)
  have "build_state (jState J)" using shapeD(8) [OF assms(2)] j by simp
  then have "jState J \<noteq> StateNeedsHuman" "jState J \<noteq> StateNeedsDesign"
    using assms(4) j by auto
  then have h: "sync_human_gate (ePayload e) J = J" using g by (simp add: sync_human_gate_noop)
  have "sync_role_caps J = J"
    using \<open>build_state (jState J)\<close> shape_eng [OF assms(2)] shape_resolver [OF assms(2)] j
    by (intro sync_role_caps_noop) simp_all
  then have "fold_event J e = J\<lparr>jJobSeq := eJobSeq e\<rparr>" by (simp add: fold_event_def k n h)
  then show ?thesis using assms(1) by (simp add: projected_iff scanJob_def set_seq_def)
qed

lemma audit_good:
  assumes "good es r" and "audit_event e" and "\<not> human_state (jState (rwJob r))"
    and "eJobSeq e = jJobSeq (rwJob r) + 1"
  shows "good (es @ [e]) (set_seq (jJobSeq (rwJob r) + 1) r)"
proof (rule good_step [OF assms(1)])
  show "shape (set_seq (jJobSeq (rwJob r) + 1) r)"
    using goodD(2) [OF assms(1)] by (simp add: shape_def set_seq_def)
  show "projected (scanJob (set_seq (jJobSeq (rwJob r) + 1) r)) = projected (fold_from (Fold es) [e])"
    using audit_projected [OF goodD(1,2) [OF assms(1)] assms(2,3)] assms(4) by simp
qed (simp_all add: assms(4))

text \<open>The columns the heartbeat and the content check write are outside row and fold.\<close>

lemma good_cong:
  "rwJob r' = rwJob r \<Longrightarrow> rwBoundIdentity r' = rwBoundIdentity r \<Longrightarrow>
   rwBoundModelFamily r' = rwBoundModelFamily r \<Longrightarrow> good es r' = good es r"
  by (simp add: good_def shape_def scanJob_def)

lemma beat_good:
  assumes "good es r" and "HasActiveLease (jState (rwJob r))"
  shows "good (es @ [fenced_event i (jJobSeq (rwJob r) + 1) KindHeartbeat (jState (rwJob r))
      (jState (rwJob r)) (jLeaseEpoch (rwJob r)) a w zero_payload])
    (set_seq (jJobSeq (rwJob r) + 1) (beat_row p r))"
proof -
  have b: "good es (beat_row p r)" "rwJob (beat_row p r) = rwJob r"
    using assms(1) good_cong [of "beat_row p r" r es] by (simp_all add: beat_row_def)
  have "\<not> human_state (jState (rwJob r))" using assms(2) by (cases "jState (rwJob r)") simp_all
  then show ?thesis
    using audit_good [OF b(1), of "fenced_event i (jJobSeq (rwJob r) + 1) KindHeartbeat
        (jState (rwJob r)) (jState (rwJob r)) (jLeaseEpoch (rwJob r)) a w zero_payload"]
    by (simp add: b(2) audit_event_def zero_payload_def)
qed

section \<open>Results\<close>

lemma result_good:
  assumes "good es r" and "jState (rwJob r) = StateLeased"
    and "ts = [move StateLeased StateBuilding KindWorkerStarted,
               move StateBuilding StateReviewPending KindResultAccepted]"
  shows "good (es @ numbered (result_event p (scanJob r)) (jJobSeq (rwJob r)) ts) (result_done p r ts)"
proof (rule good_step [OF assms(1)])
  note g = goodD [OF assms(1)]
  note facts = shapeD(1,2) [OF g(2)] shape_gate [OF g(2)] shape_eng [OF g(2)]
  have v: "jVerdict (rwJob r) = None" using shapeD(7) [OF g(2)] assms(2) by simp
  show "shape (result_done p r ts)"
    using facts v assms(2) by (simp add: shape_def Let_def result_done_def set_seq_def result_row_def)
  have j: "jRole (Fold es) = RoleEngWorker" "jEscalationReason (rwJob r) = []" "\<not> jOverBudget (rwJob r)"
    "jEscalationReason (Fold es) = []" "\<not> jOverBudget (Fold es)"
    using g(1) facts assms(2) by (simp_all add: projected_iff scanJob_def)
  show "projected (scanJob (result_done p r ts)) =
      projected (fold_from (Fold es) (numbered (result_event p (scanJob r)) (jJobSeq (rwJob r)) ts))"
    using g(1) j facts(5) assms(2)
    by (simp add: assms(3) step_simps result_done_def result_row_def result_event_def)
qed (simp_all add: assms(3) result_event_def result_done_def set_seq_def)

section \<open>Releases\<close>

lemma release_target_simps [simp]:
  "release_target StateLeased = StateReady" "release_target StateCodeReview = StateReviewPending"
  "release_target StateResolvingConflict = StateResolvingConflict"
  by (simp_all add: release_target_def Next_def transitions_def)

lemma release_good:
  assumes "good es r" and "jState (rwJob r) \<in> {StateLeased, StateCodeReview, StateResolvingConflict}"
  shows "good (es @ [release_event p r]) (set_seq (jJobSeq (rwJob r) + 1) (released_row p r))"
proof (rule good_step [OF assms(1)])
  note g = goodD [OF assms(1)]
  note facts = shapeD(1,2) [OF g(2)] shape_gate [OF g(2)] shape_eng [OF g(2)] shape_resolver [OF g(2)]
  have v: "jVerdict (rwJob r) = None" using shapeD(7) [OF g(2)] assms(2) by auto
  have h: "\<not> human_state (jState (rwJob r))" "jState (rwJob r) \<noteq> StateCancelled" using assms(2) by auto
  have j: "jEscalationReason (Fold es) = []" "\<not> jOverBudget (Fold es)"
    using g(1) h facts(3,4) by (simp_all add: projected_iff scanJob_def)
  show "shape (set_seq (jJobSeq (rwJob r) + 1) (released_row p r))"
    using assms(2) facts v
    by (auto simp: shape_def Let_def set_seq_def released_row_def release_row_def end_lease_row_def)
  show "projected (scanJob (set_seq (jJobSeq (rwJob r) + 1) (released_row p r))) =
      projected (fold_from (Fold es) [release_event p r])"
  proof (cases "jState (rwJob r) = StateLeased")
    case True
    with g(1) facts have "jRole (Fold es) = RoleEngWorker" "jKind (Fold es) = KindBuild"
      "jRequiredCapabilities (Fold es) = [''role:eng_worker'']"
      by (simp_all add: projected_iff scanJob_def)
    with True g(1) j facts h show ?thesis
      by (simp add: step_simps released_row_def release_row_def end_lease_row_def release_event_def)
  next
    case False
    note nl = this
    show ?thesis
    proof (cases "jState (rwJob r) = StateResolvingConflict")
      case True
      with g(1) facts have "jRole (Fold es) = RoleConflictResolver"
        "jRequiredCapabilities (Fold es) = [''role:conflict_resolver'']"
        by (simp_all add: projected_iff scanJob_def)
      with True g(1) j facts h show ?thesis
        by (simp add: step_simps released_row_def release_row_def end_lease_row_def release_event_def)
    next
      case False
      with assms(2) nl have "jState (rwJob r) = StateCodeReview" by simp
      with g(1) j facts(3,4) h show ?thesis
        by (simp add: step_simps released_row_def release_row_def end_lease_row_def release_event_def)
    qed
  qed
qed (simp_all add: release_event_def Let_def)

lemma exhausted_good:
  assumes "good es r" and "jState (rwJob r) \<in> {StateLeased, StateCodeReview, StateResolvingConflict}"
  shows "good (es @ [release_event p r, exhausted_event p r])
    (set_seq (jJobSeq (rwJob r) + 2) (escalate_row (escalation_str EscalationAttempts) (released_row p r)))"
proof -
  let ?r1 = "set_seq (jJobSeq (rwJob r) + 1) (released_row p r)"
  note g1 = release_good [OF assms, of p]
  have s1: "jState (rwJob ?r1) \<in> {StateReady, StateReviewPending, StateResolvingConflict}"
    and e1: "jLeaseEpoch (rwJob ?r1) = jLeaseEpoch (rwJob r)"
    using assms(2)
    by (auto simp: set_seq_def released_row_def release_row_def end_lease_row_def Let_def)
  have eq: "set_seq (jJobSeq (rwJob r) + 2) (escalate_row x (released_row p r)) =
      set_seq (jJobSeq (rwJob r) + 2) (escalate_row x ?r1)" for x
    by (simp add: set_seq_def escalate_row_def)
  have "good ((es @ [release_event p r]) @ [exhausted_event p r])
    (set_seq (jJobSeq (rwJob r) + 2) (escalate_row (escalation_str EscalationAttempts) ?r1))"
  proof (rule good_step [OF g1])
    note g = goodD [OF g1]
    have idle: "\<not> verdict_state (jState (rwJob ?r1))"
      "jLeaseID (rwJob ?r1) = []" "rwBoundIdentity ?r1 = None" "rwBoundModelFamily ?r1 = None"
      using s1 by (auto simp: set_seq_def released_row_def release_row_def end_lease_row_def Let_def)
    show "shape (set_seq (jJobSeq (rwJob r) + 2) (escalate_row (escalation_str EscalationAttempts) ?r1))"
      using shapeD(1,2) [OF g(2)] idle(2-4) shapeD(7) [OF g(2) idle(1)]
      by (simp add: shape_def Let_def escalate_row_def set_seq_def)
    have gate: "jEscalationReason (rwJob ?r1) = []" "\<not> jOverBudget (rwJob ?r1)"
      using shape_gate [OF g(2)] s1 by auto
    show "projected (scanJob (set_seq (jJobSeq (rwJob r) + 2)
          (escalate_row (escalation_str EscalationAttempts) ?r1))) =
        projected (fold_from (Fold (es @ [release_event p r])) [exhausted_event p r])"
      using g(1) s1 e1 gate
      by (simp add: projected_iff scanJob_def fold_event_def on_state_changed_def sync_defs
          exhausted_event_def escalate_row_def zero_payload_def) (auto simp: set_seq_def)
  qed (simp_all add: exhausted_event_def)
  then show ?thesis by (simp add: eq)
qed

section \<open>Reviews\<close>

lemma verdict_claim_good:
  assumes "good es r" and "jState (rwJob r) = StateCodeReview"
  shows "good (es @ [verdict_claim_event p (scanJob r) (jJobSeq (rwJob r) + 1)])
    (set_seq (jJobSeq (rwJob r) + 1) (r\<lparr>rwContentResult := c\<rparr>))"
  using audit_good [of es "r\<lparr>rwContentResult := c\<rparr>" "verdict_claim_event p (scanJob r) (jJobSeq (rwJob r) + 1)"]
    good_cong [of "r\<lparr>rwContentResult := c\<rparr>" r es] assms
  by (simp add: audit_event_def verdict_claim_event_def zero_payload_def)

lemma minted_single: "minted_verdict [t] = tVerdict t"
  by (simp add: minted_verdict_def)

text \<open>
  Conditional updates pushed into the fields, so that selectors compute without
  case splits.
\<close>

lemma sync_notes_fields:
  "sync_notes y j = j\<lparr>jLastReviewNotes := (if pReviewNotes y \<noteq> [] then pReviewNotes y else jLastReviewNotes j),
     jLastCIFailures := (if pCIFailures y \<noteq> [] then pCIFailures y else jLastCIFailures j)\<rparr>"
  by (simp add: sync_notes_def Let_def)

lemma sync_human_gate_fields:
  "jState j = StateNeedsHuman \<Longrightarrow> sync_human_gate y j =
     j\<lparr>jEscalationReason := (if pEscalationReason y \<noteq> [] then pEscalationReason y
                             else jEscalationReason j)\<rparr>"
  by (simp add: sync_human_gate_def)

lemma review_payload_sel:
  "pBouncesDelta (review_payload p prior t) = tBouncesDelta t"
  "pVerdict (review_payload p prior t) = tVerdict t"
  "pEscalationReason (review_payload p prior t) =
     (if tTo t = StateNeedsHuman then rejection_reason p prior else [])"
  "pHeadSHA (review_payload p prior t) =
     (if tKind t = KindReviewApproved \<and> rvReviewerHead p \<noteq> [] then rvReviewerHead p else [])"
  "pCIFailures (review_payload p prior t) = []" "pBaseSHA (review_payload p prior t) = []"
  by (simp_all add: review_payload_def Let_def zero_payload_def)

lemma review_row_exhausted:
  "review_row p prior StateNeedsHuman [t] r =
     r\<lparr>rwJob := (rwJob r)\<lparr>jState := StateNeedsHuman, jVerdict := tVerdict t,
         jHeadSHA := (case tVerdict t of
            Some v \<Rightarrow> if vHeadSHA v \<noteq> [] then vHeadSHA v else jHeadSHA (rwJob r)
          | None \<Rightarrow> jHeadSHA (rwJob r)),
         jBounces := jBounces (rwJob r) + tBouncesDelta t, jLeaseID := [],
         jEscalationReason := (if rejection_reason p prior \<noteq> [] then rejection_reason p prior
                               else jEscalationReason (rwJob r))\<rparr>,
       rwBoundIdentity := None, rwBoundModelFamily := None, rwLeaseHbDue := None\<rparr>"
  by (simp add: review_row_def Let_def verdict_row_def minted_single)

text \<open>
  The four outcomes of a review, from a row in code review whose cursor is on
  the claim event.
\<close>

lemma review_outcome_good:
  assumes "good es r" and "jState (rwJob r) = StateCodeReview"
    and step: "review_step d r0 facts pol p t"
    and r0: "jBaseSHA (rwJob r0) = jBaseSHA (rwJob r)"
    and n: "n = jJobSeq (rwJob r) + 1" and j: "jLeaseEpoch j = jLeaseEpoch (rwJob r)"
  shows "good (es @ [review_event p j prior t n]) (set_seq n (review_row p prior (tTo t) [t] r))"
proof (rule good_step [OF assms(1)])
  note g = goodD [OF assms(1)]
  have h: "\<not> human_state (jState (rwJob r))" "\<not> verdict_state (jState (rwJob r))"
    using assms(2) by simp_all
  note facts = shapeD(1,2) [OF g(2)] shape_gate [OF g(2) h(1)] shapeD(7) [OF g(2) h(2)]
  have jf: "jEscalationReason (Fold es) = []" "\<not> jOverBudget (Fold es)" "jVerdict (Fold es) = None"
    "jKind (Fold es) = KindBuild"
    using g(1) h facts assms(2) by (simp_all add: projected_iff scanJob_def)
  have base: "gatePredicate (gate_facts d r0 facts) \<Longrightarrow> dbBaseSHA facts = jBaseSHA (rwJob r)"
    and head: "gatePredicate (gate_facts d r0 facts) \<Longrightarrow> dbHeadSHA facts \<noteq> []"
    using gate_facts_green(2,4) [of d r0 facts] facts(2) r0 by simp_all
  note row_simps = review_row_def Let_def bounce_row_def accumulate_row_def verdict_row_def
    minted_single set_seq_def
  note fold_simps = projected_iff scanJob_def fold_event_def on_defs coalesce_def row_simps
    review_event_def sync_notes_fields sync_human_gate_def sync_role_caps_def review_payload_sel
  let ?r' = "set_seq n (review_row p prior (tTo t) [t] r)"
  let ?J' = "fold_from (Fold es) [review_event p j prior t n]"
  have "shape ?r' \<and> projected (scanJob ?r') = projected ?J'"
    using step unfolding review_step_def
  proof (elim disjE exE conjE)
    assume t: "t = move StateCodeReview StateReviewPending KindReviewApproved"
      and c: "rvClaim p = VerdictApproved"
    show ?thesis
      using g(1) facts jf assms(2) by (simp add: t fold_simps) (simp add: shape_def)
  next
    fix v assume t: "t = (move StateCodeReview StateMergeable KindVerdictMinted)\<lparr>tVerdict := Some v\<rparr>"
      and c: "rvClaim p = VerdictApproved" and gp: "gatePredicate (gate_facts d r0 facts)"
      and v: "vHeadSHA v = dbHeadSHA facts" "vBaseSHA v = dbBaseSHA facts"
    have v': "vHeadSHA v \<noteq> []" "vBaseSHA v = jBaseSHA (rwJob r)" "vBaseSHA v = jBaseSHA (Fold es)"
      using v base [OF gp] head [OF gp] g(1) by (simp_all add: projected_iff scanJob_def)
    show ?thesis
      using g(1) facts jf assms(2) c v' by (simp add: t fold_simps) (simp add: shape_def)
  next
    assume t: "t = (move StateCodeReview StateReady KindReviewBounced)\<lparr>tBouncesDelta := 1\<rparr>"
    show ?thesis
      using g(1) facts jf assms(2) by (simp add: t fold_simps) (simp add: shape_def)
  next
    assume t: "t = (move StateCodeReview StateNeedsHuman KindBounceExhausted)\<lparr>tBouncesDelta := 1\<rparr>"
    show ?thesis
      using g(1) facts jf assms(2)
      by (simp add: t review_row_exhausted sync_human_gate_fields projected_iff scanJob_def
            fold_event_def on_bounce_exhausted_def clear_lease_def coalesce_def set_seq_def
            review_event_def sync_notes_fields sync_role_caps_def review_payload_sel)
        (simp add: shape_def)
  qed
  then show "shape ?r'" and "projected (scanJob ?r') = projected ?J'" by blast+
qed (simp_all add: n review_event_def)

lemma set_seq_set_seq [simp]: "set_seq n (set_seq k r) = set_seq n r"
  by (simp add: set_seq_def)

lemma review_row_seq: "review_row p prior s ts (set_seq k r) = set_seq k (review_row p prior s ts r)"
proof -
  have b: "bounce_row p b (set_seq k r) = set_seq k (bounce_row p b r)" for b
    by (simp add: bounce_row_def set_seq_def)
  have a: "accumulate_row p (set_seq k r) = set_seq k (accumulate_row p r)"
    by (simp add: accumulate_row_def set_seq_def)
  have v: "verdict_row s' m b (set_seq k r) = set_seq k (verdict_row s' m b r)" for s' m b
    by (cases m) (simp_all add: verdict_row_def set_seq_def)
  show ?thesis by (simp add: review_row_def Let_def b a v) (simp add: set_seq_def)
qed

lemma review_good:
  assumes "good es r" and "jState (rwJob r) = StateCodeReview" and "review_step d r facts pol p t"
  shows "good (es @ review_events d p r t) (set_seq (jJobSeq (rwJob r) + 2) (reviewed_row cfg d p r t))"
proof -
  let ?r1 = "set_seq (jJobSeq (rwJob r) + 1) (r\<lparr>rwContentResult := Some (contentResultTx cfg r)\<rparr>)"
  let ?prior = "prior_rejections d (rvJobID p) (jBoundIdentity (scanJob r))"
  note g1 = verdict_claim_good [OF assms(1,2), of p "Some (contentResultTx cfg r)"]
  have "good ((es @ [verdict_claim_event p (scanJob r) (jJobSeq (rwJob r) + 1)])
      @ [review_event p (scanJob r) ?prior t (jJobSeq (rwJob r) + 2)])
    (set_seq (jJobSeq (rwJob r) + 2) (review_row p ?prior (tTo t) [t] ?r1))"
    by (rule review_outcome_good [OF g1 _ assms(3)]) (simp_all add: set_seq_def assms(2) scanJob_def)
  moreover have "set_seq (jJobSeq (rwJob r) + 2) (review_row p ?prior (tTo t) [t] ?r1) =
      set_seq (jJobSeq (rwJob r) + 2) (reviewed_row cfg d p r t)"
    by (simp add: reviewed_row_def review_row_seq)
  ultimately show ?thesis by (simp add: review_events_def)
qed

lemma dispatch_good:
  assumes "good es r" and "jState (rwJob r) = StateMergeable"
    and "t = move StateMergeable StateMerging KindMergeStarted
         \<or> t = move StateMergeable StateMergeHandoff KindMergeHandoff"
  shows "good (es @ [dispatch_event i now (scanJob r) t (jJobSeq (rwJob r) + 1)])
    (set_seq (jJobSeq (rwJob r) + 1) (set_state_row (tTo t) r))"
proof (rule good_step [OF assms(1)])
  note g = goodD [OF assms(1)]
  have h: "\<not> human_state (jState (rwJob r))" using assms(2) by simp
  note facts = shapeD(1,2) [OF g(2)] shape_gate [OF g(2) h]
  show "shape (set_seq (jJobSeq (rwJob r) + 1) (set_state_row (tTo t) r))"
    using assms(3) facts by (auto simp: shape_def Let_def set_seq_def set_state_row_def)
  have jf: "jEscalationReason (Fold es) = []" "\<not> jOverBudget (Fold es)"
    using g(1) facts assms(2) by (simp_all add: projected_iff scanJob_def)
  show "projected (scanJob (set_seq (jJobSeq (rwJob r) + 1) (set_state_row (tTo t) r))) =
      projected (fold_from (Fold es) [dispatch_event i now (scanJob r) t (jJobSeq (rwJob r) + 1)])"
    using assms(3)
    by (elim disjE) (use g(1) facts jf assms(2) in
      \<open>simp_all add: step_simps set_state_row_def dispatch_event_def\<close>)
qed (simp_all add: dispatch_event_def)

section \<open>Operator moves, alarms, seeding, completion\<close>

lemma requeue_good:
  assumes "good es r" and "\<not> HasActiveLease (jState (rwJob r))"
  shows "good (es @ [operator_event i r StateReady now (zero_payload\<lparr>pResetCounters := True\<rparr>)])
    (set_seq (jJobSeq (rwJob r) + 1)
       (requeue_row StateReady RoleEngWorker ''build'' ''role:eng_worker'' now r))"
proof (rule good_step [OF assms(1)])
  note g = goodD [OF assms(1)]
  note facts = shapeD(1,2) [OF g(2)] shape_idle [OF g(2) assms(2)]
  show "shape (set_seq (jJobSeq (rwJob r) + 1)
      (requeue_row StateReady RoleEngWorker ''build'' ''role:eng_worker'' now r))"
    using facts by (simp add: shape_def set_seq_def requeue_row_def)
  have "jKind (Fold es) = KindBuild" "jLeaseID (Fold es) = []" "jBoundIdentity (Fold es) = []"
    "jBoundModelFamily (Fold es) = []"
    using g(1) facts by (simp_all add: projected_iff scanJob_def coalesce_def)
  then show "projected (scanJob (set_seq (jJobSeq (rwJob r) + 1)
        (requeue_row StateReady RoleEngWorker ''build'' ''role:eng_worker'' now r))) =
      projected (fold_from (Fold es)
        [operator_event i r StateReady now (zero_payload\<lparr>pResetCounters := True\<rparr>)])"
    using g(1) facts by (simp add: step_simps requeue_row_def operator_event_def)
qed (simp_all add: operator_event_def)

lemma cancel_good:
  assumes "good es r" and "\<not> HasActiveLease (jState (rwJob r))"
  shows "good (es @ [operator_event i r StateCancelled now zero_payload])
    (set_seq (jJobSeq (rwJob r) + 1) (cancel_row r))"
proof (rule good_step [OF assms(1)])
  note g = goodD [OF assms(1)]
  note facts = shapeD(1,2) [OF g(2)] shape_idle [OF g(2) assms(2)]
  show "shape (set_seq (jJobSeq (rwJob r) + 1) (cancel_row r))"
    using facts by (simp add: shape_def set_seq_def cancel_row_def)
  have "jLeaseID (Fold es) = []" "jBoundIdentity (Fold es) = []" "jBoundModelFamily (Fold es) = []"
    using g(1) facts by (simp_all add: projected_iff scanJob_def coalesce_def)
  then show "projected (scanJob (set_seq (jJobSeq (rwJob r) + 1) (cancel_row r))) =
      projected (fold_from (Fold es) [operator_event i r StateCancelled now zero_payload])"
    using g(1) facts by (simp add: step_simps cancel_row_def operator_event_def)
qed (simp_all add: operator_event_def)

lemma alarm_good:
  assumes "good es r" and "jState (rwJob r) \<in> {StateReady, StateReviewPending}"
  shows "good (es @ [fenced_event i (jJobSeq (rwJob r) + 1) KindNoEligibleWorker (jState (rwJob r))
      (jState (rwJob r)) (jLeaseEpoch (rwJob r)) a w zero_payload])
    (set_seq (jJobSeq (rwJob r) + 1) r)"
  using assms(2) by (intro audit_good [OF assms(1)]) (auto simp: audit_event_def zero_payload_def)

lemma complete_good:
  assumes "good es r" and "jState (rwJob r) = StateReviewPending"
  shows "good (es @ [fenced_event i (jJobSeq (rwJob r) + 1) KindJobCompleted StateReviewPending
      StateDone 0 a w zero_payload])
    (set_seq (jJobSeq (rwJob r) + 1) (set_state_row StateDone r))"
proof (rule good_step [OF assms(1)])
  note g = goodD [OF assms(1)]
  have h: "\<not> human_state (jState (rwJob r))" "\<not> HasActiveLease (jState (rwJob r))"
    "\<not> verdict_state (jState (rwJob r))" using assms(2) by simp_all
  note facts = shapeD(1,2) [OF g(2)] shape_gate [OF g(2) h(1)] shape_idle [OF g(2) h(2)]
    shapeD(7) [OF g(2) h(3)]
  show "shape (set_seq (jJobSeq (rwJob r) + 1) (set_state_row StateDone r))"
    using facts by (simp add: shape_def set_seq_def set_state_row_def)
  have "jEscalationReason (Fold es) = []" "\<not> jOverBudget (Fold es)"
    using g(1) facts assms(2) by (simp_all add: projected_iff scanJob_def)
  then show "projected (scanJob (set_seq (jJobSeq (rwJob r) + 1) (set_state_row StateDone r))) =
      projected (fold_from (Fold es) [fenced_event i (jJobSeq (rwJob r) + 1) KindJobCompleted
        StateReviewPending StateDone 0 a w zero_payload])"
    using g(1) facts assms(2) by (simp add: step_simps set_state_row_def)
qed simp_all

lemma unblock_good:
  assumes "good es r" and "jState (rwJob r) = StateBlocked"
  shows "good (es @ [fenced_event i (jJobSeq (rwJob r) + 1) KindDepsCleared StateBlocked StateReady 0
      a w zero_payload])
    (set_seq (jJobSeq (rwJob r) + 1) (unblock_row now r))"
proof (rule good_step [OF assms(1)])
  note g = goodD [OF assms(1)]
  have h: "\<not> human_state (jState (rwJob r))" "\<not> HasActiveLease (jState (rwJob r))"
    "eng_state (jState (rwJob r))" "\<not> verdict_state (jState (rwJob r))" using assms(2) by simp_all
  note facts = shapeD(1,2) [OF g(2)] shape_gate [OF g(2) h(1)] shape_idle [OF g(2) h(2)]
    shape_eng [OF g(2) h(3)] shapeD(7) [OF g(2) h(4)]
  show "shape (set_seq (jJobSeq (rwJob r) + 1) (unblock_row now r))"
    using facts by (simp add: shape_def set_seq_def unblock_row_def)
  have "jEscalationReason (Fold es) = []" "\<not> jOverBudget (Fold es)" "jKind (Fold es) = KindBuild"
    "jRole (Fold es) = RoleEngWorker"
    using g(1) facts assms(2) by (simp_all add: projected_iff scanJob_def)
  then show "projected (scanJob (set_seq (jJobSeq (rwJob r) + 1) (unblock_row now r))) =
      projected (fold_from (Fold es) [fenced_event i (jJobSeq (rwJob r) + 1) KindDepsCleared
        StateBlocked StateReady 0 a w zero_payload])"
    using g(1) facts assms(2) by (simp add: step_simps unblock_row_def)
qed simp_all

text \<open>
  What a seed must be for its row and fold to agree: a build with a base, an
  eng worker's role and exactly its capability.
\<close>

definition plain_seed :: "SeedParams \<Rightarrow> bool" where
  "plain_seed p \<longleftrightarrow>
     sdKind p = KindBuild \<and> sdBaseSHA p \<noteq> [] \<and> sdRole p = RoleEngWorker
     \<and> sdRequiredCapabilities p = [''role:eng_worker'']"

lemma seed_good:
  assumes "plain_seed p" and "s \<in> {StateBlocked, StateReady}"
  shows "good [seed_event p s] (set_seq 1 (seed_row p s))"
proof -
  have p: "sdKind p = KindBuild" "sdBaseSHA p \<noteq> []" "sdRole p = RoleEngWorker"
    "sdRequiredCapabilities p = [''role:eng_worker'']"
    using assms(1) by (simp_all add: plain_seed_def)
  from assms(2) have "shape (set_seq 1 (seed_row p s))"
    by (elim insertE) (use p in \<open>simp_all add: shape_def set_seq_def seed_row_def zero_job_def\<close>)
  moreover from assms(2)
  have "projected (scanJob (set_seq 1 (seed_row p s))) = projected (Fold [seed_event p s])"
    by (elim insertE) (use p in \<open>simp_all add: projected_iff scanJob_def coalesce_def Fold_def
      fold_event_def on_job_created_def Let_def sync_defs set_seq_def seed_row_def seed_event_def
      zero_payload_def zero_job_def DefaultMaxAttempts_def DefaultMaxBounces_def\<close>)
  ultimately show ?thesis by (simp add: good_def seed_event_def set_seq_def)
qed

end
