(* ===== verification/Store_Git_Steps.thy ===== *)
theory Store_Git_Steps
  imports Store_Steps
begin

text \<open>
  The conflict, reconcile and project-OUT steps keep row and fold together.
\<close>

text \<open>What a row outside the human gate, and its fold, have in common.\<close>

lemma good_gate:
  assumes "good es r" and "\<not> human_state (jState (rwJob r))"
  shows "jEscalationReason (rwJob r) = []" and "\<not> jOverBudget (rwJob r)"
    and "jEscalationReason (Fold es) = []" and "\<not> jOverBudget (Fold es)"
    and "jState (Fold es) = jState (rwJob r)" and "jKind (Fold es) = KindBuild"
    and "jState (rwJob r) \<noteq> StateCancelled" and "jState (rwJob r) \<noteq> StateNeedsHuman"
proof -
  note g = goodD [OF assms(1)]
  have c: "jState (rwJob r) \<noteq> StateCancelled" "jState (rwJob r) \<noteq> StateNeedsHuman" using assms(2) by auto
  then show "jState (rwJob r) \<noteq> StateCancelled" "jState (rwJob r) \<noteq> StateNeedsHuman" .
  show e: "jEscalationReason (rwJob r) = []" "\<not> jOverBudget (rwJob r)"
    using shape_gate [OF g(2) assms(2)] by simp_all
  show "jEscalationReason (Fold es) = []" "\<not> jOverBudget (Fold es)" "jState (Fold es) = jState (rwJob r)"
    "jKind (Fold es) = KindBuild"
    using g(1) c e shapeD(1) [OF g(2)] by (simp_all add: projected_iff scanJob_def)
qed

lemmas git_rows = rebased_row_def conflict_row_def resolved_row_def conflict_claim_row_def
  superseded_row_def superseded_keeping_def post_merge_row_def park_row_def ci_exhausted_row_def
  ci_bounced_row_def base_row_def stamp_row_def set_state_row_def keep_or_def Let_def

lemmas git_events = rebased_event_def conflict_event_def handoff_event_def resolved_event_def
  stacked_event_def reconcile_event_def superseded_event_def base_event_def park_event_def
  pr_opened_event_def

lemma git_seq [simp]:
  "eJobSeq (rebased_event i j b h n s) = s" "eJobSeq (conflict_event i j b a n s) = s"
  "eJobSeq (handoff_event i j x n s) = s" "eJobSeq (resolved_event zp j s) = s"
  "eJobSeq (stacked_event i j k b n s) = s" "eJobSeq (reconcile_event j ek t n s y) = s"
  "eJobSeq (superseded_event j pr a n s c) = s" "eJobSeq (base_event r b n) = jJobSeq (rwJob r) + 1"
  "eJobSeq (park_event i j a x x2 n s) = s" "eJobSeq (pr_opened_event i j k h n s) = s"
  by (simp_all add: git_events)

section \<open>Conflicts\<close>

lemma rebased_good:
  assumes "good es r" and "\<not> human_state (jState (rwJob r))" and "base \<noteq> []"
  shows "good (es @ [rebased_event i (scanJob r) base sha now (jJobSeq (rwJob r) + 1)])
    (set_seq (jJobSeq (rwJob r) + 1) (rebased_row base sha r))"
proof (rule good_step [OF assms(1)])
  note g = goodD [OF assms(1)] and gate = good_gate [OF assms(1,2)]
  show "shape (set_seq (jJobSeq (rwJob r) + 1) (rebased_row base sha r))"
    using shapeD(1,2) [OF g(2)] gate(1,2) assms(3) by (simp add: shape_def set_seq_def rebased_row_def)
  show "projected (scanJob (set_seq (jJobSeq (rwJob r) + 1) (rebased_row base sha r))) =
      projected (fold_from (Fold es) [rebased_event i (scanJob r) base sha now (jJobSeq (rwJob r) + 1)])"
    using g(1) gate assms(3) by (simp add: step_simps rebased_row_def rebased_event_def)
qed simp_all

lemma conflict_good:
  assumes "good es r" and "\<not> human_state (jState (rwJob r))" and "base \<noteq> []"
  shows "good (es @ [conflict_event i (scanJob r) base actor now (jJobSeq (rwJob r) + 1)])
    (set_seq (jJobSeq (rwJob r) + 1) (conflict_row base now r))"
proof (rule good_step [OF assms(1)])
  note g = goodD [OF assms(1)] and gate = good_gate [OF assms(1,2)]
  show "shape (set_seq (jJobSeq (rwJob r) + 1) (conflict_row base now r))"
    using shapeD(1,2) [OF g(2)] gate(1,2) assms(3) by (simp add: shape_def set_seq_def conflict_row_def)
  show "projected (scanJob (set_seq (jJobSeq (rwJob r) + 1) (conflict_row base now r))) =
      projected (fold_from (Fold es) [conflict_event i (scanJob r) base actor now (jJobSeq (rwJob r) + 1)])"
    using g(1) gate assms(3) by (simp add: step_simps conflict_row_def conflict_event_def)
qed simp_all

lemma handoff_good:
  assumes "good es r" and "jState (rwJob r) \<in> {StateMerging, StateMergeable}"
  shows "good (es @ [handoff_event i (scanJob r) reason now (jJobSeq (rwJob r) + 1)])
    (set_seq (jJobSeq (rwJob r) + 1) (set_state_row StateMergeHandoff r))"
proof (rule good_step [OF assms(1)])
  have h: "\<not> human_state (jState (rwJob r))" using assms(2) by auto
  note g = goodD [OF assms(1)] and gate = good_gate [OF assms(1) h]
  show "shape (set_seq (jJobSeq (rwJob r) + 1) (set_state_row StateMergeHandoff r))"
    using shapeD(1,2) [OF g(2)] gate(1,2) by (simp add: shape_def set_seq_def set_state_row_def)
  show "projected (scanJob (set_seq (jJobSeq (rwJob r) + 1) (set_state_row StateMergeHandoff r))) =
      projected (fold_from (Fold es) [handoff_event i (scanJob r) reason now (jJobSeq (rwJob r) + 1)])"
    using g(1) gate by (simp add: step_simps set_state_row_def handoff_event_def)
qed simp_all

lemma resolved_good:
  assumes "good es r" and "jState (rwJob r) = StateResolvingConflict"
  shows "good (es @ [resolved_event p (scanJob r) (jJobSeq (rwJob r) + 1)])
    (set_seq (jJobSeq (rwJob r) + 1) (resolved_row p r))"
proof (rule good_step [OF assms(1)])
  have h: "\<not> human_state (jState (rwJob r))" using assms(2) by simp
  note g = goodD [OF assms(1)] and gate = good_gate [OF assms(1) h]
  show "shape (set_seq (jJobSeq (rwJob r) + 1) (resolved_row p r))"
    using shapeD(1,2) [OF g(2)] gate(1,2) by (simp add: shape_def set_seq_def resolved_row_def)
  show "projected (scanJob (set_seq (jJobSeq (rwJob r) + 1) (resolved_row p r))) =
      projected (fold_from (Fold es) [resolved_event p (scanJob r) (jJobSeq (rwJob r) + 1)])"
    using g(1) gate by (simp add: step_simps resolved_row_def resolved_event_def)
qed simp_all

lemma conflict_claim_good:
  assumes "good es r" and "jState (rwJob r) = StateResolvingConflict"
  shows "good (es @ [claim_ledger_event p KindLeaseClaimed StateResolvingConflict StateResolvingConflict
      (jLeaseEpoch (rwJob r) + 1) (jJobSeq (rwJob r) + 1)])
    (set_seq (jJobSeq (rwJob r) + 1) (conflict_claim_row p r))"
proof (rule good_step [OF assms(1)])
  have h: "\<not> human_state (jState (rwJob r))" using assms(2) by simp
  note g = goodD [OF assms(1)] and gate = good_gate [OF assms(1) h]
  note res = shape_resolver [OF g(2) assms(2)]
  have v: "jVerdict (rwJob r) = None" using shapeD(7) [OF g(2)] assms(2) by simp
  show "shape (set_seq (jJobSeq (rwJob r) + 1) (conflict_claim_row p r))"
    using shapeD(1,2) [OF g(2)] gate(1,2) res assms(2) v
    by (simp add: shape_def set_seq_def conflict_claim_row_def)
  have j: "jRole (Fold es) = RoleConflictResolver" "jRequiredCapabilities (Fold es) = [''role:conflict_resolver'']"
    using g(1) res by (simp_all add: projected_iff scanJob_def)
  show "projected (scanJob (set_seq (jJobSeq (rwJob r) + 1) (conflict_claim_row p r))) =
      projected (fold_from (Fold es) [claim_ledger_event p KindLeaseClaimed StateResolvingConflict
        StateResolvingConflict (jLeaseEpoch (rwJob r) + 1) (jJobSeq (rwJob r) + 1)])"
    using g(1) gate res j assms(2) by (simp add: step_simps conflict_claim_row_def claim_ledger_event_def)
qed simp_all

lemma stacked_good:
  assumes "good es r" and "\<not> human_state (jState (rwJob r))"
  shows "good (es @ [stacked_event i (scanJob r) k base now (jJobSeq (rwJob r) + 1)])
    (set_seq (jJobSeq (rwJob r) + 1) r)"
  by (rule audit_good [OF assms(1) _ assms(2)])
    (simp_all add: audit_event_def stacked_event_def zero_payload_def)

text \<open>Columns outside row and fold.\<close>

lemma columns_good:
  "good es r \<Longrightarrow> good es (r\<lparr>rwReservationPaths := ps, rwReservationWide := w, rwStackedOnPR := k\<rparr>)"
  by (subst good_cong [of _ r]) simp_all

lemma patch_good: "good es (set_seq n (r\<lparr>rwPatchDiff := pd\<rparr>)) = good es (set_seq n r)"
  by (rule good_cong) (simp_all add: set_seq_def)

section \<open>Reconciliation\<close>

definition unbound :: "Row \<Rightarrow> bool" where
  "unbound r \<longleftrightarrow> jLeaseID (rwJob r) = [] \<and> rwBoundIdentity r = None \<and> rwBoundModelFamily r = None"

lemma unbound_fold:
  "good es r \<Longrightarrow> unbound r \<Longrightarrow> jLeaseID (Fold es) = [] \<and> jBoundIdentity (Fold es) = []
     \<and> jBoundModelFamily (Fold es) = []"
  using goodD(1) [of es r] by (simp add: projected_iff scanJob_def unbound_def coalesce_def)

lemma pr_bound_open: "prBoundActive s \<Longrightarrow> \<not> human_state s"
  by (cases s) simp_all

lemma supersedable_open: "supersedable s \<Longrightarrow> \<not> human_state s"
  by (cases s) simp_all

lemma merged_good:
  assumes "good es r" and "\<not> human_state (jState (rwJob r))" and "unbound r"
  shows "good (es @ [reconcile_event (scanJob r) KindJobCompleted StateDone now
      (jJobSeq (rwJob r) + 1) (merged_payload c)])
    (set_seq (jJobSeq (rwJob r) + 1) (set_state_row StateDone r))"
proof (rule good_step [OF assms(1)])
  note g = goodD [OF assms(1)] and gate = good_gate [OF assms(1,2)]
  show "shape (set_seq (jJobSeq (rwJob r) + 1) (set_state_row StateDone r))"
    using shapeD(1,2) [OF g(2)] gate(1,2) assms(3)
    by (simp add: shape_def set_seq_def set_state_row_def unbound_def)
  show "projected (scanJob (set_seq (jJobSeq (rwJob r) + 1) (set_state_row StateDone r))) =
      projected (fold_from (Fold es) [reconcile_event (scanJob r) KindJobCompleted StateDone now
        (jJobSeq (rwJob r) + 1) (merged_payload c)])"
    using g(1) gate
    by (simp add: step_simps set_state_row_def reconcile_event_def merged_payload_def)
qed simp_all

lemma evicted_good:
  assumes "good es r" and "jState (rwJob r) = StateNeedsHuman"
  shows "good (es @ [reconcile_event (scanJob r) KindStateChanged StateCancelled now
      (jJobSeq (rwJob r) + 1) eviction_payload])
    (set_seq (jJobSeq (rwJob r) + 1) (set_state_row StateCancelled r))"
proof (rule good_step [OF assms(1)])
  note g = goodD [OF assms(1)]
  have i: "\<not> HasActiveLease (jState (rwJob r))" using assms(2) by simp
  show "shape (set_seq (jJobSeq (rwJob r) + 1) (set_state_row StateCancelled r))"
    using shapeD(1,2) [OF g(2)] shape_idle [OF g(2) i] by (simp add: shape_def set_seq_def set_state_row_def)
  show "projected (scanJob (set_seq (jJobSeq (rwJob r) + 1) (set_state_row StateCancelled r))) =
      projected (fold_from (Fold es) [reconcile_event (scanJob r) KindStateChanged StateCancelled now
        (jJobSeq (rwJob r) + 1) eviction_payload])"
    using g(1) assms(2)
    by (simp add: step_simps set_state_row_def reconcile_event_def eviction_payload_def)
qed simp_all

lemma post_merge_good:
  assumes "good es r" and "\<not> human_state (jState (rwJob r))" and "unbound r" and "ci \<noteq> []"
  shows "good (es @ [reconcile_event (scanJob r) KindStateChanged StateNeedsHuman now
      (jJobSeq (rwJob r) + 1) (zero_payload\<lparr>pEscalationReason := escalation_str EscalationPostMergeCI,
        pCIFailures := ci\<rparr>)])
    (set_seq (jJobSeq (rwJob r) + 1) (post_merge_row ci r))"
proof (rule good_step [OF assms(1)])
  note g = goodD [OF assms(1)] and gate = good_gate [OF assms(1,2)]
  note ub = unbound_fold [OF assms(1,3)]
  show "shape (set_seq (jJobSeq (rwJob r) + 1) (post_merge_row ci r))"
    using shapeD(1,2) [OF g(2)] by (simp add: shape_def set_seq_def post_merge_row_def)
  show "projected (scanJob (set_seq (jJobSeq (rwJob r) + 1) (post_merge_row ci r))) =
      projected (fold_from (Fold es) [reconcile_event (scanJob r) KindStateChanged StateNeedsHuman now
        (jJobSeq (rwJob r) + 1) (zero_payload\<lparr>pEscalationReason := escalation_str EscalationPostMergeCI,
        pCIFailures := ci\<rparr>)])"
    using g(1) gate ub assms(4) by (simp add: step_simps post_merge_row_def reconcile_event_def)
qed simp_all

lemma parked_good:
  assumes "good es r" and "\<not> human_state (jState (rwJob r))" and "unbound r"
  shows "good (es @ [park_event i (scanJob r) actor revoke reason now (jJobSeq (rwJob r) + 1)])
    (set_seq (jJobSeq (rwJob r) + 1) (park_row reason r))"
proof (rule good_step [OF assms(1)])
  note g = goodD [OF assms(1)] and gate = good_gate [OF assms(1,2)]
  note ub = unbound_fold [OF assms(1,3)] assms(3) [unfolded unbound_def]
  show "shape (set_seq (jJobSeq (rwJob r) + 1) (park_row reason r))"
    using shapeD(1,2) [OF g(2)] ub by (simp add: shape_def set_seq_def park_row_def)
  show "projected (scanJob (set_seq (jJobSeq (rwJob r) + 1) (park_row reason r))) =
      projected (fold_from (Fold es) [park_event i (scanJob r) actor revoke reason now (jJobSeq (rwJob r) + 1)])"
    using g(1) gate ub by (simp add: step_simps park_row_def park_event_def)
qed simp_all

lemma superseded_good:
  assumes "good es r" and "supersedable (jState (rwJob r))"
  shows "good (es @ [superseded_event (scanJob r) pr actor now (jJobSeq (rwJob r) + 1) ci])
    (set_seq (jJobSeq (rwJob r) + 1) (superseded_keeping (rpBaseSHA pr) ci diff declared now r))"
proof (rule good_step [OF assms(1)])
  note h = supersedable_open [OF assms(2)]
  note g = goodD [OF assms(1)] and gate = good_gate [OF assms(1) h]
  show "shape (set_seq (jJobSeq (rwJob r) + 1) (superseded_keeping (rpBaseSHA pr) ci diff declared now r))"
    using shapeD(1,2) [OF g(2)] gate(1,2)
    by (simp add: shape_def set_seq_def superseded_keeping_def superseded_row_def keep_or_def)
  show "projected (scanJob (set_seq (jJobSeq (rwJob r) + 1)
        (superseded_keeping (rpBaseSHA pr) ci diff declared now r))) =
      projected (fold_from (Fold es) [superseded_event (scanJob r) pr actor now (jJobSeq (rwJob r) + 1) ci])"
    using g(1) gate
    by (cases "rpBaseSHA pr = []"; cases "ci = []")
      (simp_all add: projected_iff scanJob_def set_seq_def fold_event_def on_superseded_def clear_lease_def
        sync_notes_fields sync_human_gate_def sync_role_caps_def coalesce_def zero_payload_def
        superseded_keeping_def superseded_row_def superseded_event_def keep_or_def)
qed (simp_all add: superseded_keeping_def superseded_row_def)

lemma ci_exhausted_good:
  assumes "good es r" and "jState (rwJob r) = StateReviewPending"
  shows "good (es @ [reconcile_event (scanJob r) KindBounceExhausted StateNeedsHuman now
      (jJobSeq (rwJob r) + 1) (zero_payload\<lparr>pBouncesDelta := 1, pCIFailures := ci\<rparr>)])
    (set_seq (jJobSeq (rwJob r) + 1) (ci_exhausted_row ci r))"
proof (rule good_step [OF assms(1)])
  have h: "\<not> human_state (jState (rwJob r))" using assms(2) by simp
  note g = goodD [OF assms(1)] and gate = good_gate [OF assms(1) h]
  have v: "jVerdict (rwJob r) = None" using shapeD(7) [OF g(2)] assms(2) by simp
  show "shape (set_seq (jJobSeq (rwJob r) + 1) (ci_exhausted_row ci r))"
    using shapeD(1,2) [OF g(2)] v by (simp add: shape_def set_seq_def ci_exhausted_row_def)
  show "projected (scanJob (set_seq (jJobSeq (rwJob r) + 1) (ci_exhausted_row ci r))) =
      projected (fold_from (Fold es) [reconcile_event (scanJob r) KindBounceExhausted StateNeedsHuman now
        (jJobSeq (rwJob r) + 1) (zero_payload\<lparr>pBouncesDelta := 1, pCIFailures := ci\<rparr>)])"
    using g(1) gate by (simp add: step_simps ci_exhausted_row_def reconcile_event_def keep_or_def)
qed simp_all

lemma ci_bounced_good:
  assumes "good es r" and "jState (rwJob r) = StateReviewPending"
  shows "good (es @ [reconcile_event (scanJob r) KindReviewBounced StateReady now
      (jJobSeq (rwJob r) + 1) (zero_payload\<lparr>pBouncesDelta := 1, pCIFailures := ci\<rparr>)])
    (set_seq (jJobSeq (rwJob r) + 1) (ci_bounced_row ci now r))"
proof (rule good_step [OF assms(1)])
  have h: "\<not> human_state (jState (rwJob r))" using assms(2) by simp
  note g = goodD [OF assms(1)] and gate = good_gate [OF assms(1) h]
  have v: "jVerdict (rwJob r) = None" using shapeD(7) [OF g(2)] assms(2) by simp
  show "shape (set_seq (jJobSeq (rwJob r) + 1) (ci_bounced_row ci now r))"
    using shapeD(1,2) [OF g(2)] v gate(1,2) by (simp add: shape_def set_seq_def ci_bounced_row_def)
  show "projected (scanJob (set_seq (jJobSeq (rwJob r) + 1) (ci_bounced_row ci now r))) =
      projected (fold_from (Fold es) [reconcile_event (scanJob r) KindReviewBounced StateReady now
        (jJobSeq (rwJob r) + 1) (zero_payload\<lparr>pBouncesDelta := 1, pCIFailures := ci\<rparr>)])"
    using g(1) gate by (simp add: step_simps ci_bounced_row_def reconcile_event_def keep_or_def)
qed simp_all

lemma base_good:
  assumes "good es r" and "jState (rwJob r) = StateReady" and "base \<noteq> []"
  shows "good (es @ [base_event r base now]) (set_seq (jJobSeq (rwJob r) + 1) (base_row base r))"
proof (rule good_step [OF assms(1)])
  have h: "\<not> human_state (jState (rwJob r))" "\<not> HasActiveLease (jState (rwJob r))" using assms(2) by simp_all
  note g = goodD [OF assms(1)] and gate = good_gate [OF assms(1) h(1)]
  have e: "eng_state (jState (rwJob r))" using assms(2) by simp
  note eng = shape_eng [OF g(2) e]
  have v: "jVerdict (rwJob r) = None" using shapeD(7) [OF g(2)] assms(2) by simp
  show "shape (set_seq (jJobSeq (rwJob r) + 1) (base_row base r))"
    using shapeD(1,2) [OF g(2)] v gate(1,2) eng assms(2,3) shape_idle [OF g(2) h(2)]
    by (simp add: shape_def set_seq_def base_row_def)
  have j: "jRole (Fold es) = RoleEngWorker" "jRequiredCapabilities (Fold es) = [''role:eng_worker'']"
    using g(1) eng by (simp_all add: projected_iff scanJob_def)
  show "projected (scanJob (set_seq (jJobSeq (rwJob r) + 1) (base_row base r))) =
      projected (fold_from (Fold es) [base_event r base now])"
    using g(1) gate eng j assms(2) by (simp add: step_simps base_row_def base_event_def)
qed simp_all

lemma stamped_good:
  assumes "good es r" and "\<not> human_state (jState (rwJob r))"
  shows "good (es @ [pr_opened_event i (scanJob r) n sha now (jJobSeq (rwJob r) + 1)])
    (set_seq (jJobSeq (rwJob r) + 1) (stamp_row n sha r))"
proof (rule good_step [OF assms(1)])
  note g = goodD [OF assms(1)] and gate = good_gate [OF assms(1,2)]
  show "shape (set_seq (jJobSeq (rwJob r) + 1) (stamp_row n sha r))"
    using g(2) by (simp add: shape_def set_seq_def stamp_row_def)
  let ?J = "(Fold es)\<lparr>jPRNumber := n, jHeadSHA := keep_or sha (jHeadSHA (Fold es))\<rparr>"
  have b: "build_state (jState ?J)" using shapeD(8) [OF g(2)] gate(5) by simp
  have c: "sync_role_caps ?J = ?J"
    by (rule sync_role_caps_noop)
      (use b g(1) gate(5) shape_eng [OF g(2)] shape_resolver [OF g(2)] in
        \<open>simp_all add: projected_iff scanJob_def\<close>)
  have hg: "sync_human_gate y ?J = ?J" for y
    by (rule sync_human_gate_noop) (use gate b in \<open>simp_all, auto\<close>)
  have "kind_step KindPROpened (pr_opened_event i (scanJob r) n sha now m) (Fold es) = ?J" for m
    by (simp add: pr_opened_event_def on_pr_opened_def Let_def keep_or_def)
  then have "fold_event (Fold es) (pr_opened_event i (scanJob r) n sha now m) = ?J\<lparr>jJobSeq := m\<rparr>" for m
    using c hg by (simp add: fold_event_def sync_notes_def pr_opened_event_def zero_payload_def)
  then show "projected (scanJob (set_seq (jJobSeq (rwJob r) + 1) (stamp_row n sha r))) =
      projected (fold_from (Fold es) [pr_opened_event i (scanJob r) n sha now (jJobSeq (rwJob r) + 1)])"
    using g(1) by (simp add: projected_iff scanJob_def set_seq_def stamp_row_def)
qed simp_all

end
