(* ===== verification/Store_Frame.thy ===== *)
theory Store_Frame
  imports Store_Out_Effects
begin

text \<open>
  What the transactions leave alone.  The job ids, the cached responses, the
  outbox and the audit log are the \<open>core\<close> of a database here: the transactions of
  a job's life touch none of it but for a stored response, those of conflicts,
  reconciliation and project-OUT only by enqueueing, sending and updating outbox
  rows.  The interface \<open>kept\<close> turns that into a frame rule: a property of the core
  that those few operations keep is kept by every transaction.
\<close>

definition job_ids :: "DB \<Rightarrow> string list" where
  "job_ids d = map row_id (tbJobs d)"

definition core where
  "core d = (job_ids d, tbIdempotency d, tbOutbox d, tbNextOutbox d, tbAudit d)"

section \<open>The life of a job\<close>

lemma core_frame [simp]:
  "core (close_lease i n x d) = core d" "core (close_leases i x d) = core d"
  "core (fire_timers q d) = core d" "core (armTimerTx t d) = core d"
  "core (markTimerFired x d) = core d" "core (touch_worker x n d) = core d"
  "core (clear_ci i d) = core d" "core (UpsertDomainBFacts i f d) = core d"
  "core (RecordEpochCI i n x d) = core d" "core (d\<lparr>tbAlarms := al\<rparr>) = core d"
  "core (upsertDomainBFactsTx i pr d) = core d"
  by (simp_all add: core_def job_ids_def close_lease_def close_leases_def fire_timers_def armTimerTx_def
      markTimerFired_def touch_worker_def clear_ci_def UpsertDomainBFacts_def RecordEpochCI_def
      upsertDomainBFactsTx_def)

lemma core_insert_lease: "insert_lease l d = Inr d' \<Longrightarrow> core d' = core d"
  by (auto simp: insert_lease_def core_def job_ids_def split: if_splits)

lemma core_armNoEligible: "armNoEligibleTimerTx cfg i e n d = Inr d' \<Longrightarrow> core d' = core d"
  by (auto simp: armNoEligibleTimerTx_def insert_timer_def core_def job_ids_def split: if_splits)

lemma core_appendEvent: "appendEvent e d = Inr d' \<Longrightarrow> core d' = core d"
  by (auto simp: appendEvent_def core_def job_ids_def split: if_splits)

lemma core_update_row: "(\<And>r. row_id (f r) = row_id r) \<Longrightarrow> core (update_row i f d) = core d"
  by (simp add: core_def job_ids_def update_row_def)

lemma core_setJobSeq [simp]: "core (setJobSeq i n d) = core d"
  by (simp add: setJobSeq_def core_update_row row_id_def)

lemma core_updates [simp]:
  "core (update_row i (claim_row p a) d) = core d" "core (update_row i (review_claim_row p) d) = core d"
  "core (update_row i (revoke_row t e n x) d) = core d" "core (update_row i (beat_row hp) d) = core d"
  "core (update_row i (result_row rp s) d) = core d" "core (update_row i (end_lease_row s) d) = core d"
  "core (update_row i (release_row s k) d) = core d" "core (update_row i (escalate_row x) d) = core d"
  "core (update_row i (review_row vp b s ts) d) = core d" "core (update_row i (set_state_row s) d) = core d"
  "core (update_row i (requeue_row s ro st tg n) d) = core d" "core (update_row i cancel_row d) = core d"
  "core (update_row i (unblock_row n) d) = core d" "core (persistContentResultTx i c d) = core d"
  by (simp_all add: core_update_row persistContentResultTx_def)

lemmas core_dest = core_insert_lease core_armNoEligible core_appendEvent

lemma core_append_transitions: "append_transitions ev ts n d = Inr (d', m) \<Longrightarrow> core d' = core d"
  by (induction ts arbitrary: n d) (auto simp: and_then_Inr_iff dest: core_dest)

lemma core_applyRevoke: "applyRevokeTx j n t e now x d = Inr d' \<Longrightarrow> core d' = core d"
  by (auto simp: applyRevokeTx_def and_then_Inr_iff dest: core_dest)

lemma core_liveness: "EvaluateLiveness d i now lc brk = Inr (d', res) \<Longrightarrow> core d' = core d"
  by (auto simp: EvaluateLiveness_def and_then_Inr_iff Let_def dest: core_applyRevoke
      split: if_splits list.splits)

lemma core_clear_dependents: "clear_dependents cfg i now xs d = Inr (d', js) \<Longrightarrow> core d' = core d"
proof (induction xs arbitrary: d d' js)
  case (Cons x xs)
  from Cons.prems show ?case
    by (auto simp: and_then_Inr_iff Let_def dest!: core_dest Cons.IH split: if_splits)
qed simp

lemma core_complete:
  assumes "CompleteJob cfg d i now = Inr (d', js)"
  shows "core d' = core d"
proof -
  from assms obtain r where r: "find_row d i = Some r"
    by (auto simp: CompleteJob_def and_then_Inr_iff loadJobTx_Inr)
  obtain to e where nx: "Next (jState (rwJob r)) TriggerCompleted = (to, e)"
    by (cases "Next (jState (rwJob r)) TriggerCompleted")
  with assms r show ?thesis
    by (cases e) (auto simp: CompleteJob_def loadJobTx_def and_then_Inr_iff Let_def
      dest!: core_dest core_clear_dependents)
qed

lemma core_arm [simp]: "core (ArmLeaseLivenessTimers d i n now lc) = core d"
  by (simp add: ArmLeaseLivenessTimers_def Let_def core_update_row row_id_def)

lemma core_life:
  "ClaimReadyJob d cp = Inr (d', n) \<Longrightarrow> core d' = core d"
  "ClaimReviewJob d cp = Inr (d', n) \<Longrightarrow> core d' = core d"
  "Heartbeat_tx d hp = Inr (d', dir) \<Longrightarrow> core d' = core d"
  "Release_tx d lp = Inr d' \<Longrightarrow> core d' = core d"
  "DispatchMerge cfg d pol i now = Inr (d', s) \<Longrightarrow> core d' = core d"
  "RequeueJob d i force now = Inr (d', s) \<Longrightarrow> core d' = core d"
  "CancelJob d i force now = Inr (d', s) \<Longrightarrow> core d' = core d"
  "FireNoEligibleWorker d tm now = Inr (d', fired) \<Longrightarrow> core d' = core d"
  "FireLeaseDeadline d tm now lc brk = Inr (d', res) \<Longrightarrow> core d' = core d"
  subgoal by (auto simp: ClaimReadyJob_def and_then_Inr_iff Let_def dest!: core_dest
        split: option.splits sum.splits if_splits)
  subgoal by (auto simp: ClaimReviewJob_def and_then_Inr_iff Let_def dest!: core_dest
        split: option.splits sum.splits if_splits)
  subgoal by (auto simp: Heartbeat_tx_def and_then_Inr_iff Let_def dest!: core_dest core_applyRevoke
        split: if_splits list.splits)
  subgoal by (auto simp: Release_tx_def and_then_Inr_iff Let_def dest!: core_dest split: if_splits)
  subgoal by (auto simp: DispatchMerge_def and_then_Inr_iff Let_def dest!: core_append_transitions
        split: option.splits)
  subgoal by (auto simp: RequeueJob_def and_then_Inr_iff Let_def dest!: core_dest
        split: option.splits if_splits)
  subgoal by (auto simp: CancelJob_def and_then_Inr_iff Let_def dest!: core_dest
        split: option.splits if_splits)
  subgoal by (auto simp: FireNoEligibleWorker_def and_then_Inr_iff Let_def dest!: core_dest
        split: option.splits if_splits)
  subgoal by (auto simp: FireLeaseDeadline_def and_then_Inr_iff dest: core_liveness
        split: option.splits if_splits)
  done

text \<open>The two results store a response; a seed adds a row.\<close>

lemma core_store_response:
  "core (store_response i key resp d) = (case core d of (ids, idem, out) \<Rightarrow>
     (ids, idem @ (if key = [] then [] else [((i, key), resp)]), out))"
  by (simp add: store_response_def core_def job_ids_def)

lemma core_result:
  assumes "Result cfg d p = Inr (d', resp)"
    and "cached_response d (rsJobID p) (rsIdempotencyKey p) = None"
  shows "as_result resp = resp \<and> core d' = (case core d of (ids, idem, out) \<Rightarrow>
     (ids, idem @ (if rsIdempotencyKey p = [] then [] else [((rsJobID p, rsIdempotencyKey p), resp)]), out))"
  using assms
  by (auto simp: Result_def and_then_Inr_iff Let_def core_store_response
      dest!: core_dest core_append_transitions split: if_splits)

lemma core_review:
  assumes "ReviewResult cfg d facts pol p = Inr (d', resp)"
    and "cached_response d (rvJobID p) (rvIdempotencyKey p) = None"
  shows "as_review resp = resp \<and> core d' = (case core d of (ids, idem, out) \<Rightarrow>
     (ids, idem @ (if rvIdempotencyKey p = [] then [] else [((rvJobID p, rvIdempotencyKey p), resp)]), out))"
  using assms
  by (auto simp: ReviewResult_def and_then_Inr_iff Let_def core_store_response
      dest!: core_dest core_append_transitions split: if_splits)

lemma cached_again: "Result cfg d p = Inr (d', resp) \<Longrightarrow>
    cached_response d (rsJobID p) (rsIdempotencyKey p) = Some c \<Longrightarrow> d' = d"
  "ReviewResult cfg d facts pol q = Inr (d', resp) \<Longrightarrow>
    cached_response d (rvJobID q) (rvIdempotencyKey q) = Some c \<Longrightarrow> d' = d"
  by (simp_all add: Result_def ReviewResult_def)

lemma core_results:
  "Result cfg d p = Inr (d', resp) \<Longrightarrow>
     \<exists>new. core d' = (case core d of (ids, idem, out) \<Rightarrow> (ids, idem @ new, out))"
  "ReviewResult cfg d facts pol q = Inr (d', resp') \<Longrightarrow>
     \<exists>new. core d' = (case core d of (ids, idem, out) \<Rightarrow> (ids, idem @ new, out))"
  subgoal by (cases "cached_response d (rsJobID p) (rsIdempotencyKey p)")
      (use core_result cached_again(1) in \<open>fastforce simp: core_def\<close>)+
  subgoal by (cases "cached_response d (rvJobID q) (rvIdempotencyKey q)")
      (use core_review cached_again(2) in \<open>fastforce simp: core_def\<close>)+
  done

lemma core_insert_row:
  "insert_row r d = Inr d' \<Longrightarrow> row_id r \<notin> set (job_ids d) \<and>
     core d' = (case core d of (ids, rest) \<Rightarrow> (ids @ [row_id r], rest))"
  by (auto simp: insert_row_def core_def job_ids_def find_row_def find_None_iff split: if_splits)

lemma core_seed:
  "seedJobTx cfg d p = Inr d' \<Longrightarrow> \<exists>i. i \<notin> set (job_ids d) \<and>
     core d' = (case core d of (ids, rest) \<Rightarrow> (ids @ [i], rest))"
  by (auto simp: seedJobTx_def Let_def and_then_Inr_iff dest!: core_dest core_insert_row split: if_splits)

section \<open>The frame rule\<close>

text \<open>The transactions on the outbox, the audit log and the facts alone.\<close>

inductive outbox_op :: "DB \<Rightarrow> DB \<Rightarrow> bool" where
  op_open_pr: "EnqueuePROpen d i h b = Inr (d', x) \<Longrightarrow> outbox_op d d'"
| op_comment: "EnqueueIssueComment d i b k = (d', x) \<Longrightarrow> outbox_op d d'"
| op_merge: "EnqueueMergeForJob d i = Inr (d', x) \<Longrightarrow> outbox_op d d'"
| op_sent: "MarkOutboxSent d n t = Inr d' \<Longrightarrow> outbox_op d d'"
| op_suppressed: "outbox_op d (MarkOutboxSuppressed n d)"
| op_bump: "outbox_op d (BumpOutboxAttempts n d)"
| op_retry: "RetryAbandonedOutbox i d = (d', k) \<Longrightarrow> outbox_op d d'"
| op_retry_repo: "RetryAbandonedOutboxForRepo repo d = (d', k) \<Longrightarrow> outbox_op d d'"
| op_retry_all: "RetryAllAbandonedOutbox d = (d', k) \<Longrightarrow> outbox_op d d'"
| op_abandon: "outbox_op d (AbandonOutboxForJobSHA i sha d)"
| op_set_facts: "outbox_op d (upsertDomainBFactsTx i pr d)"

text \<open>An update of an outbox row that is not its sending.\<close>

definition unsent_update :: "(OutboxRow \<Rightarrow> OutboxRow) \<Rightarrow> bool" where
  "unsent_update f \<longleftrightarrow> (\<forall>x. obID (f x) = obID x \<and> same_key (f x) x
     \<and> (obStatus (f x) = ObSent \<longrightarrow> obStatus x = ObSent))"

lemma unsent_updates [simp]:
  "unsent_update (\<lambda>x. x\<lparr>obStatus := ObAbandoned\<rparr>)"
  "unsent_update (\<lambda>x. x\<lparr>obAttempts := obAttempts x + k\<rparr>)"
  "unsent_update (\<lambda>x. x\<lparr>obStatus := ObPending, obAttempts := 0\<rparr>)"
  "unsent_update (\<lambda>x. x\<lparr>obStatus := ObAbandoned, obAttempts := obAttempts x + k\<rparr>)"
  by (simp_all add: unsent_update_def same_key_def)

locale kept =
  fixes Q :: "DB \<Rightarrow> bool"
  assumes frame: "Q d \<Longrightarrow> core d' = core d \<Longrightarrow> Q d'"
    and enqueue: "Q d \<Longrightarrow> Q (enqueueOutboxTx x d)"
    and mark: "Q d \<Longrightarrow> unsent_update f \<Longrightarrow> Q (update_outbox q f d)"
    and sent: "MarkOutboxSent d n t = Inr d' \<Longrightarrow> Q d \<Longrightarrow> Q d'"
begin

lemma updated: "Q d \<Longrightarrow> (\<And>r. row_id (f r) = row_id r) \<Longrightarrow> Q (update_row i f d)"
  by (erule frame) (rule core_update_row)

lemma one_step:
  assumes "one_step i n e f extra d = Inr d'" and "Q d" and "\<And>x. row_id (f x) = row_id x"
    and "\<And>x. Q x \<Longrightarrow> Q (extra x)"
  shows "Q d'"
proof -
  from assms(1) obtain d1 where ap: "appendEvent e d = Inr d1"
    and d': "d' = setJobSeq i n (extra (update_row i f d1))" by (auto simp: one_step_def and_then_Inr_iff)
  have "Q d1" by (rule frame [OF assms(2) core_appendEvent [OF ap]])
  then have "Q (extra (update_row i f d1))" by (intro assms(4) updated assms(3))
  then show ?thesis unfolding d' by (rule frame) simp
qed

lemma quiet_step:
  assumes "one_step i n e f extra d = Inr d'" and "Q d" and "\<And>x. row_id (f x) = row_id x"
    and "\<And>x. core (extra x) = core x"
  shows "Q d'"
  by (rule one_step [OF assms(1-3)]) (erule frame, rule assms(4))

lemma abandon: "Q d \<Longrightarrow> Q (abandon_outbox q d)"
  by (simp add: abandon_outbox_def mark)

lemma history: "Q d \<Longrightarrow> Q (enqueueHistoryWriteTx i d)"
  by (simp add: enqueueHistoryWriteTx_def enqueue)

lemma branch: "Q d \<Longrightarrow> Q (delete_branch j d)"
  by (simp add: delete_branch_def Let_def enqueue)

lemma transition: "reconcileTransitionTx j n to k now pay d = Inr d' \<Longrightarrow> Q d \<Longrightarrow> Q d'"
  unfolding reconcileTransitionTx_def by (erule one_step) simp_all

lemma supersede: "supersedeTx j n pr a now ci d = Inr d' \<Longrightarrow> Q d \<Longrightarrow> Q d'"
  unfolding supersedeTx_def
  by (erule one_step) (simp_all add: abandon_stale_def frame [OF abandon])

lemma refresh_each: "refresh_each b now rs d = Inr d' \<Longrightarrow> Q d \<Longrightarrow> Q d'"
proof (induction rs arbitrary: d)
  case (Cons r rs)
  from Cons.prems(1) obtain d1 where
      s: "one_step (row_id r) (jJobSeq (rwJob r) + 1) (base_event r b now) (base_row b) id d = Inr d1"
    and rest: "refresh_each b now rs d1 = Inr d'" by (auto simp: and_then_Inr_iff)
  from one_step [OF s Cons.prems(2)] have "Q d1" by simp
  with rest show ?case by (rule Cons.IH)
qed simp

lemma refresh: "refreshReadyBaseTx repo m b now d = Inr (d', n) \<Longrightarrow> Q d \<Longrightarrow> Q d'"
  by (auto simp: refreshReadyBaseTx_def Let_def and_then_Inr_iff intro: refresh_each)

lemma complete_merged: "complete_merged j n pr now d = Inr d' \<Longrightarrow> Q d \<Longrightarrow> Q d'"
  unfolding complete_merged_def and_then_Inr_iff
  by (clarsimp simp: and_then_Inr_iff split: if_splits; blast intro: branch history refresh transition)

lemma reconcile_steps:
  "postMergeCIFailureTx j n now fc fu d = Inr d' \<Longrightarrow> Q d \<Longrightarrow> Q d'"
  "escalatePRClosedTx j n now d = Inr d' \<Longrightarrow> Q d \<Longrightarrow> Q d'"
  "ciFailBounceTx j n now fc fu d = Inr d' \<Longrightarrow> Q d \<Longrightarrow> Q d'"
  unfolding postMergeCIFailureTx_def escalatePRClosedTx_def ciFailBounceTx_def Let_def
  by (erule one_step, simp_all) (auto elim: one_step split: if_splits)

lemma reconcile_switch: "reconcile_switch j n moved pr now d = Inr (d', oc) \<Longrightarrow> Q d \<Longrightarrow> Q d'"
  unfolding reconcile_switch_def Let_def
  by (auto simp: and_then_Inr_iff intro: reconcile_steps complete_merged transition supersede
      split: if_split_asm)

lemma reconcile:
  assumes "ApplyReconciledPR d i pr now = Inr (d', oc)" and "Q d"
  shows "Q d'"
proof -
  have "Q (upsertDomainBFactsTx i pr d)" by (rule frame [OF assms(2)]) simp
  with assms show ?thesis
    by (auto simp: ApplyReconciledPR_def and_then_Inr_iff Let_def
        intro: history transition reconcile_switch split: if_split_asm)
qed

lemma conflict:
  "RebaseOnto mirror d ro = Inr (d', out) \<Longrightarrow> Q d \<Longrightarrow> Q d'"
  "RouteBuildConflict d bc = Inr d' \<Longrightarrow> Q d \<Longrightarrow> Q d'"
  "RouteMergeConflict d i base now = Inr d' \<Longrightarrow> Q d \<Longrightarrow> Q d'"
  "RouteSelfMergeToHandoff d i reason now = Inr d' \<Longrightarrow> Q d \<Longrightarrow> Q d'"
  "ResolveConflictResult d zp = Inr (d', resp) \<Longrightarrow> Q d \<Longrightarrow> Q d'"
  "appendStackedRebased d i k base now = Inr d' \<Longrightarrow> Q d \<Longrightarrow> Q d'"
  "StampPRNumber d i m h b now = Inr d' \<Longrightarrow> Q d \<Longrightarrow> Q d'"
  subgoal by (auto simp: RebaseOnto_def and_then_Inr_iff split: if_splits elim!: quiet_step)
  subgoal by (auto simp: RouteBuildConflict_def and_then_Inr_iff split: if_splits elim!: quiet_step)
  subgoal by (auto simp: RouteMergeConflict_def and_then_Inr_iff split: if_splits elim!: quiet_step)
  subgoal by (auto simp: RouteSelfMergeToHandoff_def and_then_Inr_iff split: if_splits elim!: quiet_step)
  subgoal by (auto simp: ResolveConflictResult_def and_then_Inr_iff split: if_splits elim!: quiet_step)
  subgoal by (auto simp: appendStackedRebased_def and_then_Inr_iff split: if_splits elim!: quiet_step)
  subgoal by (auto simp: StampPRNumber_def and_then_Inr_iff split: if_splits elim!: quiet_step)
  done

lemma dead_letter: "DeadLetterOutbox d m i reason detail esc now = Inr d' \<Longrightarrow> Q d \<Longrightarrow> Q d'"
  using mark [of d "\<lambda>x. x\<lparr>obStatus := ObAbandoned, obAttempts := obAttempts x + 1\<rparr>" "\<lambda>x. obID x = m"]
  by (auto simp: DeadLetterOutbox_def Let_def and_then_Inr_iff elim!: one_step split: if_splits)

lemma conflict_claim: "ClaimConflictJob d cp = Inr (d', n) \<Longrightarrow> Q d \<Longrightarrow> Q d'"
  by (erule frame) (auto simp: ClaimConflictJob_def and_then_Inr_iff Let_def core_update_row
      dest!: core_dest split: option.splits if_splits)

lemma withdrawn:
  "InvalidateStaleMergeAuthorization d i now = Inr d' \<Longrightarrow> Q d \<Longrightarrow> Q d'"
  "RoutePostApprovalCIFailure d i fc fu now = Inr d' \<Longrightarrow> Q d \<Longrightarrow> Q d'"
  "RefreshStaleReadyBuilds d repo tip now = Inr (d', n) \<Longrightarrow> Q d \<Longrightarrow> Q d'"
  by (auto simp: InvalidateStaleMergeAuthorization_def RoutePostApprovalCIFailure_def Let_def
      RefreshStaleReadyBuilds_def abandon_merges_def and_then_Inr_iff
      intro!: updated abandon intro: supersede refresh split: if_splits)

lemma columns:
  "RecordReservation cfg d i = Inr d' \<Longrightarrow> Q d \<Longrightarrow> Q d'"
  "Q d \<Longrightarrow> Q (MarkStackedOn i k d)" "Q d \<Longrightarrow> Q (BindPRNumber i k d)"
  by (auto simp: RecordReservation_def MarkStackedOn_def BindPRNumber_def intro!: updated
      split: option.splits)

lemma outbox: "outbox_op d d' \<Longrightarrow> Q d \<Longrightarrow> Q d'"
proof (induction rule: outbox_op.induct)
  case (op_sent d n t d')
  then show ?case by (rule sent)
next
  case (op_set_facts d i pr)
  then show ?case by (rule frame) simp
qed (auto simp: EnqueuePROpen_def EnqueueMergeForJob_def EnqueueIssueComment_def
      MarkOutboxSuppressed_def BumpOutboxAttempts_def RetryAbandonedOutbox_def
      RetryAbandonedOutboxForRepo_def RetryAllAbandonedOutbox_def rearm_outbox_def
      AbandonOutboxForJobSHA_def Let_def intro!: enqueue mark split: option.splits if_splits)

end

end
