(* ===== verification/Store_Runs.thy ===== *)
theory Store_Runs
  imports Store_Git_Steps Store_Frame
begin

text \<open>
  Runs of the store: every sequence of its transactions, from an empty \<open>jobs\<close>
  and \<open>events\<close> table.  Each transaction refines one or more moves of a single
  job (\<open>job_move\<close>), so a relation between a job's events and its row that every
  move keeps holds in every reachable database (\<open>ledger_invariant\<close>).

  With \<open>strict\<close> set a run leaves out the calls after which row and fold are known
  to differ: seeds that are not plain builds, forced operator moves, a worker's
  release of a job that is on a merge arm, a rebase or ingest of a job at the
  human gate, an ingest or dead letter that ends a job whose lease is bound, and
  a pull request number bound without an event.
\<close>

section \<open>The moves of one job\<close>

fun merge_arm :: "State \<Rightarrow> bool" where
  "merge_arm StateMerging = True"
| "merge_arm StateMergeHandoff = True"
| "merge_arm _ = False"

text \<open>The columns outside row and fold: reservations and the stack pointer.\<close>

definition set_columns :: "string list option \<Rightarrow> bool \<Rightarrow> int \<Rightarrow> Row \<Rightarrow> Row" where
  "set_columns ps w k r = r\<lparr>rwReservationPaths := ps, rwReservationWide := w, rwStackedOnPR := k\<rparr>"

inductive job_move :: "bool \<Rightarrow> DB \<Rightarrow> string \<Rightarrow> Row \<Rightarrow> Event list \<Rightarrow> Row \<Rightarrow> bool" for strict where
  move_claim: "jState (rwJob r) = StateReady \<Longrightarrow> cpJobID p = i \<Longrightarrow>
    job_move strict d i r
      [claim_ledger_event p KindLeaseClaimed StateReady StateLeased (jLeaseEpoch (rwJob r) + 1)
         (jJobSeq (rwJob r) + 1)]
      (set_seq (jJobSeq (rwJob r) + 1) (claim_row p a r))"
| move_review_claim: "jState (rwJob r) = StateReviewPending \<Longrightarrow> cpJobID p = i \<Longrightarrow>
    \<not> builder_conflict d p r \<Longrightarrow> \<not> already_approved d p \<Longrightarrow>
    job_move strict d i r
      [claim_ledger_event p KindReviewClaimed StateReviewPending StateCodeReview
         (jLeaseEpoch (rwJob r) + 1) (jJobSeq (rwJob r) + 1)]
      (set_seq (jJobSeq (rwJob r) + 1) (review_claim_row p r))"
| move_revoke: "revoke_move (jState (rwJob r)) t esc \<Longrightarrow>
    (strict \<Longrightarrow> tKind t = KindFastCancelled \<Longrightarrow> \<not> merge_arm (jState (rwJob r))) \<Longrightarrow>
    job_move strict d i r [revoke_event i r t now esc] (revoked r t now esc)"
| move_beat: "HasActiveLease (jState (rwJob r)) \<Longrightarrow>
    job_move strict d i r
      [fenced_event i (jJobSeq (rwJob r) + 1) KindHeartbeat (jState (rwJob r)) (jState (rwJob r))
         (jLeaseEpoch (rwJob r)) act now zero_payload]
      (set_seq (jJobSeq (rwJob r) + 1) (beat_row hp r))"
| move_result: "rsJobID rp = i \<Longrightarrow>
    jState (rwJob r) = StateLeased \<and>
      ts = [move StateLeased StateBuilding KindWorkerStarted,
            move StateBuilding StateReviewPending KindResultAccepted]
    \<or> jState (rwJob r) = StateBuilding \<and>
      ts = [move StateBuilding StateReviewPending KindResultAccepted] \<Longrightarrow>
    job_move strict d i r (numbered (result_event rp (scanJob r)) (jJobSeq (rwJob r)) ts)
      (result_done rp r ts)"
| move_release: "rlJobID lp = i \<Longrightarrow> HasActiveLease (jState (rwJob r)) \<Longrightarrow>
    (strict \<Longrightarrow> \<not> merge_arm (jState (rwJob r))) \<Longrightarrow>
    job_move strict d i r [release_event lp r]
      (set_seq (jJobSeq (rwJob r) + 1) (released_row lp r))"
| move_exhausted: "rlJobID lp = i \<Longrightarrow> HasActiveLease (jState (rwJob r)) \<Longrightarrow>
    (strict \<Longrightarrow> \<not> merge_arm (jState (rwJob r))) \<Longrightarrow>
    job_move strict d i r [release_event lp r, exhausted_event lp r]
      (set_seq (jJobSeq (rwJob r) + 2)
         (escalate_row (escalation_str EscalationAttempts) (released_row lp r)))"
| move_review: "rvJobID vp = i \<Longrightarrow> jState (rwJob r) = StateCodeReview \<Longrightarrow>
    review_step d r facts pol vp t \<Longrightarrow>
    job_move strict d i r (review_events d vp r t)
      (set_seq (jJobSeq (rwJob r) + 2) (reviewed_row cfg d vp r t))"
| move_dispatch: "jState (rwJob r) = StateMergeable \<Longrightarrow>
    t = move StateMergeable StateMerging KindMergeStarted
      \<or> t = move StateMergeable StateMergeHandoff KindMergeHandoff \<Longrightarrow>
    job_move strict d i r [dispatch_event i now (scanJob r) t (jJobSeq (rwJob r) + 1)]
      (set_seq (jJobSeq (rwJob r) + 1) (set_state_row (tTo t) r))"
| move_requeue: "(strict \<Longrightarrow> \<not> HasActiveLease (jState (rwJob r))) \<Longrightarrow>
    requeue_target (jKind (rwJob r)) = (s, ro, st, tg) \<Longrightarrow>
    job_move strict d i r [operator_event i r s now (zero_payload\<lparr>pResetCounters := True\<rparr>)]
      (set_seq (jJobSeq (rwJob r) + 1) (requeue_row s ro st tg now r))"
| move_cancel: "(strict \<Longrightarrow> \<not> HasActiveLease (jState (rwJob r))) \<Longrightarrow>
    job_move strict d i r [operator_event i r StateCancelled now zero_payload]
      (set_seq (jJobSeq (rwJob r) + 1) (cancel_row r))"
| move_alarm: "jState (rwJob r) \<in> {StateReady, StateReviewPending} \<Longrightarrow>
    job_move strict d i r
      [fenced_event i (jJobSeq (rwJob r) + 1) KindNoEligibleWorker (jState (rwJob r))
         (jState (rwJob r)) (jLeaseEpoch (rwJob r)) ''system'' now zero_payload]
      (set_seq (jJobSeq (rwJob r) + 1) r)"
| move_complete: "jState (rwJob r) = StateReviewPending \<Longrightarrow>
    job_move strict d i r
      [fenced_event i (jJobSeq (rwJob r) + 1) KindJobCompleted StateReviewPending StateDone 0
         ''system'' now zero_payload]
      (set_seq (jJobSeq (rwJob r) + 1) (set_state_row StateDone r))"
| move_unblock: "jState (rwJob r) = StateBlocked \<Longrightarrow>
    job_move strict d i r
      [fenced_event i (jJobSeq (rwJob r) + 1) KindDepsCleared StateBlocked StateReady 0
         ''system'' now zero_payload]
      (set_seq (jJobSeq (rwJob r) + 1) (unblock_row now r))"
| move_arm: "job_move strict d i r []
      (r\<lparr>rwPhaseDeadlineAt := Some pa, rwLeaseDeadline := Some ca, rwLastHeartbeatAt := Some now,
         rwRung2LastVerdict := Rung2Abstain, rwRung2WindowHead := [],
         rwRung2WindowStartedAt := None, rwCIRunning := False\<rparr>)"
| move_columns: "job_move strict d i r [] (set_columns ps w k r)"
| move_bind: "\<not> strict \<Longrightarrow> job_move strict d i r [] (bind_pr_row n r)"
| move_rebased: "(strict \<Longrightarrow> \<not> human_state (jState (rwJob r)) \<and> base \<noteq> []) \<Longrightarrow>
    job_move strict d i r [rebased_event i (scanJob r) base sha now (jJobSeq (rwJob r) + 1)]
      (set_seq (jJobSeq (rwJob r) + 1) (rebased_row base sha r))"
| move_conflict: "(strict \<Longrightarrow> \<not> human_state (jState (rwJob r)) \<and> base \<noteq> []) \<Longrightarrow>
    job_move strict d i r [conflict_event i (scanJob r) base act now (jJobSeq (rwJob r) + 1)]
      (set_seq (jJobSeq (rwJob r) + 1) ((conflict_row base now r)\<lparr>rwPatchDiff := pd\<rparr>))"
| move_downgrade: "jState (rwJob r) \<in> {StateMerging, StateMergeable} \<Longrightarrow>
    job_move strict d i r [handoff_event i (scanJob r) reason now (jJobSeq (rwJob r) + 1)]
      (set_seq (jJobSeq (rwJob r) + 1) (set_state_row StateMergeHandoff r))"
| move_resolved: "rzJobID zp = i \<Longrightarrow> jState (rwJob r) = StateResolvingConflict \<Longrightarrow>
    job_move strict d i r [resolved_event zp (scanJob r) (jJobSeq (rwJob r) + 1)]
      (set_seq (jJobSeq (rwJob r) + 1) (resolved_row zp r))"
| move_conflict_claim: "jState (rwJob r) = StateResolvingConflict \<Longrightarrow> cpJobID p = i \<Longrightarrow>
    \<not> builder_conflict d p r \<Longrightarrow>
    job_move strict d i r
      [claim_ledger_event p KindLeaseClaimed StateResolvingConflict StateResolvingConflict
         (jLeaseEpoch (rwJob r) + 1) (jJobSeq (rwJob r) + 1)]
      (set_seq (jJobSeq (rwJob r) + 1) (conflict_claim_row p r))"
| move_stacked: "(strict \<Longrightarrow> \<not> human_state (jState (rwJob r))) \<Longrightarrow>
    job_move strict d i r [stacked_event i (scanJob r) k base now (jJobSeq (rwJob r) + 1)]
      (set_seq (jJobSeq (rwJob r) + 1) r)"
| move_merged: "(strict \<Longrightarrow> \<not> human_state (jState (rwJob r)) \<and> unbound r) \<Longrightarrow> row_id r = i \<Longrightarrow>
    job_move strict d i r
      [reconcile_event (scanJob r) KindJobCompleted StateDone now (jJobSeq (rwJob r) + 1)
         (merged_payload c)]
      (set_seq (jJobSeq (rwJob r) + 1) (set_state_row StateDone r))"
| move_evicted: "jState (rwJob r) = StateNeedsHuman \<Longrightarrow> row_id r = i \<Longrightarrow>
    job_move strict d i r
      [reconcile_event (scanJob r) KindStateChanged StateCancelled now (jJobSeq (rwJob r) + 1)
         eviction_payload]
      (set_seq (jJobSeq (rwJob r) + 1) (set_state_row StateCancelled r))"
| move_post_merge: "(strict \<Longrightarrow> \<not> human_state (jState (rwJob r)) \<and> unbound r \<and> ci \<noteq> []) \<Longrightarrow> row_id r = i \<Longrightarrow>
    job_move strict d i r
      [reconcile_event (scanJob r) KindStateChanged StateNeedsHuman now (jJobSeq (rwJob r) + 1)
         (zero_payload\<lparr>pEscalationReason := escalation_str EscalationPostMergeCI, pCIFailures := ci\<rparr>)]
      (set_seq (jJobSeq (rwJob r) + 1) (post_merge_row ci r))"
| move_parked: "(strict \<Longrightarrow> \<not> human_state (jState (rwJob r)) \<and> unbound r) \<Longrightarrow>
    job_move strict d i r [park_event i (scanJob r) act revoke reason now (jJobSeq (rwJob r) + 1)]
      (set_seq (jJobSeq (rwJob r) + 1) (park_row reason r))"
| move_superseded: "supersedable (jState (rwJob r)) \<Longrightarrow> row_id r = i \<Longrightarrow>
    job_move strict d i r [superseded_event (scanJob r) pr act now (jJobSeq (rwJob r) + 1) ci]
      (set_seq (jJobSeq (rwJob r) + 1) (superseded_keeping (rpBaseSHA pr) ci diff declared now r))"
| move_ci_exhausted: "jState (rwJob r) = StateReviewPending \<Longrightarrow> row_id r = i \<Longrightarrow>
    job_move strict d i r
      [reconcile_event (scanJob r) KindBounceExhausted StateNeedsHuman now (jJobSeq (rwJob r) + 1)
         (zero_payload\<lparr>pBouncesDelta := 1, pCIFailures := ci\<rparr>)]
      (set_seq (jJobSeq (rwJob r) + 1) (ci_exhausted_row ci r))"
| move_ci_bounced: "jState (rwJob r) = StateReviewPending \<Longrightarrow> row_id r = i \<Longrightarrow>
    job_move strict d i r
      [reconcile_event (scanJob r) KindReviewBounced StateReady now (jJobSeq (rwJob r) + 1)
         (zero_payload\<lparr>pBouncesDelta := 1, pCIFailures := ci\<rparr>)]
      (set_seq (jJobSeq (rwJob r) + 1) (ci_bounced_row ci now r))"
| move_base: "jState (rwJob r) = StateReady \<Longrightarrow> row_id r = i \<Longrightarrow> (strict \<Longrightarrow> base \<noteq> []) \<Longrightarrow>
    job_move strict d i r [base_event r base now]
      (set_seq (jJobSeq (rwJob r) + 1) (base_row base r))"
| move_stamped: "(strict \<Longrightarrow> \<not> human_state (jState (rwJob r))) \<Longrightarrow>
    job_move strict d i r [pr_opened_event i (scanJob r) n sha now (jJobSeq (rwJob r) + 1)]
      (set_seq (jJobSeq (rwJob r) + 1) (stamp_row n sha r))"

text \<open>One move of the store: nothing, a move of one job, or the birth of one.\<close>

inductive store_move :: "bool \<Rightarrow> DB \<Rightarrow> DB \<Rightarrow> bool" for strict where
  still: "view d' = view d \<Longrightarrow> store_move strict d d'"
| moved: "job_move strict d i r new r' \<Longrightarrow> does i r r' new d d' \<Longrightarrow> store_move strict d d'"
| born: "find_row d (sdID p) = None \<Longrightarrow> s \<in> {StateBlocked, StateReady} \<Longrightarrow>
    (strict \<Longrightarrow> plain_seed p) \<Longrightarrow>
    view d' = (view d)(sdID p := (Some (set_seq 1 (seed_row p s)),
      events_of d (sdID p) @ [seed_event p s])) \<Longrightarrow> store_move strict d d'"

section \<open>The transactions\<close>

text \<open>Whether a job is on a merge arm.\<close>

definition on_merge_arm :: "DB \<Rightarrow> string \<Rightarrow> bool" where
  "on_merge_arm d i = (case find_row d i of None \<Rightarrow> False | Some r \<Rightarrow> merge_arm (jState (rwJob r)))"

text \<open>Whether a job is at the human gate; whether its row has a lease bound.\<close>

definition human_gated :: "DB \<Rightarrow> string \<Rightarrow> bool" where
  "human_gated d i = (case find_row d i of None \<Rightarrow> False | Some r \<Rightarrow> human_state (jState (rwJob r)))"

definition tied :: "DB \<Rightarrow> string \<Rightarrow> bool" where
  "tied d i = (case find_row d i of None \<Rightarrow> False | Some r \<Rightarrow> \<not> unbound r)"

text \<open>The ingests of a strict run: those that supersede a bound lease, or find none.\<close>

definition clean_ingest :: "DB \<Rightarrow> string \<Rightarrow> ReconciledPR \<Rightarrow> bool" where
  "clean_ingest d i pr \<longleftrightarrow> \<not> human_gated d i
     \<and> (tied d i \<longrightarrow> \<not> rpMerged pr \<and> \<not> rpClosedUnmerged pr \<and> fmMergeCommit (tbMarks d i) = [])
     \<and> (rpCIFailed pr \<longrightarrow> FormatCIFailures (rpFailingChecks pr) (rpFailingCheckURLs pr) \<noteq> [])"

inductive store_step :: "bool \<Rightarrow> StoreCfg \<Rightarrow> DB \<Rightarrow> DB \<Rightarrow> bool" for strict cfg where
  step_seed: "seedJobTx cfg d p = Inr d' \<Longrightarrow> (strict \<Longrightarrow> plain_seed p) \<Longrightarrow>
    store_step strict cfg d d'"
| step_claim: "ClaimReadyJob d cp = Inr (d', n) \<Longrightarrow> store_step strict cfg d d'"
| step_review_claim: "ClaimReviewJob d cp = Inr (d', n) \<Longrightarrow> store_step strict cfg d d'"
| step_arm: "d' = ArmLeaseLivenessTimers d i n now lc \<Longrightarrow> store_step strict cfg d d'"
| step_heartbeat: "Heartbeat_tx d hp = Inr (d', dir) \<Longrightarrow>
    (strict \<Longrightarrow> hpAwaitingInput hp \<Longrightarrow> \<not> on_merge_arm d (hpJobID hp)) \<Longrightarrow> store_step strict cfg d d'"
| step_liveness: "EvaluateLiveness d i now lc brk = Inr (d', res) \<Longrightarrow> store_step strict cfg d d'"
| step_deadline: "FireLeaseDeadline d tm now lc brk = Inr (d', res) \<Longrightarrow> store_step strict cfg d d'"
| step_result: "Result cfg d rp = Inr (d', resp) \<Longrightarrow> store_step strict cfg d d'"
| step_release: "Release_tx d lp = Inr d' \<Longrightarrow> (strict \<Longrightarrow> \<not> on_merge_arm d (rlJobID lp)) \<Longrightarrow>
    store_step strict cfg d d'"
| step_review: "ReviewResult cfg d facts pol vp = Inr (d', resp) \<Longrightarrow> store_step strict cfg d d'"
| step_dispatch: "DispatchMerge cfg d pol i now = Inr (d', s) \<Longrightarrow> store_step strict cfg d d'"
| step_complete: "CompleteJob cfg d i now = Inr (d', cleared) \<Longrightarrow> store_step strict cfg d d'"
| step_requeue: "RequeueJob d i force now = Inr (d', s) \<Longrightarrow> (strict \<Longrightarrow> \<not> force) \<Longrightarrow>
    store_step strict cfg d d'"
| step_cancel: "CancelJob d i force now = Inr (d', s) \<Longrightarrow> (strict \<Longrightarrow> \<not> force) \<Longrightarrow>
    store_step strict cfg d d'"
| step_alarm: "FireNoEligibleWorker d tm now = Inr (d', fired) \<Longrightarrow> store_step strict cfg d d'"
| step_facts: "d' = UpsertDomainBFacts i facts d \<Longrightarrow> store_step strict cfg d d'"
| step_epoch_ci: "d' = RecordEpochCI i n st d \<Longrightarrow> store_step strict cfg d d'"
| step_reserve: "RecordReservation cfg d i = Inr d' \<Longrightarrow> store_step strict cfg d d'"
| step_rebase: "RebaseOnto mirror d ro = Inr (d', out) \<Longrightarrow>
    (strict \<Longrightarrow> \<not> human_gated d (roJobID ro) \<and> roNewBaseSHA ro \<noteq> []) \<Longrightarrow> store_step strict cfg d d'"
| step_build_conflict: "RouteBuildConflict d bc = Inr d' \<Longrightarrow> (strict \<Longrightarrow> bcNewBaseSHA bc \<noteq> []) \<Longrightarrow>
    store_step strict cfg d d'"
| step_merge_conflict: "RouteMergeConflict d i base now = Inr d' \<Longrightarrow> (strict \<Longrightarrow> base \<noteq> []) \<Longrightarrow>
    store_step strict cfg d d'"
| step_downgrade: "RouteSelfMergeToHandoff d i reason now = Inr d' \<Longrightarrow> store_step strict cfg d d'"
| step_conflict_claim: "ClaimConflictJob d cp = Inr (d', n) \<Longrightarrow> store_step strict cfg d d'"
| step_resolve: "ResolveConflictResult d zp = Inr (d', resp) \<Longrightarrow> store_step strict cfg d d'"
| step_stack: "d' = MarkStackedOn i k d \<Longrightarrow> store_step strict cfg d d'"
| step_stacked: "appendStackedRebased d i k base now = Inr d' \<Longrightarrow> (strict \<Longrightarrow> \<not> human_gated d i) \<Longrightarrow>
    store_step strict cfg d d'"
| step_reconcile: "ApplyReconciledPR d i pr now = Inr (d', oc) \<Longrightarrow> (strict \<Longrightarrow> clean_ingest d i pr) \<Longrightarrow>
    store_step strict cfg d d'"
| step_refresh: "RefreshStaleReadyBuilds d repo tip now = Inr (d', n) \<Longrightarrow> store_step strict cfg d d'"
| step_bind: "d' = BindPRNumber i n d \<Longrightarrow> \<not> strict \<Longrightarrow> store_step strict cfg d d'"
| step_outbox: "outbox_op d d' \<Longrightarrow> store_step strict cfg d d'"
| step_dead_letter: "DeadLetterOutbox d n i reason detail esc now = Inr d' \<Longrightarrow>
    (strict \<Longrightarrow> \<not> tied d i) \<Longrightarrow> store_step strict cfg d d'"
| step_stamp: "StampPRNumber d i n h b now = Inr d' \<Longrightarrow> (strict \<Longrightarrow> \<not> human_gated d i) \<Longrightarrow>
    store_step strict cfg d d'"
| step_invalidate: "InvalidateStaleMergeAuthorization d i now = Inr d' \<Longrightarrow> store_step strict cfg d d'"
| step_post_approval: "RoutePostApprovalCIFailure d i fc fu now = Inr d' \<Longrightarrow> store_step strict cfg d d'"

inductive reachable :: "bool \<Rightarrow> StoreCfg \<Rightarrow> DB \<Rightarrow> bool" for strict cfg where
  reach_start: "tbJobs d = [] \<Longrightarrow> tbEvents d = [] \<Longrightarrow> reachable strict cfg d"
| reach_step: "reachable strict cfg d \<Longrightarrow> store_step strict cfg d d' \<Longrightarrow> reachable strict cfg d'"

section \<open>Every transaction refines moves\<close>

lemma move_rtrancl [intro]: "store_move strict d d' \<Longrightarrow> (store_move strict)\<^sup>*\<^sup>* d d'"
  by blast

lemma view_still: "view d' = view d \<Longrightarrow> (store_move strict)\<^sup>*\<^sup>* d d'"
  by (blast intro: still)

lemma ready_moves:
  assumes "ClaimReadyJob d p = Inr (d', n)"
  shows "store_move strict d d'"
  using assms
proof (rule ClaimReadyJob_does)
  fix r acct
  assume g: "jState (rwJob r) = StateReady" and n: "n = jLeaseEpoch (rwJob r) + 1"
    and d: "does (cpJobID p) r (set_seq (jJobSeq (rwJob r) + 1) (claim_row p acct r))
      [claim_ledger_event p KindLeaseClaimed StateReady StateLeased n (jJobSeq (rwJob r) + 1)] d d'"
  from moved [OF move_claim [OF g refl] d [unfolded n]] show ?thesis .
qed

lemma review_moves:
  assumes "ClaimReviewJob d p = Inr (d', n)"
  shows "store_move strict d d'"
  using assms
proof (rule ClaimReviewJob_does)
  fix r
  assume g: "jState (rwJob r) = StateReviewPending" and n: "n = jLeaseEpoch (rwJob r) + 1"
    and c: "\<not> builder_conflict d p r" "\<not> already_approved d p"
    and d: "does (cpJobID p) r (set_seq (jJobSeq (rwJob r) + 1) (review_claim_row p r))
      [claim_ledger_event p KindReviewClaimed StateReviewPending StateCodeReview n
         (jJobSeq (rwJob r) + 1)] d d'"
  from moved [OF move_review_claim [OF g refl c] d [unfolded n]] show ?thesis .
qed

lemma arm_moves: "store_move strict d (ArmLeaseLivenessTimers d i n now lc)"
proof (cases "find_row d i")
  case None
  have "map (\<lambda>r. if row_id r = i then f r else r) rs = rs" if "List.find (\<lambda>r. row_id r = i) rs = None" for f rs
    using that by (induction rs) (auto split: if_splits)
  then have "update_row i f d = d" for f using None by (simp add: update_row_def find_row_def)
  then have "view (ArmLeaseLivenessTimers d i n now lc) = view d"
    by (simp add: ArmLeaseLivenessTimers_def Let_def)
  then show ?thesis by (rule still)
next
  case (Some r)
  let ?f = "\<lambda>r. r\<lparr>rwPhaseDeadlineAt := Some (now + lcPhaseBudget lc),
      rwLeaseDeadline := Some (now + lcAbsoluteCap lc), rwLastHeartbeatAt := Some now,
      rwRung2LastVerdict := Rung2Abstain, rwRung2WindowHead := [],
      rwRung2WindowStartedAt := None, rwCIRunning := False\<rparr>"
  have "view (ArmLeaseLivenessTimers d i n now lc) = view (update_row i ?f d)"
    by (simp add: ArmLeaseLivenessTimers_def Let_def)
  then have "does i r (?f r) [] d (ArmLeaseLivenessTimers d i n now lc)"
    using does_update [OF Some, of ?f] by (simp add: does_def row_id_def)
  from moved [OF move_arm this] show ?thesis .
qed

lemma liveness_moves:
  assumes "EvaluateLiveness d i now lc brk = Inr (d', res)"
  shows "store_move strict d d'"
  using assms
proof (rule EvaluateLiveness_does)
  fix r t ts lv esc
  assume live: "LivenessEvaluable (jState (rwJob r))"
    and tr: "dTransitions (decide_liveness (bare_state (scanJob r) now) lv) = t # ts"
    and esc: "esc = (if tTo t = StateNeedsHuman
                then (if lvAttemptsExhausted lv \<and> \<not> lvGovernorCeilingReached lv
                      then escalation_str EscalationAttempts else escalation_str EscalationStall)
                else [])"
    and d: "does i r (revoked r t now esc) [revoke_event i r t now esc] d d'"
  have m: "revoke_move (jState (rwJob r)) t esc"
    using liveness_revoke_move [OF tr _ esc] live by (simp add: bare_state_def)
  have "\<not> merge_arm (jState (rwJob r))"
    using live by (cases "jState (rwJob r)") (simp_all add: LivenessEvaluable_iff)
  then show ?thesis by (intro moved [OF move_revoke [OF m] d])
qed (simp add: still)

lemma heartbeat_active:
  assumes "Heartbeat_tx d p = Inr (d', dir)" and "find_row d (hpJobID p) = Some r"
  shows "HasActiveLease (jState (rwJob r))"
  using assms by (auto simp: Heartbeat_tx_def loadJobTx_Inr and_then_Inr_iff decide_heartbeat_def
      bare_state_def Let_def staleEpoch_def split: if_splits)

lemma heartbeat_moves:
  assumes "Heartbeat_tx d p = Inr (d', dir)"
    and "strict \<Longrightarrow> hpAwaitingInput p \<Longrightarrow> \<not> on_merge_arm d (hpJobID p)"
  shows "store_move strict d d'"
  using assms(1)
proof (rule Heartbeat_tx_does)
  fix r t ts
  assume tr: "dTransitions (decide_heartbeat (bare_state (scanJob r) (hpNow p))
        \<lparr>hbEpoch = hpEpoch p, hbHealth = hpHealth p, hbAwaitingInput = hpAwaitingInput p,
         hbAgentExited = hpAgentExited p\<rparr>) = t # ts"
    and d: "does (hpJobID p) r (revoked r t (hpNow p) []) [revoke_event (hpJobID p) r t (hpNow p) []] d d'"
  have m: "revoke_move (jState (rwJob r)) t []" "tKind t = KindFastCancelled \<longrightarrow> hpAwaitingInput p"
    using heartbeat_revoke_move [OF tr] by (simp_all add: bare_state_def)
  have "strict \<Longrightarrow> tKind t = KindFastCancelled \<Longrightarrow> \<not> merge_arm (jState (rwJob r))"
    using assms(2) m(2) d by (simp add: on_merge_arm_def does_def)
  from moved [OF move_revoke [OF m(1) this] d] show ?thesis .
next
  fix r
  assume d: "does (hpJobID p) r (set_seq (jJobSeq (rwJob r) + 1) (beat_row p r))
      [fenced_event (hpJobID p) (jJobSeq (rwJob r) + 1) KindHeartbeat (jState (rwJob r))
         (jState (rwJob r)) (jLeaseEpoch (rwJob r)) (coalesce (rwBoundIdentity r)) (hpNow p)
         zero_payload] d d'"
  then have "find_row d (hpJobID p) = Some r" by (simp add: does_def)
  from moved [OF move_beat [OF heartbeat_active [OF assms(1) this]] d] show ?thesis .
qed

lemma result_moves:
  assumes "Result cfg d p = Inr (d', resp)"
  shows "store_move strict d d'"
proof (cases "cached_response d (rsJobID p) (rsIdempotencyKey p)")
  case None
  from assms None show ?thesis
    by (rule Result_does) (rule moved [OF move_result [OF refl]])
next
  case (Some c)
  with assms show ?thesis by (simp add: Result_def still)
qed

lemma release_tx_moves:
  assumes "Release_tx d p = Inr d'" and "strict \<Longrightarrow> \<not> on_merge_arm d (rlJobID p)"
  shows "store_move strict d d'"
proof -
  have arm: "find_row d (rlJobID p) = Some r \<Longrightarrow> strict \<Longrightarrow> \<not> merge_arm (jState (rwJob r))" for r
    using assms(2) by (simp add: on_merge_arm_def)
  from assms(1) show ?thesis
    by (rule Release_tx_does)
      (blast intro: moved move_release move_exhausted dest: arm does_def [THEN iffD1])+
qed

lemma review_result_moves:
  assumes "ReviewResult cfg d facts pol p = Inr (d', resp)"
  shows "store_move strict d d'"
proof (cases "cached_response d (rvJobID p) (rvIdempotencyKey p)")
  case None
  from assms None show ?thesis
    by (rule ReviewResult_does) (rule moved [OF move_review [OF refl]])
next
  case (Some c)
  with assms show ?thesis by (simp add: ReviewResult_def still)
qed

lemma dispatch_moves:
  assumes "DispatchMerge cfg d pol i now = Inr (d', s)"
  shows "store_move strict d d'"
  using assms
proof (rule DispatchMerge_does)
  fix r t
  assume g: "jState (rwJob r) = StateMergeable"
    and t: "t = move StateMergeable StateMerging KindMergeStarted
         \<or> t = move StateMergeable StateMergeHandoff KindMergeHandoff" and s: "s = tTo t"
    and d: "does i r (set_seq (jJobSeq (rwJob r) + 1) (set_state_row s r))
      [dispatch_event i now (scanJob r) t (jJobSeq (rwJob r) + 1)] d d'"
  from moved [OF move_dispatch [OF g t] d [unfolded s]] show ?thesis .
qed (rule still)

lemma requeue_moves:
  assumes "RequeueJob d i force now = Inr (d', s)" and "strict \<Longrightarrow> \<not> force"
  shows "store_move strict d d'"
  using assms(1) by (rule RequeueJob_does) (rule moved [OF move_requeue], use assms(2) in blast)

lemma cancel_moves:
  assumes "CancelJob d i force now = Inr (d', s)" and "strict \<Longrightarrow> \<not> force"
  shows "store_move strict d d'"
  using assms(1)
  by (rule CancelJob_does) (simp add: still, rule moved [OF move_cancel], use assms(2) in blast)

lemma alarm_moves:
  assumes "FireNoEligibleWorker d tm now = Inr (d', fired)"
  shows "store_move strict d d'"
  using assms by (rule FireNoEligibleWorker_does) (rule still, assumption, rule moved [OF move_alarm])

lemma seed_moves:
  assumes "seedJobTx cfg d p = Inr d'" and "strict \<Longrightarrow> plain_seed p"
  shows "store_move strict d d'"
  using assms(1) by (rule seedJobTx_view) (rule born [of _ p], use assms(2) in auto)

section \<open>Conflicts, reconciliation, project-OUT\<close>

lemma does_row: "does i r r' es d d' \<Longrightarrow> find_row d i = Some r"
  and does_row_id: "does i r r' es d d' \<Longrightarrow> row_id r = i"
  by (auto simp: does_def dest: find_row_id)

lemma update_columns:
  assumes "\<And>r. f r = set_columns (ps r) (w r) (k r) r"
  shows "store_move strict d (update_row i f d)"
proof (cases "find_row d i")
  case None
  have "map (\<lambda>r. if row_id r = i then f r else r) rs = rs" if "List.find (\<lambda>r. row_id r = i) rs = None" for rs
    using that by (induction rs) (auto split: if_splits)
  then have "update_row i f d = d" using None by (simp add: update_row_def find_row_def)
  then show ?thesis by (simp add: still)
next
  case (Some r)
  have "does i r (f r) [] d (update_row i f d)"
    by (rule does_update [OF Some]) (simp add: assms set_columns_def row_id_def)
  then have "does i r (set_columns (ps r) (w r) (k r) r) [] d (update_row i f d)" by (simp only: assms)
  from moved [OF move_columns this] show ?thesis .
qed

lemma stack_moves: "store_move strict d (MarkStackedOn i k d)"
  unfolding MarkStackedOn_def
  by (rule update_columns [where ps = rwReservationPaths and w = rwReservationWide and k = "\<lambda>_. k"])
    (simp add: stack_row_def set_columns_def)

lemma reserve_moves: "RecordReservation cfg d i = Inr d' \<Longrightarrow> store_move strict d d'"
proof -
  have "store_move strict d (update_row i (reserve_row ws) d)" for ws
    by (rule update_columns [where ps = "\<lambda>_. Some (wsPaths ws)" and w = "\<lambda>_. wsWide ws"
          and k = rwStackedOnPR]) (simp add: reserve_row_def set_columns_def)
  then show "RecordReservation cfg d i = Inr d' \<Longrightarrow> store_move strict d d'"
    by (auto simp: RecordReservation_def split: option.splits)
qed

lemma bind_moves: "\<not> strict \<Longrightarrow> store_move strict d (BindPRNumber i n d)"
proof (cases "find_row d i")
  case None
  have "map (\<lambda>r. if row_id r = i then f r else r) rs = rs" if "List.find (\<lambda>r. row_id r = i) rs = None" for f rs
    using that by (induction rs) (auto split: if_splits)
  then have "BindPRNumber i n d = d" using None by (simp add: BindPRNumber_def update_row_def find_row_def)
  then show ?thesis by (simp add: still)
next
  case (Some r)
  assume "\<not> strict"
  from moved [OF move_bind [OF this]] does_update [OF Some, of "bind_pr_row n"] show ?thesis
    by (simp add: BindPRNumber_def)
qed

lemma conflict_patch: "conflict_row b n r = (conflict_row b n r)\<lparr>rwPatchDiff := rwPatchDiff r\<rparr>"
  by (simp add: conflict_row_def)

lemma conflict_moves:
  assumes "does i r (set_seq (jJobSeq (rwJob r) + 1) (conflict_row base now r))
      [conflict_event i (scanJob r) base act now (jJobSeq (rwJob r) + 1)] d d'"
    and "strict \<Longrightarrow> \<not> human_state (jState (rwJob r)) \<and> base \<noteq> []"
  shows "store_move strict d d'"
proof -
  have "job_move strict d i r [conflict_event i (scanJob r) base act now (jJobSeq (rwJob r) + 1)]
      (set_seq (jJobSeq (rwJob r) + 1) ((conflict_row base now r)\<lparr>rwPatchDiff := rwPatchDiff r\<rparr>))"
    by (rule move_conflict [OF assms(2)])
  from moved [OF this [folded conflict_patch] assms(1)] show ?thesis .
qed

lemma rebase_moves:
  assumes "RebaseOnto mirror d p = Inr (d', res)"
    and "strict \<Longrightarrow> \<not> human_gated d (roJobID p) \<and> roNewBaseSHA p \<noteq> []"
  shows "store_move strict d d'"
proof -
  have h: "strict \<Longrightarrow> \<not> human_state (jState (rwJob r)) \<and> roNewBaseSHA p \<noteq> []"
    if "find_row d (roJobID p) = Some r" for r
    using assms(2) that by (simp add: human_gated_def)
  from assms(1) show ?thesis
  proof (rule RebaseOnto_does)
    fix r sha
    assume d: "does (roJobID p) r (set_seq (jJobSeq (rwJob r) + 1) (rebased_row (roNewBaseSHA p) sha r))
      [rebased_event (roJobID p) (scanJob r) (roNewBaseSHA p) sha (roNow p) (jJobSeq (rwJob r) + 1)] d d'"
    from moved [OF move_rebased [OF h [OF does_row [OF d]]] d] show ?thesis .
  next
    fix r sha
    assume d: "does (roJobID p) r (set_seq (jJobSeq (rwJob r) + 1) (conflict_row (roNewBaseSHA p) (roNow p) r))
      [conflict_event (roJobID p) (scanJob r) (roNewBaseSHA p) ''system'' (roNow p) (jJobSeq (rwJob r) + 1)] d d'"
    from conflict_moves [OF d h [OF does_row [OF d]]] show ?thesis .
  qed
qed

lemma build_conflict_moves:
  assumes "RouteBuildConflict d p = Inr d'" and "strict \<Longrightarrow> bcNewBaseSHA p \<noteq> []"
  shows "store_move strict d d'"
  using assms(1)
proof (rule RouteBuildConflict_does)
  fix r assume "jState (rwJob r) \<in> {StateLeased, StateBuilding}"
    and d: "does (bcJobID p) r (set_seq (jJobSeq (rwJob r) + 1) (build_conflict_row p r))
      [conflict_event (bcJobID p) (scanJob r) (bcNewBaseSHA p) (coalesce (rwBoundIdentity r)) (bcNow p)
         (jJobSeq (rwJob r) + 1)] d d'"
  then have "strict \<Longrightarrow> \<not> human_state (jState (rwJob r)) \<and> bcNewBaseSHA p \<noteq> []" using assms(2) by auto
  from moved [OF move_conflict [OF this] d [unfolded build_conflict_row_def]] show ?thesis by blast
qed (simp add: still)

lemma merge_conflict_moves:
  assumes "RouteMergeConflict d i base now = Inr d'" and "strict \<Longrightarrow> base \<noteq> []"
  shows "store_move strict d d'"
  using assms(1)
  by (rule RouteMergeConflict_does) (simp add: still, rule conflict_moves, assumption, use assms(2) in auto)

lemma downgrade_moves: "RouteSelfMergeToHandoff d i reason now = Inr d' \<Longrightarrow> store_move strict d d'"
  by (erule RouteSelfMergeToHandoff_does) (simp add: still, rule moved [OF move_downgrade])

lemma resolve_moves: "ResolveConflictResult d p = Inr (d', resp) \<Longrightarrow> store_move strict d d'"
  by (erule ResolveConflictResult_does) (rule moved [OF move_resolved [OF refl]])

lemma conflict_claim_moves: "ClaimConflictJob d p = Inr (d', n) \<Longrightarrow> store_move strict d d'"
  by (erule ClaimConflictJob_does) (rule moved [OF move_conflict_claim [OF _ refl]], simp_all)

lemma stacked_moves:
  assumes "appendStackedRebased d i k base now = Inr d'" and "strict \<Longrightarrow> \<not> human_gated d i"
  shows "store_move strict d d'"
proof -
  from assms(1) obtain r where r: "find_row d i = Some r"
    and st: "one_step i (jJobSeq (rwJob r) + 1)
      (stacked_event i (scanJob r) k base now (jJobSeq (rwJob r) + 1)) id id d = Inr d'"
    by (auto simp: appendStackedRebased_def and_then_Inr_iff loadJobTx_Inr)
  have "strict \<Longrightarrow> \<not> human_state (jState (rwJob r))" using assms(2) r by (simp add: human_gated_def)
  from moved [OF move_stacked [OF this]] one_step_does [OF st r] show ?thesis by simp
qed

lemma dead_letter_moves:
  assumes "DeadLetterOutbox d n i reason detail esc now = Inr d'" and "strict \<Longrightarrow> \<not> tied d i"
  shows "store_move strict d d'"
  using assms(1)
proof (rule DeadLetterOutbox_does)
  fix r revoke
  assume s: "jState (rwJob r) \<notin> {StateDone, StateNeedsHuman, StateCancelled}"
    and d: "does i r (set_seq (jJobSeq (rwJob r) + 1) (park_row reason r))
      [park_event i (scanJob r) ''project-out'' revoke reason now (jJobSeq (rwJob r) + 1)] d d'"
  have "\<not> human_state (jState (rwJob r))" using s by (cases "jState (rwJob r)") simp_all
  then have "strict \<Longrightarrow> \<not> human_state (jState (rwJob r)) \<and> unbound r"
    using assms(2) does_row [OF d] by (simp add: tied_def)
  from moved [OF move_parked [OF this] d] show ?thesis by blast
qed (rule still)

lemma stamp_moves:
  assumes "StampPRNumber d i n h b now = Inr d'" and "strict \<Longrightarrow> \<not> human_gated d i"
  shows "store_move strict d d'"
  using assms(1)
  by (rule StampPRNumber_does) (rule moved [OF move_stamped], use assms(2) does_row in \<open>auto simp: human_gated_def\<close>)

lemma invalidate_moves: "InvalidateStaleMergeAuthorization d i now = Inr d' \<Longrightarrow> store_move strict d d'"
proof (erule InvalidateStaleMergeAuthorization_does)
  fix r diff declared
  assume s: "jState (rwJob r) \<in> {StateMerging, StateMergeHandoff}"
    and d: "does i r (set_seq (jJobSeq (rwJob r) + 1)
        (superseded_keeping (jBaseSHA (rwJob r)) [] diff declared now r))
      [superseded_event (scanJob r) (bare_pr 0 [] (jBaseSHA (rwJob r))) ''project-out'' now
         (jJobSeq (rwJob r) + 1) []] d d'"
  have "supersedable (jState (rwJob r))" using s by auto
  from moved [OF move_superseded [OF this does_row_id [OF d], where pr = "bare_pr 0 [] (jBaseSHA (rwJob r))"]] d
  show "store_move strict d d'" by (simp add: bare_pr_def)
qed (rule still)

lemma post_approval_moves: "RoutePostApprovalCIFailure d i fc fu now = Inr d' \<Longrightarrow> store_move strict d d'"
proof (erule RoutePostApprovalCIFailure_does)
  fix r ci
  assume s: "jState (rwJob r) \<in> {StateMerging, StateMergeHandoff, StateMergeable}"
    and d: "does i r (set_seq (jJobSeq (rwJob r) + 1)
        (superseded_keeping (jBaseSHA (rwJob r)) ci [] [] now r))
      [superseded_event (scanJob r) (bare_pr 0 (jHeadSHA (rwJob r)) (jBaseSHA (rwJob r))) ''project-out''
         now (jJobSeq (rwJob r) + 1) ci] d d'"
  have "supersedable (jState (rwJob r))" using s by auto
  from moved [OF move_superseded [OF this does_row_id [OF d],
      where pr = "bare_pr 0 (jHeadSHA (rwJob r)) (jBaseSHA (rwJob r))"]] d
  show "store_move strict d d'" by (simp add: bare_pr_def)
qed (simp add: still)

lemma outbox_view: "outbox_op d d' \<Longrightarrow> view d' = view d"
proof (induction rule: outbox_op.induct)
  case (op_open_pr d i h b d' x)
  then show ?case by (rule EnqueuePROpen_view)
next
  case (op_merge d i d' x)
  then show ?case by (rule EnqueueMergeForJob_view)
next
  case (op_sent d n t d')
  then show ?case by (rule MarkOutboxSent_view)
qed (auto simp: EnqueueIssueComment_def MarkOutboxSuppressed_def BumpOutboxAttempts_def
    RetryAbandonedOutbox_def RetryAbandonedOutboxForRepo_def RetryAllAbandonedOutbox_def rearm_outbox_def
    AbandonOutboxForJobSHA_def Let_def)

lemma reconcile_does_moves:
  assumes "reconcile_does frozen pr now r es r'" and "does i r r' es d d'"
    and "strict \<Longrightarrow> \<not> human_state (jState (rwJob r))
      \<and> (\<not> unbound r \<longrightarrow> \<not> rpMerged pr \<and> \<not> rpClosedUnmerged pr \<and> \<not> frozen)
      \<and> (rpCIFailed pr \<longrightarrow> FormatCIFailures (rpFailingChecks pr) (rpFailingCheckURLs pr) \<noteq> [])"
  shows "store_move strict d d'"
proof -
  have i: "row_id r = i" using assms(2) by (rule does_row_id)
  show ?thesis
    using assms
  proof (induction rule: reconcile_does.cases)
    case rec_none
    then have "view d' = view d" by (simp add: does_def commit_same view_def)
    then show ?case by (rule still)
  next
    case rec_post_merge
    then show ?case using i by (intro moved [OF move_post_merge]) auto
  next
    case (rec_merged c)
    then show ?case using i by (intro moved [OF move_merged [where c = c]]) auto
  next
    case rec_closed
    then show ?case using i by (intro moved [OF move_parked]) auto
  next
    case rec_evicted
    then show ?case using i by (intro moved [OF move_evicted]) auto
  next
    case rec_superseded
    then show ?case using i
      by (intro moved [OF move_superseded [where ci = "[]"]]) (auto simp: superseded_keeping_plain)
  next
    case (rec_exhausted ci)
    then show ?case using i by (intro moved [OF move_ci_exhausted]) auto
  next
    case (rec_bounced ci)
    then show ?case using i by (intro moved [OF move_ci_bounced]) auto
  qed
qed

section \<open>Completion\<close>

text \<open>The job ids as a frame: no transaction but the seed changes them.\<close>

lemma core_ids: "core d' = core d \<Longrightarrow> job_ids d' = job_ids d"
  by (simp add: core_def)

lemma ids_outbox [simp]:
  "job_ids (enqueueOutboxTx x d) = job_ids d" "job_ids (update_outbox q f d) = job_ids d"
  "job_ids (enqueueHistoryWriteTx i d) = job_ids d"
  by (simp_all add: job_ids_def enqueueHistoryWriteTx_def enqueueOutboxTx_def update_outbox_def)

interpretation ids: kept "\<lambda>d. job_ids d = js" for js
  by unfold_locales (auto simp: core_def job_ids_def MarkOutboxSent_def audit_once_def update_outbox_def
      enqueueOutboxTx_def split: option.splits)

interpretation distinct_ids: kept "\<lambda>d. distinct (job_ids d)"
  by unfold_locales (auto simp: core_def job_ids_def MarkOutboxSent_def audit_once_def update_outbox_def
      enqueueOutboxTx_def split: option.splits)

lemma Next_completed: "Next s TriggerCompleted = (to, None) \<longleftrightarrow> s = StateReviewPending \<and> to = StateDone"
  by (cases s) (auto simp: Next_def transitions_def)

lemma CompleteJob_does:
  assumes "CompleteJob cfg d i now = Inr (d', cleared)"
  obtains r d1 where "jState (rwJob r) = StateReviewPending"
    and "does i r (set_seq (jJobSeq (rwJob r) + 1) (set_state_row StateDone r))
      [fenced_event i (jJobSeq (rwJob r) + 1) KindJobCompleted StateReviewPending StateDone 0
         ''system'' now zero_payload] d d1"
    and "job_ids d1 = job_ids d"
    and "clear_dependents cfg i now (filter (\<lambda>x. jState (rwJob x) = StateBlocked) (tbJobs d1)) d1 =
      Inr (d', cleared)"
proof -
  from assms obtain r where r: "find_row d i = Some r"
    by (auto simp: CompleteJob_def and_then_Inr_iff loadJobTx_Inr)
  obtain to e where nx: "Next (jState (rwJob r)) TriggerCompleted = (to, e)"
    by (cases "Next (jState (rwJob r)) TriggerCompleted")
  with assms r have "e = None" by (cases e) (simp_all add: CompleteJob_def loadJobTx_Inr loadJobTx_def)
  with nx have st: "jState (rwJob r) = StateReviewPending" and to: "to = StateDone"
    by (simp_all add: Next_completed)
  from assms r nx \<open>e = None\<close> obtain d1 where
      ap: "appendEvent (fenced_event i (jJobSeq (rwJob r) + 1) KindJobCompleted StateReviewPending
        StateDone 0 ''system'' now zero_payload) d = Inr d1"
    and cl: "clear_dependents cfg i now (filter (\<lambda>x. jState (rwJob x) = StateBlocked)
        (tbJobs (setJobSeq i (jJobSeq (rwJob r) + 1) (update_row i (set_state_row StateDone) d1))))
        (setJobSeq i (jJobSeq (rwJob r) + 1) (update_row i (set_state_row StateDone) d1)) = Inr (d', cleared)"
    unfolding st to
    by (auto simp: CompleteJob_def and_then_Inr_iff loadJobTx_def Let_def st)
  note s1 = does_append [OF r ap, simplified]
  note s2 = does_trans [OF s1 does_update [OF does_find [OF s1], of "set_state_row StateDone", simplified]]
  note s3 = does_trans [OF s2 does_seq [OF does_find [OF s2], of "jJobSeq (rwJob r) + 1"], simplified]
  show ?thesis
    by (rule that [OF st s3 _ cl]) (simp add: core_ids [OF core_appendEvent [OF ap]] core_ids [OF core_setJobSeq] core_ids [OF core_updates(10)])
qed

text \<open>The frame rule for every transaction but those that seed a job or store a response.\<close>

context kept begin

lemma step:
  assumes "store_step strict cfg d d'" and "Q d"
    and "\<And>p. seedJobTx cfg d p = Inr d' \<Longrightarrow> Q d'"
    and "\<And>rp resp. Result cfg d rp = Inr (d', resp) \<Longrightarrow> Q d'"
    and "\<And>facts pol vp resp. ReviewResult cfg d facts pol vp = Inr (d', resp) \<Longrightarrow> Q d'"
  shows "Q d'"
  using assms
  by (cases rule: store_step.cases)
    (auto dest: core_life core_liveness core_complete conflict reconcile dead_letter conflict_claim
      withdrawn columns outbox intro: frame [OF assms(2)] columns)

end

lemma ids_step:
  assumes "store_step strict cfg d d'" and "distinct (job_ids d)"
  shows "distinct (job_ids d')"
  by (rule distinct_ids.step [OF assms])
    (use assms(2) in \<open>auto dest!: core_seed core_results simp: core_def\<close>)

lemma reachable_ids: "reachable strict cfg d \<Longrightarrow> distinct (job_ids d)"
  by (induction rule: reachable.induct) (simp add: job_ids_def, rule ids_step)

text \<open>The loop over the dependents: each row it unblocks is the row it read.\<close>

lemma find_distinct: "distinct (map f xs) \<Longrightarrow> x \<in> set xs \<Longrightarrow> List.find (\<lambda>y. f y = f x) xs = Some x"
  by (induction xs) (auto simp: image_iff)

lemma find_row_distinct: "distinct (job_ids d) \<Longrightarrow> r \<in> set (tbJobs d) \<Longrightarrow> find_row d (row_id r) = Some r"
  by (simp add: job_ids_def find_row_def find_distinct)

lemma clear_dependents_moves:
  assumes "clear_dependents cfg i now xs d = Inr (d', cleared)"
    and "list_all (\<lambda>x. find_row d (row_id x) = Some x \<and> jState (rwJob x) = StateBlocked) xs"
    and "distinct (map row_id xs)"
  shows "(store_move strict)\<^sup>*\<^sup>* d d'"
  using assms
proof (induction xs arbitrary: d cleared)
  case (Cons x xs)
  from Cons.prems(2) have x: "find_row d (row_id x) = Some x" "jState (rwJob x) = StateBlocked" by simp_all
  show ?case
  proof (cases "i \<in> set (jBlockedBy (rwJob x)) \<and> \<not> hasUnsatisfiedDeps d (jBlockedBy (rwJob x))")
    case False
    with Cons show ?thesis by (auto split: if_splits)
  next
    case True
    let ?n = "jJobSeq (rwJob x) + 1"
    from True Cons.prems(1) obtain d1 d2 js where
      ap: "appendEvent (fenced_event (row_id x) ?n KindDepsCleared StateBlocked StateReady 0
        ''system'' now zero_payload) d = Inr d1"
      and arm: "armNoEligibleTimerTx cfg (row_id x) 0 now
        (setJobSeq (row_id x) ?n (update_row (row_id x) (unblock_row now) d1)) = Inr d2"
      and rest: "clear_dependents cfg i now xs d2 = Inr (d', js)"
      by (auto simp: and_then_Inr_iff Let_def)
    note s1 = does_append [OF x(1) ap, simplified]
    note s2 = does_trans [OF s1 does_update [OF does_find [OF s1], of "unblock_row now", simplified]]
    note s3 = does_trans [OF s2 does_seq [OF does_find [OF s2], of ?n], simplified]
    have s: "does (row_id x) x (set_seq ?n (unblock_row now x))
        [fenced_event (row_id x) ?n KindDepsCleared StateBlocked StateReady 0 ''system'' now zero_payload] d d2"
      using s3 view_armNoEligible [OF arm] by (simp add: does_def)
    have "find_row d2 j = find_row d j" if "j \<noteq> row_id x" for j
      using s that by (simp add: does_def fst_view [symmetric])
    with Cons.prems(2,3) have "list_all (\<lambda>y. find_row d2 (row_id y) = Some y
        \<and> jState (rwJob y) = StateBlocked) xs"
      by (auto simp: list_all_iff image_iff)
    from Cons.IH [OF rest this] Cons.prems(3) have "(store_move strict)\<^sup>*\<^sup>* d2 d'" by simp
    with moved [OF move_unblock [OF x(2)] s] show ?thesis by (rule converse_rtranclp_into_rtranclp)
  qed
qed simp

lemma complete_moves:
  assumes "CompleteJob cfg d i now = Inr (d', cleared)" and "distinct (job_ids d)"
  shows "(store_move strict)\<^sup>*\<^sup>* d d'"
  using assms(1)
proof (rule CompleteJob_does)
  fix r d1
  assume st: "jState (rwJob r) = StateReviewPending"
    and d: "does i r (set_seq (jJobSeq (rwJob r) + 1) (set_state_row StateDone r))
      [fenced_event i (jJobSeq (rwJob r) + 1) KindJobCompleted StateReviewPending StateDone 0
         ''system'' now zero_payload] d d1"
    and jids: "job_ids d1 = job_ids d"
    and cl: "clear_dependents cfg i now (filter (\<lambda>x. jState (rwJob x) = StateBlocked) (tbJobs d1)) d1 =
      Inr (d', cleared)"
  have dist: "distinct (job_ids d1)" using assms(2) jids by simp
  have "(store_move strict)\<^sup>*\<^sup>* d1 d'"
    by (rule clear_dependents_moves [OF cl])
      (use dist in \<open>auto simp: list_all_iff find_row_distinct job_ids_def distinct_map_filter\<close>)
  with moved [OF move_complete [OF st] d] show ?thesis by (rule converse_rtranclp_into_rtranclp)
qed

text \<open>The refresh of the ready builds: one event and one update per row read.\<close>

lemma refresh_each_moves:
  assumes "refresh_each b now rs d = Inr d'" and "strict \<Longrightarrow> b \<noteq> []"
    and "list_all (\<lambda>x. find_row d (row_id x) = Some x \<and> jState (rwJob x) = StateReady) rs"
    and "distinct (map row_id rs)"
  shows "(store_move strict)\<^sup>*\<^sup>* d d'"
  using assms
proof (induction rs arbitrary: d)
  case (Cons r rs)
  from Cons.prems(3) have r: "find_row d (row_id r) = Some r" "jState (rwJob r) = StateReady" by simp_all
  from Cons.prems(1) obtain d1 where
      st: "one_step (row_id r) (jJobSeq (rwJob r) + 1) (base_event r b now) (base_row b) id d = Inr d1"
    and rest: "refresh_each b now rs d1 = Inr d'" by (auto simp: and_then_Inr_iff)
  have s: "does (row_id r) r (set_seq (jJobSeq (rwJob r) + 1) (base_row b r)) [base_event r b now] d d1"
    using one_step_does [OF st r(1)] by simp
  have "find_row d1 j = find_row d j" if "j \<noteq> row_id r" for j
    using s that by (simp add: does_def fst_view [symmetric])
  with Cons.prems(3,4) have "list_all (\<lambda>y. find_row d1 (row_id y) = Some y
      \<and> jState (rwJob y) = StateReady) rs"
    by (auto simp: list_all_iff image_iff)
  from Cons.IH [OF rest Cons.prems(2) this] Cons.prems(4) have "(store_move strict)\<^sup>*\<^sup>* d1 d'" by simp
  with moved [OF move_base [OF r(2) refl Cons.prems(2)] s] show ?case
    by (rule converse_rtranclp_into_rtranclp)
qed simp

lemma refresh_moves:
  assumes "refreshReadyBaseTx repo m b now d = Inr (d', n)" and "strict \<Longrightarrow> b \<noteq> []"
    and "distinct (job_ids d)"
  shows "(store_move strict)\<^sup>*\<^sup>* d d'"
proof -
  from assms(1) have r: "refresh_each b now (filter (stale_ready repo m b) (tbJobs d)) d = Inr d'"
    by (auto simp: refreshReadyBaseTx_def Let_def and_then_Inr_iff)
  show ?thesis
    by (rule refresh_each_moves [OF r assms(2)])
      (use assms(3) in \<open>auto simp: list_all_iff find_row_distinct job_ids_def distinct_map_filter stale_ready_def\<close>)
qed

lemma reconcile_moves:
  assumes "ApplyReconciledPR d i pr now = Inr (d', oc)" and "strict \<Longrightarrow> clean_ingest d i pr"
    and "distinct (job_ids d)"
  shows "(store_move strict)\<^sup>*\<^sup>* d d'"
  using assms(1)
proof (rule ApplyReconciledPR_does)
  fix r es r'
  assume e: "reconcile_does (fmMergeCommit (tbMarks d i) \<noteq> []) pr now r es r'" and d: "does i r r' es d d'"
  have "strict \<Longrightarrow> \<not> human_state (jState (rwJob r))
      \<and> (\<not> unbound r \<longrightarrow> \<not> rpMerged pr \<and> \<not> rpClosedUnmerged pr \<and> \<not> (fmMergeCommit (tbMarks d i) \<noteq> []))
      \<and> (rpCIFailed pr \<longrightarrow> FormatCIFailures (rpFailingChecks pr) (rpFailingCheckURLs pr) \<noteq> [])"
    using assms(2) does_row [OF d] by (simp add: clean_ingest_def human_gated_def tied_def)
  from reconcile_does_moves [OF e d this] show ?thesis by blast
next
  fix r d0
  assume r: "find_row d0 i = Some r" and v: "view d0 = view d" and t: "tbJobs d0 = tbJobs d"
    and c: "complete_merged (scanJob r) (jJobSeq (rwJob r)) pr now d0 = Inr d'"
    and s: "prBoundActive (jState (rwJob r))" and m: "rpMergeCommit pr \<noteq> []" and mg: "rpMerged pr"
  from c m obtain d1 d2 n where
      tr: "reconcileTransitionTx (scanJob r) (jJobSeq (rwJob r)) StateDone KindJobCompleted now
        (merged_payload (rpMergeCommit pr)) d0 = Inr d1"
    and rf: "refreshReadyBaseTx (jRepo (scanJob r)) (jID (scanJob r)) (rpMergeCommit pr) now
        (enqueueHistoryWriteTx (jID (scanJob r)) d1) = Inr (d2, n)"
    and d': "d' = delete_branch (scanJob r) d2"
    by (auto simp: complete_merged_def and_then_Inr_iff)
  note dn = transition_does [OF tr r]
  have h: "strict \<Longrightarrow> \<not> human_state (jState (rwJob r)) \<and> unbound r"
    using assms(2) does_row [OF dn] v mg pr_bound_open [OF s]
    by (auto simp: clean_ingest_def tied_def fst_view [symmetric])
  have "store_move strict d0 d1"
    by (rule moved [OF move_merged [OF h does_row_id [OF dn]] dn])
  moreover have "distinct (job_ids (enqueueHistoryWriteTx (jID (scanJob r)) d1))"
    using assms(3) t distinct_ids.transition [OF tr] by simp (simp add: job_ids_def)
  note refresh_moves [OF rf m this]
  moreover have "store_move strict d d0" "store_move strict d1 (enqueueHistoryWriteTx (jID (scanJob r)) d1)"
    "store_move strict d2 d'" using v d' by (simp_all add: still)
  ultimately show ?thesis
    by (meson converse_rtranclp_into_rtranclp rtranclp.rtrancl_into_rtrancl)
qed

text \<open>The refinement: a transaction of the store is a sequence of moves.\<close>

lemma step_moves:
  assumes "store_step strict cfg d d'" and "distinct (job_ids d)"
  shows "(store_move strict)\<^sup>*\<^sup>* d d'"
  using assms
proof (induction rule: store_step.induct)
  case (step_facts d' i facts d)
  then show ?case by (simp add: view_still)
next
  case (step_epoch_ci d' i n st d)
  then show ?case by (simp add: view_still)
next
  case (step_deadline d tm now lc brk d' res)
  from step_deadline(1) show ?case
  proof (rule FireLeaseDeadline_view)
    fix d1 assume e: "EvaluateLiveness d (tmJobID tm) now lc brk = Inr (d1, res)" and "view d' = view d1"
    from this(2) have "store_move strict d1 d'" by (rule still)
    with liveness_moves [OF e] show ?thesis by (blast intro: rtranclp.intros)
  qed (rule view_still)
next
  case (step_seed d p d')
  then show ?case by (blast intro: seed_moves)
next
  case (step_heartbeat d hp d' dir)
  then show ?case by (blast intro: heartbeat_moves)
next
  case (step_release d lp d')
  then show ?case by (blast intro: release_tx_moves)
next
  case (step_requeue d i force now d' s)
  then show ?case by (blast intro: requeue_moves)
next
  case (step_cancel d i force now d' s)
  then show ?case by (blast intro: cancel_moves)
next
  case (step_complete d i now d' cleared)
  then show ?case by (rule complete_moves)
next
  case (step_rebase mirror d ro d' out)
  then show ?case by (blast intro: rebase_moves)
next
  case (step_build_conflict d bc d')
  then show ?case by (blast intro: build_conflict_moves)
next
  case (step_merge_conflict d i base now d')
  then show ?case by (blast intro: merge_conflict_moves)
next
  case (step_stacked d i k base now d')
  then show ?case by (blast intro: stacked_moves)
next
  case (step_stamp d i n h b now d')
  then show ?case by (blast intro: stamp_moves)
next
  case (step_dead_letter d n i reason detail esc now d')
  then show ?case by (blast intro: dead_letter_moves)
next
  case (step_reconcile d i pr now d' oc)
  then show ?case by (rule reconcile_moves)
next
  case (step_refresh d repo tip now d' n)
  then show ?case
    by (auto simp: RefreshStaleReadyBuilds_def split: if_splits intro: refresh_moves)
next
  case (step_outbox d d')
  then show ?case by (blast intro: view_still outbox_view)
next
  case (step_bind d' i n d)
  then show ?case by (simp add: move_rtrancl bind_moves)
qed (simp_all add: downgrade_moves conflict_claim_moves resolve_moves stack_moves reserve_moves
    invalidate_moves post_approval_moves arm_moves move_rtrancl ready_moves review_moves liveness_moves result_moves
    review_result_moves dispatch_moves alarm_moves)

end
