(* ===== verification/Store_Facts.thy ===== *)
theory Store_Facts
  imports Store_Runs
begin

text \<open>
  What holds in every database the store reaches: row and fold agree, the
  ledger of a job is gapless and append-only, fencing epochs are never reused,
  a verdict rests on distinct reviewers none of whom built the job.  Each is an
  interpretation of \<open>ledger_invariant\<close>, which needs the moves of one job only.
\<close>

section \<open>Invariants of a job's events and row\<close>

definition agrees :: "(Event list \<Rightarrow> Row \<Rightarrow> bool) \<Rightarrow> DB \<Rightarrow> bool" where
  "agrees P d \<longleftrightarrow>
     (\<forall>i. case find_row d i of None \<Rightarrow> events_of d i = [] | Some r \<Rightarrow> P (events_of d i) r)"

lemma agreesD: "agrees P d \<Longrightarrow> find_row d i = Some r \<Longrightarrow> P (events_of d i) r"
  by (auto simp: agrees_def dest!: spec [of _ i])

lemma agrees_view:
  "agrees P d \<longleftrightarrow> (\<forall>i. case view d i of (None, es) \<Rightarrow> es = [] | (Some r, es) \<Rightarrow> P es r)"
  by (simp add: agrees_def view_def)

locale ledger_invariant =
  fixes strict :: bool and P :: "Event list \<Rightarrow> Row \<Rightarrow> bool"
  assumes keeps: "job_move strict d i r new r' \<Longrightarrow> find_row d i = Some r \<Longrightarrow>
      P (events_of d i) r \<Longrightarrow> P (events_of d i @ new) r'"
    and starts: "s \<in> {StateBlocked, StateReady} \<Longrightarrow> (strict \<Longrightarrow> plain_seed p) \<Longrightarrow>
      P [seed_event p s] (set_seq 1 (seed_row p s))"
begin

lemma move_agrees: "store_move strict d d' \<Longrightarrow> agrees P d \<Longrightarrow> agrees P d'"
proof (induction rule: store_move.induct)
  case (still d' d)
  then show ?case by (simp add: agrees_view)
next
  case (moved d i r new r' d')
  have v: "find_row d i = Some r" "view d' = commit i r' new (view d)"
    using moved(2) by (simp_all add: does_def)
  have new: "P (events_of d i @ new) r'"
    using keeps [OF moved(1)] v(1) agreesD [OF moved(3) v(1)] by simp
  show ?case
    unfolding agrees_view v(2)
  proof
    fix j
    have "case view d j of (None, es) \<Rightarrow> es = [] | (Some r, es) \<Rightarrow> P es r"
      using moved(3) by (simp add: agrees_view)
    then show "case commit i r' new (view d) j of (None, es) \<Rightarrow> es = [] | (Some r, es) \<Rightarrow> P es r"
      using new by (simp add: commit_def snd_view)
  qed
next
  case (born d p s d')
  have old: "case view d j of (None, es) \<Rightarrow> es = [] | (Some r, es) \<Rightarrow> P es r" for j
    using born(5) by (simp add: agrees_view)
  from old [of "sdID p"] born(1) have "events_of d (sdID p) = []" by (simp add: view_def)
  with old starts [OF born(2,3)] show ?case
    by (simp add: agrees_view born(4))
qed

lemma moves_agrees: "(store_move strict)\<^sup>*\<^sup>* d d' \<Longrightarrow> agrees P d \<Longrightarrow> agrees P d'"
  by (induction rule: rtranclp_induct) (auto intro: move_agrees)

lemma reachable_agrees: "reachable strict cfg d \<Longrightarrow> agrees P d"
proof (induction rule: reachable.induct)
  case (reach_start d)
  then show ?case by (simp add: agrees_def find_row_def events_of_def)
next
  case (reach_step d d')
  then show ?case using moves_agrees [OF step_moves] reachable_ids by blast
qed

lemma reachable_row: "reachable strict cfg d \<Longrightarrow> find_row d i = Some r \<Longrightarrow> P (events_of d i) r"
  by (rule agreesD [OF reachable_agrees])

end

section \<open>Row and fold\<close>

lemma merge_arm_iff: "merge_arm s \<longleftrightarrow> s = StateMerging \<or> s = StateMergeHandoff"
  by (cases s) simp_all

lemma good_idle_or:
  assumes "good es r" and "HasActiveLease (jState (rwJob r))" and "\<not> merge_arm (jState (rwJob r))"
  shows "jState (rwJob r) \<in> {StateLeased, StateCodeReview, StateResolvingConflict}"
  using shapeD(8) [OF goodD(2) [OF assms(1)]] assms(2,3)
  by (cases "jState (rwJob r)") simp_all

lemma move_good:
  assumes "job_move True d i r new r'" and "good es r"
  shows "good (es @ new) r'"
  using assms
proof (induction rule: job_move.induct)
  case (move_revoke r t esc d i now)
  then show ?case by (intro revoke_good) (auto simp: merge_arm_iff)
next
  case (move_result rp i r ts d)
  then have "jState (rwJob r) \<noteq> StateBuilding" using shapeD(8) [OF goodD(2)] by fastforce
  with move_result show ?case by (intro result_good) auto
next
  case (move_requeue r s ro st tg d i now)
  then have "s = StateReady" "ro = RoleEngWorker" "st = ''build''" "tg = ''role:eng_worker''"
    using shapeD(1) [OF goodD(2)] by (auto simp: requeue_target_def)
  with move_requeue show ?case by (simp add: requeue_good)
next
  case (move_release lp i r d)
  then show ?case using good_idle_or release_good by blast
next
  case (move_exhausted lp i r d)
  then show ?case using good_idle_or exhausted_good by blast
next
  case (move_arm d i r pa ca now)
  then show ?case by (simp add: good_def shape_def scanJob_def)
next
  case (move_columns d i r ps w k)
  then show ?case by (simp add: set_columns_def columns_good)
next
  case (move_conflict r base d i act now pd)
  then show ?case by (simp add: patch_good conflict_good)
qed (simp_all add: rebased_good handoff_good resolved_good conflict_claim_good stacked_good merged_good
    evicted_good post_merge_good [simplified] parked_good superseded_good ci_exhausted_good ci_bounced_good base_good
    stamped_good claim_good review_claim_good beat_good review_good dispatch_good cancel_good alarm_good complete_good unblock_good)

interpretation projection: ledger_invariant True good
  by unfold_locales (simp_all add: move_good seed_good)

section \<open>The cursor\<close>

definition counted :: "Event list \<Rightarrow> Row \<Rightarrow> bool" where
  "counted es r \<longleftrightarrow> numbered_from 0 es \<and> jJobSeq (rwJob r) = int (length es)"

lemma numbered_result: "numbered_from n (numbered (result_event p j) n ts)"
  "length (numbered (result_event p j) n ts) = length ts"
  by (induction ts arbitrary: n) (simp_all add: result_event_def)

lemma seq_rows:
  "jJobSeq (rwJob (set_columns ps w k r)) = jJobSeq (rwJob r)"
  "jJobSeq (rwJob (bind_pr_row n r)) = jJobSeq (rwJob r)"
  by (simp_all add: set_columns_def bind_pr_row_def)

lemma move_counted:
  assumes "job_move strict d i r new r'" and "counted es r"
  shows "counted (es @ new) r'"
  using assms
  by (induction rule: job_move.induct)
    (auto simp: counted_def seq_rows numbered_result result_done_def release_event_def exhausted_event_def
      review_events_def verdict_claim_event_def review_event_def dispatch_event_def operator_event_def
      Let_def)

interpretation cursor: ledger_invariant strict counted for strict
  by unfold_locales (rule move_counted, assumption+, simp add: counted_def seed_event_def)

lemma numbered_sorted:
  "numbered_from n es \<Longrightarrow> sorted (map eJobSeq es) \<and> list_all (\<lambda>e. n < eJobSeq e) es"
proof (induction es arbitrary: n)
  case (Cons e es)
  from Cons.prems Cons.IH [of "n + 1"] show ?case by (auto simp: list_all_iff)
qed simp

lemma LoadEvents_numbered: "numbered_from 0 (events_of d i) \<Longrightarrow> LoadEvents d i = events_of d i"
  unfolding LoadEvents_def events_of_def [symmetric]
  by (simp add: sort_key_id_if_sorted numbered_sorted)

section \<open>Fencing epochs\<close>

definition claim_kind :: "EventKind \<Rightarrow> bool" where
  "claim_kind k \<longleftrightarrow> k = KindLeaseClaimed \<or> k = KindReviewClaimed"

text \<open>
  Every event's epoch is at most the row's, and a claim's epoch exceeds that of
  every event before it.
\<close>

definition fenced :: "Event list \<Rightarrow> Row \<Rightarrow> bool" where
  "fenced es r \<longleftrightarrow>
     jLeaseEpoch (rwJob r) \<ge> 0 \<and> list_all (\<lambda>e. eLeaseEpoch e \<le> jLeaseEpoch (rwJob r)) es
     \<and> sorted_wrt (\<lambda>a b. claim_kind (eKind b) \<longrightarrow> eLeaseEpoch a < eLeaseEpoch b) es"

lemma fenced_append:
  assumes "fenced es r" and "jLeaseEpoch (rwJob r) \<le> jLeaseEpoch (rwJob r')"
    and "list_all (\<lambda>e. eLeaseEpoch e \<le> jLeaseEpoch (rwJob r') \<and>
           (claim_kind (eKind e) \<longrightarrow> eLeaseEpoch e > jLeaseEpoch (rwJob r))) new"
    and "list_all (\<lambda>e. \<not> claim_kind (eKind e)) (tl new)"
  shows "fenced (es @ new) r'"
proof -
  have "sorted_wrt (\<lambda>a b. claim_kind (eKind b) \<longrightarrow> eLeaseEpoch a < eLeaseEpoch b) new"
    using assms(4) by (cases new) (auto simp: list_all_iff intro!: sorted_wrt_mono_rel [OF _ sorted_wrt_true])
  then show ?thesis
    using assms(1-3) by (fastforce simp: fenced_def list_all_iff sorted_wrt_append)
qed

lemma epoch_rows [simp]:
  "jLeaseEpoch (rwJob (set_seq n r)) = jLeaseEpoch (rwJob r)"
  "jLeaseEpoch (rwJob (claim_row p a r)) = jLeaseEpoch (rwJob r) + 1"
  "jLeaseEpoch (rwJob (review_claim_row p r)) = jLeaseEpoch (rwJob r) + 1"
  "jLeaseEpoch (rwJob (beat_row hp r)) = jLeaseEpoch (rwJob r)"
  "jLeaseEpoch (rwJob (result_row rp s r)) = jLeaseEpoch (rwJob r)"
  "jLeaseEpoch (rwJob (release_row s k r)) = jLeaseEpoch (rwJob r)"
  "jLeaseEpoch (rwJob (escalate_row x r)) = jLeaseEpoch (rwJob r)"
  "jLeaseEpoch (rwJob (review_row vp b s ts r)) = jLeaseEpoch (rwJob r)"
  "jLeaseEpoch (rwJob (set_state_row s r)) = jLeaseEpoch (rwJob r)"
  "jLeaseEpoch (rwJob (unblock_row n r)) = jLeaseEpoch (rwJob r)"
  "jLeaseEpoch (rwJob (requeue_row s ro st tg n r)) = jLeaseEpoch (rwJob r) + 1"
  "jLeaseEpoch (rwJob (cancel_row r)) = jLeaseEpoch (rwJob r) + 1"
  "jLeaseEpoch (rwJob (revoke_row t e n x r)) = e"
  "jLeaseEpoch (rwJob (set_columns ps w k r)) = jLeaseEpoch (rwJob r)"
  "jLeaseEpoch (rwJob (bind_pr_row m r)) = jLeaseEpoch (rwJob r)"
  "jLeaseEpoch (rwJob (rebased_row bs h r)) = jLeaseEpoch (rwJob r) + 1"
  "jLeaseEpoch (rwJob (conflict_row bs n r)) = jLeaseEpoch (rwJob r) + 1"
  "jLeaseEpoch (rwJob (resolved_row zp r)) = jLeaseEpoch (rwJob r)"
  "jLeaseEpoch (rwJob (conflict_claim_row p r)) = jLeaseEpoch (rwJob r) + 1"
  "jLeaseEpoch (rwJob (post_merge_row c r)) = jLeaseEpoch (rwJob r)"
  "jLeaseEpoch (rwJob (park_row c r)) = jLeaseEpoch (rwJob r)"
  "jLeaseEpoch (rwJob (superseded_keeping bs c c' x' n r)) = jLeaseEpoch (rwJob r) + 1"
  "jLeaseEpoch (rwJob (ci_exhausted_row c r)) = jLeaseEpoch (rwJob r)"
  "jLeaseEpoch (rwJob (ci_bounced_row c n r)) = jLeaseEpoch (rwJob r)"
  "jLeaseEpoch (rwJob (base_row bs r)) = jLeaseEpoch (rwJob r)"
  "jLeaseEpoch (rwJob (stamp_row m h r)) = jLeaseEpoch (rwJob r)"
  by (simp_all add: git_rows set_columns_def bind_pr_row_def set_seq_def claim_row_def review_claim_row_def beat_row_def result_row_def
      release_row_def end_lease_row_def escalate_row_def review_row_def bounce_row_def
      accumulate_row_def verdict_row_def set_state_row_def unblock_row_def requeue_row_def
      cancel_row_def revoke_row_def Let_def)

lemma move_epoch: "job_move strict d i r new r' \<Longrightarrow> jLeaseEpoch (rwJob r) \<le> jLeaseEpoch (rwJob r')"
  by (induction rule: job_move.induct)
    (simp_all add: revoked_def new_epoch_def result_done_def released_row_def reviewed_row_def Let_def)

lemma move_fenced:
  assumes "job_move strict d i r new r'" and "fenced es r"
  shows "fenced (es @ new) r'"
proof (rule fenced_append [OF assms(2) move_epoch [OF assms(1)]])
  have n: "0 \<le> jLeaseEpoch (rwJob r)" using assms(2) by (simp add: fenced_def)
  have "list_all (\<lambda>e. eLeaseEpoch e \<le> jLeaseEpoch (rwJob r') \<and>
           (claim_kind (eKind e) \<longrightarrow> eLeaseEpoch e > jLeaseEpoch (rwJob r))) new
      \<and> list_all (\<lambda>e. \<not> claim_kind (eKind e)) (tl new)"
    using assms(1) n
    by (induction rule: job_move.induct)
      (auto simp: claim_ledger_event_def claim_kind_def revoke_event_def revoked_def result_event_def
        result_done_def release_event_def exhausted_event_def released_row_def review_events_def
        verdict_claim_event_def review_event_def reviewed_row_def dispatch_event_def operator_event_def
        revoke_move_def review_step_def git_events Let_def)
  then show "list_all (\<lambda>e. eLeaseEpoch e \<le> jLeaseEpoch (rwJob r') \<and>
           (claim_kind (eKind e) \<longrightarrow> eLeaseEpoch e > jLeaseEpoch (rwJob r))) new"
    and "list_all (\<lambda>e. \<not> claim_kind (eKind e)) (tl new)" by blast+
qed

interpretation fencing: ledger_invariant strict fenced for strict
  by unfold_locales
    (rule move_fenced, assumption+,
     auto simp: fenced_def seed_event_def seed_row_def zero_job_def set_seq_def claim_kind_def)

section \<open>Reviewers of a round\<close>

definition round_from :: "EventKind list \<Rightarrow> Event list \<Rightarrow> int" where
  "round_from ks es =
     (let seqs = map eJobSeq (filter (\<lambda>e. eKind e \<in> set ks) es)
      in if seqs = [] then 0 else Max (set seqs))"

definition round_approvers :: "Event list \<Rightarrow> string list" where
  "round_approvers es =
     map eActor (filter (\<lambda>e. is_approval e \<and> eJobSeq e > round_from count_boundary es) es)"

lemma round_start_from: "round_start ks d i = round_from ks (events_of d i)"
  by (simp add: round_start_def round_from_def events_of_def)

lemma approvers_after_events:
  "approvers_after d i n = map eActor (filter (\<lambda>e. is_approval e \<and> eJobSeq e > n) (events_of d i))"
  by (simp add: approvers_after_def events_of_def conj_assoc)

lemma prior_approvals_round: "prior_approvals d i = int (card (set (round_approvers (events_of d i))))"
  by (simp add: prior_approvals_def round_approvers_def approvers_after_events round_start_from)

lemma round_from_subset:
  assumes "set ks \<subseteq> set ks'" and "numbered_from 0 es"
  shows "round_from ks es \<le> round_from ks' es"
proof -
  have sub: "set (map eJobSeq (filter (\<lambda>e. eKind e \<in> set ks) es))
      \<subseteq> set (map eJobSeq (filter (\<lambda>e. eKind e \<in> set ks') es))" using assms(1) by auto
  have nonneg: "0 \<le> (if seqs = [] then 0 else Max (set seqs))" if "\<forall>n\<in>set seqs. 0 < n" for seqs :: "int list"
    using that by (cases seqs) (auto simp: Max_ge_iff)
  have pos: "0 \<le> round_from ks' es"
    unfolding round_from_def Let_def
    by (rule nonneg) (use numbered_sorted [OF assms(2)] in \<open>auto simp: list_all_iff\<close>)
  show ?thesis
  proof (cases "map eJobSeq (filter (\<lambda>e. eKind e \<in> set ks) es) = []")
    case True
    with pos show ?thesis by (simp add: round_from_def Let_def)
  next
    case False
    then obtain x where x: "x \<in> set es" "eKind x \<in> set ks" by (auto simp: filter_empty_conv)
    then have ne: "filter (\<lambda>e. eKind e \<in> set ks) es \<noteq> []" "filter (\<lambda>e. eKind e \<in> set ks') es \<noteq> []"
      using assms(1) by (auto simp: filter_empty_conv)
    then have "Max (set (map eJobSeq (filter (\<lambda>e. eKind e \<in> set ks) es)))
        \<le> Max (set (map eJobSeq (filter (\<lambda>e. eKind e \<in> set ks') es)))"
      by (intro Max_mono [OF sub]) (simp_all only: set_empty map_is_Nil_conv finite_set not_False_eq_True)
    with ne show ?thesis by (simp only: round_from_def Let_def map_is_Nil_conv if_False)
  qed
qed

text \<open>A reviewer the claim accepted is no approver of the round the result counts.\<close>

lemma not_approved_fresh:
  assumes "\<not> already_approved d p" and "numbered_from 0 (events_of d (cpJobID p))"
  shows "cpIdentity p \<notin> set (round_approvers (events_of d (cpJobID p)))"
proof -
  have "round_from claim_boundary (events_of d (cpJobID p))
      \<le> round_from count_boundary (events_of d (cpJobID p))"
    by (rule round_from_subset [OF _ assms(2)]) (auto simp: claim_boundary_def count_boundary_def)
  then show ?thesis
    using assms(1)
    by (fastforce simp: already_approved_def approvers_after_events round_start_from round_approvers_def)
qed

section \<open>The panel\<close>

text \<open>
  The approvers of the running round are distinct and none is the builder; a
  job under review is bound to an identity that is neither.
\<close>

definition panel :: "Event list \<Rightarrow> Row \<Rightarrow> bool" where
  "panel es r \<longleftrightarrow> counted es r \<and> distinct (round_approvers es)
     \<and> (\<forall>a \<in> set (round_approvers es). rwBuilderIdentity r \<noteq> Some a)
     \<and> (jState (rwJob r) = StateCodeReview \<longrightarrow>
          (\<exists>x. rwBoundIdentity r = Some x \<and> x \<notin> set (round_approvers es) \<and> rwBuilderIdentity r \<noteq> Some x))
     \<and> (rwEngWorkerJob r = None \<or> rwEngWorkerJob r = Some (row_id r))"

text \<open>Events that neither open a round nor approve leave the approvers alone.\<close>

definition silent :: "Event \<Rightarrow> bool" where
  "silent e \<longleftrightarrow> eKind e \<notin> set count_boundary \<and> \<not> is_approval e"

lemma round_approvers_silent: "list_all silent new \<Longrightarrow> round_approvers (es @ new) = round_approvers es"
proof -
  assume s: "list_all silent new"
  then have "round_from count_boundary (es @ new) = round_from count_boundary es"
    by (simp add: round_from_def filter_empty_conv list_all_iff silent_def
        filter_False [of new])
  moreover have "filter (\<lambda>e. is_approval e \<and> n < eJobSeq e) new = []" for n
    using s by (simp add: filter_empty_conv list_all_iff silent_def)
  ultimately show ?thesis by (simp add: round_approvers_def)
qed

lemma round_from_bound: "numbered_from 0 es \<Longrightarrow> round_from ks es \<le> int (length es)"
proof -
  assume n: "numbered_from 0 es"
  have "list_all (\<lambda>e. eJobSeq e \<le> int (length es)) es"
    using n by (auto simp: list_all_iff numbered_from_nth in_set_conv_nth)
  then have b: "\<forall>x \<in> set (map eJobSeq (filter (\<lambda>e. eKind e \<in> set ks) es)). x \<le> int (length es)"
    by (auto simp: list_all_iff)
  have "(if seqs = [] then 0 else Max (set seqs)) \<le> int (length es)"
    if "\<forall>x \<in> set seqs. x \<le> int (length es)" for seqs
    using that by (cases seqs) auto
  from this [OF b] show ?thesis by (simp only: round_from_def Let_def)
qed

text \<open>A boundary event opens an empty round.\<close>

lemma round_approvers_boundary:
  assumes "numbered_from 0 (es @ [e])" and "eKind e \<in> set count_boundary"
  shows "round_approvers (es @ [e]) = []"
proof -
  have n: "numbered_from 0 es" "eJobSeq e = int (length es) + 1" using assms(1) by simp_all
  have le: "eJobSeq x \<le> eJobSeq e" if "x \<in> set (es @ [e])" for x
    using that n by (auto simp: numbered_from_nth in_set_conv_nth)
  then have "Max (set (map eJobSeq (filter (\<lambda>e. eKind e \<in> set count_boundary) (es @ [e])))) = eJobSeq e"
    using assms(2) by (intro Max_eqI) auto
  then have "round_from count_boundary (es @ [e]) = eJobSeq e"
    using assms(2) by (simp add: round_from_def Let_def)
  moreover have "filter (\<lambda>x. is_approval x \<and> eJobSeq e < eJobSeq x) (es @ [e]) = []"
    using le by (force simp: filter_empty_conv)
  ultimately show ?thesis by (simp add: round_approvers_def)
qed

text \<open>An approval extends the round's approvers by its actor.\<close>

lemma round_approvers_approval:
  assumes "numbered_from 0 (es @ [e])" and "eKind e = KindVerdictClaim"
  shows "round_approvers (es @ [e]) =
    round_approvers es @ (if pVerdictClaim (ePayload e) = VerdictApproved then [eActor e] else [])"
proof -
  have n: "numbered_from 0 es" "eJobSeq e = int (length es) + 1" using assms(1) by simp_all
  have "round_from count_boundary (es @ [e]) = round_from count_boundary es"
    using assms(2) by (simp add: round_from_def count_boundary_def)
  moreover have "round_from count_boundary es < eJobSeq e"
    using round_from_bound [OF n(1)] n(2) by (metis less_add_one order_le_less_trans)
  ultimately show ?thesis using assms(2) by (simp add: round_approvers_def is_approval_def)
qed

lemma builder_rows [simp]:
  "rwBuilderIdentity (set_seq n r) = rwBuilderIdentity r" "rwEngWorkerJob (set_seq n r) = rwEngWorkerJob r"
  "rwBuilderIdentity (claim_row p a r) = rwBuilderIdentity r" "rwEngWorkerJob (claim_row p a r) = rwEngWorkerJob r"
  "rwBuilderIdentity (review_claim_row p r) = rwBuilderIdentity r"
  "rwEngWorkerJob (review_claim_row p r) = rwEngWorkerJob r"
  "rwBuilderIdentity (beat_row hp r) = rwBuilderIdentity r" "rwEngWorkerJob (beat_row hp r) = rwEngWorkerJob r"
  "rwBuilderIdentity (release_row s k r) = rwBuilderIdentity r" "rwEngWorkerJob (release_row s k r) = rwEngWorkerJob r"
  "rwBuilderIdentity (escalate_row x r) = rwBuilderIdentity r" "rwEngWorkerJob (escalate_row x r) = rwEngWorkerJob r"
  "rwBuilderIdentity (review_row vp b s ts r) = rwBuilderIdentity r"
  "rwEngWorkerJob (review_row vp b s ts r) = rwEngWorkerJob r"
  "rwBuilderIdentity (set_state_row s r) = rwBuilderIdentity r" "rwEngWorkerJob (set_state_row s r) = rwEngWorkerJob r"
  "rwBuilderIdentity (unblock_row n r) = rwBuilderIdentity r" "rwEngWorkerJob (unblock_row n r) = rwEngWorkerJob r"
  "rwBuilderIdentity (requeue_row s ro st tg n r) = rwBuilderIdentity r"
  "rwEngWorkerJob (requeue_row s ro st tg n r) = rwEngWorkerJob r"
  "rwBuilderIdentity (cancel_row r) = rwBuilderIdentity r" "rwEngWorkerJob (cancel_row r) = rwEngWorkerJob r"
  "rwBuilderIdentity (revoke_row t e n x r) = rwBuilderIdentity r"
  "rwEngWorkerJob (revoke_row t e n x r) = rwEngWorkerJob r"
  "rwBuilderIdentity (set_columns ps w k r) = rwBuilderIdentity r" "rwEngWorkerJob (set_columns ps w k r) = rwEngWorkerJob r"
  "rwBuilderIdentity (bind_pr_row m r) = rwBuilderIdentity r" "rwEngWorkerJob (bind_pr_row m r) = rwEngWorkerJob r"
  "rwBuilderIdentity (rebased_row bs h r) = rwBuilderIdentity r" "rwEngWorkerJob (rebased_row bs h r) = rwEngWorkerJob r"
  "rwBuilderIdentity (conflict_row bs n r) = rwBuilderIdentity r" "rwEngWorkerJob (conflict_row bs n r) = rwEngWorkerJob r"
  "rwBuilderIdentity (conflict_claim_row p r) = rwBuilderIdentity r"
  "rwEngWorkerJob (conflict_claim_row p r) = rwEngWorkerJob r"
  "rwBuilderIdentity (post_merge_row c r) = rwBuilderIdentity r" "rwEngWorkerJob (post_merge_row c r) = rwEngWorkerJob r"
  "rwBuilderIdentity (park_row c r) = rwBuilderIdentity r" "rwEngWorkerJob (park_row c r) = rwEngWorkerJob r"
  "rwBuilderIdentity (superseded_keeping bs c c' x' n r) = rwBuilderIdentity r"
  "rwEngWorkerJob (superseded_keeping bs c c' x' n r) = rwEngWorkerJob r"
  "rwBuilderIdentity (ci_exhausted_row c r) = rwBuilderIdentity r" "rwEngWorkerJob (ci_exhausted_row c r) = rwEngWorkerJob r"
  "rwBuilderIdentity (ci_bounced_row c n r) = rwBuilderIdentity r" "rwEngWorkerJob (ci_bounced_row c n r) = rwEngWorkerJob r"
  "rwBuilderIdentity (base_row bs r) = rwBuilderIdentity r" "rwEngWorkerJob (base_row bs r) = rwEngWorkerJob r"
  "rwBuilderIdentity (stamp_row m h r) = rwBuilderIdentity r" "rwEngWorkerJob (stamp_row m h r) = rwEngWorkerJob r"
  by (simp_all add: git_rows set_columns_def bind_pr_row_def set_seq_def claim_row_def review_claim_row_def beat_row_def
      release_row_def end_lease_row_def escalate_row_def review_row_def bounce_row_def
      accumulate_row_def verdict_row_def set_state_row_def unblock_row_def requeue_row_def
      cancel_row_def revoke_row_def Let_def)

lemma state_rows [simp]:
  "jState (rwJob (set_seq n r)) = jState (rwJob r)" "jState (rwJob (claim_row p a r)) = StateLeased"
  "jState (rwJob (review_claim_row p r)) = StateCodeReview"
  "jState (rwJob (beat_row hp r)) = jState (rwJob r)" "jState (rwJob (result_row rp s r)) = s"
  "jState (rwJob (release_row s k r)) = s" "jState (rwJob (escalate_row x r)) = StateNeedsHuman"
  "jState (rwJob (set_state_row s r)) = s" "jState (rwJob (unblock_row n r)) = StateReady"
  "jState (rwJob (requeue_row s ro st tg n r)) = s" "jState (rwJob (cancel_row r)) = StateCancelled"
  "jState (rwJob (revoke_row t e n x r)) = tTo t" "jState (rwJob (review_row vp b s ts r)) = s"
  "jState (rwJob (set_columns ps wd k r)) = jState (rwJob r)" "jState (rwJob (bind_pr_row m r)) = jState (rwJob r)"
  "jState (rwJob (rebased_row bs h r)) = StateReviewPending"
  "jState (rwJob (conflict_row bs n r)) = StateResolvingConflict"
  "jState (rwJob (resolved_row zp r)) = StateReviewPending"
  "jState (rwJob (conflict_claim_row p r)) = jState (rwJob r)"
  "jState (rwJob (post_merge_row c r)) = StateNeedsHuman" "jState (rwJob (park_row c r)) = StateNeedsHuman"
  "jState (rwJob (superseded_keeping bs c c' x' n r)) = StateReady"
  "jState (rwJob (ci_exhausted_row c r)) = StateNeedsHuman" "jState (rwJob (ci_bounced_row c n r)) = StateReady"
  "jState (rwJob (base_row bs r)) = jState (rwJob r)" "jState (rwJob (stamp_row m h r)) = jState (rwJob r)"
  by (simp_all add: git_rows set_columns_def bind_pr_row_def set_seq_def claim_row_def review_claim_row_def beat_row_def result_row_def
      release_row_def end_lease_row_def escalate_row_def review_row_def bounce_row_def
      accumulate_row_def verdict_row_def set_state_row_def unblock_row_def requeue_row_def
      cancel_row_def revoke_row_def Let_def)

lemma panel_silent:
  assumes "panel es r" and "counted (es @ new) r'" and "list_all silent new"
    and "rwBuilderIdentity r' = rwBuilderIdentity r" and "rwEngWorkerJob r' = rwEngWorkerJob r"
    and "row_id r' = row_id r"
    and "jState (rwJob r') = StateCodeReview \<Longrightarrow>
           jState (rwJob r) = StateCodeReview \<and> rwBoundIdentity r' = rwBoundIdentity r"
  shows "panel (es @ new) r'"
  using assms by (auto simp: panel_def round_approvers_silent)

lemma not_code_review:
  "revoke_move s t esc \<Longrightarrow> tTo t \<noteq> StateCodeReview" "release_target s \<noteq> StateCodeReview"
proof -
  have "redispatchTarget s \<noteq> StateCodeReview" by (cases s) simp_all
  then show "revoke_move s t esc \<Longrightarrow> tTo t \<noteq> StateCodeReview" by (auto simp: revoke_move_def)
  show "release_target s \<noteq> StateCodeReview" by (cases s) (simp_all add: release_target_def Next_def transitions_def)
qed

lemmas silent_simps = silent_def is_approval_def count_boundary_def claim_ledger_event_def
  revoke_event_def revoke_move_def release_event_def exhausted_event_def dispatch_event_def
  operator_event_def git_events Let_def

text \<open>A review result extends the approvers by its reviewer, if it approves.\<close>

lemma review_approvers:
  assumes "panel es r" and "jState (rwJob r) = StateCodeReview" and "review_step d r facts pol p t"
    and "numbered_from 0 (es @ review_events d p r t)"
  obtains x where "x \<notin> set (round_approvers es)" and "rwBuilderIdentity r \<noteq> Some x"
    and "round_approvers (es @ review_events d p r t) =
      round_approvers es @ (if rvClaim p = VerdictApproved then [x] else [])"
proof -
  let ?c = "verdict_claim_event p (scanJob r) (jJobSeq (rwJob r) + 1)"
  let ?e = "review_event p (scanJob r) (prior_rejections d (rvJobID p) (jBoundIdentity (scanJob r))) t
      (jJobSeq (rwJob r) + 2)"
  from assms(1,2) obtain x where x: "rwBoundIdentity r = Some x" "x \<notin> set (round_approvers es)"
    "rwBuilderIdentity r \<noteq> Some x" by (auto simp: panel_def)
  have num: "numbered_from 0 (es @ [?c])"
    using assms(4) by (simp add: review_events_def)
  have t: "list_all silent [?e]"
    using assms(3) by (auto simp: review_step_def silent_def is_approval_def count_boundary_def review_event_def)
  have "round_approvers (es @ [?c]) = round_approvers es @ (if rvClaim p = VerdictApproved then [x] else [])"
    using round_approvers_approval [OF num] x(1) by (simp add: verdict_claim_event_def coalesce_def)
  with round_approvers_silent [OF t, of "es @ [?c]"]
  have "round_approvers (es @ review_events d p r t) =
      round_approvers es @ (if rvClaim p = VerdictApproved then [x] else [])"
    by (simp add: review_events_def)
  with x(2,3) show ?thesis by (rule that)
qed

lemma review_panel:
  assumes "panel es r" and "jState (rwJob r) = StateCodeReview" and "review_step d r facts pol p t"
    and "counted (es @ review_events d p r t) (set_seq n (reviewed_row cfg d p r t))"
  shows "panel (es @ review_events d p r t) (set_seq n (reviewed_row cfg d p r t))"
proof -
  have "numbered_from 0 (es @ review_events d p r t)" using assms(4) by (simp add: counted_def)
  from assms(1-3) this obtain x where x: "x \<notin> set (round_approvers es)" "rwBuilderIdentity r \<noteq> Some x"
    "round_approvers (es @ review_events d p r t) =
      round_approvers es @ (if rvClaim p = VerdictApproved then [x] else [])"
    by (rule review_approvers)
  have "tTo t \<noteq> StateCodeReview" using assms(3) by (auto simp: review_step_def)
  with assms(1,4) x show ?thesis by (simp add: panel_def reviewed_row_def)
qed

lemma row_id_keeping: "row_id (superseded_keeping b c x y n r) = row_id r"
  by (simp add: row_id_def superseded_keeping_def superseded_row_def)

lemma move_panel:
  assumes "job_move strict d i r new r'" and "find_row d i = Some r" and "panel (events_of d i) r"
  shows "panel (events_of d i @ new) r'"
proof -
  have c: "counted (events_of d i @ new) r'"
    using move_counted [OF assms(1)] assms(3) by (simp add: panel_def)
  from assms(1) c assms(2,3) show ?thesis
  proof (induction rule: job_move.induct)
    case (move_review_claim r p i d)
    have mem: "r \<in> set (tbJobs d)" "row_id r = i"
      using move_review_claim(6) by (auto simp: find_row_def find_Some_iff)
    have e: "(case rwEngWorkerJob r of Some e \<Rightarrow> e | None \<Rightarrow> row_id r) = row_id r"
      using move_review_claim(7) by (auto simp: panel_def)
    have b: "rwBuilderIdentity r \<noteq> Some (cpIdentity p)"
      using move_review_claim(3) mem(1) by (auto simp: builder_conflict_def list_ex_iff e)
    have "cpIdentity p \<notin> set (round_approvers (events_of d i))"
      using not_approved_fresh [OF move_review_claim(4)] move_review_claim(2,7)
      by (simp add: panel_def counted_def)
    moreover have "list_all silent [claim_ledger_event p KindReviewClaimed StateReviewPending
        StateCodeReview (jLeaseEpoch (rwJob r) + 1) (jJobSeq (rwJob r) + 1)]" by (simp add: silent_simps)
    moreover have "rwBoundIdentity (set_seq n (review_claim_row p r)) = Some (cpIdentity p)" for n
      by (simp add: set_seq_def review_claim_row_def)
    ultimately show ?case
      using move_review_claim(5,7) b by (simp add: panel_def round_approvers_silent)
  next
    case (move_result rp i r ts d)
    let ?new = "numbered (result_event rp (scanJob r)) (jJobSeq (rwJob r)) ts"
    from move_result(2) obtain new e where ne: "?new = new @ [e]" "eKind e = KindResultAccepted"
      by (elim disjE) (auto simp: result_event_def intro: that [of "[]"])
    then have "round_approvers (events_of d i @ ?new) = []"
      using round_approvers_boundary [of "events_of d i @ new" e] move_result(3)
      by (simp add: counted_def count_boundary_def)
    then show ?case
      using move_result(3,5)
      by (auto simp: panel_def result_done_def) (auto simp: set_seq_def result_row_def opt_or_def row_id_def
          split: option.splits)
  next
    case (move_review vp i r d facts pol t cfg)
    then show ?case by (intro review_panel)
  next
    case (move_revoke r t esc d i now)
    have "tTo t \<noteq> StateCodeReview" "list_all silent [revoke_event i r t now esc]"
      using not_code_review(1) [OF move_revoke(1)] move_revoke(1) by (auto simp: silent_simps)
    with move_revoke(3,5) show ?case
      by (intro panel_silent) (simp_all add: revoked_def)
  next
    case (move_claim r p i d a)
    then show ?case by (intro panel_silent) (simp_all add: silent_simps)
  next
    case (move_beat r d i act now hp)
    then show ?case by (intro panel_silent) (simp_all add: silent_simps, simp add: set_seq_def beat_row_def)
  next
    case (move_release lp i r d)
    then show ?case
      by (intro panel_silent) (simp_all add: silent_simps released_row_def not_code_review)
  next
    case (move_exhausted lp i r d)
    then show ?case
      by (intro panel_silent) (simp_all add: silent_simps released_row_def not_code_review)
  next
    case (move_dispatch r t d i now)
    then show ?case by (intro panel_silent) (auto simp: silent_simps)
  next
    case (move_requeue r s ro st tg d i now)
    then show ?case
      by (intro panel_silent) (auto simp: silent_simps requeue_target_def split: if_splits)
  next
    case (move_arm d i r pa ca now)
    then show ?case by (intro panel_silent) (simp_all add: row_id_def)
  next
    case (move_columns d i r ps w k)
    then show ?case by (simp add: set_columns_def panel_def row_id_def)
  next
    case (move_bind d i r n)
    then show ?case by (intro panel_silent) (simp_all, simp add: bind_pr_row_def)
  next
    case (move_rebased r base d i sha now)
    then have "round_approvers (events_of d i @ [rebased_event i (scanJob r) base sha now (jJobSeq (rwJob r) + 1)]) = []"
      by (intro round_approvers_boundary) (simp_all add: counted_def rebased_event_def count_boundary_def)
    with move_rebased show ?case by (simp add: panel_def)
  next
    case (move_resolved zp i r d)
    then have "round_approvers (events_of d i @ [resolved_event zp (scanJob r) (jJobSeq (rwJob r) + 1)]) = []"
      by (intro round_approvers_boundary) (simp_all add: counted_def resolved_event_def count_boundary_def)
    with move_resolved show ?case
      by (simp add: panel_def) (auto simp: set_seq_def resolved_row_def opt_or_def row_id_def split: option.splits)
  next
    case (move_conflict_claim r p i d)
    then show ?case by (intro panel_silent) (simp_all add: silent_simps)
  next
    case (move_conflict r base d i act now pd)
    show ?case
      by (rule panel_silent [OF move_conflict(4,2)])
        (simp_all add: silent_simps, simp_all add: set_seq_def conflict_row_def row_id_def)
  next
    case (move_stamped r d i n sha now)
    then show ?case by (intro panel_silent) (simp_all add: silent_simps, simp add: set_seq_def stamp_row_def)
  next
    case (move_base r i base d now)
    then show ?case by (intro panel_silent) (auto simp: silent_simps)
  next
    case (move_stacked r d i k base now)
    then show ?case by (intro panel_silent) (auto simp: silent_simps set_seq_def row_id_def)
  next
    case (move_superseded r i d pr act now ci diff declared)
    then show ?case
      by (intro panel_silent) (auto simp: silent_simps row_id_keeping)
  qed (auto intro!: panel_silent simp: silent_simps)
qed

end
