(* ===== verification/Store_Props.thy ===== *)
theory Store_Props
  imports Store_Facts
begin

text \<open>
  The properties of the store: what its transactions promise, over every
  database they reach, with a concrete run to witness them.
\<close>

interpretation panels: ledger_invariant strict panel for strict
  by unfold_locales
    (rule move_panel, assumption+,
     auto simp: panel_def counted_def seed_event_def seed_row_def set_seq_def round_approvers_def
       round_from_def is_approval_def zero_job_def count_boundary_def)

section \<open>A sample run\<close>

definition demo_cfg :: StoreCfg where
  "demo_cfg = \<lparr>scNoEligibleWorkerDelay = 0,
     scContentPolicy = \<lparr>cpLimits = DefaultLimits, cpExtraDenyPrefixes = [], cpAllowOwnSource = False\<rparr>,
     scAllowOwnSourceRepos = (\<lambda>_. False), scDecodeBlast = (\<lambda>_. \<lparr>brPaths = [], brScope = []\<rparr>),
     scBlastValid = (\<lambda>_. True)\<rparr>"

definition demo0 :: DB where
  "demo0 = \<lparr>tbJobs = [], tbEvents = [], tbLeases = [], tbTimers = [], tbAlarms = [],
     tbIdempotency = [], tbFacts = (\<lambda>_. None),
     tbWorkers = [\<lparr>wkWorkerID = ''w1'', wkIdentity = ''ann'', wkMaxConcurrentLeases = 1, wkLastSeenAt = 0\<rparr>],
     tbSlots = (\<lambda>k. if k = (''w1'', ''f1'') then Some 1 else None), tbAccounts = [], tbEpochCI = [],
     tbMarks = (\<lambda>_. no_marks), tbOutbox = [], tbNextOutbox = 1, tbAudit = [], tbCompensations = []\<rparr>"

definition demo_seed :: SeedParams where
  "demo_seed = \<lparr>sdID = ''j1'', sdKind = KindBuild, sdFlow = ''build'', sdStage = ''build'',
     sdRole = RoleEngWorker, sdBaseSHA = ''b1'', sdPriority = 0, sdBlockedBy = [],
     sdRequiredCapabilities = [''role:eng_worker''], sdNow = 1, sdCostCeilingMicroUSD = None,
     sdFlowID = [], sdTaskText = ''t'', sdSpecText = [], sdAcceptanceCriteria = [], sdRepo = ''r'',
     sdIssueNumber = None\<rparr>"

definition demo_claim :: "string \<Rightarrow> string \<Rightarrow> string \<Rightarrow> Role \<Rightarrow> ClaimParams" where
  "demo_claim lease who family role = \<lparr>cpJobID = ''j1'', cpLeaseID = lease, cpIdentity = who,
     cpModelFamily = family, cpModel = family, cpWorkerID = ''w1'', cpLens = [], cpRole = role,
     cpAttested = [''role:eng_worker'', ''role:code_reviewer''], cpTTL = 60, cpNow = 2\<rparr>"

definition demo_result :: ResultParams where
  "demo_result = \<lparr>rsJobID = ''j1'', rsEpoch = 1, rsIdempotencyKey = ''k1'', rsNow = 3,
     rsPushedRef = ''ref'', rsPushedSHA = ''h1'', rsPatchDiff = [], rsDeclaredBlastRadius = []\<rparr>"

definition demo1 :: DB where "demo1 = projr (seedJobTx demo_cfg demo0 demo_seed)"
definition demo2 :: DB where
  "demo2 = fst (projr (ClaimReadyJob demo1 (demo_claim ''l1'' ''ann'' ''f1'' RoleEngWorker)))"
definition demo3 :: DB where "demo3 = fst (projr (Result demo_cfg demo2 demo_result))"
definition demo4 :: DB where
  "demo4 = fst (projr (ClaimReviewJob demo3 (demo_claim ''l2'' ''bob'' ''f2'' RoleCodeReviewer)))"

lemma demo_ok:
  "\<not> isl (seedJobTx demo_cfg demo0 demo_seed)"
  "\<not> isl (ClaimReadyJob demo1 (demo_claim ''l1'' ''ann'' ''f1'' RoleEngWorker))"
  "\<not> isl (Result demo_cfg demo2 demo_result)"
  "\<not> isl (ClaimReviewJob demo3 (demo_claim ''l2'' ''bob'' ''f2'' RoleCodeReviewer))"
  by code_simp+

lemma projr_Inr: "\<not> isl x \<Longrightarrow> x = Inr (projr x)"
  by (cases x) simp_all

lemma projr_pair: "\<not> isl y \<Longrightarrow> y = Inr (fst (projr y), snd (projr y))"
  by (cases y) simp_all

lemma demo_calls:
  "seedJobTx demo_cfg demo0 demo_seed = Inr demo1"
  "ClaimReadyJob demo1 (demo_claim ''l1'' ''ann'' ''f1'' RoleEngWorker) =
     Inr (demo2, snd (projr (ClaimReadyJob demo1 (demo_claim ''l1'' ''ann'' ''f1'' RoleEngWorker))))"
  "Result demo_cfg demo2 demo_result = Inr (demo3, snd (projr (Result demo_cfg demo2 demo_result)))"
  "ClaimReviewJob demo3 (demo_claim ''l2'' ''bob'' ''f2'' RoleCodeReviewer) =
     Inr (demo4, snd (projr (ClaimReviewJob demo3 (demo_claim ''l2'' ''bob'' ''f2'' RoleCodeReviewer))))"
  unfolding demo1_def demo2_def demo3_def demo4_def
  using demo_ok by (intro projr_Inr projr_pair; simp add: demo1_def demo2_def demo3_def)+

lemma demo_steps:
  "store_step strict demo_cfg demo0 demo1" "store_step strict demo_cfg demo1 demo2"
  "store_step strict demo_cfg demo2 demo3" "store_step strict demo_cfg demo3 demo4"
  by (rule step_seed [OF demo_calls(1)], simp add: plain_seed_def demo_seed_def)
    (rule step_claim [OF demo_calls(2)] step_result [OF demo_calls(3)]
       step_review_claim [OF demo_calls(4)])+

lemma demo_reachable:
  "reachable strict demo_cfg demo0" "reachable strict demo_cfg demo1" "reachable strict demo_cfg demo2"
  "reachable strict demo_cfg demo3" "reachable strict demo_cfg demo4"
proof -
  show r0: "reachable strict demo_cfg demo0" by (rule reach_start) (simp_all add: demo0_def)
  show r1: "reachable strict demo_cfg demo1" by (rule reach_step [OF r0 demo_steps(1)])
  show r2: "reachable strict demo_cfg demo2" by (rule reach_step [OF r1 demo_steps(2)])
  show r3: "reachable strict demo_cfg demo3" by (rule reach_step [OF r2 demo_steps(3)])
  show "reachable strict demo_cfg demo4" by (rule reach_step [OF r3 demo_steps(4)])
qed

lemma demo_row:
  "case find_row demo4 ''j1'' of None \<Rightarrow> False | Some r \<Rightarrow>
     jState (rwJob r) = StateCodeReview \<and> jLeaseEpoch (rwJob r) = 2
     \<and> jHeadSHA (rwJob r) = ''h1'' \<and> jBaseSHA (rwJob r) = ''b1''"
  by code_simp

section \<open>Row and fold\<close>

text \<open>
  Property C10: a rebuild restores the row.  In every database a strict run
  reaches, each job's row agrees with the fold of its ledger, as \<open>LoadEvents\<close>
  reads it, on all the projected columns.
\<close>

theorem projection_is_fold:
  assumes "reachable True cfg d" and "find_row d i = Some r"
  shows "projected (scanJob r) = projected (Fold (LoadEvents d i))"
proof -
  from projection.reachable_row [OF assms] have "good (events_of d i) r" .
  then show ?thesis by (simp add: good_def LoadEvents_numbered)
qed

theorem projection_is_fold_witness:
  "\<exists>r. find_row demo4 ''j1'' = Some r \<and> jState (Fold (LoadEvents demo4 ''j1'')) = StateCodeReview"
proof -
  from demo_row obtain r where r: "find_row demo4 ''j1'' = Some r" "jState (rwJob r) = StateCodeReview"
    by (auto split: option.splits)
  with projection_is_fold [OF demo_reachable(5) r(1)] show ?thesis by (simp add: projected_iff)
qed

text \<open>
  Property C15: the ledger of a job is gapless and append-only.  Its events are
  numbered 1, 2, ... in the order they were appended, the row's cursor is the
  last number, and a transaction only adds events at the end.
\<close>

theorem ledger_gapless:
  assumes "reachable strict cfg d" and "find_row d i = Some r"
  shows "map eJobSeq (LoadEvents d i) = map int [1..<Suc (length (LoadEvents d i))]
    \<and> jJobSeq (rwJob r) = int (length (LoadEvents d i))"
proof -
  from cursor.reachable_row [OF assms] have c: "counted (events_of d i) r" .
  then have n: "numbered_from 0 (events_of d i)" by (simp add: counted_def)
  have num: "map eJobSeq es = map int [1..<Suc (length es)]" if "numbered_from 0 es" for es
    using that by (intro nth_equalityI) (simp_all add: numbered_from_nth del: upt_Suc)
  from num [OF n] c show ?thesis by (simp add: LoadEvents_numbered [OF n] counted_def)
qed

theorem ledger_gapless_witness:
  "\<exists>r. find_row demo4 ''j1'' = Some r \<and> jJobSeq (rwJob r) = int (length (LoadEvents demo4 ''j1''))"
proof -
  from demo_row obtain r where r: "find_row demo4 ''j1'' = Some r" by (auto split: option.splits)
  with ledger_gapless [OF demo_reachable(5) r] show ?thesis by blast
qed

text \<open>
  Property C16: the columns of a build's row are consistent with its state.  A
  job no worker holds has no lease id and no bound identity or family; a ready,
  blocked or leased build is an eng worker's, and one in conflict is a conflict
  resolver's; only a job past its review carries a verdict; escalation columns
  are set only at the human gate.
\<close>

theorem build_row_consistent:
  assumes "reachable True cfg d" and "find_row d i = Some r"
  shows "jKind (rwJob r) = KindBuild \<and> jBaseSHA (rwJob r) \<noteq> []
    \<and> (HasActiveLease (jState (rwJob r))
        \<or> jLeaseID (rwJob r) = [] \<and> rwBoundIdentity r = None \<and> rwBoundModelFamily r = None)
    \<and> (jState (rwJob r) \<notin> {StateBlocked, StateReady, StateLeased}
        \<or> jRole (rwJob r) = RoleEngWorker \<and> jRequiredCapabilities (rwJob r) = [''role:eng_worker''])
    \<and> (jState (rwJob r) \<noteq> StateResolvingConflict
        \<or> jRole (rwJob r) = RoleConflictResolver
          \<and> jRequiredCapabilities (rwJob r) = [''role:conflict_resolver''])
    \<and> (jVerdict (rwJob r) = None
        \<or> jState (rwJob r) \<in> {StateMergeable, StateMerging, StateMergeHandoff, StateFailed, StateCancelled,
             StateDone, StateNeedsHuman})
    \<and> (jState (rwJob r) \<in> {StateNeedsHuman, StateCancelled}
        \<or> jEscalationReason (rwJob r) = [] \<and> \<not> jOverBudget (rwJob r))"
proof -
  from projection.reachable_row [OF assms] have sh: "shape r" by (simp add: good_def)
  have v: "jVerdict (rwJob r) = None
      \<or> jState (rwJob r) \<in> {StateMergeable, StateMerging, StateMergeHandoff, StateFailed, StateCancelled,
             StateDone, StateNeedsHuman}"
    using shapeD(7) [OF sh] by (cases "jState (rwJob r)") simp_all
  have h: "jState (rwJob r) \<in> {StateNeedsHuman, StateCancelled}
      \<or> jEscalationReason (rwJob r) = [] \<and> \<not> jOverBudget (rwJob r)"
    using shape_gate [OF sh] by (cases "jState (rwJob r)") simp_all
  have e: "jState (rwJob r) \<notin> {StateBlocked, StateReady, StateLeased}
      \<or> jRole (rwJob r) = RoleEngWorker \<and> jRequiredCapabilities (rwJob r) = [''role:eng_worker'']"
    using shape_eng [OF sh] by auto
  from shapeD(1,2) [OF sh] shape_idle [OF sh] e shape_resolver [OF sh] v h show ?thesis by blast
qed

theorem build_row_consistent_witness:
  "\<exists>r. find_row demo4 ''j1'' = Some r \<and> jKind (rwJob r) = KindBuild \<and> jVerdict (rwJob r) = None"
proof -
  from demo_row obtain r where r: "find_row demo4 ''j1'' = Some r" "jState (rwJob r) = StateCodeReview"
    by (auto split: option.splits)
  from build_row_consistent [OF demo_reachable(5) r(1)] r show ?thesis by simp
qed

end
