(* ===== verification/Store_Contract.thy ===== *)
theory Store_Contract
  imports Store_Props
begin

text \<open>
  The contracts of the store's calls: fencing by lease epoch, cached replays,
  the slot bound of the claim, the panel behind a verdict, and the release of a
  job that is already on a merge arm.
\<close>

section \<open>Fencing\<close>

text \<open>
  Property C13: fencing epochs are never reused.  In every database the store
  reaches, the epoch a claim event carries is greater than that of every event
  before it on the job, and no event's epoch exceeds the row's.
\<close>

theorem lease_epochs_never_reused:
  assumes "reachable strict cfg d" and "find_row d i = Some r"
  shows "sorted_wrt (\<lambda>a b. \<not> claim_kind (eKind b) \<or> eLeaseEpoch a < eLeaseEpoch b) (LoadEvents d i)
    \<and> list_all (\<lambda>e. eLeaseEpoch e \<le> jLeaseEpoch (rwJob r)) (LoadEvents d i)"
proof -
  have "numbered_from 0 (events_of d i)" using cursor.reachable_row [OF assms] by (simp add: counted_def)
  moreover have "fenced (events_of d i) r" by (rule fencing.reachable_row [OF assms])
  ultimately show ?thesis
    unfolding fenced_def imp_conv_disj by (simp only: LoadEvents_numbered simp_thms)
qed

theorem lease_epochs_never_reused_witness:
  "\<exists>r. find_row demo4 ''j1'' = Some r \<and> list_all (\<lambda>e. eLeaseEpoch e \<le> 2) (LoadEvents demo4 ''j1'')"
proof -
  from demo_row obtain r where r: "find_row demo4 ''j1'' = Some r" "jLeaseEpoch (rwJob r) = 2"
    by (auto split: option.splits)
  from lease_epochs_never_reused [OF demo_reachable(5) r(1)] r show ?thesis by simp
qed

lemma store_move_epoch:
  assumes "store_move strict d d'" and "find_row d i = Some r"
  shows "\<exists>r'. find_row d' i = Some r' \<and> jLeaseEpoch (rwJob r) \<le> jLeaseEpoch (rwJob r')"
  using assms
proof (induction rule: store_move.induct)
  case (still d' d)
  then have "find_row d' i = find_row d i" by (metis fst_view)
  with still show ?case by simp
next
  case (moved d j q new q' d')
  have f: "find_row d j = Some q" "find_row d' j = Some q'"
    using moved(2) does_find [OF moved(2)] by (simp_all add: does_def)
  show ?case
  proof (cases "i = j")
    case True
    with f moved(3) move_epoch [OF moved(1)] show ?thesis by simp
  next
    case False
    then have "find_row d' i = find_row d i"
      using moved(2) unfolding does_def by (metis commit_sel(3) fst_view)
    with moved(3) show ?thesis by simp
  qed
next
  case (born d p s d')
  then have "i \<noteq> sdID p" by auto
  then have "find_row d' i = find_row d i" using find_row_view [OF born(4), of i] by (simp add: fst_view)
  with born(5) show ?case by simp
qed

lemma store_moves_epoch:
  "(store_move strict)\<^sup>*\<^sup>* d d' \<Longrightarrow> find_row d i = Some r \<Longrightarrow>
   \<exists>r'. find_row d' i = Some r' \<and> jLeaseEpoch (rwJob r) \<le> jLeaseEpoch (rwJob r')"
proof (induction rule: rtranclp_induct)
  case (step d1 d2)
  then show ?case by (blast dest: store_move_epoch intro: order_trans)
qed blast

lemma steps_epoch:
  assumes "(store_step strict cfg)\<^sup>*\<^sup>* d d'" and "reachable strict cfg d" and "find_row d i = Some r"
  shows "\<exists>r'. find_row d' i = Some r' \<and> jLeaseEpoch (rwJob r) \<le> jLeaseEpoch (rwJob r')"
proof -
  from assms(1,2) have "(store_move strict)\<^sup>*\<^sup>* d d' \<and> reachable strict cfg d'"
  proof (induction rule: rtranclp_induct)
    case (step d1 d2)
    then show ?case
      using step_moves [OF step(2) reachable_ids] by (blast intro: reach_step rtranclp_trans)
  qed blast
  with store_moves_epoch assms(3) show ?thesis by blast
qed

lemma stale_calls:
  assumes "find_row d i = Some r" and "n \<noteq> jLeaseEpoch (rwJob r)"
  shows "hpJobID hp = i \<Longrightarrow> hpEpoch hp = n \<Longrightarrow> Heartbeat_tx d hp = Inl ErrStaleEpoch"
    and "rlJobID lp = i \<Longrightarrow> rlEpoch lp = n \<Longrightarrow> Release_tx d lp = Inl ErrStaleEpoch"
    and "rsJobID rp = i \<Longrightarrow> rsEpoch rp = n \<Longrightarrow> cached_response d i (rsIdempotencyKey rp) = None \<Longrightarrow>
      Result cfg d rp = Inl ErrStaleEpoch"
    and "rvJobID vp = i \<Longrightarrow> rvEpoch vp = n \<Longrightarrow> cached_response d i (rvIdempotencyKey vp) = None \<Longrightarrow>
      ReviewResult cfg d facts pol vp = Inl ErrStaleEpoch"
  using assms
  by (auto simp: Heartbeat_tx_def Release_tx_def Result_def ReviewResult_def loadJobTx_def
      decide_heartbeat_def decide_release_def decide_work_result_def review_decision_def
      decide_review_claim_def bare_state_def review_state_def staleEpoch_stale Let_def)

text \<open>
  Property C12: a superseded worker is shut out for good.  Once a job's epoch has
  passed the one a worker holds, every call it makes with that epoch is refused
  as stale, now and after any further transactions, and changes nothing; only a
  retry of an answered result gets its cached answer.
\<close>

theorem superseded_worker_rejected:
  assumes "reachable strict cfg d" and "find_row d i = Some r" and "n < jLeaseEpoch (rwJob r)"
    and "(store_step strict cfg)\<^sup>*\<^sup>* d d'"
  shows "(hpJobID hp = i \<and> hpEpoch hp = n \<longrightarrow> Heartbeat_tx d' hp = Inl ErrStaleEpoch)
    \<and> (rlJobID lp = i \<and> rlEpoch lp = n \<longrightarrow> Release_tx d' lp = Inl ErrStaleEpoch)
    \<and> (rsJobID rp = i \<and> rsEpoch rp = n \<and> cached_response d' i (rsIdempotencyKey rp) = None \<longrightarrow>
         Result cfg d' rp = Inl ErrStaleEpoch)
    \<and> (rvJobID vp = i \<and> rvEpoch vp = n \<and> cached_response d' i (rvIdempotencyKey vp) = None \<longrightarrow>
         ReviewResult cfg d' facts pol vp = Inl ErrStaleEpoch)"
proof -
  obtain r' where "find_row d' i = Some r'" "n \<noteq> jLeaseEpoch (rwJob r')"
    using steps_epoch [OF assms(4,1,2)] assms(3) by fastforce
  then show ?thesis by (blast intro: stale_calls)
qed

text \<open>The builder's epoch 1, after the review claim took 2.\<close>

theorem superseded_worker_rejected_witness:
  "Release_tx demo4 \<lparr>rlJobID = ''j1'', rlEpoch = 1, rlNow = 9, rlNoPenalty = False, rlFailed = False\<rparr> =
     Inl ErrStaleEpoch"
proof -
  from demo_row obtain r where r: "find_row demo4 ''j1'' = Some r" "jLeaseEpoch (rwJob r) = 2"
    by (auto split: option.splits)
  then have "1 < jLeaseEpoch (rwJob r)" by simp
  from superseded_worker_rejected [OF demo_reachable(5) r(1) this rtranclp.rtrancl_refl] show ?thesis
    by simp
qed

section \<open>Replays\<close>

text \<open>A fresh answer is stored under its key; nothing else touches the table.\<close>

interpretation idem: kept "\<lambda>d. \<exists>new. tbIdempotency d = old @ new" for old
  by unfold_locales (auto simp: core_def MarkOutboxSent_def audit_once_def update_outbox_def
      enqueueOutboxTx_def split: option.splits)

lemma idem_result:
  assumes "Result cfg d p = Inr (d', resp)"
    and "cached_response d (rsJobID p) (rsIdempotencyKey p) = None"
  shows "as_result resp = resp
    \<and> tbIdempotency d' = tbIdempotency d @
        (if rsIdempotencyKey p = [] then [] else [((rsJobID p, rsIdempotencyKey p), resp)])"
  using core_result [OF assms] by (simp add: core_def)

lemma idem_review:
  assumes "ReviewResult cfg d facts pol p = Inr (d', resp)"
    and "cached_response d (rvJobID p) (rvIdempotencyKey p) = None"
  shows "as_review resp = resp \<and> tbIdempotency d' = tbIdempotency d @
        (if rvIdempotencyKey p = [] then [] else [((rvJobID p, rvIdempotencyKey p), resp)])"
  using core_review [OF assms] by (simp add: core_def)

lemma idem_step:
  assumes "store_step strict cfg d d'"
  shows "\<exists>new. tbIdempotency d' = tbIdempotency d @ new"
  by (rule idem.step [OF assms]) (auto dest!: core_seed core_results simp: core_def)

lemma idem_steps:
  "(store_step strict cfg)\<^sup>*\<^sup>* d d' \<Longrightarrow> map_of (tbIdempotency d) k = Some c \<Longrightarrow>
   map_of (tbIdempotency d') k = Some c"
proof (induction rule: rtranclp_induct)
  case (step d1 d2)
  from idem_step [OF step(2)] step(3,4) show ?case by (auto simp: map_add_Some_iff)
qed simp

lemma cached_Some: "cached_response d i key = Some c \<longleftrightarrow> key \<noteq> [] \<and> map_of (tbIdempotency d) (i, key) = Some c"
  by (simp add: cached_response_def)

text \<open>What the first call leaves in the cache.\<close>

lemma first_answer_cached:
  "Result cfg d p = Inr (d1, resp) \<Longrightarrow> rsIdempotencyKey p \<noteq> [] \<Longrightarrow>
     \<exists>c. cached_response d1 (rsJobID p) (rsIdempotencyKey p) = Some c
       \<and> as_result c = resp"
  "ReviewResult cfg d facts pol q = Inr (d1, resp) \<Longrightarrow> rvIdempotencyKey q \<noteq> [] \<Longrightarrow>
     \<exists>c. cached_response d1 (rvJobID q) (rvIdempotencyKey q) = Some c \<and> as_review c = resp"
proof -
  assume r: "Result cfg d p = Inr (d1, resp)" and k: "rsIdempotencyKey p \<noteq> []"
  show "\<exists>c. cached_response d1 (rsJobID p) (rsIdempotencyKey p) = Some c
       \<and> as_result c = resp"
  proof (cases "cached_response d (rsJobID p) (rsIdempotencyKey p)")
    case None
    with k idem_result [OF r None] show ?thesis
      by (cases resp) (auto simp: cached_response_def map_add_def)
  qed (use r in \<open>auto simp: Result_def\<close>)
next
  assume r: "ReviewResult cfg d facts pol q = Inr (d1, resp)" and k: "rvIdempotencyKey q \<noteq> []"
  show "\<exists>c. cached_response d1 (rvJobID q) (rvIdempotencyKey q) = Some c \<and> as_review c = resp"
  proof (cases "cached_response d (rvJobID q) (rvIdempotencyKey q)")
    case None
    with k idem_review [OF r None] show ?thesis by (auto simp: cached_response_def map_add_def)
  qed (use r in \<open>auto simp: ReviewResult_def\<close>)
qed

text \<open>
  Property C14: results are idempotent.  After a result or a review result with
  a key has been answered, the same key on the same job gets the same answer,
  however late the retry and whatever else it says, and the retry changes nothing.
\<close>

theorem retry_gets_first_answer:
  assumes "(store_step strict cfg)\<^sup>*\<^sup>* d1 d2"
  shows "(Result cfg d p = Inr (d1, resp) \<and> rsIdempotencyKey p \<noteq> []
        \<and> rsIdempotencyKey p' = rsIdempotencyKey p \<and> rsJobID p' = rsJobID p
        \<longrightarrow> Result cfg d2 p' = Inr (d2, resp))
    \<and> (ReviewResult cfg d facts pol q = Inr (d1, resp) \<and> rvIdempotencyKey q \<noteq> []
        \<and> rvIdempotencyKey q' = rvIdempotencyKey q \<and> rvJobID q' = rvJobID q
        \<longrightarrow> ReviewResult cfg d2 facts' pol' q' = Inr (d2, resp))"
proof -
  have later: "cached_response d1 i key = Some c \<Longrightarrow> cached_response d2 i key = Some c" for i key c
    using idem_steps [OF assms] by (simp add: cached_Some)
  show ?thesis
    by (auto simp: Result_def [of _ d2] ReviewResult_def [of _ d2] dest!: first_answer_cached later)
qed

theorem retry_gets_first_answer_witness:
  "\<exists>resp. Result demo_cfg demo4 (demo_result\<lparr>rsEpoch := 7\<rparr>) = Inr (demo4, resp)"
proof -
  have "(store_step True demo_cfg)\<^sup>*\<^sup>* demo3 demo4" using demo_steps(4) by blast
  from retry_gets_first_answer [OF this, of demo2 demo_result "snd (projr (Result demo_cfg demo2 demo_result))"
      "demo_result\<lparr>rsEpoch := 7\<rparr>"] demo_calls(3)
  show ?thesis by (simp add: demo_result_def)
qed

section \<open>Slots\<close>

lemma jobs_frame:
  "insert_lease l d = Inr d' \<Longrightarrow> tbJobs d' = tbJobs d" "appendEvent e d = Inr d' \<Longrightarrow> tbJobs d' = tbJobs d"
  by (auto simp: insert_lease_def appendEvent_def split: if_splits)

lemma ClaimReadyJob_jobs:
  assumes "ClaimReadyJob d p = Inr (d', n)"
  obtains acct and r :: Row where "tbJobs d' = map (\<lambda>x. if row_id x = cpJobID p
      then set_seq (jJobSeq (rwJob r) + 1) (claim_row p acct x) else x) (tbJobs d)"
    and "modelSlotGateTx d (cpWorkerID p) (cpIdentity p) (cpModelFamily p) = None"
proof -
  from assms obtain r acct d2 where "find_row d (cpJobID p) = Some r"
    and "appendEvent (claim_ledger_event p KindLeaseClaimed StateReady StateLeased n
        (jJobSeq (rwJob r) + 1)) (update_row (cpJobID p) (claim_row p acct) d) = Inr d2"
    and "insert_lease (claim_lease_row p n)
        (setJobSeq (cpJobID p) (jJobSeq (rwJob r) + 1) d2) = Inr d'"
    and g: "modelSlotGateTx d (cpWorkerID p) (cpIdentity p) (cpModelFamily p) = None"
    by (auto simp: ClaimReadyJob_def Let_def and_then_Inr_iff split: option.splits sum.splits if_splits)
  then have "tbJobs d' = map (\<lambda>x. if row_id x = cpJobID p
      then set_seq (jJobSeq (rwJob r) + 1) (claim_row p acct x) else x) (tbJobs d)"
    by (auto simp: jobs_frame setJobSeq_def update_row_def set_seq_def [symmetric])
  from that [OF this g] show ?thesis .
qed

lemma filter_one_change:
  assumes "distinct (map f xs)" and "\<And>x. f (g x) = f x"
  shows "length (filter Q (map (\<lambda>x. if f x = i then g x else x) xs)) \<le> length (filter Q xs) + 1"
  using assms(1)
proof (induction xs)
  case (Cons x xs)
  show ?case
  proof (cases "f x = i")
    case True
    have "f y \<noteq> i" if "y \<in> set xs" for y
      using Cons.prems True that by (auto simp: image_iff)
    then have "map (\<lambda>x. if f x = i then g x else x) xs = xs" by (auto intro!: map_idI)
    with True show ?thesis by simp
  qed (use Cons in auto)
qed simp

text \<open>
  Property C17: a claim respects the declared slots.  In every database the
  store reaches, a build claim by a worker that declares \<open>n\<close> slots for a model
  family leaves that worker with at most \<open>n\<close> active leases of the family.
\<close>

theorem claim_respects_slots:
  assumes "reachable strict cfg d" and "ClaimReadyJob d p = Inr (d', m)"
    and "tbSlots d (cpWorkerID p, cpModelFamily p) = Some n"
    and "cpWorkerID p \<noteq> []" and "cpIdentity p \<noteq> []" and "cpModelFamily p \<noteq> []"
  shows "count_active (\<lambda>r. rwBoundIdentity r = Some (cpIdentity p)
    \<and> rwBoundModelFamily r = Some (cpModelFamily p)) d' \<le> n"
proof -
  let ?q = "\<lambda>r. rwBoundIdentity r = Some (cpIdentity p) \<and> rwBoundModelFamily r = Some (cpModelFamily p)"
  from assms(2) obtain acct and r :: Row where jobs: "tbJobs d' = map (\<lambda>x. if row_id x = cpJobID p
      then set_seq (jJobSeq (rwJob r) + 1) (claim_row p acct x) else x) (tbJobs d)"
    and "modelSlotGateTx d (cpWorkerID p) (cpIdentity p) (cpModelFamily p) = None"
    by (rule ClaimReadyJob_jobs)
  with assms(3-6) have "count_active ?q d + 1 \<le> n"
    by (auto simp: modelSlotGateTx_def gate_for_worker_def dest: free_slot_keeps_bound split: if_splits)
  moreover have "count_active ?q d' \<le> count_active ?q d + 1"
    using filter_one_change [of row_id "tbJobs d" "\<lambda>x. set_seq (jJobSeq (rwJob r) + 1) (claim_row p acct x)"
        "\<lambda>r. ?q r \<and> HasActiveLease (jState (rwJob r))" "cpJobID p"] reachable_ids [OF assms(1)]
    by (simp add: count_active_def jobs job_ids_def)
  ultimately show ?thesis by linarith
qed

theorem claim_respects_slots_witness:
  "count_active (\<lambda>r. rwBoundIdentity r = Some ''ann'' \<and> rwBoundModelFamily r = Some ''f1'') demo2 \<le> 1"
proof -
  have w: "tbSlots demo1 (''w1'', ''f1'') = Some 1" by code_simp
  show ?thesis
    using claim_respects_slots [OF demo_reachable(2) demo_calls(2), of 1] w
    by (simp add: demo_claim_def)
qed

section \<open>The panel\<close>

lemma appendEvent_fresh:
  assumes "counted (events_of d i) r" and "eJobID e = i" and "eJobSeq e > jJobSeq (rwJob r)"
  shows "appendEvent e d = Inr (d\<lparr>tbEvents := tbEvents d @ [e]\<rparr>)"
proof -
  have "eJobSeq x \<le> jJobSeq (rwJob r)" if "x \<in> set (tbEvents d)" "eJobID x = i" for x
  proof -
    have "x \<in> set (events_of d i)" using that by (simp add: events_of_def)
    then show ?thesis using assms(1) by (auto simp: counted_def numbered_from_nth in_set_conv_nth)
  qed
  then show ?thesis using assms(2,3) by (fastforce simp: appendEvent_def list_ex_iff)
qed

text \<open>
  Property C11: a verdict rests on an independent panel.  When a review result
  mints a verdict, the approvals of the round come from at least as many
  distinct identities as the policy requires, none of them the recorded builder, and the
  verdict the row then carries is for the reconciled head and base, which are
  the job's own, with CI green.  The recorded builder is the first one: a result does not
  overwrite it, so a second worker who rebuilds the job after a bounce is not excluded.
\<close>

theorem verdict_needs_independent_panel:
  assumes "reachable strict cfg d" and "ReviewResult cfg d facts pol p = Inr (d', resp)"
    and "cached_response d (rvJobID p) (rvIdempotencyKey p) = None" and "rpMinted resp"
    and "find_row d' (rvJobID p) = Some r"
  shows "RequiredReviewersOrDefault pol \<le> int (card (set (round_approvers (LoadEvents d' (rvJobID p)))))
    \<and> rwBuilderIdentity r \<notin> Some ` set (round_approvers (LoadEvents d' (rvJobID p)))
    \<and> (\<exists>v. jVerdict (rwJob r) = Some v \<and> vHeadSHA v = dbHeadSHA facts \<and> vBaseSHA v = dbBaseSHA facts
         \<and> jHeadSHA (rwJob r) = dbHeadSHA facts)
    \<and> dbCIGreen facts"
proof -
  let ?i = "rvJobID p"
  from assms(2,3) show ?thesis
  proof (rule ReviewResult_does)
    fix r0 t
    assume st: "jState (rwJob r0) = StateCodeReview" and step: "review_step d r0 facts pol p t"
      and resp: "resp = answer (state_str (tTo t))
                 (case tVerdict t of None \<Rightarrow> [] | Some v \<Rightarrow> verdict_str (vValue v)) (tVerdict t \<noteq> None)"
      and do: "does ?i r0 (set_seq (jJobSeq (rwJob r0) + 2) (reviewed_row cfg d p r0 t))
        (review_events d p r0 t) d d'"
    from resp assms(4) have "tVerdict t \<noteq> None" by simp
    with step obtain v where t: "t = (move StateCodeReview StateMergeable KindVerdictMinted)\<lparr>tVerdict := Some v\<rparr>"
      and cl: "rvClaim p = VerdictApproved"
      and req: "RequiredReviewersOrDefault pol \<le> prior_approvals d ?i + 1"
      and gate: "gatePredicate (gate_facts d r0 facts)"
      and v: "vHeadSHA v = dbHeadSHA facts" "vBaseSHA v = dbBaseSHA facts"
      by (auto simp: review_step_def)
    have r0: "find_row d ?i = Some r0" using do by (simp add: does_def)
    have r: "r = set_seq (jJobSeq (rwJob r0) + 2) (reviewed_row cfg d p r0 t)"
      using does_find [OF do] assms(5) by simp
    have pan: "panel (events_of d ?i) r0" by (rule panels.reachable_row [OF assms(1) r0])
    have d': "reachable strict cfg d'" by (rule reach_step [OF assms(1) step_review [OF assms(2)]])
    have c: "counted (events_of d' ?i) r" by (rule cursor.reachable_row [OF d' assms(5)])
    then have load: "LoadEvents d' ?i = events_of d' ?i" by (intro LoadEvents_numbered) (simp add: counted_def)
    have ev: "events_of d' ?i = events_of d ?i @ review_events d p r0 t"
      using do unfolding does_def by (metis commit_sel(2) snd_view)
    have "panel (LoadEvents d' ?i) r" using panels.reachable_row [OF d' assms(5)] load by simp
    then have "rwBuilderIdentity r \<notin> Some ` set (round_approvers (LoadEvents d' ?i))"
      by (auto simp: panel_def)
    moreover have "numbered_from 0 (events_of d ?i @ review_events d p r0 t)"
      using c by (simp add: counted_def ev)
    from pan st step this obtain x where "x \<notin> set (round_approvers (events_of d ?i))"
      and "round_approvers (LoadEvents d' ?i) = round_approvers (events_of d ?i) @ [x]"
      by (rule review_approvers) (simp add: cl load ev)
    then have "prior_approvals d ?i + 1 = int (card (set (round_approvers (LoadEvents d' ?i))))"
      by (simp add: prior_approvals_round)
    moreover have "jVerdict (rwJob r) = Some v \<and> jHeadSHA (rwJob r) = vHeadSHA v"
      using gate_facts_green(4) [OF gate] v
      by (simp add: r reviewed_row_def set_seq_def review_row_def verdict_row_def t minted_single Let_def)
    ultimately show ?thesis using req v gate_facts_green(3) [OF gate] by auto
  qed
qed

text \<open>An approval over green facts by a full panel is never refused.\<close>

lemma ReviewResult_mints:
  assumes "find_row d (rvJobID p) = Some r" and "counted (events_of d (rvJobID p)) r"
    and "cached_response d (rvJobID p) (rvIdempotencyKey p) = None"
    and "rvEpoch p = jLeaseEpoch (rwJob r)" and "jState (rwJob r) = StateCodeReview"
    and "rvClaim p = VerdictApproved" and "gatePredicate (gate_facts d r facts)"
    and "RequiredReviewersOrDefault pol \<le> prior_approvals d (rvJobID p) + 1"
  shows "\<exists>d' resp. ReviewResult cfg d facts pol p = Inr (d', resp) \<and> rpMinted resp"
proof -
  let ?i = "rvJobID p" and ?n = "jJobSeq (rwJob r)"
  obtain v where dec: "dReject (review_decision cfg d r facts pol p) = None"
    "dTransitions (review_decision cfg d r facts pol p) =
       [(move StateCodeReview StateMergeable KindVerdictMinted)\<lparr>tVerdict := Some v\<rparr>]"
    using assms(4-8)
    by (simp add: review_decision_def decide_review_claim_fresh review_state_def Let_def
        EvaluateGate_trigger EvaluateGate_verdict review_gate_inputs_def)
  let ?t = "(move StateCodeReview StateMergeable KindVerdictMinted)\<lparr>tVerdict := Some v\<rparr>"
  let ?c = "verdict_claim_event p (scanJob r) (?n + 1)"
  let ?e = "review_event p (scanJob r) (prior_rejections d ?i (jBoundIdentity (scanJob r))) ?t (?n + 2)"
  let ?d1 = "persistContentResultTx ?i (contentResultTx cfg r) d"
  have "events_of ?d1 j = events_of d j" for j
    by (simp add: events_of_def persistContentResultTx_def update_row_def)
  then have c: "appendEvent ?c ?d1 = Inr (?d1\<lparr>tbEvents := tbEvents ?d1 @ [?c]\<rparr>)"
    using assms(2) by (intro appendEvent_fresh [of _ ?i r]) (simp_all add: verdict_claim_event_def)
  have "counted (events_of (?d1\<lparr>tbEvents := tbEvents ?d1 @ [?c]\<rparr>) ?i) (set_seq (?n + 1) r)"
    using assms(2) by (simp add: counted_def events_of_def verdict_claim_event_def
      persistContentResultTx_def update_row_def)
  then have e: "\<exists>d3. appendEvent ?e (?d1\<lparr>tbEvents := tbEvents ?d1 @ [?c]\<rparr>) = Inr d3"
    using appendEvent_fresh [of "?d1\<lparr>tbEvents := tbEvents ?d1 @ [?c]\<rparr>" ?i "set_seq (?n + 1) r" ?e]
    by (simp add: review_event_def)
  from assms(1,3) dec c e show ?thesis
    by (auto simp: ReviewResult_def loadJobTx_def Let_def minted_single final_state_def
        add.commute [of 2])
qed

theorem verdict_needs_independent_panel_witness:
  "\<exists>d' resp r v. ReviewResult demo_cfg demo4
      \<lparr>dbPRExists = True, dbPRNumber = 7, dbHeadSHA = ''h1'', dbBaseSHA = ''b1'', dbCIGreen = True,
       dbMerged = False, dbMergeableState = ''clean''\<rparr>
      \<lparr>AllowSelfMerge = False, RequiredReviewers = 1\<rparr>
      \<lparr>rvJobID = ''j1'', rvEpoch = 2, rvClaim = VerdictApproved, rvDisposition = DispositionHandoff,
       rvIdempotencyKey = [], rvNotes = [], rvReviewerHead = [], rvNow = 5\<rparr> = Inr (d', resp)
    \<and> find_row d' ''j1'' = Some r \<and> jVerdict (rwJob r) = Some v \<and> vHeadSHA v = ''h1''"
proof -
  let ?f = "\<lparr>dbPRExists = True, dbPRNumber = 7, dbHeadSHA = ''h1'', dbBaseSHA = ''b1'',
      dbCIGreen = True, dbMerged = False, dbMergeableState = ''clean''\<rparr>"
  let ?pol = "\<lparr>AllowSelfMerge = False, RequiredReviewers = 1\<rparr> :: Policy"
  let ?p = "\<lparr>rvJobID = ''j1'', rvEpoch = 2, rvClaim = VerdictApproved,
      rvDisposition = DispositionHandoff, rvIdempotencyKey = [], rvNotes = [], rvReviewerHead = [],
      rvNow = 5\<rparr>"
  from demo_row obtain r where r: "find_row demo4 ''j1'' = Some r" "jState (rwJob r) = StateCodeReview"
    "jLeaseEpoch (rwJob r) = 2" "jHeadSHA (rwJob r) = ''h1''" "jBaseSHA (rwJob r) = ''b1''"
    by (auto split: option.splits)
  have "tbEpochCI demo4 = []" by code_simp
  then have gate: "gatePredicate (gate_facts demo4 r ?f)"
    using r by (simp add: gate_facts_def epochGatedCITx_def gatePredicate_def)
  have none: "cached_response demo4 (rvJobID ?p) (rvIdempotencyKey ?p) = None"
    by (simp add: cached_response_def)
  obtain d' resp where rr: "ReviewResult demo_cfg demo4 ?f ?pol ?p = Inr (d', resp)" and m: "rpMinted resp"
    using ReviewResult_mints [of demo4 ?p r ?f ?pol demo_cfg] r none gate
      cursor.reachable_row [OF demo_reachable(5) r(1)]
    by (auto simp: RequiredReviewersOrDefault_def prior_approvals_def)
  from rr none obtain r' where r': "find_row d' ''j1'' = Some r'"
    by (rule ReviewResult_does) (auto dest: does_find)
  from verdict_needs_independent_panel [OF demo_reachable(5) rr none m, of r'] r' rr show ?thesis
    by auto
qed

section \<open>A late release\<close>

text \<open>
  Property C18: a release is not confined to jobs a worker holds.  For a job that
  is merging or parked at the human merge gate, a penalty-free release with the
  epoch the reviewer held (which approving does not change) is accepted: the job
  goes back to \<open>ready\<close>, still carrying its verdict, and still asking for the
  role and capabilities it had on the merge arm.
\<close>

theorem late_release_undoes_approval:
  assumes "find_row d i = Some r" and "counted (events_of d i) r" and "merge_arm (jState (rwJob r))"
    and "rlJobID p = i" and "rlEpoch p = jLeaseEpoch (rwJob r)" and "rlNoPenalty p" and "\<not> rlFailed p"
  shows "\<exists>d' r'. Release_tx d p = Inr d' \<and> find_row d' i = Some r' \<and> jState (rwJob r') = StateReady
    \<and> jVerdict (rwJob r') = jVerdict (rwJob r) \<and> jRole (rwJob r') = jRole (rwJob r)
    \<and> jRequiredCapabilities (rwJob r') = jRequiredCapabilities (rwJob r)
    \<and> jLeaseEpoch (rwJob r') = jLeaseEpoch (rwJob r)"
proof -
  have to: "release_target (jState (rwJob r)) = StateReady" and act: "HasActiveLease (jState (rwJob r))"
    using assms(3) by (auto simp: merge_arm_iff release_target_def Next_def transitions_def)
  have "dReject (decide_release (bare_state (scanJob r) (rlNow p)) (rlEpoch p)) = None"
    using act assms(5) by (simp add: decide_release_def bare_state_def staleEpoch_def Let_def)
  moreover have "appendEvent (release_event p r) d = Inr (d\<lparr>tbEvents := tbEvents d @ [release_event p r]\<rparr>)"
    using assms(4) by (intro appendEvent_fresh [OF assms(2)]) (simp_all add: release_event_def Let_def)
  ultimately obtain d' where d': "Release_tx d p = Inr d'"
    using assms(1,4,6,7)
    by (simp add: Release_tx_def loadJobTx_def Let_def to attempts_delta_def release_event_def cong: if_cong)
  then show ?thesis
  proof (rule Release_tx_does)
    fix r0
    assume "does (rlJobID p) r0 (set_seq (jJobSeq (rwJob r0) + 1) (released_row p r0))
        [release_event p r0] d d'"
    with assms(1,4) have "find_row d' i = Some (set_seq (jJobSeq (rwJob r) + 1) (released_row p r))"
      by (auto simp: does_find does_def [THEN iffD1])
    then show ?thesis
      using d' by (simp add: released_row_def to set_seq_def release_row_def end_lease_row_def Let_def)
  next
    fix r0
    assume "does (rlJobID p) r0 (set_seq (jJobSeq (rwJob r0) + 2)
          (escalate_row (escalation_str EscalationAttempts) (released_row p r0)))
        [release_event p r0, exhausted_event p r0] d d'"
    then have "length (events_of d' i) = length (events_of d i) + 2"
      using assms(4) unfolding does_def by (simp add: snd_view [symmetric])
    moreover have "length (events_of d' i) = length (events_of d i) + 1"
      using d' assms(1,4,6,7)
      by (auto simp: Release_tx_def loadJobTx_def Let_def to attempts_delta_def appendEvent_def
        events_of_def setJobSeq_def update_row_def close_lease_def split: if_splits)
    ultimately show ?thesis by simp
  qed
qed

definition handoff_db :: DB where
  "handoff_db = demo0\<lparr>tbJobs := [set_seq 1 (seed_row demo_seed StateMergeHandoff)],
     tbEvents := [seed_event demo_seed StateMergeHandoff]\<rparr>"

theorem late_release_undoes_approval_witness:
  "\<exists>d' r'. Release_tx handoff_db
      \<lparr>rlJobID = ''j1'', rlEpoch = 0, rlNow = 9, rlNoPenalty = True, rlFailed = False\<rparr> = Inr d'
    \<and> find_row d' ''j1'' = Some r' \<and> jState (rwJob r') = StateReady"
proof -
  let ?r = "set_seq 1 (seed_row demo_seed StateMergeHandoff)"
  have "find_row handoff_db ''j1'' = Some ?r" "events_of handoff_db ''j1'' = [seed_event demo_seed StateMergeHandoff]"
    by (simp_all add: find_row_def events_of_def handoff_db_def row_id_def seed_row_def set_seq_def
        demo_seed_def seed_event_def)
  then show ?thesis
    using late_release_undoes_approval [of handoff_db "''j1''" ?r
        "\<lparr>rlJobID = ''j1'', rlEpoch = 0, rlNow = 9, rlNoPenalty = True, rlFailed = False\<rparr>"]
    by (auto simp: counted_def seed_event_def seed_row_def set_seq_def zero_job_def)
qed

end
