(* ===== verification/Store_Delivery.thy ===== *)
theory Store_Delivery
  imports Store_Contract
begin

text \<open>
  The properties of conflicts, reconciliation and project-OUT: what is sent to
  GitHub and when, when an ingested pull request moves a job, who may resolve a
  conflict, which builds may run together.
\<close>

section \<open>The outbox\<close>

definition outbox_keys :: "DB \<Rightarrow> (string \<times> string \<times> string) list" where
  "outbox_keys d = map (\<lambda>x. (obJobID x, obAction x, obHeadSHA x)) (tbOutbox d)"

definition audit_keys :: "DB \<Rightarrow> (string \<times> string \<times> string) list" where
  "audit_keys d = map (\<lambda>x. (auJobID x, auAction x, auHeadSHA x)) (tbAudit d)"

definition outbox_ok :: "DB \<Rightarrow> bool" where
  "outbox_ok d \<longleftrightarrow>
     distinct (outbox_keys d) \<and> sorted_wrt (<) (map obID (tbOutbox d))
     \<and> (\<forall>x\<in>set (tbOutbox d). obID x < tbNextOutbox d)
     \<and> distinct (audit_keys d) \<and> set (audit_keys d) \<subseteq> set (outbox_keys d)
     \<and> (\<forall>x\<in>set (tbOutbox d). obStatus x = ObSent \<longrightarrow>
          (obJobID x, obAction x, obHeadSHA x) \<in> set (audit_keys d))"

lemma outbox_ok_cong: "tbOutbox d' = tbOutbox d \<Longrightarrow> tbNextOutbox d' = tbNextOutbox d \<Longrightarrow>
    tbAudit d' = tbAudit d \<Longrightarrow> outbox_ok d \<Longrightarrow> outbox_ok d'"
  by (simp add: outbox_ok_def outbox_keys_def audit_keys_def)

lemma enqueue_ok: "outbox_ok d \<Longrightarrow> outbox_ok (enqueueOutboxTx x d)"
  by (auto simp: enqueueOutboxTx_def outbox_ok_def outbox_keys_def audit_keys_def same_key_def
      list_ex_iff sorted_wrt_append)

lemma update_outbox_keys:
  assumes "unsent_update f"
  shows "outbox_keys (update_outbox q f d) = outbox_keys d"
    and "map obID (tbOutbox (update_outbox q f d)) = map obID (tbOutbox d)"
    and "audit_keys (update_outbox q f d) = audit_keys d"
  using assms by (auto simp: outbox_keys_def audit_keys_def update_outbox_def unsent_update_def same_key_def)

lemma update_ok:
  assumes "outbox_ok d" and "unsent_update f"
  shows "outbox_ok (update_outbox q f d)"
  unfolding outbox_ok_def update_outbox_keys [OF assms(2)]
  using assms by (auto simp: outbox_ok_def unsent_update_def same_key_def update_outbox_def)

lemma audit_once_keys:
  "set (audit_keys (audit_once a d)) = insert (auJobID a, auAction a, auHeadSHA a) (set (audit_keys d))"
  "distinct (audit_keys d) \<Longrightarrow> distinct (audit_keys (audit_once a d))"
  "tbOutbox (audit_once a d) = tbOutbox d" "tbNextOutbox (audit_once a d) = tbNextOutbox d"
  by (auto simp: audit_once_def audit_keys_def list_ex_iff image_iff) (metis)+

lemma send_keys:
  assumes "q = (\<lambda>y. obID y = n)" and "f = (\<lambda>y. y\<lparr>obStatus := ObSent, obAttempts := obAttempts y + 1\<rparr>)"
  shows "outbox_keys (update_outbox q f d) = outbox_keys d"
    and "map obID (tbOutbox (update_outbox q f d)) = map obID (tbOutbox d)"
    and "audit_keys (update_outbox q f d) = audit_keys d"
    and "tbNextOutbox (update_outbox q f d) = tbNextOutbox d"
  by (auto simp: assms outbox_keys_def audit_keys_def update_outbox_def)

lemma sent_ok:
  assumes "MarkOutboxSent d n t = Inr d'" and "outbox_ok d"
  shows "outbox_ok d'"
proof -
  let ?q = "\<lambda>y. obID y = n" and ?f = "\<lambda>y. y\<lparr>obStatus := ObSent, obAttempts := obAttempts y + 1\<rparr>"
  let ?key = "\<lambda>x. (obJobID x, obAction x, obHeadSHA x)"
  from assms(1) obtain x where x: "List.find ?q (tbOutbox d) = Some x"
    and d': "d' = audit_once \<lparr>auJobID = obJobID x, auAction = obAction x, auHeadSHA = obHeadSHA x,
      auDetail = t\<rparr> (update_outbox ?q ?f d)"
    by (auto simp: MarkOutboxSent_def split: option.splits)
  note keys = send_keys [OF refl refl, of n d] and ok = assms(2) [unfolded outbox_ok_def]
  from x have mem: "x \<in> set (tbOutbox d)" "obID x = n" by (auto simp: find_Some_iff)
  have inj: "inj_on obID (set (tbOutbox d))" using ok by (simp add: strict_sorted_iff distinct_map)
  have sent: "?key y \<in> set (audit_keys d')" if y: "y \<in> set (tbOutbox d')" "obStatus y = ObSent" for y
  proof -
    from y(1) obtain z where z: "z \<in> set (tbOutbox d)" "y = (if obID z = n then ?f z else z)"
      by (auto simp: d' audit_once_keys update_outbox_def)
    show ?thesis
    proof (cases "obID z = n")
      case True
      with inj mem z(1) have "z = x" by (auto dest: inj_onD)
      with z(2) True show ?thesis by (simp add: d' audit_once_keys)
    next
      case False
      with z y(2) ok show ?thesis by (auto simp: d' audit_once_keys keys)
    qed
  qed
  have keys': "outbox_keys d' = outbox_keys d" "map obID (tbOutbox d') = map obID (tbOutbox d)"
    "tbNextOutbox d' = tbNextOutbox d"
    unfolding d' using keys by (simp_all add: outbox_keys_def audit_once_keys)
  have bound: "\<forall>x\<in>set (tbOutbox d'). obID x < tbNextOutbox d'"
    using ok by (auto simp: d' audit_once_keys keys update_outbox_def)
  have "set (audit_keys d') \<subseteq> set (outbox_keys d)"
    using ok mem(1) by (auto simp: d' audit_once_keys keys outbox_keys_def)
  moreover have "distinct (audit_keys d')" using ok by (simp add: d' audit_once_keys keys)
  ultimately show ?thesis unfolding outbox_ok_def keys'(1,2) using ok sent bound by blast
qed

interpretation outbox: kept outbox_ok
  by unfold_locales
    (rule outbox_ok_cong, simp_all add: core_def enqueue_ok update_ok sent_ok)

lemma outbox_step:
  assumes "store_step strict cfg d d'" and "outbox_ok d"
  shows "outbox_ok d'"
  by (rule outbox.step [OF assms])
    (use assms(2) in \<open>auto dest!: core_seed core_results simp: core_def elim: outbox_ok_cong [rotated 3]\<close>)

text \<open>
  Property C22: every GitHub action appears once.  From an empty outbox, whatever the
  store does, no key (job, action, head SHA) is ever in the outbox or in the
  audit log twice, rows keep the order they were enqueued in, and the audit log
  holds an entry for every row that is marked sent, and only for enqueued keys.
\<close>

theorem github_action_once:
  assumes "(store_step strict cfg)\<^sup>*\<^sup>* d d'" and "tbOutbox d = []" and "tbAudit d = []"
  shows "distinct (outbox_keys d') \<and> sorted_wrt (<) (map obID (tbOutbox d')) \<and> distinct (audit_keys d')
    \<and> set (audit_keys d') \<subseteq> set (outbox_keys d')
    \<and> (\<forall>x\<in>set (tbOutbox d'). obStatus x = ObSent \<longrightarrow>
         (obJobID x, obAction x, obHeadSHA x) \<in> set (audit_keys d'))"
proof -
  have "outbox_ok d" using assms(2,3) by (simp add: outbox_ok_def outbox_keys_def audit_keys_def)
  with assms(1) have "outbox_ok d'" by (induction rule: rtranclp_induct) (auto intro: outbox_step)
  then show ?thesis by (simp add: outbox_ok_def)
qed

text \<open>Opening the pull request of \<open>j1\<close> twice, then sending it.\<close>

definition opened_db :: "DB \<Rightarrow> DB" where
  "opened_db d = fst (projr (EnqueuePROpen d ''j1'' ''h1'' ''main''))"

definition sent_db :: DB where
  "sent_db = projr (MarkOutboxSent (opened_db (opened_db demo4)) 1 ''7'')"

theorem github_action_once_witness:
  "distinct (outbox_keys sent_db) \<and> audit_keys sent_db = [(''j1'', ActionOpenPR, ''h1'')]"
proof -
  have ok: "\<not> isl (EnqueuePROpen demo4 ''j1'' ''h1'' ''main'')"
    "\<not> isl (EnqueuePROpen (opened_db demo4) ''j1'' ''h1'' ''main'')"
    "\<not> isl (MarkOutboxSent (opened_db (opened_db demo4)) 1 ''7'')"
    and key: "audit_keys sent_db = [(''j1'', ActionOpenPR, ''h1'')]"
    by code_simp+
  have "store_step True demo_cfg demo4 (opened_db demo4)"
    "store_step True demo_cfg (opened_db demo4) (opened_db (opened_db demo4))"
    using step_outbox [OF op_open_pr [OF projr_pair [OF ok(1)]]] step_outbox [OF op_open_pr [OF projr_pair [OF ok(2)]]]
    by (simp_all add: opened_db_def)
  moreover have "store_step True demo_cfg (opened_db (opened_db demo4)) sent_db"
    using step_outbox [OF op_sent [OF projr_Inr [OF ok(3)]]] by (simp add: sent_db_def)
  ultimately have "(store_step True demo_cfg)\<^sup>*\<^sup>* demo0 sent_db"
    using demo_steps [of True] by (meson rtranclp.rtrancl_into_rtrancl rtranclp.rtrancl_refl)
  from github_action_once [OF this] key show ?thesis by (simp add: demo0_def)
qed

section \<open>Merge authorization\<close>

text \<open>
  Property C21: only a verified merge is asked for.  A merge is enqueued exactly for a
  job that has a pull request, is on a merge arm and carries a verdict that
  verifies for the head and base of its row; it is then keyed by that head.
  Otherwise nothing changes.
\<close>

theorem merge_enqueued_iff_verified:
  assumes "find_row d i = Some r" and "EnqueueMergeForJob d i = Inr (d', enqueued)"
  shows "(enqueued \<longleftrightarrow> jPRNumber (rwJob r) > 0 \<and> jState (rwJob r) \<in> {StateMerging, StateMergeHandoff}
      \<and> (\<exists>v. jVerdict (rwJob r) = Some v \<and> verdict_Verify v (jHeadSHA (rwJob r)) (jBaseSHA (rwJob r))))
    \<and> tbJobs d' = tbJobs d \<and> (\<not> enqueued \<longrightarrow> d' = d)
    \<and> (enqueued \<longrightarrow> (i, ActionEnqueueMerge, jHeadSHA (rwJob r)) \<in> set (outbox_keys d')
        \<and> set (outbox_keys d') \<subseteq> insert (i, ActionEnqueueMerge, jHeadSHA (rwJob r)) (set (outbox_keys d)))"
  using assms
  by (auto simp: EnqueueMergeForJob_def merge_authorized_def enqueueOutboxTx_def outbox_row_def
      outbox_keys_def same_key_def list_ex_iff image_iff split: if_splits option.splits)

definition verified_job :: Row where
  "verified_job = (let r = seed_row demo_seed StateMergeHandoff in
     r\<lparr>rwJob := (rwJob r)\<lparr>jPRNumber := 7, jHeadSHA := ''h1'', jBaseSHA := ''b1'',
       jVerdict := Some (MintVerdict VerdictApproved DispositionHandoff ''h1'' ''b1'')\<rparr>\<rparr>)"

theorem merge_enqueued_iff_verified_witness:
  "\<exists>d'. EnqueueMergeForJob (demo0\<lparr>tbJobs := [verified_job]\<rparr>) ''j1'' = Inr (d', True)
     \<and> (''j1'', ActionEnqueueMerge, ''h1'') \<in> set (outbox_keys d')"
proof -
  let ?d = "demo0\<lparr>tbJobs := [verified_job]\<rparr>"
  have r: "find_row ?d ''j1'' = Some verified_job"
    by (simp add: find_row_def verified_job_def row_id_def seed_row_def demo_seed_def Let_def)
  have v: "jVerdict (rwJob verified_job) = Some (MintVerdict VerdictApproved DispositionHandoff ''h1'' ''b1'')"
    "jState (rwJob verified_job) = StateMergeHandoff" "jPRNumber (rwJob verified_job) = 7"
    "jHeadSHA (rwJob verified_job) = ''h1''" "jBaseSHA (rwJob verified_job) = ''b1''"
    by (simp_all add: verified_job_def seed_row_def Let_def)
  have "verdict_Verify (MintVerdict VerdictApproved DispositionHandoff ''h1'' ''b1'') ''h1'' ''b1''"
    by simp
  moreover have "\<exists>d' e. EnqueueMergeForJob ?d ''j1'' = Inr (d', e)"
    by (simp add: EnqueueMergeForJob_def r, cases "merge_authorized (rwJob verified_job)") (auto simp: v)
  then obtain d' e where e: "EnqueueMergeForJob ?d ''j1'' = Inr (d', e)" by blast
  ultimately show ?thesis using merge_enqueued_iff_verified [OF r e] v e by auto
qed

section \<open>The ingest\<close>

lemma and_then_outcome: "and_then m (\<lambda>x. Inr (x, k)) = Inr (y, oc) \<longleftrightarrow> m = Inr y \<and> oc = k"
  by (auto simp: and_then_Inr_iff)

lemma if_chain:
  "(if c then x else y) = z \<Longrightarrow> (c \<Longrightarrow> x = z \<Longrightarrow> P) \<Longrightarrow> (\<not> c \<Longrightarrow> y = z \<Longrightarrow> P) \<Longrightarrow> P"
  by (cases c) simp_all

lemma ApplyReconciledPR_cases:
  assumes "ApplyReconciledPR d i pr now = Inr (d', oc)"
  obtains (frozen) r where "find_row d i = Some r" and "fmMergeCommit (tbMarks d i) \<noteq> []"
      and "\<not> prBoundActive (jState (rwJob r))" and "d' = d" and "oc = no_outcome\<lparr>ocFrozen := True\<rparr>"
  | (repair) r d1 where "find_row d i = Some r" and "fmMergeCommit (tbMarks d i) \<noteq> []"
      and "prBoundActive (jState (rwJob r))" and "oc = no_outcome\<lparr>ocDone := True\<rparr>"
      and "reconcileTransitionTx (scanJob r) (jJobSeq (rwJob r)) StateDone KindJobCompleted now
        (merged_payload (fmMergeCommit (tbMarks d i))) d = Inr d1" and "d' = enqueueHistoryWriteTx i d1"
  | (stale) r where "find_row d i = Some r" and "fmMergeCommit (tbMarks d i) = []"
      and "fmHeadUpdatedAt (tbMarks d i) \<noteq> 0" and "rpUpdatedAt pr \<noteq> 0"
      and "rpUpdatedAt pr < fmHeadUpdatedAt (tbMarks d i)" and "d' = d" and "oc = no_outcome"
  | (fresh) r where "find_row d i = Some r" and "fmMergeCommit (tbMarks d i) = []"
      and "\<not> (fmHeadUpdatedAt (tbMarks d i) \<noteq> 0 \<and> rpUpdatedAt pr \<noteq> 0
        \<and> rpUpdatedAt pr < fmHeadUpdatedAt (tbMarks d i))"
      and "find_row (upsertDomainBFactsTx i pr d) i = Some r"
      and "reconcile_switch (scanJob r) (jJobSeq (rwJob r)) (shaMoved (scanJob r) (domainBFactsTx d i) pr)
        pr now (upsertDomainBFactsTx i pr d) = Inr (d', oc)"
proof -
  from assms obtain r where r: "find_row d i = Some r"
    by (auto simp: ApplyReconciledPR_def and_then_Inr_iff loadJobTx_Inr)
  have r': "find_row (upsertDomainBFactsTx i pr d) i = Some r"
    using r by (simp add: find_row_view [OF refl, of "upsertDomainBFactsTx i pr d"]) (simp add: fst_view)
  from assms show ?thesis
    unfolding ApplyReconciledPR_def loadJobTx_def r option.case prod.case and_then_simps Let_def
    apply (elim if_chain)
    subgoal using r by (auto simp: and_then_Inr_iff intro: repair)
    subgoal using r by (intro frozen) simp_all
    subgoal using r by (intro stale) simp_all
    subgoal using r r' by (intro fresh) simp_all
    done
qed

lemma switch_cases:
  assumes "reconcile_switch j n moved pr now d = Inr (d', oc)"
  obtains (broken) "rpMerged pr \<and> rpMergeCommit pr \<noteq> [] \<and> rpCIFailed pr \<and> prBoundActive (jState j)"
      and "postMergeCIFailureTx j n now (rpFailingChecks pr) (rpFailingCheckURLs pr) d = Inr d'"
      and "oc = no_outcome\<lparr>ocApplied := True\<rparr>"
  | (merged) "rpMerged pr \<and> rpMergeCommit pr \<noteq> [] \<and> rpCIGreen pr \<and> prBoundActive (jState j)"
      and "complete_merged j n pr now d = Inr d'"
      and "oc = no_outcome\<lparr>ocApplied := True, ocDone := True\<rparr>"
  | (closed) "rpClosedUnmerged pr \<and> prBoundActive (jState j)"
      and "escalatePRClosedTx j n now d = Inr d'"
      and "oc = no_outcome\<lparr>ocApplied := True\<rparr>"
  | (parked_merged) "jState j = StateNeedsHuman \<and> rpMerged pr \<and> rpMergeCommit pr \<noteq> []"
      and "reconcileTransitionTx j n StateDone KindJobCompleted now (merged_payload (rpMergeCommit pr)) d = Inr d'"
      and "oc = no_outcome\<lparr>ocApplied := True, ocDone := True\<rparr>"
  | (parked_closed) "jState j = StateNeedsHuman \<and> rpClosedUnmerged pr"
      and "reconcileTransitionTx j n StateCancelled KindStateChanged now eviction_payload d = Inr d'"
      and "oc = no_outcome\<lparr>ocApplied := True\<rparr>"
  | (superseded) "moved \<and> supersedable (jState j)"
      and "supersedeTx j n pr ''reconcile'' now [] d = Inr d'"
      and "oc = no_outcome\<lparr>ocApplied := True, ocSuperseded := True\<rparr>"
      and "\<not> (rpClosedUnmerged pr \<and> prBoundActive (jState j))"
  | (held) "rpCIFailed pr \<and> jState j = StateReviewPending \<and> rpMainCIRed pr"
      and "d' = d"
      and "oc = no_outcome\<lparr>ocApplied := True\<rparr>"
      and "\<not> (moved \<and> supersedable (jState j))"
  | (bounced) "rpCIFailed pr \<and> jState j = StateReviewPending \<and> \<not> rpMainCIRed pr"
      and "ciFailBounceTx j n now (rpFailingChecks pr) (rpFailingCheckURLs pr) d = Inr d'"
      and "oc = no_outcome\<lparr>ocApplied := True\<rparr>"
      and "\<not> (moved \<and> supersedable (jState j))"
  | (recorded) "d' = d"
      and "oc = no_outcome\<lparr>ocApplied := True\<rparr>"
      and "\<not> (moved \<and> supersedable (jState j))"
  using assms unfolding reconcile_switch_def Let_def
  apply (elim if_chain)
  subgoal by (rule broken) (simp_all add: and_then_outcome no_outcome_def)
  subgoal by (rule merged) (simp_all add: and_then_outcome no_outcome_def)
  subgoal by (rule closed) (simp_all add: and_then_outcome no_outcome_def)
  subgoal by (rule parked_merged) (simp_all add: and_then_outcome no_outcome_def)
  subgoal by (rule parked_closed) (simp_all add: and_then_outcome no_outcome_def)
  subgoal by (rule superseded) (simp_all add: and_then_outcome no_outcome_def)
  subgoal by (rule held) (simp_all add: and_then_outcome no_outcome_def)
  subgoal by (rule bounced) (simp_all add: and_then_outcome no_outcome_def)
  subgoal by (rule recorded) (simp_all add: and_then_outcome no_outcome_def)
  done

lemma switch_superseded:
  assumes "reconcile_switch j n moved pr now d = Inr (d', oc)" and "ocSuperseded oc"
  shows "moved \<and> supersedable (jState j) \<and> supersedeTx j n pr ''reconcile'' now [] d = Inr d'"
  using assms(1) by (cases rule: switch_cases) (use assms(2) in \<open>simp_all add: no_outcome_def\<close>)

lemma appendEvent_tables:
  assumes "appendEvent e d = Inr d'"
  shows "tbOutbox d' = tbOutbox d" "tbLeases d' = tbLeases d" "tbMarks d' = tbMarks d" "tbFacts d' = tbFacts d"
  using assms by (auto simp: appendEvent_def split: if_splits)

lemma scanJob_heads [simp]:
  "jHeadSHA (scanJob r) = jHeadSHA (rwJob r)" "jBaseSHA (scanJob r) = jBaseSHA (rwJob r)"
  by (simp_all add: scanJob_def)

lemma scanJob_placed [simp]: "flowbeePlaced (scanJob r) pr = flowbeePlaced (rwJob r) pr"
  "verdictStale (scanJob r) pr = verdictStale (rwJob r) pr"
  by (simp_all add: flowbeePlaced_def verdictStale_def)

text \<open>A supersede voids every pending row of the job that names another SHA, and ends its leases.\<close>

lemma supersede_voids:
  assumes "supersedeTx j n pr a now ci d = Inr d'"
  shows "\<forall>x\<in>set (tbOutbox d'). obJobID x = jID j \<and> obStatus x = ObPending \<and> obHeadSHA x \<noteq> []
      \<longrightarrow> obHeadSHA x = rpHeadSHA pr"
    and "\<forall>l\<in>set (tbLeases d'). lrJobID l = jID j \<longrightarrow> lrEnded l \<noteq> None"
proof -
  from assms obtain d1 where "appendEvent (superseded_event j pr a now (n + 1) ci) d = Inr d1"
    and d': "d' = setJobSeq (jID j) (n + 1) (close_leases (jID j) ''superseded'' (abandon_stale (jID j) (rpHeadSHA pr)
      (update_row (jID j) (superseded_row (rpBaseSHA pr) now) d1)))"
    by (auto simp: supersedeTx_def one_step_def and_then_Inr_iff)
  show "\<forall>x\<in>set (tbOutbox d'). obJobID x = jID j \<and> obStatus x = ObPending \<and> obHeadSHA x \<noteq> []
      \<longrightarrow> obHeadSHA x = rpHeadSHA pr"
    by (auto simp: d' setJobSeq_def update_row_def close_leases_def abandon_stale_def abandon_outbox_def
        update_outbox_def split: if_splits)
  show "\<forall>l\<in>set (tbLeases d'). lrJobID l = jID j \<longrightarrow> lrEnded l \<noteq> None"
    by (auto simp: d' setJobSeq_def update_row_def close_leases_def)
qed

lemma one_step_find:
  "one_step (row_id r) n e f extra d = Inr d' \<Longrightarrow> find_row d i = Some r \<Longrightarrow>
   eJobID e = row_id r \<Longrightarrow> (\<And>x. row_id (f x) = row_id x) \<Longrightarrow>
   (\<And>x. view (extra x) = view x) \<Longrightarrow> find_row d' i = Some (set_seq n (f r))"
  by (rule does_find, rule one_step_scan [of r n e f extra]) simp_all

lemma transition_find:
  "reconcileTransitionTx (scanJob r) (jJobSeq (rwJob r)) to k now pay d = Inr d' \<Longrightarrow> find_row d i = Some r \<Longrightarrow>
   find_row d' i = Some (set_seq (jJobSeq (rwJob r) + 1) (set_state_row to r))"
  by (rule does_find [OF transition_does])

text \<open>
  Which pull request has moved, in the terms of the facts recorded before: its commits
  are not where Flowbee placed the branch, and either the verdict was minted for other
  commits or the recorded head or base is a different one.
\<close>

definition placed_at :: "Row \<Rightarrow> ReconciledPR \<Rightarrow> bool" where
  "placed_at r pr \<longleftrightarrow> jHeadSHA (rwJob r) \<noteq> [] \<and> jHeadSHA (rwJob r) = rpHeadSHA pr
     \<and> (jBaseSHA (rwJob r) \<noteq> [] \<and> rpBaseSHA pr \<noteq> [] \<longrightarrow> jBaseSHA (rwJob r) = rpBaseSHA pr)"

definition pr_moved :: "DB \<Rightarrow> Row \<Rightarrow> ReconciledPR \<Rightarrow> bool" where
  "pr_moved d r pr \<longleftrightarrow> \<not> placed_at r pr
     \<and> ((\<exists>v. jVerdict (rwJob r) = Some v \<and> \<not> verdict_Verify v (rpHeadSHA pr) (rpBaseSHA pr))
        \<or> (\<exists>f. tbFacts d (row_id r) = Some f
             \<and> (dbHeadSHA f \<notin> {[], rpHeadSHA pr} \<or> rpBaseSHA pr \<noteq> [] \<and> dbBaseSHA f \<notin> {[], rpBaseSHA pr})))"

definition older :: "DB \<Rightarrow> string \<Rightarrow> ReconciledPR \<Rightarrow> bool" where
  "older d i pr \<longleftrightarrow> fmHeadUpdatedAt (tbMarks d i) \<noteq> 0 \<and> rpUpdatedAt pr \<noteq> 0
     \<and> rpUpdatedAt pr < fmHeadUpdatedAt (tbMarks d i)"

lemma placed_at_iff: "flowbeePlaced (rwJob r) pr \<longleftrightarrow> placed_at r pr"
  by (auto simp: flowbeePlaced_def placed_at_def)

lemma shaMoved_iff:
  "row_id r = i \<Longrightarrow> shaMoved (scanJob r) (domainBFactsTx d i) pr \<longleftrightarrow> \<not> rpMerged pr \<and> pr_moved d r pr"
  by (auto simp: shaMoved_def pr_moved_def placed_at_iff verdictStale_def domainBFactsTx_def zero_facts_def
      split: option.splits)

lemma switch_supersedes:
  assumes "reconcile_switch j n moved pr now d = Inr (d', oc)" and "moved \<Longrightarrow> \<not> rpMerged pr"
  shows "ocSuperseded oc \<longleftrightarrow> moved \<and> supersedable (jState j) \<and> \<not> (rpClosedUnmerged pr \<and> prBoundActive (jState j))"
  using assms(1)
proof (cases rule: switch_cases)
  case superseded
  then show ?thesis by (simp add: no_outcome_def)
qed (use assms(2) in \<open>auto simp: no_outcome_def\<close>)

text \<open>
  Property C19: a moved pull request fences its worker and drops its approval.  An
  ingest supersedes exactly when no merge is recorded, its facts are not older than the
  recorded mark, the pull request is neither merged nor closed under a job bound to it,
  the job is at work or under review, and the pull request moved.  The job is then ready
  to be rebuilt, one epoch further, unleased, without verdict, head or diff; its leases
  are closed and no pending GitHub write of the job names a commit but the new head.
\<close>

theorem supersede_fences_and_voids:
  assumes "ApplyReconciledPR d i pr now = Inr (d', oc)" and "find_row d i = Some r"
  shows "(ocSuperseded oc \<longleftrightarrow> fmMergeCommit (tbMarks d i) = [] \<and> \<not> older d i pr \<and> \<not> rpMerged pr
      \<and> \<not> (rpClosedUnmerged pr \<and> prBoundActive (jState (rwJob r))) \<and> pr_moved d r pr
      \<and> jState (rwJob r) \<in> {StateLeased, StateBuilding, StateReviewPending, StateCodeReview, StateMergeable,
           StateMerging, StateMergeHandoff})
    \<and> (ocSuperseded oc \<longrightarrow> (\<exists>r'. find_row d' i = Some r'
        \<and> jState (rwJob r') = StateReady \<and> jLeaseEpoch (rwJob r') = jLeaseEpoch (rwJob r) + 1
        \<and> jLeaseID (rwJob r') = [] \<and> rwBoundIdentity r' = None \<and> jVerdict (rwJob r') = None
        \<and> jHeadSHA (rwJob r') = [] \<and> rwPatchDiff r' = []
        \<and> jRequiredCapabilities (rwJob r') = [''role:eng_worker'']
        \<and> (\<forall>l\<in>set (tbLeases d'). lrJobID l = i \<longrightarrow> lrEnded l \<noteq> None)
        \<and> (\<forall>x\<in>set (tbOutbox d'). obJobID x = i \<and> obStatus x = ObPending \<and> obHeadSHA x \<noteq> []
             \<longrightarrow> obHeadSHA x = rpHeadSHA pr)))"
  using assms(1)
proof (cases rule: ApplyReconciledPR_cases)
  case (fresh q)
  then have q: "q = r" using assms(2) by simp
  have i: "row_id r = i" by (rule find_row_id [OF assms(2)])
  have "ocSuperseded oc \<longleftrightarrow> shaMoved (scanJob r) (domainBFactsTx d i) pr \<and> supersedable (jState (rwJob r))
      \<and> \<not> (rpClosedUnmerged pr \<and> prBoundActive (jState (rwJob r)))"
    using switch_supersedes [OF fresh(5)] by (simp add: q shaMoved_iff [OF i])
  note on = this [unfolded shaMoved_iff [OF i]]
  have "supersedable s \<longleftrightarrow> s \<in> {StateLeased, StateBuilding, StateReviewPending, StateCodeReview,
      StateMergeable, StateMerging, StateMergeHandoff}" for s by (cases s) simp_all
  moreover have "\<exists>r'. find_row d' i = Some r'
        \<and> jState (rwJob r') = StateReady \<and> jLeaseEpoch (rwJob r') = jLeaseEpoch (rwJob r) + 1
        \<and> jLeaseID (rwJob r') = [] \<and> rwBoundIdentity r' = None \<and> jVerdict (rwJob r') = None
        \<and> jHeadSHA (rwJob r') = [] \<and> rwPatchDiff r' = []
        \<and> jRequiredCapabilities (rwJob r') = [''role:eng_worker'']
        \<and> (\<forall>l\<in>set (tbLeases d'). lrJobID l = i \<longrightarrow> lrEnded l \<noteq> None)
        \<and> (\<forall>x\<in>set (tbOutbox d'). obJobID x = i \<and> obStatus x = ObPending \<and> obHeadSHA x \<noteq> []
             \<longrightarrow> obHeadSHA x = rpHeadSHA pr)" if "ocSuperseded oc"
  proof -
    from switch_superseded [OF fresh(5) that]
    have sup: "supersedeTx (scanJob r) (jJobSeq (rwJob r)) pr ''reconcile'' now [] (upsertDomainBFactsTx i pr d) = Inr d'"
      by (simp add: q)
    have "jID (scanJob r) = i" using i by simp
    with supersede_voids [OF sup] does_find [OF supersede_does [OF sup fresh(4) [unfolded q]]] show ?thesis
      by (simp add: set_seq_def superseded_row_def)
  qed
  ultimately show ?thesis using fresh(2,3) on by (auto simp: older_def)
qed (use assms(2) in \<open>auto simp: no_outcome_def older_def\<close>)

text \<open>A merge hand-off whose head another push replaced.\<close>

definition moved_pr :: ReconciledPR where
  "moved_pr = (bare_pr 7 ''h2'' ''b1'')\<lparr>rpUpdatedAt := 9\<rparr>"

definition moved_db :: DB where
  "moved_db = demo0\<lparr>tbJobs := [verified_job], tbFacts := [''j1'' \<mapsto> pr_facts (bare_pr 7 ''h1'' ''b1'')],
     tbOutbox := [(outbox_row ''j1'' ActionEnqueueMerge ''h1'' [])\<lparr>obID := 1\<rparr>,
                  (outbox_row ''j1'' ActionComment ''review-2'' [])\<lparr>obID := 2\<rparr>]\<rparr>"

lemma moved_ingest:
  "\<exists>d' oc. ApplyReconciledPR moved_db ''j1'' moved_pr 9 = Inr (d', oc) \<and> ocSuperseded oc
     \<and> map obStatus (tbOutbox d') = [ObAbandoned, ObAbandoned]"
proof -
  have f: "find_row moved_db ''j1'' = Some verified_job"
    by (simp add: find_row_def moved_db_def verified_job_def row_id_def seed_row_def demo_seed_def Let_def)
  have v: "jVerdict (rwJob verified_job) = Some (MintVerdict VerdictApproved DispositionHandoff ''h1'' ''b1'')"
    "jState (rwJob verified_job) = StateMergeHandoff" "jHeadSHA (rwJob verified_job) = ''h1''"
    "jJobSeq (rwJob verified_job) = 0" "row_id verified_job = ''j1''"
    by (simp_all add: verified_job_def seed_row_def Let_def row_id_def demo_seed_def zero_job_def)
  have "tbEvents moved_db = []" "fmMergeCommit (tbMarks moved_db ''j1'') = []"
    "fmHeadUpdatedAt (tbMarks moved_db ''j1'') = 0"
    by (simp_all add: moved_db_def demo0_def no_marks_def)
  moreover have "tbOutbox moved_db = [(outbox_row ''j1'' ActionEnqueueMerge ''h1'' [])\<lparr>obID := 1\<rparr>,
      (outbox_row ''j1'' ActionComment ''review-2'' [])\<lparr>obID := 2\<rparr>]" by (simp add: moved_db_def)
  ultimately show ?thesis using v
    by (simp add: ApplyReconciledPR_def loadJobTx_def f Let_def reconcile_switch_def supersedeTx_def
        one_step_def appendEvent_def upsertDomainBFactsTx_def setJobSeq_def close_leases_def
        abandon_stale_def abandon_outbox_def update_outbox_def update_row_def outbox_row_def
        shaMoved_def verdictStale_def flowbeePlaced_def moved_pr_def bare_pr_def no_outcome_def
        superseded_event_def)
qed

lemma moved_row: "find_row moved_db ''j1'' = Some verified_job"
  by (simp add: find_row_def moved_db_def verified_job_def row_id_def seed_row_def demo_seed_def Let_def)

theorem supersede_fences_and_voids_witness:
  "\<exists>d' oc r'. ApplyReconciledPR moved_db ''j1'' moved_pr 9 = Inr (d', oc) \<and> ocSuperseded oc
     \<and> find_row d' ''j1'' = Some r' \<and> jState (rwJob r') = StateReady \<and> jVerdict (rwJob r') = None
     \<and> pr_moved moved_db verified_job moved_pr"
proof -
  from moved_ingest obtain d' oc where a: "ApplyReconciledPR moved_db ''j1'' moved_pr 9 = Inr (d', oc)"
    and s: "ocSuperseded oc" by blast
  from supersede_fences_and_voids [OF a moved_row] a s show ?thesis by blast
qed

text \<open>
  The void goes by the outbox column \<open>head_sha\<close> alone, which for a comment holds
  a dedupe key and for a history write the job's id: a supersede drops the pending
  review comment too (\<open>moved_ingest\<close>).

  Property C23: an ingest neither rewinds nor reopens.  Once a merge commit is recorded
  no ingest touches the recorded facts again: a job that no longer has an open pull
  request is frozen, and one that still has is completed on the strength of the record,
  whatever the ingest says.  As long as no merge is recorded, an ingest older than the
  recorded mark changes nothing.  An ingest that finds the pull request where Flowbee
  itself placed the branch never supersedes.
\<close>

theorem ingest_guards:
  assumes "find_row d i = Some r" and "ApplyReconciledPR d i pr now = Inr (d', oc)"
  shows "(fmMergeCommit (tbMarks d i) \<noteq> [] \<and> \<not> prBoundActive (jState (rwJob r))
        \<longrightarrow> d' = d \<and> ocFrozen oc)
    \<and> (fmMergeCommit (tbMarks d i) \<noteq> [] \<and> prBoundActive (jState (rwJob r)) \<longrightarrow> ocDone oc
        \<and> (\<exists>r'. find_row d' i = Some r' \<and> jState (rwJob r') = StateDone))
    \<and> (fmMergeCommit (tbMarks d i) \<noteq> [] \<longrightarrow> tbFacts d' = tbFacts d \<and> tbMarks d' = tbMarks d)
    \<and> (fmMergeCommit (tbMarks d i) = [] \<and> older d i pr \<longrightarrow> d' = d \<and> oc = no_outcome)
    \<and> (placed_at r pr \<longrightarrow> \<not> ocSuperseded oc)"
  using assms(2)
proof (cases rule: ApplyReconciledPR_cases)
  case (fresh q)
  then have "q = r" using assms(1) by simp
  have "\<not> ocSuperseded oc" if "placed_at r pr"
  proof
    assume "ocSuperseded oc"
    from switch_superseded [OF fresh(5) this] that show False
      by (simp add: shaMoved_def \<open>q = r\<close> placed_at_iff)
  qed
  with fresh show ?thesis by (auto simp: older_def)
next
  case (repair q d1)
  have "find_row (enqueueHistoryWriteTx i d1) i = Some (set_seq (jJobSeq (rwJob q) + 1) (set_state_row StateDone q))"
    using transition_find [OF repair(5,1)]
    by (simp add: find_row_view [OF refl, of "enqueueHistoryWriteTx i d1"]) (simp add: fst_view)
  moreover from repair(5) have "tbFacts d1 = tbFacts d \<and> tbMarks d1 = tbMarks d"
    by (auto simp: reconcileTransitionTx_def one_step_def and_then_Inr_iff setJobSeq_def update_row_def
        appendEvent_tables)
  ultimately show ?thesis using repair assms(1)
    by (simp add: no_outcome_def enqueueHistoryWriteTx_def enqueueOutboxTx_def set_state_row_def set_seq_def)
qed (use assms(1) in \<open>auto simp: no_outcome_def older_def\<close>)

text \<open>The same job in another state and with marks recorded.\<close>

definition marked_db :: "State \<Rightarrow> FactMarks \<Rightarrow> DB" where
  "marked_db s m = moved_db\<lparr>tbJobs := [verified_job\<lparr>rwJob := (rwJob verified_job)\<lparr>jState := s\<rparr>\<rparr>],
     tbMarks := (\<lambda>_. m)\<rparr>"

lemma marked_row:
  "find_row (marked_db s m) ''j1'' = Some (verified_job\<lparr>rwJob := (rwJob verified_job)\<lparr>jState := s\<rparr>\<rparr>)"
  by (simp add: find_row_def marked_db_def verified_job_def row_id_def seed_row_def demo_seed_def Let_def)

lemma marked_runs:
  "\<exists>d' oc. ApplyReconciledPR (marked_db StateMergeHandoff no_marks) ''j1'' (bare_pr 7 ''h1'' ''b1'') 9 = Inr (d', oc)"
  "\<exists>d' oc. ApplyReconciledPR (marked_db StateMergeHandoff (no_marks\<lparr>fmHeadUpdatedAt := 12\<rparr>)) ''j1'' moved_pr 9 = Inr (d', oc)"
  "\<exists>d' oc. ApplyReconciledPR (marked_db StateMergeHandoff (no_marks\<lparr>fmMergeCommit := ''m1''\<rparr>)) ''j1'' moved_pr 9 = Inr (d', oc)"
  "\<exists>d' oc. ApplyReconciledPR (marked_db StateDone (no_marks\<lparr>fmMergeCommit := ''m1''\<rparr>)) ''j1'' moved_pr 9 = Inr (d', oc)"
  using marked_row
  by (simp_all add: ApplyReconciledPR_def loadJobTx_def Let_def reconcile_switch_def shaMoved_def flowbeePlaced_def
      bare_pr_def moved_pr_def reconcileTransitionTx_def one_step_def appendEvent_def no_marks_def marked_db_def
      verified_job_def moved_db_def demo0_def reconcile_event_def)

theorem ingest_guards_witness:
  "(\<exists>d' oc. ApplyReconciledPR (marked_db StateMergeHandoff no_marks) ''j1'' (bare_pr 7 ''h1'' ''b1'') 9 = Inr (d', oc)
      \<and> \<not> ocSuperseded oc)
   \<and> ApplyReconciledPR (marked_db StateMergeHandoff (no_marks\<lparr>fmHeadUpdatedAt := 12\<rparr>)) ''j1'' moved_pr 9
       = Inr (marked_db StateMergeHandoff (no_marks\<lparr>fmHeadUpdatedAt := 12\<rparr>), no_outcome)
   \<and> (\<exists>d' oc. ApplyReconciledPR (marked_db StateMergeHandoff (no_marks\<lparr>fmMergeCommit := ''m1''\<rparr>)) ''j1'' moved_pr 9
       = Inr (d', oc) \<and> ocDone oc)
   \<and> (\<exists>oc. ApplyReconciledPR (marked_db StateDone (no_marks\<lparr>fmMergeCommit := ''m1''\<rparr>)) ''j1'' moved_pr 9
       = Inr (marked_db StateDone (no_marks\<lparr>fmMergeCommit := ''m1''\<rparr>), oc) \<and> ocFrozen oc)"
proof -
  have m: "tbMarks (marked_db s m) i = m" for s m i by (simp add: marked_db_def)
  have "placed_at (verified_job\<lparr>rwJob := (rwJob verified_job)\<lparr>jState := s\<rparr>\<rparr>) (bare_pr 7 ''h1'' ''b1'')" for s
    by (simp add: placed_at_def verified_job_def bare_pr_def seed_row_def Let_def)
  with marked_runs(1) ingest_guards [OF marked_row]
  have "\<exists>d' oc. ApplyReconciledPR (marked_db StateMergeHandoff no_marks) ''j1'' (bare_pr 7 ''h1'' ''b1'') 9 = Inr (d', oc)
      \<and> \<not> ocSuperseded oc" by blast
  moreover have "older (marked_db StateMergeHandoff (no_marks\<lparr>fmHeadUpdatedAt := 12\<rparr>)) ''j1'' moved_pr"
    by (simp add: older_def m moved_pr_def)
  then have "ApplyReconciledPR (marked_db StateMergeHandoff (no_marks\<lparr>fmHeadUpdatedAt := 12\<rparr>)) ''j1'' moved_pr 9
       = Inr (marked_db StateMergeHandoff (no_marks\<lparr>fmHeadUpdatedAt := 12\<rparr>), no_outcome)"
    using marked_runs(2) ingest_guards [OF marked_row, of StateMergeHandoff "no_marks\<lparr>fmHeadUpdatedAt := 12\<rparr>" moved_pr 9]
    by (fastforce simp: m no_marks_def)
  moreover have "\<exists>d' oc. ApplyReconciledPR (marked_db StateMergeHandoff (no_marks\<lparr>fmMergeCommit := ''m1''\<rparr>)) ''j1'' moved_pr 9
       = Inr (d', oc) \<and> ocDone oc"
    using marked_runs(3) ingest_guards [OF marked_row, of StateMergeHandoff "no_marks\<lparr>fmMergeCommit := ''m1''\<rparr>" moved_pr 9]
    by (fastforce simp: m)
  moreover have "\<exists>oc. ApplyReconciledPR (marked_db StateDone (no_marks\<lparr>fmMergeCommit := ''m1''\<rparr>)) ''j1'' moved_pr 9
       = Inr (marked_db StateDone (no_marks\<lparr>fmMergeCommit := ''m1''\<rparr>), oc) \<and> ocFrozen oc"
    using marked_runs(4) ingest_guards [OF marked_row, of StateDone "no_marks\<lparr>fmMergeCommit := ''m1''\<rparr>" moved_pr 9]
    by (fastforce simp: m)
  ultimately show ?thesis by blast
qed

lemma switch_to_done:
  assumes "reconcile_switch (scanJob r) (jJobSeq (rwJob r)) moved pr now d = Inr (d', oc)"
    and "find_row d i = Some r" and "find_row d' i = Some r'"
    and "jState (rwJob r) \<noteq> StateDone" and "jState (rwJob r') = StateDone"
  shows "rpMerged pr \<and> rpMergeCommit pr \<noteq> [] \<and> ocDone oc
    \<and> (jState (rwJob r) = StateNeedsHuman \<or> prBoundActive (jState (rwJob r)) \<and> rpCIGreen pr)"
  using assms(1)
proof (cases rule: switch_cases)
  case broken
  then have "find_row d' i = Some (set_seq (jJobSeq (rwJob r) + 1) (post_merge_row
      (FormatCIFailures (rpFailingChecks pr) (rpFailingCheckURLs pr)) r))"
    unfolding postMergeCIFailureTx_def Let_def scanJob_sel(1) by (elim conjE one_step_find) (simp_all add: assms(2))
  with assms(3,5) show ?thesis by (auto simp: post_merge_row_def set_seq_def)
next
  case closed
  then have "find_row d' i = Some (set_seq (jJobSeq (rwJob r) + 1) (park_row (escalation_str EscalationPRClosed) r))"
    unfolding escalatePRClosedTx_def scanJob_sel(1) by (elim one_step_find) (simp_all add: assms(2))
  with assms(3,5) show ?thesis by (auto simp: park_row_def set_seq_def)
next
  case parked_closed
  with transition_find [OF parked_closed(2) assms(2)] assms(3,5) show ?thesis
    by (simp add: set_state_row_def set_seq_def)
next
  case superseded
  with does_find [OF supersede_does [OF superseded(2) assms(2)]] assms(3,5) show ?thesis
    by (simp add: superseded_row_def set_seq_def)
next
  case bounced
  then show ?thesis
  proof (cases "jBounces (scanJob r) + 1 > jMaxBounces (scanJob r)")
    case True
    with bounced(2) have "find_row d' i = Some (set_seq (jJobSeq (rwJob r) + 1) (ci_exhausted_row
        (FormatCIFailures (rpFailingChecks pr) (rpFailingCheckURLs pr)) r))"
      unfolding ciFailBounceTx_def Let_def by simp (elim one_step_find [where i = i], simp_all add: assms(2))
    with assms(3,5) show ?thesis by (auto simp: ci_exhausted_row_def set_seq_def)
  next
    case False
    with bounced(2) have "find_row d' i = Some (set_seq (jJobSeq (rwJob r) + 1) (ci_bounced_row
        (FormatCIFailures (rpFailingChecks pr) (rpFailingCheckURLs pr)) now r))"
      unfolding ciFailBounceTx_def Let_def by simp (elim one_step_find [where i = i], simp_all add: assms(2))
    with assms(3,5) show ?thesis by (auto simp: ci_bounced_row_def set_seq_def)
  qed
qed (use assms(2-5) in \<open>simp_all add: no_outcome_def\<close>)

text \<open>
  Property C20: GitHub's merge is what completes a job.  An ingest that takes a job to
  \<open>done\<close> found it with an open pull request or parked for a human, and the pull
  request merged with a resolved commit: reported by this ingest (for an open
  one with green CI) or recorded by an earlier one.
\<close>

theorem done_only_when_merged:
  assumes "ApplyReconciledPR d i pr now = Inr (d', oc)"
    and "find_row d i = Some r" and "find_row d' i = Some r'"
    and "jState (rwJob r) \<noteq> StateDone" and "jState (rwJob r') = StateDone"
  shows "ocDone oc \<and>
    (fmMergeCommit (tbMarks d i) \<noteq> [] \<and> prBoundActive (jState (rwJob r))
     \<or> fmMergeCommit (tbMarks d i) = [] \<and> rpMerged pr \<and> rpMergeCommit pr \<noteq> []
       \<and> (jState (rwJob r) = StateNeedsHuman \<or> prBoundActive (jState (rwJob r)) \<and> rpCIGreen pr))"
  using assms(1)
proof (cases rule: ApplyReconciledPR_cases)
  case (fresh q)
  then have q: "q = r" using assms(2) by simp
  from switch_to_done [OF fresh(5) [unfolded q] fresh(4) [unfolded q] assms(3-5)] fresh(2)
  show ?thesis by blast
qed (use assms(2-5) in \<open>auto simp: no_outcome_def\<close>)

definition merged_pr :: ReconciledPR where
  "merged_pr = (bare_pr 7 ''h1'' ''b1'')\<lparr>rpMerged := True, rpMergeCommit := ''m1'', rpCIGreen := True\<rparr>"

definition merged_db :: DB where
  "merged_db = fst (projr (ApplyReconciledPR demo4 ''j1'' merged_pr 9))"

lemma merged_ok:
  "\<not> isl (ApplyReconciledPR demo4 ''j1'' merged_pr 9)"
  "case find_row merged_db ''j1'' of None \<Rightarrow> False | Some r \<Rightarrow> jState (rwJob r) = StateDone"
  by code_simp+

theorem done_only_when_merged_witness:
  "ocDone (snd (projr (ApplyReconciledPR demo4 ''j1'' merged_pr 9))) \<and> rpMerged merged_pr"
proof -
  from demo_row obtain r where r: "find_row demo4 ''j1'' = Some r" "jState (rwJob r) = StateCodeReview"
    by (auto split: option.splits)
  from merged_ok(2) obtain r' where r': "find_row merged_db ''j1'' = Some r'" "jState (rwJob r') = StateDone"
    by (auto split: option.splits)
  from done_only_when_merged [OF projr_pair [OF merged_ok(1)] r(1) r'(1) [unfolded merged_db_def]] r r'
  show ?thesis by (simp add: merged_pr_def)
qed

text \<open>
  Property C26: a late post-merge failure is lost.  The ingest records the merge
  commit whatever CI says; when it finds the checks of a merged pull request still
  running it moves nothing, and from then on the next ingest completes the job
  without looking at CI, so a check that failed after the merge is never raised
  to a human.
\<close>

theorem late_post_merge_failure_lost:
  assumes "find_row d i = Some r" and "counted (events_of d i) r"
    and "prBoundActive (jState (rwJob r))" and "fmMergeCommit (tbMarks d i) = []"
    and "fmHeadUpdatedAt (tbMarks d i) = 0"
    and "rpMerged pr" and "rpMergeCommit pr \<noteq> []" and "\<not> rpCIGreen pr" and "\<not> rpCIFailed pr"
    and "\<not> rpClosedUnmerged pr"
  shows "\<exists>d1 oc1 d2 oc2 r2. ApplyReconciledPR d i pr now = Inr (d1, oc1) \<and> tbJobs d1 = tbJobs d
    \<and> ApplyReconciledPR d1 i late now' = Inr (d2, oc2) \<and> ocDone oc2
    \<and> find_row d2 i = Some r2 \<and> jState (rwJob r2) = StateDone
    \<and> jEscalationReason (rwJob r2) = jEscalationReason (rwJob r)"
proof -
  let ?d1 = "upsertDomainBFactsTx i pr d"
  have r1: "find_row ?d1 i = Some r"
    using assms(1) by (simp add: find_row_view [OF refl, of ?d1]) (simp add: fst_view)
  have ev: "events_of ?d1 i = events_of d i" by (simp add: upsertDomainBFactsTx_def events_of_def)
  have nh: "jState (rwJob r) \<noteq> StateNeedsHuman" using assms(3) by auto
  have first: "ApplyReconciledPR d i pr now = Inr (?d1, no_outcome\<lparr>ocApplied := True\<rparr>)"
    using assms nh by (simp add: ApplyReconciledPR_def loadJobTx_def Let_def reconcile_switch_def shaMoved_def)
  have m: "fmMergeCommit (tbMarks ?d1 i) = rpMergeCommit pr"
    by (simp add: upsertDomainBFactsTx_def pr_marks_def)
  let ?e = "reconcile_event (scanJob r) KindJobCompleted StateDone now' (jJobSeq (rwJob r) + 1)
      (merged_payload (rpMergeCommit pr))"
  have id: "row_id r = i" by (rule find_row_id [OF assms(1)])
  have ap: "appendEvent ?e ?d1 = Inr (?d1\<lparr>tbEvents := tbEvents ?d1 @ [?e]\<rparr>)"
    using assms(2) id by (intro appendEvent_fresh [of _ i r]) (simp_all add: ev)
  then obtain d2 where tr: "reconcileTransitionTx (scanJob r) (jJobSeq (rwJob r)) StateDone KindJobCompleted
      now' (merged_payload (rpMergeCommit pr)) ?d1 = Inr d2"
    by (simp add: reconcileTransitionTx_def one_step_def)
  have second: "ApplyReconciledPR ?d1 i late now' =
      Inr (enqueueHistoryWriteTx i d2, no_outcome\<lparr>ocDone := True\<rparr>)"
    using assms(3,7) r1 m tr by (simp add: ApplyReconciledPR_def loadJobTx_def Let_def)
  from transition_find [OF tr r1]
  have "find_row (enqueueHistoryWriteTx i d2) i = Some (set_seq (jJobSeq (rwJob r) + 1) (set_state_row StateDone r))"
    by (simp add: find_row_view [OF refl, of "enqueueHistoryWriteTx i d2"]) (simp add: fst_view)
  moreover have "tbJobs ?d1 = tbJobs d" by (simp add: upsertDomainBFactsTx_def)
  ultimately show ?thesis using first second
    by (auto simp: set_state_row_def set_seq_def no_outcome_def intro!: exI)
qed

definition pending_pr :: ReconciledPR where
  "pending_pr = merged_pr\<lparr>rpCIGreen := False\<rparr>"

theorem late_post_merge_failure_lost_witness:
  "\<exists>d1 oc1 d2 oc2. ApplyReconciledPR demo4 ''j1'' pending_pr 9 = Inr (d1, oc1)
     \<and> ApplyReconciledPR d1 ''j1'' (pending_pr\<lparr>rpCIFailed := True\<rparr>) 10 = Inr (d2, oc2) \<and> ocDone oc2"
proof -
  from demo_row obtain r where r: "find_row demo4 ''j1'' = Some r" "jState (rwJob r) = StateCodeReview"
    by (auto split: option.splits)
  have m: "tbMarks demo4 ''j1'' = no_marks" by code_simp
  from late_post_merge_failure_lost [OF r(1) cursor.reachable_row [OF demo_reachable(5) r(1)], of pending_pr 9
      "pending_pr\<lparr>rpCIFailed := True\<rparr>" 10] r m
  show ?thesis by (auto simp: no_marks_def pending_pr_def merged_pr_def bare_pr_def)
qed

section \<open>Resolvers\<close>

lemma find_row_mem: "find_row d i = Some b \<Longrightarrow> b \<in> set (tbJobs d) \<and> row_id b = i"
  by (auto simp: find_row_def find_Some_iff)

text \<open>
  Property C25: the recorded builder does not resolve its own conflict.  A claim of a
  conflict is granted only for an unleased conflict, to a worker with the
  capabilities it asks for, whose identity and model family both differ from
  those of the recorded builder; it bumps the epoch and binds the claimant.
\<close>

theorem resolver_is_not_builder:
  assumes "ClaimConflictJob d p = Inr (d', n)"
  shows "\<exists>r r'. find_row d (cpJobID p) = Some r \<and> find_row d' (cpJobID p) = Some r'
    \<and> jState (rwJob r) = StateResolvingConflict \<and> jLeaseID (rwJob r) = []
    \<and> CapabilitiesSatisfy (cpAttested p) (jRequiredCapabilities (rwJob r))
    \<and> n = jLeaseEpoch (rwJob r) + 1 \<and> jLeaseEpoch (rwJob r') = n
    \<and> jState (rwJob r') = StateResolvingConflict \<and> rwBoundIdentity r' = Some (cpIdentity p)
    \<and> (\<forall>b. find_row d (case rwEngWorkerJob r of None \<Rightarrow> row_id r | Some e \<Rightarrow> e) = Some b \<longrightarrow>
         rwBuilderIdentity b \<noteq> Some (cpIdentity p) \<and> rwBuilderModelFamily b \<noteq> Some (cpModelFamily p))"
proof -
  from assms obtain r where r: "find_row d (cpJobID p) = Some r"
    and g: "CapabilitiesSatisfy (cpAttested p) (jRequiredCapabilities (rwJob r))" "\<not> builder_conflict d p r"
    "jState (rwJob r) = StateResolvingConflict" "jLeaseID (rwJob r) = []"
    by (auto simp: ClaimConflictJob_def split: option.splits if_splits)
  from assms show ?thesis
  proof (rule ClaimConflictJob_does)
    fix q
    assume n: "n = jLeaseEpoch (rwJob q) + 1"
      and d: "does (cpJobID p) q (set_seq (jJobSeq (rwJob q) + 1) (conflict_claim_row p q))
        [claim_ledger_event p KindLeaseClaimed StateResolvingConflict StateResolvingConflict n
           (jJobSeq (rwJob q) + 1)] d d'"
    from d r have "q = r" by (simp add: does_def)
    with n does_find [OF d] r g show ?thesis
      by (auto simp: conflict_claim_row_def set_seq_def builder_conflict_def list_ex_iff dest!: find_row_mem)
  qed
qed

text \<open>\<open>ann\<close> builds \<open>j1\<close>, reports a conflict, claims it and resolves it.\<close>

definition conflict1 :: DB where
  "conflict1 = projr (RouteBuildConflict demo2 \<lparr>bcJobID = ''j1'', bcEpoch = 1, bcNewBaseSHA = ''b2'',
     bcBranchDiff = ''diff'', bcNow = 3\<rparr>)"

definition conflict2 :: DB where
  "conflict2 = fst (projr (ClaimConflictJob conflict1
     ((demo_claim ''l2'' ''ann'' ''f1'' RoleConflictResolver)\<lparr>cpAttested := [''role:conflict_resolver'']\<rparr>)))"

definition conflict3 :: DB where
  "conflict3 = fst (projr (ResolveConflictResult conflict2 \<lparr>rzJobID = ''j1'', rzEpoch = 3, rzResolvedDiff = ''diff2'',
     rzDeclaredBlastRadius = [], rzPushedRef = ''ref'', rzPushedSHA = ''h3'', rzNow = 4\<rparr>))"

text \<open>
  Beside the properties: a diverted builder may resolve its own conflict.  A build whose worker
  reports a conflict goes to a resolver without the worker being recorded as the
  builder, so the same worker claims the resolution and delivers it.
\<close>

theorem diverted_builder_resolves_own:
  "(store_step True demo_cfg)\<^sup>*\<^sup>* demo2 conflict3
   \<and> (case find_row demo2 ''j1'' of None \<Rightarrow> False | Some r \<Rightarrow> rwBoundIdentity r = Some ''ann'')
   \<and> (case find_row conflict2 ''j1'' of None \<Rightarrow> False | Some r \<Rightarrow>
        jState (rwJob r) = StateResolvingConflict \<and> rwBoundIdentity r = Some ''ann'')
   \<and> (case find_row conflict3 ''j1'' of None \<Rightarrow> False | Some r \<Rightarrow> jState (rwJob r) = StateReviewPending)"
proof -
  have ok: "\<not> isl (RouteBuildConflict demo2 \<lparr>bcJobID = ''j1'', bcEpoch = 1, bcNewBaseSHA = ''b2'',
     bcBranchDiff = ''diff'', bcNow = 3\<rparr>)"
    "\<not> isl (ClaimConflictJob conflict1
     ((demo_claim ''l2'' ''ann'' ''f1'' RoleConflictResolver)\<lparr>cpAttested := [''role:conflict_resolver'']\<rparr>))"
    "\<not> isl (ResolveConflictResult conflict2 \<lparr>rzJobID = ''j1'', rzEpoch = 3, rzResolvedDiff = ''diff2'',
     rzDeclaredBlastRadius = [], rzPushedRef = ''ref'', rzPushedSHA = ''h3'', rzNow = 4\<rparr>)"
    "case find_row demo2 ''j1'' of None \<Rightarrow> False | Some r \<Rightarrow> rwBoundIdentity r = Some ''ann''"
    "case find_row conflict2 ''j1'' of None \<Rightarrow> False | Some r \<Rightarrow>
        jState (rwJob r) = StateResolvingConflict \<and> rwBoundIdentity r = Some ''ann''"
    "case find_row conflict3 ''j1'' of None \<Rightarrow> False | Some r \<Rightarrow> jState (rwJob r) = StateReviewPending"
    by code_simp+
  have "store_step True demo_cfg demo2 conflict1"
    using step_build_conflict [OF projr_Inr [OF ok(1)], of True demo_cfg] by (simp add: conflict1_def)
  moreover have "store_step True demo_cfg conflict1 conflict2"
    using step_conflict_claim [OF projr_pair [OF ok(2)]] by (simp add: conflict2_def)
  moreover have "store_step True demo_cfg conflict2 conflict3"
    using step_resolve [OF projr_pair [OF ok(3)]] by (simp add: conflict3_def)
  ultimately have "(store_step True demo_cfg)\<^sup>*\<^sup>* demo2 conflict3"
    by (meson rtranclp.rtrancl_into_rtrancl rtranclp.rtrancl_refl)
  with ok(4-6) show ?thesis by blast
qed

text \<open>
  Beside the properties: a rebase asks no state.  \<open>RebaseOnto\<close> with nothing to rebase (or no
  mirror) sends any job to review, in whatever state it is: one that is done,
  cancelled, parked for a human or never built.  It bumps the epoch, so a worker
  on the job is fenced, but leaves the lease rows open.
\<close>

theorem rebase_revives_any_state:
  assumes "find_row d i = Some r" and "counted (events_of d i) r"
  shows "\<exists>d' res r'. RebaseOnto None d \<lparr>roJobID = i, roNewBaseSHA = base, roNow = now, roForceConflict = False\<rparr>
      = Inr (d', res) \<and> find_row d' i = Some r' \<and> jState (rwJob r') = StateReviewPending
    \<and> jLeaseEpoch (rwJob r') = jLeaseEpoch (rwJob r) + 1 \<and> jVerdict (rwJob r') = None
    \<and> jHeadSHA (rwJob r') = [] \<and> tbLeases d' = tbLeases d"
proof -
  let ?e = "rebased_event i (scanJob r) base [] now (jJobSeq (rwJob r) + 1)"
  have ap: "appendEvent ?e d = Inr (d\<lparr>tbEvents := tbEvents d @ [?e]\<rparr>)"
    by (rule appendEvent_fresh [OF assms(2)]) simp_all
  then obtain d' where st: "one_step i (jJobSeq (rwJob r) + 1) ?e (rebased_row base []) id d = Inr d'"
    and l: "tbLeases d' = tbLeases d"
    by (simp add: one_step_def setJobSeq_def update_row_def)
  have "row_id r = i" by (rule find_row_id [OF assms(1)])
  then have "find_row d' i = Some (set_seq (jJobSeq (rwJob r) + 1) (rebased_row base [] r))"
    using does_find [OF one_step_does [OF st assms(1)]] by simp
  with st l assms(1) show ?thesis
    by (simp add: RebaseOnto_def rebase_outcome_def loadJobTx_def rebased_row_def set_seq_def)
qed

theorem rebase_revives_any_state_witness:
  "\<exists>d' res r'. RebaseOnto None merged_db \<lparr>roJobID = ''j1'', roNewBaseSHA = ''b2'', roNow = 10, roForceConflict = False\<rparr>
      = Inr (d', res) \<and> find_row d' ''j1'' = Some r' \<and> jState (rwJob r') = StateReviewPending"
proof -
  from merged_ok(2) obtain r where r: "find_row merged_db ''j1'' = Some r" "jState (rwJob r) = StateDone"
    by (auto split: option.splits)
  have "store_step False demo_cfg demo4 merged_db"
    using step_reconcile [OF projr_pair [OF merged_ok(1)], of False] by (simp add: merged_db_def)
  with demo_reachable(5) have "reachable False demo_cfg merged_db" by (rule reach_step)
  from rebase_revives_any_state [OF r(1) cursor.reachable_row [OF this r(1)]] show ?thesis by blast
qed

section \<open>Builds that run together\<close>

lemma row_candidate_id [simp]: "cJobID (row_candidate r) = row_id r"
  by (simp add: row_candidate_def)

lemma readyWriteSets_row:
  assumes "distinct (job_ids d)" and "q \<in> set (ready_rows d)"
  shows "readyWriteSets cfg d (row_id q) = Some (declaredWriteSet cfg (rwDeclaredBlastRadius q))"
  using assms unfolding readyWriteSets_def
  by (intro map_of_is_SomeI) (auto simp: ready_rows_def job_ids_def comp_def distinct_map_filter)

text \<open>
  Which paths a write-set lets a build write, said without the overlap test: a wide one
  any path, another one what lies at or beneath a declared path in normal form.
\<close>

definition beneath :: "string \<Rightarrow> string \<Rightarrow> bool" where
  "beneath p x \<longleftrightarrow> x = p \<or> prefix (if suffix ''/'' p then p else p @ ''/'') x"

definition names_path :: "string list \<Rightarrow> string \<Rightarrow> bool" where
  "names_path ps x \<longleftrightarrow> (\<exists>p \<in> set ps. normalizeResvPath p \<noteq> [] \<and> beneath (normalizeResvPath p) x)"

definition declares :: "StoreCfg \<Rightarrow> Row \<Rightarrow> string \<Rightarrow> bool" where
  "declares cfg r x \<longleftrightarrow> (let br = decoded_blast cfg (rwDeclaredBlastRadius r) in
     wide_scope br \<or> names_path (brPaths br) x)"

definition reserves :: "StoreCfg \<Rightarrow> Row \<Rightarrow> string \<Rightarrow> bool" where
  "reserves cfg r x \<longleftrightarrow> rwReservationWide r \<or> (case rwReservationPaths r of
     Some ps \<Rightarrow> names_path ps x
   | None \<Rightarrow> scBlastValid cfg (rwDeclaredBlastRadius r) \<and> declares cfg r x)"

definition may_write :: "WriteSet \<Rightarrow> string \<Rightarrow> bool" where
  "may_write w x \<longleftrightarrow> wsWide w \<or> (\<exists>p \<in> set (normalizedNonEmpty (wsPaths w)). in_tree p x)"

lemma may_write_names: "may_write w x \<longleftrightarrow> wsWide w \<or> names_path (wsPaths w) x"
  by (auto simp: may_write_def names_path_def normalizedNonEmpty_def beneath_def in_tree_def isPrefixDir_def)

lemma declares_set: "declares cfg r x \<longleftrightarrow> may_write (declaredWriteSet cfg (rwDeclaredBlastRadius r)) x"
  by (simp add: declares_def may_write_names declaredWriteSet_def Let_def)

lemma no_declaration: "\<not> declares cfg r x"
  if "\<not> hasDeclaration cfg (rwDeclaredBlastRadius r)" "scBlastValid cfg (rwDeclaredBlastRadius r)"
proof -
  have "\<not> EqualFold (TrimSpace []) ''wide''" by code_simp
  with that show ?thesis
    by (auto simp: hasDeclaration_def declares_def decoded_blast_def Let_def names_path_def wide_scope_def
        split: if_splits)
qed

lemma reserves_set:
  assumes "reserves cfg b x"
  shows "\<exists>res. row_reservation cfg b = Some res \<and> may_write (rsvWriteSet res) x"
proof (cases "rwReservationWide b \<or> rwReservationPaths b \<noteq> None")
  case True
  with assms show ?thesis by (auto simp: reserves_def row_reservation_def may_write_names)
next
  case False
  with assms have "scBlastValid cfg (rwDeclaredBlastRadius b)" "declares cfg b x"
    by (simp_all add: reserves_def)
  with False no_declaration [of cfg b x] show ?thesis by (auto simp: row_reservation_def declares_set)
qed

lemma unblocked_apart:
  assumes "BlockedBy i active wso = None" and "res \<in> set active" and "rsvJobID res \<noteq> i" and "wso i = Some ws"
  shows "\<not> (may_write ws x \<and> may_write (rsvWriteSet res) x)"
proof
  assume w: "may_write ws x \<and> may_write (rsvWriteSet res) x"
  then have "wsWide ws \<or> length (normalizedNonEmpty (wsPaths ws)) > 0" by (auto simp: may_write_def)
  with assms have "\<not> Overlaps ws (rsvWriteSet res)"
    by (auto simp: BlockedBy_def candidateWriteSet_def blockingReservation_None_iff)
  moreover have "covers v x" if "may_write v x" for v using that by (auto simp: may_write_def covers_def IsWide_def)
  ultimately show False using w covers_overlap by blast
qed

text \<open>
  Property C24: builds that run together touch different files.  No path can be written both
  by a ready job that is offered for dispatch and by a build in flight, as each declared
  or reserved it: a job that declared a wide scope is offered only while no other build
  holds a path, and while a build in flight holds a wide reservation no other job is
  offered at all.
\<close>

theorem offered_builds_disjoint:
  assumes "reachable strict cfg d" and "q \<in> set (ready_rows d)"
    and "row_candidate q \<in> set (ReadyCandidatesReserved cfg d)" and "b \<in> set (tbJobs d)"
    and "jState (rwJob b) \<in> {StateLeased, StateBuilding, StateResolvingConflict}"
  shows "\<not> (declares cfg q x \<and> reserves cfg b x)
    \<and> (\<forall>res. row_reservation cfg b = Some res \<longrightarrow> \<not> IsWide (rsvWriteSet res))"
proof -
  have build: "in_build (jState (rwJob b))" using assms(5) by (auto simp: in_build_def)
  have "row_id q \<noteq> row_id b"
  proof
    assume "row_id q = row_id b"
    moreover have "q \<in> set (tbJobs d)" "jState (rwJob q) = StateReady" using assms(2) by (auto simp: ready_rows_def)
    moreover have "inj_on row_id (set (tbJobs d))"
      using reachable_ids [OF assms(1)] by (simp add: job_ids_def distinct_map)
    ultimately have "q = b" using assms(4) by (blast dest: inj_onD)
    with \<open>jState (rwJob q) = StateReady\<close> assms(5) show False by simp
  qed
  moreover have "rsvJobID res = row_id b" if "row_reservation cfg b = Some res" for res
    using that by (auto simp: row_reservation_def split: if_splits)
  ultimately have other: "rsvJobID res \<noteq> row_id q" if "row_reservation cfg b = Some res" for res
    using that by auto
  have act: "res \<in> set (ActiveReservations cfg d)" if "row_reservation cfg b = Some res" for res
    using that assms(4) build by (auto simp: ActiveReservations_def map_filter_def intro!: image_eqI [of _ _ b])
  have none: "BlockedBy (row_id q) (ActiveReservations cfg d) (readyWriteSets cfg d) = None"
    if "row_reservation cfg b = Some res" for res
    using act [OF that] assms(3) by (auto simp: ReadyCandidatesReserved_def Let_def filter_keeps_iff split: if_splits)
  note ws = readyWriteSets_row [OF reachable_ids [OF assms(1)] assms(2), of cfg]
  have "\<not> (may_write (declaredWriteSet cfg (rwDeclaredBlastRadius q)) x \<and> may_write (rsvWriteSet res) x)"
    if "row_reservation cfg b = Some res" for res
    by (rule unblocked_apart [OF none [OF that] act [OF that] other [OF that] ws])
  moreover have "\<not> IsWide (rsvWriteSet res)" if "row_reservation cfg b = Some res" for res
    by (rule not_blocked(1) [OF none [OF that] act [OF that] other [OF that]])
  ultimately show ?thesis using reserves_set [of cfg b x] by (auto simp: declares_set)
qed

text \<open>\<open>j1\<close> is in conflict over \<open>src\<close>; \<open>j2\<close> is ready.\<close>

definition declared_cfg :: StoreCfg where
  "declared_cfg = demo_cfg\<lparr>scDecodeBlast := (\<lambda>_. \<lparr>brPaths = [''src''], brScope = []\<rparr>)\<rparr>"

definition inflight3 :: DB where
  "inflight3 = fst (projr (Result declared_cfg demo2 (demo_result\<lparr>rsDeclaredBlastRadius := ''D''\<rparr>)))"

definition inflight4 :: DB where
  "inflight4 = fst (projr (RebaseOnto None inflight3
     \<lparr>roJobID = ''j1'', roNewBaseSHA = ''b2'', roNow = 4, roForceConflict = True\<rparr>))"

definition inflight5 :: DB where
  "inflight5 = projr (seedJobTx declared_cfg inflight4 (demo_seed\<lparr>sdID := ''j2''\<rparr>))"

lemma inflight_ok:
  "seedJobTx declared_cfg demo0 demo_seed = seedJobTx demo_cfg demo0 demo_seed"
  "\<not> isl (Result declared_cfg demo2 (demo_result\<lparr>rsDeclaredBlastRadius := ''D''\<rparr>))"
  "\<not> isl (RebaseOnto None inflight3 \<lparr>roJobID = ''j1'', roNewBaseSHA = ''b2'', roNow = 4, roForceConflict = True\<rparr>)"
  "\<not> isl (seedJobTx declared_cfg inflight4 (demo_seed\<lparr>sdID := ''j2''\<rparr>))"
  by (simp add: seedJobTx_def declared_cfg_def demo_cfg_def armNoEligibleTimerTx_def) code_simp+

lemma inflight_reachable: "reachable False declared_cfg inflight5"
proof -
  have "reachable False declared_cfg demo0" by (rule reach_start) (simp_all add: demo0_def)
  from reach_step [OF this step_seed [where p = demo_seed]] have "reachable False declared_cfg demo1"
    by (simp add: inflight_ok(1) demo_calls(1))
  from reach_step [OF this step_claim [OF demo_calls(2)]] have "reachable False declared_cfg demo2" .
  from reach_step [OF this step_result [OF projr_pair [OF inflight_ok(2)]]]
  have "reachable False declared_cfg inflight3" by (simp add: inflight3_def)
  from reach_step [OF this step_rebase [OF projr_pair [OF inflight_ok(3)]]]
  have "reachable False declared_cfg inflight4" by (simp add: inflight4_def)
  from reach_step [OF this step_seed [OF projr_Inr [OF inflight_ok(4)]]] show ?thesis
    by (simp add: inflight5_def)
qed

text \<open>The conflict over the build of \<open>ann\<close> goes to \<open>bob\<close>, of another family; \<open>ann\<close> is refused.\<close>

definition resolve_claim :: "string \<Rightarrow> string \<Rightarrow> ClaimParams" where
  "resolve_claim who family =
     (demo_claim ''l2'' who family RoleConflictResolver)\<lparr>cpAttested := [''role:conflict_resolver'']\<rparr>"

lemma resolve_claims:
  "\<not> isl (ClaimConflictJob inflight4 (resolve_claim ''bob'' ''f2''))"
  "isl (ClaimConflictJob inflight4 (resolve_claim ''ann'' ''f2''))"
  "case find_row inflight4 ''j1'' of None \<Rightarrow> False | Some r \<Rightarrow>
     rwEngWorkerJob r = Some ''j1'' \<and> rwBuilderIdentity r = Some ''ann'' \<and> row_id r = ''j1''"
  by code_simp+

theorem resolver_is_not_builder_witness:
  "\<exists>d' n r r'. ClaimConflictJob inflight4 (resolve_claim ''bob'' ''f2'') = Inr (d', n)
     \<and> find_row inflight4 ''j1'' = Some r \<and> find_row d' ''j1'' = Some r'
     \<and> rwBuilderIdentity r = Some ''ann'' \<and> rwBuilderModelFamily r \<noteq> Some ''f2''
     \<and> rwBoundIdentity r' = Some ''bob''"
proof -
  from resolve_claims(3) obtain r where r: "find_row inflight4 ''j1'' = Some r" "rwEngWorkerJob r = Some ''j1''"
    "rwBuilderIdentity r = Some ''ann''" "row_id r = ''j1''"
    by (auto split: option.splits)
  have p: "cpJobID (resolve_claim ''bob'' ''f2'') = ''j1''" "cpIdentity (resolve_claim ''bob'' ''f2'') = ''bob''"
    "cpModelFamily (resolve_claim ''bob'' ''f2'') = ''f2''"
    by (simp_all add: resolve_claim_def demo_claim_def)
  obtain d' n where c: "ClaimConflictJob inflight4 (resolve_claim ''bob'' ''f2'') = Inr (d', n)"
    using projr_pair [OF resolve_claims(1)] by blast
  from resolver_is_not_builder [OF c] c r show ?thesis by (auto simp: p)
qed

theorem offered_builds_disjoint_witness:
  "row_candidate (tbJobs inflight5 ! 1) \<in> set (ReadyCandidatesReserved declared_cfg inflight5)
   \<and> reserves declared_cfg (tbJobs inflight5 ! 0) ''src/a''
   \<and> \<not> declares declared_cfg (tbJobs inflight5 ! 1) ''src/a''"
proof -
  have two: "length (tbJobs inflight5) = 2" "jState (rwJob (tbJobs inflight5 ! 1)) = StateReady"
    "jState (rwJob (tbJobs inflight5 ! 0)) = StateResolvingConflict"
    "\<not> rwReservationWide (tbJobs inflight5 ! 0)" "rwReservationPaths (tbJobs inflight5 ! 0) = None"
    "rwDeclaredBlastRadius (tbJobs inflight5 ! 0) = ''D''"
    "list_ex (\<lambda>c. cJobID c = ''j2'') (ReadyCandidatesReserved declared_cfg inflight5)"
    "ReadyCandidates inflight5 = [row_candidate (tbJobs inflight5 ! 1)]"
    by code_simp+
  have off: "row_candidate (tbJobs inflight5 ! 1) \<in> set (ReadyCandidatesReserved declared_cfg inflight5)"
    using two(7,8) by (auto simp: ReadyCandidatesReserved_def list_ex_iff ReservationFilter_def Let_def split: if_splits)
  have "normalizeResvPath ''src'' = ''src''" by code_simp
  then have "reserves declared_cfg (tbJobs inflight5 ! 0) ''src/a''"
    using two(4-6) by (simp add: reserves_def declares_def names_path_def beneath_def decoded_blast_def
        declared_cfg_def demo_cfg_def)
  moreover have "tbJobs inflight5 ! 1 \<in> set (ready_rows inflight5)" "tbJobs inflight5 ! 0 \<in> set (tbJobs inflight5)"
    using two(1,2) by (simp_all add: ready_rows_def)
  ultimately show ?thesis
    using offered_builds_disjoint [OF inflight_reachable _ off, of "tbJobs inflight5 ! 0" "''src/a''"] two(3) off by simp
qed

text \<open>
  A reservation recorded for a job that declared nothing is an empty path list, which
  \<open>IsWide\<close> reads as the whole tree, though such a build is meant to hold none.
\<close>

lemma recorded_nothing_is_wide:
  "declaredWriteSet cfg (rwDeclaredBlastRadius r) = \<lparr>wsPaths = [], wsWide = False\<rparr> \<Longrightarrow>
   \<exists>res. row_reservation cfg (reserve_row (declaredWriteSet cfg (rwDeclaredBlastRadius r)) r) = Some res
     \<and> IsWide (rsvWriteSet res)"
  by (simp add: row_reservation_def reserve_row_def IsWide_def normalizedNonEmpty_def)

end
