(* ===== verification/Github.thy ===== *)
theory Github
  imports Json
begin

text \<open>
  The GitHub surface of \<open>internal/github/github.go\<close>: the facts of a pull request
  and how they are read from a node of the sweep (\<open>prFromNode\<close>), the error values
  a call can return and how they are told apart, the back-off of a rate limit,
  and the narrow interface (\<open>Writer\<close>, \<open>Client\<close> and the optional readers) the
  reconciler and the project-OUT sender are written against.

  The outside world is a value of type \<open>'w\<close> that every call passes on.  An instant
  is its distance from Go's zero time in nanoseconds; GitHub documents carry
  instants as such numbers here.
\<close>

section \<open>Facts\<close>

definition CISuccess :: string where "CISuccess = ''SUCCESS''"
definition CIPending :: string where "CIPending = ''PENDING''"
definition CIFailure :: string where "CIFailure = ''FAILURE''"
definition CIError :: string where "CIError = ''ERROR''"
definition CINone :: string where "CINone = ''''"

text \<open>A map of URLs is the function its lookups give, \<open>[]\<close> for a missing key.\<close>

record PullRequest =
  prNumber :: int
  prUpdatedAt :: int
  prIsDraft :: bool
  prMerged :: bool
  prMergedAt :: int
  prHeadRefOid :: string
  prBaseRefOid :: string
  prMergeCommit :: string
  prMergeableState :: string
  prClosedUnmerged :: bool
  prCIRollup :: string
  prCIHasRealSuccess :: bool
  prFailingChecks :: "string list"
  prFailingCheckURLs :: "string \<Rightarrow> string"
  prPassedChecks :: "string list"
  prCheckContextsTruncated :: bool
  prLabels :: "string list"

record Issue =
  isNumber :: int
  isUpdatedAt :: int
  isLabels :: "string list"
  isTitle :: string
  isBody :: string

record RateLimit =
  rlLimit :: int
  rlRemaining :: int
  rlResetAt :: int

record BoardSnapshot =
  bsPullRequests :: "PullRequest list"
  bsIssues :: "Issue list"
  bsRateLimit :: RateLimit

record OpenPRInput =
  oiTitle :: string
  oiBody :: string
  oiHeadRef :: string
  oiBaseRef :: string
  oiDraft :: bool

record CreateIssueInput =
  ciTitle :: string
  ciBody :: string
  ciLabels :: "string list"

record Protection =
  ptRequirePR :: bool
  ptRequiredReviews :: int
  ptRequireCodeOwnerReview :: bool
  ptDismissStale :: bool
  ptRequiredChecks :: "string list"
  ptNoForcePush :: bool
  ptRequireDistinctReviewer :: bool

section \<open>Errors\<close>

text \<open>
  \<open>ErrRetryAfter\<close> and \<open>ErrGitHub\<close> are the two error types, the next four wrap the
  sentinels of a merge (\<open>fmt.Errorf("%w: %v", sentinel, err)\<close>) with the text they
  wrap, and the rest is \<open>ErrOther\<close>.  \<open>ErrWrapped\<close> is \<open>fmt.Errorf("...: %w", err)\<close>, which
  \<open>errors.Is\<close> and \<open>errors.As\<close> see through.
\<close>

datatype gh_error =
    ErrRetryAfter int
  | ErrGitHub int string string string
  | ErrMergeConflict string
  | ErrMergeBaseModified string
  | ErrMergeRuleViolationPending string
  | ErrMergeHeadModified string
  | ErrOther string
  | ErrWrapped string gh_error

fun gh_root :: "gh_error \<Rightarrow> gh_error" where
  "gh_root (ErrWrapped p e) = gh_root e"
| "gh_root e = e"

text \<open>
  \<open>Duration.String\<close> from one second up, the only durations a retry carries
  (\<open>clampBackoff\<close>): hours and minutes when there are any, and the seconds with
  their fraction.
\<close>

definition strip_zeros :: "string \<Rightarrow> string" where
  "strip_zeros s = rev (dropWhile (\<lambda>c. c = CHR ''0'') (rev s))"

definition duration_string :: "int \<Rightarrow> string" where
  "duration_string d =
     (let secs = d div 1000000000; frac = d mod 1000000000; m = secs div 60; h = m div 60;
          tail = strip_zeros (drop 1 (dec_int (1000000000 + frac))) in
      (if h > 0 then dec_int h @ ''h'' else []) @ (if m > 0 then dec_int (m mod 60) @ ''m'' else [])
      @ dec_int (secs mod 60) @ (if tail = [] then [] else ''.'' @ tail) @ ''s'')"

fun gh_text :: "gh_error \<Rightarrow> string" where
  "gh_text (ErrRetryAfter d) = ''retry after '' @ duration_string d"
| "gh_text (ErrGitHub st m p b) = ''rest '' @ m @ '' '' @ p @ '': '' @ dec_int st @ '': '' @ b"
| "gh_text (ErrMergeConflict t) = ''pull request has merge conflicts (not mergeable): '' @ t"
| "gh_text (ErrMergeBaseModified t) = ''merge base branch was modified (retryable): '' @ t"
| "gh_text (ErrMergeRuleViolationPending t) =
     ''merge blocked by pending repository rule violation (retryable): '' @ t"
| "gh_text (ErrMergeHeadModified t) = ''merge head branch was modified after review: '' @ t"
| "gh_text (ErrOther t) = t"
| "gh_text (ErrWrapped p e) = p @ '': '' @ gh_text e"

definition permanent_status :: "int \<Rightarrow> bool" where
  "permanent_status st \<longleftrightarrow> st \<ge> 400 \<and> st < 500 \<and> st \<noteq> 408 \<and> st \<noteq> 429"

text \<open>\<open>errors.As(err, &ghErr) && ghErr.Permanent()\<close>.\<close>

definition Permanent :: "gh_error \<Rightarrow> bool" where
  "Permanent e = (case gh_root e of ErrGitHub st m p b \<Rightarrow> permanent_status st | _ \<Rightarrow> False)"

definition retry_after :: "gh_error \<Rightarrow> int option" where
  "retry_after e = (case gh_root e of ErrRetryAfter d \<Rightarrow> Some d | _ \<Rightarrow> None)"

definition is_merge_conflict :: "gh_error \<Rightarrow> bool" where
  "is_merge_conflict e = (case gh_root e of ErrMergeConflict t \<Rightarrow> True | _ \<Rightarrow> False)"

definition is_head_modified :: "gh_error \<Rightarrow> bool" where
  "is_head_modified e = (case gh_root e of ErrMergeHeadModified t \<Rightarrow> True | _ \<Rightarrow> False)"

definition is_rule_pending :: "gh_error \<Rightarrow> bool" where
  "is_rule_pending e = (case gh_root e of ErrMergeRuleViolationPending t \<Rightarrow> True | _ \<Rightarrow> False)"

definition isMergeConflict :: "gh_error \<Rightarrow> bool" where
  "isMergeConflict e \<longleftrightarrow> (let s = ToLower (gh_text e) in
     Contains s ''405'' \<and> (Contains s ''merge conflict'' \<or> Contains s ''not mergeable''))"

definition isBaseModified :: "gh_error \<Rightarrow> bool" where
  "isBaseModified e \<longleftrightarrow> (let s = ToLower (gh_text e) in
     Contains s ''405'' \<and> Contains s ''base branch was modified'')"

definition isMergeRuleBehind :: "gh_error \<Rightarrow> bool" where
  "isMergeRuleBehind e \<longleftrightarrow> (let s = ToLower (gh_text e) in
     Contains s ''branch is not up to date'' \<or> Contains s ''must be up to date'' \<or> Contains s ''behind'')"

definition isMergeRuleViolationPending :: "gh_error \<Rightarrow> bool" where
  "isMergeRuleViolationPending e \<longleftrightarrow> (let s = ToLower (gh_text e) in
     if \<not> Contains s ''405'' \<or> \<not> Contains s ''repository rule violations found'' then False
     else Contains s ''required status check'' \<and> Contains s ''is expected'' \<or> isMergeRuleBehind e)"

definition isHeadModified :: "gh_error \<Rightarrow> bool" where
  "isHeadModified e \<longleftrightarrow> (let s = ToLower (gh_text e) in
     Contains s ''409'' \<and> Contains s ''head branch was modified'')"

definition isPRAlreadyExists :: "gh_error \<Rightarrow> bool" where
  "isPRAlreadyExists e \<longleftrightarrow> (let s = ToLower (gh_text e) in
     Contains s ''422'' \<and> Contains s ''already exists'')"

section \<open>Rate limits\<close>

definition second :: int where "second = 1000000000"
definition hour :: int where "hour = 3600 * second"

definition clampBackoff :: "int \<Rightarrow> int" where
  "clampBackoff d = (if d < second then second else if d > hour then hour else d)"

text \<open>
  \<open>time.Duration(secs) * time.Second\<close> is a 64-bit product.  \<open>time.Unix\<close> counts from
  Go's zero time in a 64-bit word too; \<open>time.Until\<close> saturates, which the clamp makes
  indistinguishable from the exact difference.
\<close>

definition seconds_duration :: "int \<Rightarrow> int" where
  "seconds_duration n = sint (word_of_int (n * second) :: 64 word)"

definition unix_instant :: "int \<Rightarrow> int" where
  "unix_instant n = sint (word_of_int (n + 62135596800) :: 64 word) * second"

definition reset_backoff :: "(string \<Rightarrow> string) \<Rightarrow> int \<Rightarrow> int option" where
  "reset_backoff h now =
     (if h ''X-RateLimit-Remaining'' = ''0''
      then map_option (\<lambda>u. clampBackoff (unix_instant u - now)) (Atoi (TrimSpace (h ''X-RateLimit-Reset'')))
      else None)"

definition rateLimitBackoff :: "(string \<Rightarrow> string) \<Rightarrow> int \<Rightarrow> int option" where
  "rateLimitBackoff h now =
     (case Atoi (TrimSpace (h ''Retry-After'')) of
        Some secs \<Rightarrow> if secs \<ge> 0 then Some (clampBackoff (seconds_duration secs)) else reset_backoff h now
      | None \<Rightarrow> reset_backoff h now)"

definition isGraphQLRateLimited :: "string \<Rightarrow> string \<Rightarrow> bool" where
  "isGraphQLRateLimited typ msg \<longleftrightarrow>
     EqualFold typ ''RATE_LIMITED'' \<or> Contains (ToLower msg) ''rate limit''"

end
