(* ===== verification/Github_Board.thy ===== *)
theory Github_Board
  imports Github
begin

text \<open>
  What a board sweep reads, \<open>internal/github/github.go\<close>: the node of a pull request
  with its check contexts (\<open>prNode\<close>), the fact it stands for (\<open>prFromNode\<close>), one
  page of the sweep (\<open>sweepData\<close>) and the fold of the pages into a snapshot
  (\<open>accumulate\<close>), deduplicated by number.
\<close>

section \<open>A pull request node\<close>

record CheckContext =
  ccTypename :: string
  ccName :: string
  ccConclusion :: string
  ccDetailsURL :: string
  ccContext :: string
  ccState :: string
  ccTargetURL :: string

record Rollup =
  roState :: string
  roHasNextPage :: bool
  roNodes :: "CheckContext list"

record PrNode =
  pnNumber :: int
  pnUpdatedAt :: int
  pnIsDraft :: bool
  pnMerged :: bool
  pnMergedAt :: int
  pnHeadRefOid :: string
  pnBaseRefOid :: string
  pnMergeableState :: string
  pnMergeCommit :: "string option"
  pnRollups :: "Rollup option list"
  pnLabels :: "string list"

text \<open>Decoding by the struct tags.\<close>

definition decode_context :: "JSONValue \<Rightarrow> CheckContext" where
  "decode_context v =
     \<lparr>ccTypename = jstring (jmember ''__typename'' v), ccName = jstring (jmember ''name'' v),
      ccConclusion = jstring (jmember ''conclusion'' v), ccDetailsURL = jstring (jmember ''detailsUrl'' v),
      ccContext = jstring (jmember ''context'' v), ccState = jstring (jmember ''state'' v),
      ccTargetURL = jstring (jmember ''targetUrl'' v)\<rparr>"

definition decode_rollup :: "JSONValue \<Rightarrow> Rollup option" where
  "decode_rollup v =
     (if jpresent v
      then Some \<lparr>roState = jstring (jmember ''state'' v),
                 roHasNextPage = jbool (jpath [''contexts'', ''pageInfo'', ''hasNextPage''] v),
                 roNodes = map decode_context (jlist (jpath [''contexts'', ''nodes''] v))\<rparr>
      else None)"

definition label_names :: "JSONValue \<Rightarrow> string list" where
  "label_names v = map (\<lambda>l. jstring (jmember ''name'' l)) (jlist (jpath [''labels'', ''nodes''] v))"

definition decode_node :: "JSONValue \<Rightarrow> PrNode" where
  "decode_node v =
     \<lparr>pnNumber = jint (jmember ''number'' v), pnUpdatedAt = jint (jmember ''updatedAt'' v),
      pnIsDraft = jbool (jmember ''isDraft'' v), pnMerged = jbool (jmember ''merged'' v),
      pnMergedAt = jint (jmember ''mergedAt'' v), pnHeadRefOid = jstring (jmember ''headRefOid'' v),
      pnBaseRefOid = jstring (jmember ''baseRefOid'' v),
      pnMergeableState = jstring (jmember ''mergeStateStatus'' v),
      pnMergeCommit = (let c = jmember ''mergeCommit'' v in
        if jpresent c then Some (jstring (jmember ''oid'' c)) else None),
      pnRollups = map (\<lambda>n. decode_rollup (jpath [''commit'', ''statusCheckRollup''] n))
        (jlist (jpath [''commits'', ''nodes''] v)),
      pnLabels = label_names v\<rparr>"

section \<open>The fact of a node\<close>

definition check_succeeded :: "CheckContext \<Rightarrow> bool" where
  "check_succeeded c \<longleftrightarrow> (ccTypename c = ''CheckRun'' \<and> ccConclusion c = ''SUCCESS'')
     \<or> (ccTypename c = ''StatusContext'' \<and> ccState c = ''SUCCESS'')"

definition check_skipped :: "CheckContext \<Rightarrow> bool" where
  "check_skipped c \<longleftrightarrow> ccTypename c = ''CheckRun''
     \<and> (ccConclusion c = ''SKIPPED'' \<or> ccConclusion c = ''NEUTRAL'')"

definition run_failed :: "CheckContext \<Rightarrow> bool" where
  "run_failed c \<longleftrightarrow> ccTypename c = ''CheckRun''
     \<and> ccConclusion c \<in> {''FAILURE'', ''TIMED_OUT'', ''STARTUP_FAILURE'', ''CANCELLED''}"

definition status_failed :: "CheckContext \<Rightarrow> bool" where
  "status_failed c \<longleftrightarrow> ccTypename c = ''StatusContext'' \<and> ccState c \<in> {''FAILURE'', ''ERROR''}"

definition success_name :: "CheckContext \<Rightarrow> string" where
  "success_name c =
     (if ccTypename c = ''CheckRun'' \<and> ccName c \<noteq> [] then ccName c
      else if ccTypename c = ''StatusContext'' \<and> ccContext c \<noteq> [] then ccContext c else [])"

definition add_passed :: "string \<Rightarrow> PullRequest \<Rightarrow> PullRequest" where
  "add_passed n pr = (if n = [] then pr else pr\<lparr>prPassedChecks := prPassedChecks pr @ [n]\<rparr>)"

definition add_failing :: "string \<Rightarrow> string \<Rightarrow> PullRequest \<Rightarrow> PullRequest" where
  "add_failing n url pr =
     (if n = [] then pr
      else pr\<lparr>prFailingChecks := prFailingChecks pr @ [n],
              prFailingCheckURLs := (if url = [] then prFailingCheckURLs pr
                                     else (prFailingCheckURLs pr)(n := url))\<rparr>)"

text \<open>One turn of the loop over the check contexts.\<close>

definition read_context :: "PullRequest \<Rightarrow> CheckContext \<Rightarrow> PullRequest" where
  "read_context pr c =
     (let pr1 = (if check_succeeded c
                 then add_passed (success_name c) (pr\<lparr>prCIHasRealSuccess := True\<rparr>) else pr);
          pr2 = (if check_skipped c then add_passed (ccName c) pr1 else pr1) in
      if run_failed c then add_failing (ccName c) (ccDetailsURL c) pr2
      else if status_failed c then add_failing (ccContext c) (ccTargetURL c) pr2
      else pr2)"

definition bare_fact :: "PrNode \<Rightarrow> PullRequest" where
  "bare_fact n =
     \<lparr>prNumber = pnNumber n, prUpdatedAt = pnUpdatedAt n, prIsDraft = pnIsDraft n,
      prMerged = pnMerged n, prMergedAt = pnMergedAt n, prHeadRefOid = pnHeadRefOid n,
      prBaseRefOid = pnBaseRefOid n,
      prMergeCommit = (case pnMergeCommit n of None \<Rightarrow> [] | Some oid \<Rightarrow> oid),
      prMergeableState = pnMergeableState n, prClosedUnmerged = False, prCIRollup = CINone,
      prCIHasRealSuccess = False, prFailingChecks = [], prFailingCheckURLs = (\<lambda>_. []),
      prPassedChecks = [], prCheckContextsTruncated = False, prLabels = []\<rparr>"

definition prFromNode :: "PrNode \<Rightarrow> PullRequest" where
  "prFromNode n =
     (let pr = (case pnRollups n of
          Some r # rest \<Rightarrow> foldl read_context
            ((bare_fact n)\<lparr>prCIRollup := roState r, prCheckContextsTruncated := roHasNextPage r\<rparr>) (roNodes r)
        | _ \<Rightarrow> bare_fact n)
      in pr\<lparr>prLabels := pnLabels n\<rparr>)"

section \<open>Pages\<close>

record PageInfo =
  piHasNextPage :: bool
  piEndCursor :: string

record SweepData =
  sdPRPage :: PageInfo
  sdPRs :: "PrNode list"
  sdMerged :: "PrNode list"
  sdClosed :: "PrNode list"
  sdIssuePage :: PageInfo
  sdIssues :: "Issue list"
  sdRate :: RateLimit

definition decode_page :: "JSONValue \<Rightarrow> PageInfo" where
  "decode_page v = \<lparr>piHasNextPage = jbool (jpath [''pageInfo'', ''hasNextPage''] v),
     piEndCursor = jstring (jpath [''pageInfo'', ''endCursor''] v)\<rparr>"

definition decode_issue :: "JSONValue \<Rightarrow> Issue" where
  "decode_issue v =
     \<lparr>isNumber = jint (jmember ''number'' v), isUpdatedAt = jint (jmember ''updatedAt'' v),
      isLabels = label_names v, isTitle = jstring (jmember ''title'' v),
      isBody = jstring (jmember ''body'' v)\<rparr>"

definition decode_sweep :: "JSONValue \<Rightarrow> SweepData" where
  "decode_sweep v =
     (let r = jmember ''repository'' v; prs = jmember ''pullRequests'' r; iss = jmember ''issues'' r;
          nodes = (\<lambda>c. map decode_node (jlist (jmember ''nodes'' c))); lim = jmember ''rateLimit'' v in
      \<lparr>sdPRPage = decode_page prs, sdPRs = nodes prs, sdMerged = nodes (jmember ''mergedPullRequests'' r),
       sdClosed = nodes (jmember ''closedPullRequests'' r), sdIssuePage = decode_page iss,
       sdIssues = map decode_issue (jlist (jmember ''nodes'' iss)),
       sdRate = \<lparr>rlLimit = jint (jmember ''limit'' lim), rlRemaining = jint (jmember ''remaining'' lim),
                 rlResetAt = jint (jmember ''resetAt'' lim)\<rparr>\<rparr>)"

text \<open>
  The snapshot and the two sets of numbers seen; a member of a list stands for a
  true entry of the map.
\<close>

record SweepState =
  ssSnap :: BoardSnapshot
  ssSeenPR :: "int list"
  ssSeenIssue :: "int list"

definition add_pr :: "(PullRequest \<Rightarrow> PullRequest) \<Rightarrow> SweepState \<Rightarrow> PrNode \<Rightarrow> SweepState" where
  "add_pr mark s n =
     (if pnNumber n \<in> set (ssSeenPR s) then s
      else s\<lparr>ssSeenPR := ssSeenPR s @ [pnNumber n],
             ssSnap := (ssSnap s)\<lparr>bsPullRequests := bsPullRequests (ssSnap s) @ [mark (prFromNode n)]\<rparr>\<rparr>)"

definition add_issue :: "SweepState \<Rightarrow> Issue \<Rightarrow> SweepState" where
  "add_issue s i =
     (if isNumber i \<in> set (ssSeenIssue s) then s
      else s\<lparr>ssSeenIssue := ssSeenIssue s @ [isNumber i],
             ssSnap := (ssSnap s)\<lparr>bsIssues := bsIssues (ssSnap s) @ [i]\<rparr>\<rparr>)"

definition closed_unmerged :: "PullRequest \<Rightarrow> PullRequest" where
  "closed_unmerged pr = pr\<lparr>prClosedUnmerged := True\<rparr>"

definition accumulate :: "SweepData \<Rightarrow> SweepState \<Rightarrow> SweepState" where
  "accumulate d s =
     foldl add_issue
       (foldl (add_pr closed_unmerged) (foldl (add_pr id) (foldl (add_pr id) s (sdPRs d)) (sdMerged d)) (sdClosed d))
       (sdIssues d)"

end
