(* ===== verification/Github_Client.thy ===== *)
theory Github_Client
  imports Github_Board
begin

text \<open>
  The caller of GitHub, \<open>RealClient\<close> of \<open>internal/github/github.go\<close>, over a
  transport: how a response becomes a value or an error (\<open>rest\<close>, \<open>graphQL\<close>), the
  sweep that pages to exhaustion, and every read and write of the interface the
  program is written against (\<open>github\<close>).  The transport (the network, the token)
  is the parameter.  Each call takes the world and returns it, with a result or
  an error.
\<close>

type_synonym ('w, 'a) io = "'w \<Rightarrow> (gh_error + 'a) \<times> 'w"

definition io_then :: "('w, 'a) io \<Rightarrow> ('a \<Rightarrow> ('w, 'b) io) \<Rightarrow> ('w, 'b) io" where
  "io_then m f w = (case m w of (Inl e, w1) \<Rightarrow> (Inl e, w1) | (Inr x, w1) \<Rightarrow> f x w1)"

definition io_return :: "'a \<Rightarrow> ('w, 'a) io" where
  "io_return x w = (Inr x, w)"

definition io_fail :: "gh_error \<Rightarrow> ('w, 'a) io" where
  "io_fail e w = (Inl e, w)"

text \<open>A handler of the error of a call.\<close>

definition io_rescue :: "('w, 'a) io \<Rightarrow> (gh_error \<Rightarrow> ('w, 'a) io) \<Rightarrow> ('w, 'a) io" where
  "io_rescue m f w = (case m w of (Inl e, w1) \<Rightarrow> f e w1 | (Inr x, w1) \<Rightarrow> (Inr x, w1))"

abbreviation io_wrap :: "string \<Rightarrow> ('w, 'a) io \<Rightarrow> ('w, 'a) io" where
  "io_wrap p m \<equiv> io_rescue m (\<lambda>e. io_fail (ErrWrapped p e))"

section \<open>The interface\<close>

text \<open>
  \<open>Writer\<close>, with \<open>BranchProtectionReader\<close>, which every writer satisfies; \<open>Client\<close>,
  \<open>RequiredChecksReader\<close> and \<open>MergeUnsticker\<close> are asked for by type assertion, so
  they are optional.
\<close>

record 'w github =
  ghOpenPR :: "OpenPRInput \<Rightarrow> ('w, int) io"
  ghCreateIssue :: "CreateIssueInput \<Rightarrow> ('w, int) io"
  ghIssueComment :: "int \<Rightarrow> string \<Rightarrow> ('w, unit) io"
  ghSetLabels :: "int \<Rightarrow> string list \<Rightarrow> ('w, unit) io"
  ghCreateCheck :: "string \<Rightarrow> string \<Rightarrow> string \<Rightarrow> ('w, unit) io"
  ghEnqueueMergeQueue :: "int \<Rightarrow> string \<Rightarrow> ('w, unit) io"
  ghConvertToDraft :: "int \<Rightarrow> ('w, unit) io"
  ghDeleteBranch :: "string \<Rightarrow> ('w, unit) io"
  ghPutFiles :: "(string \<times> string) list \<Rightarrow> string \<Rightarrow> string \<Rightarrow> ('w, unit) io"
  ghBranchProtection :: "string \<Rightarrow> ('w, Protection option) io"
  ghPullRequest :: "(int \<Rightarrow> ('w, PullRequest option) io) option"
  ghRequiredChecks :: "(string \<Rightarrow> ('w, string list) io) option"
  ghUnsticker :: "((int \<Rightarrow> ('w, string option) io) \<times> (int \<Rightarrow> ('w, unit) io)) option"

section \<open>The transport\<close>

text \<open>
  A response is its status, its headers (\<open>[]\<close> for an absent one), its body and the
  document the body encodes (or \<open>json.Unmarshal\<close>'s error), and the error of reading
  the body, if any.  A request is its method, its path below the repository
  (unescaped) and its JSON body, or the query and its variables; \<open>htGetDiff\<close> is the
  GET that asks for a diff.
\<close>

record HTTPResponse =
  hrStatus :: int
  hrHeader :: "string \<Rightarrow> string"
  hrBody :: string
  hrJSON :: "string + JSONValue"
  hrReadErr :: "string option"

record 'w transport =
  htNow :: "'w \<Rightarrow> int"
  htToken :: "'w \<Rightarrow> (string + string) \<times> 'w"
  htSend :: "string \<Rightarrow> string \<Rightarrow> JSONValue \<Rightarrow> 'w \<Rightarrow> (string + HTTPResponse) \<times> 'w"
  htGetDiff :: "string \<Rightarrow> 'w \<Rightarrow> (string + HTTPResponse) \<times> 'w"

definition with_token :: "'w transport \<Rightarrow> ('w, 'a) io \<Rightarrow> ('w, 'a) io" where
  "with_token t m w = (case htToken t w of
     (Inl e, w1) \<Rightarrow> (Inl (ErrWrapped ''installation token'' (ErrOther e)), w1)
   | (Inr tok, w1) \<Rightarrow> m w1)"

definition http_do :: "('w \<Rightarrow> (string + HTTPResponse) \<times> 'w) \<Rightarrow> ('w, HTTPResponse) io" where
  "http_do send w = (case send w of
     (Inl e, w1) \<Rightarrow> (Inl (ErrOther e), w1) | (Inr r, w1) \<Rightarrow> (Inr r, w1))"

definition minute :: int where "minute = 60 * second"

text \<open>What \<open>rest\<close> makes of a response.\<close>

definition rest_error :: "int \<Rightarrow> string \<Rightarrow> string \<Rightarrow> HTTPResponse \<Rightarrow> gh_error option" where
  "rest_error now method path r =
     (case (if hrStatus r = 403 \<or> hrStatus r = 429
            then (case rateLimitBackoff (hrHeader r) now of
                    Some d \<Rightarrow> Some d | None \<Rightarrow> if hrStatus r = 429 then Some minute else None)
            else None) of
        Some d \<Rightarrow> Some (ErrRetryAfter d)
      | None \<Rightarrow> (case hrReadErr r of
          Some e \<Rightarrow> Some (ErrWrapped (''read '' @ method @ '' '' @ path @ '' response body (status ''
                      @ dec_int (hrStatus r) @ '')'') (ErrOther e))
        | None \<Rightarrow> if hrStatus r < 200 \<or> hrStatus r \<ge> 300
                   then Some (ErrGitHub (hrStatus r) method path (hrBody r)) else None))"

definition rest :: "'w transport \<Rightarrow> string \<Rightarrow> string \<Rightarrow> JSONValue \<Rightarrow> ('w, HTTPResponse) io" where
  "rest t method path body =
     with_token t (io_then (http_do (htSend t method path body)) (\<lambda>r w.
       case rest_error (htNow t w) method path r of
         Some e \<Rightarrow> (Inl e, w) | None \<Rightarrow> (Inr r, w)))"

text \<open>With an \<open>out\<close> to decode into; an empty body leaves it zero.\<close>

definition rest_out :: "'w transport \<Rightarrow> string \<Rightarrow> string \<Rightarrow> JSONValue \<Rightarrow> ('w, JSONValue) io" where
  "rest_out t method path body =
     io_then (rest t method path body) (\<lambda>r w.
       if hrBody r = [] then (Inr JNull, w)
       else case hrJSON r of Inl e \<Rightarrow> (Inl (ErrOther e), w) | Inr v \<Rightarrow> (Inr v, w))"

definition rest_unit :: "'w transport \<Rightarrow> string \<Rightarrow> string \<Rightarrow> JSONValue \<Rightarrow> ('w, unit) io" where
  "rest_unit t method path body = io_then (rest t method path body) (\<lambda>r. io_return ())"

text \<open>\<open>graphQL\<close>; the query text is not interpreted, so a short name stands for it.\<close>

definition graphql_error :: "int \<Rightarrow> HTTPResponse \<Rightarrow> gh_error option" where
  "graphql_error now r =
     (case hrReadErr r of
        Some e \<Rightarrow> Some (ErrWrapped ''read graphql response body'' (ErrOther e))
      | None \<Rightarrow> if hrStatus r \<noteq> 200
                 then Some (ErrOther (''graphql '' @ dec_int (hrStatus r) @ '': '' @ hrBody r))
                 else (case hrJSON r of
                    Inl e \<Rightarrow> Some (ErrWrapped ''decode graphql'' (ErrOther e))
                  | Inr v \<Rightarrow> (case jlist (jmember ''errors'' v) of
                      [] \<Rightarrow> None
                    | e # es \<Rightarrow>
                        let typ = jstring (jmember ''type'' e); msg = jstring (jmember ''message'' e) in
                        if isGraphQLRateLimited typ msg
                        then Some (ErrRetryAfter (case rateLimitBackoff (hrHeader r) now of
                               Some d \<Rightarrow> d | None \<Rightarrow> minute))
                        else Some (ErrOther (''graphql error: '' @ msg)))))"

definition graphQL :: "'w transport \<Rightarrow> string \<Rightarrow> JSONValue \<Rightarrow> ('w, JSONValue) io" where
  "graphQL t query vars =
     with_token t (io_then (http_do (htSend t ''POST'' query vars)) (\<lambda>r w.
       case graphql_error (htNow t w) r of
         Some e \<Rightarrow> (Inl e, w)
       | None \<Rightarrow> (case hrJSON r of
           Inl e \<Rightarrow> (Inl (ErrOther e), w) | Inr v \<Rightarrow> (Inr (jmember ''data'' v), w))))"

section \<open>Reads\<close>

definition sweepMaxPages :: nat where "sweepMaxPages = 1000"

definition opt_str :: "string option \<Rightarrow> JSONValue" where
  "opt_str c = (case c of None \<Rightarrow> JNull | Some s \<Rightarrow> JStr s)"

definition advance :: "string option \<Rightarrow> PageInfo \<Rightarrow> string option" where
  "advance cur pg = (if piEndCursor pg = [] then cur else Some (piEndCursor pg))"

text \<open>
  The loop of \<open>BoardSweep\<close>, with the pages left before the cap as its measure:
  \<open>fetch\<close> reads the page at the two cursors, with the recent merges on page 0.
\<close>

fun sweep_loop ::
  "(string option \<Rightarrow> string option \<Rightarrow> bool \<Rightarrow> ('w, SweepData) io) \<Rightarrow> nat \<Rightarrow> bool \<Rightarrow>
   string option \<Rightarrow> string option \<Rightarrow> bool \<Rightarrow> bool \<Rightarrow> SweepState \<Rightarrow> ('w, SweepState) io" where
  "sweep_loop fetch 0 first prCur isCur prMore isMore s w = (Inr s, w)"
| "sweep_loop fetch (Suc k) first prCur isCur prMore isMore s w =
     (if \<not> prMore \<and> \<not> isMore then (Inr s, w)
      else case fetch prCur isCur first w of
        (Inl e, w1) \<Rightarrow> (Inl e, w1)
      | (Inr d, w1) \<Rightarrow>
          (let s1 = accumulate d s;
               s2 = (if first then s1\<lparr>ssSnap := (ssSnap s1)\<lparr>bsRateLimit := sdRate d\<rparr>\<rparr> else s1) in
           sweep_loop fetch k False (advance prCur (sdPRPage d)) (advance isCur (sdIssuePage d))
             (piHasNextPage (sdPRPage d)) (piHasNextPage (sdIssuePage d)) s2 w1))"

definition empty_sweep :: SweepState where
  "empty_sweep = \<lparr>ssSnap = \<lparr>bsPullRequests = [], bsIssues = [],
     bsRateLimit = \<lparr>rlLimit = 0, rlRemaining = 0, rlResetAt = 0\<rparr>\<rparr>, ssSeenPR = [], ssSeenIssue = []\<rparr>"

definition sweep_page :: "'w transport \<Rightarrow> string option \<Rightarrow> string option \<Rightarrow> bool \<Rightarrow> ('w, SweepData) io" where
  "sweep_page t prCur isCur first =
     io_then (graphQL t ''BoardSweep'' (JObj [(''prCursor'', opt_str prCur), (''issueCursor'', opt_str isCur),
       (''includeMerged'', JBool first)])) (\<lambda>v. io_return (decode_sweep v))"

definition BoardSweep :: "'w transport \<Rightarrow> ('w, BoardSnapshot) io" where
  "BoardSweep t = io_then (sweep_loop (sweep_page t) sweepMaxPages True None None True True empty_sweep)
     (\<lambda>s. io_return (ssSnap s))"

definition BranchCIState :: "'w transport \<Rightarrow> string \<Rightarrow> ('w, string) io" where
  "BranchCIState t branch =
     io_then (graphQL t ''BranchCI'' (JObj [(''ref'', JStr (''refs/heads/'' @ branch))])) (\<lambda>v.
       io_return (jstring (jpath [''repository'', ''ref'', ''target'', ''statusCheckRollup'', ''state''] v)))"

definition PullRequest_read :: "'w transport \<Rightarrow> int \<Rightarrow> ('w, PullRequest option) io" where
  "PullRequest_read t n =
     io_then (graphQL t ''PR'' (JObj [(''number'', JInt n)])) (\<lambda>v.
       let p = jpath [''repository'', ''pullRequest''] v in
       io_return (if jpresent p then Some (prFromNode (decode_node p)) else None))"

definition pull_path :: "int \<Rightarrow> string" where
  "pull_path n = ''/pulls/'' @ dec_int n"

text \<open>The diff of a pull request, refused when it moved while it was read.\<close>

definition PullRequestDiff :: "'w transport \<Rightarrow> int \<Rightarrow> string \<Rightarrow> string \<Rightarrow> ('w, string) io" where
  "PullRequestDiff t n base head =
     with_token t (io_then (http_do (htGetDiff t (pull_path n))) (\<lambda>r.
       case hrReadErr r of
         Some e \<Rightarrow> io_fail (ErrWrapped (''read pr #'' @ dec_int n @ '' diff response body'') (ErrOther e))
       | None \<Rightarrow>
           if hrStatus r < 200 \<or> hrStatus r \<ge> 300
           then io_fail (ErrGitHub (hrStatus r) ''GET'' (pull_path n) (hrBody r))
           else io_then (PullRequest_read t n) (\<lambda>pr. case pr of
               None \<Rightarrow> io_fail (ErrOther (''pr #'' @ dec_int n @ '' disappeared while fetching diff''))
             | Some p \<Rightarrow>
                 if prBaseRefOid p \<noteq> base \<or> prHeadRefOid p \<noteq> head
                 then io_fail (ErrOther (''pr #'' @ dec_int n @ '' moved while fetching diff: base '' @ base
                        @ ''->'' @ prBaseRefOid p @ '' head '' @ head @ ''->'' @ prHeadRefOid p))
                 else io_return (hrBody r))))"

definition PullMergeableState :: "'w transport \<Rightarrow> int \<Rightarrow> ('w, string option) io" where
  "PullMergeableState t n =
     io_rescue (io_then (rest_out t ''GET'' (pull_path n) JNull)
         (\<lambda>v. io_return (Some (jstring (jmember ''mergeable_state'' v)))))
       (\<lambda>e. case gh_root e of
          ErrGitHub st m p b \<Rightarrow> if st = 404 then io_return None else io_fail e
        | _ \<Rightarrow> io_fail e)"

definition decode_protection :: "JSONValue \<Rightarrow> Protection" where
  "decode_protection v =
     (let rv = jmember ''required_pull_request_reviews'' v; ch = jmember ''required_status_checks'' v;
          n = jint (jmember ''required_approving_review_count'' rv); has = jpresent rv in
      \<lparr>ptRequirePR = has, ptRequiredReviews = (if has then n else 0),
       ptRequireCodeOwnerReview = has \<and> jbool (jmember ''require_code_owner_reviews'' rv),
       ptDismissStale = has \<and> jbool (jmember ''dismiss_stale_reviews'' rv),
       ptRequiredChecks = (if jpresent ch then map jstring (jlist (jmember ''contexts'' ch)) else []),
       ptNoForcePush = (\<not> jbool (jpath [''allow_force_pushes'', ''enabled''] v)),
       ptRequireDistinctReviewer = has \<and> n \<ge> 1\<rparr>)"

definition BranchProtection :: "'w transport \<Rightarrow> string \<Rightarrow> ('w, Protection option) io" where
  "BranchProtection t branch =
     io_then (rest_out t ''GET'' (''/branches/'' @ branch @ ''/protection'') JNull)
       (\<lambda>v. io_return (Some (decode_protection v)))"

definition rule_contexts :: "JSONValue \<Rightarrow> string list" where
  "rule_contexts r =
     (if jstring (jmember ''type'' r) \<noteq> ''required_status_checks'' then []
      else filter (\<lambda>c. c \<noteq> []) (map (\<lambda>sc. jstring (jmember ''context'' sc))
             (jlist (jpath [''parameters'', ''required_status_checks''] r))))"

definition BranchRequiredChecks :: "'w transport \<Rightarrow> string \<Rightarrow> ('w, string list) io" where
  "BranchRequiredChecks t branch =
     io_then (rest_out t ''GET'' (''/rules/branches/'' @ branch) JNull)
       (\<lambda>v. io_return (concat (map rule_contexts (jlist v))))"

section \<open>Writes\<close>

definition openPRByHead :: "'w transport \<Rightarrow> string \<Rightarrow> 'w \<Rightarrow> int option \<times> 'w" where
  "openPRByHead t head w =
     (case rest_out t ''GET'' (''/pulls?state=open&head='' @ head) JNull w of
        (Inl e, w1) \<Rightarrow> (None, w1)
      | (Inr v, w1) \<Rightarrow> (case jlist v of [] \<Rightarrow> None | p # ps \<Rightarrow> Some (jint (jmember ''number'' p)), w1))"

definition OpenPR :: "'w transport \<Rightarrow> OpenPRInput \<Rightarrow> ('w, int) io" where
  "OpenPR t inp =
     io_rescue (io_then (rest_out t ''POST'' ''/pulls''
         (JObj [(''title'', JStr (oiTitle inp)), (''body'', JStr (oiBody inp)), (''head'', JStr (oiHeadRef inp)),
                (''base'', JStr (oiBaseRef inp)), (''draft'', JBool (oiDraft inp))]))
         (\<lambda>v. io_return (jint (jmember ''number'' v))))
       (\<lambda>e. if isPRAlreadyExists e
            then (\<lambda>w. case openPRByHead t (oiHeadRef inp) w of
                   (Some n, w1) \<Rightarrow> (Inr n, w1) | (None, w1) \<Rightarrow> (Inl e, w1))
            else io_fail e)"

definition CreateIssue :: "'w transport \<Rightarrow> CreateIssueInput \<Rightarrow> ('w, int) io" where
  "CreateIssue t inp =
     io_then (rest_out t ''POST'' ''/issues''
       (JObj [(''title'', JStr (ciTitle inp)), (''body'', JStr (ciBody inp)),
              (''labels'', JList (map JStr (ciLabels inp)))]))
       (\<lambda>v. io_return (jint (jmember ''number'' v)))"

definition IssueComment :: "'w transport \<Rightarrow> int \<Rightarrow> string \<Rightarrow> ('w, unit) io" where
  "IssueComment t n body = rest_unit t ''POST'' (''/issues/'' @ dec_int n @ ''/comments'')
     (JObj [(''body'', JStr body)])"

definition SetLabels :: "'w transport \<Rightarrow> int \<Rightarrow> string list \<Rightarrow> ('w, unit) io" where
  "SetLabels t n labels = rest_unit t ''PUT'' (''/issues/'' @ dec_int n @ ''/labels'')
     (JObj [(''labels'', JList (map JStr labels))])"

definition CreateCheck :: "'w transport \<Rightarrow> string \<Rightarrow> string \<Rightarrow> string \<Rightarrow> ('w, unit) io" where
  "CreateCheck t sha name conclusion = rest_unit t ''POST'' ''/check-runs''
     (JObj [(''name'', JStr name), (''head_sha'', JStr sha), (''status'', JStr ''completed''),
            (''conclusion'', JStr conclusion)])"

text \<open>The merge: the expected head rides as the \<open>sha\<close> GitHub compares.\<close>

definition merge_body :: "string \<Rightarrow> JSONValue" where
  "merge_body head = JObj ((''merge_method'', JStr ''merge'') # (if head = [] then [] else [(''sha'', JStr head)]))"

definition merge_refusal :: "'w transport \<Rightarrow> int \<Rightarrow> gh_error \<Rightarrow> ('w, unit) io" where
  "merge_refusal t n e =
     (if isHeadModified e then io_fail (ErrMergeHeadModified (gh_text e))
      else if isBaseModified e then io_fail (ErrMergeBaseModified (gh_text e))
      else if isMergeRuleViolationPending e then io_fail (ErrMergeRuleViolationPending (gh_text e))
      else if isMergeConflict e
        then (\<lambda>w. case PullRequest_read t n w of
                (Inr (Some p), w1) \<Rightarrow> (if prMerged p then Inr () else Inl (ErrMergeConflict (gh_text e)), w1)
              | (r, w1) \<Rightarrow> (Inl (ErrMergeConflict (gh_text e)), w1))
      else io_fail e)"

definition EnqueueMergeQueue :: "'w transport \<Rightarrow> int \<Rightarrow> string \<Rightarrow> ('w, unit) io" where
  "EnqueueMergeQueue t n head =
     io_rescue (rest_unit t ''PUT'' (pull_path n @ ''/merge'') (merge_body head)) (merge_refusal t n)"

definition UpdateBranch :: "'w transport \<Rightarrow> int \<Rightarrow> ('w, unit) io" where
  "UpdateBranch t n = rest_unit t ''PUT'' (pull_path n @ ''/update-branch'') JNull"

definition DeleteBranch :: "'w transport \<Rightarrow> string \<Rightarrow> ('w, unit) io" where
  "DeleteBranch t branch =
     io_rescue (rest_unit t ''DELETE'' (''/git/refs/heads/'' @ branch) JNull)
       (\<lambda>e. case gh_root e of
          ErrGitHub st m p b \<Rightarrow> if st = 404 \<or> st = 422 then io_return () else io_fail e
        | _ \<Rightarrow> io_fail e)"

definition tree_entry :: "string \<times> string \<Rightarrow> JSONValue" where
  "tree_entry f = JObj [(''path'', JStr (fst f)), (''mode'', JStr ''100644''), (''type'', JStr ''blob''),
     (''content'', JStr (snd f))]"

text \<open>
  \<open>PutFiles\<close>: five attempts at reading the tip, stacking a tree, committing and
  fast-forwarding.  One attempt either ends the call or asks for the next one.
\<close>

definition put_attempt ::
  "'w transport \<Rightarrow> (string \<times> string) list \<Rightarrow> string \<Rightarrow> string \<Rightarrow> bool \<Rightarrow> ('w, bool) io" where
  "put_attempt t files message branch final =
     io_then (io_wrap (''get ref '' @ branch) (rest_out t ''GET'' (''/git/ref/heads/'' @ branch) JNull)) (\<lambda>ref.
     let parent = jstring (jpath [''object'', ''sha''] ref) in
     io_then (io_wrap (''get commit '' @ parent) (rest_out t ''GET'' (''/git/commits/'' @ parent) JNull)) (\<lambda>commit.
     let base = jstring (jpath [''tree'', ''sha''] commit) in
     io_then (io_wrap ''create tree'' (rest_out t ''POST'' ''/git/trees''
       (JObj [(''base_tree'', JStr base), (''tree'', JList (map tree_entry files))]))) (\<lambda>tree.
     let new = jstring (jmember ''sha'' tree) in
     if new = [] \<or> new = base then io_return True
     else io_then (io_wrap ''create commit'' (rest_out t ''POST'' ''/git/commits''
       (JObj [(''message'', JStr message), (''tree'', JStr new), (''parents'', JList [JStr parent])]))) (\<lambda>c.
     io_rescue (io_then (rest_unit t ''PATCH'' (''/git/refs/heads/'' @ branch)
         (JObj [(''sha'', JStr (jstring (jmember ''sha'' c)))])) (\<lambda>u. io_return True))
       (\<lambda>e. case gh_root e of
          ErrGitHub st m p b \<Rightarrow> if \<not> final \<and> st = 422 then io_return False
                                else io_fail (ErrWrapped (''update ref '' @ branch) e)
        | _ \<Rightarrow> io_fail (ErrWrapped (''update ref '' @ branch) e))))))"

fun put_loop :: "'w transport \<Rightarrow> (string \<times> string) list \<Rightarrow> string \<Rightarrow> string \<Rightarrow> nat \<Rightarrow> ('w, unit) io" where
  "put_loop t files message branch 0 =
     io_fail (ErrOther (''update ref '' @ branch @ '': exhausted 5 fast-forward attempts (branch kept moving)''))"
| "put_loop t files message branch (Suc k) =
     io_then (put_attempt t files message branch (k = 0))
       (\<lambda>ended. if ended then io_return () else put_loop t files message branch k)"

definition PutFiles :: "'w transport \<Rightarrow> (string \<times> string) list \<Rightarrow> string \<Rightarrow> string \<Rightarrow> ('w, unit) io" where
  "PutFiles t files message branch =
     (if files = [] then io_return () else put_loop t files message branch 5)"

definition ConvertToDraft :: "'w transport \<Rightarrow> int \<Rightarrow> ('w, unit) io" where
  "ConvertToDraft t n =
     io_then (io_wrap (''resolve pr '' @ dec_int n @ '' node id'')
       (graphQL t ''PRNode'' (JObj [(''number'', JInt n)]))) (\<lambda>v.
     let p = jpath [''repository'', ''pullRequest''] v; node = jstring (jmember ''id'' p) in
     if \<not> jpresent p \<or> node = [] then io_fail (ErrOther (''pr '' @ dec_int n @ '' not found for draft-back''))
     else if jbool (jmember ''isDraft'' p) then io_return ()
     else io_then (io_wrap (''convert pr '' @ dec_int n @ '' to draft'')
       (graphQL t ''Draft'' (JObj [(''id'', JStr node)]))) (\<lambda>m.
     if jbool (jpath [''convertPullRequestToDraft'', ''pullRequest'', ''isDraft''] m) then io_return ()
     else io_fail (ErrOther (''pr '' @ dec_int n @ '' still not draft after convertPullRequestToDraft''))))"

text \<open>The real client behind the interface.\<close>

definition real_client :: "'w transport \<Rightarrow> 'w github" where
  "real_client t =
     \<lparr>ghOpenPR = OpenPR t, ghCreateIssue = CreateIssue t, ghIssueComment = IssueComment t,
      ghSetLabels = SetLabels t, ghCreateCheck = CreateCheck t, ghEnqueueMergeQueue = EnqueueMergeQueue t,
      ghConvertToDraft = ConvertToDraft t, ghDeleteBranch = DeleteBranch t, ghPutFiles = PutFiles t,
      ghBranchProtection = BranchProtection t, ghPullRequest = Some (PullRequest_read t),
      ghRequiredChecks = Some (BranchRequiredChecks t),
      ghUnsticker = Some (PullMergeableState t, UpdateBranch t)\<rparr>"

end
