(* ===== verification/Runes.thy ===== *)
theory Runes
  imports Prelude
begin

text \<open>
  Runes: a Go string is bytes, \<open>[]rune(s)\<close> decodes them as UTF-8, giving U+FFFD for
  each byte that starts no valid sequence, and \<open>string(rs)\<close> encodes.  Encoding
  is undone by decoding, and an ASCII byte of an encoded text is a rune of it, so
  a cut at one falls between runes.
\<close>

section \<open>Decoding\<close>

definition replacement :: nat where "replacement = 0xFFFD"

definition cont :: "nat \<Rightarrow> bool" where "cont b \<longleftrightarrow> 0x80 \<le> b \<and> b \<le> 0xBF"

text \<open>The second byte of a three- or four-byte sequence, as \<open>unicode/utf8\<close> restricts it.\<close>

definition second3 :: "nat \<Rightarrow> nat \<Rightarrow> bool" where
  "second3 b0 b1 \<longleftrightarrow> cont b1 \<and> (b0 = 0xE0 \<longrightarrow> 0xA0 \<le> b1) \<and> (b0 = 0xED \<longrightarrow> b1 \<le> 0x9F)"

definition second4 :: "nat \<Rightarrow> nat \<Rightarrow> bool" where
  "second4 b0 b1 \<longleftrightarrow> cont b1 \<and> (b0 = 0xF0 \<longrightarrow> 0x90 \<le> b1) \<and> (b0 = 0xF4 \<longrightarrow> b1 \<le> 0x8F)"

definition rune2 :: "nat \<Rightarrow> nat \<Rightarrow> nat" where
  "rune2 b0 b1 = (b0 - 0xC0) * 64 + (b1 - 0x80)"

definition rune3 :: "nat \<Rightarrow> nat \<Rightarrow> nat \<Rightarrow> nat" where
  "rune3 b0 b1 b2 = ((b0 - 0xE0) * 64 + (b1 - 0x80)) * 64 + (b2 - 0x80)"

definition rune4 :: "nat \<Rightarrow> nat \<Rightarrow> nat \<Rightarrow> nat \<Rightarrow> nat" where
  "rune4 b0 b1 b2 b3 = (((b0 - 0xF0) * 64 + (b1 - 0x80)) * 64 + (b2 - 0x80)) * 64 + (b3 - 0x80)"

text \<open>The rune at the front of a non-empty byte string, and its width.\<close>

fun decode_rune :: "nat list \<Rightarrow> nat \<times> nat" where
  "decode_rune (b0 # bs) =
     (if b0 < 0x80 then (b0, 1)
      else if 0xC2 \<le> b0 \<and> b0 \<le> 0xDF then
        (case bs of
           b1 # _ \<Rightarrow> if cont b1 then (rune2 b0 b1, 2) else (replacement, 1)
         | _ \<Rightarrow> (replacement, 1))
      else if 0xE0 \<le> b0 \<and> b0 \<le> 0xEF then
        (case bs of
           b1 # b2 # _ \<Rightarrow> if second3 b0 b1 \<and> cont b2
             then (rune3 b0 b1 b2, 3) else (replacement, 1)
         | _ \<Rightarrow> (replacement, 1))
      else if 0xF0 \<le> b0 \<and> b0 \<le> 0xF4 then
        (case bs of
           b1 # b2 # b3 # _ \<Rightarrow> if second4 b0 b1 \<and> cont b2 \<and> cont b3
             then (rune4 b0 b1 b2 b3, 4)
             else (replacement, 1)
         | _ \<Rightarrow> (replacement, 1))
      else (replacement, 1))"
| "decode_rune [] = (replacement, 1)"

lemma decode_width: "0 < snd (decode_rune bs)"
  by (cases bs) (auto split: list.splits)

function rune_list :: "nat list \<Rightarrow> nat list" where
  "rune_list bs = (if bs = [] then [] else fst (decode_rune bs) # rune_list (drop (snd (decode_rune bs)) bs))"
  by pat_completeness auto
termination
  by (relation "measure length") (simp_all add: decode_width)

declare rune_list.simps [simp del]

definition runes :: "string \<Rightarrow> nat list" where
  "runes s = rune_list (map of_char s)"

section \<open>Encoding\<close>

definition valid_rune :: "nat \<Rightarrow> bool" where
  "valid_rune r \<longleftrightarrow> r < 0xD800 \<or> 0xE000 \<le> r \<and> r \<le> 0x10FFFF"

definition encode_rune :: "nat \<Rightarrow> nat list" where
  "encode_rune r =
     (if r < 0x80 then [r]
      else if r < 0x800 then [0xC0 + r div 64, 0x80 + r mod 64]
      else if \<not> valid_rune r then [0xEF, 0xBF, 0xBD]
      else if r < 0x10000 then [0xE0 + r div 4096, 0x80 + r div 64 mod 64, 0x80 + r mod 64]
      else [0xF0 + r div 262144, 0x80 + r div 4096 mod 64, 0x80 + r div 64 mod 64, 0x80 + r mod 64])"

definition string_of_runes :: "nat list \<Rightarrow> string" where
  "string_of_runes rs = map char_of (concat (map encode_rune rs))"

lemma split64: "r = r div 64 * 64 + r mod 64" for r :: nat
  by simp

lemma decode_encode:
  assumes "valid_rune r"
  shows "decode_rune (encode_rune r @ bs) = (r, length (encode_rune r))"
proof -
  have m: "r mod 64 \<le> 63" "r div 64 mod 64 \<le> 63" "r div 4096 mod 64 \<le> 63"
    using mod_less_divisor [of 64 r] mod_less_divisor [of 64 "r div 64"]
      mod_less_divisor [of 64 "r div 4096"] by linarith+
  consider "r < 0x80" | "0x80 \<le> r" "r < 0x800" | "0x800 \<le> r" "r < 0x10000" | "0x10000 \<le> r"
    by linarith
  then show ?thesis
  proof cases
    case 1
    then show ?thesis by (simp add: encode_rune_def)
  next
    case 2
    have "2 \<le> r div 64" "r div 64 < 32" using 2 by auto
    with 2 m show ?thesis by (simp add: encode_rune_def cont_def rune2_def)
  next
    case 3
    have q: "r div 4096 < 16" "r div 4096 = r div 64 div 64" using 3 by (auto simp: div_mult2_eq)
    have s1: "r div 64 = r div 64 div 64 * 64 + r div 64 mod 64" by simp
    have low: "r div 4096 = 0 \<Longrightarrow> 32 \<le> r div 64 mod 64"
      using 3 q s1 by auto
    have sur: "r div 4096 = 13 \<Longrightarrow> r div 64 mod 64 \<le> 31"
    proof -
      assume "r div 4096 = 13"
      then have "r < 0xE000" by auto
      then have "r < 0xD800" using assms by (simp add: valid_rune_def)
      then have "r div 64 < 864" by auto
      with \<open>r div 4096 = 13\<close> q s1 show ?thesis by linarith
    qed
    have v: "((r div 4096) * 64 + r div 64 mod 64) * 64 + r mod 64 = r"
      using q(2) by (metis div_mult_mod_eq)
    show ?thesis using 3 q(1) m low sur v assms
      by (simp add: encode_rune_def second3_def cont_def rune3_def)
  next
    case 4
    have le: "r \<le> 0x10FFFF" using 4 assms by (simp add: valid_rune_def)
    have q: "r div 262144 = r div 64 div 64 div 64" "r div 4096 = r div 64 div 64"
      by (simp_all add: div_mult2_eq [symmetric])
    have b: "r div 262144 \<le> 4" using le by auto
    have s2: "r div 4096 = r div 262144 * 64 + r div 4096 mod 64"
      using q by (metis div_mult_mod_eq)
    have low: "r div 262144 = 0 \<Longrightarrow> 16 \<le> r div 4096 mod 64" using 4 s2 by auto
    have high: "r div 262144 = 4 \<Longrightarrow> r div 4096 mod 64 \<le> 15"
    proof -
      assume a: "r div 262144 = 4"
      have "r div 4096 \<le> 271" using le by auto
      with a s2 show ?thesis by linarith
    qed
    have v: "((r div 262144 * 64 + r div 4096 mod 64) * 64 + r div 64 mod 64) * 64 + r mod 64 = r"
      using q by (metis div_mult_mod_eq)
    have n: "\<not> 0xF0 + r div 262144 \<le> 0xEF" "valid_rune r" using assms by simp_all
    show ?thesis using 4 b m low high v n
      by (simp add: encode_rune_def second4_def cont_def rune4_def)
  qed
qed

lemma encode_nonempty: "encode_rune r \<noteq> []"
  by (simp add: encode_rune_def)

lemma rune_list_encode:
  assumes "list_all valid_rune rs"
  shows "rune_list (concat (map encode_rune rs)) = rs"
  using assms
proof (induction rs)
  case Nil
  show ?case by (subst rune_list.simps) simp
next
  case (Cons r rs)
  then show ?case
    by (subst rune_list.simps) (simp add: decode_encode encode_nonempty)
qed

lemma encode_bytes: "b \<in> set (encode_rune r) \<Longrightarrow> b < 256"
proof -
  assume b: "b \<in> set (encode_rune r)"
  have "r mod 64 < 64" "r div 64 mod 64 < 64" "r div 4096 mod 64 < 64" by simp_all
  moreover have "r < 0x800 \<Longrightarrow> r div 64 < 32" "r < 0x10000 \<Longrightarrow> r div 4096 < 16" by auto
  moreover have "valid_rune r \<Longrightarrow> r div 262144 \<le> 4" by (auto simp: valid_rune_def)
  ultimately show "b < 256" using b
    by (auto simp: encode_rune_def split: if_splits)
qed

lemma bytes_of_runes: "map of_char (string_of_runes rs) = concat (map encode_rune rs)"
proof -
  have "\<forall>b \<in> set (concat (map encode_rune rs)). b < 256" by (auto dest: encode_bytes)
  then have "map (\<lambda>x. x mod 256) (concat (map encode_rune rs)) = concat (map encode_rune rs)"
    by (intro map_idI) (metis mod_less)
  then show ?thesis by (simp add: string_of_runes_def comp_def)
qed

lemma runes_string_of_runes: "list_all valid_rune rs \<Longrightarrow> runes (string_of_runes rs) = rs"
  by (simp add: runes_def bytes_of_runes rune_list_encode)

lemma string_of_runes_append [simp]:
  "string_of_runes (rs @ qs) = string_of_runes rs @ string_of_runes qs"
  by (simp add: string_of_runes_def)

lemma three_valid:
  assumes "b0 \<le> 0xEF" "second3 b0 b1" "cont b2"
  shows "valid_rune (rune3 b0 b1 b2)"
proof -
  obtain x y z where xyz: "x = b0 - 0xE0" "y = b1 - 0x80" "z = b2 - 0x80" by blast
  have b: "x \<le> 15" "y \<le> 63" "z \<le> 63" and s: "x = 13 \<longrightarrow> y \<le> 31"
    using assms xyz by (auto simp: second3_def cont_def)
  consider "x \<le> 12" | "x = 13" | "14 \<le> x" by linarith
  then have "valid_rune ((x * 64 + y) * 64 + z)"
    using b s by cases (auto simp: valid_rune_def)
  then show ?thesis by (simp only: rune3_def xyz)
qed

lemma four_valid:
  assumes "b0 \<le> 0xF4" "0xF0 \<le> b0" "second4 b0 b1" "cont b2" "cont b3"
  shows "valid_rune (rune4 b0 b1 b2 b3)"
proof -
  obtain x y z u where xyz: "x = b0 - 0xF0" "y = b1 - 0x80" "z = b2 - 0x80" "u = b3 - 0x80" by blast
  have b: "x \<le> 4" "y \<le> 63" "z \<le> 63" "u \<le> 63" and s: "x = 0 \<longrightarrow> 16 \<le> y" "x = 4 \<longrightarrow> y \<le> 15"
    using assms xyz by (auto simp: second4_def cont_def)
  consider "x = 0" | "1 \<le> x" "x \<le> 3" | "x = 4" using b by linarith
  then have "valid_rune (((x * 64 + y) * 64 + z) * 64 + u)"
    using b s by cases (auto simp: valid_rune_def)
  then show ?thesis by (simp only: rune4_def xyz)
qed

lemma replacement_valid [simp]: "valid_rune replacement"
  by (simp add: valid_rune_def replacement_def)

lemma two_valid:
  assumes "b0 \<le> 0xDF" "cont b1"
  shows "valid_rune (rune2 b0 b1)"
proof -
  obtain x y where xy: "x = b0 - 0xC0" "y = b1 - 0x80" by blast
  then have "x \<le> 31" "y \<le> 63" using assms by (auto simp: cont_def)
  then have "valid_rune (x * 64 + y)" by (simp add: valid_rune_def)
  then show ?thesis by (simp only: rune2_def xy)
qed

lemma decode_valid: "valid_rune (fst (decode_rune bs))"
proof (cases bs)
  case (Cons b0 t)
  have "b0 < 0x80 \<Longrightarrow> valid_rune b0" by (simp add: valid_rune_def)
  then show ?thesis
    by (auto simp: Cons two_valid three_valid four_valid split: list.splits)
qed simp

lemma runes_valid: "list_all valid_rune (runes s)"
proof (induction "length s" arbitrary: s rule: less_induct)
  case less
  show ?case
  proof (cases "s = []")
    case True
    then show ?thesis by (simp add: runes_def rune_list.simps)
  next
    case False
    let ?n = "snd (decode_rune (map of_char s) :: nat \<times> nat)"
    have "length (drop ?n s) < length s" using False decode_width [of "map of_char s"] by simp
    from less [OF this] have "list_all valid_rune (rune_list (drop ?n (map of_char s)))"
      by (simp add: runes_def drop_map)
    with False show ?thesis
      by (simp add: runes_def rune_list.simps [of "map of_char s"] decode_valid)
  qed
qed

lemma string_of_runes_Cons: "string_of_runes (r # rs) = map char_of (encode_rune r) @ string_of_runes rs"
  by (simp add: string_of_runes_def)

lemma encode_ascii_only:
  assumes "b \<in> set (encode_rune r)" and "b < 0x80"
  shows "encode_rune r = [b] \<and> r = b"
  using assms by (auto simp: encode_rune_def split: if_splits)

text \<open>An ASCII byte of an encoded text is one of its runes.\<close>

lemma encode_split_ascii:
  assumes "concat (map encode_rune rs) = a @ b # t" and "b < 0x80"
  shows "\<exists>us vs. rs = us @ b # vs \<and> a = concat (map encode_rune us) \<and> t = concat (map encode_rune vs)"
  using assms(1)
proof (induction rs arbitrary: a)
  case (Cons r rs)
  show ?case
  proof (cases "length a < length (encode_rune r)")
    case True
    have "b = encode_rune r ! length a"
      using True arg_cong [OF Cons.prems, of "\<lambda>l. l ! length a"] by (simp add: nth_append)
    then have e: "encode_rune r = [b]" "r = b"
      using encode_ascii_only [OF _ assms(2), of r] True nth_mem by metis+
    then have "a = []" using True by simp
    with Cons.prems e show ?thesis by (intro exI [of _ "[]"] exI [of _ rs]) simp
  next
    case False
    then obtain a' where a: "a = encode_rune r @ a'"
      using Cons.prems by (auto simp: append_eq_append_conv2)
    with Cons.prems have "concat (map encode_rune rs) = a' @ b # t" by simp
    from Cons.IH [OF this] obtain us vs where
      "rs = us @ b # vs" "a' = concat (map encode_rune us)" "t = concat (map encode_rune vs)" by blast
    then show ?thesis by (intro exI [of _ "r # us"] exI [of _ vs]) (simp add: a)
  qed
qed simp

lemma runes_cut_at_ascii:
  assumes "string_of_runes rs = a @ c # t" and "(of_char c :: nat) < 0x80"
  shows "\<exists>us vs. rs = us @ of_char c # vs \<and> a = string_of_runes us \<and> t = string_of_runes vs"
proof -
  have "concat (map encode_rune rs) = map of_char a @ of_char c # map of_char t"
    using arg_cong [OF assms(1), of "map (of_char :: char \<Rightarrow> nat)"] by (simp add: bytes_of_runes)
  from encode_split_ascii [OF this assms(2)] obtain us vs where
    rs: "rs = us @ of_char c # vs" and a: "map of_char a = concat (map encode_rune us)"
    and t: "map of_char t = concat (map encode_rune vs)" by blast
  have "inj (of_char :: char \<Rightarrow> nat)" by (simp add: inj_of_char)
  then have "a = string_of_runes us" "t = string_of_runes vs"
    using a t by (metis bytes_of_runes inj_map_eq_map)+
  with rs show ?thesis by blast
qed

end
