(* ===== verification/Titles.thy ===== *)
theory Titles
  imports Runes
begin

text \<open>
  The text project-OUT renders, \<open>internal/project/project.go\<close>: titles clamped to
  GitHub's 256 characters at a word boundary, and the first line of a task.
\<close>

definition gitHubTitleMax :: nat where "gitHubTitleMax = 256"

definition ellipsis :: string where
  "ellipsis = [CHR 0xE2, CHR 0x80, CHR 0xA6]"

text \<open>\<open>strings.LastIndex(s, " ")\<close>, \<open>strings.TrimRight\<close> and \<open>strings.TrimLeft\<close>.\<close>

definition last_space :: "string \<Rightarrow> nat option" where
  "last_space s = (if CHR '' '' \<in> set s
     then Some (length s - Suc (length (takeWhile (\<lambda>c. c \<noteq> CHR '' '') (rev s)))) else None)"

definition TrimRight :: "string \<Rightarrow> string \<Rightarrow> string" where
  "TrimRight s cutset = rev (dropWhile (\<lambda>c. c \<in> set cutset) (rev s))"

definition TrimLeft :: "string \<Rightarrow> string \<Rightarrow> string" where
  "TrimLeft s cutset = dropWhile (\<lambda>c. c \<in> set cutset) s"

definition title_tail :: string where
  "title_tail = [CHR '' '', CHR 0x09, CHR ''.'', CHR '','', CHR '';'', CHR '':'', CHR ''-'']"

definition clampTitle :: "string \<Rightarrow> string" where
  "clampTitle s =
     (let r = runes s in
      if length r \<le> gitHubTitleMax then s
      else let cut = string_of_runes (take (gitHubTitleMax - 1) r);
               cut' = (case last_space cut of
                   Some i \<Rightarrow> if i > gitHubTitleMax div 2 then take i cut else cut
                 | None \<Rightarrow> cut)
           in TrimRight cut' title_tail @ ellipsis)"

definition firstNonEmptyLine :: "string \<Rightarrow> string" where
  "firstNonEmptyLine s = (case filter (\<lambda>t. t \<noteq> []) (map TrimSpace (split_on newline s)) of
     [] \<Rightarrow> [] | t # ts \<Rightarrow> t)"

text \<open>The loop of \<open>prTitle\<close> and \<open>issueTitle\<close> over the task and the spec.\<close>

fun first_title :: "string \<Rightarrow> string list \<Rightarrow> string" where
  "first_title fallback [] = fallback"
| "first_title fallback (s # ss) =
     (let line = firstNonEmptyLine s in
      if line \<noteq> [] then clampTitle (TrimSpace (TrimLeft line ''# '')) else first_title fallback ss)"

section \<open>A clamped title fits\<close>

lemma ellipsis_rune: "ellipsis = string_of_runes [0x2026]"
  by (simp add: ellipsis_def string_of_runes_def encode_rune_def valid_rune_def char_of_def
      bit_Suc_0_iff)

lemma take_last_space:
  assumes "last_space s = Some i"
  shows "\<exists>t. s = take i s @ CHR '' '' # t"
proof -
  let ?w = "takeWhile (\<lambda>c. c \<noteq> CHR '' '') (rev s)"
  have m: "CHR '' '' \<in> set (rev s)" and i: "i = length s - Suc (length ?w)"
    using assms by (auto simp: last_space_def split: if_splits)
  from split_list_first [OF m] obtain u v where r: "rev s = u @ CHR '' '' # v" "CHR '' '' \<notin> set u" by blast
  then have "?w = u" unfolding r(1) by (subst takeWhile_append2) auto
  moreover have s: "s = rev v @ CHR '' '' # rev u"
    using arg_cong [OF r(1), of rev] by simp
  ultimately have "i = length (rev v)" using i by simp
  with s show ?thesis by (metis append_eq_conv_conj)
qed

text \<open>Dropping ASCII characters at the end drops runes at the end.\<close>

lemma trim_right_runes:
  assumes "\<forall>c \<in> set cutset. (of_char c :: nat) < 0x80"
  shows "\<exists>us vs. rs = us @ vs \<and> TrimRight (string_of_runes rs) cutset = string_of_runes us"
proof (induction rs rule: rev_induct)
  case Nil
  show ?case by (simp add: TrimRight_def string_of_runes_def)
next
  case (snoc r rs)
  show ?case
  proof (cases "\<exists>c \<in> set cutset. \<exists>a. string_of_runes (rs @ [r]) = a @ [c]")
    case False
    then have "TrimRight (string_of_runes (rs @ [r])) cutset = string_of_runes (rs @ [r])"
      unfolding TrimRight_def by (cases "string_of_runes (rs @ [r])" rule: rev_cases) auto
    then show ?thesis by (intro exI [of _ "rs @ [r]"] exI [of _ "[]"]) simp
  next
    case True
    then obtain c a where c: "c \<in> set cutset" and e: "string_of_runes (rs @ [r]) = a @ c # []" by blast
    from runes_cut_at_ascii [OF e] assms c obtain us vs where
      u: "rs @ [r] = us @ of_char c # vs" "a = string_of_runes us" "[] = string_of_runes vs" by blast
    have "vs = []" using u(3) by (cases vs) (auto simp: string_of_runes_Cons encode_nonempty)
    with u have "a = string_of_runes rs" by simp
    then have "TrimRight (string_of_runes (rs @ [r])) cutset = TrimRight (string_of_runes rs) cutset"
      unfolding e using c by (simp add: TrimRight_def)
    with snoc show ?thesis by (metis append_assoc)
  qed
qed

lemma cut_runes:
  "\<exists>us vs. rs = us @ vs \<and> (case last_space (string_of_runes rs) of
       Some i \<Rightarrow> if i > n then take i (string_of_runes rs) else string_of_runes rs
     | None \<Rightarrow> string_of_runes rs) = string_of_runes us"
proof (cases "last_space (string_of_runes rs)")
  case (Some i)
  from take_last_space [OF Some] obtain t where
    "string_of_runes rs = take i (string_of_runes rs) @ CHR '' '' # t" by blast
  from runes_cut_at_ascii [OF this] obtain us vs where
    "rs = us @ 32 # vs" "take i (string_of_runes rs) = string_of_runes us" by auto
  moreover have "\<exists>us vs. rs = us @ vs \<and> string_of_runes rs = string_of_runes us"
    by (intro exI [of _ rs] exI [of _ "[]"]) simp
  ultimately show ?thesis using Some by (cases "i > n") auto
qed (intro exI [of _ rs] exI [of _ "[]"], simp)

text \<open>Beside the properties: a clamped title has at most 256 characters, whatever its bytes.\<close>

theorem clamped_title_fits: "length (runes (clampTitle s)) \<le> 256"
proof (cases "length (runes s) \<le> gitHubTitleMax")
  case True
  then show ?thesis by (simp add: clampTitle_def gitHubTitleMax_def)
next
  case False
  let ?rs = "take (gitHubTitleMax - 1) (runes s)"
  obtain us vs where u: "?rs = us @ vs" and cut: "(case last_space (string_of_runes ?rs) of
       Some i \<Rightarrow> if i > gitHubTitleMax div 2 then take i (string_of_runes ?rs) else string_of_runes ?rs
     | None \<Rightarrow> string_of_runes ?rs) = string_of_runes us" using cut_runes by blast
  have "\<forall>c \<in> set title_tail. (of_char c :: nat) < 0x80" by (simp add: title_tail_def)
  from trim_right_runes [OF this, of us] obtain xs ys where x: "us = xs @ ys"
    and t: "TrimRight (string_of_runes us) title_tail = string_of_runes xs" by blast
  have "clampTitle s = string_of_runes xs @ ellipsis"
    unfolding clampTitle_def Let_def using False by (simp only: cut t if_False)
  then have c: "clampTitle s = string_of_runes (xs @ [0x2026])" by (simp add: ellipsis_rune)
  have "list_all valid_rune ?rs" using runes_valid [of s] by (metis append_take_drop_id list_all_append)
  then have "list_all valid_rune (xs @ [0x2026])" using u x by (simp add: valid_rune_def)
  then have "runes (clampTitle s) = xs @ [0x2026]" by (simp only: c runes_string_of_runes)
  moreover have "length xs \<le> length ?rs" by (simp only: u x length_append)
  ultimately show ?thesis by (simp add: gitHubTitleMax_def)
qed

end
