(* ===== verification/Merge_Checks.thy ===== *)
theory Merge_Checks
  imports Content_Gate Github
begin

text \<open>
  The decisions project-OUT takes before an autonomous merge,
  \<open>internal/project/project.go\<close>: which failing checks block it (\<open>mergeCI\<close>, the pure
  part of \<open>liveMergeCI\<close>), and the content gate re-run over the actual diff
  (\<open>contentDenyReason\<close>); and the assertion of branch protection at startup,
  \<open>protection.go\<close>.
\<close>

section \<open>Check names\<close>

definition checksContainAll :: "string list \<Rightarrow> string list \<Rightarrow> bool" where
  "checksContainAll have required = list_all (\<lambda>r. r \<in> set have) required"

definition intersectNames :: "string list \<Rightarrow> string list \<Rightarrow> string list" where
  "intersectNames xs ys = filter (\<lambda>x. x \<in> set ys) xs"

definition checksIntersect :: "string list \<Rightarrow> string list \<Rightarrow> bool" where
  "checksIntersect xs ys \<longleftrightarrow> length (intersectNames xs ys) > 0"

text \<open>The double loop of \<open>unionNames\<close>, with the names seen so far.\<close>

fun union_loop :: "string list \<Rightarrow> string list \<Rightarrow> string list" where
  "union_loop seen [] = []"
| "union_loop seen (x # xs) =
     (if x \<in> set seen then union_loop seen xs else x # union_loop (x # seen) xs)"

definition unionNames :: "string list \<Rightarrow> string list \<Rightarrow> string list" where
  "unionNames a b = (if a = [] then b else if b = [] then a else union_loop [] (a @ b))"

definition cosmeticCheckPatterns :: "string list" where
  "cosmeticCheckPatterns =
     [''lint'', ''prettier'', ''eslint'', ''stylelint'', ''markdownlint'',
      ''gofmt'', ''goimports'', ''gofumpt'', ''format'']"

definition isCosmeticCheck :: "string \<Rightarrow> bool" where
  "isCosmeticCheck name = list_ex (\<lambda>p. Contains (ToLower name) p) cosmeticCheckPatterns"

definition substantiveFailures :: "string list \<Rightarrow> string list" where
  "substantiveFailures failing = filter (\<lambda>f. \<not> isCosmeticCheck f) failing"

text \<open>A map of URLs is its lookups, so an entry with an empty URL is no entry.\<close>

definition filterCheckURLs :: "(string \<Rightarrow> string) \<Rightarrow> string list \<Rightarrow> string \<Rightarrow> string" where
  "filterCheckURLs urls names n = (if n \<in> set names then urls n else [])"

section \<open>The verdict of the checks\<close>

record LiveMergeCI =
  lmGreen :: bool
  lmFailed :: bool
  lmFailingChecks :: "string list"
  lmCheckURLs :: "string \<Rightarrow> string"

text \<open>What \<open>liveMergeCI\<close> concludes from the pull request and the required checks.\<close>

definition mergeCI :: "PullRequest \<Rightarrow> string list \<Rightarrow> LiveMergeCI" where
  "mergeCI pr required =
     (if length required > 0 then
        let blocking = unionNames (intersectNames (prFailingChecks pr) required)
                         (substantiveFailures (prFailingChecks pr)) in
        \<lparr>lmGreen = prCIHasRealSuccess pr \<and> checksContainAll (prPassedChecks pr) required
                    \<and> length blocking = 0,
         lmFailed = length blocking > 0, lmFailingChecks = blocking,
         lmCheckURLs = filterCheckURLs (prFailingCheckURLs pr) blocking\<rparr>
      else
        \<lparr>lmGreen = prCIHasRealSuccess pr \<and> prCIRollup pr = CISuccess,
         lmFailed = prCIRollup pr = CIFailure \<or> prCIRollup pr = CIError,
         lmFailingChecks = prFailingChecks pr, lmCheckURLs = prFailingCheckURLs pr\<rparr>)"

section \<open>The actual diff\<close>

definition isUnreachableRev :: "string \<Rightarrow> bool" where
  "isUnreachableRev err \<longleftrightarrow> (let s = ToLower err in
     Contains s ''invalid revision range'' \<or> Contains s ''unknown revision'' \<or> Contains s ''bad revision''
     \<or> Contains s ''ambiguous argument'' \<or> Contains s ''bad object'')"

definition reverify_policy :: "bool \<Rightarrow> ContentPolicy" where
  "reverify_policy allowOwnSource =
     \<lparr>cpLimits = \<lparr>lMaxDiffBytes = 2 ^ 30, lMaxChangedFiles = 2 ^ 20\<rparr>,
      cpExtraDenyPrefixes = [], cpAllowOwnSource = allowOwnSource\<rparr>"

definition deny_reasons :: "ContentResult \<Rightarrow> string list" where
  "deny_reasons r =
     (if \<not> rDenylistClear r then [''denylist:'' @ join_with '','' (rDenylistHits r)] else [])
     @ (if \<not> rStaticChecksPass r then [''static:'' @ join_with '','' (rStaticFailures r)] else [])"

definition contentDenyReason :: "string \<Rightarrow> bool \<Rightarrow> string" where
  "contentDenyReason actualDiff allowOwnSource =
     (let reasons = deny_reasons (CheckWithPolicy
            \<lparr>pDiff = actualDiff, pBaseSHA = [], pDeclared = \<lparr>brPaths = [], brScope = []\<rparr>,
             pAppliesClean = False, pAppliesCleanKnown = False\<rparr> (reverify_policy allowOwnSource)) in
      if reasons = [] then [] else ''content gate (actual diff) '' @ join_with ''; '' reasons)"

section \<open>Branch protection\<close>

definition quoted :: "string \<Rightarrow> string" where
  "quoted s = CHR 0x22 # s @ [CHR 0x22]"

text \<open>The error of \<open>AssertBranchProtection\<close>, given what the reader returned.\<close>

definition AssertBranchProtection :: "gh_error + Protection option \<Rightarrow> string \<Rightarrow> gh_error option" where
  "AssertBranchProtection got branch = (case got of
     Inl e \<Rightarrow> Some (ErrWrapped (''read branch protection for '' @ quoted branch) e)
   | Inr None \<Rightarrow> Some (ErrOther (''branch '' @ quoted branch
       @ '' has no server-side protection (I-8): Flowbee requires it as the backstop''))
   | Inr (Some p) \<Rightarrow>
       if \<not> ptNoForcePush p then Some (ErrOther (''branch '' @ quoted branch
         @ '' permits force-push (I-8): protection must forbid direct/force push''))
       else if \<not> ptRequireDistinctReviewer p then Some (ErrOther (''branch '' @ quoted branch
         @ '' does not require review from a distinct identity (I-8, '' @ [CHR 0xC2, CHR 0xA7] @ ''9.6)''))
       else None)"

end
