(* ===== verification/Sender.thy ===== *)
theory Sender
  imports Store_Project_Out Github_Client Titles Merge_Checks
begin

text \<open>
  The project-OUT sender, \<open>internal/project/project.go\<close>: the one writer to GitHub.
  It drains the outbox oldest first, one mutation at a time (\<open>DrainOnce\<close>), renders
  each row as a call (\<open>send\<close>) and files the answer: sent, superseded, routed to
  a repair, parked by a rate limit, retried or dead-lettered.

  GitHub is the interface \<open>'w github\<close>; the mirror (\<open>HistoryWriter\<close>), the clock, the
  wording of the store's errors and the rendering of the history archive are
  parameters.  A step maps the whole system, the database and the outside world,
  to a result or an error and the system after it; database I/O does not fail.
\<close>

section \<open>The sender and the system\<close>

record 'w mirror =
  hwHeadSHA :: "string \<Rightarrow> 'w \<Rightarrow> (string + string) \<times> 'w"
  hwFetchBranch :: "string \<Rightarrow> 'w \<Rightarrow> string option \<times> 'w"
  hwDiffBetween :: "string \<Rightarrow> string \<Rightarrow> 'w \<Rightarrow> (string + string) \<times> 'w"

record 'w sender =
  snStore :: StoreCfg
  snGH :: "'w github"
  snClock :: "'w \<Rightarrow> int \<times> 'w"
  snRepo :: string
  snBaseBranch :: string
  snAllowOwnSource :: bool
  snArchiveHistory :: bool
  snHistory :: "'w mirror option"
  snErrText :: "store_error \<Rightarrow> string"
  snArtifacts :: "DB \<Rightarrow> string \<Rightarrow> string + (string \<times> string) list"

text \<open>A mutation asked of GitHub.\<close>

datatype gh_call =
    CallOpenPR OpenPRInput | CallCreateIssue CreateIssueInput | CallComment int string
  | CallSetLabels int "string list" | CallCheck string string string | CallMerge int string
  | CallUpdateBranch int | CallDraft int | CallDeleteBranch string
  | CallPutFiles "(string \<times> string) list" string string

text \<open>
  \<open>syParked\<close> is \<open>parkedUntil\<close> and \<open>syPublished\<close> what went to the SSE feed.  \<open>syCalls\<close> is
  bookkeeping of the model: the mutations asked of GitHub, each with the database
  at that moment; no step reads it.
\<close>

record 'w sys =
  syDB :: DB
  syWorld :: 'w
  syParked :: int
  syPublished :: "(string \<times> string) list"
  syCalls :: "(DB \<times> gh_call) list"

datatype send_error =
    ErrStaleMergeAuthorization | ErrMergeCINotReady | ErrMergeCIFailedRouted
  | ErrCall gh_error | ErrPlain string

fun send_text :: "send_error \<Rightarrow> string" where
  "send_text ErrStaleMergeAuthorization = ''merge authorization does not match the reviewed head''"
| "send_text ErrMergeCINotReady = ''merge blocked: live required checks are not terminal green''"
| "send_text ErrMergeCIFailedRouted =
     ''merge blocked: live required checks failed and repair was routed''"
| "send_text (ErrCall e) = gh_text e"
| "send_text (ErrPlain t) = t"

type_synonym ('w, 'a) act = "'w sys \<Rightarrow> (send_error + 'a) \<times> 'w sys"

definition act_then :: "('w, 'a) act \<Rightarrow> ('a \<Rightarrow> ('w, 'b) act) \<Rightarrow> ('w, 'b) act" where
  "act_then m f s = (case m s of (Inl e, s1) \<Rightarrow> (Inl e, s1) | (Inr x, s1) \<Rightarrow> f x s1)"

definition done_with :: "'a \<Rightarrow> ('w, 'a) act" where
  "done_with x s = (Inr x, s)"

definition fail_with :: "send_error \<Rightarrow> ('w, 'a) act" where
  "fail_with e s = (Inl e, s)"

definition from_db :: "(DB \<Rightarrow> 'a) \<Rightarrow> ('w, 'a) act" where
  "from_db f s = (Inr (f (syDB s)), s)"

text \<open>A store transaction; its error is wrapped with a prefix.\<close>

definition store_tx :: "'w sender \<Rightarrow> string \<Rightarrow> (DB \<Rightarrow> store_error + DB) \<Rightarrow> ('w, unit) act" where
  "store_tx sn what f s = (case f (syDB s) of
     Inl e \<Rightarrow> (Inl (ErrPlain (what @ '': '' @ snErrText sn e)), s)
   | Inr d \<Rightarrow> (Inr (), s\<lparr>syDB := d\<rparr>))"

definition clock_now :: "'w sender \<Rightarrow> ('w, int) act" where
  "clock_now sn s = (case snClock sn (syWorld s) of (t, w) \<Rightarrow> (Inr t, s\<lparr>syWorld := w\<rparr>))"

definition publish :: "string \<Rightarrow> string \<Rightarrow> ('w, unit) act" where
  "publish i ev s = (Inr (), s\<lparr>syPublished := syPublished s @ [(i, ev)]\<rparr>)"

definition gh_read :: "('w, 'a) io \<Rightarrow> ('w, 'a) act" where
  "gh_read m s = (case m (syWorld s) of
     (Inl e, w) \<Rightarrow> (Inl (ErrCall e), s\<lparr>syWorld := w\<rparr>) | (Inr x, w) \<Rightarrow> (Inr x, s\<lparr>syWorld := w\<rparr>))"

definition gh_write :: "gh_call \<Rightarrow> ('w, 'a) io \<Rightarrow> ('w, 'a) act" where
  "gh_write c m s = gh_read m (s\<lparr>syCalls := syCalls s @ [(syDB s, c)]\<rparr>)"

text \<open>A call whose error is a value.\<close>

definition mirror_call :: "('w \<Rightarrow> 'a \<times> 'w) \<Rightarrow> ('w, 'a) act" where
  "mirror_call m s = (case m (syWorld s) of (x, w) \<Rightarrow> (Inr x, s\<lparr>syWorld := w\<rparr>))"

section \<open>Reading rows\<close>

definition GetJob :: "DB \<Rightarrow> string \<Rightarrow> store_error + Job" where
  "GetJob d i = (case find_row d i of None \<Rightarrow> Inl ErrNoRows | Some r \<Rightarrow> Inr (scanJob r))"

text \<open>\<open>j, _ := GetJob(...)\<close>.\<close>

definition job_or_zero :: "DB \<Rightarrow> string \<Rightarrow> Job" where
  "job_or_zero d i = (case GetJob d i of Inl e \<Rightarrow> zero_job | Inr j \<Rightarrow> j)"

definition IsQuiescent :: "DB \<Rightarrow> string \<Rightarrow> store_error + bool" where
  "IsQuiescent d i = (case find_row d i of
     None \<Rightarrow> Inl ErrNoRows | Some r \<Rightarrow> Inr (rwAdopted r \<and> \<not> rwOptedIn r))"

definition ResolveIssueNum :: "DB \<Rightarrow> string \<Rightarrow> int" where
  "ResolveIssueNum d i = (case GetJob d i of
     Inl e \<Rightarrow> 0
   | Inr j \<Rightarrow>
       if jIssueNum j > 0 then jIssueNum j
       else if jFlowID j \<noteq> [] \<and> jFlowID j \<noteq> jID j
         then (case GetJob d (jFlowID j) of Inl e \<Rightarrow> 0 | Inr sp \<Rightarrow> jIssueNum sp)
       else 0)"

definition issue_event :: "string \<Rightarrow> Job \<Rightarrow> int \<Rightarrow> int \<Rightarrow> int \<Rightarrow> Event" where
  "issue_event i j n now seq =
     fenced_event i seq KindIssueMaterialized (jState j) (jState j) (jLeaseEpoch j) ''project-out'' now
       (zero_payload\<lparr>pIssueNumber := n\<rparr>)"

definition issue_row :: "int \<Rightarrow> Row \<Rightarrow> Row" where
  "issue_row n r = r\<lparr>rwJob := (rwJob r)\<lparr>jIssueNum := n\<rparr>\<rparr>"

definition StampIssueNumber :: "DB \<Rightarrow> string \<Rightarrow> int \<Rightarrow> int \<Rightarrow> store_error + DB" where
  "StampIssueNumber d i n now =
     and_then (loadJobTx d i) (\<lambda>(r, j, seq).
     one_step i (seq + 1) (issue_event i j n now (seq + 1)) (issue_row n) id d)"

definition ActionCreateIssue :: string where "ActionCreateIssue = ''issues.create''"
definition ActionSetLabels :: string where "ActionSetLabels = ''labels.set''"
definition ActionCreateCheck :: string where "ActionCreateCheck = ''checks.create''"

definition criticalAction :: "string \<Rightarrow> bool" where
  "criticalAction a \<longleftrightarrow> a = ActionOpenPR \<or> a = ActionEnqueueMerge \<or> a = ActionCreateIssue"

definition orDefault :: "string \<Rightarrow> string \<Rightarrow> string" where
  "orDefault v def = (if v = [] then def else v)"

definition pay_str :: "(string \<times> JSONValue) list \<Rightarrow> string \<Rightarrow> string" where
  "pay_str p k = jstring (jmember k (JObj p))"

definition pay_int :: "(string \<times> JSONValue) list \<Rightarrow> string \<Rightarrow> int" where
  "pay_int p k = jint (jmember k (JObj p))"

fun str_elems :: "JSONValue list \<Rightarrow> string list" where
  "str_elems [] = []"
| "str_elems (JStr s # vs) = s # str_elems vs"
| "str_elems (v # vs) = str_elems vs"

definition strSlice :: "(string \<times> JSONValue) list \<Rightarrow> string \<Rightarrow> string list" where
  "strSlice p k = str_elems (jlist (jmember k (JObj p)))"

text \<open>The stamped number of a job, or the one of the payload.\<close>

definition number_of :: "DB \<Rightarrow> OutboxRow \<Rightarrow> string \<Rightarrow> int" where
  "number_of d row k =
     (let n = (case JobPR d (obJobID row) of Inl e \<Rightarrow> 0 | Inr n \<Rightarrow> n) in
      if n = 0 then pay_int (obPayload row) k else n)"

section \<open>Rendering\<close>

definition prTitle :: "Job \<Rightarrow> string \<Rightarrow> string" where
  "prTitle j i = first_title (''flowbee: '' @ i) [jTaskText j, jSpecText j]"

definition prBody :: "DB \<Rightarrow> Job \<Rightarrow> string" where
  "prBody d j =
     (let n = ResolveIssueNum d (jID j) in
      (if n > 0 then ''Closes #'' @ dec_int n @ [newline, newline] else [])
      @ ''Implements the signed-off spec.'' @ [newline, newline] @ ''---'' @ [newline]
      @ ''_Opened by Flowbee from the eng_worker patch ('' @ section_sign
      @ ''7.3); Flowbee performed the git write, not the worker._'')"

definition issueTitle :: "Job \<Rightarrow> string" where
  "issueTitle j = first_title (jID j) [jTaskText j, jSpecText j]"

definition issueBody :: "Job \<Rightarrow> string" where
  "issueBody j =
     (let sp = TrimSpace (jSpecText j); t = TrimSpace (jTaskText j); ac = TrimSpace (jAcceptanceCriteria j) in
      (if sp \<noteq> [] then sp @ [newline, newline] else if t \<noteq> [] then t @ [newline, newline] else [])
      @ (if ac \<noteq> [] then ''## Acceptance criteria'' @ [newline, newline] @ ac @ [newline, newline] else [])
      @ ''---'' @ [newline] @ ''_Materialized by Flowbee from the signed-off spec (job `'' @ jID j @ ''`)._'')"

section \<open>The build of a signed-off spec\<close>

definition integration_branch :: "'w sender \<Rightarrow> string" where
  "integration_branch sn = orDefault (snBaseBranch sn) ''main''"

definition spec_build :: "Job \<Rightarrow> string \<Rightarrow> int \<Rightarrow> SeedParams" where
  "spec_build sp base now =
     \<lparr>sdID = jID sp @ ''-build'', sdKind = KindBuild, sdFlow = ''build'', sdStage = ''build'',
      sdRole = RoleEngWorker, sdBaseSHA = base, sdPriority = NormalizePriority (jPriority sp),
      sdBlockedBy = [], sdRequiredCapabilities = [], sdNow = now, sdCostCeilingMicroUSD = None,
      sdFlowID = jID sp, sdTaskText = orDefault (jSpecText sp) (jTaskText sp), sdSpecText = jSpecText sp,
      sdAcceptanceCriteria = jAcceptanceCriteria sp, sdRepo = jRepo sp, sdIssueNumber = None\<rparr>"

definition seedBuildFromSpec :: "'w sender \<Rightarrow> Job \<Rightarrow> int \<Rightarrow> ('w, string + string) act" where
  "seedBuildFromSpec sn sp now s =
     (let b = jID sp @ ''-build'' in
      case GetJob (syDB s) b of
        Inr j \<Rightarrow> (Inr (Inr b), s)
      | Inl e \<Rightarrow> (case snHistory sn of
          None \<Rightarrow> (Inr (Inl ''no mirror configured to resolve base_sha''), s)
        | Some m \<Rightarrow> act_then (mirror_call (hwHeadSHA m (''refs/heads/'' @ integration_branch sn))) (\<lambda>base s1.
            case base of
              Inl er \<Rightarrow> (Inr (Inl (''resolve base_sha: '' @ er)), s1)
            | Inr sha \<Rightarrow> (case seedJobTx (snStore sn) (syDB s1) (spec_build sp sha now) of
                Inl er \<Rightarrow> (Inr (Inl (snErrText sn er)), s1)
              | Inr d \<Rightarrow> (Inr (Inr b), s1\<lparr>syDB := d\<rparr>))) s))"

definition seed_detail :: "string \<Rightarrow> string + string \<Rightarrow> string" where
  "seed_detail detail got = (case got of
     Inl er \<Rightarrow> detail @ '' build_seed_err='' @ er | Inr b \<Rightarrow> detail @ '' build='' @ b)"

section \<open>The actions\<close>

text \<open>One definition per case of the \<open>switch\<close> of \<open>send\<close>; \<open>now\<close> is the clock read at its start.\<close>

definition pr_input :: "'w sender \<Rightarrow> DB \<Rightarrow> OutboxRow \<Rightarrow> OpenPRInput" where
  "pr_input sn d row =
     (let j = job_or_zero d (obJobID row) in
      \<lparr>oiTitle = prTitle j (obJobID row), oiBody = prBody d j,
       oiHeadRef = IssueBranch (ResolveIssueNum d (jID j)) (obJobID row),
       oiBaseRef = orDefault (pay_str (obPayload row) ''base_ref'') (integration_branch sn),
       oiDraft = False\<rparr>)"

definition send_open_pr :: "'w sender \<Rightarrow> OutboxRow \<Rightarrow> int \<Rightarrow> ('w, string) act" where
  "send_open_pr sn row now s =
     (let j = job_or_zero (syDB s) (obJobID row); inp = pr_input sn (syDB s) row in
      if jPRNumber j > 0 then done_with (''pr='' @ dec_int (jPRNumber j) @ '' (already open)'') s
      else act_then (gh_write (CallOpenPR inp) (ghOpenPR (snGH sn) inp)) (\<lambda>n.
           act_then (store_tx sn ''stamp pr''
             (\<lambda>d. StampPRNumber d (obJobID row) n (obHeadSHA row) (jBaseSHA j) now)) (\<lambda>u.
           done_with (''pr='' @ dec_int n))) s)"

definition issue_input :: "Job \<Rightarrow> CreateIssueInput" where
  "issue_input j = \<lparr>ciTitle = issueTitle j, ciBody = issueBody j, ciLabels = [''flowbee'', ''flowbee:spec'']\<rparr>"

definition send_create_issue :: "'w sender \<Rightarrow> OutboxRow \<Rightarrow> int \<Rightarrow> ('w, string) act" where
  "send_create_issue sn row now s = (case GetJob (syDB s) (obJobID row) of
     Inl e \<Rightarrow> fail_with (ErrPlain (''load job for issue: '' @ snErrText sn e)) s
   | Inr j \<Rightarrow>
       if jIssueNum j > 0
       then act_then (seedBuildFromSpec sn j now)
              (\<lambda>b. done_with (seed_detail (''issue='' @ dec_int (jIssueNum j) @ '' (already materialized)'') b)) s
       else act_then (gh_write (CallCreateIssue (issue_input j)) (ghCreateIssue (snGH sn) (issue_input j))) (\<lambda>n.
            act_then (store_tx sn ''stamp issue'' (\<lambda>d. StampIssueNumber d (obJobID row) n now)) (\<lambda>u.
            act_then (seedBuildFromSpec sn j now)
              (\<lambda>b. done_with (seed_detail (''issue='' @ dec_int n) b)))) s)"

definition send_comment :: "'w sender \<Rightarrow> OutboxRow \<Rightarrow> ('w, string) act" where
  "send_comment sn row s =
     (let n = ResolveIssueNum (syDB s) (jID (job_or_zero (syDB s) (obJobID row)));
          body = pay_str (obPayload row) ''body'' in
      if n = 0 then done_with ''comment:no-issue'' s
      else act_then (gh_write (CallComment n body) (ghIssueComment (snGH sn) n body))
             (\<lambda>u. done_with (''comment issue='' @ dec_int n)) s)"

definition send_labels :: "'w sender \<Rightarrow> OutboxRow \<Rightarrow> ('w, string) act" where
  "send_labels sn row s =
     (let n = number_of (syDB s) row ''number''; labels = strSlice (obPayload row) ''labels'' in
      act_then (gh_write (CallSetLabels n labels) (ghSetLabels (snGH sn) n labels))
        (\<lambda>u. done_with (''labels=['' @ join_with '' '' labels @ '']'')) s)"

definition send_check :: "'w sender \<Rightarrow> OutboxRow \<Rightarrow> ('w, string) act" where
  "send_check sn row =
     (let name = pay_str (obPayload row) ''name'';
          concl = orDefault (pay_str (obPayload row) ''conclusion'') ''success'' in
      act_then (gh_write (CallCheck (obHeadSHA row) name concl)
                  (ghCreateCheck (snGH sn) (obHeadSHA row) name concl))
        (\<lambda>u. done_with name))"

definition send_draft :: "'w sender \<Rightarrow> OutboxRow \<Rightarrow> ('w, string) act" where
  "send_draft sn row s =
     (let n = number_of (syDB s) row ''pr_number'' in
      if n = 0 then done_with ''draft:no-pr'' s
      else act_then (gh_write (CallDraft n) (ghConvertToDraft (snGH sn) n))
             (\<lambda>u. done_with (''draft_back pr='' @ dec_int n)) s)"

definition send_delete_branch :: "'w sender \<Rightarrow> OutboxRow \<Rightarrow> ('w, string) act" where
  "send_delete_branch sn row =
     (let b = pay_str (obPayload row) ''branch'' in
      if b = [] then done_with ''delete_branch:none''
      else act_then (gh_write (CallDeleteBranch b) (ghDeleteBranch (snGH sn) b))
             (\<lambda>u. done_with (''deleted_branch '' @ b)))"

definition send_history :: "'w sender \<Rightarrow> OutboxRow \<Rightarrow> ('w, string) act" where
  "send_history sn row s = (case snArtifacts sn (syDB s) (obJobID row) of
     Inl e \<Rightarrow> fail_with (ErrPlain (''build history: '' @ e)) s
   | Inr arts \<Rightarrow>
       if \<not> snArchiveHistory sn then done_with (''history:noop files='' @ dec_int (int (length arts))) s
       else let msg = ''flowbee: archive history for '' @ obJobID row; b = integration_branch sn in
         act_then (gh_write (CallPutFiles arts msg b)
             (io_wrap (''archive history for '' @ obJobID row) (ghPutFiles (snGH sn) arts msg b)))
           (\<lambda>u. done_with (''history:archived files='' @ dec_int (int (length arts)))) s)"

section \<open>The autonomous merge\<close>

definition requiredChecks :: "'w sender \<Rightarrow> ('w, string list) io" where
  "requiredChecks sn =
     (let b = integration_branch sn;
          classic = io_then (ghBranchProtection (snGH sn) b)
            (\<lambda>p. io_return (case p of None \<Rightarrow> [] | Some prot \<Rightarrow> ptRequiredChecks prot)) in
      case ghRequiredChecks (snGH sn) of
        None \<Rightarrow> classic
      | Some rr \<Rightarrow> io_then (rr b) (\<lambda>checks. if length checks > 0 then io_return checks else classic))"

text \<open>The mergeable state, when the client can tell it, must be known.\<close>

definition mergeable_known :: "'w sender \<Rightarrow> int \<Rightarrow> ('w, unit) act" where
  "mergeable_known sn n = (case ghUnsticker (snGH sn) of
     None \<Rightarrow> done_with ()
   | Some (state, update) \<Rightarrow> act_then (gh_read (state n)) (\<lambda>st. case st of
       None \<Rightarrow> fail_with ErrMergeCINotReady
     | Some t \<Rightarrow> if EqualFold t ''unknown'' then fail_with ErrMergeCINotReady else done_with ()))"

definition check_pr :: "'w sender \<Rightarrow> int \<Rightarrow> string \<Rightarrow> PullRequest option \<Rightarrow> ('w, LiveMergeCI) act" where
  "check_pr sn n expectedHead found = (case found of
     None \<Rightarrow> fail_with ErrMergeCINotReady
   | Some pr \<Rightarrow>
       if expectedHead \<noteq> [] \<and> prHeadRefOid pr \<noteq> expectedHead then fail_with ErrStaleMergeAuthorization
       else act_then (mergeable_known sn n) (\<lambda>u.
            act_then (gh_read (requiredChecks sn)) (\<lambda>required.
            done_with (mergeCI pr required))))"

definition liveMergeCI :: "'w sender \<Rightarrow> int \<Rightarrow> string \<Rightarrow> ('w, LiveMergeCI) act" where
  "liveMergeCI sn n expectedHead = (case ghPullRequest (snGH sn) of
     None \<Rightarrow> fail_with ErrMergeCINotReady
   | Some reader \<Rightarrow>
       if n = 0 then fail_with ErrMergeCINotReady
       else act_then (gh_read (reader n)) (check_pr sn n expectedHead))"

text \<open>The reviewed head and base the row is for, as the job has them now.\<close>

definition authorized :: "DB \<Rightarrow> OutboxRow \<Rightarrow> Job option" where
  "authorized d row = (case GetJob d (obJobID row) of
     Inl e \<Rightarrow> None
   | Inr j \<Rightarrow> (case jVerdict j of
       None \<Rightarrow> None
     | Some v \<Rightarrow> if obHeadSHA row = [] \<or> jHeadSHA j \<noteq> obHeadSHA row
                     \<or> \<not> verdict_Verify v (obHeadSHA row) (jBaseSHA j)
                 then None else Some j))"

text \<open>The merge is taken to a human instead: the detail of the row.\<close>

definition hand_off ::
  "'w sender \<Rightarrow> OutboxRow \<Rightarrow> string \<Rightarrow> string \<Rightarrow> string \<Rightarrow> string \<Rightarrow> ('w, string) act" where
  "hand_off sn row what reason ev detail =
     act_then (clock_now sn) (\<lambda>now.
     act_then (store_tx sn what (\<lambda>d. RouteSelfMergeToHandoff d (obJobID row) reason now)) (\<lambda>u.
     act_then (publish (obJobID row) ev) (\<lambda>u.
     done_with detail)))"

text \<open>An em dash.\<close>

definition em_dash :: string where "em_dash = [CHR 0xE2, CHR 0x80, CHR 0x94]"

definition merge_call :: "'w sender \<Rightarrow> int \<Rightarrow> string \<Rightarrow> ('w, string) act" where
  "merge_call sn n head s = (case gh_write (CallMerge n head) (ghEnqueueMergeQueue (snGH sn) n head) s of
     (Inr u, s1) \<Rightarrow> (Inr (''merge_enqueue pr='' @ dec_int n), s1)
   | (Inl e, s1) \<Rightarrow>
       (let behind = (case e of ErrCall g \<Rightarrow> is_rule_pending g \<and> isMergeRuleBehind g | _ \<Rightarrow> False) in
        case ghUnsticker (snGH sn) of
          Some (state, update) \<Rightarrow>
            if behind \<and> n \<noteq> 0 then (Inl e, snd (gh_write (CallUpdateBranch n) (update n) s1)) else (Inl e, s1)
        | None \<Rightarrow> (Inl e, s1)))"

text \<open>After the content has been verified: live CI, then the merge.\<close>

definition merge_or_repair :: "'w sender \<Rightarrow> OutboxRow \<Rightarrow> int \<Rightarrow> LiveMergeCI \<Rightarrow> ('w, string) act" where
  "merge_or_repair sn row n ci =
     (if lmFailed ci then
        act_then (clock_now sn) (\<lambda>now.
        act_then (store_tx sn ''route post-approval CI failure''
          (\<lambda>d. RoutePostApprovalCIFailure d (obJobID row) (lmFailingChecks ci) (lmCheckURLs ci) now)) (\<lambda>u.
        act_then (publish (obJobID row) ''project_out:merge_ci_failed'') (\<lambda>u.
        fail_with ErrMergeCIFailedRouted)))
      else if \<not> lmGreen ci then fail_with ErrMergeCINotReady
      else merge_call sn n (obHeadSHA row))"

definition merge_if_green :: "'w sender \<Rightarrow> OutboxRow \<Rightarrow> int \<Rightarrow> ('w, string) act" where
  "merge_if_green sn row n = act_then (liveMergeCI sn n (obHeadSHA row)) (merge_or_repair sn row n)"

text \<open>The re-verification of the actual diff: on to the merge, or handed off.\<close>

definition judge_diff :: "'w sender \<Rightarrow> OutboxRow \<Rightarrow> Job \<Rightarrow> int \<Rightarrow> string + string \<Rightarrow> ('w, string) act" where
  "judge_diff sn row j n diff = (case diff of
     Inl e \<Rightarrow>
       if isUnreachableRev e
       then hand_off sn row ''route unverifiable self-merge to handoff''
              ''self_merge_unverifiable_head_unreachable'' ''project_out:self_merge_unverifiable''
              (''autonomous merge UNVERIFIABLE (head SHA unreachable '' @ em_dash
               @ '' squash-discarded epoch) -> merge_handoff'')
       else fail_with (ErrPlain (''verify autonomous merge: diff '' @ jBaseSHA j @ ''..'' @ jHeadSHA j
              @ '': '' @ e))
   | Inr actual \<Rightarrow>
       let reason = contentDenyReason actual (snAllowOwnSource sn) in
       if reason \<noteq> []
       then hand_off sn row ''route self-merge to handoff'' reason ''project_out:self_merge_denied''
              (''autonomous merge DENIED ('' @ reason @ '') -> merge_handoff'')
       else merge_if_green sn row n)"

definition diff_after_fetch ::
  "'w sender \<Rightarrow> 'w mirror \<Rightarrow> OutboxRow \<Rightarrow> Job \<Rightarrow> int \<Rightarrow> string \<Rightarrow> string option \<Rightarrow> ('w, string) act" where
  "diff_after_fetch sn m row j n br ferr = (case ferr of
     Some e \<Rightarrow> fail_with (ErrPlain (''verify autonomous merge: fetch '' @ br @ '': '' @ e))
   | None \<Rightarrow> act_then (mirror_call (hwDiffBetween m (jBaseSHA j) (jHeadSHA j))) (judge_diff sn row j n))"

definition verified_merge :: "'w sender \<Rightarrow> 'w mirror \<Rightarrow> OutboxRow \<Rightarrow> Job \<Rightarrow> int \<Rightarrow> ('w, string) act" where
  "verified_merge sn m row j n s =
     (if jBaseSHA j = [] then merge_if_green sn row n s
      else let br = IssueBranch (ResolveIssueNum (syDB s) (jID j)) (obJobID row) in
        act_then (mirror_call (hwFetchBranch m br)) (diff_after_fetch sn m row j n br) s)"

definition send_merge :: "'w sender \<Rightarrow> OutboxRow \<Rightarrow> ('w, string) act" where
  "send_merge sn row s =
     (let n = number_of (syDB s) row ''pr_number'' in
      case snHistory sn of
        None \<Rightarrow> hand_off sn row ''route unverifiable self-merge to handoff'' ''self_merge_unverifiable''
                  ''project_out:self_merge_unverifiable''
                  ''autonomous merge UNVERIFIABLE (no mirror to SHA-pin/content re-verify) -> merge_handoff'' s
      | Some m \<Rightarrow> (case authorized (syDB s) row of
          None \<Rightarrow> fail_with ErrStaleMergeAuthorization s
        | Some j \<Rightarrow> verified_merge sn m row j n s))"

section \<open>Sending and draining\<close>

definition send :: "'w sender \<Rightarrow> OutboxRow \<Rightarrow> ('w, string) act" where
  "send sn row =
     act_then (clock_now sn) (\<lambda>now.
       if obAction row = ActionOpenPR then send_open_pr sn row now
       else if obAction row = ActionCreateIssue then send_create_issue sn row now
       else if obAction row = ActionComment then send_comment sn row
       else if obAction row = ActionSetLabels then send_labels sn row
       else if obAction row = ActionCreateCheck then send_check sn row
       else if obAction row = ActionEnqueueMerge then send_merge sn row
       else if obAction row = ActionDraftPR then send_draft sn row
       else if obAction row = ActionDeleteBranch then send_delete_branch sn row
       else if obAction row = ActionWriteHistory then send_history sn row
       else done_with (''noop:'' @ obAction row))"

definition maxOutboxAttempts :: int where "maxOutboxAttempts = 100"
definition mergeMergeabilityRetries :: int where "mergeMergeabilityRetries = 3"

text \<open>A turn of the loop stops the drain, with an error or none, or goes on.\<close>

datatype turn = Stop "send_error option" | Go int

definition next_row :: "'w sender \<Rightarrow> DB \<Rightarrow> OutboxRow option" where
  "next_row sn d = (if snRepo sn \<noteq> [] then NextPendingOutboxForRepo d (snRepo sn) else NextPendingOutbox d)"

text \<open>A store transaction that ends the drain with its error, or goes on.\<close>

definition turn_tx :: "'w sender \<Rightarrow> (DB \<Rightarrow> store_error + DB) \<Rightarrow> ('w sys \<Rightarrow> turn \<times> 'w sys) \<Rightarrow> 'w sys \<Rightarrow> turn \<times> 'w sys" where
  "turn_tx sn f k s = (case f (syDB s) of
     Inl e \<Rightarrow> (Stop (Some (ErrPlain (snErrText sn e))), s) | Inr d \<Rightarrow> k (s\<lparr>syDB := d\<rparr>))"

definition tell :: "string \<Rightarrow> string \<Rightarrow> 'w sys \<Rightarrow> 'w sys" where
  "tell i ev s = s\<lparr>syPublished := syPublished s @ [(i, ev)]\<rparr>"

definition read_clock :: "'w sender \<Rightarrow> 'w sys \<Rightarrow> int \<times> 'w sys" where
  "read_clock sn s = (case snClock sn (syWorld s) of (t, w) \<Rightarrow> (t, s\<lparr>syWorld := w\<rparr>))"

definition superseded_turn :: "'w sender \<Rightarrow> OutboxRow \<Rightarrow> 'w sys \<Rightarrow> turn \<times> 'w sys" where
  "superseded_turn sn row s =
     (let (now, s1) = read_clock sn s in
      turn_tx sn (\<lambda>d. InvalidateStaleMergeAuthorization d (obJobID row) now)
        (\<lambda>s2. (Go 0, tell (obJobID row) ''project_out:merge_head_superseded'' s2)) s1)"

definition poison :: "OutboxRow \<Rightarrow> send_error \<Rightarrow> bool" where
  "poison row e \<longleftrightarrow> (case e of ErrCall g \<Rightarrow> Permanent g | _ \<Rightarrow> False) \<or> obAttempts row + 1 \<ge> maxOutboxAttempts"

definition bump :: "OutboxRow \<Rightarrow> 'w sys \<Rightarrow> 'w sys" where
  "bump row s = s\<lparr>syDB := BumpOutboxAttempts (obID row) (syDB s)\<rparr>"

text \<open>A permanent failure or an exhausted row is dead-lettered; any other waits for the next drain.\<close>

definition failed_turn :: "'w sender \<Rightarrow> OutboxRow \<Rightarrow> send_error \<Rightarrow> 'w sys \<Rightarrow> turn \<times> 'w sys" where
  "failed_turn sn row e s =
     (if poison row e then
        (let (now, s1) = read_clock sn s in
         turn_tx sn (\<lambda>d. DeadLetterOutbox d (obID row) (obJobID row) (escalation_str EscalationProjectOut)
             (send_text e) (criticalAction (obAction row)) now)
           (\<lambda>s2. (Go 0, tell (obJobID row) ''project_out:dead_letter'' s2)) s1)
      else (Stop (Some e), bump row s))"

text \<open>
  A conflict that outlived its retries goes to a resolver at the tip of the
  integration branch; when it cannot be routed, it is a failure like any other.
\<close>

definition conflict_turn :: "'w sender \<Rightarrow> OutboxRow \<Rightarrow> send_error \<Rightarrow> 'w sys \<Rightarrow> turn \<times> 'w sys" where
  "conflict_turn sn row e s = (case snHistory sn of
     None \<Rightarrow> failed_turn sn row e s
   | Some m \<Rightarrow>
       (let b = integration_branch sn;
            w1 = snd (hwFetchBranch m b (syWorld s));
            (tip, w2) = hwHeadSHA m (''refs/heads/'' @ b) w1;
            s1 = s\<lparr>syWorld := w2\<rparr> in
        case tip of
          Inl er \<Rightarrow> failed_turn sn row e s1
        | Inr sha \<Rightarrow>
            if sha = [] then failed_turn sn row e s1
            else let (now, s2) = read_clock sn s1 in
              (case RouteMergeConflict (syDB s2) (obJobID row) sha now of
                 Inl er \<Rightarrow> failed_turn sn row e s2
               | Inr d \<Rightarrow> turn_tx sn (\<lambda>d. MarkOutboxSent d (obID row) ''merge conflict -> resolving_conflict'')
                   (\<lambda>s3. (Go 1, tell (obJobID row) ''project_out:merge_conflict'' s3)) (s2\<lparr>syDB := d\<rparr>))))"

definition error_turn :: "'w sender \<Rightarrow> OutboxRow \<Rightarrow> send_error \<Rightarrow> 'w sys \<Rightarrow> turn \<times> 'w sys" where
  "error_turn sn row e s = (case e of
     ErrStaleMergeAuthorization \<Rightarrow> superseded_turn sn row s
   | ErrMergeCINotReady \<Rightarrow> (Stop None, s)
   | ErrMergeCIFailedRouted \<Rightarrow> (Go 0, s)
   | ErrPlain t \<Rightarrow> failed_turn sn row e s
   | ErrCall g \<Rightarrow>
       if is_head_modified g then superseded_turn sn row s
       else case retry_after g of
         Some wait \<Rightarrow> (let (now, s1) = read_clock sn s in (Stop None, s1\<lparr>syParked := now + wait\<rparr>))
       | None \<Rightarrow>
           if is_merge_conflict g then
             (if obAttempts row + 1 < mergeMergeabilityRetries then (Stop (Some e), bump row s)
              else conflict_turn sn row e s)
           else failed_turn sn row e s)"

definition drain_turn :: "'w sender \<Rightarrow> 'w sys \<Rightarrow> turn \<times> 'w sys" where
  "drain_turn sn s = (case next_row sn (syDB s) of
     None \<Rightarrow> (Stop None, s)
   | Some row \<Rightarrow>
       if IsQuiescent (syDB s) (obJobID row) = Inr True
       then (Go 0, s\<lparr>syDB := MarkOutboxSuppressed (obID row) (syDB s)\<rparr>)
       else (case send sn row s of
           (Inl e, s1) \<Rightarrow> error_turn sn row e s1
         | (Inr detail, s1) \<Rightarrow>
             turn_tx sn (\<lambda>d. MarkOutboxSent d (obID row) detail)
               (\<lambda>s2. (Go 1, tell (obJobID row) (''project_out:'' @ obAction row) s2)) s1))"

text \<open>
  The loop, with as much fuel as turns it may take; \<open>None\<close> is a drain that has not
  ended by then.
\<close>

fun drain_loop :: "'w sender \<Rightarrow> nat \<Rightarrow> int \<Rightarrow> 'w sys \<Rightarrow> ((int \<times> send_error option) \<times> 'w sys) option" where
  "drain_loop sn 0 sent s = None"
| "drain_loop sn (Suc k) sent s = (case drain_turn sn s of
     (Stop e, s1) \<Rightarrow> Some ((sent, e), s1)
   | (Go n, s1) \<Rightarrow> drain_loop sn k (sent + n) s1)"

definition DrainOnce :: "'w sender \<Rightarrow> nat \<Rightarrow> 'w sys \<Rightarrow> ((int \<times> send_error option) \<times> 'w sys) option" where
  "DrainOnce sn fuel s =
     (let (now, s1) = read_clock sn s in
      if now < syParked s then Some ((0, None), s1) else drain_loop sn fuel 0 s1)"

end
