(* ===== verification/Sender_Facts.thy ===== *)
theory Sender_Facts
  imports Sender
begin

text \<open>
  What the sender asks of GitHub, and when.  \<open>emits\<close> follows the mutations through
  the steps of a send: each is asked for at the database the turn started with, by
  the row that turn picked, under the conditions \<open>call_for\<close> states.
\<close>

section \<open>Following the calls\<close>

definition emits :: "(DB \<times> gh_call \<Rightarrow> bool) \<Rightarrow> ('w, 'a) act \<Rightarrow> 'w sys \<Rightarrow> bool" where
  "emits P m s \<longleftrightarrow> (\<exists>new. syCalls (snd (m s)) = syCalls s @ new \<and> (\<forall>x \<in> set new. P x))"

lemma emits_none: "syCalls (snd (m s)) = syCalls s \<Longrightarrow> emits P m s"
  by (simp add: emits_def)

lemma emits_then:
  assumes "emits P m s" and "\<And>x s1. m s = (Inr x, s1) \<Longrightarrow> emits P (f x) s1"
  shows "emits P (act_then m f) s"
proof (cases "m s")
  case (Pair r s1)
  show ?thesis
  proof (cases r)
    case (Inl e)
    with Pair assms(1) show ?thesis by (simp add: emits_def act_then_def)
  next
    case (Inr x)
    with Pair assms(2) have "emits P (f x) s1" by blast
    with assms(1) Pair Inr show ?thesis by (fastforce simp: emits_def act_then_def)
  qed
qed

lemma act_then_Inr:
  "act_then m f s = (Inr y, s2) \<longleftrightarrow> (\<exists>x s1. m s = (Inr x, s1) \<and> f x s1 = (Inr y, s2))"
  by (auto simp: act_then_def split: prod.splits sum.splits)

text \<open>Steps that ask nothing of GitHub and leave the database alone.\<close>

definition quiet :: "('w, 'a) act \<Rightarrow> bool" where
  "quiet m \<longleftrightarrow> (\<forall>s. syDB (snd (m s)) = syDB s \<and> syCalls (snd (m s)) = syCalls s
     \<and> syParked (snd (m s)) = syParked s)"

lemma quietD: "quiet m \<Longrightarrow> m s = (r, s1) \<Longrightarrow> syDB s1 = syDB s \<and> syCalls s1 = syCalls s \<and> syParked s1 = syParked s"
  by (metis quiet_def snd_conv)

lemma quiet_emits: "quiet m \<Longrightarrow> emits P m s"
  by (simp add: quiet_def emits_none)

lemma quiet_steps [simp]:
  "quiet (done_with x)" "quiet (fail_with e)" "quiet (from_db g)" "quiet (clock_now sn)"
  "quiet (publish i ev)" "quiet (gh_read io)" "quiet (mirror_call mc)"
  by (auto simp: quiet_def done_with_def fail_with_def from_db_def clock_now_def publish_def gh_read_def
      mirror_call_def split: prod.splits sum.splits)

lemma quiet_then [intro]: "quiet m \<Longrightarrow> (\<And>x. quiet (f x)) \<Longrightarrow> quiet (act_then m f)"
  unfolding quiet_def act_then_def by (auto split: prod.splits sum.splits) (metis snd_conv)+

lemma emits_steps [simp]:
  "emits P (done_with x) s" "emits P (fail_with e) s" "emits P (clock_now sn) s"
  "emits P (publish i ev) s" "emits P (gh_read io) s" "emits P (mirror_call mc) s"
  "emits P (from_db g) s"
  by (simp_all add: quiet_emits)

lemma store_tx_calls [simp]:
  "syCalls (snd (store_tx sn what f s)) = syCalls s" "syParked (snd (store_tx sn what f s)) = syParked s"
  by (simp_all add: store_tx_def split: sum.splits)

lemma emits_tx [simp]: "emits P (store_tx sn what f) s"
  by (simp add: emits_none)

lemma emits_write: "P (syDB s, c) \<Longrightarrow> emits P (gh_write c io) s"
  by (auto simp: emits_def gh_write_def gh_read_def split: prod.splits sum.splits)

lemma write_db: "gh_write c io s = (r, s1) \<Longrightarrow> syDB s1 = syDB s \<and> syParked s1 = syParked s"
  by (auto simp: gh_write_def gh_read_def split: prod.splits sum.splits)

lemma quiet_mergeable: "quiet (mergeable_known sn n)"
  by (auto simp: mergeable_known_def intro!: quiet_then split: option.splits prod.splits)

lemma quiet_live: "quiet (liveMergeCI sn n h)"
  by (auto simp: liveMergeCI_def check_pr_def quiet_mergeable intro!: quiet_then split: option.splits)

section \<open>What a call stands on\<close>

definition live_green :: "'w sender \<Rightarrow> int \<Rightarrow> string \<Rightarrow> bool" where
  "live_green sn n h \<longleftrightarrow> (\<exists>reader pr required w w1. ghPullRequest (snGH sn) = Some reader
     \<and> reader n w = (Inr (Some pr), w1) \<and> prHeadRefOid pr = h
     \<and> (\<exists>w2 w3. requiredChecks sn w2 = (Inr required, w3))
     \<and> lmGreen (mergeCI pr required) \<and> \<not> lmFailed (mergeCI pr required))"

definition content_clear :: "'w sender \<Rightarrow> string \<Rightarrow> string \<Rightarrow> bool" where
  "content_clear sn base head \<longleftrightarrow> (\<exists>m diff w w1. snHistory sn = Some m
     \<and> hwDiffBetween m base head w = (Inr diff, w1) \<and> contentDenyReason diff (snAllowOwnSource sn) = [])"

definition merge_allowed :: "'w sender \<Rightarrow> DB \<Rightarrow> OutboxRow \<Rightarrow> int \<Rightarrow> string \<Rightarrow> bool" where
  "merge_allowed sn d row n h \<longleftrightarrow> h \<noteq> [] \<and> obHeadSHA row = h \<and> number_of d row ''pr_number'' = n
     \<and> snHistory sn \<noteq> None
     \<and> (\<exists>j v. GetJob d (obJobID row) = Inr j \<and> jHeadSHA j = h \<and> jVerdict j = Some v
          \<and> verdict_Verify v h (jBaseSHA j) \<and> (jBaseSHA j \<noteq> [] \<longrightarrow> content_clear sn (jBaseSHA j) h))
     \<and> live_green sn n h"

text \<open>
  What a call for a row may be, argument by argument: a specification over the row, the
  job and the configuration.  A branch update is only asked where the merge itself was.
\<close>

fun call_for :: "'w sender \<Rightarrow> DB \<Rightarrow> OutboxRow \<Rightarrow> gh_call \<Rightarrow> bool" where
  "call_for sn d row (CallOpenPR inp) \<longleftrightarrow> obAction row = ActionOpenPR
     \<and> jPRNumber (job_or_zero d (obJobID row)) \<le> 0
     \<and> oiTitle inp = prTitle (job_or_zero d (obJobID row)) (obJobID row)
     \<and> oiBody inp = prBody d (job_or_zero d (obJobID row))
     \<and> oiHeadRef inp = IssueBranch (ResolveIssueNum d (jID (job_or_zero d (obJobID row)))) (obJobID row)
     \<and> oiBaseRef inp = (if pay_str (obPayload row) ''base_ref'' \<noteq> [] then pay_str (obPayload row) ''base_ref''
                        else if snBaseBranch sn \<noteq> [] then snBaseBranch sn else ''main'')
     \<and> \<not> oiDraft inp"
| "call_for sn d row (CallCreateIssue inp) \<longleftrightarrow> obAction row = ActionCreateIssue
     \<and> (\<exists>j. GetJob d (obJobID row) = Inr j \<and> jIssueNum j \<le> 0 \<and> ciTitle inp = issueTitle j
          \<and> ciBody inp = issueBody j \<and> ciLabels inp = [''flowbee'', ''flowbee:spec''])"
| "call_for sn d row (CallComment n b) \<longleftrightarrow> obAction row = ActionComment \<and> n \<noteq> 0
     \<and> n = ResolveIssueNum d (jID (job_or_zero d (obJobID row))) \<and> b = pay_str (obPayload row) ''body''"
| "call_for sn d row (CallSetLabels n ls) \<longleftrightarrow> obAction row = ActionSetLabels
     \<and> n = number_of d row ''number'' \<and> ls = strSlice (obPayload row) ''labels''"
| "call_for sn d row (CallCheck sha nm concl) \<longleftrightarrow> obAction row = ActionCreateCheck \<and> sha = obHeadSHA row
     \<and> nm = pay_str (obPayload row) ''name''
     \<and> concl = (if pay_str (obPayload row) ''conclusion'' = [] then ''success''
                else pay_str (obPayload row) ''conclusion'')"
| "call_for sn d row (CallMerge n h) \<longleftrightarrow> obAction row = ActionEnqueueMerge \<and> merge_allowed sn d row n h"
| "call_for sn d row (CallUpdateBranch n) \<longleftrightarrow> obAction row = ActionEnqueueMerge \<and> n \<noteq> 0
     \<and> merge_allowed sn d row n (obHeadSHA row)"
| "call_for sn d row (CallDraft n) \<longleftrightarrow> obAction row = ActionDraftPR \<and> n \<noteq> 0
     \<and> n = number_of d row ''pr_number''"
| "call_for sn d row (CallDeleteBranch b) \<longleftrightarrow> obAction row = ActionDeleteBranch \<and> b \<noteq> []
     \<and> b = pay_str (obPayload row) ''branch''"
| "call_for sn d row (CallPutFiles fs msg b) \<longleftrightarrow> obAction row = ActionWriteHistory \<and> snArchiveHistory sn
     \<and> snArtifacts sn d (obJobID row) = Inr fs \<and> msg = ''flowbee: archive history for '' @ obJobID row
     \<and> b = (if snBaseBranch sn \<noteq> [] then snBaseBranch sn else ''main'')"

section \<open>The merge path\<close>

lemma gh_read_InrD: "gh_read io s = (Inr x, s1) \<Longrightarrow> \<exists>w w1. io w = (Inr x, w1)"
  by (auto simp: gh_read_def split: prod.splits sum.splits)

lemma mirror_InrD: "mirror_call mc s = (Inr x, s1) \<Longrightarrow> \<exists>w w1. mc w = (x, w1)"
  by (auto simp: mirror_call_def split: prod.splits)

lemma liveMergeCI_ok:
  assumes "liveMergeCI sn n h s = (Inr ci, s1)" and "h \<noteq> []"
  shows "\<exists>reader pr required w w1. ghPullRequest (snGH sn) = Some reader
    \<and> reader n w = (Inr (Some pr), w1) \<and> prHeadRefOid pr = h
    \<and> (\<exists>w2 w3. requiredChecks sn w2 = (Inr required, w3)) \<and> ci = mergeCI pr required"
  using assms
  by (fastforce simp: liveMergeCI_def check_pr_def act_then_Inr fail_with_def done_with_def
      split: option.splits if_splits dest!: gh_read_InrD)

definition at_start :: "'w sender \<Rightarrow> DB \<Rightarrow> OutboxRow \<Rightarrow> DB \<times> gh_call \<Rightarrow> bool" where
  "at_start sn d row x \<longleftrightarrow> fst x = d \<and> call_for sn d row (snd x)"

lemma merge_call_emits:
  assumes "obAction row = ActionEnqueueMerge" and "merge_allowed sn (syDB s) row n h"
  shows "emits (at_start sn (syDB s) row) (merge_call sn n h) s"
proof -
  have h: "obHeadSHA row = h" using assms(2) by (simp add: merge_allowed_def)
  have w: "emits (at_start sn (syDB s) row) (gh_write (CallMerge n h) (ghEnqueueMergeQueue (snGH sn) n h)) s"
    by (rule emits_write) (simp add: at_start_def assms)
  obtain r s1 where g: "gh_write (CallMerge n h) (ghEnqueueMergeQueue (snGH sn) n h) s = (r, s1)"
    by fastforce
  from w g obtain new where new: "syCalls s1 = syCalls s @ new" "\<forall>x \<in> set new. at_start sn (syDB s) row x"
    by (auto simp: emits_def)
  have u: "n \<noteq> 0 \<Longrightarrow> emits (at_start sn (syDB s) row) (gh_write (CallUpdateBranch n) (up n)) s1"
    for up :: "int \<Rightarrow> ('a, unit) io"
    by (rule emits_write) (simp add: at_start_def assms h write_db [OF g])
  show ?thesis
  proof (cases r)
    case (Inr x)
    with g w show ?thesis by (simp add: merge_call_def emits_def)
  next
    case (Inl e)
    have "\<exists>new2. syCalls (snd (merge_call sn n h s)) = syCalls s1 @ new2
        \<and> (\<forall>x \<in> set new2. at_start sn (syDB s) row x)"
      using g Inl u by (auto simp: merge_call_def emits_def Let_def split: option.splits prod.splits if_splits)
    with new show ?thesis by (fastforce simp: emits_def)
  qed
qed

lemma merge_if_green_emits:
  assumes "obAction row = ActionEnqueueMerge" and "number_of (syDB s) row ''pr_number'' = n"
    and "live_green sn n (obHeadSHA row) \<Longrightarrow> merge_allowed sn (syDB s) row n (obHeadSHA row)"
    and "obHeadSHA row \<noteq> []"
  shows "emits (at_start sn (syDB s) row) (merge_if_green sn row n) s"
  unfolding merge_if_green_def
proof (rule emits_then)
  show "emits (at_start sn (syDB s) row) (liveMergeCI sn n (obHeadSHA row)) s"
    by (rule quiet_emits [OF quiet_live])
next
  fix ci s1
  assume l: "liveMergeCI sn n (obHeadSHA row) s = (Inr ci, s1)"
  have d: "syDB s1 = syDB s" using quietD [OF quiet_live l] by simp
  show "emits (at_start sn (syDB s) row) (merge_or_repair sn row n ci) s1"
  proof (cases "lmFailed ci \<or> \<not> lmGreen ci")
    case True
    then show ?thesis by (auto simp: merge_or_repair_def intro!: emits_then)
  next
    case False
    with liveMergeCI_ok [OF l assms(4)] have "live_green sn n (obHeadSHA row)"
      unfolding live_green_def by blast
    with assms(2,3) have "merge_allowed sn (syDB s1) row n (obHeadSHA row)" by (simp add: d)
    from merge_call_emits [OF assms(1) this] False show ?thesis by (simp add: d merge_or_repair_def)
  qed
qed

lemma hand_off_emits: "emits P (hand_off sn row what reason ev detail) s"
  unfolding hand_off_def by (intro emits_then) simp_all

lemma authorized_Some:
  "authorized d row = Some j \<longleftrightarrow> GetJob d (obJobID row) = Inr j \<and> obHeadSHA row \<noteq> []
     \<and> jHeadSHA j = obHeadSHA row \<and> (\<exists>v. jVerdict j = Some v \<and> verdict_Verify v (obHeadSHA row) (jBaseSHA j))"
  by (auto simp: authorized_def split: sum.splits option.splits)

lemma judge_diff_emits:
  assumes act: "obAction row = ActionEnqueueMerge" and n: "number_of (syDB s) row ''pr_number'' = n"
    and h: "obHeadSHA row \<noteq> []"
    and ok: "\<And>actual. diff = Inr actual \<Longrightarrow> contentDenyReason actual (snAllowOwnSource sn) = [] \<Longrightarrow>
      live_green sn n (obHeadSHA row) \<Longrightarrow> merge_allowed sn (syDB s) row n (obHeadSHA row)"
  shows "emits (at_start sn (syDB s) row) (judge_diff sn row j n diff) s"
proof (cases diff)
  case (Inl e)
  then show ?thesis by (simp add: judge_diff_def hand_off_emits)
next
  case (Inr actual)
  show ?thesis
  proof (cases "contentDenyReason actual (snAllowOwnSource sn) = []")
    case True
    from merge_if_green_emits [OF act n ok [OF Inr True] h] True show ?thesis
      by (simp add: judge_diff_def Inr)
  qed (simp add: judge_diff_def Inr Let_def hand_off_emits)
qed

lemma verified_merge_emits:
  assumes act: "obAction row = ActionEnqueueMerge" and j: "authorized (syDB s) row = Some j"
    and m: "snHistory sn = Some m" and n: "number_of (syDB s) row ''pr_number'' = n"
  shows "emits (at_start sn (syDB s) row) (verified_merge sn m row j n) s"
proof -
  have h: "obHeadSHA row \<noteq> []" "jHeadSHA j = obHeadSHA row" using j by (simp_all add: authorized_Some)
  have allowed: "merge_allowed sn (syDB s) row n (obHeadSHA row)"
    if "live_green sn n (obHeadSHA row)" "jBaseSHA j \<noteq> [] \<Longrightarrow> content_clear sn (jBaseSHA j) (obHeadSHA row)"
    using j that m n by (auto simp: merge_allowed_def authorized_Some)
  show ?thesis
  proof (cases "jBaseSHA j = []")
    case True
    then have "emits (at_start sn (syDB s) row) (merge_if_green sn row n) s"
      by (intro merge_if_green_emits act n h(1) allowed) simp_all
    with True show ?thesis by (simp add: verified_merge_def emits_def)
  next
    case False
    let ?br = "IssueBranch (ResolveIssueNum (syDB s) (jID j)) (obJobID row)"
    have "emits (at_start sn (syDB s) row)
      (act_then (mirror_call (hwFetchBranch m ?br)) (diff_after_fetch sn m row j n ?br)) s"
    proof (intro emits_then emits_steps)
      fix ferr s1 assume f: "mirror_call (hwFetchBranch m ?br) s = (Inr ferr, s1)"
      have d1: "syDB s1 = syDB s" using quietD [OF quiet_steps(7) f] by simp
      have "emits (at_start sn (syDB s) row)
        (act_then (mirror_call (hwDiffBetween m (jBaseSHA j) (jHeadSHA j))) (judge_diff sn row j n)) s1"
      proof (intro emits_then emits_steps)
        fix diff s2 assume g: "mirror_call (hwDiffBetween m (jBaseSHA j) (jHeadSHA j)) s1 = (Inr diff, s2)"
        have d2: "syDB s2 = syDB s" using quietD [OF quiet_steps(7) g] d1 by simp
        have "content_clear sn (jBaseSHA j) (obHeadSHA row)"
          if "diff = Inr actual" "contentDenyReason actual (snAllowOwnSource sn) = []" for actual
          using mirror_InrD [OF g] that m h(2) unfolding content_clear_def by metis
        then show "emits (at_start sn (syDB s) row) (judge_diff sn row j n diff) s2"
          using judge_diff_emits [OF act _ h(1), of s2] allowed n by (simp add: d2)
      qed
      then show "emits (at_start sn (syDB s) row) (diff_after_fetch sn m row j n ?br ferr) s1"
        by (simp add: diff_after_fetch_def split: option.splits)
    qed
    with False show ?thesis by (simp add: verified_merge_def emits_def Let_def)
  qed
qed

section \<open>Every row\<close>

lemma quiet_seed_calls: "emits P (seedBuildFromSpec sn sp now) s"
proof -
  have "emits P (act_then (mirror_call mc) (\<lambda>base s1. case base of
              Inl er \<Rightarrow> (Inr (Inl (''resolve base_sha: '' @ er)), s1)
            | Inr sha \<Rightarrow> (case seedJobTx (snStore sn) (syDB s1) (spec_build sp sha now) of
                Inl er \<Rightarrow> (Inr (Inl (snErrText sn er)), s1)
              | Inr d \<Rightarrow> (Inr (Inr b), s1\<lparr>syDB := d\<rparr>)))) s" for mc :: "'a \<Rightarrow> (string + string) \<times> 'a" and b
    by (rule emits_then) (auto intro!: emits_none split: sum.splits)
  then show ?thesis
    by (auto simp: seedBuildFromSpec_def emits_def Let_def split: sum.splits option.splits)
qed

lemma emits_cong: "emits P m s \<Longrightarrow> m s = m2 s \<Longrightarrow> emits P m2 s"
  by (simp add: emits_def)

lemma emits_call:
  assumes "m s = act_then (gh_write c io) f s" and "P (syDB s, c)" and "\<And>x s1. emits P (f x) s1"
  shows "emits P m s"
proof -
  have "emits P (act_then (gh_write c io) f) s"
    by (rule emits_then [OF emits_write]) (simp_all add: assms(2,3))
  then show ?thesis by (simp add: emits_def assms(1))
qed

lemma send_cases_emit:
  "obAction row = ActionOpenPR \<Longrightarrow> emits (at_start sn (syDB s) row) (send_open_pr sn row now) s"
  "obAction row = ActionCreateIssue \<Longrightarrow> emits (at_start sn (syDB s) row) (send_create_issue sn row now) s"
  "obAction row = ActionComment \<Longrightarrow> emits (at_start sn (syDB s) row) (send_comment sn row) s"
  "obAction row = ActionSetLabels \<Longrightarrow> emits (at_start sn (syDB s) row) (send_labels sn row) s"
  "obAction row = ActionCreateCheck \<Longrightarrow> emits (at_start sn (syDB s) row) (send_check sn row) s"
  "obAction row = ActionDraftPR \<Longrightarrow> emits (at_start sn (syDB s) row) (send_draft sn row) s"
  "obAction row = ActionDeleteBranch \<Longrightarrow> emits (at_start sn (syDB s) row) (send_delete_branch sn row) s"
  "obAction row = ActionWriteHistory \<Longrightarrow> emits (at_start sn (syDB s) row) (send_history sn row) s"
proof -
  show "emits (at_start sn (syDB s) row) (send_open_pr sn row now) s" if "obAction row = ActionOpenPR"
  proof (cases "jPRNumber (job_or_zero (syDB s) (obJobID row)) > 0")
    case True
    then show ?thesis by (intro emits_cong [OF emits_steps(1)]) (simp add: Let_def send_open_pr_def)
  next
    case False
    show ?thesis
      by (rule emits_call, simp add: send_open_pr_def False Let_def, use that False in \<open>simp add: at_start_def pr_input_def orDefault_def integration_branch_def Let_def\<close>)
        (intro emits_then; simp)
  qed
  show "emits (at_start sn (syDB s) row) (send_create_issue sn row now) s" if "obAction row = ActionCreateIssue"
  proof (cases "GetJob (syDB s) (obJobID row)")
    case (Inl e)
    then show ?thesis by (intro emits_cong [OF emits_steps(2)]) (simp add: send_create_issue_def)
  next
    case (Inr j)
    show ?thesis
    proof (cases "jIssueNum j > 0")
      case True
      then show ?thesis
        by (intro emits_cong [OF emits_then [OF quiet_seed_calls emits_steps(1)]])
          (simp add: send_create_issue_def Inr)
    next
      case False
      show ?thesis
        by (rule emits_call, simp add: send_create_issue_def Inr False Let_def,
            use that False Inr in \<open>simp add: at_start_def issue_input_def\<close>)
          (intro emits_then quiet_seed_calls; simp)
    qed
  qed
  show "emits (at_start sn (syDB s) row) (send_comment sn row) s" if "obAction row = ActionComment"
  proof (cases "ResolveIssueNum (syDB s) (jID (job_or_zero (syDB s) (obJobID row))) = 0")
    case True
    then show ?thesis by (intro emits_cong [OF emits_steps(1)]) (simp add: Let_def send_comment_def)
  next
    case False
    then show ?thesis
      by - (rule emits_call, simp add: send_comment_def Let_def, simp add: at_start_def that, simp)
  qed
  show "emits (at_start sn (syDB s) row) (send_labels sn row) s" if "obAction row = ActionSetLabels"
    by (rule emits_call, simp add: send_labels_def Let_def, simp add: at_start_def that) simp
  show "emits (at_start sn (syDB s) row) (send_check sn row) s" if "obAction row = ActionCreateCheck"
    by (rule emits_call, simp add: send_check_def Let_def, simp add: at_start_def that orDefault_def) simp
  show "emits (at_start sn (syDB s) row) (send_draft sn row) s" if "obAction row = ActionDraftPR"
  proof (cases "number_of (syDB s) row ''pr_number'' = 0")
    case True
    then show ?thesis by (intro emits_cong [OF emits_steps(1)]) (simp add: Let_def send_draft_def)
  next
    case False
    then show ?thesis
      by - (rule emits_call, simp add: send_draft_def Let_def, simp add: at_start_def that, simp)
  qed
  show "emits (at_start sn (syDB s) row) (send_delete_branch sn row) s" if "obAction row = ActionDeleteBranch"
  proof (cases "pay_str (obPayload row) ''branch'' = []")
    case True
    then show ?thesis by (simp add: send_delete_branch_def)
  next
    case False
    then show ?thesis
      by - (rule emits_call, simp add: send_delete_branch_def Let_def, simp add: at_start_def that, simp)
  qed
  show "emits (at_start sn (syDB s) row) (send_history sn row) s" if "obAction row = ActionWriteHistory"
  proof (cases "snArtifacts sn (syDB s) (obJobID row)")
    case (Inl e)
    then show ?thesis by (intro emits_cong [OF emits_steps(2)]) (simp add: send_history_def)
  next
    case (Inr arts)
    show ?thesis
    proof (cases "snArchiveHistory sn")
      case False
      then show ?thesis by (intro emits_cong [OF emits_steps(1)]) (simp add: Let_def send_history_def Inr)
    next
      case True
      then show ?thesis
        by - (rule emits_call, simp add: send_history_def Inr Let_def,
            simp add: at_start_def that Inr orDefault_def integration_branch_def, simp)
    qed
  qed
qed

lemma send_merge_emits:
  assumes "obAction row = ActionEnqueueMerge"
  shows "emits (at_start sn (syDB s) row) (send_merge sn row) s"
proof (cases "snHistory sn")
  case None
  have "emits (at_start sn (syDB s) row) (hand_off sn row what reason ev detail) s" for what reason ev detail
    by (rule hand_off_emits)
  then show ?thesis by (simp add: send_merge_def None emits_def)
next
  case (Some m)
  show ?thesis
  proof (cases "authorized (syDB s) row")
    case None
    then show ?thesis by (simp add: send_merge_def Some emits_def fail_with_def)
  next
    case (Some j)
    from verified_merge_emits [OF assms this \<open>snHistory sn = Some m\<close> refl]
    show ?thesis by (simp add: send_merge_def Some \<open>snHistory sn = Some m\<close> emits_def Let_def)
  qed
qed

lemma send_emits: "emits (at_start sn (syDB s) row) (send sn row) s"
  unfolding send_def
proof (rule emits_then)
  fix now s1 assume c: "clock_now sn s = (Inr now, s1)"
  have d: "syDB s1 = syDB s" using quietD [OF quiet_steps(4) c] by simp
  show "emits (at_start sn (syDB s) row)
      (if obAction row = ActionOpenPR then send_open_pr sn row now
       else if obAction row = ActionCreateIssue then send_create_issue sn row now
       else if obAction row = ActionComment then send_comment sn row
       else if obAction row = ActionSetLabels then send_labels sn row
       else if obAction row = ActionCreateCheck then send_check sn row
       else if obAction row = ActionEnqueueMerge then send_merge sn row
       else if obAction row = ActionDraftPR then send_draft sn row
       else if obAction row = ActionDeleteBranch then send_delete_branch sn row
       else if obAction row = ActionWriteHistory then send_history sn row
       else done_with (''noop:'' @ obAction row)) s1"
    using send_cases_emit [of row sn s1] send_merge_emits [of row sn s1] by (simp add: d)
qed simp

section \<open>The drain\<close>

text \<open>The row a turn serves: the first pending one of the sender's repository, not suppressed.\<close>

definition serves :: "'w sender \<Rightarrow> DB \<Rightarrow> OutboxRow \<Rightarrow> bool" where
  "serves sn d row \<longleftrightarrow> next_row sn d = Some row \<and> IsQuiescent d (obJobID row) \<noteq> Inr True"

definition due_call :: "'w sender \<Rightarrow> DB \<times> gh_call \<Rightarrow> bool" where
  "due_call sn x \<longleftrightarrow> (\<exists>row. serves sn (fst x) row \<and> call_for sn (fst x) row (snd x))"

lemma turn_tx_calls:
  assumes "\<And>s. syCalls (snd (k s)) = syCalls s"
  shows "syCalls (snd (turn_tx sn f k s)) = syCalls s"
  by (simp add: turn_tx_def assms split: sum.splits)

lemma failed_calls: "syCalls (snd (failed_turn sn row e s)) = syCalls s"
  by (auto simp: failed_turn_def read_clock_def turn_tx_def bump_def tell_def Let_def
      split: prod.splits sum.splits)

lemma superseded_calls: "syCalls (snd (superseded_turn sn row s)) = syCalls s"
  by (auto simp: superseded_turn_def read_clock_def turn_tx_def tell_def Let_def
      split: prod.splits sum.splits)

lemma conflict_calls: "syCalls (snd (conflict_turn sn row e s)) = syCalls s"
proof (cases "snHistory sn")
  case (Some m)
  then show ?thesis
    by (simp add: conflict_turn_def failed_calls Let_def split: prod.splits sum.splits)
      (auto simp: read_clock_def turn_tx_def tell_def failed_calls split: prod.splits sum.splits)
qed (simp add: conflict_turn_def failed_calls)

lemma error_calls: "syCalls (snd (error_turn sn row e s)) = syCalls s"
  by (cases e) (auto simp: error_turn_def failed_calls superseded_calls conflict_calls bump_def
      read_clock_def split: option.splits prod.splits)

lemma turn_emits:
  "\<exists>new. syCalls (snd (drain_turn sn s)) = syCalls s @ new \<and> (\<forall>x \<in> set new. due_call sn x)"
proof (cases "next_row sn (syDB s)")
  case None
  then show ?thesis by (simp add: drain_turn_def)
next
  case (Some row)
  show ?thesis
  proof (cases "IsQuiescent (syDB s) (obJobID row) = Inr True")
    case True
    with Some show ?thesis by (simp add: drain_turn_def)
  next
    case False
    obtain r s1 where g: "send sn row s = (r, s1)" by fastforce
    from send_emits [of sn s row] g obtain new where new: "syCalls s1 = syCalls s @ new"
      and at: "\<forall>x \<in> set new. at_start sn (syDB s) row x" by (auto simp: emits_def)
    have "\<forall>x \<in> set new. due_call sn x"
      using at Some False by (auto simp: at_start_def due_call_def serves_def)
    moreover have "syCalls (snd (drain_turn sn s)) = syCalls s1"
      using Some False g by (cases r)
        (simp_all add: drain_turn_def error_calls turn_tx_calls tell_def)
    ultimately show ?thesis using new by simp
  qed
qed

text \<open>The turns of a drain, ended or not.\<close>

definition turned :: "'w sender \<Rightarrow> 'w sys \<Rightarrow> 'w sys \<Rightarrow> bool" where
  "turned sn s s1 \<longleftrightarrow> s1 = snd (drain_turn sn s)"

lemma turns_emit:
  "(turned sn)\<^sup>*\<^sup>* s s1 \<Longrightarrow> \<exists>new. syCalls s1 = syCalls s @ new \<and> (\<forall>x \<in> set new. due_call sn x)"
proof (induction rule: rtranclp_induct)
  case (step s1 s2)
  then obtain new where new: "syCalls s1 = syCalls s @ new" "\<forall>x \<in> set new. due_call sn x" by blast
  from turn_emits [of sn s1] step(2) obtain new2 where
    "syCalls s2 = syCalls s1 @ new2" "\<forall>x \<in> set new2. due_call sn x" by (auto simp: turned_def)
  with new show ?case by (intro exI [of _ "new @ new2"]) auto
qed simp

lemma loop_turns: "drain_loop sn k sent s = Some (r, s1) \<Longrightarrow> (turned sn)\<^sup>*\<^sup>* s s1"
proof (induction sn k sent s rule: drain_loop.induct)
  case (2 sn k sent s)
  obtain t s2 where t: "drain_turn sn s = (t, s2)" by fastforce
  then have "turned sn s s2" by (simp add: turned_def)
  with 2(1) [OF t [symmetric]] 2(2) t show ?case
    by (cases t) (auto intro: converse_rtranclp_into_rtranclp)
qed simp

section \<open>What a failed call leaves\<close>

text \<open>A send that fails with GitHub's error has not touched the database.\<close>

definition clean :: "('w, 'a) act \<Rightarrow> 'w sys \<Rightarrow> bool" where
  "clean m s \<longleftrightarrow> (\<forall>g s1. m s = (Inl (ErrCall g), s1) \<longrightarrow> syDB s1 = syDB s)"

definition mute :: "('w, 'a) act \<Rightarrow> 'w sys \<Rightarrow> bool" where
  "mute m s \<longleftrightarrow> (\<forall>g s1. m s \<noteq> (Inl (ErrCall g), s1))"

lemma mute_clean: "mute m s \<Longrightarrow> clean m s"
  by (simp add: mute_def clean_def)

lemma quiet_clean: "quiet m \<Longrightarrow> clean m s"
  by (auto simp: clean_def dest: quietD)

lemma mute_then: "mute m s \<Longrightarrow> (\<And>x s1. m s = (Inr x, s1) \<Longrightarrow> mute (f x) s1) \<Longrightarrow> mute (act_then m f) s"
  by (auto simp: mute_def act_then_def split: prod.splits sum.splits)

lemma clean_then:
  assumes "clean m s" and "\<And>x s1. m s = (Inr x, s1) \<Longrightarrow> mute (f x) s1 \<or> syDB s1 = syDB s \<and> clean (f x) s1"
  shows "clean (act_then m f) s"
  unfolding clean_def
proof (intro allI impI)
  fix g s1 assume e: "act_then m f s = (Inl (ErrCall g), s1)"
  obtain r s2 where m: "m s = (r, s2)" by fastforce
  show "syDB s1 = syDB s"
  proof (cases r)
    case (Inl er)
    with e m assms(1) show ?thesis by (simp add: act_then_def clean_def)
  next
    case (Inr x)
    with e m have f: "f x s2 = (Inl (ErrCall g), s1)" by (simp add: act_then_def)
    with assms(2) [of x s2] m Inr show ?thesis by (auto simp: mute_def clean_def)
  qed
qed

lemma write_clean: "clean (gh_write c io) s"
  by (auto simp: clean_def dest: write_db)

lemma mute_steps [simp]:
  "mute (done_with x) s" "mute (clock_now sn) s" "mute (publish i ev) s" "mute (mirror_call mc) s"
  "mute (store_tx sn what f) s"
  "mute (fail_with e) s \<longleftrightarrow> (\<forall>g. e \<noteq> ErrCall g)"
  by (auto simp: mute_def done_with_def clock_now_def publish_def mirror_call_def store_tx_def
      fail_with_def split: prod.splits sum.splits)

lemma mute_seed: "mute (seedBuildFromSpec sn sp now) s"
  by (auto simp: mute_def seedBuildFromSpec_def act_then_def mirror_call_def Let_def
      split: sum.splits option.splits prod.splits)

lemma mute_hand_off: "mute (hand_off sn row what reason ev detail) s"
  unfolding hand_off_def by (intro mute_then) simp_all

lemma clean_cong: "clean m s \<Longrightarrow> m2 s = m s \<Longrightarrow> clean m2 s"
  unfolding clean_def by (erule ssubst)

lemma call_clean:
  assumes "m s = act_then (gh_write c io) f s" and "\<And>x s1. mute (f x) s1"
  shows "clean m s"
proof -
  have "clean (act_then (gh_write c io) f) s"
    by (rule clean_then [OF write_clean]) (simp add: assms(2))
  then show ?thesis by (rule clean_cong) (rule assms(1))
qed

lemma quiet_then_clean:
  assumes "quiet m" and "\<And>x s1. clean (f x) s1"
  shows "clean (act_then m f) s"
  by (rule clean_then [OF quiet_clean [OF assms(1)]]) (simp add: assms(2) quietD [OF assms(1)])

lemma merge_call_clean: "clean (merge_call sn n h) s"
proof -
  obtain r s1 where g: "gh_write (CallMerge n h) (ghEnqueueMergeQueue (snGH sn) n h) s = (r, s1)" by fastforce
  have d: "syDB s1 = syDB s" using write_db [OF g] by simp
  have u: "syDB (snd (gh_write c io s1)) = syDB s" for c and io :: "('a, unit) io"
    using write_db [of c io s1] d by (cases "gh_write c io s1") simp
  show ?thesis using g d u
    by (cases r) (auto simp: clean_def merge_call_def Let_def split: option.splits if_splits prod.splits)
qed

lemma merge_if_green_clean: "clean (merge_if_green sn row n) s"
  unfolding merge_if_green_def
proof (rule clean_then [OF quiet_clean [OF quiet_live]])
  fix ci s1 assume l: "liveMergeCI sn n (obHeadSHA row) s = (Inr ci, s1)"
  have "mute (act_then (clock_now sn) (\<lambda>now. act_then (store_tx sn what (f now)) (\<lambda>u.
      act_then (publish i ev) (\<lambda>u. fail_with ErrMergeCIFailedRouted))) :: ('a, string) act) s1" for what f i ev
    by (intro mute_then) simp_all
  with quietD [OF quiet_live l] show "mute (merge_or_repair sn row n ci) s1 \<or>
      syDB s1 = syDB s \<and> clean (merge_or_repair sn row n ci) s1"
    by (auto simp: merge_or_repair_def merge_call_clean)
qed

lemma verified_merge_clean: "clean (verified_merge sn m row j n) s"
proof -
  have judge: "clean (judge_diff sn row j n diff) s" for diff s
    by (cases diff) (simp_all add: judge_diff_def Let_def merge_if_green_clean mute_clean mute_hand_off)
  have "clean (act_then (mirror_call (hwDiffBetween m b h)) (judge_diff sn row j n)) s" for b h s
    by (rule quiet_then_clean) (simp_all add: judge)
  then have "clean (diff_after_fetch sn m row j n br ferr) s" for br ferr s
    by (cases ferr) (simp_all add: diff_after_fetch_def mute_clean)
  then have "clean (act_then (mirror_call (hwFetchBranch m br)) (diff_after_fetch sn m row j n br)) s" for br
    by (rule quiet_then_clean [OF quiet_steps(7)])
  then have fetch: "clean (act_then (mirror_call (hwFetchBranch m br)) (diff_after_fetch sn m row j n br)) s" for br
    .
  show ?thesis
  proof (cases "jBaseSHA j = []")
    case True
    show ?thesis by (rule clean_cong [OF merge_if_green_clean]) (simp add: verified_merge_def True)
  next
    case False
    show ?thesis by (rule clean_cong [OF fetch]) (simp add: verified_merge_def False Let_def)
  qed
qed

lemma send_cases_clean:
  "clean (send_open_pr sn row now) s" "clean (send_create_issue sn row now) s" "clean (send_comment sn row) s"
  "clean (send_labels sn row) s" "clean (send_check sn row) s" "clean (send_draft sn row) s"
  "clean (send_delete_branch sn row) s" "clean (send_history sn row) s" "clean (send_merge sn row) s"
proof -
  note quick = clean_cong [OF mute_clean [OF mute_steps(1)]] clean_cong [OF quiet_clean [OF quiet_steps(2)]]
  show "clean (send_open_pr sn row now) s"
  proof (cases "jPRNumber (job_or_zero (syDB s) (obJobID row)) > 0")
    case False
    show ?thesis
      by (rule call_clean, simp add: send_open_pr_def False Let_def) (intro mute_then; simp)
  qed (intro quick(1), simp add: send_open_pr_def Let_def)
  show "clean (send_create_issue sn row now) s"
  proof (cases "GetJob (syDB s) (obJobID row)")
    case (Inr j)
    show ?thesis
    proof (cases "jIssueNum j > 0")
      case True
      have "mute (act_then (seedBuildFromSpec sn j now) (\<lambda>b. done_with (seed_detail t b))) s" for t
        by (intro mute_then mute_seed) simp
      from clean_cong [OF mute_clean [OF this]] True show ?thesis by (simp add: send_create_issue_def Inr)
    next
      case False
      show ?thesis
        by (rule call_clean, simp add: send_create_issue_def Inr False Let_def)
          (intro mute_then mute_seed; simp)
    qed
  qed (intro quick(2), simp add: send_create_issue_def)
  show "clean (send_comment sn row) s"
  proof (cases "ResolveIssueNum (syDB s) (jID (job_or_zero (syDB s) (obJobID row))) = 0")
    case False
    then show ?thesis by - (rule call_clean, simp add: send_comment_def Let_def, simp)
  qed (intro quick(1), simp add: send_comment_def Let_def)
  show "clean (send_labels sn row) s"
    by (rule call_clean, simp add: send_labels_def Let_def) simp
  show "clean (send_check sn row) s"
    by (rule call_clean, simp add: send_check_def Let_def) simp
  show "clean (send_draft sn row) s"
  proof (cases "number_of (syDB s) row ''pr_number'' = 0")
    case False
    then show ?thesis by - (rule call_clean, simp add: send_draft_def Let_def, simp)
  qed (intro quick(1), simp add: send_draft_def Let_def)
  show "clean (send_delete_branch sn row) s"
  proof (cases "pay_str (obPayload row) ''branch'' = []")
    case False
    then show ?thesis by - (rule call_clean, simp add: send_delete_branch_def Let_def, simp)
  qed (simp add: send_delete_branch_def mute_clean)
  show "clean (send_history sn row) s"
  proof (cases "snArtifacts sn (syDB s) (obJobID row)")
    case (Inr arts)
    show ?thesis
    proof (cases "snArchiveHistory sn")
      case True
      then show ?thesis by - (rule call_clean, simp add: send_history_def Inr Let_def, simp)
    qed (intro quick(1), simp add: send_history_def Inr)
  qed (intro quick(2), simp add: send_history_def)
  show "clean (send_merge sn row) s"
  proof (cases "snHistory sn")
    case None
    have "clean (hand_off sn row w r e t) s" for w r e t by (rule mute_clean [OF mute_hand_off])
    then show ?thesis by (simp add: send_merge_def None clean_def)
  next
    case (Some m)
    have "clean (verified_merge sn m row j n) s" for j n by (rule verified_merge_clean)
    then show ?thesis
      by (cases "authorized (syDB s) row") (simp_all add: send_merge_def Some clean_def fail_with_def Let_def)
  qed
qed

lemma send_clean:
  assumes "send sn row s = (Inl (ErrCall g), s1)"
  shows "syDB s1 = syDB s"
proof -
  have "clean (send sn row) s"
    unfolding send_def by (rule quiet_then_clean) (simp_all add: send_cases_clean mute_clean)
  with assms show ?thesis by (simp add: clean_def)
qed

end
