(* ===== verification/Moved_Heads.thy ===== *)
theory Moved_Heads
  imports Github_Client
begin

text \<open>
  A client reports a moved head only for a merge: the other writes of the interface
  have no such error.
\<close>

definition steady :: "('w, 'a) io \<Rightarrow> bool" where
  "steady io \<longleftrightarrow> (\<forall>w e w1. io w = (Inl e, w1) \<longrightarrow> \<not> is_head_modified e)"

definition merge_only_heads :: "'w github \<Rightarrow> bool" where
  "merge_only_heads gh \<longleftrightarrow> (\<forall>inp. steady (ghOpenPR gh inp)) \<and> (\<forall>inp. steady (ghCreateIssue gh inp))
     \<and> (\<forall>n b. steady (ghIssueComment gh n b)) \<and> (\<forall>n ls. steady (ghSetLabels gh n ls))
     \<and> (\<forall>sha nm c. steady (ghCreateCheck gh sha nm c)) \<and> (\<forall>n. steady (ghConvertToDraft gh n))
     \<and> (\<forall>b. steady (ghDeleteBranch gh b)) \<and> (\<forall>fs m b. steady (ghPutFiles gh fs m b))"

lemma steady_then: "steady m \<Longrightarrow> (\<And>x. steady (f x)) \<Longrightarrow> steady (io_then m f)"
  by (fastforce simp: steady_def io_then_def split: prod.splits sum.splits)

lemma steady_rescue: "(\<And>e. \<not> is_head_modified e \<Longrightarrow> steady (f e)) \<Longrightarrow> steady m \<Longrightarrow> steady (io_rescue m f)"
  by (fastforce simp: steady_def io_rescue_def split: prod.splits sum.splits)

lemma steady_simps [simp]:
  "steady (io_return x)" "steady (io_fail e) \<longleftrightarrow> \<not> is_head_modified e"
  "\<not> is_head_modified (ErrOther t)" "is_head_modified (ErrWrapped p e) \<longleftrightarrow> is_head_modified e"
  "\<not> is_head_modified (ErrRetryAfter n)" "\<not> is_head_modified (ErrGitHub st m p b)"
  by (simp_all add: steady_def io_return_def io_fail_def is_head_modified_def)

lemma steady_wrap: "steady m \<Longrightarrow> steady (io_wrap p m)"
  by (rule steady_rescue) simp_all

lemma steady_token: "steady m \<Longrightarrow> steady (with_token t m)"
  by (auto simp: steady_def with_token_def split: prod.splits sum.splits)

lemma steady_do: "steady (http_do f)"
  by (auto simp: steady_def http_do_def split: prod.splits sum.splits)

lemma steady_rest: "steady (rest t m p b)"
proof -
  have "\<not> is_head_modified e" if "rest_error now m p r = Some e" for e now r
    using that by (auto simp: rest_error_def split: option.splits if_splits)
  then show ?thesis
    unfolding rest_def by (intro steady_token steady_then steady_do) (auto simp: steady_def split: option.splits)
qed

lemma steady_rest_out: "steady (rest_out t m p b)"
  unfolding rest_out_def
  by (intro steady_then steady_rest) (auto simp: steady_def split: if_splits sum.splits)

lemma steady_rest_unit: "steady (rest_unit t m p b)"
  unfolding rest_unit_def by (intro steady_then steady_rest) simp

lemma steady_graphQL: "steady (graphQL t q v)"
proof -
  have "\<not> is_head_modified e" if "graphql_error now r = Some e" for e now r
    using that by (auto simp: graphql_error_def Let_def split: option.splits if_splits sum.splits list.splits)
  then show ?thesis
    unfolding graphQL_def
    by (intro steady_token steady_then steady_do) (auto simp: steady_def split: option.splits sum.splits)
qed

lemmas steady_calls = steady_rest steady_rest_out steady_rest_unit steady_graphQL

lemma steady_put: "steady (put_loop t fs m b k)"
proof (induction k)
  case (Suc k)
  have "steady (put_attempt t fs m b final)" for final
    unfolding put_attempt_def Let_def
    by (intro steady_then steady_wrap steady_calls)
      (auto intro!: steady_then steady_wrap steady_calls steady_rescue split: gh_error.splits)
  with Suc show ?case by (simp add: steady_then)
qed simp

lemma real_merge_only_heads: "merge_only_heads (real_client t)"
proof -
  have "steady (OpenPR t inp)" for inp
    unfolding OpenPR_def
    by (intro steady_rescue steady_then steady_calls)
      (auto simp: steady_def io_fail_def io_return_def split: if_splits prod.splits option.splits)
  moreover have "steady (CreateIssue t inp)" for inp
    unfolding CreateIssue_def by (intro steady_then steady_calls) simp
  moreover have "steady (DeleteBranch t b)" for b
    unfolding DeleteBranch_def by (intro steady_rescue steady_calls) (simp split: gh_error.splits)
  moreover have "steady (ConvertToDraft t n)" for n
    unfolding ConvertToDraft_def Let_def
    by (intro steady_then steady_wrap steady_calls) (auto intro!: steady_then steady_wrap steady_calls)
  ultimately show ?thesis
    by (simp add: merge_only_heads_def real_client_def IssueComment_def SetLabels_def CreateCheck_def
        PutFiles_def steady_calls steady_put)
qed

end
