(* ===== verification/Sender_Drain.thy ===== *)
theory Sender_Drain
  imports Sender_Facts Store_Frame Moved_Heads
begin

text \<open>
  Whether a drain ends.  Every turn that goes on either finishes a row of the outbox
  or takes a job off the merge arm, with one exception: a merge row whose live CI
  has failed and whose job is not on the merge arm.
\<close>

section \<open>What a turn may leave to do\<close>

definition pending_rows :: "DB \<Rightarrow> OutboxRow list" where
  "pending_rows d = filter (\<lambda>x. obStatus x = ObPending) (tbOutbox d)"

definition merge_arm :: "State set" where
  "merge_arm = {StateMerging, StateMergeHandoff, StateMergeable}"

definition armed :: "DB \<Rightarrow> string set" where
  "armed d = {i \<in> set (job_ids d). \<exists>r. find_row d i = Some r \<and> jState (rwJob r) \<in> merge_arm}"

definition undelivered :: "DB \<Rightarrow> nat" where
  "undelivered d = length (pending_rows d) + card (armed d)"

definition calmer :: "DB \<Rightarrow> DB \<Rightarrow> bool" where
  "calmer d d' \<longleftrightarrow> length (pending_rows d') \<le> length (pending_rows d) \<and> armed d' \<subseteq> armed d"

lemma find_row_ids: "find_row d i = Some r \<Longrightarrow> i \<in> set (job_ids d)"
  by (auto simp: find_row_def job_ids_def find_Some_iff)

lemma finite_armed [simp]: "finite (armed d)"
  by (simp add: armed_def)

lemma calmer_refl [simp]: "calmer d d"
  by (simp add: calmer_def)

lemma calmer_trans [trans]: "calmer d d1 \<Longrightarrow> calmer d1 d2 \<Longrightarrow> calmer d d2"
  by (auto simp: calmer_def)

lemma calmer_undelivered: "calmer d d' \<Longrightarrow> undelivered d' \<le> undelivered d"
  by (simp add: calmer_def undelivered_def add_mono card_mono)

lemma disarmed_less:
  assumes "calmer d d'" and "i \<in> armed d" and "i \<notin> armed d'"
  shows "undelivered d' < undelivered d"
proof -
  have "card (armed d') < card (armed d)" using assms by (intro psubset_card_mono) (auto simp: calmer_def)
  then show ?thesis using assms(1) by (simp add: calmer_def undelivered_def)
qed

section \<open>Transactions\<close>

lemma find_updated:
  assumes "\<And>r. row_id (g r) = row_id r"
  shows "find_row (update_row i g d) k = map_option (\<lambda>r. if k = i then g r else r) (find_row d k)"
  by (cases "k = i") (simp_all add: find_row_def update_row_def find_map_id [OF assms] option.map_ident)

lemma setJobSeq_row: "setJobSeq i n d = update_row i (set_seq n) d"
  by (simp add: setJobSeq_def set_seq_def [abs_def])

lemma one_step_jobs:
  assumes "one_step i n e f extra d = Inr d'" and "\<And>r. row_id (f r) = row_id r"
    and "\<And>x. tbJobs (extra x) = tbJobs x"
  shows "find_row d' k = map_option (\<lambda>r. if k = i then set_seq n (f r) else r) (find_row d k)"
    and "job_ids d' = job_ids d"
    and "\<exists>d1. tbOutbox d1 = tbOutbox d \<and> tbOutbox d' = tbOutbox (extra d1)"
proof -
  from assms(1) obtain d1 where ap: "appendEvent e d = Inr d1"
    and d': "d' = setJobSeq i n (extra (update_row i f d1))" by (auto simp: one_step_def and_then_Inr_iff)
  let ?u = "update_row i f d1"
  have j: "tbJobs d1 = tbJobs d" "tbOutbox d1 = tbOutbox d"
    using ap by (auto simp: appendEvent_def split: if_splits)
  have ex: "find_row (extra x) k = find_row x k" for x by (simp add: find_row_def assms(3))
  have "find_row d1 k = find_row d k" by (simp add: find_row_def j)
  then show "find_row d' k = map_option (\<lambda>r. if k = i then set_seq n (f r) else r) (find_row d k)"
    by (cases "find_row d k") (simp_all add: d' setJobSeq_row find_updated ex assms(2))
  have "core (setJobSeq i n (extra ?u)) = core (extra ?u)" by simp
  then have "job_ids d' = job_ids (extra ?u)" by (simp add: d' core_def)
  also have "\<dots> = job_ids ?u" by (simp add: job_ids_def assms(3))
  also have "\<dots> = job_ids d1" using core_update_row [of f i d1] assms(2) by (simp add: core_def)
  finally show "job_ids d' = job_ids d" by (simp add: job_ids_def j)
  have "tbOutbox ?u = tbOutbox d" "tbOutbox d' = tbOutbox (extra ?u)"
    by (simp_all add: d' setJobSeq_def update_row_def j)
  then show "\<exists>d1. tbOutbox d1 = tbOutbox d \<and> tbOutbox d' = tbOutbox (extra d1)" by blast
qed

text \<open>A transition of a job outside the arm into it is the only way to grow.\<close>

lemma one_step_calmer:
  assumes "one_step i n e f extra d = Inr d'" and "\<And>r. row_id (f r) = row_id r"
    and "\<And>x. tbJobs (extra x) = tbJobs x"
    and "\<And>x. length (pending_rows (extra x)) \<le> length (pending_rows x)"
    and "\<And>r. find_row d i = Some r \<Longrightarrow> jState (rwJob (f r)) \<in> merge_arm \<Longrightarrow> jState (rwJob r) \<in> merge_arm"
  shows "calmer d d'"
proof -
  note j = one_step_jobs [OF assms(1-3)]
  from j(3) obtain d1 where d1: "tbOutbox d1 = tbOutbox d" "tbOutbox d' = tbOutbox (extra d1)" by blast
  have "length (pending_rows d') \<le> length (pending_rows d)"
    using assms(4) [of d1] d1 by (simp add: pending_rows_def)
  moreover have "armed d' \<subseteq> armed d"
    using assms(5) by (auto simp: armed_def j(1,2) set_seq_def split: if_splits)
  ultimately show ?thesis by (simp add: calmer_def)
qed

lemma one_step_settled:
  assumes "one_step i n e f extra d = Inr d'" and "\<And>r. row_id (f r) = row_id r"
    and "\<And>x. tbJobs (extra x) = tbJobs x" and "\<And>x. tbOutbox (extra x) = tbOutbox x"
    and "\<And>r. find_row d i = Some r \<Longrightarrow> jState (rwJob (f r)) \<in> merge_arm \<Longrightarrow> jState (rwJob r) \<in> merge_arm"
  shows "calmer d d' \<and> tbOutbox d' = tbOutbox d"
proof -
  from one_step_jobs(3) [OF assms(1-3)] have "tbOutbox d' = tbOutbox d" by (auto simp: assms(4))
  moreover have "calmer d d'"
    by (rule one_step_calmer [OF assms(1-3) _ assms(5)]) (simp add: pending_rows_def assms(4))
  ultimately show ?thesis by simp
qed

lemma one_step_disarms:
  assumes "one_step i n e f extra d = Inr d'" and "\<And>r. row_id (f r) = row_id r"
    and "\<And>x. tbJobs (extra x) = tbJobs x" and "\<And>r. jState (rwJob (f r)) \<notin> merge_arm"
  shows "i \<notin> armed d'"
  using assms(4) by (auto simp: armed_def one_step_jobs(1) [OF assms(1-3)] set_seq_def)

lemma pending_cong: "tbOutbox d' = tbOutbox d \<Longrightarrow> pending_rows d' = pending_rows d"
  by (simp add: pending_rows_def)

lemma pending_map_le:
  assumes "\<And>x. obStatus (f x) = ObPending \<Longrightarrow> obStatus x = ObPending"
  shows "length (filter (\<lambda>x. obStatus x = ObPending) (map (\<lambda>x. if q x then f x else x) xs))
    \<le> length (filter (\<lambda>x. obStatus x = ObPending) xs)"
  using assms by (induction xs) auto

lemma pending_updated:
  "(\<And>x. obStatus (f x) = ObPending \<Longrightarrow> obStatus x = ObPending) \<Longrightarrow>
   length (pending_rows (update_outbox q f d)) \<le> length (pending_rows d)"
  using pending_map_le [of f q "tbOutbox d"] by (simp add: pending_rows_def update_outbox_def del: filter_map)

lemma armed_cong: "tbJobs d' = tbJobs d \<Longrightarrow> armed d' = armed d"
  by (simp add: armed_def job_ids_def find_row_def)

lemma outbox_calmer:
  "(\<And>x. obStatus (f x) = ObPending \<Longrightarrow> obStatus x = ObPending) \<Longrightarrow> calmer d (update_outbox q f d)"
  unfolding calmer_def using pending_updated [of f q d] armed_cong [of "update_outbox q f d" d]
  by (simp add: update_outbox_def)

text \<open>A pending row that is finished leaves fewer.\<close>

lemma pending_finished:
  assumes "row \<in> set xs" and "obStatus row = ObPending" and "q row"
    and "\<And>x. obStatus (f x) \<noteq> ObPending"
  shows "length (filter (\<lambda>x. obStatus x = ObPending) (map (\<lambda>x. if q x then f x else x) xs))
    < length (filter (\<lambda>x. obStatus x = ObPending) xs)"
  using assms(1)
proof (induction xs)
  case (Cons x xs)
  have le: "length (filter (\<lambda>x. obStatus x = ObPending) (map (\<lambda>x. if q x then f x else x) xs))
    \<le> length (filter (\<lambda>x. obStatus x = ObPending) xs)" by (rule pending_map_le) (use assms(4) in blast)
  from Cons le assms show ?case by (cases "x = row") auto
qed simp

lemma finished_less:
  assumes "row \<in> set (pending_rows d)" and "q row" and "\<And>x. obStatus (f x) \<noteq> ObPending"
  shows "undelivered (update_outbox q f d) < undelivered d"
proof -
  have "length (pending_rows (update_outbox q f d)) < length (pending_rows d)"
    using pending_finished [of row "tbOutbox d" q f] assms
    by (simp add: pending_rows_def update_outbox_def del: filter_map)
  moreover have "armed (update_outbox q f d) = armed d" by (rule armed_cong) (simp add: update_outbox_def)
  ultimately show ?thesis by (simp add: undelivered_def)
qed

lemma abandon_calmer: "calmer d (abandon_outbox q d)"
  unfolding abandon_outbox_def by (rule outbox_calmer) simp

lemma abandon_less:
  assumes "row \<in> set (pending_rows d)" and "q row"
  shows "undelivered (abandon_outbox q d) < undelivered d"
  unfolding abandon_outbox_def by (rule finished_less [OF assms(1)]) (use assms in \<open>auto simp: pending_rows_def\<close>)

lemma armed_updated:
  assumes "\<And>r. row_id (f r) = row_id r" and "\<And>r. jState (rwJob (f r)) = jState (rwJob r)"
  shows "armed (update_row i f d) = armed d"
proof -
  have "job_ids (update_row i f d) = job_ids d" using core_update_row [of f i d] assms(1) by (simp add: core_def)
  moreover have "(\<exists>r. find_row (update_row i f d) k = Some r \<and> jState (rwJob r) \<in> merge_arm)
      \<longleftrightarrow> (\<exists>r. find_row d k = Some r \<and> jState (rwJob r) \<in> merge_arm)" for k
    by (cases "find_row d k") (simp_all add: find_updated [OF assms(1)] assms(2))
  ultimately show ?thesis by (simp add: armed_def)
qed

lemma seed_calmer:
  assumes "seedJobTx cfg d p = Inr d'"
  shows "calmer d d' \<and> tbOutbox d' = tbOutbox d"
proof -
  define st where "st = (if hasUnsatisfiedDeps d (sdBlockedBy p) then StateBlocked else StateReady)"
  from assms obtain d1 d2 where ins: "insert_row (seed_row p st) d = Inr d1"
    and ap: "appendEvent (seed_event p st) d1 = Inr d2"
    and rest: "(if st = StateReady then armNoEligibleTimerTx cfg (sdID p) 0 (sdNow p) (setJobSeq (sdID p) 1 d2)
                else Inr (setJobSeq (sdID p) 1 d2)) = Inr d'"
    unfolding seedJobTx_def st_def [symmetric] by (auto simp: and_then_Inr_iff Let_def)
  have d1: "tbOutbox d1 = tbOutbox d" "tbJobs d1 = tbJobs d @ [seed_row p st]"
    using ins by (auto simp: insert_row_def split: if_splits)
  have d2: "tbOutbox d2 = tbOutbox d" "tbJobs d2 = tbJobs d1"
    using ap d1 by (auto simp: appendEvent_def split: if_splits)
  have same: "tbOutbox d' = tbOutbox (setJobSeq (sdID p) 1 d2)" "tbJobs d' = tbJobs (setJobSeq (sdID p) 1 d2)"
    using rest by (auto simp: armNoEligibleTimerTx_def insert_timer_def split: if_splits)
  have cold: "jState (rwJob (seed_row p st)) \<notin> merge_arm"
    by (simp add: seed_row_def st_def merge_arm_def Let_def)
  have "armed d1 \<subseteq> armed d"
  proof
    fix i assume "i \<in> armed d1"
    then obtain r where r: "find_row d1 i = Some r" "jState (rwJob r) \<in> merge_arm" by (auto simp: armed_def)
    then have "find_row d i = Some r" using cold
      by (cases "find_row d i") (auto simp: find_row_def d1 find_append split: if_splits)
    with r(2) show "i \<in> armed d" using find_row_ids [of d i r] by (auto simp: armed_def)
  qed
  moreover have "armed d' \<subseteq> armed d1"
  proof
    fix i assume "i \<in> armed d'"
    then obtain r where r: "find_row (setJobSeq (sdID p) 1 d2) i = Some r" "jState (rwJob r) \<in> merge_arm"
      by (auto simp: armed_def find_row_def same(2))
    then obtain r0 where "find_row d2 i = Some r0" "jState (rwJob r0) = jState (rwJob r)"
      by (cases "i = sdID p") (auto simp: setJobSeq_row find_updated set_seq_def row_id_def option.map_ident)
    then have "find_row d1 i = Some r0" "jState (rwJob r0) \<in> merge_arm"
      using r(2) by (simp_all add: find_row_def d2(2))
    then show "i \<in> armed d1" using find_row_ids [of d1 i r0] by (auto simp: armed_def)
  qed
  moreover have "tbOutbox d' = tbOutbox d" by (simp add: same(1) setJobSeq_def update_row_def d2(1))
  ultimately show ?thesis using pending_cong [of d' d] by (auto simp: calmer_def)
qed

lemma stamp_calmer:
  "StampPRNumber d i n h b now = Inr d' \<Longrightarrow> calmer d d' \<and> tbOutbox d' = tbOutbox d"
  "StampIssueNumber d i n now = Inr d' \<Longrightarrow> calmer d d' \<and> tbOutbox d' = tbOutbox d"
  unfolding StampPRNumber_def StampIssueNumber_def
  by (clarsimp simp: and_then_Inr_iff, erule one_step_settled;
      simp add: stamp_row_def issue_row_def upsertDomainBFactsTx_def row_id_def)+

text \<open>A routing that only moves a job of the arm.\<close>

lemma routed_settled:
  assumes "and_then (loadJobTx d i) (\<lambda>(r, j, seq). if jState j \<noteq> StateMerging \<and> jState j \<noteq> StateMergeable then Inr d
      else one_step i (seq + 1) (e j seq) f id d) = Inr d'"
    and "\<And>r. row_id (f r) = row_id r"
  shows "calmer d d' \<and> tbOutbox d' = tbOutbox d"
proof -
  from assms(1) obtain r where r: "find_row d i = Some r" and
    "(if jState (rwJob r) \<noteq> StateMerging \<and> jState (rwJob r) \<noteq> StateMergeable then Inr d
      else one_step i (jJobSeq (rwJob r) + 1) (e (scanJob r) (jJobSeq (rwJob r))) f id d) = Inr d'"
    by (auto simp: and_then_Inr_iff loadJobTx_Inr simp del: if_split)
  then consider "d' = d"
    | "jState (rwJob r) \<in> merge_arm" "one_step i (jJobSeq (rwJob r) + 1) (e (scanJob r) (jJobSeq (rwJob r))) f id d = Inr d'"
    by (auto simp: merge_arm_def split: if_splits)
  then show ?thesis
  proof cases
    case 2
    show ?thesis by (rule one_step_settled [OF 2(2) assms(2)]) (use r 2(1) in simp_all)
  qed simp
qed

lemma handoff_calmer:
  "RouteSelfMergeToHandoff d i reason now = Inr d' \<Longrightarrow> calmer d d' \<and> tbOutbox d' = tbOutbox d"
  unfolding RouteSelfMergeToHandoff_def by (erule routed_settled) simp

lemma conflict_calmer: "RouteMergeConflict d i b now = Inr d' \<Longrightarrow> calmer d d' \<and> tbOutbox d' = tbOutbox d"
  unfolding RouteMergeConflict_def by (erule routed_settled) (simp add: conflict_row_def row_id_def)

lemma abandon_stale_pending: "length (pending_rows (close_leases i x (abandon_stale i h d))) \<le> length (pending_rows d)"
  using abandon_calmer [of d] unfolding abandon_stale_def calmer_def close_leases_def pending_rows_def by simp

lemma supersede_calmer:
  assumes "supersedeTx j n pr a now ci d = Inr d'"
  shows "calmer d d'" and "jID j \<notin> armed d'"
proof -
  note st = assms [unfolded supersedeTx_def]
  have jobs: "tbJobs (close_leases (jID j) ''superseded'' (abandon_stale (jID j) (rpHeadSHA pr) x)) = tbJobs x" for x
    by (simp add: close_leases_def abandon_stale_def abandon_outbox_def update_outbox_def)
  have cold: "jState (rwJob (superseded_row (rpBaseSHA pr) now r)) \<notin> merge_arm" for r
    by (simp add: superseded_row_def merge_arm_def)
  have rid: "row_id (superseded_row (rpBaseSHA pr) now r) = row_id r" for r
    by (simp add: superseded_row_def row_id_def)
  show "calmer d d'" by (rule one_step_calmer [OF st rid jobs abandon_stale_pending]) (use cold in blast)
  show "jID j \<notin> armed d'" by (rule one_step_disarms [OF st rid jobs cold])
qed

lemma reroute_settles:
  assumes "RoutePostApprovalCIFailure d i names urls now = Inr d'"
  shows "calmer d d'" and "i \<notin> armed d'"
proof -
  from assms obtain r where r: "find_row d i = Some r"
    by (auto simp: RoutePostApprovalCIFailure_def and_then_Inr_iff loadJobTx_Inr)
  have "jID (scanJob r) = i" using find_row_id [OF r] by (simp add: row_id_def)
  show "calmer d d'" "i \<notin> armed d'"
  proof (atomize (full), cases "jState (rwJob r) \<in> merge_arm")
    case False
    with assms r have "d' = d"
      by (auto simp: RoutePostApprovalCIFailure_def and_then_Inr_iff loadJobTx_Inr merge_arm_def split: if_splits)
    with False r show "calmer d d' \<and> i \<notin> armed d'" by (simp add: armed_def)
  next
    case True
    define msg where "msg = FormatCIFailures names urls"
    from assms r True obtain d1 where
        s: "supersedeTx (scanJob r) (jJobSeq (rwJob r)) (bare_pr 0 (jHeadSHA (scanJob r)) (jBaseSHA (scanJob r)))
          ''project-out'' now msg d = Inr d1"
      and d': "d' = abandon_merges i (if msg \<noteq> [] then update_row i (ci_failures_row msg) d1 else d1)"
      unfolding RoutePostApprovalCIFailure_def msg_def [symmetric] Let_def merge_arm_def
      by (auto simp: and_then_Inr_iff loadJobTx_Inr)
    let ?d2 = "if msg \<noteq> [] then update_row i (ci_failures_row msg) d1 else d1"
    have same: "armed (update_row i (ci_failures_row msg) d1) = armed d1"
      by (rule armed_updated) (simp_all add: ci_failures_row_def row_id_def)
    have "calmer d1 ?d2" using same by (auto simp: calmer_def pending_rows_def update_row_def)
    with supersede_calmer(1) [OF s] have "calmer d ?d2" by (rule calmer_trans)
    moreover have "i \<notin> armed ?d2" using supersede_calmer(2) [OF s] same \<open>jID (scanJob r) = i\<close> by simp
    moreover have "calmer ?d2 d'" unfolding d' abandon_merges_def by (rule abandon_calmer)
    ultimately show "calmer d d' \<and> i \<notin> armed d'" by (meson calmer_def calmer_trans subsetD)
  qed
qed

text \<open>A stale authorization is taken back: the row goes, or the job leaves the arm.\<close>

lemma invalidate_less:
  assumes "InvalidateStaleMergeAuthorization d (obJobID row) now = Inr d'"
    and "row \<in> set (pending_rows d)" and "obAction row = ActionEnqueueMerge"
  shows "undelivered d' < undelivered d"
proof -
  from assms(1) obtain r where r: "find_row d (obJobID row) = Some r"
    by (auto simp: InvalidateStaleMergeAuthorization_def and_then_Inr_iff loadJobTx_Inr)
  show ?thesis
  proof (cases "jState (rwJob r) = StateMerging \<or> jState (rwJob r) = StateMergeHandoff")
    case False
    with assms(1) r have "d' = abandon_merges (obJobID row) d"
      by (auto simp: InvalidateStaleMergeAuthorization_def and_then_Inr_iff loadJobTx_Inr split: if_splits)
    with assms(2,3) show ?thesis unfolding abandon_merges_def by (auto intro!: abandon_less)
  next
    case True
    with assms(1) r obtain d1 where
        s: "supersedeTx (scanJob r) (jJobSeq (rwJob r)) (bare_pr 0 [] (jBaseSHA (scanJob r))) ''project-out'' now [] d = Inr d1"
      and d': "d' = (if rwAdopted r \<and> rwPatchDiff r \<noteq> []
          then update_row (obJobID row) (restore_patch (rwPatchDiff r) (rwDeclaredBlastRadius r)) d1 else d1)"
      unfolding InvalidateStaleMergeAuthorization_def by (auto simp: and_then_Inr_iff loadJobTx_Inr)
    have id: "jID (scanJob r) = obJobID row" using find_row_id [OF r] by (simp add: row_id_def)
    have "obJobID row \<in> armed d" using True r find_row_ids [OF r] by (auto simp: armed_def merge_arm_def)
    with supersede_calmer [OF s] id have "undelivered d1 < undelivered d" by (auto intro: disarmed_less)
    moreover have "armed (update_row i (restore_patch x y) d1) = armed d1" for i x y
      by (rule armed_updated) (simp_all add: restore_patch_def row_id_def)
    then have "armed d' = armed d1" by (simp add: d')
    moreover have "tbOutbox d' = tbOutbox d1" by (simp add: d' update_row_def)
    then have "pending_rows d' = pending_rows d1" by (rule pending_cong)
    ultimately show ?thesis by (simp add: undelivered_def)
  qed
qed

lemma sent_less:
  assumes "MarkOutboxSent d (obID row) detail = Inr d'" and "row \<in> set (pending_rows d)"
  shows "undelivered d' < undelivered d"
proof -
  let ?u = "update_outbox (\<lambda>y. obID y = obID row) (\<lambda>y. y\<lparr>obStatus := ObSent, obAttempts := obAttempts y + 1\<rparr>) d"
  from assms(1) have "tbOutbox d' = tbOutbox ?u" "tbJobs d' = tbJobs ?u"
    by (auto simp: MarkOutboxSent_def audit_once_def split: option.splits if_splits)
  then have "undelivered d' = undelivered ?u"
    using pending_cong [of d' ?u] armed_cong [of d' ?u] unfolding undelivered_def by argo
  also have "\<dots> < undelivered d" by (rule finished_less [OF assms(2)]) simp_all
  finally show ?thesis .
qed

lemma dead_letter_less:
  assumes "DeadLetterOutbox d (obID row) i reason detail esc now = Inr d'" and "row \<in> set (pending_rows d)"
  shows "undelivered d' < undelivered d"
proof -
  let ?u = "update_outbox (\<lambda>x. obID x = obID row) (\<lambda>x. x\<lparr>obStatus := ObAbandoned, obAttempts := obAttempts x + 1\<rparr>) d"
  have less: "undelivered ?u < undelivered d" by (rule finished_less [OF assms(2)]) simp_all
  have "calmer ?u d'"
    using assms(1) unfolding DeadLetterOutbox_def Let_def
    by (auto simp: and_then_Inr_iff loadJobTx_Inr split: if_splits)
      (erule one_step_calmer; simp add: merge_arm_def park_row_def row_id_def; fail)+
  from calmer_undelivered [OF this] less show ?thesis by simp
qed

section \<open>Sending\<close>

text \<open>
  \<open>settles sn i m s\<close>: the step adds nothing to do; if it fails because the live CI of
  job \<open>i\<close> has failed, it did, and the job is off the merge arm by then, and otherwise the outbox
  is as it was.
\<close>

definition live_red :: "'w sender \<Rightarrow> bool" where
  "live_red sn \<longleftrightarrow> (\<exists>reader n pr required w w1. ghPullRequest (snGH sn) = Some reader
     \<and> reader n w = (Inr (Some pr), w1) \<and> lmFailed (mergeCI pr required))"

definition settles :: "'w sender \<Rightarrow> string \<Rightarrow> ('w, 'a) act \<Rightarrow> 'w sys \<Rightarrow> bool" where
  "settles sn i m s \<longleftrightarrow> calmer (syDB s) (syDB (snd (m s)))
     \<and> (if fst (m s) = Inl ErrMergeCIFailedRouted then live_red sn \<and> i \<notin> armed (syDB (snd (m s)))
         else tbOutbox (syDB (snd (m s))) = tbOutbox (syDB s))"

lemma settles_then:
  assumes "settles sn i m s" and "\<And>x s1. m s = (Inr x, s1) \<Longrightarrow> settles sn i (f x) s1"
  shows "settles sn i (act_then m f) s"
proof (cases "m s")
  case (Pair r s1)
  show ?thesis
  proof (cases r)
    case (Inl e)
    then have "fst (act_then m f s) = Inl e" "snd (act_then m f s) = s1" "fst (m s) = Inl e" "snd (m s) = s1"
      using Pair by (simp_all add: act_then_def)
    with assms(1) show ?thesis by (cases "e = ErrMergeCIFailedRouted") (simp_all add: settles_def)
  next
    case (Inr x)
    with Pair assms(2) have "settles sn i (f x) s1" by blast
    with Pair Inr assms(1) show ?thesis by (auto simp: settles_def act_then_def intro: calmer_trans)
  qed
qed

lemma settles_cong: "settles sn i m s \<Longrightarrow> m2 s = m s \<Longrightarrow> settles sn i m2 s"
  unfolding settles_def by (erule ssubst)

text \<open>Steps that leave the database alone and cannot fail for a failed CI.\<close>

definition plain :: "('w, 'a) act \<Rightarrow> bool" where
  "plain m \<longleftrightarrow> (\<forall>s. syDB (snd (m s)) = syDB s \<and> fst (m s) \<noteq> Inl ErrMergeCIFailedRouted)"

lemma plain_steps [simp]:
  "plain (done_with x)" "plain (from_db g)" "plain (clock_now sn)" "plain (publish i ev)"
  "plain (gh_read io)" "plain (gh_write c io)" "plain (mirror_call mc)"
  "plain (fail_with e) \<longleftrightarrow> e \<noteq> ErrMergeCIFailedRouted"
  by (auto simp: plain_def done_with_def fail_with_def from_db_def clock_now_def publish_def gh_read_def
      gh_write_def mirror_call_def split: prod.splits sum.splits)

lemma plain_then: "plain m \<Longrightarrow> (\<And>x. plain (f x)) \<Longrightarrow> plain (act_then m f)"
  unfolding plain_def act_then_def by (auto split: prod.splits sum.splits) (metis fst_conv snd_conv)+

lemma plain_settles: "plain m \<Longrightarrow> settles sn i m s"
  by (simp add: plain_def settles_def)

lemma plain_step_settles [simp]:
  "settles sn i (done_with x) s" "settles sn i (from_db g) s" "settles sn i (clock_now sn) s" "settles sn i (publish j ev) s"
  "settles sn i (gh_read io) s" "settles sn i (gh_write c io) s" "settles sn i (mirror_call mc) s"
  "e \<noteq> ErrMergeCIFailedRouted \<Longrightarrow> settles sn i (fail_with e) s"
  by (simp_all add: plain_settles)

lemma tx_settles:
  "(\<And>d d'. f d = Inr d' \<Longrightarrow> calmer d d' \<and> tbOutbox d' = tbOutbox d) \<Longrightarrow> settles sn i (store_tx sn what f) s"
  by (auto simp: settles_def store_tx_def split: sum.splits)

lemma plain_live: "plain (liveMergeCI sn n h)"
proof -
  have "plain (mergeable_known sn n)"
    by (auto simp: mergeable_known_def intro!: plain_then split: option.splits prod.splits)
  then have "plain (check_pr sn n h found)" for found
    by (cases found) (auto simp: check_pr_def intro!: plain_then)
  then show ?thesis
    by (auto simp: liveMergeCI_def intro!: plain_then split: option.splits)
qed

lemma merge_call_settles: "settles sn i (merge_call sn n h) s"
proof -
  have "syDB (snd (gh_write c io s)) = syDB s" for c s and io :: "('a, unit) io"
    using write_db [of c io s] by (cases "gh_write c io s") simp
  moreover have "fst (gh_write c io s) \<noteq> Inl ErrMergeCIFailedRouted" for c s and io :: "('a, unit) io"
    using plain_steps(6) [of c io] by (simp add: plain_def)
  ultimately show ?thesis
    by (auto simp: settles_def merge_call_def Let_def split: prod.splits sum.splits option.splits)
      (metis fst_conv snd_conv calmer_refl)+
qed

text \<open>The routing of a failed CI: the one place where the job is taken off the arm.\<close>

lemma reroute_act_settles:
  "live_red sn \<Longrightarrow> settles sn i (act_then (store_tx sn what (\<lambda>d. RoutePostApprovalCIFailure d i names urls now)) (\<lambda>u.
     act_then (publish i ev) (\<lambda>u. fail_with ErrMergeCIFailedRouted))) s"
proof (cases "RoutePostApprovalCIFailure (syDB s) i names urls now")
  case (Inl e)
  then show ?thesis by (simp add: settles_def act_then_def store_tx_def)
next
  case (Inr d)
  moreover assume "live_red sn"
  ultimately show ?thesis using reroute_settles [OF Inr]
    by (simp add: settles_def act_then_def store_tx_def publish_def fail_with_def)
qed

lemma live_read:
  assumes "liveMergeCI sn n h s = (Inr ci, s1)"
  shows "\<exists>reader pr required w w1. ghPullRequest (snGH sn) = Some reader
    \<and> reader n w = (Inr (Some pr), w1) \<and> ci = mergeCI pr required"
  using assms
  by (fastforce simp: liveMergeCI_def check_pr_def act_then_Inr fail_with_def done_with_def
      split: option.splits if_splits dest!: gh_read_InrD)

lemma merge_if_green_settles: "settles sn (obJobID row) (merge_if_green sn row n) s"
  unfolding merge_if_green_def
proof (rule settles_then [OF plain_settles [OF plain_live]])
  fix ci s1 assume l: "liveMergeCI sn n (obHeadSHA row) s = (Inr ci, s1)"
  show "settles sn (obJobID row) (merge_or_repair sn row n ci) s1"
  proof (cases "lmFailed ci")
    case True
    with live_read [OF l] have red: "live_red sn" unfolding live_red_def by blast
    from True have "merge_or_repair sn row n ci = act_then (clock_now sn) (\<lambda>now.
        act_then (store_tx sn ''route post-approval CI failure''
          (\<lambda>d. RoutePostApprovalCIFailure d (obJobID row) (lmFailingChecks ci) (lmCheckURLs ci) now)) (\<lambda>u.
        act_then (publish (obJobID row) ''project_out:merge_ci_failed'') (\<lambda>u.
        fail_with ErrMergeCIFailedRouted)))"
      by (simp add: merge_or_repair_def)
    then show ?thesis by (simp add: settles_then reroute_act_settles [OF red])
  next
    case False
    then show ?thesis by (simp add: merge_or_repair_def merge_call_settles)
  qed
qed

lemma hand_off_settles: "settles sn i (hand_off sn row what reason ev detail) s"
  unfolding hand_off_def by (intro settles_then tx_settles plain_step_settles) (rule handoff_calmer)

lemma seed_settles: "settles sn i (seedBuildFromSpec sn sp now) s"
proof (cases "GetJob (syDB s) (jID sp @ ''-build'')")
  case (Inr j)
  then show ?thesis by (simp add: settles_def seedBuildFromSpec_def Let_def)
next
  case none: (Inl e)
  show ?thesis
  proof (cases "snHistory sn")
    case None
    with none show ?thesis by (simp add: settles_def seedBuildFromSpec_def Let_def)
  next
    case (Some m)
    let ?k = "\<lambda>base s1. case base of
              Inl er \<Rightarrow> (Inr (Inl (''resolve base_sha: '' @ er)), s1)
            | Inr sha \<Rightarrow> (case seedJobTx (snStore sn) (syDB s1) (spec_build sp sha now) of
                Inl er \<Rightarrow> (Inr (Inl (snErrText sn er)), s1)
              | Inr d \<Rightarrow> (Inr (Inr (jID sp @ ''-build'')), s1\<lparr>syDB := d\<rparr>))"
    have "settles sn i (?k base) s1" for base s1
    proof (cases base)
      case (Inr sha)
      show ?thesis
        by (cases "seedJobTx (snStore sn) (syDB s1) (spec_build sp sha now)")
          (simp_all add: Inr settles_def seed_calmer)
    qed (simp add: settles_def)
    then have "settles sn i (act_then (mirror_call (hwHeadSHA m (''refs/heads/'' @ integration_branch sn))) ?k) s"
      by (intro settles_then plain_step_settles)
    then show ?thesis by (rule settles_cong) (simp add: none Some seedBuildFromSpec_def Let_def)
  qed
qed

lemma verified_merge_settles: "settles sn (obJobID row) (verified_merge sn m row j n) s"
proof -
  have judge: "settles sn (obJobID row) (judge_diff sn row j n diff) s" for diff s
    by (cases diff) (simp_all add: judge_diff_def Let_def merge_if_green_settles hand_off_settles)
  then have "settles sn (obJobID row) (act_then (mirror_call (hwDiffBetween m b h)) (judge_diff sn row j n)) s" for b h s
    by (intro settles_then plain_step_settles)
  then have "settles sn (obJobID row) (diff_after_fetch sn m row j n br ferr) s" for br ferr s
    by (cases ferr) (simp_all add: diff_after_fetch_def)
  then have fetch: "settles sn (obJobID row) (act_then (mirror_call (hwFetchBranch m br)) (diff_after_fetch sn m row j n br)) s" for br
    by (intro settles_then plain_step_settles)
  show ?thesis
  proof (cases "jBaseSHA j = []")
    case True
    show ?thesis by (rule settles_cong [OF merge_if_green_settles]) (simp add: verified_merge_def True)
  next
    case False
    show ?thesis by (rule settles_cong [OF fetch]) (simp add: verified_merge_def False Let_def)
  qed
qed

lemma send_merge_settles: "settles sn (obJobID row) (send_merge sn row) s"
proof (cases "snHistory sn")
  case None
  show ?thesis by (rule settles_cong [OF hand_off_settles]) (simp add: send_merge_def None Let_def)
next
  case (Some m)
  show ?thesis
  proof (cases "authorized (syDB s) row")
    case None
    show ?thesis by (rule settles_cong [OF plain_step_settles(8)]) (auto simp: send_merge_def Some None)
  next
    case (Some j)
    show ?thesis
      by (rule settles_cong [OF verified_merge_settles]) (auto simp: send_merge_def Some \<open>snHistory sn = Some m\<close>)
  qed
qed

text \<open>A mutation followed by a detail.\<close>

lemma call_settles:
  assumes "m s = act_then (gh_write c io) f s" and "\<And>x s1. settles sn i (f x) s1"
  shows "settles sn i m s"
  by (rule settles_cong, rule settles_then [OF plain_step_settles(6)], rule assms(2), rule assms(1))

lemma send_pr_settles: "settles sn i (send_open_pr sn row now) s"
proof (cases "jPRNumber (job_or_zero (syDB s) (obJobID row)) > 0")
  case True
  show ?thesis by (rule settles_cong [OF plain_step_settles(1)]) (simp add: send_open_pr_def True Let_def)
next
  case False
  show ?thesis
    by (rule call_settles, simp add: send_open_pr_def False Let_def)
      (intro settles_then tx_settles plain_step_settles, erule stamp_calmer)
qed

lemma send_issue_settles: "settles sn i (send_create_issue sn row now) s"
proof (cases "GetJob (syDB s) (obJobID row)")
  case (Inl e)
  show ?thesis by (rule settles_cong [OF plain_step_settles(8)]) (simp_all add: send_create_issue_def Inl)
next
  case (Inr j)
  show ?thesis
  proof (cases "jIssueNum j > 0")
    case True
    show ?thesis
      by (rule settles_cong [OF settles_then [OF seed_settles]], simp_all add: send_create_issue_def Inr True)
  next
    case False
    show ?thesis
      by (rule call_settles, simp add: send_create_issue_def Inr False)
        (intro settles_then tx_settles plain_step_settles seed_settles, erule stamp_calmer)
  qed
qed

lemma send_small_settles:
  "settles sn i (send_comment sn row) s" "settles sn i (send_labels sn row) s" "settles sn i (send_check sn row) s"
  "settles sn i (send_draft sn row) s" "settles sn i (send_delete_branch sn row) s" "settles sn i (send_history sn row) s"
proof -
  have call: "syDB (snd (act_then (gh_write c io) (\<lambda>u. done_with t) s)) = syDB s"
    "fst (act_then (gh_write c io) (\<lambda>u. done_with t) s) \<noteq> Inl ErrMergeCIFailedRouted"
    for c t and io :: "('a, 'c) io" and s :: "'a sys"
    using plain_then [OF plain_steps(6) plain_steps(1), of c io "\<lambda>u. t"] unfolding plain_def by blast+
  show "settles sn i (send_comment sn row) s" "settles sn i (send_labels sn row) s" "settles sn i (send_check sn row) s"
      "settles sn i (send_draft sn row) s" "settles sn i (send_delete_branch sn row) s"
    by (simp_all add: settles_def send_comment_def send_labels_def send_check_def send_draft_def
        send_delete_branch_def Let_def call done_with_def)
  show "settles sn i (send_history sn row) s"
    by (cases "snArtifacts sn (syDB s) (obJobID row)")
      (simp_all add: settles_def send_history_def Let_def call done_with_def fail_with_def)
qed

lemma send_settles: "settles sn (obJobID row) (send sn row) s"
  unfolding send_def
  by (rule settles_then [OF plain_step_settles(3)])
    (simp add: send_pr_settles send_issue_settles send_small_settles send_merge_settles)

section \<open>The turn\<close>

lemma turn_txD:
  "turn_tx sn f k s = (Go n, s1) \<Longrightarrow> \<exists>d. f (syDB s) = Inr d \<and> k (s\<lparr>syDB := d\<rparr>) = (Go n, s1)"
  by (auto simp: turn_tx_def split: sum.splits)

lemma next_pending: "next_row sn d = Some row \<Longrightarrow> row \<in> set (pending_rows d)"
  by (auto simp: next_row_def NextPendingOutbox_def NextPendingOutboxForRepo_def pending_rows_def
      find_Some_iff split: if_splits)

lemma read_clock_db: "read_clock sn s = (t, s1) \<Longrightarrow> syDB s1 = syDB s"
  by (auto simp: read_clock_def split: prod.splits)

lemma failed_less:
  assumes "failed_turn sn row e s = (Go n, s1)" and "row \<in> set (pending_rows (syDB s))"
  shows "undelivered (syDB s1) < undelivered (syDB s)"
proof -
  obtain now s2 where c: "read_clock sn s = (now, s2)" by fastforce
  with assms(1) obtain d where "DeadLetterOutbox (syDB s2) (obID row) (obJobID row)
      (escalation_str EscalationProjectOut) (send_text e) (criticalAction (obAction row)) now = Inr d"
    and "syDB s1 = d"
    by (auto simp: failed_turn_def tell_def split: if_splits dest!: turn_txD)
  with dead_letter_less [of "syDB s2" row] assms(2) read_clock_db [OF c] show ?thesis by simp
qed

lemma superseded_less:
  assumes "superseded_turn sn row s = (Go n, s1)" and "row \<in> set (pending_rows (syDB s))"
    and "obAction row = ActionEnqueueMerge"
  shows "undelivered (syDB s1) < undelivered (syDB s)"
proof -
  obtain now s2 where c: "read_clock sn s = (now, s2)" by fastforce
  with assms(1) obtain d where "InvalidateStaleMergeAuthorization (syDB s2) (obJobID row) now = Inr d" "syDB s1 = d"
    by (auto simp: superseded_turn_def tell_def dest!: turn_txD)
  with invalidate_less [of "syDB s2" row] assms(2,3) read_clock_db [OF c] show ?thesis by simp
qed

lemma conflict_less:
  assumes "conflict_turn sn row e s = (Go n, s1)" and p: "row \<in> set (pending_rows (syDB s))"
  shows "undelivered (syDB s1) < undelivered (syDB s)"
proof (cases "snHistory sn")
  case None
  with assms(1) show ?thesis by (auto simp: conflict_turn_def intro: failed_less [OF _ p])
next
  case (Some m)
  obtain tip w2 where h: "hwHeadSHA m (''refs/heads/'' @ integration_branch sn)
      (snd (hwFetchBranch m (integration_branch sn) (syWorld s))) = (tip, w2)" by fastforce
  define s2 where "s2 = s\<lparr>syWorld := w2\<rparr>"
  obtain now s3 where c: "read_clock sn s2 = (now, s3)" by fastforce
  have db: "syDB s2 = syDB s" "syDB s3 = syDB s" using read_clock_db [OF c] by (simp_all add: s2_def)
  have turn: "conflict_turn sn row e s = (case tip of
          Inl er \<Rightarrow> failed_turn sn row e s2
        | Inr sha \<Rightarrow>
            if sha = [] then failed_turn sn row e s2
            else (case RouteMergeConflict (syDB s3) (obJobID row) sha now of
                 Inl er \<Rightarrow> failed_turn sn row e s3
               | Inr d \<Rightarrow> turn_tx sn (\<lambda>d. MarkOutboxSent d (obID row) ''merge conflict -> resolving_conflict'')
                   (\<lambda>s3. (Go 1, tell (obJobID row) ''project_out:merge_conflict'' s3)) (s3\<lparr>syDB := d\<rparr>)))"
    by (simp only: conflict_turn_def Some option.case Let_def h prod.case s2_def [symmetric] c)
  have failed: "failed_turn sn row e x = (Go n, s1) \<Longrightarrow> syDB x = syDB s \<Longrightarrow> ?thesis" for x
    using failed_less [of sn row e x n s1] p by simp
  from assms(1) consider "failed_turn sn row e s2 = (Go n, s1)" | "failed_turn sn row e s3 = (Go n, s1)"
    | sha d where "RouteMergeConflict (syDB s3) (obJobID row) sha now = Inr d"
      "turn_tx sn (\<lambda>d. MarkOutboxSent d (obID row) ''merge conflict -> resolving_conflict'')
         (\<lambda>s3. (Go 1, tell (obJobID row) ''project_out:merge_conflict'' s3)) (s3\<lparr>syDB := d\<rparr>) = (Go n, s1)"
    unfolding turn by (auto split: sum.splits if_splits)
  then show ?thesis
  proof cases
    case (3 sha d)
    from conflict_calmer [OF 3(1)] have d: "calmer (syDB s) d" "row \<in> set (pending_rows d)"
      using p db by (simp_all add: pending_rows_def)
    from 3(2) have "MarkOutboxSent d (obID row) ''merge conflict -> resolving_conflict'' = Inr (syDB s1)"
      by (auto simp: tell_def dest!: turn_txD)
    from sent_less [OF this d(2)] calmer_undelivered [OF d(1)] show ?thesis by simp
  qed (use failed db in blast)+
qed

lemma error_less:
  assumes "error_turn sn row e s = (Go n, s1)" and "row \<in> set (pending_rows (syDB s))"
    and "e \<noteq> ErrMergeCIFailedRouted"
    and "e = ErrStaleMergeAuthorization \<or> (\<exists>g. e = ErrCall g \<and> is_head_modified g) \<Longrightarrow>
      obAction row = ActionEnqueueMerge"
  shows "undelivered (syDB s1) < undelivered (syDB s)"
  using assms by (cases e) (auto simp: error_turn_def split: if_splits option.splits prod.splits
      intro: superseded_less failed_less conflict_less)

section \<open>Moved heads\<close>

text \<open>A step that neither finds the authorization stale nor the head moved.\<close>

definition tame :: "('w, 'a) act \<Rightarrow> 'w sys \<Rightarrow> bool" where
  "tame m s \<longleftrightarrow> (\<forall>e s1. m s = (Inl e, s1) \<longrightarrow> e \<noteq> ErrStaleMergeAuthorization
     \<and> (\<forall>g. e = ErrCall g \<longrightarrow> \<not> is_head_modified g))"

lemma tame_then: "tame m s \<Longrightarrow> (\<And>x s1. tame (f x) s1) \<Longrightarrow> tame (act_then m f) s"
  by (fastforce simp: tame_def act_then_def split: prod.splits sum.splits)

lemma tame_steps [simp]:
  "tame (done_with x) s" "tame (clock_now sn) s" "tame (store_tx sn what f) s" "tame (publish i ev) s"
  "tame (mirror_call mc) s" "tame (fail_with (ErrPlain t)) s"
  by (auto simp: tame_def done_with_def clock_now_def store_tx_def publish_def mirror_call_def fail_with_def
      split: prod.splits sum.splits)

lemma tame_write: "steady io \<Longrightarrow> tame (gh_write c io) s"
  by (auto simp: tame_def steady_def gh_write_def gh_read_def split: prod.splits sum.splits)

lemma tame_seed: "tame (seedBuildFromSpec sn sp now) s"
  by (auto simp: tame_def seedBuildFromSpec_def act_then_def mirror_call_def Let_def
      split: sum.splits option.splits prod.splits)

lemma tame_cong: "tame m s \<Longrightarrow> m2 s = m s \<Longrightarrow> tame m2 s"
  unfolding tame_def by (erule ssubst)

lemma tame_call:
  assumes "m s = act_then (gh_write c io) f s" and "steady io" and "\<And>x s1. tame (f x) s1"
  shows "tame m s"
  by (rule tame_cong, rule tame_then [OF tame_write [OF assms(2)]], rule assms(3), rule assms(1))

lemma other_sends_tame:
  assumes h: "merge_only_heads (snGH sn)"
  shows "tame (send_open_pr sn row now) s" "tame (send_create_issue sn row now) s" "tame (send_comment sn row) s"
    "tame (send_labels sn row) s" "tame (send_check sn row) s" "tame (send_draft sn row) s"
    "tame (send_delete_branch sn row) s" "tame (send_history sn row) s"
proof -
  note st = h [unfolded merge_only_heads_def]
  note quick = tame_cong [OF tame_steps(1)]
  show "tame (send_open_pr sn row now) s"
  proof (cases "jPRNumber (job_or_zero (syDB s) (obJobID row)) > 0")
    case True
    show ?thesis by (rule quick) (simp add: send_open_pr_def True Let_def)
  next
    case False
    show ?thesis
      by (rule tame_call, simp add: send_open_pr_def False Let_def) (use st in \<open>simp_all add: tame_then\<close>)
  qed
  show "tame (send_create_issue sn row now) s"
  proof (cases "GetJob (syDB s) (obJobID row)")
    case (Inl e)
    show ?thesis by (rule tame_cong [OF tame_steps(6)]) (simp add: send_create_issue_def Inl)
  next
    case (Inr j)
    show ?thesis
    proof (cases "jIssueNum j > 0")
      case True
      show ?thesis
        by (rule tame_cong, rule tame_then [OF tame_seed], rule tame_steps(1)) (simp add: send_create_issue_def Inr True)
    next
      case False
      show ?thesis
        by (rule tame_call, simp add: send_create_issue_def Inr False)
          (use st in \<open>simp_all add: tame_then tame_seed\<close>)
    qed
  qed
  show "tame (send_labels sn row) s" "tame (send_check sn row) s"
    by (rule tame_call, simp add: send_labels_def send_check_def Let_def, use st in simp_all)+
  show "tame (send_comment sn row) s"
    by (cases "ResolveIssueNum (syDB s) (jID (job_or_zero (syDB s) (obJobID row))) = 0",
        rule quick, simp add: send_comment_def,
        rule tame_call, simp add: send_comment_def Let_def, use st in simp_all)
  show "tame (send_draft sn row) s"
    by (cases "number_of (syDB s) row ''pr_number'' = 0", rule quick, simp add: send_draft_def,
        rule tame_call, simp add: send_draft_def Let_def, use st in simp_all)
  show "tame (send_delete_branch sn row) s"
    by (cases "pay_str (obPayload row) ''branch'' = []", rule quick, simp add: send_delete_branch_def,
        rule tame_call, simp add: send_delete_branch_def Let_def, use st in simp_all)
  show "tame (send_history sn row) s"
  proof (cases "snArtifacts sn (syDB s) (obJobID row)")
    case (Inl e)
    show ?thesis by (rule tame_cong [OF tame_steps(6)]) (simp add: send_history_def Inl)
  next
    case (Inr arts)
    show ?thesis
      by (cases "snArchiveHistory sn", rule tame_call, simp add: send_history_def Inr Let_def,
          (use st in \<open>simp_all add: steady_wrap\<close>)[2], rule quick, simp add: send_history_def Inr)
  qed
qed

lemma only_merges_stale:
  assumes "merge_only_heads (snGH sn)" and "obAction row \<noteq> ActionEnqueueMerge"
  shows "tame (send sn row) s"
  unfolding send_def
  by (rule tame_then) (use assms in \<open>simp_all add: other_sends_tame\<close>)

section \<open>Progress\<close>

lemma turn_progress:
  assumes "drain_turn sn s = (Go n, s1)" and "merge_only_heads (snGH sn)"
  shows "undelivered (syDB s1) < undelivered (syDB s)
    \<or> live_red sn \<and> (\<exists>row. serves sn (syDB s) row \<and> obJobID row \<notin> armed (syDB s))"
proof -
  from assms(1) obtain row where row: "next_row sn (syDB s) = Some row"
    by (auto simp: drain_turn_def split: option.splits)
  note p = next_pending [OF row]
  show ?thesis
  proof (cases "IsQuiescent (syDB s) (obJobID row) = Inr True")
    case True
    with assms(1) row have "syDB s1 = MarkOutboxSuppressed (obID row) (syDB s)"
      by (auto simp: drain_turn_def)
    then show ?thesis unfolding MarkOutboxSuppressed_def using finished_less [OF p] by simp
  next
    case False
    obtain r s2 where g: "send sn row s = (r, s2)" by fastforce
    from send_settles [of sn row s] g have c: "calmer (syDB s) (syDB s2)"
      and red: "r = Inl ErrMergeCIFailedRouted \<Longrightarrow> live_red sn \<and> obJobID row \<notin> armed (syDB s2)"
      and same: "r \<noteq> Inl ErrMergeCIFailedRouted \<Longrightarrow> tbOutbox (syDB s2) = tbOutbox (syDB s)"
      by (simp_all add: settles_def split: if_splits)
    note le = calmer_undelivered [OF c]
    show ?thesis
    proof (cases "r = Inl ErrMergeCIFailedRouted")
      case True
      with assms(1) row False g have "s1 = s2" by (simp add: drain_turn_def error_turn_def)
      then show ?thesis using red [OF True] disarmed_less [OF c] row False by (auto simp: serves_def)
    next
      case other: False
      have p2: "row \<in> set (pending_rows (syDB s2))" using p same [OF other] by (simp add: pending_rows_def)
      show ?thesis
      proof (cases r)
        case (Inl e)
        with assms(1) row False g have t: "error_turn sn row e s2 = (Go n, s1)" by (simp add: drain_turn_def)
        have "obAction row = ActionEnqueueMerge"
          if "e = ErrStaleMergeAuthorization \<or> (\<exists>g. e = ErrCall g \<and> is_head_modified g)"
          using that only_merges_stale [OF assms(2), of row s] g Inl by (auto simp: tame_def)
        from error_less [OF t p2 _ this] other Inl le show ?thesis by simp
      next
        case (Inr detail)
        with assms(1) row False g have "MarkOutboxSent (syDB s2) (obID row) detail = Inr (syDB s1)"
          by (auto simp: drain_turn_def tell_def dest!: turn_txD)
        from sent_less [OF this p2] le show ?thesis by simp
      qed
    qed
  qed
qed

end
