(* ===== verification/Github_Facts.thy ===== *)
theory Github_Facts
  imports Github_Client
begin

text \<open>
  What the GitHub client guarantees: a back-off is between a second and an hour
  and a rate limit is never a permanent failure; a merge refusal that can clear
  is never permanent, and a conflict on a merged pull request is a success; a
  node whose checks were all skipped is not a success.
\<close>

section \<open>Errors\<close>

lemma clamp_range: "second \<le> clampBackoff d \<and> clampBackoff d \<le> hour"
  by (simp add: clampBackoff_def second_def hour_def)

lemma backoff_range: "rateLimitBackoff h now = Some d \<Longrightarrow> second \<le> d \<and> d \<le> hour"
  by (auto simp: rateLimitBackoff_def reset_backoff_def clamp_range split: option.splits if_splits)

lemma minute_range: "second \<le> minute \<and> minute \<le> hour"
  by (simp add: minute_def second_def hour_def)


definition not_found :: HTTPResponse where
  "not_found = \<lparr>hrStatus = 404, hrHeader = (\<lambda>_. []), hrBody = ''Not Found'', hrJSON = Inl ''invalid'',
     hrReadErr = None\<rparr>"


section \<open>Merging\<close>

definition refused_retryably :: "gh_error \<Rightarrow> bool" where
  "refused_retryably e \<longleftrightarrow> isHeadModified e \<or> isBaseModified e \<or> isMergeRuleViolationPending e \<or> isMergeConflict e"

text \<open>
  Property C35: the refusals of a merge that do not end it.  GitHub's 409 for a moved
  head and its 405s for a moved base, a pending rule and a conflict are never read
  as permanent failures, and a conflict reported on a pull request that is in
  fact merged is a success.
\<close>

theorem merge_refusals_not_permanent:
  assumes "rest_unit t ''PUT'' (pull_path n @ ''/merge'') (merge_body head) w = (Inl e0, w1)"
    and "refused_retryably e0"
  shows "(\<forall>e w2. EnqueueMergeQueue t n head w = (Inl e, w2) \<longrightarrow> \<not> Permanent e \<and> retry_after e = None)
    \<and> (isMergeConflict e0 \<and> \<not> isHeadModified e0 \<and> \<not> isBaseModified e0 \<and> \<not> isMergeRuleViolationPending e0
       \<longrightarrow> (\<forall>p w2. PullRequest_read t n w1 = (Inr (Some p), w2) \<and> prMerged p
            \<longrightarrow> EnqueueMergeQueue t n head w = (Inr (), w2)))"
proof -
  have eq: "EnqueueMergeQueue t n head w = merge_refusal t n e0 w1"
    by (simp add: EnqueueMergeQueue_def io_rescue_def assms(1))
  have "merge_refusal t n e0 w1 = (Inl e, w2) \<Longrightarrow> \<not> Permanent e \<and> retry_after e = None" for e w2
    using assms(2) by (auto simp: merge_refusal_def refused_retryably_def io_fail_def Permanent_def
        retry_after_def split: if_splits prod.splits sum.splits option.splits)
  then show ?thesis unfolding eq by (auto simp: merge_refusal_def)
qed

text \<open>A transport that refuses every write for a moved base.\<close>

definition moved_base :: HTTPResponse where
  "moved_base = \<lparr>hrStatus = 405, hrHeader = (\<lambda>_. []), hrBody = ''Base branch was modified.'',
     hrJSON = Inl ''invalid'', hrReadErr = None\<rparr>"

definition fixed_transport :: "(string \<Rightarrow> string \<Rightarrow> HTTPResponse) \<Rightarrow> unit transport" where
  "fixed_transport f = \<lparr>htNow = (\<lambda>_. 0), htToken = (\<lambda>w. (Inr [], w)),
     htSend = (\<lambda>m p b w. (Inr (f m p), w)), htGetDiff = (\<lambda>p w. (Inr (f ''DIFF'' p), w))\<rparr>"

lemma moved_base_refusal:
  "rest_unit (fixed_transport (\<lambda>m p. moved_base)) ''PUT'' (pull_path 7 @ ''/merge'') (merge_body h) ()
     = (Inl (ErrGitHub 405 ''PUT'' ''/pulls/7/merge'' ''Base branch was modified.''), ())"
proof -
  have "dec_int 7 = ''7''" by code_simp
  then show ?thesis
    by (simp add: rest_unit_def rest_def with_token_def fixed_transport_def io_then_def http_do_def
        rest_error_def moved_base_def pull_path_def)
qed

theorem merge_refusals_not_permanent_witness:
  "\<not> Permanent (case fst (EnqueueMergeQueue (fixed_transport (\<lambda>m p. moved_base)) 7 ''h'' ()) of
      Inl e \<Rightarrow> e | Inr u \<Rightarrow> ErrOther [])"
proof -
  have "isBaseModified (ErrGitHub 405 ''PUT'' ''/pulls/7/merge'' ''Base branch was modified.'')"
    by code_simp
  then have "refused_retryably (ErrGitHub 405 ''PUT'' ''/pulls/7/merge'' ''Base branch was modified.'')"
    by (simp add: refused_retryably_def)
  from merge_refusals_not_permanent [OF moved_base_refusal this, of "''h''"]
  show ?thesis
    by (cases "EnqueueMergeQueue (fixed_transport (\<lambda>m p. moved_base)) 7 ''h'' ()")
      (auto simp: Permanent_def split: sum.splits)
qed

section \<open>Nodes\<close>

lemma read_context_keeps:
  "prNumber (read_context pr c) = prNumber pr \<and> prHeadRefOid (read_context pr c) = prHeadRefOid pr
   \<and> prMerged (read_context pr c) = prMerged pr \<and> prCIRollup (read_context pr c) = prCIRollup pr"
  by (simp add: read_context_def add_passed_def add_failing_def Let_def)

lemma read_contexts_keep:
  "prNumber (foldl read_context pr cs) = prNumber pr \<and> prHeadRefOid (foldl read_context pr cs) = prHeadRefOid pr
   \<and> prMerged (foldl read_context pr cs) = prMerged pr \<and> prCIRollup (foldl read_context pr cs) = prCIRollup pr"
  by (induction cs arbitrary: pr) (simp_all add: read_context_keeps)

lemma read_success:
  "prCIHasRealSuccess (foldl read_context pr cs) \<longleftrightarrow>
     prCIHasRealSuccess pr \<or> (\<exists>c \<in> set cs. check_succeeded c)"
proof (induction cs arbitrary: pr)
  case (Cons c cs)
  have "prCIHasRealSuccess (read_context pr c) \<longleftrightarrow> prCIHasRealSuccess pr \<or> check_succeeded c"
    by (simp add: read_context_def add_passed_def add_failing_def Let_def)
  with Cons.IH [of "read_context pr c"] show ?case by auto
qed simp

definition passes :: "CheckContext \<Rightarrow> string \<Rightarrow> bool" where
  "passes c x \<longleftrightarrow> x \<noteq> [] \<and> (check_succeeded c \<and> success_name c = x \<or> check_skipped c \<and> ccName c = x)"

definition fails :: "CheckContext \<Rightarrow> string \<Rightarrow> bool" where
  "fails c x \<longleftrightarrow> x \<noteq> [] \<and> (run_failed c \<and> ccName c = x \<or> status_failed c \<and> ccContext c = x)"

lemma passed_after_fail [simp]:
  "prPassedChecks (add_failing n u pr) = prPassedChecks pr" "prFailingChecks (add_passed n pr) = prFailingChecks pr"
  "set (prPassedChecks (add_passed n pr)) = set (prPassedChecks pr) \<union> ({n} - {[]})"
  "set (prFailingChecks (add_failing n u pr)) = set (prFailingChecks pr) \<union> ({n} - {[]})"
  by (auto simp: add_passed_def add_failing_def)

lemma read_passed:
  "x \<in> set (prPassedChecks (foldl read_context pr cs)) \<longleftrightarrow>
     x \<in> set (prPassedChecks pr) \<or> (\<exists>c \<in> set cs. passes c x)"
proof (induction cs arbitrary: pr)
  case (Cons c cs)
  have "x \<in> set (prPassedChecks (read_context pr c)) \<longleftrightarrow> x \<in> set (prPassedChecks pr) \<or> passes c x"
    by (simp add: read_context_def passes_def Let_def) auto
  with Cons.IH [of "read_context pr c"] show ?case by auto
qed simp

lemma read_failing:
  "x \<in> set (prFailingChecks (foldl read_context pr cs)) \<longleftrightarrow>
     x \<in> set (prFailingChecks pr) \<or> (\<exists>c \<in> set cs. fails c x)"
proof (induction cs arbitrary: pr)
  case (Cons c cs)
  have "\<not> (run_failed c \<and> status_failed c)" by (simp add: run_failed_def status_failed_def)
  then have "x \<in> set (prFailingChecks (read_context pr c)) \<longleftrightarrow> x \<in> set (prFailingChecks pr) \<or> fails c x"
    by (simp add: read_context_def fails_def Let_def) auto
  with Cons.IH [of "read_context pr c"] show ?case by auto
qed simp

lemma prFromNode_number [simp]: "prNumber (prFromNode n) = pnNumber n"
  by (auto simp: prFromNode_def Let_def read_contexts_keep bare_fact_def split: list.splits option.splits)

text \<open>The check contexts of the head commit of a node.\<close>

definition node_checks :: "PrNode \<Rightarrow> CheckContext list" where
  "node_checks n = (case pnRollups n of Some r # rs \<Rightarrow> roNodes r | _ \<Rightarrow> [])"

text \<open>
  Beside the properties: what a node's checks amount to.  There is a real success exactly when
  some check concluded so, whatever the rollup says (a head whose checks were all
  skipped has none); a check has passed when one of its name succeeded, was
  skipped or neutral, and failed when one of its name failed.
\<close>

theorem node_checks_read:
  "(prCIHasRealSuccess (prFromNode n) \<longleftrightarrow> (\<exists>c \<in> set (node_checks n). check_succeeded c))
   \<and> (x \<in> set (prPassedChecks (prFromNode n)) \<longleftrightarrow> (\<exists>c \<in> set (node_checks n). passes c x))
   \<and> (x \<in> set (prFailingChecks (prFromNode n)) \<longleftrightarrow> (\<exists>c \<in> set (node_checks n). fails c x))"
proof -
  have bare: "\<not> prCIHasRealSuccess (bare_fact n)" "prPassedChecks (bare_fact n) = []"
    "prFailingChecks (bare_fact n) = []" by (simp_all add: bare_fact_def)
  show ?thesis
  proof (cases "\<exists>r rs. pnRollups n = Some r # rs")
    case True
    then obtain r rs where "pnRollups n = Some r # rs" by blast
    then show ?thesis
      by (simp add: prFromNode_def node_checks_def bare read_success read_passed read_failing)
  next
    case False
    then have "prFromNode n = (bare_fact n)\<lparr>prLabels := pnLabels n\<rparr>" "node_checks n = []"
      by (auto simp: prFromNode_def node_checks_def split: list.splits option.splits)
    then show ?thesis by (simp add: bare)
  qed
qed

definition skipped_node :: PrNode where
  "skipped_node = \<lparr>pnNumber = 7, pnUpdatedAt = 0, pnIsDraft = False, pnMerged = False, pnMergedAt = 0,
     pnHeadRefOid = ''h'', pnBaseRefOid = ''b'', pnMergeableState = ''CLEAN'', pnMergeCommit = None,
     pnRollups = [Some \<lparr>roState = ''SUCCESS'', roHasNextPage = False, roNodes =
       [\<lparr>ccTypename = ''CheckRun'', ccName = ''guard'', ccConclusion = ''SKIPPED'', ccDetailsURL = [],
         ccContext = [], ccState = [], ccTargetURL = []\<rparr>]\<rparr>],
     pnLabels = []\<rparr>"

theorem node_checks_read_witness:
  "\<not> prCIHasRealSuccess (prFromNode skipped_node) \<and> prCIRollup (prFromNode skipped_node) = CISuccess
   \<and> ''guard'' \<in> set (prPassedChecks (prFromNode skipped_node))"
proof -
  have "prCIRollup (prFromNode skipped_node) = CISuccess"
    by (simp add: prFromNode_def skipped_node_def read_context_keeps CISuccess_def)
  then show ?thesis using node_checks_read [of skipped_node "''guard''"]
    by (simp add: node_checks_def skipped_node_def check_succeeded_def check_skipped_def passes_def)
qed

end
