(* ===== verification/Sender_Props.thy ===== *)
theory Sender_Props
  imports Store_Delivery Sender_Drain Github_Facts
begin

text \<open>
  The properties of the project-OUT sender: what it may ask of GitHub, that a merge
  is pinned to the review and to green checks at the same head, what a rate limit
  does, and when a drain ends.
\<close>

section \<open>What is asked of GitHub\<close>

text \<open>The row of a turn, and that none before it is due.\<close>

definition due_row :: "'w sender \<Rightarrow> DB \<Rightarrow> OutboxRow \<Rightarrow> bool" where
  "due_row sn d x \<longleftrightarrow> obStatus x = ObPending \<and> (snRepo sn = [] \<or> repo_of d (obJobID x) = Some (snRepo sn))"

lemma next_row_due:
  assumes "next_row sn d = Some row"
  shows "\<exists>before after. tbOutbox d = before @ row # after \<and> due_row sn d row \<and> (\<forall>x \<in> set before. \<not> due_row sn d x)"
proof -
  have "List.find (due_row sn d) (tbOutbox d) = Some row"
    using assms by (auto simp: next_row_def NextPendingOutbox_def NextPendingOutboxForRepo_def due_row_def [abs_def]
        split: if_splits)
  then obtain i where i: "i < length (tbOutbox d)" "due_row sn d (tbOutbox d ! i)" "row = tbOutbox d ! i"
    "\<forall>k < i. \<not> due_row sn d (tbOutbox d ! k)" by (auto simp: find_Some_iff)
  have "\<forall>x \<in> set (take i (tbOutbox d)). \<not> due_row sn d x" using i(1,4) by (auto simp: in_set_conv_nth)
  with i id_take_nth_drop [OF i(1)] show ?thesis by blast
qed

text \<open>
  Property C28: every call has its row.  Whatever a drain asks of GitHub, it asks for the
  oldest pending row of the sender's repository as the outbox stands at that moment,
  for a job that is not quiescent, and with the arguments that row and job give: a
  pull request only for a job that has none, an issue only for a spec without one, a
  check with the conclusion of its row (success when it has none), a merge or a branch
  update only as \<open>merge_allowed\<close> says, an archive only when archiving is on and under the
  job's message.
\<close>

theorem calls_serve_due_rows:
  assumes "(turned sn)\<^sup>*\<^sup>* s s1" and "syCalls s1 = syCalls s @ new" and "(d, c) \<in> set new"
  shows "\<exists>before row after. tbOutbox d = before @ row # after \<and> due_row sn d row
    \<and> (\<forall>x \<in> set before. \<not> due_row sn d x) \<and> IsQuiescent d (obJobID row) \<noteq> Inr True
    \<and> call_for sn d row c"
proof -
  from turns_emit [OF assms(1)] assms(2,3) have "due_call sn (d, c)" by auto
  then obtain row where "next_row sn d = Some row" "IsQuiescent d (obJobID row) \<noteq> Inr True" "call_for sn d row c"
    by (auto simp: due_call_def serves_def)
  with next_row_due [of sn d row] show ?thesis by blast
qed

lemma GetJob_Inr: "GetJob d i = Inr j \<longleftrightarrow> (\<exists>r. find_row d i = Some r \<and> j = scanJob r)"
  by (auto simp: GetJob_def split: option.splits)

text \<open>
  Property C27: what is merged is what was reviewed.  A merge asked of GitHub names a
  head for which, at that moment, a merge row is pending whose job carries a verdict
  minted for that very head and the job's base; the mirror produced a diff of base
  and head that the content gate passes (when the base is known); and GitHub showed
  the pull request at that head with its required checks green and none failed.
\<close>

theorem merges_pinned_to_review:
  assumes "(turned sn)\<^sup>*\<^sup>* s s1" and "syCalls s1 = syCalls s @ new" and "(d, CallMerge n h) \<in> set new"
  shows "\<exists>row r v. row \<in> set (tbOutbox d) \<and> obStatus row = ObPending \<and> obAction row = ActionEnqueueMerge
    \<and> obHeadSHA row = h \<and> h \<noteq> [] \<and> number_of d row ''pr_number'' = n
    \<and> find_row d (obJobID row) = Some r \<and> jHeadSHA (scanJob r) = h \<and> jVerdict (rwJob r) = Some v
    \<and> verdict_Verify v h (jBaseSHA (scanJob r))
    \<and> (jBaseSHA (scanJob r) \<noteq> [] \<longrightarrow> content_clear sn (jBaseSHA (scanJob r)) h)
    \<and> live_green sn n h"
proof -
  from turns_emit [OF assms(1)] assms(2,3) have "due_call sn (d, CallMerge n h)" by auto
  then obtain row where "next_row sn d = Some row" "obAction row = ActionEnqueueMerge" "merge_allowed sn d row n h"
    by (auto simp: due_call_def serves_def)
  with next_pending [of sn d row] show ?thesis
    by (auto simp: merge_allowed_def GetJob_Inr pending_rows_def)
qed

section \<open>The re-verified diff\<close>

lemma contentDenyReason_iff:
  "contentDenyReason d own = [] \<longleftrightarrow>
     (\<forall>t \<in> set (TouchedPaths d). path_allowed (reverify_policy own) t)
     \<and> (TrimSpace d = [] \<or> TouchedPaths d \<noteq> [])
     \<and> (\<forall>l \<in> set (addedLines d). scanSecret l = [] \<and> \<not> isConflictMarker l)
     \<and> \<not> introducesBinary d
     \<and> int (length d) \<le> lMaxDiffBytes (resolve_limits (cpLimits (reverify_policy own)))
     \<and> int (length (TouchedPaths d)) \<le> lMaxChangedFiles (resolve_limits (cpLimits (reverify_policy own)))"
proof -
  let ?p = "\<lparr>pDiff = d, pBaseSHA = [], pDeclared = \<lparr>brPaths = [], brScope = []\<rparr>,
      pAppliesClean = False, pAppliesCleanKnown = False\<rparr>"
  let ?r = "CheckWithPolicy ?p (reverify_policy own)"
  have "contentDenyReason d own = [] \<longleftrightarrow> rDenylistClear ?r \<and> rStaticChecksPass ?r"
    by (auto simp: contentDenyReason_def deny_reasons_def Let_def)
  moreover have "rStaticChecksPass ?r \<longleftrightarrow>
      staticChecks ?p (TouchedPaths d) (resolve_limits (cpLimits (reverify_policy own))) = []"
    by (simp add: CheckWithPolicy_def Let_def)
  ultimately show ?thesis using deny_clear_iff [of ?p "reverify_policy own"] by (simp add: static_empty_iff)
qed

section \<open>A standing answer\<close>

text \<open>
  GitHub and the mirror answer every question about a merge row the same way: the
  branch can be fetched, the diff is \<open>diff\<close>, the pull request is \<open>pr\<close> and the required
  checks are \<open>req\<close>.
\<close>

definition answers :: "'w sender \<Rightarrow> Job \<Rightarrow> int \<Rightarrow> string \<Rightarrow> PullRequest \<Rightarrow> string list \<Rightarrow> bool" where
  "answers sn j n diff pr req \<longleftrightarrow>
     (\<exists>m. snHistory sn = Some m \<and> (\<forall>br w. fst (hwFetchBranch m br w) = None)
        \<and> (\<forall>w. fst (hwDiffBetween m (jBaseSHA j) (jHeadSHA j) w) = Inr diff))
     \<and> (\<exists>reader. ghPullRequest (snGH sn) = Some reader \<and> (\<forall>w. fst (reader n w) = Inr (Some pr)))
     \<and> (\<forall>s. fst (mergeable_known sn n s) = Inr ())
     \<and> (\<forall>w. fst (requiredChecks sn w) = Inr req)"

definition same_store :: "'w sys \<Rightarrow> 'w sys \<Rightarrow> bool" where
  "same_store s s1 \<longleftrightarrow> syDB s1 = syDB s \<and> syCalls s1 = syCalls s \<and> syPublished s1 = syPublished s
     \<and> syParked s1 = syParked s"

lemma read_answer:
  assumes "\<And>w. fst (io w) = Inr x"
  obtains s1 where "gh_read io s = (Inr x, s1)" "same_store s s1"
  using assms [of "syWorld s"] that
  by (cases "io (syWorld s)") (auto simp: gh_read_def same_store_def)

lemma mirror_answer:
  assumes "\<And>w. fst (mc w) = x"
  obtains s1 where "mirror_call mc s = (Inr x, s1)" "same_store s s1"
  using assms [of "syWorld s"] that
  by (cases "mc (syWorld s)") (auto simp: mirror_call_def same_store_def)

lemma same_store_trans: "same_store s s1 \<Longrightarrow> same_store s1 s2 \<Longrightarrow> same_store s s2"
  by (simp add: same_store_def)

lemma same_mergeable: "same_store s (snd (mergeable_known sn n s))"
  by (auto simp: mergeable_known_def same_store_def act_then_def gh_read_def done_with_def fail_with_def
      split: option.splits prod.splits sum.splits)

lemma live_answer:
  assumes "answers sn j n diff pr req" and "n \<noteq> 0" and "prHeadRefOid pr = h"
  obtains s1 where "liveMergeCI sn n h s = (Inr (mergeCI pr req), s1)" "same_store s s1"
proof -
  from assms(1) obtain reader where r: "ghPullRequest (snGH sn) = Some reader" "\<And>w. fst (reader n w) = Inr (Some pr)"
    by (auto simp: answers_def)
  obtain s1 where s1: "gh_read (reader n) s = (Inr (Some pr), s1)" "same_store s s1"
    by (rule read_answer [OF r(2)])
  from assms(1) have "fst (mergeable_known sn n s1) = Inr ()" by (simp add: answers_def)
  then obtain s2 where s2: "mergeable_known sn n s1 = (Inr (), s2)" "same_store s1 s2"
    using same_mergeable [of s1 sn n] by (cases "mergeable_known sn n s1") auto
  have "\<And>w. fst (requiredChecks sn w) = Inr req" using assms(1) by (simp add: answers_def)
  then obtain s3 where s3: "gh_read (requiredChecks sn) s2 = (Inr req, s3)" "same_store s2 s3"
    by (rule read_answer)
  show ?thesis
  proof (rule that)
    show "liveMergeCI sn n h s = (Inr (mergeCI pr req), s3)"
      using assms(2,3) by (simp add: liveMergeCI_def r s1 act_then_def check_pr_def s2 s3 done_with_def)
    show "same_store s s3" using s1(2) s2(2) s3(2) by (blast intro: same_store_trans)
  qed
qed

lemma merge_answer:
  assumes a: "answers sn j n diff pr req" and n: "number_of (syDB s) row ''pr_number'' = n" "n \<noteq> 0"
    and h: "prHeadRefOid pr = obHeadSHA row" and j: "authorized (syDB s) row = Some j"
    and ok: "contentDenyReason diff (snAllowOwnSource sn) = []"
  obtains s1 where "send_merge sn row s = merge_or_repair sn row n (mergeCI pr req) s1" "same_store s s1"
proof -
  from a obtain m where m: "snHistory sn = Some m" "\<And>br w. fst (hwFetchBranch m br w) = None"
    "\<And>w. fst (hwDiffBetween m (jBaseSHA j) (jHeadSHA j) w) = Inr diff" by (auto simp: answers_def)
  have live: "\<exists>s2. merge_if_green sn row n s0 = merge_or_repair sn row n (mergeCI pr req) s2 \<and> same_store s s2"
    if "same_store s s0" for s0
  proof (rule live_answer [OF a n(2) h])
    fix s2 assume "liveMergeCI sn n (obHeadSHA row) s0 = (Inr (mergeCI pr req), s2)" "same_store s0 s2"
    with that show ?thesis by (auto simp: merge_if_green_def act_then_def intro: same_store_trans)
  qed
  have send: "send_merge sn row s = verified_merge sn m row j n s"
    using m(1) n(1) j by (simp add: send_merge_def Let_def)
  show ?thesis
  proof (cases "jBaseSHA j = []")
    case True
    with live [of s] send that show ?thesis by (auto simp: verified_merge_def same_store_def)
  next
    case False
    define br where "br = IssueBranch (ResolveIssueNum (syDB s) (jID j)) (obJobID row)"
    obtain s1 where s1: "mirror_call (hwFetchBranch m br) s = (Inr None, s1)" "same_store s s1"
      by (rule mirror_answer [OF m(2)])
    obtain s2 where s2: "mirror_call (hwDiffBetween m (jBaseSHA j) (jHeadSHA j)) s1 = (Inr (Inr diff), s2)"
      "same_store s1 s2" by (rule mirror_answer [OF m(3)])
    have "verified_merge sn m row j n s = merge_if_green sn row n s2"
      by (simp add: verified_merge_def False Let_def br_def [symmetric] act_then_def s1 diff_after_fetch_def s2
          judge_diff_def ok)
    with live [of s2] send that show ?thesis using s1(2) s2(2) same_store_trans by metis
  qed
qed

lemma send_merge_row:
  assumes "obAction row = ActionEnqueueMerge"
  shows "\<exists>s0. same_store s s0 \<and> send sn row s = send_merge sn row s0"
proof -
  obtain t w where c: "snClock sn (syWorld s) = (t, w)" by fastforce
  have "send sn row s = send_merge sn row (s\<lparr>syWorld := w\<rparr>)"
    using assms c by (simp add: send_def act_then_def clock_now_def ActionEnqueueMerge_def ActionOpenPR_def
        ActionCreateIssue_def ActionComment_def ActionSetLabels_def ActionCreateCheck_def)
  moreover have "same_store s (s\<lparr>syWorld := w\<rparr>)" by (simp add: same_store_def)
  ultimately show ?thesis by blast
qed

lemma send_delivers:
  assumes "obAction row = ActionEnqueueMerge" and "authorized (syDB s) row = Some j"
    and "number_of (syDB s) row ''pr_number'' = n" and "n \<noteq> 0"
    and "answers sn j n diff pr req" and "prHeadRefOid pr = obHeadSHA row"
    and "contentDenyReason diff (snAllowOwnSource sn) = []"
    and "lmGreen (mergeCI pr req)" and "\<not> lmFailed (mergeCI pr req)"
    and "\<And>w. fst (ghEnqueueMergeQueue (snGH sn) n (obHeadSHA row) w) = Inr ()"
  obtains s3 where "send sn row s = (Inr (''merge_enqueue pr='' @ dec_int n), s3)" "syDB s3 = syDB s"
    "syCalls s3 = syCalls s @ [(syDB s, CallMerge n (obHeadSHA row))]"
proof -
  obtain s0 where s0: "same_store s s0" "send sn row s = send_merge sn row s0"
    using send_merge_row [OF assms(1)] by blast
  have db: "syDB s0 = syDB s" using s0(1) by (simp add: same_store_def)
  obtain s2 where s2: "send_merge sn row s0 = merge_or_repair sn row n (mergeCI pr req) s2" "same_store s0 s2"
    by (rule merge_answer [OF assms(5) _ assms(4,6) _ assms(7), of s0]) (simp_all add: db assms(2,3))
  let ?c = "[(syDB s, CallMerge n (obHeadSHA row))]"
  obtain s3 where s3: "gh_write (CallMerge n (obHeadSHA row)) (ghEnqueueMergeQueue (snGH sn) n (obHeadSHA row)) s2
      = (Inr (), s3)" "syDB s3 = syDB s" "syCalls s3 = syCalls s @ ?c"
    using assms(10) [of "syWorld s2"] s0(1) s2(2)
    by (cases "ghEnqueueMergeQueue (snGH sn) n (obHeadSHA row) (syWorld s2)")
      (auto simp: gh_write_def gh_read_def same_store_def)
  have "send sn row s = (Inr (''merge_enqueue pr='' @ dec_int n), s3)"
    using s0(2) s2(1) s3(1) assms(8,9) by (simp add: merge_or_repair_def merge_call_def)
  with s3 that show ?thesis by blast
qed

text \<open>
  Property C31: a reviewed merge is delivered.  When the row is due, its job verified,
  the diff clean and the pull request green at the reviewed head, and GitHub accepts,
  the turn asks for exactly that merge, marks the row sent and goes on.
\<close>

theorem verified_merge_delivered:
  assumes "serves sn (syDB s) row" and "obAction row = ActionEnqueueMerge"
    and "authorized (syDB s) row = Some j" and "number_of (syDB s) row ''pr_number'' = n" and "n \<noteq> 0"
    and "answers sn j n diff pr req" and "prHeadRefOid pr = obHeadSHA row"
    and "contentDenyReason diff (snAllowOwnSource sn) = []"
    and "lmGreen (mergeCI pr req)" and "\<not> lmFailed (mergeCI pr req)"
    and "\<And>w. fst (ghEnqueueMergeQueue (snGH sn) n (obHeadSHA row) w) = Inr ()"
  shows "\<exists>s1. drain_turn sn s = (Go 1, s1)
    \<and> syCalls s1 = syCalls s @ [(syDB s, CallMerge n (obHeadSHA row))]
    \<and> MarkOutboxSent (syDB s) (obID row) (''merge_enqueue pr='' @ dec_int n) = Inr (syDB s1)"
proof -
  obtain s3 where s3: "send sn row s = (Inr (''merge_enqueue pr='' @ dec_int n), s3)" "syDB s3 = syDB s"
    "syCalls s3 = syCalls s @ [(syDB s, CallMerge n (obHeadSHA row))]"
    by (rule send_delivers [OF assms(2-11)])
  have row: "next_row sn (syDB s) = Some row" "IsQuiescent (syDB s) (obJobID row) \<noteq> Inr True"
    using assms(1) by (simp_all add: serves_def)
  from next_pending [OF row(1)] have "List.find (\<lambda>x. obID x = obID row) (tbOutbox (syDB s)) \<noteq> None"
    by (auto simp: find_None_iff pending_rows_def)
  then obtain d where d: "MarkOutboxSent (syDB s) (obID row) (''merge_enqueue pr='' @ dec_int n) = Inr d"
    by (auto simp: MarkOutboxSent_def)
  show ?thesis
    using row s3 d by (simp add: drain_turn_def turn_tx_def tell_def)
qed

definition one_line_diff :: string where
  "one_line_diff = concat (map (\<lambda>l. l @ [newline]) [''diff --git a/x b/x'', ''--- a/x'', ''+++ b/x'', ''-a''])"

text \<open>A sender before a GitHub that always shows the same pull request, requiring \<open>ci\<close>.\<close>

definition demo_pr :: "string list \<Rightarrow> string list \<Rightarrow> PullRequest" where
  "demo_pr passed failing = \<lparr>prNumber = 7, prUpdatedAt = 0, prIsDraft = False, prMerged = False, prMergedAt = 0,
     prHeadRefOid = ''h1'', prBaseRefOid = ''b1'', prMergeCommit = [], prMergeableState = [],
     prClosedUnmerged = False, prCIRollup = ''SUCCESS'', prCIHasRealSuccess = True, prFailingChecks = failing,
     prFailingCheckURLs = (\<lambda>_. []), prPassedChecks = passed, prCheckContextsTruncated = False, prLabels = []\<rparr>"

definition demo_github :: "PullRequest \<Rightarrow> unit github" where
  "demo_github pr =
     \<lparr>ghOpenPR = (\<lambda>_ w. (Inr 7, w)), ghCreateIssue = (\<lambda>_ w. (Inr 8, w)), ghIssueComment = (\<lambda>_ _ w. (Inr (), w)),
      ghSetLabels = (\<lambda>_ _ w. (Inr (), w)), ghCreateCheck = (\<lambda>_ _ _ w. (Inr (), w)),
      ghEnqueueMergeQueue = (\<lambda>_ _ w. (Inr (), w)), ghConvertToDraft = (\<lambda>_ w. (Inr (), w)),
      ghDeleteBranch = (\<lambda>_ w. (Inr (), w)), ghPutFiles = (\<lambda>_ _ _ w. (Inr (), w)),
      ghBranchProtection = (\<lambda>_ w. (Inr None, w)), ghPullRequest = Some (\<lambda>_ w. (Inr (Some pr), w)),
      ghRequiredChecks = Some (\<lambda>_ w. (Inr [''ci''], w)), ghUnsticker = None\<rparr>"

definition demo_mirror :: "string \<Rightarrow> unit mirror" where
  "demo_mirror diff = \<lparr>hwHeadSHA = (\<lambda>_ w. (Inr ''tip'', w)), hwFetchBranch = (\<lambda>_ w. (None, w)),
     hwDiffBetween = (\<lambda>_ _ w. (Inr diff, w))\<rparr>"

definition demo_sender :: "PullRequest \<Rightarrow> unit sender" where
  "demo_sender pr = \<lparr>snStore = demo_cfg, snGH = demo_github pr, snClock = (\<lambda>w. (5, w)), snRepo = [],
     snBaseBranch = ''main'', snAllowOwnSource = False, snArchiveHistory = False,
     snHistory = Some (demo_mirror one_line_diff), snErrText = (\<lambda>_. ''store''), snArtifacts = (\<lambda>_ _. Inr [])\<rparr>"

definition merge_row :: OutboxRow where
  "merge_row = (outbox_row ''j1'' ActionEnqueueMerge ''h1'' [])\<lparr>obID := 1\<rparr>"

definition merge_due :: DB where
  "merge_due = demo0\<lparr>tbJobs := [verified_job], tbOutbox := [merge_row]\<rparr>"

definition demo_sys :: "DB \<Rightarrow> unit sys" where
  "demo_sys d = \<lparr>syDB = d, syWorld = (), syParked = 0, syPublished = [], syCalls = []\<rparr>"

lemma one_line_clear: "contentDenyReason one_line_diff False = []"
proof -
  have "TouchedPaths one_line_diff = [''x'']" "addedLines one_line_diff = []"
    "\<not> introducesBinary one_line_diff" "path_allowed (reverify_policy False) ''x''"
    "length one_line_diff = 38"
    by code_simp+
  then show ?thesis
    by (simp add: contentDenyReason_iff reverify_policy_def resolve_limits_def)
qed

lemma verified_sel:
  "row_id verified_job = ''j1''" "jHeadSHA (rwJob verified_job) = ''h1''" "jBaseSHA (rwJob verified_job) = ''b1''"
  "jVerdict (rwJob verified_job) = Some (MintVerdict VerdictApproved DispositionHandoff ''h1'' ''b1'')"
  "jPRNumber (rwJob verified_job) = 7" "jState (rwJob verified_job) = StateMergeHandoff"
  "rwAdopted verified_job = False" "jID (rwJob verified_job) = ''j1''" "jJobSeq (rwJob verified_job) = 0"
  by (simp_all add: verified_job_def seed_row_def Let_def row_id_def demo_seed_def zero_job_def)

lemma merge_due_row:
  "find_row merge_due ''j1'' = Some verified_job" "obJobID merge_row = ''j1''" "obHeadSHA merge_row = ''h1''"
  "obAction merge_row = ActionEnqueueMerge" "obStatus merge_row = ObPending" "tbOutbox merge_due = [merge_row]"
  by (simp_all add: merge_due_def merge_row_def outbox_row_def find_row_def verified_sel)

lemma merge_due_serves: "serves (demo_sender pr) merge_due merge_row"
  by (simp add: serves_def next_row_def demo_sender_def NextPendingOutbox_def merge_due_row IsQuiescent_def
      verified_sel)

lemma merge_due_authorized: "authorized merge_due merge_row = Some (scanJob verified_job)"
  "jHeadSHA (scanJob verified_job) = ''h1''" "jBaseSHA (scanJob verified_job) = ''b1''"
  "number_of merge_due merge_row ''pr_number'' = 7"
  by (simp_all add: authorized_def GetJob_def merge_due_row verified_sel scanJob_def number_of_def JobPR_def)

lemma demo_answers: "answers (demo_sender pr) j n one_line_diff pr [''ci'']"
  by (auto simp: answers_def demo_sender_def demo_mirror_def demo_github_def mergeable_known_def done_with_def
      requiredChecks_def io_then_def io_return_def Let_def)

lemma demo_green:
  "lmGreen (mergeCI (demo_pr [''ci''] []) [''ci''])" "\<not> lmFailed (mergeCI (demo_pr [''ci''] []) [''ci''])"
  "prHeadRefOid (demo_pr a b) = ''h1''"
  by (code_simp, code_simp, simp add: demo_pr_def)

lemma demo_accepts: "fst (ghEnqueueMergeQueue (snGH (demo_sender pr)) n h w) = Inr ()"
  "snAllowOwnSource (demo_sender pr) = False"
  by (simp_all add: demo_sender_def demo_github_def)

abbreviation demo_start :: "unit sys" where
  "demo_start \<equiv> demo_sys merge_due"

lemma demo_start_db: "syDB demo_start = merge_due" "syCalls demo_start = []"
  by (simp_all add: demo_sys_def)

theorem verified_merge_delivered_witness:
  "\<exists>s1. drain_turn (demo_sender (demo_pr [''ci''] [])) demo_start = (Go 1, s1)
     \<and> syCalls s1 = [(merge_due, CallMerge 7 ''h1'')]"
proof -
  have "\<exists>s1. drain_turn (demo_sender (demo_pr [''ci''] [])) demo_start = (Go 1, s1)
    \<and> syCalls s1 = syCalls demo_start @ [(syDB demo_start, CallMerge 7 (obHeadSHA merge_row))]
    \<and> MarkOutboxSent (syDB demo_start) (obID merge_row) (''merge_enqueue pr='' @ dec_int 7) = Inr (syDB s1)"
    by (rule verified_merge_delivered [OF _ merge_due_row(4) _ _ _ demo_answers _ _ demo_green(1,2) demo_accepts(1)])
      (simp_all add: demo_start_db merge_due_serves merge_due_authorized demo_green(3) merge_due_row(3)
        demo_accepts(2) one_line_clear)
  then show ?thesis by (auto simp: demo_start_db merge_due_row(3))
qed

text \<open>The same turn, for the properties of calls.\<close>

lemma demo_merge_turn:
  "\<exists>s1. turned (demo_sender (demo_pr [''ci''] [])) demo_start s1 \<and> syCalls s1 = [(merge_due, CallMerge 7 ''h1'')]"
proof -
  let ?sn = "demo_sender (demo_pr [''ci''] [])"
  obtain s3 where s3: "send ?sn merge_row demo_start = (Inr (''merge_enqueue pr='' @ dec_int 7), s3)"
    "syDB s3 = syDB demo_start"
    "syCalls s3 = syCalls demo_start @ [(syDB demo_start, CallMerge 7 (obHeadSHA merge_row))]"
    by (rule send_delivers [where n = 7, OF merge_due_row(4) _ _ _ demo_answers _ _ demo_green(1,2) demo_accepts(1), of demo_start])
      (simp_all add: demo_start_db merge_due_authorized demo_green(3) merge_due_row(3)
        demo_accepts(2) one_line_clear)
  have "next_row ?sn merge_due = Some merge_row" "IsQuiescent merge_due (obJobID merge_row) \<noteq> Inr True"
    using merge_due_serves by (simp_all add: serves_def)
  then have "syCalls (snd (drain_turn ?sn demo_start)) = syCalls s3"
    using s3 by (simp add: drain_turn_def demo_start_db turn_tx_calls tell_def)
  with s3(3) show ?thesis by (simp add: turned_def demo_start_db merge_due_row(3))
qed

theorem calls_serve_due_rows_witness:
  "\<exists>row. due_row (demo_sender (demo_pr [''ci''] [])) merge_due row
     \<and> call_for (demo_sender (demo_pr [''ci''] [])) merge_due row (CallMerge 7 ''h1'')"
proof -
  obtain s1 where s1: "(turned (demo_sender (demo_pr [''ci''] [])))\<^sup>*\<^sup>* demo_start s1"
    "syCalls s1 = syCalls demo_start @ [(merge_due, CallMerge 7 ''h1'')]"
    using demo_merge_turn by (auto simp: demo_start_db intro: r_into_rtranclp)
  from calls_serve_due_rows [OF s1, of merge_due "CallMerge 7 ''h1''"]
  show ?thesis by auto
qed

theorem merges_pinned_to_review_witness:
  "live_green (demo_sender (demo_pr [''ci''] [])) 7 ''h1''
   \<and> content_clear (demo_sender (demo_pr [''ci''] [])) ''b1'' ''h1''"
proof -
  obtain s1 where s1: "(turned (demo_sender (demo_pr [''ci''] [])))\<^sup>*\<^sup>* demo_start s1"
    "syCalls s1 = syCalls demo_start @ [(merge_due, CallMerge 7 ''h1'')]"
    using demo_merge_turn by (auto simp: demo_start_db intro: r_into_rtranclp)
  from merges_pinned_to_review [OF s1, of merge_due 7 "''h1''"]
  show ?thesis by (auto simp: merge_due_row merge_due_authorized verified_sel)
qed

section \<open>Rate limits\<close>

text \<open>
  Property C32: a rate limit parks the sender and costs nothing.  The turn stops the
  drain with the database as it was, so the row is still the next one and has used
  no attempt, and until the wait is over a drain does nothing.
\<close>

theorem rate_limit_parks:
  assumes "serves sn (syDB s) row" and "send sn row s = (Inl (ErrCall g), s1)" and "retry_after g = Some wait"
  shows "\<exists>now s2. drain_turn sn s = (Stop None, s2) \<and> syDB s2 = syDB s \<and> syParked s2 = now + wait
    \<and> (\<exists>w. fst (snClock sn w) = now)
    \<and> (\<forall>s3 fuel. syParked s3 = syParked s2 \<longrightarrow> fst (snClock sn (syWorld s3)) < now + wait \<longrightarrow>
         (\<exists>s4. DrainOnce sn fuel s3 = Some ((0, None), s4) \<and> syDB s4 = syDB s3 \<and> syCalls s4 = syCalls s3))"
proof -
  have "\<not> is_head_modified g" using assms(3)
    by (auto simp: retry_after_def is_head_modified_def split: gh_error.splits)
  moreover obtain now s2 where c: "read_clock sn s1 = (now, s2)" by fastforce
  ultimately have t: "drain_turn sn s = (Stop None, s2\<lparr>syParked := now + wait\<rparr>)"
    using assms by (simp add: serves_def drain_turn_def error_turn_def)
  have db: "syDB s2 = syDB s" using read_clock_db [OF c] send_clean [OF assms(2)] by simp
  have now: "fst (snClock sn (syWorld s1)) = now" using c by (simp add: read_clock_def split: prod.splits)
  have "\<exists>s4. DrainOnce sn fuel s3 = Some ((0, None), s4) \<and> syDB s4 = syDB s3 \<and> syCalls s4 = syCalls s3"
    if "syParked s3 = now + wait" "fst (snClock sn (syWorld s3)) < now + wait" for s3 fuel
    using that by (cases "snClock sn (syWorld s3)") (simp add: DrainOnce_def read_clock_def)
  with t db now show ?thesis by (intro exI [of _ now] exI [of _ "s2\<lparr>syParked := now + wait\<rparr>"]) auto
qed

definition limited_sender :: "unit sender" where
  "limited_sender = (demo_sender (demo_pr [''ci''] []))\<lparr>snGH := (demo_github (demo_pr [''ci''] []))
     \<lparr>ghSetLabels := (\<lambda>_ _ w. (Inl (ErrRetryAfter 60), w))\<rparr>\<rparr>"

definition label_row :: OutboxRow where
  "label_row = outbox_row ''j1'' ActionSetLabels ''h1'' [(''labels'', JList [JStr ''x''])]"

definition label_due :: DB where
  "label_due = demo0\<lparr>tbJobs := [verified_job], tbOutbox := [label_row]\<rparr>"

theorem rate_limit_parks_witness:
  "\<exists>s2. drain_turn limited_sender (demo_sys label_due) = (Stop None, s2) \<and> syDB s2 = label_due \<and> syParked s2 = 65"
proof -
  have d: "find_row label_due ''j1'' = Some verified_job" "obJobID label_row = ''j1''" "obStatus label_row = ObPending"
    "obAction label_row = ''labels.set''" "tbOutbox label_due = [label_row]" "syDB (demo_sys label_due) = label_due"
    by (simp_all add: label_due_def label_row_def outbox_row_def find_row_def verified_sel ActionSetLabels_def demo_sys_def)
  have sn: "snRepo limited_sender = []" "\<And>w. fst (snClock limited_sender w) = 5" "snClock limited_sender = (\<lambda>w. (5, w))"
    "ghSetLabels (snGH limited_sender) = (\<lambda>_ _ w. (Inl (ErrRetryAfter 60), w))"
    by (simp_all add: limited_sender_def demo_sender_def)
  have "serves limited_sender label_due label_row"
    by (simp add: serves_def next_row_def NextPendingOutbox_def IsQuiescent_def d sn verified_sel)
  moreover obtain s1 where "send limited_sender label_row (demo_sys label_due) = (Inl (ErrCall (ErrRetryAfter 60)), s1)"
    by (simp add: send_def act_then_def clock_now_def sn d ActionOpenPR_def ActionCreateIssue_def ActionComment_def
        ActionSetLabels_def send_labels_def Let_def gh_write_def gh_read_def)
  moreover have "retry_after (ErrRetryAfter 60) = Some 60" by (simp add: retry_after_def)
  ultimately have "\<exists>now s2. drain_turn limited_sender (demo_sys label_due) = (Stop None, s2) \<and> syDB s2 = label_due
      \<and> syParked s2 = now + 60 \<and> (\<exists>w. fst (snClock limited_sender w) = now)"
    using rate_limit_parks [of limited_sender "demo_sys label_due" label_row] unfolding d(6) by metis
  then show ?thesis by (auto simp: sn)
qed

section \<open>When a drain ends\<close>

lemma loop_ends:
  "merge_only_heads (snGH sn) \<Longrightarrow> \<not> live_red sn \<Longrightarrow> undelivered (syDB s) < k \<Longrightarrow> drain_loop sn k sent s \<noteq> None"
proof (induction k arbitrary: sent s)
  case (Suc k)
  obtain t s1 where t: "drain_turn sn s = (t, s1)" by fastforce
  show ?case
  proof (cases t)
    case (Go n)
    with turn_progress [of sn s n s1] t Suc.prems have "undelivered (syDB s1) < k" by auto
    with Suc.IH [OF Suc.prems(1,2)] t Go show ?thesis by simp
  qed (simp add: t)
qed simp

text \<open>
  Property C29: a drain ends.  With the real client, and as long as GitHub does not show
  the checks of a merge failed, a drain takes at most one turn more than there are
  pending rows and jobs on the merge arm, whatever GitHub answers and however often
  it fails.
\<close>

theorem drain_ends:
  assumes "snGH sn = real_client t" and "\<not> live_red sn" and "undelivered (syDB s) < fuel"
  shows "\<exists>sent e s1. DrainOnce sn fuel s = Some ((sent, e), s1)"
proof -
  obtain now s0 where c: "read_clock sn s = (now, s0)" by fastforce
  have "undelivered (syDB s0) < fuel" using assms(3) read_clock_db [OF c] by simp
  from loop_ends [OF _ assms(2) this] assms(1) have "drain_loop sn fuel 0 s0 \<noteq> None"
    by (simp add: real_merge_only_heads)
  with c show ?thesis by (auto simp: DrainOnce_def)
qed

definition gone_sender :: "unit sender" where
  "gone_sender = (demo_sender (demo_pr [] []))\<lparr>snGH := real_client (fixed_transport (\<lambda>m p. not_found))\<rparr>"

theorem drain_ends_witness:
  "\<exists>sent e s1. DrainOnce gone_sender 3 demo_start = Some ((sent, e), s1)"
proof -
  have "fst (PullRequest_read (fixed_transport (\<lambda>m p. not_found)) n w) \<noteq> Inr x" for n w x
    by (simp add: PullRequest_read_def graphQL_def with_token_def fixed_transport_def io_then_def http_do_def
        graphql_error_def not_found_def)
  then have "\<not> live_red gone_sender"
    by (auto simp: live_red_def gone_sender_def real_client_def) (metis fst_conv)
  moreover have "undelivered merge_due \<le> 2"
  proof -
    have "armed merge_due \<subseteq> {''j1''}" by (auto simp: armed_def merge_due_def job_ids_def verified_sel)
    then have "card (armed merge_due) \<le> 1" using card_mono [of "{''j1''}"] by simp
    then show ?thesis by (simp add: undelivered_def pending_rows_def merge_due_row)
  qed
  ultimately show ?thesis
    by (intro drain_ends [where t = "fixed_transport (\<lambda>m p. not_found)"]) (simp_all add: gone_sender_def demo_start_db)
qed

section \<open>A red merge row without its job\<close>

lemma send_red:
  assumes "obAction row = ActionEnqueueMerge" and "authorized (syDB s) row = Some j" and "jState j \<notin> merge_arm"
    and "number_of (syDB s) row ''pr_number'' = n" and "n \<noteq> 0"
    and "answers sn j n diff pr req" and "prHeadRefOid pr = obHeadSHA row"
    and "contentDenyReason diff (snAllowOwnSource sn) = []" and "lmFailed (mergeCI pr req)"
  obtains s3 where "send sn row s = (Inl ErrMergeCIFailedRouted, s3)" "syDB s3 = syDB s" "syCalls s3 = syCalls s"
proof -
  obtain s0 where s0: "same_store s s0" "send sn row s = send_merge sn row s0"
    using send_merge_row [OF assms(1)] by blast
  have db: "syDB s0 = syDB s" using s0(1) by (simp add: same_store_def)
  obtain s2 where s2: "send_merge sn row s0 = merge_or_repair sn row n (mergeCI pr req) s2" "same_store s0 s2"
    by (rule merge_answer [OF assms(6) _ assms(5,7) _ assms(8), of s0]) (simp_all add: db assms(2,4))
  from assms(2,3) obtain r where r: "find_row (syDB s) (obJobID row) = Some r" "jState (rwJob r) \<notin> merge_arm"
    by (auto simp: authorized_def GetJob_Inr split: sum.splits option.splits if_splits)
  then have "RoutePostApprovalCIFailure (syDB s) (obJobID row) names urls now = Inr (syDB s)" for names urls now
    by (simp add: RoutePostApprovalCIFailure_def loadJobTx_def merge_arm_def)
  moreover have "syDB s2 = syDB s" "syCalls s2 = syCalls s" using s0(1) s2(2) by (simp_all add: same_store_def)
  moreover obtain now w where "snClock sn (syWorld s2) = (now, w)" by fastforce
  ultimately show ?thesis using s0(2) s2(1) assms(9) that
    by (auto simp: merge_or_repair_def act_then_def clock_now_def store_tx_def publish_def fail_with_def)
qed

text \<open>
  Property C30: the drain that does not end.  A due merge row whose job has left the
  merge arm with its verdict in place, while GitHub shows the required checks of the
  reviewed head failed: routing the failure changes nothing, the row stays pending
  without using an attempt, and the loop serves it again, for ever.
\<close>

theorem red_merge_row_spins:
  assumes "serves sn (syDB s) row" and "obAction row = ActionEnqueueMerge"
    and "authorized (syDB s) row = Some j" and "jState j \<notin> merge_arm"
    and "number_of (syDB s) row ''pr_number'' = n" and "n \<noteq> 0"
    and "answers sn j n diff pr req" and "prHeadRefOid pr = obHeadSHA row"
    and "contentDenyReason diff (snAllowOwnSource sn) = []" and "lmFailed (mergeCI pr req)"
    and "syParked s \<le> fst (snClock sn (syWorld s))"
  shows "DrainOnce sn fuel s = None"
proof -
  have spin: "drain_loop sn k sent s1 = None" if "syDB s1 = syDB s" for k sent s1
    using that
  proof (induction k arbitrary: sent s1)
    case (Suc k)
    obtain s3 where "send sn row s1 = (Inl ErrMergeCIFailedRouted, s3)" "syDB s3 = syDB s1"
      by (rule send_red [OF assms(2) _ assms(4) _ assms(6-10), of s1]) (use assms(3,5) Suc.prems in simp_all)
    with assms(1) Suc show ?case by (simp add: serves_def drain_turn_def error_turn_def)
  qed simp
  obtain now s0 where c: "read_clock sn s = (now, s0)" by fastforce
  then have "\<not> now < syParked s" using assms(11) by (auto simp: read_clock_def split: prod.splits)
  with spin [of s0] read_clock_db [OF c] show ?thesis by (simp add: DrainOnce_def c)
qed

text \<open>
  A way there: the opening of the pull request is dead-lettered while a merge row
  waits, which parks the job for a human with its verdict and head in place.
\<close>

definition open_row :: OutboxRow where
  "open_row = (outbox_row ''j1'' ActionOpenPR ''h1'' [])\<lparr>obID := 2\<rparr>"

definition parked_due :: DB where
  "parked_due = projr (DeadLetterOutbox (merge_due\<lparr>tbOutbox := [open_row, merge_row]\<rparr>) 2 ''j1''
     (escalation_str EscalationProjectOut) ''gone'' True 5)"

definition parked_job :: Row where
  "parked_job = set_seq 1 (park_row (escalation_str EscalationProjectOut) verified_job)"

lemma parked_due_row:
  "find_row parked_due ''j1'' = Some parked_job"
  "tbOutbox parked_due = [open_row\<lparr>obStatus := ObAbandoned, obAttempts := 1\<rparr>, merge_row]"
  by (simp_all add: parked_due_def DeadLetterOutbox_def Let_def update_outbox_def open_row_def merge_row_def
      outbox_row_def loadJobTx_def find_row_def merge_due_def demo0_def verified_sel one_step_def appendEvent_def
      setJobSeq_def update_row_def set_seq_def park_row_def row_id_def parked_job_def)

theorem red_merge_row_spins_witness:
  "\<forall>fuel. DrainOnce (demo_sender (demo_pr [] [''ci''])) fuel (demo_sys parked_due) = None"
proof -
  let ?r = parked_job
  have sel: "row_id ?r = ''j1''" "jHeadSHA (scanJob ?r) = ''h1''" "jBaseSHA (scanJob ?r) = ''b1''"
    "jVerdict (rwJob ?r) = Some (MintVerdict VerdictApproved DispositionHandoff ''h1'' ''b1'')"
    "jPRNumber (rwJob ?r) = 7" "jState (rwJob ?r) = StateNeedsHuman" "jHeadSHA (rwJob ?r) = ''h1''" "jBaseSHA (rwJob ?r) = ''b1''" "rwAdopted ?r = False"
    using verified_sel by (simp_all add: parked_job_def set_seq_def park_row_def scanJob_def row_id_def)
  have db: "syDB (demo_sys parked_due) = parked_due" by (simp add: demo_sys_def)
  have red: "lmFailed (mergeCI (demo_pr [] [''ci'']) [''ci''])" by code_simp
  have parked: "syParked (demo_sys d) = 0" "fst (snClock (demo_sender pr) w) = 5" for d pr w
    by (simp_all add: demo_sys_def demo_sender_def)
  have "serves (demo_sender (demo_pr [] [''ci''])) parked_due merge_row"
    by (simp add: serves_def next_row_def demo_sender_def NextPendingOutbox_def parked_due_row IsQuiescent_def
        merge_due_row sel)
  moreover have "authorized parked_due merge_row = Some (scanJob ?r)" "number_of parked_due merge_row ''pr_number'' = 7"
    by (simp_all add: authorized_def GetJob_def parked_due_row merge_due_row sel number_of_def JobPR_def)
  ultimately show ?thesis
    by (intro allI red_merge_row_spins [where j = "scanJob ?r" and n = 7, OF _ merge_due_row(4) _ _ _ _ demo_answers _ _ red])
      (simp_all add: db sel merge_arm_def demo_green(3) merge_due_row(3) demo_accepts(2) one_line_clear parked)
qed

section \<open>A branch without protection\<close>

text \<open>
  The read of the classic protection is the fallback for a branch no ruleset covers; its
  404, GitHub's answer for an unprotected branch, is an error here, not an empty list.
\<close>

text \<open>
  Property C33: contrary to what the project promises (an unprotected integration branch
  is the case \<open>doctor\<close> passes as \<open>autonomous merge OK\<close>), such a branch is never merged to.
  With the real client, when the rulesets require nothing of the integration branch and reading
  its classic protection fails (a 404 when there is none), no drain ever asks for a
  merge, however green the pull request is.
\<close>

theorem unprotected_branch_never_merged:
  assumes "snGH sn = real_client t"
    and "\<And>w. fst (BranchRequiredChecks t (integration_branch sn) w) = Inr []"
    and "\<And>w. \<exists>e. fst (BranchProtection t (integration_branch sn) w) = Inl e"
    and "(turned sn)\<^sup>*\<^sup>* s s1" and "syCalls s1 = syCalls s @ new"
  shows "\<forall>(d, c) \<in> set new. \<forall>n h. c \<noteq> CallMerge n h"
proof -
  have "fst (requiredChecks sn w) \<noteq> Inr req" for w req
    using assms(2) [of w] assms(3)
    by (cases "BranchRequiredChecks t (integration_branch sn) w")
      (auto simp: requiredChecks_def assms(1) real_client_def Let_def io_then_def split: prod.splits sum.splits,
        metis fst_conv sum.distinct(1))
  then have "\<not> live_green sn n h" for n h by (metis fst_conv live_green_def)
  moreover have "due_call sn x" if "x \<in> set new" for x using turns_emit [OF assms(4)] assms(5) that by auto
  ultimately show ?thesis by (fastforce simp: due_call_def merge_allowed_def)
qed

definition bare_rules :: HTTPResponse where
  "bare_rules = \<lparr>hrStatus = 200, hrHeader = (\<lambda>_. []), hrBody = ''[]'', hrJSON = Inr (JList []), hrReadErr = None\<rparr>"

definition bare_transport :: "unit transport" where
  "bare_transport = fixed_transport (\<lambda>m p. if prefix ''/rules/'' p then bare_rules else not_found)"

definition bare_sender :: "unit sender" where
  "bare_sender = (demo_sender (demo_pr [''ci''] []))\<lparr>snGH := real_client bare_transport\<rparr>"

theorem unprotected_branch_never_merged_witness:
  "CallMerge 7 ''h1'' \<notin> set (map snd (syCalls (snd (drain_turn bare_sender demo_start))))"
proof -
  have rules: "fst (BranchRequiredChecks bare_transport b w) = Inr []" for b w
    by (simp add: BranchRequiredChecks_def rest_out_def rest_def with_token_def bare_transport_def fixed_transport_def
        io_then_def http_do_def rest_error_def bare_rules_def io_return_def)
  have prot: "\<exists>e. fst (BranchProtection bare_transport b w) = Inl e" for b w
    by (simp add: BranchProtection_def rest_out_def rest_def with_token_def bare_transport_def fixed_transport_def
        io_then_def http_do_def rest_error_def not_found_def)
  have gh: "snGH bare_sender = real_client bare_transport" by (simp add: bare_sender_def)
  have t: "(turned bare_sender)\<^sup>*\<^sup>* demo_start (snd (drain_turn bare_sender demo_start))"
    by (rule r_into_rtranclp) (simp add: turned_def)
  from unprotected_branch_never_merged [OF gh rules prot t] show ?thesis
    by (fastforce simp: demo_start_db)
qed

end
