(* ===== verification/Sweep_Facts.thy ===== *)
theory Sweep_Facts
  imports Github_Facts
begin

text \<open>
  The board sweep against a board that pages as GitHub does: a connection is a list
  of pages, each with the cursor of its end, and a request names the cursor to read
  on from.  The sweep lists exactly what is on the board, each number once.
\<close>

section \<open>A board in pages\<close>

text \<open>What follows a cursor, and the page and \<open>pageInfo\<close> a request gets; past the end both are empty.\<close>

type_synonym 'a pages = "('a list \<times> string) list"

fun past :: "'a pages \<Rightarrow> string option \<Rightarrow> 'a pages" where
  "past ps None = ps"
| "past ps (Some c) = tl (dropWhile (\<lambda>p. snd p \<noteq> c) ps)"

definition page_items :: "'a pages \<Rightarrow> 'a list" where
  "page_items ps = (case ps of [] \<Rightarrow> [] | p # qs \<Rightarrow> fst p)"

definition page_info :: "'a pages \<Rightarrow> PageInfo" where
  "page_info ps = (case ps of [] \<Rightarrow> \<lparr>piHasNextPage = False, piEndCursor = []\<rparr>
     | p # qs \<Rightarrow> \<lparr>piHasNextPage = qs \<noteq> [], piEndCursor = snd p\<rparr>)"

definition cursors_ok :: "'a pages \<Rightarrow> bool" where
  "cursors_ok ps \<longleftrightarrow> distinct (map snd ps) \<and> [] \<notin> set (map snd ps)"

record board =
  bdPRs :: "PrNode pages"
  bdIssues :: "Issue pages"
  bdMerged :: "PrNode list"
  bdClosed :: "PrNode list"

definition serves_board :: "'w transport \<Rightarrow> board \<Rightarrow> bool" where
  "serves_board t b \<longleftrightarrow> cursors_ok (bdPRs b) \<and> cursors_ok (bdIssues b) \<and>
     (\<forall>pc ic first w. \<exists>d w1. sweep_page t pc ic first w = (Inr d, w1)
        \<and> sdPRs d = page_items (past (bdPRs b) pc) \<and> sdPRPage d = page_info (past (bdPRs b) pc)
        \<and> sdIssues d = page_items (past (bdIssues b) ic) \<and> sdIssuePage d = page_info (past (bdIssues b) ic)
        \<and> sdMerged d = (if first then bdMerged b else []) \<and> sdClosed d = (if first then bdClosed b else []))"

text \<open>A request with the cursor it was handed reads the next page.\<close>

lemma past_advance:
  assumes "cursors_ok ps" and "past ps pc = drop j ps"
  shows "past ps (advance pc (page_info (past ps pc))) = drop (Suc j) ps"
proof (cases "drop j ps")
  case Nil
  then show ?thesis using assms(2) by (simp add: page_info_def advance_def drop_Suc drop_tl)
next
  case (Cons q qs)
  then have j: "j < length ps" and q: "q = ps ! j" by (metis drop_all leI list.simps(3), simp add: nth_via_drop)
  have "snd x \<noteq> snd q" if "x \<in> set (take j ps)" for x
  proof -
    obtain k where "k < j" "x = ps ! k" using \<open>x \<in> set (take j ps)\<close> j by (auto simp: in_set_conv_nth)
    then show ?thesis
      using assms(1) j by (auto simp: cursors_ok_def q distinct_conv_nth)
  qed
  then have "dropWhile (\<lambda>p. snd p \<noteq> snd q) (take j ps @ drop j ps) = dropWhile (\<lambda>p. snd p \<noteq> snd q) (drop j ps)"
    by (intro dropWhile_append2) simp
  then have "tl (dropWhile (\<lambda>p. snd p \<noteq> snd q) ps) = qs"
    using append_take_drop_id [of j ps] by (simp add: Cons)
  moreover have "snd q \<noteq> []" using assms(1) j q nth_mem [OF j] by (metis cursors_ok_def image_eqI set_map)
  moreover have "qs = drop (Suc j) ps" using Cons by (metis drop_Suc list.sel(3) tl_drop)
  ultimately show ?thesis by (simp add: assms(2) Cons page_info_def advance_def)
qed

lemma more_pages: "piHasNextPage (page_info (drop j ps)) \<longleftrightarrow> drop (Suc j) ps \<noteq> []"
  by (cases "drop j ps") (auto simp: page_info_def drop_Suc drop_tl)

section \<open>What a page adds\<close>

definition page_prs :: "SweepData \<Rightarrow> int set" where
  "page_prs d = pnNumber ` (set (sdPRs d) \<union> set (sdMerged d) \<union> set (sdClosed d))"

definition page_issues :: "SweepData \<Rightarrow> int set" where
  "page_issues d = isNumber ` set (sdIssues d)"

text \<open>The numbers seen are those listed, once each.\<close>

definition listed_once :: "SweepState \<Rightarrow> bool" where
  "listed_once s \<longleftrightarrow> map prNumber (bsPullRequests (ssSnap s)) = ssSeenPR s \<and> distinct (ssSeenPR s)
     \<and> map isNumber (bsIssues (ssSnap s)) = ssSeenIssue s \<and> distinct (ssSeenIssue s)"

lemma add_prs:
  assumes "\<And>pr. prNumber (mark pr) = prNumber pr" and "listed_once s"
  shows "listed_once (foldl (add_pr mark) s ns)
    \<and> set (ssSeenPR (foldl (add_pr mark) s ns)) = set (ssSeenPR s) \<union> pnNumber ` set ns
    \<and> ssSeenIssue (foldl (add_pr mark) s ns) = ssSeenIssue s"
  using assms(2)
proof (induction ns arbitrary: s)
  case (Cons n ns)
  have "listed_once (add_pr mark s n)"
    using Cons.prems by (simp add: add_pr_def listed_once_def assms(1))
  moreover have "set (ssSeenPR (add_pr mark s n)) = insert (pnNumber n) (set (ssSeenPR s))
      \<and> ssSeenIssue (add_pr mark s n) = ssSeenIssue s"
    by (auto simp: add_pr_def)
  ultimately show ?case using Cons.IH [of "add_pr mark s n"] by auto
qed simp

lemma add_issues:
  assumes "listed_once s"
  shows "listed_once (foldl add_issue s is)
    \<and> set (ssSeenIssue (foldl add_issue s is)) = set (ssSeenIssue s) \<union> isNumber ` set is
    \<and> ssSeenPR (foldl add_issue s is) = ssSeenPR s"
  using assms
proof (induction "is" arbitrary: s)
  case (Cons i "is")
  have "listed_once (add_issue s i)"
    using Cons.prems by (simp add: add_issue_def listed_once_def)
  moreover have "set (ssSeenIssue (add_issue s i)) = insert (isNumber i) (set (ssSeenIssue s))
      \<and> ssSeenPR (add_issue s i) = ssSeenPR s"
    by (auto simp: add_issue_def)
  ultimately show ?case using Cons.IH [of "add_issue s i"] by auto
qed simp

lemma accumulate_lists:
  assumes "listed_once s"
  shows "listed_once (accumulate d s)
    \<and> set (ssSeenPR (accumulate d s)) = set (ssSeenPR s) \<union> page_prs d
    \<and> set (ssSeenIssue (accumulate d s)) = set (ssSeenIssue s) \<union> page_issues d"
proof -
  let ?s1 = "foldl (add_pr id) s (sdPRs d)"
  let ?s2 = "foldl (add_pr id) ?s1 (sdMerged d)"
  let ?s3 = "foldl (add_pr closed_unmerged) ?s2 (sdClosed d)"
  have m: "prNumber (id pr) = prNumber pr" "prNumber (closed_unmerged pr) = prNumber pr" for pr
    by (simp_all add: closed_unmerged_def)
  note a = add_prs [of id, OF m(1) assms, of "sdPRs d"]
  note b = add_prs [of id, OF m(1) a [THEN conjunct1], of "sdMerged d"]
  note c = add_prs [of closed_unmerged, OF m(2) b [THEN conjunct1], of "sdClosed d"]
  note e = add_issues [OF c [THEN conjunct1], of "sdIssues d"]
  from a b c e show ?thesis
    unfolding accumulate_def page_prs_def page_issues_def by (simp add: image_Un Un_assoc)
qed

lemma listed_rate [simp]:
  "listed_once (s\<lparr>ssSnap := (ssSnap s)\<lparr>bsRateLimit := rl\<rparr>\<rparr>) = listed_once s"
  by (simp add: listed_once_def)

section \<open>The sweep\<close>

definition on_pages :: "'a pages \<Rightarrow> 'a set" where
  "on_pages ps = (\<Union>p \<in> set ps. set (fst p))"

lemma on_pages_Suc: "on_pages (take (Suc k) (drop j ps)) =
    set (page_items (drop j ps)) \<union> on_pages (take k (drop (Suc j) ps))"
  by (cases "drop j ps") (auto simp: on_pages_def page_items_def drop_Suc drop_tl)

lemma no_pages [simp]: "on_pages [] = {}"
  by (simp add: on_pages_def)

text \<open>The loop after \<open>j\<close> pages, with \<open>k\<close> left before the cap.\<close>

lemma sweep_loop_reads:
  assumes "serves_board t b" and "past (bdPRs b) pc = drop j (bdPRs b)" and "past (bdIssues b) ic = drop j (bdIssues b)"
    and "pm \<longleftrightarrow> j = 0 \<or> drop j (bdPRs b) \<noteq> []" and "im \<longleftrightarrow> j = 0 \<or> drop j (bdIssues b) \<noteq> []"
    and "listed_once s"
  shows "\<exists>s' w'. sweep_loop (sweep_page t) k (j = 0) pc ic pm im s w = (Inr s', w') \<and> listed_once s'
    \<and> set (ssSeenPR s') = set (ssSeenPR s) \<union> pnNumber ` (on_pages (take k (drop j (bdPRs b)))
        \<union> (if j = 0 \<and> k > 0 then set (bdMerged b) \<union> set (bdClosed b) else {}))
    \<and> set (ssSeenIssue s') = set (ssSeenIssue s) \<union> isNumber ` on_pages (take k (drop j (bdIssues b)))"
  using assms(2-6)
proof (induction k arbitrary: j pc ic pm im s w)
  case (Suc k)
  show ?case
  proof (cases "pm \<or> im")
    case False
    with Suc.prems show ?thesis by simp
  next
    case True
    from assms(1) obtain d w1 where f: "sweep_page t pc ic (j = 0) w = (Inr d, w1)"
      and d: "sdPRs d = page_items (drop j (bdPRs b))" "sdPRPage d = page_info (past (bdPRs b) pc)"
        "sdIssues d = page_items (drop j (bdIssues b))" "sdIssuePage d = page_info (past (bdIssues b) ic)"
        "sdMerged d = (if j = 0 then bdMerged b else [])" "sdClosed d = (if j = 0 then bdClosed b else [])"
      unfolding serves_board_def using Suc.prems(1,2) by metis
    have ok: "cursors_ok (bdPRs b)" "cursors_ok (bdIssues b)" using assms(1) by (simp_all add: serves_board_def)
    let ?s1 = "accumulate d s"
    let ?s2 = "if j = 0 then ?s1\<lparr>ssSnap := (ssSnap ?s1)\<lparr>bsRateLimit := sdRate d\<rparr>\<rparr> else ?s1"
    note ac = accumulate_lists [OF Suc.prems(5), of d]
    have seen: "listed_once ?s2" "ssSeenPR ?s2 = ssSeenPR ?s1" "ssSeenIssue ?s2 = ssSeenIssue ?s1"
      using ac by simp_all
    have step: "sweep_loop (sweep_page t) (Suc k) (j = 0) pc ic pm im s w =
        sweep_loop (sweep_page t) k (Suc j = 0) (advance pc (sdPRPage d)) (advance ic (sdIssuePage d))
          (piHasNextPage (sdPRPage d)) (piHasNextPage (sdIssuePage d)) ?s2 w1"
      using True by (auto simp: f Let_def)
    have "\<exists>s' w'. sweep_loop (sweep_page t) k (Suc j = 0) (advance pc (sdPRPage d)) (advance ic (sdIssuePage d))
        (piHasNextPage (sdPRPage d)) (piHasNextPage (sdIssuePage d)) ?s2 w1 = (Inr s', w') \<and> listed_once s'
      \<and> set (ssSeenPR s') = set (ssSeenPR ?s2) \<union> pnNumber ` (on_pages (take k (drop (Suc j) (bdPRs b)))
          \<union> (if Suc j = 0 \<and> k > 0 then set (bdMerged b) \<union> set (bdClosed b) else {}))
      \<and> set (ssSeenIssue s') = set (ssSeenIssue ?s2) \<union> isNumber ` on_pages (take k (drop (Suc j) (bdIssues b)))"
      by (rule Suc.IH)
        (use past_advance [OF ok(1) Suc.prems(1)] past_advance [OF ok(2) Suc.prems(2)] seen Suc.prems(1,2)
         in \<open>simp_all add: d(2,4) more_pages\<close>)
    then show ?thesis
      unfolding step seen using ac
      by (auto simp: on_pages_Suc page_prs_def page_issues_def d image_Un)
  qed
qed simp

text \<open>
  Property C36: a sweep loses nothing.  Against a board that pages by cursors, however
  many pages each connection has, the sweep succeeds and the pull requests of the
  snapshot are exactly those of the first thousand pages with the recent merged and
  closed ones, the issues exactly those of the first thousand pages, each number once.
\<close>

theorem sweep_reads_everything:
  assumes "serves_board t b"
  shows "\<exists>snap w'. BoardSweep t w = (Inr snap, w')
    \<and> set (map prNumber (bsPullRequests snap)) = pnNumber ` (on_pages (take 1000 (bdPRs b))
        \<union> set (bdMerged b) \<union> set (bdClosed b))
    \<and> set (map isNumber (bsIssues snap)) = isNumber ` on_pages (take 1000 (bdIssues b))
    \<and> distinct (map prNumber (bsPullRequests snap)) \<and> distinct (map isNumber (bsIssues snap))"
proof -
  have "listed_once empty_sweep" by (simp add: listed_once_def empty_sweep_def)
  from sweep_loop_reads [OF assms _ _ _ _ this, of None 0 None True True 1000 w]
  obtain s' w' where l: "sweep_loop (sweep_page t) sweepMaxPages True None None True True empty_sweep w = (Inr s', w')"
    and lo: "listed_once s'" and seen: "set (ssSeenPR s') = pnNumber ` (on_pages (take 1000 (bdPRs b))
        \<union> set (bdMerged b) \<union> set (bdClosed b))"
      "set (ssSeenIssue s') = isNumber ` on_pages (take 1000 (bdIssues b))"
    by (auto simp: empty_sweep_def sweepMaxPages_def Un_assoc)
  then have "BoardSweep t w = (Inr (ssSnap s'), w')"
    by (simp add: BoardSweep_def io_then_def io_return_def)
  with lo seen show ?thesis
    unfolding listed_once_def by (intro exI [of _ "ssSnap s'"] exI [of _ w'] conjI) (simp_all only:)
qed

text \<open>A board of two pages of one pull request each.\<close>

definition number_node :: "int \<Rightarrow> JSONValue" where
  "number_node n = JObj [(''number'', JInt n)]"

definition conn_page :: "JSONValue list \<Rightarrow> bool \<Rightarrow> string \<Rightarrow> JSONValue" where
  "conn_page ns nxt c = JObj [(''nodes'', JList ns),
     (''pageInfo'', JObj [(''hasNextPage'', JBool nxt), (''endCursor'', JStr c)])]"

definition two_pages :: "JSONValue \<Rightarrow> JSONValue" where
  "two_pages cur =
     JObj [(''data'', JObj [(''repository'', JObj [(''pullRequests'',
       if cur = JNull then conn_page [number_node 1] True ''c1''
       else if cur = JStr ''c1'' then conn_page [number_node 2] False ''c2''
       else conn_page [] False [])])])]"

definition paged_transport :: "unit transport" where
  "paged_transport = \<lparr>htNow = (\<lambda>w. 0), htToken = (\<lambda>w. (Inr [], w)),
     htSend = (\<lambda>m q vars w. (Inr \<lparr>hrStatus = 200, hrHeader = (\<lambda>h. []), hrBody = ''{}'',
       hrJSON = Inr (two_pages (jmember ''prCursor'' vars)), hrReadErr = None\<rparr>, w)),
     htGetDiff = (\<lambda>q w. (Inl [], w))\<rparr>"

definition paged_board :: board where
  "paged_board = \<lparr>bdPRs = [([decode_node (number_node 1)], ''c1''), ([decode_node (number_node 2)], ''c2'')],
     bdIssues = [], bdMerged = [], bdClosed = []\<rparr>"

lemma paged_serves: "serves_board paged_transport paged_board"
proof -
  have "sweep_page paged_transport pc ic first () =
      (Inr (decode_sweep (jmember ''data'' (two_pages (opt_str pc)))), ())" for pc ic first
    by (simp add: sweep_page_def io_then_def io_return_def graphQL_def with_token_def paged_transport_def
        http_do_def graphql_error_def two_pages_def)
  moreover have "past (bdIssues paged_board) ic = []" for ic
    by (cases ic) (simp_all add: paged_board_def)
  ultimately show ?thesis
    by (auto simp: serves_board_def cursors_ok_def paged_board_def two_pages_def opt_str_def decode_sweep_def
        decode_page_def conn_page_def page_items_def page_info_def Let_def split: option.splits)
qed

theorem sweep_reads_everything_witness:
  "\<exists>snap w'. BoardSweep paged_transport () = (Inr snap, w') \<and> set (map prNumber (bsPullRequests snap)) = {1, 2}"
proof -
  have "on_pages (take 1000 (bdPRs paged_board)) = {decode_node (number_node 1), decode_node (number_node 2)}"
    by (auto simp: paged_board_def on_pages_def)
  then show ?thesis
    using sweep_reads_everything [OF paged_serves, of "()"]
    by (auto simp: paged_board_def decode_node_def number_node_def)
qed

end
