(* ===== verification/Store_Spec.thy ===== *)
theory Store_Spec
  imports Store_Review Store_Conflict Sender
begin

text \<open>
  The spec flow of \<open>internal/store/spec.go\<close>: seeding a spec, the author's claim and
  draft, edits and design decisions, the reviewer's claim and the result that the
  spec gate judges.  The stages of the flow keep their state while a worker is on
  them, so the claims guard against a live lease instead of a changed state.
\<close>

section \<open>Seeding\<close>

record SeedSpecParams =
  spID :: string
  spChatRef :: string
  spAuthorLens :: string
  spPriority :: int
  spRepo :: string
  spTaskText :: string
  spAcceptanceCriteria :: string
  spNow :: int

definition spec_row :: "SeedSpecParams \<Rightarrow> Row" where
  "spec_row p =
     (let r = seed_row \<lparr>sdID = spID p, sdKind = KindSpec, sdFlow = ''spec'', sdStage = ''author'',
          sdRole = RoleSpecAuthor, sdBaseSHA = [], sdPriority = spPriority p, sdBlockedBy = [],
          sdRequiredCapabilities = [''role:spec_author''], sdNow = spNow p, sdCostCeilingMicroUSD = None,
          sdFlowID = [], sdTaskText = spTaskText p, sdSpecText = [],
          sdAcceptanceCriteria = spAcceptanceCriteria p, sdRepo = spRepo p, sdIssueNumber = None\<rparr>
        StateSpecAuthoring in
      r\<lparr>rwJob := (rwJob r)\<lparr>jChatRef := spChatRef p, jJobSeq := 1, jMaxAttempts := 5, jMaxBounces := 4, jFlowID := []\<rparr>,
        rwAuthorLens := spAuthorLens p\<rparr>)"

definition spec_created :: "SeedSpecParams \<Rightarrow> Event" where
  "spec_created p =
     \<lparr>eJobID = spID p, eJobSeq = 1, eKind = KindJobCreated, eFromState = StateEmpty,
      eToState = StateSpecAuthoring, eLeaseEpoch = 0, eActor = ''system'', eCreatedAt = spNow p,
      ePayload = zero_payload\<lparr>pKind := KindSpec, pFlow := ''spec'', pStage := ''author'',
        pRole := RoleSpecAuthor, pPriority := spPriority p,
        pRequiredCapabilities := [''role:spec_author'']\<rparr>\<rparr>"

definition SeedSpecJob :: "DB \<Rightarrow> SeedSpecParams \<Rightarrow> store_error + DB" where
  "SeedSpecJob d p =
     and_then (insert_row (spec_row p) d) (\<lambda>d1.
     and_then (appendEvent (spec_created p) d1) (\<lambda>d2. Inr (setJobSeq (spID p) 1 d2)))"

text \<open>The query has no order; the rows keep theirs.\<close>

definition candidatesInState :: "State \<Rightarrow> DB \<Rightarrow> Candidate list" where
  "candidatesInState st d =
     map (\<lambda>r. \<lparr>cJobID = row_id r, cPriority = jPriority (rwJob r), cEnqueuedAt = jEnqueuedAt (rwJob r),
            cRequiredCapabilities = jRequiredCapabilities (rwJob r), cCIReady = False\<rparr>)
       (filter (\<lambda>r. jState (rwJob r) = st) (tbJobs d))"

definition SpecAuthoringCandidates :: "DB \<Rightarrow> Candidate list" where
  "SpecAuthoringCandidates = candidatesInState StateSpecAuthoring"

definition SpecReviewCandidates :: "DB \<Rightarrow> Candidate list" where
  "SpecReviewCandidates = candidatesInState StateSpecReview"

section \<open>The claims\<close>

text \<open>The \<open>WHERE\<close> of both claims: nobody holds the stage, or the lease has run out.\<close>

definition claimable_at :: "int \<Rightarrow> Row \<Rightarrow> bool" where
  "claimable_at now r \<longleftrightarrow> coalesce (rwBoundIdentity r) = []
     \<or> (case rwLeaseDeadline r of None \<Rightarrow> True | Some dl \<Rightarrow> dl < now)"

definition hold_row :: "ClaimParams \<Rightarrow> Row \<Rightarrow> Row" where
  "hold_row p r =
     r\<lparr>rwJob := (rwJob r)\<lparr>jLeaseEpoch := jLeaseEpoch (rwJob r) + 1, jLeaseID := cpLeaseID p\<rparr>,
       rwBoundIdentity := Some (cpIdentity p), rwBoundModelFamily := Some (cpModelFamily p),
       rwLeaseDeadline := Some (cpNow p + cpTTL p), rwLeaseHbDue := Some (cpNow p + cpTTL p)\<rparr>"

definition spec_reviewer_row :: "ClaimParams \<Rightarrow> Row \<Rightarrow> Row" where
  "spec_reviewer_row p r =
     (let r1 = hold_row p r in
      r1\<lparr>rwJob := (rwJob r1)\<lparr>jRole := RoleSpecReviewer, jStage := ''review''\<rparr>, rwReviewerLens := cpLens p\<rparr>)"

text \<open>What the two claims share, for the state of the stage, the kind of the event and the row written.\<close>

definition claim_stage ::
  "State \<Rightarrow> EventKind \<Rightarrow> (Row \<Rightarrow> bool) \<Rightarrow> (Row \<Rightarrow> Row) \<Rightarrow> DB \<Rightarrow> ClaimParams \<Rightarrow> store_error + (DB \<times> int)" where
  "claim_stage st k excluded f d p = (case find_row d (cpJobID p) of
     None \<Rightarrow> Inl ErrLostRace
   | Some r \<Rightarrow>
       if jState (rwJob r) \<noteq> st then Inl ErrLostRace
       else if \<not> CapabilitiesSatisfy (cpAttested p) (jRequiredCapabilities (rwJob r)) then Inl ErrLostRace
       else case modelSlotGateTx d [] (cpIdentity p) (cpModelFamily p) of
         Some e \<Rightarrow> Inl e
       | None \<Rightarrow>
           if excluded r \<or> \<not> claimable_at (cpNow p) r then Inl ErrLostRace
           else let newEpoch = jLeaseEpoch (rwJob r) + 1; nextSeq = jJobSeq (rwJob r) + 1;
                    d1 = update_row (cpJobID p) f d in
             and_then (appendEvent (claim_ledger_event p k st st newEpoch nextSeq) d1) (\<lambda>d2.
             and_then (insert_lease (claim_lease_row p newEpoch) (setJobSeq (cpJobID p) nextSeq d2)) (\<lambda>d3.
             Inr (d3, newEpoch))))"

definition ClaimSpecAuthor :: "DB \<Rightarrow> ClaimParams \<Rightarrow> store_error + (DB \<times> int)" where
  "ClaimSpecAuthor d p =
     claim_stage StateSpecAuthoring KindLeaseClaimed (\<lambda>r. False) (hold_row p) d p"

definition ClaimSpecReview :: "DB \<Rightarrow> ClaimParams \<Rightarrow> store_error + (DB \<times> int)" where
  "ClaimSpecReview d p =
     claim_stage StateSpecReview KindReviewClaimed
       (\<lambda>r. rwAuthorLens r \<noteq> [] \<and> cpLens p = rwAuthorLens r) (spec_reviewer_row p) d p"

section \<open>Drafts, edits and decisions\<close>

text \<open>The columns every arming of the review gate writes.\<close>

definition gate_row :: "string \<Rightarrow> int \<Rightarrow> Row \<Rightarrow> Row" where
  "gate_row hash version r =
     r\<lparr>rwJob := (rwJob r)\<lparr>jState := StateSpecReview, jStage := ''review'', jRole := RoleSpecReviewer,
         jSpecContentHash := hash, jSpecVersion := version,
         jRequiredCapabilities := [''role:spec_reviewer''], jLeaseID := []\<rparr>,
       rwBoundIdentity := None, rwBoundModelFamily := None, rwLeaseHbDue := None\<rparr>"

record MaterializeSpecParams =
  mzJobID :: string
  mzContentHash :: string
  mzVersion :: int
  mzMarkdown :: string
  mzEpoch :: int
  mzNow :: int

definition authored_row :: "MaterializeSpecParams \<Rightarrow> Row \<Rightarrow> Row" where
  "authored_row p r = gate_row (mzContentHash p) (mzVersion p)
     (r\<lparr>rwJob := (rwJob r)\<lparr>jSpecText := mzMarkdown p\<rparr>\<rparr>)"

definition authored_event :: "MaterializeSpecParams \<Rightarrow> Job \<Rightarrow> int \<Rightarrow> Event" where
  "authored_event p j seq =
     fenced_event (mzJobID p) seq KindSpecAuthored StateSpecAuthoring StateSpecReview (jLeaseEpoch j)
       (jBoundIdentity j) (mzNow p)
       (zero_payload\<lparr>pSpecContentHash := mzContentHash p, pSpecVersion := mzVersion p,
          pSpecText := mzMarkdown p\<rparr>)"

text \<open>\<open>ErrDispatch\<close> carries the text of the errors that are only text.\<close>

definition MaterializeSpec :: "DB \<Rightarrow> MaterializeSpecParams \<Rightarrow> store_error + DB" where
  "MaterializeSpec d p =
     and_then (loadJobTx d (mzJobID p)) (\<lambda>(r, j, seq).
     if jState j \<noteq> StateSpecAuthoring
     then Inl (ErrDispatch (''materialize: job '' @ mzJobID p @ '' not in spec_authoring ('' @ state_str (jState j) @ '')''))
     else if mzEpoch p \<noteq> jLeaseEpoch j then Inl ErrStaleEpoch
     else one_step (mzJobID p) (seq + 1) (authored_event p j (seq + 1)) (authored_row p) id d)"

definition edited_event :: "string \<Rightarrow> Job \<Rightarrow> string \<Rightarrow> int \<Rightarrow> int \<Rightarrow> int \<Rightarrow> Event" where
  "edited_event i j hash version now seq =
     fenced_event i seq KindSpecSuperseded (jState j) StateSpecReview (jLeaseEpoch j) ''system'' now
       (zero_payload\<lparr>pSpecContentHash := hash, pSpecVersion := version\<rparr>)"

definition edited_row :: "string \<Rightarrow> int \<Rightarrow> Row \<Rightarrow> Row" where
  "edited_row hash version r = gate_row hash version (r\<lparr>rwJob := (rwJob r)\<lparr>jSpecSignoff := None\<rparr>\<rparr>)"

definition EditSpec :: "DB \<Rightarrow> string \<Rightarrow> string \<Rightarrow> int \<Rightarrow> int \<Rightarrow> store_error + DB" where
  "EditSpec d i newHash newVersion now =
     and_then (loadJobTx d i) (\<lambda>(r, j, seq).
     if jSpecContentHash j = newHash then Inr d
     else one_step i (seq + 1) (edited_event i j newHash newVersion now (seq + 1))
       (edited_row newHash newVersion) id d)"

definition decided_event :: "string \<Rightarrow> Job \<Rightarrow> string \<Rightarrow> int \<Rightarrow> int \<Rightarrow> int \<Rightarrow> Event" where
  "decided_event i j hash version now seq =
     fenced_event i seq KindDesignResolved StateNeedsDesign StateSpecReview (jLeaseEpoch j) ''human'' now
       (zero_payload\<lparr>pSpecContentHash := hash, pSpecVersion := version\<rparr>)"

definition decided_row :: "string \<Rightarrow> int \<Rightarrow> Row \<Rightarrow> Row" where
  "decided_row hash version r = gate_row hash version (r\<lparr>rwJob := (rwJob r)\<lparr>jEscalationReason := []\<rparr>\<rparr>)"

definition ResolveDesign :: "DB \<Rightarrow> string \<Rightarrow> string \<Rightarrow> int \<Rightarrow> int \<Rightarrow> store_error + DB" where
  "ResolveDesign d i newHash newVersion now =
     and_then (loadJobTx d i) (\<lambda>(r, j, seq).
     if jState j \<noteq> StateNeedsDesign
     then Inl (ErrDispatch (''resolve design: job '' @ i @ '' not in needs_design ('' @ state_str (jState j) @ '')''))
     else let hash = (if newHash = [] then jSpecContentHash j else newHash);
              version = (if newHash = [] then jSpecVersion j else newVersion) in
       one_step i (seq + 1) (decided_event i j hash version now (seq + 1)) (decided_row hash version) id d)"

record NeedsInputItem =
  niJobID :: string
  niState :: State
  niReason :: string
  niSpecContentHash :: string
  niChatRef :: string
  niEpicID :: string

definition needs_input_item :: "Row \<Rightarrow> NeedsInputItem" where
  "needs_input_item r =
     (let j = rwJob r in
      \<lparr>niJobID = row_id r, niState = jState j, niReason = jEscalationReason j,
       niSpecContentHash = jSpecContentHash j, niChatRef = jChatRef j, niEpicID = jEpicID j\<rparr>)"

definition NeedsInput :: "DB \<Rightarrow> NeedsInputItem list" where
  "NeedsInput d = map needs_input_item
     (sort_key row_id (filter (\<lambda>r. jState (rwJob r) = StateNeedsDesign) (tbJobs d)))"

section \<open>The spec review result\<close>

record SpecReviewResultParams =
  srJobID :: string
  srEpoch :: int
  srClaim :: VerdictValue
  srBindsTo :: string
  srMeetsStyle :: bool
  srMeetsRequirements :: bool
  srAmendedHash :: string
  srAmendedVersion :: int
  srAmendedMarkdown :: string
  srIdempotencyKey :: string
  srNotes :: string
  srNow :: int

definition prior_spec_rejections :: "DB \<Rightarrow> string \<Rightarrow> string \<Rightarrow> int" where
  "prior_spec_rejections d i identity =
     (if identity = [] then 0
      else int (length (filter (\<lambda>e. eJobID e = i \<and> eKind e = KindSpecClaim
             \<and> eActor e = identity \<and> pVerdictClaim (ePayload e) = VerdictChangesRequested)
           (tbEvents d))))"

definition spec_state :: "Row \<Rightarrow> Job \<Rightarrow> int \<Rightarrow> EngineState" where
  "spec_state r j now =
     \<lparr>esJob = j, esNow = now, esEpoch = jLeaseEpoch j, esGitHub = zero_facts,
      esPolicy = \<lparr>AllowSelfMerge = False, RequiredReviewers = 0\<rparr>,
      esSpec = \<lparr>ssCurrentHash = jSpecContentHash j, ssVersion = jSpecVersion j,
        ssAuthorLens = rwAuthorLens r, ssReviewerLens = rwReviewerLens r\<rparr>,
      esContent = None\<rparr>"

definition spec_claim :: "SpecReviewResultParams \<Rightarrow> int \<Rightarrow> SpecReviewClaimT" where
  "spec_claim p prior =
     \<lparr>scEpoch = srEpoch p, scClaim = srClaim p, scClaimBindsTo = srBindsTo p,
      scMeetsStyle = srMeetsStyle p, scMeetsRequirements = srMeetsRequirements p,
      scAmendedHash = srAmendedHash p, scAmendedVersion = srAmendedVersion p,
      scReviewerPriorRejections = prior\<rparr>"

definition spec_decision :: "Row \<Rightarrow> SpecReviewResultParams \<Rightarrow> int \<Rightarrow> Decision" where
  "spec_decision r p prior =
     Decide (spec_state r (scanJob r) (srNow p)) (SpecReviewClaim (spec_claim p prior))"

definition spec_claim_event :: "SpecReviewResultParams \<Rightarrow> Job \<Rightarrow> int \<Rightarrow> Event" where
  "spec_claim_event p j seq =
     fenced_event (srJobID p) seq KindSpecClaim (jState j) (jState j) (jLeaseEpoch j)
       (jBoundIdentity j) (srNow p)
       (zero_payload\<lparr>pVerdictClaim := srClaim p, pSpecContentHash := srBindsTo p\<rparr>)"

definition spec_rejection_reason :: "SpecReviewResultParams \<Rightarrow> int \<Rightarrow> string" where
  "spec_rejection_reason p prior =
     (if srClaim p = VerdictChangesRequested \<and> prior + 1 \<ge> MaxReviewerRejections
      then escalation_str EscalationReviewerRejections else [])"

definition spec_payload :: "SpecReviewResultParams \<Rightarrow> int \<Rightarrow> Transition \<Rightarrow> Payload" where
  "spec_payload p prior t =
     (let y = zero_payload\<lparr>pBouncesDelta := tBouncesDelta t, pSpecSignoff := tSpecSignoff t\<rparr>;
          y1 = (if tKind t = KindSpecAmended
                then y\<lparr>pSpecContentHash := srAmendedHash p, pSpecVersion := srAmendedVersion p,
                       pSpecText := srAmendedMarkdown p\<rparr> else y);
          y2 = (if tTo t = StateNeedsHuman
                then y1\<lparr>pEscalationReason := spec_rejection_reason p prior\<rparr> else y1)
      in if srClaim p = VerdictChangesRequested then y2\<lparr>pReviewNotes := srNotes p\<rparr> else y2)"

definition spec_event :: "SpecReviewResultParams \<Rightarrow> Job \<Rightarrow> int \<Rightarrow> Transition \<Rightarrow> int \<Rightarrow> Event" where
  "spec_event p j prior t n =
     fenced_event (srJobID p) n (tKind t) (tFrom t) (tTo t) (jLeaseEpoch j) ''system'' (srNow p)
       (spec_payload p prior t)"

definition minted_signoff :: "Transition list \<Rightarrow> SpecSignoff option" where
  "minted_signoff ts = foldl (\<lambda>m t. if tSpecSignoff t \<noteq> None then tSpecSignoff t else m) None ts"

definition has_kind :: "EventKind \<Rightarrow> Transition list \<Rightarrow> bool" where
  "has_kind k ts = list_ex (\<lambda>t. tKind t = k) ts"

text \<open>Every branch writes its columns and lets go of the reviewer's lease.\<close>

definition let_go :: "Row \<Rightarrow> Row" where
  "let_go r = r\<lparr>rwJob := (rwJob r)\<lparr>jLeaseID := []\<rparr>,
     rwBoundIdentity := None, rwBoundModelFamily := None, rwLeaseHbDue := None\<rparr>"

definition signed_row :: "SpecReviewResultParams \<Rightarrow> int \<Rightarrow> SpecSignoff \<Rightarrow> Row \<Rightarrow> Row" where
  "signed_row p bounces so r = let_go
     (r\<lparr>rwJob := (rwJob r)\<lparr>jState := StateDone, jSpecSignoff := Some so,
         jSpecContentHash := sSpecHash so, jSpecVersion := sSpecVersion so,
         jSpecText := (if srAmendedMarkdown p \<noteq> [] then srAmendedMarkdown p else jSpecText (rwJob r)),
         jBounces := jBounces (rwJob r) + bounces\<rparr>\<rparr>)"

definition forked_row :: "Row \<Rightarrow> Row" where
  "forked_row r = let_go
     (r\<lparr>rwJob := (rwJob r)\<lparr>jState := StateNeedsDesign,
         jEscalationReason := escalation_str EscalationDesign\<rparr>\<rparr>)"

definition respec_row :: "SpecReviewResultParams \<Rightarrow> int \<Rightarrow> Row \<Rightarrow> Row" where
  "respec_row p bounces r = let_go
     (r\<lparr>rwJob := (rwJob r)\<lparr>jState := StateSpecAuthoring, jStage := ''author'', jRole := RoleSpecAuthor,
         jRequiredCapabilities := [''role:spec_author''], jBounces := jBounces (rwJob r) + bounces,
         jLastReviewNotes := (if srNotes p \<noteq> [] then srNotes p else jLastReviewNotes (rwJob r))\<rparr>\<rparr>)"

definition exhausted_row :: "SpecReviewResultParams \<Rightarrow> int \<Rightarrow> State \<Rightarrow> int \<Rightarrow> Row \<Rightarrow> Row" where
  "exhausted_row p prior final bounces r =
     (let reason = (if final = StateNeedsHuman then spec_rejection_reason p prior else []) in
      let_go (r\<lparr>rwJob := (rwJob r)\<lparr>jState := final, jBounces := jBounces (rwJob r) + bounces,
        jEscalationReason := (if reason \<noteq> [] then reason else jEscalationReason (rwJob r))\<rparr>\<rparr>))"

definition spec_row_after :: "SpecReviewResultParams \<Rightarrow> int \<Rightarrow> State \<Rightarrow> Transition list \<Rightarrow> Row \<Rightarrow> Row" where
  "spec_row_after p prior final ts r =
     (let bounces = sum_list (map tBouncesDelta ts) in
      case minted_signoff ts of
        Some so \<Rightarrow> signed_row p bounces so r
      | None \<Rightarrow>
          if has_kind KindSpecNeedsDesign ts then forked_row r
          else if final = StateSpecAuthoring then respec_row p bounces r
          else exhausted_row p prior final bounces r)"

definition spec_response :: "State \<Rightarrow> Transition list \<Rightarrow> Response" where
  "spec_response final ts =
     (let minted = minted_signoff ts \<noteq> None; forked = \<not> minted \<and> has_kind KindSpecNeedsDesign ts in
      (answer (state_str final) [] minted)\<lparr>
        rpSuperseded := \<not> minted \<and> \<not> forked \<and> final = StateSpecAuthoring \<and> has_kind KindSpecSuperseded ts,
        rpAmended := minted \<and> has_kind KindSpecAmended ts, rpNeedsDesign := forked\<rparr>)"

text \<open>
  What a minted sign-off sets off: an epic is marked reviewed, with one more event,
  and any other spec has its issue created.
\<close>

definition epic_reviewed_event :: "SpecReviewResultParams \<Rightarrow> Job \<Rightarrow> int \<Rightarrow> Event" where
  "epic_reviewed_event p j seq =
     fenced_event (srJobID p) seq KindEpicReviewed StateSpecReview StateDone (jLeaseEpoch j) ''system''
       (srNow p) zero_payload"

definition release_minted ::
  "SpecReviewResultParams \<Rightarrow> Job \<Rightarrow> SpecSignoff option \<Rightarrow> int \<Rightarrow> DB \<Rightarrow> store_error + (DB \<times> int)" where
  "release_minted p j minted seq d = (case minted of
     None \<Rightarrow> Inr (d, seq)
   | Some so \<Rightarrow>
       if jIsEpic j
       then and_then (appendEvent (epic_reviewed_event p j (seq + 1)) d) (\<lambda>d1.
         Inr (update_row (srJobID p) (\<lambda>r. r\<lparr>rwJob := (rwJob r)\<lparr>jEpicReviewed := True\<rparr>\<rparr>) d1, seq + 1))
       else Inr (enqueueOutboxTx (outbox_row (srJobID p) ActionCreateIssue []
              [(''spec_hash'', JStr (sSpecHash so)), (''version'', JInt (sSpecVersion so))]) d, seq))"

definition SpecReviewResult :: "DB \<Rightarrow> SpecReviewResultParams \<Rightarrow> store_error + (DB \<times> Response)" where
  "SpecReviewResult d p = (case cached_response d (srJobID p) (srIdempotencyKey p) of
     Some c \<Rightarrow> Inr (d, as_spec c)
   | None \<Rightarrow>
     and_then (loadJobTx d (srJobID p)) (\<lambda>(r, j, seq).
     let prior = prior_spec_rejections d (srJobID p) (jBoundIdentity j);
         dec = spec_decision r p prior; ts = dTransitions dec in
     if dReject dec \<noteq> None then Inl ErrStaleEpoch
     else and_then (appendEvent (spec_claim_event p j (seq + 1)) d) (\<lambda>d1.
       and_then (append_transitions (spec_event p j prior) ts (seq + 1) d1) (\<lambda>(d2, n).
       let final = final_state (jState j) ts; resp = spec_response final ts in
       and_then (release_minted p j (minted_signoff ts) n
           (update_row (srJobID p) (spec_row_after p prior final ts) d2)) (\<lambda>(d3, nextSeq).
       Inr (store_response (srJobID p) (srIdempotencyKey p) resp
              (close_lease (srJobID p) (jLeaseEpoch j) ''completed'' (setJobSeq (srJobID p) nextSeq d3)),
            resp))))))"

end
