(* ===== verification/Spec_Effects.thy ===== *)
theory Spec_Effects
  imports Store_Spec Store_Git_Effects Store_Frame
begin

text \<open>
  What the transactions of the spec flow do: each changes the view of its own job
  only, by one row update and a list of appended events, and only a minted
  sign-off reaches the outbox.
\<close>

section \<open>Rows and events\<close>

lemma spec_row_ids [simp]:
  "row_id (hold_row p r) = row_id r" "row_id (spec_reviewer_row p r) = row_id r"
  "row_id (gate_row h n r) = row_id r" "row_id (authored_row mp r) = row_id r"
  "row_id (edited_row h n r) = row_id r" "row_id (decided_row h n r) = row_id r"
  "row_id (let_go r) = row_id r" "row_id (signed_row sp b so r) = row_id r"
  "row_id (forked_row r) = row_id r" "row_id (respec_row sp b r) = row_id r"
  "row_id (exhausted_row sp k s b r) = row_id r" "row_id (issue_row n r) = row_id r"
  by (simp_all add: row_id_def hold_row_def spec_reviewer_row_def gate_row_def authored_row_def
      edited_row_def decided_row_def let_go_def signed_row_def forked_row_def respec_row_def
      exhausted_row_def issue_row_def Let_def)

lemma row_id_after [simp]: "row_id (spec_row_after p k s ts r) = row_id r"
  by (simp add: spec_row_after_def Let_def split: option.split)

lemma spec_event_ids [simp]:
  "eJobID (authored_event mp j s) = mzJobID mp" "eJobID (edited_event i j h n w s) = i"
  "eJobID (decided_event i j h n w s) = i" "eJobID (issue_event i j n w s) = i"
  "eJobID (spec_claim_event p j s) = srJobID p" "eJobID (spec_event p j k t s) = srJobID p"
  "eJobID (epic_reviewed_event p j s) = srJobID p" "eJobID (claim_ledger_event cp ek f to e s) = cpJobID cp"
  by (simp_all add: authored_event_def edited_event_def decided_event_def issue_event_def
      spec_claim_event_def spec_event_def epic_reviewed_event_def claim_ledger_event_def)

section \<open>The claims\<close>

lemma claim_stage_does:
  assumes "claim_stage st k ex f d p = Inr (d', n)" and "\<And>x. row_id (f x) = row_id x"
  obtains r where "jState (rwJob r) = st" and "\<not> ex r" and "claimable_at (cpNow p) r"
    and "CapabilitiesSatisfy (cpAttested p) (jRequiredCapabilities (rwJob r))"
    and "n = jLeaseEpoch (rwJob r) + 1"
    and "does (cpJobID p) r (set_seq (jJobSeq (rwJob r) + 1) (f r))
      [claim_ledger_event p k st st n (jJobSeq (rwJob r) + 1)] d d'"
    and "core d' = core d"
proof -
  from assms(1) obtain r d2 where r: "find_row d (cpJobID p) = Some r"
    and g: "jState (rwJob r) = st" "\<not> ex r" "claimable_at (cpNow p) r"
      "CapabilitiesSatisfy (cpAttested p) (jRequiredCapabilities (rwJob r))"
      "n = jLeaseEpoch (rwJob r) + 1"
    and ap: "appendEvent (claim_ledger_event p k st st n (jJobSeq (rwJob r) + 1))
        (update_row (cpJobID p) f d) = Inr d2"
    and ins: "insert_lease (claim_lease_row p n) (setJobSeq (cpJobID p) (jJobSeq (rwJob r) + 1) d2) = Inr d'"
    by (auto simp: claim_stage_def Let_def and_then_Inr_iff split: option.splits if_splits)
  note s1 = does_update [OF r, of f, OF assms(2)]
  note s2 = does_trans [OF s1 does_append [OF does_find [OF s1] ap], simplified]
  have "does (cpJobID p) r (set_seq (jJobSeq (rwJob r) + 1) (f r))
      [claim_ledger_event p k st st n (jJobSeq (rwJob r) + 1)] d d'"
    using does_trans [OF s2 does_seq [OF does_find [OF s2]]] view_insert_lease [OF ins]
    by (simp add: does_def)
  moreover have "core d' = core d"
    using core_insert_lease [OF ins] core_appendEvent [OF ap] core_update_row [of f, OF assms(2)] by simp
  ultimately show ?thesis using g that by blast
qed

lemma one_step_core:
  assumes "one_step i n e f id d = Inr d'" and "\<And>x. row_id (f x) = row_id x"
  shows "core d' = core d"
  using assms core_update_row [of f] by (auto simp: one_step_def and_then_Inr_iff dest!: core_appendEvent)

section \<open>The decision on a spec claim\<close>

text \<open>The one transition of an accepted spec review, by what the gate found.\<close>

definition signoff_of :: "Row \<Rightarrow> SpecReviewResultParams \<Rightarrow> SpecSignoff" where
  "signoff_of r p =
     (if srClaim p = VerdictAmended
      then MintSpecSignoff (srAmendedHash p) (srAmendedVersion p) (rwReviewerLens r)
      else MintSpecSignoff (jSpecContentHash (rwJob r)) (jSpecVersion (rwJob r)) (rwReviewerLens r))"

definition lens_apart :: "Row \<Rightarrow> bool" where
  "lens_apart r \<longleftrightarrow> rwAuthorLens r = [] \<or> rwReviewerLens r \<noteq> rwAuthorLens r"

definition signs :: "Row \<Rightarrow> SpecReviewResultParams \<Rightarrow> bool" where
  "signs r p \<longleftrightarrow> srBindsTo p = jSpecContentHash (rwJob r) \<and> lens_apart r
     \<and> (srClaim p = VerdictSignedOff \<and> srMeetsStyle p \<and> srMeetsRequirements p
        \<or> srClaim p = VerdictAmended \<and> srAmendedHash p \<noteq> []
          \<and> srAmendedHash p \<noteq> jSpecContentHash (rwJob r))"

definition spec_verdict :: "Row \<Rightarrow> SpecReviewResultParams \<Rightarrow> Transition \<Rightarrow> bool" where
  "spec_verdict r p t \<longleftrightarrow>
     signs r p \<and> t = (move StateSpecReview StateDone
         (if srClaim p = VerdictAmended then KindSpecAmended else KindSpecSignoffMinted))
         \<lparr>tSpecSignoff := Some (signoff_of r p)\<rparr>
   \<or> \<not> signs r p
     \<and> (if srBindsTo p \<noteq> jSpecContentHash (rwJob r)
        then t = move StateSpecReview StateSpecAuthoring KindSpecSuperseded
        else if lens_apart r \<and> srClaim p = VerdictNeedsDesign
        then t = move StateSpecReview StateNeedsDesign KindSpecNeedsDesign
        else t = (move StateSpecReview StateSpecAuthoring KindSpecBounced)\<lparr>tBouncesDelta := 1\<rparr>
            \<and> \<not> jIsEpic (rwJob r)
          \<or> t = (move StateSpecReview StateNeedsHuman KindBounceExhausted)\<lparr>tBouncesDelta := 1\<rparr>)"

lemma spec_verdict_cases:
  assumes "spec_verdict r p t"
  obtains (amended) "signs r p" "srClaim p = VerdictAmended" "srAmendedHash p \<noteq> []"
      "t = (move StateSpecReview StateDone KindSpecAmended)\<lparr>tSpecSignoff := Some (signoff_of r p)\<rparr>"
  | (signed) "signs r p" "srClaim p \<noteq> VerdictAmended"
      "t = (move StateSpecReview StateDone KindSpecSignoffMinted)\<lparr>tSpecSignoff := Some (signoff_of r p)\<rparr>"
  | (superseded) "\<not> signs r p" "srBindsTo p \<noteq> jSpecContentHash (rwJob r)"
      "t = move StateSpecReview StateSpecAuthoring KindSpecSuperseded"
  | (forked) "\<not> signs r p" "srBindsTo p = jSpecContentHash (rwJob r)" "lens_apart r" "srClaim p = VerdictNeedsDesign"
      "t = move StateSpecReview StateNeedsDesign KindSpecNeedsDesign"
  | (bounced) "\<not> signs r p" "srBindsTo p = jSpecContentHash (rwJob r)"
      "\<not> (lens_apart r \<and> srClaim p = VerdictNeedsDesign)" "\<not> jIsEpic (rwJob r)"
      "t = (move StateSpecReview StateSpecAuthoring KindSpecBounced)\<lparr>tBouncesDelta := 1\<rparr>"
  | (exhausted) "\<not> signs r p" "srBindsTo p = jSpecContentHash (rwJob r)"
      "\<not> (lens_apart r \<and> srClaim p = VerdictNeedsDesign)"
      "t = (move StateSpecReview StateNeedsHuman KindBounceExhausted)\<lparr>tBouncesDelta := 1\<rparr>"
proof (cases "signs r p")
  case True
  then have "t = (move StateSpecReview StateDone
      (if srClaim p = VerdictAmended then KindSpecAmended else KindSpecSignoffMinted))
      \<lparr>tSpecSignoff := Some (signoff_of r p)\<rparr>"
    using assms by (simp add: spec_verdict_def)
  moreover have "srClaim p = VerdictAmended \<Longrightarrow> srAmendedHash p \<noteq> []" using True by (simp add: signs_def)
  ultimately show ?thesis
    using amended [OF True] signed [OF True] by (cases "srClaim p = VerdictAmended") simp_all
next
  case False
  then show ?thesis
    using assms superseded forked bounced exhausted
    by (simp add: spec_verdict_def split: if_splits) blast+
qed

lemma scan_more [simp]:
  "jSpecContentHash (scanJob r) = jSpecContentHash (rwJob r)"
  "jSpecVersion (scanJob r) = jSpecVersion (rwJob r)" "jIsEpic (scanJob r) = jIsEpic (rwJob r)"
  by (simp_all add: scanJob_def)

lemma spec_decision_cases:
  assumes "dReject (spec_decision r p prior) = None"
  obtains t where "srEpoch p = jLeaseEpoch (rwJob r)" and "jState (rwJob r) = StateSpecReview"
    and "dTransitions (spec_decision r p prior) = [t]" and "spec_verdict r p t"
proof -
  from assms have g: "srEpoch p = jLeaseEpoch (rwJob r)" "jState (rwJob r) = StateSpecReview"
    by (auto simp: spec_decision_def decide_spec_review_claim_def spec_claim_def spec_state_def
        staleEpoch_def reject_def split: if_splits)
  have "\<exists>t. dTransitions (spec_decision r p prior) = [t] \<and> spec_verdict r p t"
    by (simp add: spec_decision_def decide_spec_review_claim_def spec_claim_def spec_state_def g
        staleEpoch_def spec_gate_inputs_def EvaluateSpecGate_def moves_def spec_verdict_def signs_def
        lens_apart_def signoff_of_def spec_outcome_def)
  with g that show ?thesis by blast
qed

section \<open>The spec review result\<close>

definition spec_events :: "SpecReviewResultParams \<Rightarrow> Row \<Rightarrow> int \<Rightarrow> Transition \<Rightarrow> Event list" where
  "spec_events p r prior t =
     (let j = scanJob r; seq = jJobSeq (rwJob r) in
      [spec_claim_event p j (seq + 1), spec_event p j prior t (seq + 2)]
      @ (if tSpecSignoff t \<noteq> None \<and> jIsEpic (rwJob r) then [epic_reviewed_event p j (seq + 3)] else []))"

definition spec_reviewed_row :: "SpecReviewResultParams \<Rightarrow> int \<Rightarrow> Transition \<Rightarrow> Row \<Rightarrow> Row" where
  "spec_reviewed_row p prior t r =
     (let x = spec_row_after p prior (tTo t) [t] r in
      if tSpecSignoff t \<noteq> None \<and> jIsEpic (rwJob r)
      then x\<lparr>rwJob := (rwJob x)\<lparr>jEpicReviewed := True\<rparr>\<rparr> else x)"

definition spec_issue :: "SpecReviewResultParams \<Rightarrow> SpecSignoff \<Rightarrow> OutboxRow" where
  "spec_issue p so = outbox_row (srJobID p) ActionCreateIssue []
     [(''spec_hash'', JStr (sSpecHash so)), (''version'', JInt (sSpecVersion so))]"

definition issues_created :: "SpecReviewResultParams \<Rightarrow> Row \<Rightarrow> Transition \<Rightarrow> DB \<Rightarrow> DB" where
  "issues_created p r t d = (case tSpecSignoff t of
     Some so \<Rightarrow> if jIsEpic (rwJob r) then d else enqueueOutboxTx (spec_issue p so) d
   | None \<Rightarrow> d)"

lemma spec_minted_single [simp]:
  "minted_signoff [t] = tSpecSignoff t" "has_kind k [t] \<longleftrightarrow> tKind t = k" "final_state s [t] = tTo t"
  by (simp_all add: minted_signoff_def has_kind_def final_state_def)

lemma core_more [simp]:
  "core (update_row i (spec_row_after p k s ts) d) = core d"
  "core (update_row i (\<lambda>r. r\<lparr>rwJob := (rwJob r)\<lparr>jEpicReviewed := True\<rparr>\<rparr>) d) = core d"
  by (rule core_update_row, simp) (rule core_update_row, simp add: row_id_def)

lemma core_enqueue: "core d = core d' \<Longrightarrow> core (enqueueOutboxTx x d) = core (enqueueOutboxTx x d')"
  by (simp add: core_def enqueueOutboxTx_def job_ids_def)

lemma release_minted_does:
  assumes "release_minted p j (tSpecSignoff t) n d = Inr (d', m)" and "find_row d (srJobID p) = Some r"
  shows "m = n + (if tSpecSignoff t \<noteq> None \<and> jIsEpic j then 1 else 0)"
    and "does (srJobID p) r
      (if tSpecSignoff t \<noteq> None \<and> jIsEpic j then r\<lparr>rwJob := (rwJob r)\<lparr>jEpicReviewed := True\<rparr>\<rparr> else r)
      (if tSpecSignoff t \<noteq> None \<and> jIsEpic j then [epic_reviewed_event p j (n + 1)] else []) d d'"
    and "core d' = core (case tSpecSignoff t of
      Some so \<Rightarrow> if jIsEpic j then d else enqueueOutboxTx (spec_issue p so) d | None \<Rightarrow> d)"
proof -
  let ?f = "\<lambda>r. r\<lparr>rwJob := (rwJob r)\<lparr>jEpicReviewed := True\<rparr>\<rparr>"
  consider "tSpecSignoff t = None" "d' = d" "m = n"
    | so where "tSpecSignoff t = Some so" "\<not> jIsEpic j" "d' = enqueueOutboxTx (spec_issue p so) d" "m = n"
    | so d1 where "tSpecSignoff t = Some so" "jIsEpic j" "m = n + 1"
        "appendEvent (epic_reviewed_event p j (n + 1)) d = Inr d1" "d' = update_row (srJobID p) ?f d1"
    using assms(1)
    by (auto simp: release_minted_def spec_issue_def and_then_Inr_iff split: option.splits if_splits)
  then have "m = n + (if tSpecSignoff t \<noteq> None \<and> jIsEpic j then 1 else 0)
    \<and> does (srJobID p) r (if tSpecSignoff t \<noteq> None \<and> jIsEpic j then ?f r else r)
      (if tSpecSignoff t \<noteq> None \<and> jIsEpic j then [epic_reviewed_event p j (n + 1)] else []) d d'
    \<and> core d' = core (case tSpecSignoff t of
      Some so \<Rightarrow> if jIsEpic j then d else enqueueOutboxTx (spec_issue p so) d | None \<Rightarrow> d)"
  proof cases
    case 1
    with assms(2) show ?thesis by (simp add: does_frame)
  next
    case 2
    with assms(2) show ?thesis by (simp add: does_frame)
  next
    case 3
    note s1 = does_append [OF assms(2) 3(4), simplified]
    have "does (srJobID p) r (?f r) [epic_reviewed_event p j (n + 1)] d d'"
      using does_trans [OF s1 does_update [OF does_find [OF s1], of ?f]] 3(5) by (simp add: row_id_def)
    with 3 core_appendEvent [OF 3(4)] show ?thesis by simp
  qed
  then show "m = n + (if tSpecSignoff t \<noteq> None \<and> jIsEpic j then 1 else 0)"
    and "does (srJobID p) r (if tSpecSignoff t \<noteq> None \<and> jIsEpic j then ?f r else r)
      (if tSpecSignoff t \<noteq> None \<and> jIsEpic j then [epic_reviewed_event p j (n + 1)] else []) d d'"
    and "core d' = core (case tSpecSignoff t of
      Some so \<Rightarrow> if jIsEpic j then d else enqueueOutboxTx (spec_issue p so) d | None \<Rightarrow> d)" by blast+
qed

definition spec_answer :: "Transition \<Rightarrow> Response" where
  "spec_answer t = spec_response (tTo t) [t]"

lemma and_then_assoc: "and_then (and_then m f) g = and_then m (\<lambda>x. and_then (f x) g)"
  by (cases m) simp_all

text \<open>The transaction once the decision is made.\<close>

lemma SpecReviewResult_eq:
  assumes "cached_response d (srJobID p) (srIdempotencyKey p) = None" and "find_row d (srJobID p) = Some r"
    and "prior = prior_spec_rejections d (srJobID p) (coalesce (rwBoundIdentity r))"
    and "dReject (spec_decision r p prior) = None" and "dTransitions (spec_decision r p prior) = [t]"
  shows "SpecReviewResult d p =
    and_then (appendEvent (spec_claim_event p (scanJob r) (jJobSeq (rwJob r) + 1)) d) (\<lambda>d1.
    and_then (appendEvent (spec_event p (scanJob r) prior t (jJobSeq (rwJob r) + 2)) d1) (\<lambda>d2.
    and_then (release_minted p (scanJob r) (tSpecSignoff t) (jJobSeq (rwJob r) + 2)
      (update_row (srJobID p) (spec_row_after p prior (tTo t) [t]) d2)) (\<lambda>(d3, n).
    Inr (store_response (srJobID p) (srIdempotencyKey p) (spec_answer t)
      (close_lease (srJobID p) (jLeaseEpoch (rwJob r)) ''completed'' (setJobSeq (srJobID p) n d3)),
      spec_answer t))))"
proof -
  have next2: "jJobSeq (rwJob r) + 1 + 1 = jJobSeq (rwJob r) + 2" by simp
  show ?thesis
    using assms(4)
    by (simp add: SpecReviewResult_def assms(1,2,5) loadJobTx_def assms(3) [symmetric] next2 Let_def
        spec_answer_def and_then_assoc add.commute [of 2])
qed

lemma SpecReviewResult_does:
  assumes "SpecReviewResult d p = Inr (d', resp)"
    and "cached_response d (srJobID p) (srIdempotencyKey p) = None"
  obtains r t prior where "srEpoch p = jLeaseEpoch (rwJob r)" and "jState (rwJob r) = StateSpecReview"
    and "spec_verdict r p t" and "resp = spec_answer t"
    and "prior = prior_spec_rejections d (srJobID p) (coalesce (rwBoundIdentity r))"
    and "does (srJobID p) r
      (set_seq (jJobSeq (rwJob r) + int (length (spec_events p r prior t))) (spec_reviewed_row p prior t r))
      (spec_events p r prior t) d d'"
    and "tbOutbox d' = tbOutbox (issues_created p r t d)"
proof -
  from assms obtain r where r: "find_row d (srJobID p) = Some r"
    and ok: "dReject (spec_decision r p (prior_spec_rejections d (srJobID p) (coalesce (rwBoundIdentity r)))) = None"
    by (auto simp: SpecReviewResult_def and_then_Inr_iff loadJobTx_Inr Let_def split: if_splits)
  define prior where "prior = prior_spec_rejections d (srJobID p) (coalesce (rwBoundIdentity r))"
  from ok obtain t where g: "srEpoch p = jLeaseEpoch (rwJob r)" "jState (rwJob r) = StateSpecReview"
    and ts: "dTransitions (spec_decision r p prior) = [t]" and v: "spec_verdict r p t"
    unfolding prior_def by (rule spec_decision_cases)
  let ?seq = "jJobSeq (rwJob r)" and ?j = "scanJob r"
  let ?c = "spec_claim_event p ?j (?seq + 1)" and ?e = "spec_event p ?j prior t (?seq + 2)"
  let ?x = "spec_row_after p prior (tTo t) [t] r"
  note eq = SpecReviewResult_eq [OF assms(2) r prior_def ok [folded prior_def] ts]
  with assms(1) obtain d1 d2 d3 n where c: "appendEvent ?c d = Inr d1" and e: "appendEvent ?e d1 = Inr d2"
    and rel: "release_minted p ?j (tSpecSignoff t) (?seq + 2)
      (update_row (srJobID p) (spec_row_after p prior (tTo t) [t]) d2) = Inr (d3, n)"
    and d': "d' = store_response (srJobID p) (srIdempotencyKey p) (spec_answer t)
      (close_lease (srJobID p) (jLeaseEpoch (rwJob r)) ''completed'' (setJobSeq (srJobID p) n d3))"
    and resp: "resp = spec_answer t"
    by (auto simp: eq and_then_Inr_iff)
  note s1 = does_append [OF r c, simplified]
  note s2 = does_trans [OF s1 does_append [OF does_find [OF s1] e], simplified]
  note s3 = does_trans [OF s2 does_update [OF does_find [OF s2], of "spec_row_after p prior (tTo t) [t]", simplified], simplified]
  note w = release_minted_does [OF rel does_find [OF s3], simplified]
  note s4 = does_trans [OF s3 w(2)]
  have "does (srJobID p) r
      (set_seq (?seq + int (length (spec_events p r prior t))) (spec_reviewed_row p prior t r))
      (spec_events p r prior t) d d'"
    using does_trans [OF s4 does_seq [OF does_find [OF s4], of n]] w(1)
    by (auto simp: does_def d' spec_events_def spec_reviewed_row_def Let_def add.assoc add.commute)
  moreover have "tbOutbox d' = tbOutbox (issues_created p r t d)"
  proof -
    have "core (update_row (srJobID p) (spec_row_after p prior (tTo t) [t]) d2) = core d"
      using core_appendEvent [OF c] core_appendEvent [OF e] by simp
    note same = this core_enqueue [OF this]
    have "core d3 = core (issues_created p r t d)"
    proof (cases "tSpecSignoff t")
      case None
      with w(3) same(1) show ?thesis by (simp only: issues_created_def option.case)
    next
      case (Some so)
      with w(3) same show ?thesis by (cases "jIsEpic (rwJob r)") (simp_all only: issues_created_def option.case if_True if_False scan_more)
    qed
    then have "tbOutbox d3 = tbOutbox (issues_created p r t d)" by (simp add: core_def)
    then show ?thesis
      by (simp add: d' store_response_def close_lease_def setJobSeq_def update_row_def)
  qed
  ultimately show ?thesis using that g v resp prior_def by blast
qed

end
