(* ===== verification/Spec_Runs.thy ===== *)
theory Spec_Runs
  imports Spec_Effects Store_Facts
begin

text \<open>
  Runs of the spec flow: sequences of its transactions, in any order and
  interleaving, a failing one rolled back.  Each is a move of one job
  (\<open>spec_move\<close>), so a relation between a job's events and its row that every
  admitted move keeps holds after every run (\<open>spec_invariant\<close>).
\<close>

section \<open>Operations and runs\<close>

datatype spec_op =
    OpSeed SeedSpecParams
  | OpClaimAuthor ClaimParams
  | OpDraft MaterializeSpecParams
  | OpEdit string string int int
  | OpResolve string string int int
  | OpClaimReview ClaimParams
  | OpReview SpecReviewResultParams
  | OpStamp string int int

fun spec_apply :: "DB \<Rightarrow> spec_op \<Rightarrow> store_error + DB" where
  "spec_apply d (OpSeed p) = SeedSpecJob d p"
| "spec_apply d (OpClaimAuthor p) = and_then (ClaimSpecAuthor d p) (\<lambda>(d', n). Inr d')"
| "spec_apply d (OpDraft p) = MaterializeSpec d p"
| "spec_apply d (OpEdit i h n now) = EditSpec d i h n now"
| "spec_apply d (OpResolve i h n now) = ResolveDesign d i h n now"
| "spec_apply d (OpClaimReview p) = and_then (ClaimSpecReview d p) (\<lambda>(d', n). Inr d')"
| "spec_apply d (OpReview p) = and_then (SpecReviewResult d p) (\<lambda>(d', resp). Inr d')"
| "spec_apply d (OpStamp i n now) = StampIssueNumber d i n now"

fun spec_run :: "spec_op list \<Rightarrow> DB \<Rightarrow> DB" where
  "spec_run [] d = d"
| "spec_run (x # xs) d = spec_run xs (case spec_apply d x of Inl e \<Rightarrow> d | Inr d' \<Rightarrow> d')"

lemma spec_run_append: "spec_run (xs @ ys) d = spec_run ys (spec_run xs d)"
  by (induction xs arbitrary: d) simp_all

fun op_job :: "spec_op \<Rightarrow> string" where
  "op_job (OpSeed p) = spID p"
| "op_job (OpClaimAuthor p) = cpJobID p"
| "op_job (OpDraft p) = mzJobID p"
| "op_job (OpEdit i h n now) = i"
| "op_job (OpResolve i h n now) = i"
| "op_job (OpClaimReview p) = cpJobID p"
| "op_job (OpReview p) = srJobID p"
| "op_job (OpStamp i n now) = i"

section \<open>The moves of one job\<close>

definition next_seq :: "Row \<Rightarrow> int" where
  "next_seq r = jJobSeq (rwJob r) + 1"

definition resolved_hash :: "string \<Rightarrow> Row \<Rightarrow> string" where
  "resolved_hash h r = (if h = [] then jSpecContentHash (rwJob r) else h)"

definition resolved_version :: "string \<Rightarrow> int \<Rightarrow> Row \<Rightarrow> int" where
  "resolved_version h n r = (if h = [] then jSpecVersion (rwJob r) else n)"

inductive spec_move :: "spec_op \<Rightarrow> Row \<Rightarrow> Event list \<Rightarrow> Row \<Rightarrow> bool" where
  move_author: "jState (rwJob r) = StateSpecAuthoring \<Longrightarrow> claimable_at (cpNow p) r \<Longrightarrow>
    spec_move (OpClaimAuthor p) r
      [claim_ledger_event p KindLeaseClaimed StateSpecAuthoring StateSpecAuthoring
         (jLeaseEpoch (rwJob r) + 1) (next_seq r)]
      (set_seq (next_seq r) (hold_row p r))"
| move_draft: "jState (rwJob r) = StateSpecAuthoring \<Longrightarrow> mzEpoch p = jLeaseEpoch (rwJob r) \<Longrightarrow>
    spec_move (OpDraft p) r [authored_event p (scanJob r) (next_seq r)]
      (set_seq (next_seq r) (authored_row p r))"
| move_edit: "jSpecContentHash (rwJob r) \<noteq> h \<Longrightarrow>
    spec_move (OpEdit i h n now) r [edited_event i (scanJob r) h n now (next_seq r)]
      (set_seq (next_seq r) (edited_row h n r))"
| move_decide: "jState (rwJob r) = StateNeedsDesign \<Longrightarrow>
    spec_move (OpResolve i h n now) r
      [decided_event i (scanJob r) (resolved_hash h r) (resolved_version h n r) now (next_seq r)]
      (set_seq (next_seq r) (decided_row (resolved_hash h r) (resolved_version h n r) r))"
| move_reviewer: "jState (rwJob r) = StateSpecReview \<Longrightarrow> claimable_at (cpNow p) r \<Longrightarrow>
    rwAuthorLens r = [] \<or> cpLens p \<noteq> rwAuthorLens r \<Longrightarrow>
    spec_move (OpClaimReview p) r
      [claim_ledger_event p KindReviewClaimed StateSpecReview StateSpecReview
         (jLeaseEpoch (rwJob r) + 1) (next_seq r)]
      (set_seq (next_seq r) (spec_reviewer_row p r))"
| move_judged: "jState (rwJob r) = StateSpecReview \<Longrightarrow> srEpoch p = jLeaseEpoch (rwJob r) \<Longrightarrow>
    spec_verdict r p t \<Longrightarrow>
    spec_move (OpReview p) r (spec_events p r prior t)
      (set_seq (jJobSeq (rwJob r) + int (length (spec_events p r prior t))) (spec_reviewed_row p prior t r))"
| move_issue: "spec_move (OpStamp i n now) r [issue_event i (scanJob r) n now (next_seq r)]
      (set_seq (next_seq r) (issue_row n r))"

inductive_cases spec_moveE [elim!]:
  "spec_move (OpSeed p) r new r'" "spec_move (OpReview q) r new r'"

text \<open>What an operation does to the outbox.\<close>

definition issue_kind :: "EventKind \<Rightarrow> bool" where
  "issue_kind k \<longleftrightarrow> k = KindSpecSignoffMinted \<or> k = KindSpecAmended"

definition issue_rows :: "DB \<Rightarrow> string \<Rightarrow> OutboxRow list" where
  "issue_rows d i = filter (\<lambda>x. obJobID x = i \<and> obAction x = ActionCreateIssue \<and> obHeadSHA x = []) (tbOutbox d)"

definition enqueues :: "spec_op \<Rightarrow> Row \<Rightarrow> Event list \<Rightarrow> DB \<Rightarrow> DB \<Rightarrow> bool" where
  "enqueues op r new d d' \<longleftrightarrow>
     (if list_ex (\<lambda>e. issue_kind (eKind e)) new \<and> \<not> jIsEpic (rwJob r)
      then \<exists>so :: SpecSignoff. tbOutbox d' = tbOutbox (enqueueOutboxTx (outbox_row (op_job op) ActionCreateIssue []
             [(''spec_hash'', JStr (sSpecHash so)), (''version'', JInt (sSpecVersion so))]) d)
      else tbOutbox d' = tbOutbox d)"

section \<open>Every transaction is a move\<close>

lemma core_outbox: "core d' = core d \<Longrightarrow> tbOutbox d' = tbOutbox d"
  by (simp add: core_def)

lemma SeedSpecJob_view:
  assumes "SeedSpecJob d p = Inr d'"
  shows "find_row d (spID p) = None"
    and "view d' = (view d)(spID p := (Some (spec_row p), events_of d (spID p) @ [spec_created p]))"
    and "tbOutbox d' = tbOutbox d"
proof -
  have i: "row_id (spec_row p) = spID p" by (simp add: row_id_def spec_row_def seed_row_def Let_def)
  have e: "eJobID (spec_created p) = spID p" by (simp add: spec_created_def)
  from assms obtain d1 d2 where ins: "insert_row (spec_row p) d = Inr d1"
    and ap: "appendEvent (spec_created p) d1 = Inr d2" and d': "d' = setJobSeq (spID p) 1 d2"
    by (auto simp: SeedSpecJob_def and_then_Inr_iff)
  show none: "find_row d (spID p) = None" using ins by (simp add: insert_row_def i split: if_splits)
  then have v1: "view d1 = (view d)(spID p := (Some (spec_row p), events_of d (spID p)))"
    using ins
    by (auto simp: insert_row_def view_def find_row_def events_of_def fun_eq_iff i find_append
        split: if_splits option.split)
  have v2: "view d2 = (view d)(spID p := (Some (spec_row p), events_of d (spID p) @ [spec_created p]))"
    using view_appendEvent [OF ap] find_row_view [OF v1] events_of_view [OF v1] by (simp add: e v1)
  have "set_seq 1 (spec_row p) = spec_row p" by (simp add: set_seq_def spec_row_def Let_def)
  then show "view d' = (view d)(spID p := (Some (spec_row p), events_of d (spID p) @ [spec_created p]))"
    using view_setJobSeq [of d2 "spID p" "spec_row p" 1] find_row_view [OF v2, of "spID p"] v2
    by (simp add: commit_def d')
  have "tbOutbox d2 = tbOutbox d1" "tbOutbox d1 = tbOutbox d"
    using ap ins by (auto simp: appendEvent_def insert_row_def split: if_splits)
  then show "tbOutbox d' = tbOutbox d" by (simp add: d' setJobSeq_def update_row_def)
qed

lemma one_step_move:
  assumes "one_step i (jJobSeq (rwJob r) + 1) e f id d = Inr d'" and "find_row d i = Some r"
    and "eJobID e = i" and "\<And>x. row_id (f x) = row_id x"
  shows "does i r (set_seq (next_seq r) (f r)) [e] d d'" and "tbOutbox d' = tbOutbox d"
  using one_step_does [OF assms] core_outbox [OF one_step_core [OF assms(1,4)]]
  by (simp_all add: next_seq_def)

text \<open>An operation other than a seed that succeeds: a replay, a no-op, or a move of its job.\<close>

definition moves_job :: "DB \<Rightarrow> spec_op \<Rightarrow> DB \<Rightarrow> bool" where
  "moves_job d op d' \<longleftrightarrow> (\<exists>r new r'. spec_move op r new r' \<and> does (op_job op) r r' new d d'
     \<and> enqueues op r new d d')"

lemma moves_jobI:
  "spec_move op r new r' \<Longrightarrow> does (op_job op) r r' new d d' \<Longrightarrow> enqueues op r new d d' \<Longrightarrow> moves_job d op d'"
  by (auto simp: moves_job_def)

lemma quiet_enqueues:
  "\<not> issue_kind (eKind e) \<Longrightarrow> tbOutbox d' = tbOutbox d \<Longrightarrow> enqueues op r [e] d d'"
  by (simp add: enqueues_def)

lemmas quiet_kinds = claim_ledger_event_def authored_event_def edited_event_def decided_event_def
  issue_event_def issue_kind_def

lemma claim_author_moves:
  assumes "ClaimSpecAuthor d p = Inr (d', n)"
  shows "moves_job d (OpClaimAuthor p) d'"
  using assms unfolding ClaimSpecAuthor_def
proof (rule claim_stage_does)
  fix r
  assume g: "jState (rwJob r) = StateSpecAuthoring" "claimable_at (cpNow p) r" "n = jLeaseEpoch (rwJob r) + 1"
    "does (cpJobID p) r (set_seq (jJobSeq (rwJob r) + 1) (hold_row p r))
      [claim_ledger_event p KindLeaseClaimed StateSpecAuthoring StateSpecAuthoring n (jJobSeq (rwJob r) + 1)] d d'"
    "core d' = core d"
  show ?thesis
    by (rule moves_jobI [OF move_author [OF g(1,2)]])
      (use g(3,4) core_outbox [OF g(5)] in \<open>simp_all add: next_seq_def quiet_enqueues quiet_kinds\<close>)
qed simp

lemma claim_review_moves:
  assumes "ClaimSpecReview d p = Inr (d', n)"
  shows "moves_job d (OpClaimReview p) d'"
  using assms unfolding ClaimSpecReview_def
proof (rule claim_stage_does)
  fix r
  assume g: "jState (rwJob r) = StateSpecReview" "\<not> (rwAuthorLens r \<noteq> [] \<and> cpLens p = rwAuthorLens r)"
    "claimable_at (cpNow p) r" "n = jLeaseEpoch (rwJob r) + 1"
    "does (cpJobID p) r (set_seq (jJobSeq (rwJob r) + 1) (spec_reviewer_row p r))
      [claim_ledger_event p KindReviewClaimed StateSpecReview StateSpecReview n (jJobSeq (rwJob r) + 1)] d d'"
    "core d' = core d"
  from g(2) have apart: "rwAuthorLens r = [] \<or> cpLens p \<noteq> rwAuthorLens r" by blast
  show ?thesis
    by (rule moves_jobI [OF move_reviewer [OF g(1,3) apart]])
      (use g(4,5) core_outbox [OF g(6)] in \<open>simp_all add: next_seq_def quiet_enqueues quiet_kinds\<close>)
qed simp

lemma draft_moves:
  assumes "MaterializeSpec d p = Inr d'"
  shows "moves_job d (OpDraft p) d'"
proof -
  from assms obtain r where r: "find_row d (mzJobID p) = Some r"
    and g: "jState (rwJob r) = StateSpecAuthoring" "mzEpoch p = jLeaseEpoch (rwJob r)"
    and st: "one_step (mzJobID p) (jJobSeq (rwJob r) + 1) (authored_event p (scanJob r) (jJobSeq (rwJob r) + 1))
      (authored_row p) id d = Inr d'"
    by (auto simp: MaterializeSpec_def and_then_Inr_iff loadJobTx_Inr split: if_splits)
  show ?thesis
    by (rule moves_jobI [OF move_draft [OF g]])
      (use one_step_move [OF st r] in \<open>simp_all add: next_seq_def quiet_enqueues quiet_kinds\<close>)
qed

lemma edit_moves:
  assumes "EditSpec d i h n now = Inr d'"
  shows "d' = d \<or> moves_job d (OpEdit i h n now) d'"
proof -
  from assms obtain r where r: "find_row d i = Some r"
    and "jSpecContentHash (rwJob r) = h \<and> d' = d \<or> jSpecContentHash (rwJob r) \<noteq> h
      \<and> one_step i (jJobSeq (rwJob r) + 1) (edited_event i (scanJob r) h n now (jJobSeq (rwJob r) + 1))
          (edited_row h n) id d = Inr d'"
    by (auto simp: EditSpec_def and_then_Inr_iff loadJobTx_Inr split: if_splits)
  then show ?thesis
  proof (elim disjE conjE)
    assume g: "jSpecContentHash (rwJob r) \<noteq> h"
      and st: "one_step i (jJobSeq (rwJob r) + 1) (edited_event i (scanJob r) h n now (jJobSeq (rwJob r) + 1))
          (edited_row h n) id d = Inr d'"
    have "moves_job d (OpEdit i h n now) d'"
      by (rule moves_jobI [OF move_edit [OF g]])
        (use one_step_move [OF st r] in \<open>simp_all add: next_seq_def quiet_enqueues quiet_kinds\<close>)
    then show ?thesis ..
  qed simp
qed

lemma decision_moves:
  assumes "ResolveDesign d i h n now = Inr d'"
  shows "moves_job d (OpResolve i h n now) d'"
proof -
  from assms obtain r where r: "find_row d i = Some r" and g: "jState (rwJob r) = StateNeedsDesign"
    and st: "one_step i (jJobSeq (rwJob r) + 1)
      (decided_event i (scanJob r) (resolved_hash h r) (resolved_version h n r) now (jJobSeq (rwJob r) + 1))
      (decided_row (resolved_hash h r) (resolved_version h n r)) id d = Inr d'"
    by (auto simp: ResolveDesign_def and_then_Inr_iff loadJobTx_Inr Let_def resolved_hash_def
        resolved_version_def split: if_splits)
  show ?thesis
    by (rule moves_jobI [OF move_decide [OF g]])
      (use one_step_move [OF st r] in \<open>simp_all add: next_seq_def quiet_enqueues quiet_kinds\<close>)
qed

lemma issue_moves:
  assumes "StampIssueNumber d i n now = Inr d'"
  shows "moves_job d (OpStamp i n now) d'"
proof -
  from assms obtain r where r: "find_row d i = Some r"
    and st: "one_step i (jJobSeq (rwJob r) + 1) (issue_event i (scanJob r) n now (jJobSeq (rwJob r) + 1))
      (issue_row n) id d = Inr d'"
    by (auto simp: StampIssueNumber_def and_then_Inr_iff loadJobTx_Inr)
  show ?thesis
    by (rule moves_jobI [OF move_issue])
      (use one_step_move [OF st r] in \<open>simp_all add: next_seq_def quiet_enqueues quiet_kinds\<close>)
qed

lemma judged_kinds:
  assumes "spec_verdict r p t"
  shows "list_ex (\<lambda>e. issue_kind (eKind e)) (spec_events p r prior t) \<longleftrightarrow> tSpecSignoff t \<noteq> None"
  using assms by (cases rule: spec_verdict_cases)
    (simp_all add: spec_events_def issue_kind_def spec_claim_event_def spec_event_def epic_reviewed_event_def
      move_def Let_def)

lemma judgement_moves:
  assumes "SpecReviewResult d p = Inr (d', resp)"
  shows "d' = d \<or> moves_job d (OpReview p) d'"
proof (cases "cached_response d (srJobID p) (srIdempotencyKey p)")
  case (Some c)
  with assms show ?thesis by (simp add: SpecReviewResult_def)
next
  case None
  with assms show ?thesis
  proof (rule SpecReviewResult_does)
    fix r t prior
    assume g: "srEpoch p = jLeaseEpoch (rwJob r)" "jState (rwJob r) = StateSpecReview" "spec_verdict r p t"
      "does (srJobID p) r
        (set_seq (jJobSeq (rwJob r) + int (length (spec_events p r prior t))) (spec_reviewed_row p prior t r))
        (spec_events p r prior t) d d'"
      "tbOutbox d' = tbOutbox (issues_created p r t d)"
    have "enqueues (OpReview p) r (spec_events p r prior t) d d'"
      using g(5)
      by (cases "tSpecSignoff t")
        (auto simp: enqueues_def judged_kinds [OF g(3)] issues_created_def spec_issue_def)
    with moves_jobI [OF move_judged [OF g(2,1,3)]] g(4) show ?thesis by auto
  qed
qed

lemma spec_apply_cases:
  assumes "spec_apply d op = Inr d'"
  obtains (same) "d' = d"
  | (seeded) p where "op = OpSeed p" "SeedSpecJob d p = Inr d'"
  | (moved) r new r' where "spec_move op r new r'" "does (op_job op) r r' new d d'"
      "enqueues op r new d d'"
proof -
  have "d' = d \<or> (\<exists>p. op = OpSeed p \<and> SeedSpecJob d p = Inr d') \<or> moves_job d op d'"
    using assms by (cases op)
      (auto simp: and_then_Inr_iff dest: claim_author_moves claim_review_moves draft_moves edit_moves
        decision_moves issue_moves judgement_moves)
  with that show ?thesis unfolding moves_job_def by blast
qed

section \<open>Invariants of a job's events and row\<close>

locale spec_invariant =
  fixes ok :: "spec_op \<Rightarrow> bool" and P :: "Event list \<Rightarrow> Row \<Rightarrow> bool"
  assumes keeps: "spec_move op r new r' \<Longrightarrow> ok op \<Longrightarrow> row_id r = op_job op \<Longrightarrow> P es r \<Longrightarrow> P (es @ new) r'"
    and starts: "ok (OpSeed p) \<Longrightarrow> P [spec_created p] (spec_row p)"
begin

lemma step: "spec_apply d op = Inr d' \<Longrightarrow> ok op \<Longrightarrow> agrees P d \<Longrightarrow> agrees P d'"
proof (erule spec_apply_cases)
  fix p
  assume ok: "ok op" "agrees P d" and p: "op = OpSeed p" "SeedSpecJob d p = Inr d'"
  note v = SeedSpecJob_view [OF p(2)]
  have "events_of d (spID p) = []" using ok(2) v(1) by (auto simp: agrees_def dest!: spec [of _ "spID p"])
  then show "agrees P d'" using ok starts [of p] p(1) by (simp add: agrees_view v(2))
next
  fix r new r'
  assume ok: "ok op" "agrees P d" and m: "spec_move op r new r'" "does (op_job op) r r' new d d'"
  let ?i = "op_job op"
  have f: "find_row d ?i = Some r" using m(2) by (simp add: does_def)
  have P: "P (events_of d ?i @ new) r'"
    by (rule keeps [OF m(1) ok(1) find_row_id [OF f] agreesD [OF ok(2) f]])
  show "agrees P d'"
    unfolding agrees_view
  proof
    fix j
    have "case view d j of (None, es) \<Rightarrow> es = [] | (Some r, es) \<Rightarrow> P es r"
      using ok(2) by (simp add: agrees_view)
    then show "case view d' j of (None, es) \<Rightarrow> es = [] | (Some r, es) \<Rightarrow> P es r"
      using P m(2) by (simp add: does_def commit_def snd_view)
  qed
qed simp

lemma run: "list_all ok ops \<Longrightarrow> agrees P d \<Longrightarrow> agrees P (spec_run ops d)"
  by (induction ops arbitrary: d) (auto intro: step split: sum.split)

lemma run_row:
  assumes "list_all ok ops" and "tbJobs d = []" and "tbEvents d = []"
    and "find_row (spec_run ops d) i = Some r"
  shows "P (events_of (spec_run ops d) i) r"
proof -
  have "agrees P d" using assms(2,3) by (simp add: agrees_def find_row_def events_of_def)
  then show ?thesis by (rule agreesD [OF run [OF assms(1)] assms(4)])
qed

end

end
