(* ===== verification/Spec_Facts.thy ===== *)
theory Spec_Facts
  imports Spec_Runs
begin

text \<open>
  What holds of every spec job after every run of the spec flow: the row is the
  fold of its events, a sign-off binds the bytes the row carries, and each signed
  spec has its issue asked for once.
\<close>

section \<open>Row and fold\<close>

text \<open>
  The columns a rebuild restores for a spec.  Left out are those no event carries
  (\<open>chat_ref\<close>, \<open>task_text\<close>, \<open>acceptance_criteria\<close>, \<open>repo\<close>) and those on which
  projection and fold differ: \<open>stage\<close> (a bounce), \<open>enqueued_at\<close> (the seed) and
  \<open>last_review_notes\<close> (an exhausted or superseded review).
\<close>

definition spec_projected :: "Job \<Rightarrow> Job" where
  "spec_projected j =
     j\<lparr>jStage := [], jEnqueuedAt := 0, jChatRef := [], jTaskText := [], jAcceptanceCriteria := [],
       jRepo := [], jLastReviewNotes := []\<rparr>"

lemma spec_projected_iff:
  "spec_projected j = spec_projected k \<longleftrightarrow>
     jID j = jID k \<and> jKind j = jKind k \<and> jFlow j = jFlow k \<and>
     jState j = jState k \<and> jRole j = jRole k \<and> jIssueNum j = jIssueNum k \<and> jFlowID j = jFlowID k \<and>
     jSpecRef j = jSpecRef k \<and> jParentJob j = jParentJob k \<and> jBoundLens j = jBoundLens k \<and>
     jPRNumber j = jPRNumber k \<and> jEpicID j = jEpicID k \<and> jIsEpic j = jIsEpic k \<and>
     jEpicReviewed j = jEpicReviewed k \<and> jBaseSHA j = jBaseSHA k \<and>
     jHeadSHA j = jHeadSHA k \<and> jSpecText j = jSpecText k \<and> jBlockedBy j = jBlockedBy k \<and>
     jSpecContentHash j = jSpecContentHash k \<and> jSpecVersion j = jSpecVersion k \<and>
     jSpecSignoff j = jSpecSignoff k \<and> jPriority j = jPriority k \<and>
     jRequiredCapabilities j = jRequiredCapabilities k \<and> jLeaseID j = jLeaseID k \<and>
     jLeaseEpoch j = jLeaseEpoch k \<and> jBoundIdentity j = jBoundIdentity k \<and>
     jBoundModelFamily j = jBoundModelFamily k \<and>
     jLastCIFailures j = jLastCIFailures k \<and> jDiffEmpty j = jDiffEmpty k \<and>
     jAttempts j = jAttempts k \<and> jMaxAttempts j = jMaxAttempts k \<and>
     jBounces j = jBounces k \<and> jMaxBounces j = jMaxBounces k \<and>
     jStallRevocations j = jStallRevocations k \<and> jMergeProvenance j = jMergeProvenance k \<and>
     jUnblockAttempts j = jUnblockAttempts k \<and> jCostCeilingMicroUSD j = jCostCeilingMicroUSD k \<and>
     jLastProgressSHA j = jLastProgressSHA k \<and> jStuckHint j = jStuckHint k \<and>
     jCostTokensIn j = jCostTokensIn k \<and> jCostTokensOut j = jCostTokensOut k \<and>
     jCostMicroUSD j = jCostMicroUSD k \<and> jBuildEpoch j = jBuildEpoch k \<and>
     jVerdict j = jVerdict k \<and> jJobSeq j = jJobSeq k
     \<and> jEscalationReason j = jEscalationReason k \<and> jOverBudget j = jOverBudget k"
  by (cases j; cases k) (auto simp: spec_projected_def)

fun spec_live :: "State \<Rightarrow> bool" where
  "spec_live StateSpecAuthoring = True"
| "spec_live StateSpecReview = True"
| "spec_live _ = False"

fun spec_parked :: "State \<Rightarrow> bool" where
  "spec_parked StateNeedsDesign = True"
| "spec_parked StateNeedsHuman = True"
| "spec_parked _ = False"

definition spec_shape :: "Row \<Rightarrow> bool" where
  "spec_shape r \<longleftrightarrow>
     (let s = jState (rwJob r) in
      jKind (rwJob r) = KindSpec \<and> (spec_live s \<or> spec_parked s \<or> s = StateDone)
      \<and> (s = StateSpecAuthoring \<longrightarrow>
           jRole (rwJob r) = RoleSpecAuthor \<and> jRequiredCapabilities (rwJob r) = [''role:spec_author''])
      \<and> (s = StateSpecReview \<longrightarrow>
           jRole (rwJob r) = RoleSpecReviewer \<and> jRequiredCapabilities (rwJob r) = [''role:spec_reviewer''])
      \<and> (\<not> spec_live s \<longrightarrow>
           jLeaseID (rwJob r) = [] \<and> rwBoundIdentity r = None \<and> rwBoundModelFamily r = None)
      \<and> (\<not> spec_parked s \<longrightarrow> jEscalationReason (rwJob r) = []) \<and> \<not> jOverBudget (rwJob r)
      \<and> (jSpecSignoff (rwJob r) \<noteq> None \<longrightarrow> s = StateDone) \<and> \<not> jIsEpic (rwJob r))"

definition spec_good :: "Event list \<Rightarrow> Row \<Rightarrow> bool" where
  "spec_good es r \<longleftrightarrow>
     numbered_from 0 es \<and> jJobSeq (rwJob r) = int (length es)
     \<and> spec_projected (scanJob r) = spec_projected (Fold es) \<and> spec_shape r"

lemma spec_good_step:
  assumes "spec_good es r" and "numbered_from (jJobSeq (rwJob r)) new"
    and "jJobSeq (rwJob r') = jJobSeq (rwJob r) + int (length new)" and "spec_shape r'"
    and "spec_projected (scanJob r') = spec_projected (fold_from (Fold es) new)"
  shows "spec_good (es @ new) r'"
proof -
  have "Fold (es @ new) = fold_from (Fold es) new"
    by (simp add: Fold_def fold_from_foldl)
  then show ?thesis using assms by (simp add: spec_good_def)
qed

text \<open>
  The operations as the API forms them, with drafts that are not empty, and
  without \<open>EditSpec\<close>, which nothing but tests calls.
\<close>

fun as_served :: "spec_op \<Rightarrow> bool" where
  "as_served (OpDraft p) = (mzMarkdown p \<noteq> [])"
| "as_served (OpEdit i h n now) = False"
| "as_served (OpReview p) = (srAmendedMarkdown p \<noteq> [] \<longrightarrow> srClaim p = VerdictAmended)"
| "as_served _ = True"

lemmas spec_rows = hold_row_def spec_reviewer_row_def gate_row_def authored_row_def edited_row_def
  decided_row_def let_go_def signed_row_def forked_row_def respec_row_def exhausted_row_def issue_row_def
  Let_def

lemmas spec_step_simps =
  spec_projected_iff scanJob_def set_seq_def fold_event_def on_defs sync_defs coalesce_def
  zero_payload_def spec_rows next_seq_def resolved_hash_def resolved_version_def

lemma spec_goodD:
  assumes "spec_good es r"
  shows "spec_projected (scanJob r) = spec_projected (Fold es)" and "spec_shape r"
    and "jJobSeq (rwJob r) = int (length es)"
  using assms by (simp_all add: spec_good_def)

text \<open>A single event: what it does to the row and to the fold.\<close>

lemma spec_good_event:
  assumes "spec_good es r" and "eJobSeq e = next_seq r" and "spec_shape (set_seq (next_seq r) r')"
    and "\<And>J. spec_projected (scanJob r) = spec_projected J \<Longrightarrow> spec_shape r \<Longrightarrow>
      spec_projected (scanJob (set_seq (next_seq r) r')) = spec_projected (fold_event J e)"
  shows "spec_good (es @ [e]) (set_seq (next_seq r) r')"
  by (rule spec_good_step [OF assms(1) _ _ assms(3)])
    (use assms(2) assms(4) [OF spec_goodD(1,2) [OF assms(1)]] in \<open>simp_all add: next_seq_def\<close>)

lemma spec_shape_seq [simp]: "spec_shape (set_seq n r) = spec_shape r"
  by (simp add: spec_shape_def set_seq_def)

lemma spec_shape_state:
  "spec_shape r \<Longrightarrow> jState (rwJob r) \<in> {StateSpecAuthoring, StateSpecReview, StateNeedsDesign, StateNeedsHuman, StateDone}"
  by (cases "jState (rwJob r)") (simp_all add: spec_shape_def)

lemma issue_good:
  assumes "spec_good es r"
  shows "spec_good (es @ [issue_event i (scanJob r) n now (next_seq r)]) (set_seq (next_seq r) (issue_row n r))"
proof -
  note sh = spec_goodD(2) [OF assms]
  consider "jState (rwJob r) = StateSpecAuthoring" | "jState (rwJob r) = StateSpecReview"
    | "spec_parked (jState (rwJob r))" "\<not> spec_live (jState (rwJob r))" "jState (rwJob r) \<noteq> StateReady"
    | "jState (rwJob r) = StateDone"
    using spec_shape_state [OF sh] by auto
  then show ?thesis
  proof cases
    case 1
    show ?thesis
      by (rule spec_good_event [OF assms]; use sh 1 in \<open>simp add: spec_shape_def spec_step_simps issue_event_def\<close>)
  next
    case 2
    show ?thesis
      by (rule spec_good_event [OF assms]; use sh 2 in \<open>simp add: spec_shape_def spec_step_simps issue_event_def\<close>)
  next
    case 3
    then consider "jState (rwJob r) = StateNeedsDesign" | "jState (rwJob r) = StateNeedsHuman"
      using spec_shape_state [OF sh] by auto
    then show ?thesis
    proof cases
      case 1
      show ?thesis
        by (rule spec_good_event [OF assms]; use sh 1 in \<open>simp add: spec_shape_def spec_step_simps issue_event_def\<close>)
    next
      case 2
      show ?thesis
        by (rule spec_good_event [OF assms]; use sh 2 in \<open>simp add: spec_shape_def spec_step_simps issue_event_def\<close>)
    qed
  next
    case 4
    show ?thesis
      by (rule spec_good_event [OF assms]; use sh 4 in \<open>simp add: spec_shape_def spec_step_simps issue_event_def\<close>)
  qed
qed

lemma mint_sel [simp]:
  "sSpecHash (MintSpecSignoff h v l) = h" "sSpecVersion (MintSpecSignoff h v l) = v"
  "sReviewerLens (MintSpecSignoff h v l) = l"
  by (simp_all add: MintSpecSignoff_def Let_def)

lemma signoff_amended:
  assumes "srClaim p = VerdictAmended"
  shows "sSpecHash (signoff_of r p) = srAmendedHash p" "sSpecVersion (signoff_of r p) = srAmendedVersion p"
  using assms by (simp_all add: signoff_of_def)

lemma signoff_kept:
  assumes "srClaim p \<noteq> VerdictAmended"
  shows "sSpecHash (signoff_of r p) = jSpecContentHash (rwJob r)"
    "sSpecVersion (signoff_of r p) = jSpecVersion (rwJob r)"
  using assms by (simp_all add: signoff_of_def)

text \<open>An accepted spec review: the claim changes no column, the transition does.\<close>

lemma spec_claim_good:
  assumes "spec_good es r" and "jState (rwJob r) = StateSpecReview"
  shows "spec_good (es @ [spec_claim_event p (scanJob r) (next_seq r)]) (set_seq (next_seq r) r)"
  by (rule spec_good_event [OF assms(1)]; use spec_goodD(2) [OF assms(1)] assms(2) in
    \<open>simp add: spec_shape_def spec_step_simps spec_claim_event_def\<close>)

text \<open>The event of each outcome, with the notes and the reason it may carry left open.\<close>

definition outcome_event :: "string \<Rightarrow> int \<Rightarrow> Row \<Rightarrow> EventKind \<Rightarrow> State \<Rightarrow> int \<Rightarrow> Payload \<Rightarrow> Event" where
  "outcome_event i n r k to now pay =
     fenced_event i n k StateSpecReview to (jLeaseEpoch (scanJob r)) ''system'' now pay"

lemma outcome_seq: "eJobSeq (outcome_event i n r k to now pay) = n"
  by (simp add: outcome_event_def)

lemma amended_good:
  assumes "spec_good es r" and "jState (rwJob r) = StateSpecReview"
    and "sSpecHash so = h" and "h \<noteq> []" and "sSpecVersion so = v" and "srAmendedMarkdown p = md"
  shows "spec_good (es @ [outcome_event i (next_seq r) r KindSpecAmended StateDone now
    (zero_payload\<lparr>pSpecSignoff := Some so, pSpecContentHash := h, pSpecVersion := v, pSpecText := md\<rparr>)])
    (set_seq (next_seq r) (signed_row p 0 so r))"
  by (cases "md = []"; rule spec_good_event [OF assms(1) outcome_seq]; use spec_goodD(2) [OF assms(1)] assms in
    \<open>simp add: spec_shape_def spec_step_simps outcome_event_def\<close>)

lemma signed_good:
  assumes "spec_good es r" and "jState (rwJob r) = StateSpecReview"
    and "sSpecHash so = jSpecContentHash (rwJob r)" and "sSpecVersion so = jSpecVersion (rwJob r)"
    and "srAmendedMarkdown p = []"
  shows "spec_good (es @ [outcome_event i (next_seq r) r KindSpecSignoffMinted StateDone now
    (zero_payload\<lparr>pSpecSignoff := Some so, pReviewNotes := ns\<rparr>)])
    (set_seq (next_seq r) (signed_row p 0 so r))"
  by (cases "ns = []"; rule spec_good_event [OF assms(1) outcome_seq]; use spec_goodD(2) [OF assms(1)] assms in
    \<open>simp add: spec_shape_def spec_step_simps outcome_event_def\<close>)

lemma forked_good:
  assumes "spec_good es r" and "jState (rwJob r) = StateSpecReview"
  shows "spec_good (es @ [outcome_event i (next_seq r) r KindSpecNeedsDesign StateNeedsDesign now zero_payload])
    (set_seq (next_seq r) (forked_row r))"
  by (rule spec_good_event [OF assms(1) outcome_seq]; use spec_goodD(2) [OF assms(1)] assms in
    \<open>simp add: spec_shape_def spec_step_simps outcome_event_def\<close>)

lemma respec_good:
  assumes "spec_good es r" and "jState (rwJob r) = StateSpecReview"
    and "k = KindSpecSuperseded \<and> b = 0 \<or> k = KindSpecBounced \<and> b = 1"
  shows "spec_good (es @ [outcome_event i (next_seq r) r k StateSpecAuthoring now
    (zero_payload\<lparr>pBouncesDelta := b, pReviewNotes := ns\<rparr>)])
    (set_seq (next_seq r) (respec_row p b r))"
  proof -
  have "k = KindSpecSuperseded \<and> b = 0 \<and> ns = [] \<or> k = KindSpecSuperseded \<and> b = 0 \<and> ns \<noteq> []
      \<or> k = KindSpecBounced \<and> b = 1 \<and> ns = [] \<or> k = KindSpecBounced \<and> b = 1 \<and> ns \<noteq> []"
    using assms(3) by blast
  then show ?thesis
    by (elim disjE; intro spec_good_event [OF assms(1) outcome_seq]; use spec_goodD(2) [OF assms(1)] assms(2) in
      \<open>cases "srNotes p = []"; simp add: spec_shape_def spec_step_simps outcome_event_def\<close>)
qed

lemma spec_exhausted_good:
  assumes "spec_good es r" and "jState (rwJob r) = StateSpecReview" and "spec_rejection_reason p prior = reason"
  shows "spec_good (es @ [outcome_event i (next_seq r) r KindBounceExhausted StateNeedsHuman now
    (zero_payload\<lparr>pBouncesDelta := 1, pEscalationReason := reason, pReviewNotes := ns\<rparr>)])
    (set_seq (next_seq r) (exhausted_row p prior StateNeedsHuman 1 r))"
  by (cases "ns = []"; cases "reason = []"; rule spec_good_event [OF assms(1) outcome_seq]; use spec_goodD(2) [OF assms(1)] assms in
    \<open>simp add: spec_shape_def spec_step_simps outcome_event_def\<close>)

lemma judged_event_good:
  assumes "spec_good es r" and "jState (rwJob r) = StateSpecReview" and "spec_verdict r p t"
    and "srAmendedMarkdown p \<noteq> [] \<longrightarrow> srClaim p = VerdictAmended"
  shows "spec_good (es @ [spec_event p (scanJob r) prior t (next_seq r)])
    (set_seq (next_seq r) (spec_row_after p prior (tTo t) [t] r))"
proof -
  define ns where "ns = (if srClaim p = VerdictChangesRequested then srNotes p else [])"
  note defs = spec_event_def spec_payload_def spec_row_after_def move_def Let_def ns_def outcome_event_def
    zero_payload_def
  from assms(3) show ?thesis
  proof (cases rule: spec_verdict_cases)
    case amended
    have "spec_event p (scanJob r) prior t (next_seq r) = outcome_event (srJobID p) (next_seq r) r KindSpecAmended
        StateDone (srNow p) (zero_payload\<lparr>pSpecSignoff := Some (signoff_of r p), pSpecContentHash := srAmendedHash p,
          pSpecVersion := srAmendedVersion p, pSpecText := srAmendedMarkdown p\<rparr>)"
      by (simp add: defs amended(2,4))
    moreover have "spec_row_after p prior (tTo t) [t] r = signed_row p 0 (signoff_of r p) r"
      by (simp add: spec_row_after_def move_def Let_def amended(4))
    ultimately show ?thesis
      using amended_good [OF assms(1,2) signoff_amended(1) [OF amended(2)] amended(3) signoff_amended(2) [OF amended(2)] refl] by simp
  next
    case signed
    then have a: "srAmendedMarkdown p = []" using assms(4) by blast
    have "spec_event p (scanJob r) prior t (next_seq r) = outcome_event (srJobID p) (next_seq r) r KindSpecSignoffMinted
        StateDone (srNow p) (zero_payload\<lparr>pSpecSignoff := Some (signoff_of r p), pReviewNotes := ns\<rparr>)"
      by (simp add: defs signed(3))
    moreover have "spec_row_after p prior (tTo t) [t] r = signed_row p 0 (signoff_of r p) r"
      by (simp add: spec_row_after_def move_def Let_def signed(3))
    ultimately show ?thesis
      using signed_good [OF assms(1,2) signoff_kept [OF signed(2)] a] by simp
  next
    case forked
    have "spec_event p (scanJob r) prior t (next_seq r) =
        outcome_event (srJobID p) (next_seq r) r KindSpecNeedsDesign StateNeedsDesign (srNow p) zero_payload"
      by (simp add: defs forked(4,5))
    moreover have "spec_row_after p prior (tTo t) [t] r = forked_row r"
      by (simp add: spec_row_after_def move_def Let_def forked(5))
    ultimately show ?thesis using forked_good [OF assms(1,2)] by simp
  next
    case superseded
    have "spec_event p (scanJob r) prior t (next_seq r) = outcome_event (srJobID p) (next_seq r) r KindSpecSuperseded
        StateSpecAuthoring (srNow p) (zero_payload\<lparr>pBouncesDelta := 0, pReviewNotes := ns\<rparr>)"
      by (simp add: defs superseded(3))
    moreover have "spec_row_after p prior (tTo t) [t] r = respec_row p 0 r"
      by (simp add: spec_row_after_def move_def Let_def superseded(3))
    ultimately show ?thesis using respec_good [OF assms(1,2)] by simp
  next
    case bounced
    have "spec_event p (scanJob r) prior t (next_seq r) = outcome_event (srJobID p) (next_seq r) r KindSpecBounced
        StateSpecAuthoring (srNow p) (zero_payload\<lparr>pBouncesDelta := 1, pReviewNotes := ns\<rparr>)"
      by (simp add: defs bounced(5))
    moreover have "spec_row_after p prior (tTo t) [t] r = respec_row p 1 r"
      by (simp add: spec_row_after_def move_def Let_def bounced(5))
    ultimately show ?thesis using respec_good [OF assms(1,2)] by simp
  next
    case exhausted
    have "spec_event p (scanJob r) prior t (next_seq r) = outcome_event (srJobID p) (next_seq r) r KindBounceExhausted
        StateNeedsHuman (srNow p) (zero_payload\<lparr>pBouncesDelta := 1,
          pEscalationReason := spec_rejection_reason p prior, pReviewNotes := ns\<rparr>)"
      by (simp add: defs exhausted(4))
    moreover have "spec_row_after p prior (tTo t) [t] r = exhausted_row p prior StateNeedsHuman 1 r"
      by (simp add: spec_row_after_def move_def Let_def exhausted(4))
    ultimately show ?thesis using spec_exhausted_good [OF assms(1,2) refl] by simp
  qed
qed

lemma spec_seq_rows:
  "set_seq m (signed_row p b so (set_seq n r)) = set_seq m (signed_row p b so r)"
  "set_seq m (forked_row (set_seq n r)) = set_seq m (forked_row r)"
  "set_seq m (respec_row p b (set_seq n r)) = set_seq m (respec_row p b r)"
  "set_seq m (exhausted_row p k s b (set_seq n r)) = set_seq m (exhausted_row p k s b r)"
  subgoal by (cases "srAmendedMarkdown p = []"; simp add: spec_rows set_seq_def)
  subgoal by (simp add: spec_rows set_seq_def)
  subgoal by (cases "srNotes p = []"; simp add: spec_rows set_seq_def)
  subgoal by (cases "s = StateNeedsHuman"; cases "spec_rejection_reason p k = []"; simp add: spec_rows set_seq_def)
  done

lemma seq_after: "set_seq m (spec_row_after p k s ts (set_seq n r)) = set_seq m (spec_row_after p k s ts r)"
  by (cases "minted_signoff ts"; cases "has_kind KindSpecNeedsDesign ts"; cases "s = StateSpecAuthoring";
    simp add: spec_row_after_def Let_def spec_seq_rows)

lemma set_seq_state [simp]: "jState (rwJob (set_seq n r)) = jState (rwJob r)"
  by (simp add: set_seq_def)

lemma spec_move_good:
  assumes "spec_move op r new r'" and "as_served op" and "spec_good es r"
  shows "spec_good (es @ new) r'"
  using assms
proof (induction rule: spec_move.induct)
  case (move_author r p)
  note sh = spec_goodD(2) [OF move_author(4)]
  show ?case
    by (rule spec_good_event [OF move_author(4)]; use sh move_author(1) in
      \<open>simp add: spec_shape_def spec_step_simps claim_ledger_event_def\<close>)
next
  case (move_draft r p)
  note sh = spec_goodD(2) [OF move_draft(4)]
  show ?case
    by (rule spec_good_event [OF move_draft(4)]; use sh move_draft(1,3) in
      \<open>simp add: spec_shape_def spec_step_simps authored_event_def\<close>)
next
  case (move_decide r i h n now)
  note sh = spec_goodD(2) [OF move_decide(3)]
  show ?case
    by (rule spec_good_event [OF move_decide(3)]; use sh move_decide(1) in
      \<open>simp add: spec_shape_def spec_step_simps decided_event_def\<close>)
next
  case (move_reviewer r p)
  note sh = spec_goodD(2) [OF move_reviewer(5)]
  show ?case
    by (rule spec_good_event [OF move_reviewer(5)]; use sh move_reviewer(1) in
      \<open>simp add: spec_shape_def spec_step_simps claim_ledger_event_def\<close>)
next
  case (move_issue i n now r)
  then show ?case by (simp add: issue_good)
next
  case (move_judged r p t prior)
  note claim = spec_claim_good [OF move_judged(5,1)]
  have quiet: "\<not> jIsEpic (rwJob r)"
    using spec_goodD(2) [OF move_judged(5)] by (simp add: spec_shape_def Let_def)
  let ?r = "set_seq (next_seq r) r"
  have same: "spec_event p (scanJob ?r) prior t n = spec_event p (scanJob r) prior t n"
    "next_seq ?r = jJobSeq (rwJob r) + 2" "spec_verdict ?r = spec_verdict r" for n
    by (simp_all add: spec_event_def set_seq_def next_seq_def spec_verdict_def signs_def lens_apart_def
        signoff_of_def fun_eq_iff)
  have "spec_good ((es @ [spec_claim_event p (scanJob r) (next_seq r)])
      @ [spec_event p (scanJob r) prior t (jJobSeq (rwJob r) + 2)])
    (set_seq (jJobSeq (rwJob r) + 2) (spec_row_after p prior (tTo t) [t] r))"
    using judged_event_good [OF claim, where p = p and t = t and prior = prior] move_judged(1,3,4) by (simp add: same seq_after)
  then show ?case
    by (simp add: spec_events_def spec_reviewed_row_def Let_def quiet next_seq_def)
qed simp_all

lemma spec_start_good: "spec_good [spec_created p] (spec_row p)"
  by (simp add: spec_good_def spec_shape_def Fold_def spec_step_simps spec_created_def spec_row_def seed_row_def
      zero_job_def DefaultMaxAttempts_def DefaultMaxBounces_def)

interpretation spec_fold: spec_invariant as_served spec_good
  by unfold_locales (simp_all add: spec_move_good spec_start_good)

section \<open>Sign-offs\<close>

definition signed_inv :: "Event list \<Rightarrow> Row \<Rightarrow> bool" where
  "signed_inv es r \<longleftrightarrow>
     (case jSpecSignoff (rwJob r) of
        None \<Rightarrow> jState (rwJob r) \<noteq> StateDone
      | Some so \<Rightarrow> jState (rwJob r) = StateDone \<and> sSpecHash so = jSpecContentHash (rwJob r)
          \<and> sSpecVersion so = jSpecVersion (rwJob r)
          \<and> (rwAuthorLens r = [] \<or> sReviewerLens so \<noteq> rwAuthorLens r)
          \<and> list_ex (\<lambda>e. issue_kind (eKind e)) es)
     \<and> \<not> jIsEpic (rwJob r)"

lemma judged_signed:
  assumes "spec_verdict r p t" and "jState (rwJob r) = StateSpecReview" and "signed_inv es r"
  shows "signed_inv (es @ spec_events p r prior t) (set_seq n (spec_reviewed_row p prior t r))"
proof -
  have k: "list_ex (\<lambda>e. issue_kind (eKind e)) (spec_events p r prior t) \<longleftrightarrow> tSpecSignoff t \<noteq> None"
    by (rule judged_kinds [OF assms(1)])
  show ?thesis
    using assms(1)
    by (cases rule: spec_verdict_cases)
      (use assms(2,3) k in \<open>auto simp: signed_inv_def set_seq_def spec_reviewed_row_def spec_row_after_def
        signs_def lens_apart_def signoff_of_def spec_rows move_def split: option.splits\<close>)
qed

lemma spec_move_signed:
  assumes "spec_move op r new r'" and "signed_inv es r"
  shows "signed_inv (es @ new) r'"
  using assms
proof (induction rule: spec_move.induct)
  case (move_judged r p t prior)
  then show ?case by (simp add: judged_signed)
qed (auto simp: signed_inv_def set_seq_def spec_rows next_seq_def split: option.splits)

interpretation spec_signed: spec_invariant "\<lambda>op. True" signed_inv
  by unfold_locales (erule spec_move_signed, simp,
    simp add: signed_inv_def spec_row_def seed_row_def zero_job_def Let_def)

text \<open>The bytes: the hash of a spec past its draft is the hash of the text it carries.\<close>

fun addressed :: "(string \<Rightarrow> string) \<Rightarrow> spec_op \<Rightarrow> bool" where
  "addressed h (OpDraft p) = (mzContentHash p = h (mzMarkdown p))"
| "addressed h (OpEdit i x n now) = False"
| "addressed h (OpResolve i x n now) = (x = [])"
| "addressed h (OpReview p) =
     (if srClaim p = VerdictAmended \<and> srAmendedMarkdown p \<noteq> [] then srAmendedHash p = h (srAmendedMarkdown p)
      else srAmendedHash p = [] \<and> srAmendedMarkdown p = [])"
| "addressed h _ = True"

definition text_inv :: "(string \<Rightarrow> string) \<Rightarrow> Event list \<Rightarrow> Row \<Rightarrow> bool" where
  "text_inv h es r \<longleftrightarrow>
     jState (rwJob r) = StateSpecAuthoring \<or> jSpecContentHash (rwJob r) = h (jSpecText (rwJob r))"

lemma spec_move_text:
  assumes "spec_move op r new r'" and "addressed h op" and "text_inv h es r"
  shows "text_inv h (es @ new) r'"
  using assms
proof (induction rule: spec_move.induct)
  case (move_judged r p t prior)
  from move_judged(3) show ?case
    by (cases rule: spec_verdict_cases)
      (use move_judged(1,4,5) in \<open>auto simp: text_inv_def signoff_of_def set_seq_def spec_reviewed_row_def
        spec_row_after_def spec_rows move_def split: if_splits\<close>)
qed (auto simp: text_inv_def set_seq_def spec_rows next_seq_def resolved_hash_def)

interpretation spec_text: spec_invariant "addressed h" "text_inv h" for h
  by unfold_locales (erule spec_move_text, simp_all add: text_inv_def spec_row_def seed_row_def Let_def)

section \<open>Issues\<close>

definition issues_match :: "DB \<Rightarrow> bool" where
  "issues_match d \<longleftrightarrow> (\<forall>i. length (issue_rows d i) =
     (if list_ex (\<lambda>e. issue_kind (eKind e)) (events_of d i) then 1 else 0))"

lemma issue_rows_enqueue:
  "issue_rows (enqueueOutboxTx (outbox_row i ActionCreateIssue [] pay) d) k =
     (if k = i \<and> issue_rows d i = []
      then [(outbox_row i ActionCreateIssue [] pay)\<lparr>obID := tbNextOutbox d\<rparr>] else issue_rows d k)"
  by (auto simp: issue_rows_def enqueueOutboxTx_def outbox_row_def same_key_def list_ex_iff filter_empty_conv)

lemma issues_step:
  assumes "spec_apply d op = Inr d'" and "issues_match d" and "agrees signed_inv d"
  shows "issues_match d'"
  using assms(1)
proof (cases rule: spec_apply_cases)
  case same
  with assms(2) show ?thesis by simp
next
  case (seeded p)
  note v = SeedSpecJob_view [OF seeded(2)]
  have ev: "events_of d' j = (if j = spID p then events_of d j @ [spec_created p] else events_of d j)" for j
    using events_of_view [OF v(2), of j] by (simp add: snd_view)
  have rows: "issue_rows d' j = issue_rows d j" for j by (simp add: issue_rows_def v(3))
  show ?thesis
    using assms(2) by (simp add: issues_match_def ev rows spec_created_def issue_kind_def)
next
  case (moved r new r')
  let ?i = "op_job op" and ?q = "list_ex (\<lambda>e. issue_kind (eKind e))"
  have f: "find_row d ?i = Some r" and v: "view d' = commit ?i r' new (view d)"
    using moved(2) by (simp_all add: does_def)
  have epic: "\<not> jIsEpic (rwJob r)" using agreesD [OF assms(3) f] by (simp add: signed_inv_def)
  have ev: "events_of d' j = (if j = ?i then events_of d j @ new else events_of d j)" for j
    using events_of_view [OF v, of j] by (simp add: commit_def snd_view)
  have rows: "issue_rows d' j = issue_rows x j" if "tbOutbox d' = tbOutbox x" for x j
    by (simp add: issue_rows_def that)
  show ?thesis
  proof (cases "?q new")
    case True
    with moved(3) epic obtain pay where
      o: "tbOutbox d' = tbOutbox (enqueueOutboxTx (outbox_row ?i ActionCreateIssue [] pay) d)"
      by (auto simp: enqueues_def)
    show ?thesis
      using assms(2) True
      by (auto simp: issues_match_def ev rows [OF o] issue_rows_enqueue dest: spec [of _ ?i] split: if_splits)
  next
    case False
    with moved(3) have o: "tbOutbox d' = tbOutbox d" by (simp add: enqueues_def)
    show ?thesis using assms(2) False by (simp add: issues_match_def ev rows [OF o])
  qed
qed

lemma issues_run:
  "issues_match d \<Longrightarrow> agrees signed_inv d \<Longrightarrow> issues_match (spec_run ops d)"
  by (induction ops arbitrary: d)
    (auto intro: issues_step spec_signed.step split: sum.split)

end
