(* ===== verification/Spec_Props.thy ===== *)
theory Spec_Props
  imports Spec_Facts Store_Contract
begin

text \<open>
  The properties of the spec flow: what a sign-off rests on, what the ledger
  restores, who holds a stage, and where the flow does less than it says.
\<close>

section \<open>A sample run\<close>

definition demo_spec_seed :: SeedSpecParams where
  "demo_spec_seed = \<lparr>spID = ''s'', spChatRef = ''c'', spAuthorLens = ''a'', spPriority = 1, spRepo = ''r'',
     spTaskText = ''t'', spAcceptanceCriteria = [], spNow = 10\<rparr>"

definition demo_holder :: "string \<Rightarrow> string \<Rightarrow> string \<Rightarrow> int \<Rightarrow> ClaimParams" where
  "demo_holder lease who lens now =
     \<lparr>cpJobID = ''s'', cpLeaseID = lease, cpIdentity = who, cpModelFamily = ''f'', cpModel = ''f'',
      cpWorkerID = [], cpLens = lens, cpRole = RoleEmpty,
      cpAttested = [''role:spec_author'', ''role:spec_reviewer''], cpTTL = 100, cpNow = now\<rparr>"

definition demo_draft :: MaterializeSpecParams where
  "demo_draft = \<lparr>mzJobID = ''s'', mzContentHash = ''d:x'', mzVersion = 1, mzMarkdown = ''x'', mzEpoch = 1,
     mzNow = 12\<rparr>"

definition demo_judgement :: "int \<Rightarrow> VerdictValue \<Rightarrow> string \<Rightarrow> SpecReviewResultParams" where
  "demo_judgement epoch claim hash =
     \<lparr>srJobID = ''s'', srEpoch = epoch, srClaim = claim, srBindsTo = hash, srMeetsStyle = True,
      srMeetsRequirements = True, srAmendedHash = [], srAmendedVersion = 0, srAmendedMarkdown = [],
      srIdempotencyKey = [], srNotes = [], srNow = 14\<rparr>"

definition demo_spec_run :: "spec_op list" where
  "demo_spec_run = [OpSeed demo_spec_seed, OpClaimAuthor (demo_holder ''l1'' ''ann'' [] 11), OpDraft demo_draft,
     OpClaimReview (demo_holder ''l2'' ''bob'' ''b'' 13),
     OpReview (demo_judgement 2 VerdictSignedOff ''d:x'')]"

lemma demo_start: "tbJobs demo0 = []" "tbEvents demo0 = []" "tbOutbox demo0 = []"
  by (simp_all add: demo0_def)

lemma demo_spec_served: "list_all as_served demo_spec_run" "list_all (addressed (\<lambda>x. ''d:'' @ x)) demo_spec_run"
  by (simp_all add: demo_spec_run_def demo_draft_def demo_judgement_def)

section \<open>A sign-off goes through\<close>

text \<open>With the ledger's numbers intact, a claim that meets the conjunction is signed.\<close>

lemma signing_succeeds:
  assumes "find_row d (srJobID p) = Some r" and "counted (events_of d (srJobID p)) r"
    and "cached_response d (srJobID p) (srIdempotencyKey p) = None"
    and "srEpoch p = jLeaseEpoch (rwJob r)" and "jState (rwJob r) = StateSpecReview"
    and "signs r p" and "\<not> jIsEpic (rwJob r)"
  obtains d2 resp where "SpecReviewResult d p = Inr (d2, resp)" and "rpMinted resp"
proof -
  define prior where "prior = prior_spec_rejections d (srJobID p) (coalesce (rwBoundIdentity r))"
  have ok: "dReject (spec_decision r p prior) = None"
    using assms(4-6)
    by (auto simp: spec_decision_def decide_spec_review_claim_def spec_claim_def spec_state_def staleEpoch_def
        spec_gate_inputs_def EvaluateSpecGate_def signs_def lens_apart_def moves_def no_decision_def)
  then obtain t where ts: "dTransitions (spec_decision r p prior) = [t]" and v: "spec_verdict r p t"
    by (rule spec_decision_cases)
  from v assms(6) have so: "tSpecSignoff t \<noteq> None" by (cases rule: spec_verdict_cases) simp_all
  let ?c = "spec_claim_event p (scanJob r) (jJobSeq (rwJob r) + 1)"
    and ?e = "spec_event p (scanJob r) prior t (jJobSeq (rwJob r) + 2)"
  define d1 where "d1 = d\<lparr>tbEvents := tbEvents d @ [?c]\<rparr>"
  have seqs: "eJobSeq (spec_claim_event p j n) = n" "eJobSeq (spec_event p j k x n) = n" for j n k x
    by (simp_all add: spec_claim_event_def spec_event_def)
  have c: "appendEvent ?c d = Inr d1"
    unfolding d1_def by (rule appendEvent_fresh [OF assms(2)]) (simp_all add: seqs)
  have "counted (events_of d1 (srJobID p)) (set_seq (jJobSeq (rwJob r) + 1) r)"
    using assms(2) by (simp add: d1_def counted_def events_of_def set_seq_def seqs)
  then have e: "appendEvent ?e d1 = Inr (d1\<lparr>tbEvents := tbEvents d1 @ [?e]\<rparr>)"
    by (rule appendEvent_fresh) (simp_all add: seqs set_seq_def)
  show ?thesis
    using that so assms(7)
    by (auto simp: SpecReviewResult_eq [OF assms(3,1) prior_def ok ts] c e release_minted_def spec_answer_def
        spec_response_def Let_def)
qed

lemma spec_good_counted: "spec_good es r \<Longrightarrow> counted es r"
  by (simp add: spec_good_def counted_def)

lemma demo_judged:
  "case find_row (spec_run (butlast demo_spec_run) demo0) ''s'' of None \<Rightarrow> False | Some r \<Rightarrow>
     jState (rwJob r) = StateSpecReview \<and> jLeaseEpoch (rwJob r) = 2 \<and> jSpecContentHash (rwJob r) = ''d:x''
     \<and> rwAuthorLens r = ''a'' \<and> rwReviewerLens r = ''b''"
  by code_simp

lemma demo_signed:
  obtains r where "find_row (spec_run demo_spec_run demo0) ''s'' = Some r" and "jState (rwJob r) = StateDone"
proof -
  let ?d = "spec_run (butlast demo_spec_run) demo0" and ?p = "demo_judgement 2 VerdictSignedOff ''d:x''"
  from demo_judged obtain r where r: "find_row ?d ''s'' = Some r" "jState (rwJob r) = StateSpecReview"
      "jLeaseEpoch (rwJob r) = 2" "jSpecContentHash (rwJob r) = ''d:x''" "rwAuthorLens r = ''a''" "rwReviewerLens r = ''b''"
    by (auto split: option.splits)
  have "list_all as_served (butlast demo_spec_run)" by (simp add: demo_spec_run_def demo_draft_def)
  from spec_fold.run_row [OF this demo_start(1,2) r(1)]
  have g: "counted (events_of ?d ''s'') r" "\<not> jIsEpic (rwJob r)"
    by (auto simp: spec_good_counted spec_good_def spec_shape_def Let_def)
  have p: "srJobID ?p = ''s''" "srIdempotencyKey ?p = []" "srEpoch ?p = 2" "signs r ?p"
    by (simp_all add: demo_judgement_def signs_def lens_apart_def r)
  obtain d2 resp where d2: "SpecReviewResult ?d ?p = Inr (d2, resp)" "rpMinted resp"
    by (rule signing_succeeds [of ?d ?p r]) (simp_all add: p r g cached_response_def)
  have run: "spec_run demo_spec_run demo0 = d2"
    using spec_run_append [of "butlast demo_spec_run" "[OpReview ?p]" demo0] d2(1)
    by (simp add: demo_spec_run_def)
  from d2(1) show ?thesis
  proof (rule SpecReviewResult_does)
    show "cached_response ?d (srJobID ?p) (srIdempotencyKey ?p) = None" by (simp add: p cached_response_def)
    fix x t prior
    assume t: "resp = spec_answer t" "spec_verdict x ?p t"
      "does (srJobID ?p) x (set_seq (jJobSeq (rwJob x) + int (length (spec_events ?p x prior t)))
         (spec_reviewed_row ?p prior t x)) (spec_events ?p x prior t) ?d d2"
    then have "x = r" using r(1) by (simp add: does_def p)
    moreover have "jState (rwJob (spec_reviewed_row ?p prior t x)) = StateDone"
      using t(2) \<open>x = r\<close> p(4)
      by (cases rule: spec_verdict_cases)
        (simp_all add: spec_reviewed_row_def spec_row_after_def spec_rows move_def)
    ultimately show ?thesis
      using that does_find [OF t(3)] run by (simp add: p)
  qed
qed

section \<open>What the runs keep\<close>

text \<open>
  Beside the properties: a spec's row is the fold of its ledger.  After any run of the spec flow
  as the API serves it, the state, bytes, hash, sign-off, bounces, lease and
  escalation of every spec job are those a rebuild from its events gives.
\<close>

theorem spec_row_is_fold:
  assumes "tbJobs d = []" and "tbEvents d = []" and "list_all as_served ops"
    and "find_row (spec_run ops d) i = Some r"
  shows "spec_projected (scanJob r) = spec_projected (Fold (LoadEvents (spec_run ops d) i))"
proof -
  from spec_fold.run_row [OF assms(3,1,2,4)] have "spec_good (events_of (spec_run ops d) i) r" .
  then show ?thesis by (simp add: spec_good_def LoadEvents_numbered)
qed

theorem spec_row_is_fold_witness:
  "jState (Fold (LoadEvents (spec_run demo_spec_run demo0) ''s'')) = StateDone"
proof -
  obtain r where r: "find_row (spec_run demo_spec_run demo0) ''s'' = Some r" "jState (rwJob r) = StateDone"
    by (rule demo_signed)
  from spec_row_is_fold [OF demo_start(1,2) demo_spec_served(1) r(1)] r(2) show ?thesis
    by (simp add: spec_projected_iff)
qed

text \<open>
  Beside the properties: a sign-off binds the spec it was given for.  After any run of the spec
  transactions a job is done iff it carries a sign-off; the sign-off's hash and
  version are the row's, its lens is not the author's, and the outbox asks for the
  issue of a done spec exactly once.
\<close>

theorem signoff_binds_spec:
  assumes "tbJobs d = []" and "tbEvents d = []" and "tbOutbox d = []"
    and "find_row (spec_run ops d) i = Some r"
  shows "case jSpecSignoff (rwJob r) of
      None \<Rightarrow> jState (rwJob r) \<noteq> StateDone
    | Some so \<Rightarrow> jState (rwJob r) = StateDone \<and> sSpecHash so = jSpecContentHash (rwJob r)
        \<and> sSpecVersion so = jSpecVersion (rwJob r)
        \<and> (rwAuthorLens r = [] \<or> sReviewerLens so \<noteq> rwAuthorLens r)
        \<and> length (issue_rows (spec_run ops d) i) = 1"
proof -
  have all: "list_all (\<lambda>op. True) ops" by (simp add: list_all_iff)
  have inv: "signed_inv (events_of (spec_run ops d) i) r"
    by (rule spec_signed.run_row [OF all assms(1,2,4)])
  have "agrees signed_inv d" "issues_match d"
    using assms(1-3) by (simp_all add: agrees_def find_row_def events_of_def issues_match_def issue_rows_def)
  then have "issues_match (spec_run ops d)" using issues_run by blast
  with inv show ?thesis by (auto simp: signed_inv_def issues_match_def split: option.splits)
qed

theorem signoff_binds_spec_witness:
  "length (issue_rows (spec_run demo_spec_run demo0) ''s'') = 1"
proof -
  obtain r where r: "find_row (spec_run demo_spec_run demo0) ''s'' = Some r" "jState (rwJob r) = StateDone"
    by (rule demo_signed)
  from signoff_binds_spec [OF demo_start r(1)] r(2) show ?thesis by (simp split: option.splits)
qed

text \<open>
  Beside the properties: the signed bytes are the shipped bytes.  When the drafts and amendments
  carry the hash of their bytes and no edit or design decision moves the hash alone,
  the sign-off of a done spec is for the hash of the text the row carries.
\<close>

theorem signed_text_is_shipped:
  assumes "tbJobs d = []" and "tbEvents d = []" and "list_all (addressed h) ops"
    and "find_row (spec_run ops d) i = Some r" and "jState (rwJob r) = StateDone"
  shows "\<exists>so. jSpecSignoff (rwJob r) = Some so \<and> sSpecHash so = h (jSpecText (rwJob r))"
proof -
  have all: "list_all (\<lambda>op. True) ops" by (simp add: list_all_iff)
  have "signed_inv (events_of (spec_run ops d) i) r"
    by (rule spec_signed.run_row [OF all assms(1,2,4)])
  moreover have "text_inv h (events_of (spec_run ops d) i) r"
    by (rule spec_text.run_row [OF assms(3,1,2,4)])
  ultimately show ?thesis using assms(5) by (auto simp: signed_inv_def text_inv_def split: option.splits)
qed

theorem signed_text_is_shipped_witness:
  "\<exists>r so. find_row (spec_run demo_spec_run demo0) ''s'' = Some r \<and> jSpecSignoff (rwJob r) = Some so
     \<and> sSpecHash so = ''d:'' @ jSpecText (rwJob r)"
proof -
  obtain r where r: "find_row (spec_run demo_spec_run demo0) ''s'' = Some r" "jState (rwJob r) = StateDone"
    by (rule demo_signed)
  from signed_text_is_shipped [OF demo_start(1,2) demo_spec_served(2) r] r(1) show ?thesis by auto
qed

section \<open>What the flow does not check\<close>

text \<open>
  Beside the properties: an author can sign off its own draft.  A draft leaves the author's epoch live,
  and the review result asks for nothing but the live epoch and lenses that differ: right
  after its draft, without any reviewer having claimed the spec, the author's own claim of
  a sign-off over the bytes it just submitted is accepted and mints.
\<close>

theorem author_signs_own_draft:
  assumes "tbJobs d = []" and "tbEvents d = []" and "list_all as_served ops"
    and "MaterializeSpec (spec_run ops d) p = Inr d'" and "mzMarkdown p \<noteq> []"
    and "find_row d' (mzJobID p) = Some r" and "rwAuthorLens r = [] \<or> rwReviewerLens r \<noteq> rwAuthorLens r"
    and "srJobID q = mzJobID p" and "srEpoch q = mzEpoch p" and "srBindsTo q = mzContentHash p"
    and "srClaim q = VerdictSignedOff" and "srMeetsStyle q" and "srMeetsRequirements q"
    and "cached_response d' (srJobID q) (srIdempotencyKey q) = None"
  shows "rwBoundIdentity r = None \<and> (\<exists>d2 resp. SpecReviewResult d' q = Inr (d2, resp) \<and> rpMinted resp)"
proof -
  from assms(4) obtain x where x: "find_row (spec_run ops d) (mzJobID p) = Some x" "mzEpoch p = jLeaseEpoch (rwJob x)"
    and st: "one_step (mzJobID p) (jJobSeq (rwJob x) + 1) (authored_event p (scanJob x) (jJobSeq (rwJob x) + 1))
      (authored_row p) id (spec_run ops d) = Inr d'"
    by (auto simp: MaterializeSpec_def and_then_Inr_iff loadJobTx_Inr split: if_splits)
  have r: "r = set_seq (jJobSeq (rwJob x) + 1) (authored_row p x)"
    using does_find [OF one_step_move(1) [OF st x(1)]] assms(6) by (simp add: next_seq_def)
  have run: "spec_run (ops @ [OpDraft p]) d = d'" using assms(4) by (simp add: spec_run_append)
  have "list_all as_served (ops @ [OpDraft p])" using assms(3,5) by simp
  from spec_fold.run_row [OF this assms(1,2), unfolded run, OF assms(6)]
  have g: "counted (events_of d' (srJobID q)) r" "\<not> jIsEpic (rwJob r)"
    by (auto simp: spec_good_counted spec_good_def spec_shape_def Let_def assms(8))
  have f: "jState (rwJob r) = StateSpecReview" "srEpoch q = jLeaseEpoch (rwJob r)" "signs r q" "rwBoundIdentity r = None"
    using assms(7,9-13) x(2) r by (simp_all add: authored_row_def gate_row_def set_seq_def signs_def lens_apart_def)
  show ?thesis
    using signing_succeeds [OF assms(6) [folded assms(8)] g(1) assms(14) f(2,1,3) g(2)] f(4) by blast
qed

theorem author_signs_own_draft_witness:
  "\<exists>d2 resp. SpecReviewResult (spec_run (take 3 demo_spec_run) demo0) (demo_judgement 1 VerdictSignedOff ''d:x'')
     = Inr (d2, resp) \<and> rpMinted resp"
proof -
  let ?d = "spec_run (take 2 demo_spec_run) demo0" and ?q = "demo_judgement 1 VerdictSignedOff ''d:x''"
  have c: "\<not> isl (MaterializeSpec ?d demo_draft)"
    "case find_row (projr (MaterializeSpec ?d demo_draft)) ''s'' of None \<Rightarrow> False | Some r \<Rightarrow>
       rwAuthorLens r = ''a'' \<and> rwReviewerLens r = []"
    by code_simp+
  from c(2) obtain r where r: "find_row (projr (MaterializeSpec ?d demo_draft)) (mzJobID demo_draft) = Some r"
      "rwAuthorLens r = ''a''" "rwReviewerLens r = []"
    by (auto simp: demo_draft_def split: option.splits)
  have s: "list_all as_served (take 2 demo_spec_run)" by (simp add: demo_spec_run_def)
  have m: "MaterializeSpec ?d demo_draft = Inr (projr (MaterializeSpec ?d demo_draft))" by (rule projr_Inr [OF c(1)])
  have t: "take 3 demo_spec_run = take 2 demo_spec_run @ [OpDraft demo_draft]" by (simp add: demo_spec_run_def)
  have "spec_run (take 3 demo_spec_run) demo0 = projr (MaterializeSpec ?d demo_draft)"
    unfolding t spec_run_append spec_run.simps spec_apply.simps
    using c(1) by (cases "MaterializeSpec ?d demo_draft") (simp_all only: sum.case sum.sel isl_def, blast)
  with author_signs_own_draft [OF demo_start(1,2) s m _ r(1), of ?q] r(2,3) show ?thesis
    by (simp add: demo_draft_def demo_judgement_def cached_response_def)
qed

text \<open>
  Beside the properties: a design decision ships the old text.  A decision that amends the spec moves
  its content hash and version and leaves the text: what is reviewed and signed is the
  new hash, what the issue and the build carry the text from before.
\<close>

theorem resolved_design_keeps_text:
  assumes "ResolveDesign d i h n now = Inr d'" and "h \<noteq> []" and "find_row d i = Some r"
  shows "\<exists>r'. find_row d' i = Some r' \<and> jState (rwJob r') = StateSpecReview
    \<and> jSpecContentHash (rwJob r') = h \<and> jSpecVersion (rwJob r') = n \<and> jSpecText (rwJob r') = jSpecText (rwJob r)"
proof -
  from assms have st: "one_step i (jJobSeq (rwJob r) + 1) (decided_event i (scanJob r) h n now (jJobSeq (rwJob r) + 1))
      (decided_row h n) id d = Inr d'"
    by (auto simp: ResolveDesign_def and_then_Inr_iff loadJobTx_Inr Let_def split: if_splits)
  have "does i r (set_seq (next_seq r) (decided_row h n r))
      [decided_event i (scanJob r) h n now (jJobSeq (rwJob r) + 1)] d d'"
    by (rule one_step_move(1) [OF st assms(3)]) (simp_all add: decided_event_def decided_row_def gate_row_def row_id_def)
  from does_find [OF this] show ?thesis by (simp add: decided_row_def gate_row_def set_seq_def)
qed

definition forked_db :: DB where
  "forked_db = demo0\<lparr>tbJobs := [(spec_row demo_spec_seed)\<lparr>rwJob := (rwJob (spec_row demo_spec_seed))
     \<lparr>jState := StateNeedsDesign, jSpecText := ''x'', jSpecContentHash := ''d:x''\<rparr>\<rparr>]\<rparr>"

theorem resolved_design_keeps_text_witness:
  "\<exists>d' r'. ResolveDesign forked_db ''s'' ''d:y'' 2 15 = Inr d' \<and> find_row d' ''s'' = Some r'
     \<and> jSpecContentHash (rwJob r') = ''d:y'' \<and> jSpecText (rwJob r') = ''x''"
proof -
  have c: "\<not> isl (ResolveDesign forked_db ''s'' ''d:y'' 2 15)"
    "case find_row forked_db ''s'' of None \<Rightarrow> False | Some r \<Rightarrow> jSpecText (rwJob r) = ''x''"
    by code_simp+
  from c(2) obtain r where r: "find_row forked_db ''s'' = Some r" "jSpecText (rwJob r) = ''x''"
    by (auto split: option.splits)
  from resolved_design_keeps_text [OF projr_Inr [OF c(1)] _ r(1)] projr_Inr [OF c(1)] r(2) show ?thesis by auto
qed

end
