(* ===== verification/Spec2Isabelle.thy ===== *)
theory Spec2Isabelle
  imports Content_Gate Review_Gate Test_Job Ledger_Facts Engine_Facts Reservation Capacity Flow Sender_Props Sweep_Facts
    Spec_Props
begin

text \<open>
  Flowbee: the deterministic core, the job store and the writer to GitHub, modelled
  and verified.

  The program (Go, under \<open>src/internal\<close>) is a dispatcher that takes a job from a
  spec through a build, a review and a merge.  Its core is pure: the packages
  \<open>job\<close>, \<open>ledger\<close>, \<open>engine\<close>, \<open>content\<close>, \<open>liveness\<close>, \<open>scheduler\<close>, \<open>capacity\<close> and the
  pure part of \<open>flow\<close> read no clock and do no I/O.  The store wraps them: it loads
  a job's row, asks \<open>engine.Decide\<close>, appends ledger events and updates the row,
  which the ledger's \<open>Fold\<close> must reproduce; what GitHub is to be told it puts in an
  outbox.  The sender drains the outbox through the GitHub client, which also reads
  the board that reconciliation feeds back into the store.

  Theories, in the order they build on each other:
    \<^item> Prelude: Go's string functions on byte strings, decimal printing, a stable
      sort; the interfaces \<open>event_fold\<close> and \<open>strict_weak_less\<close>.
    \<^item> Sha256, Regex: executable SHA-256, and a backtracking matcher for the
      regular expressions the sources use, with its relational reading.
    \<^item> Job_State (\<open>job/transition.go\<close>, catalogues of \<open>job/job.go\<close>): states, triggers,
      the table, \<open>Next\<close>; paths of the table and what they imply.
    \<^item> Secret_Scan, Diff_Paths, Content_Gate (\<open>content/content.go\<close>): the secret
      patterns and the entropy heuristic; the paths a diff touches; the denylist,
      the blast radius, the static checks and the gate.
    \<^item> Liveness (\<open>liveness/liveness.go\<close>): \<open>EvaluateKill\<close> against the two-rung rule
      over the set of voting rungs.
    \<^item> Verdict_Gate, Review_Gate (\<open>job/verdict.go\<close>): tamper-evident verdicts and
      sign-offs through the interface \<open>hash_bound\<close>; the two gates, what they mint
      and that rework is bounded.
    \<^item> Job_Record, Test_Job (\<open>job/job.go\<close>, \<open>job/testjob.go\<close>, \<open>job/cifact.go\<close>): the row,
      capability matching, priorities, the cost ceiling; derived test tags, CI facts.
    \<^item> Ledger_Event, Ledger_Fold, Ledger_Facts (\<open>ledger/ledger.go\<close>): the event kinds
      and payload, \<open>Fold\<close> with one definition per case of its switch, and the
      invariants of every folded row (by the interface \<open>written_field\<close>).
    \<^item> Engine, Engine_Facts (\<open>engine/engine.go\<close>): \<open>Decide\<close> with one definition per case;
      fencing, the walk along the table, minting, merge dispatch, revocation.
    \<^item> Scheduler, Reservation (\<open>scheduler\<close>): aged priorities, \<open>Pick\<close>, \<open>Order\<close>,
      write-set reservations.
    \<^item> Capacity (\<open>capacity/capacity.go\<close>): the ceiling gate and account rollover.
    \<^item> Flow (\<open>flow\<close>): provider words, identity precedence, resolution of a flow
      document, anti-affinity, aggregation of verdicts.

    \<^item> Store_Tables, Store_Lease, Store_Review (\<open>store/queries.go\<close>, \<open>flow.go\<close>, \<open>liveness.go\<close>,
      \<open>requeue.go\<close>, \<open>timers.go\<close>, \<open>capacity.go\<close>, \<open>content.go\<close>, \<open>epoch.go\<close>): the tables as
      lists and maps, and the body of each transaction as a function from the
      database to an error or the new database; SQL predicates and UPDATEs are
      written out as functions on rows.
    \<^item> Store_Conflict (\<open>store/conflict.go\<close>): reservations of write-sets, rebases, conflicts
      and their resolvers, stacked jobs.  Store_Outbox (\<open>outbox.go\<close>): the outbox and its
      audit.  Store_Reconcile (\<open>reconcile.go\<close>): the ingest of a pull request.
      Store_Project_Out (\<open>projectout.go\<close>): what project-OUT enqueues and records.
    \<^item> Store_View, Store_Effects, Store_Git_Effects, Store_Out_Effects: what a transaction
      does to the row and the events of its one job.  Store_Invariant, Store_Steps,
      Store_Git_Steps: each such step keeps row and fold together.  Store_Frame: what
      the transactions leave alone.  Store_Runs: all transactions as one step
      relation, reachable databases, and the refinement of every transaction by moves
      of single jobs.  Store_Facts: the interface \<open>ledger_invariant\<close> (a relation of events
      and row that every move keeps holds in every reachable database), interpreted for
      row and fold, the cursor, the fencing epochs and the review panel.  Store_Props,
      Store_Contract: the properties of the job life cycle, with a sample run;
      Store_Delivery: those of conflicts, reconciliation and the outbox.

    \<^item> Json, Runes, Titles: JSON values as the decoder leaves them, UTF-8 decoding, the
      titles project-OUT renders.
    \<^item> Github, Github_Board, Github_Client (\<open>github/github.go\<close>): the facts of a pull request
      and its checks, the nodes a sweep reads, and the client over a parameter for the
      HTTP transport.  Github_Facts: how responses and merge refusals are classified;
      Sweep_Facts: the sweep against a board that pages by cursors.
    \<^item> Merge_Checks, Sender (\<open>project/project.go\<close>, \<open>protection.go\<close>): live CI and the content
      re-verification before a merge; every action of \<open>send\<close>, and the drain.
      Sender_Facts: the calls of a turn (\<open>call_for\<close> fixes each argument); Moved_Heads,
      Sender_Drain: when a drain ends; Sender_Props: the properties of the sender.

    \<^item> Store_Spec (\<open>store/spec.go\<close>): the spec flow.  Spec_Effects, Spec_Runs: its transactions
      as moves of one job and runs of them, with the interface \<open>spec_invariant\<close>;
      Spec_Facts, Spec_Props: row and fold agree, a sign-off binds the row's hash, and
      where the flow does not check what it says.

  Transactions of the store are serialized (one connection), so a run of the
  store is a sequence of steps in any order and with any parameters.  \<open>strict\<close>
  runs leave out the calls after which row and fold are known to differ.  The
  sender's run is a sequence of turns (\<open>turned\<close>); the outside world is a type
  parameter \<open>'w\<close> that the transport, the mirror and the clock read and change.

  Correspondence.  A Go struct is a record with the source's fields in order and
  a short prefix; a string enumeration is a datatype with the source's constant
  names, with an \<open>...Empty\<close> or \<open>...Other\<close> constructor where other strings can occur;
  a nil pointer is \<open>None\<close>; \<open>int64\<close> money is a 64-bit word, the counters are \<open>int\<close>
  (they count events of one job and stay far below \<open>2 ^ 63\<close>); a string is its bytes;
  an instant is its distance in nanoseconds from Go's zero time.  Errors are values
  of a sum or option type.  Loops are structural recursions over the list they
  range over, or functions with a measure (\<open>contains_word_from\<close>, \<open>unquote_body\<close>,
  \<open>trim_left_by\<close>, \<open>sweep_loop\<close> by the pages left before its cap).  One loop has fuel:
  \<open>DrainOnce\<close>, which the source leaves unbounded.  \<open>drain_ends\<close> gives a number of turns
  that is enough (one more than the pending rows and the jobs on the merge arm);
  \<open>red_merge_row_spins\<close> is a database where none is.

  Parameters of the model: the HTTP transport with the parsed JSON of a response,
  the mirror (git), the clock, the decoding of a declared blast radius, the wording of
  the store's errors (\<open>snErrText\<close>) and the rendering of the history archive
  (\<open>snArtifacts\<close>).

  Not modelled: SQL, HTTP, git and process I/O, the text syntax of YAML and JSON, case
  folding and white space tests of non-ASCII text beyond the sequences listed in
  Prelude (\<open>EqualFold\<close> folds ASCII only), cancellation of a context, database I/O errors
  (the facts of a review result are an argument, so the error of reading them is not
  there), message formatting of errors but those the sender matches on.  SQL defaults
  of the health columns (the empty string) are \<open>HealthOther []\<close> and \<open>Rung1Other []\<close>.  SHA-256 is
  computed, its collision resistance is never assumed: the binding properties end in
  an explicit collision.

  Of the store the janitor and cost transactions, epics, account administration and
  most read-only views are left out, and columns stamped by SQLite's own clock; of the
  client \<open>Preflight\<close>, \<open>PutFile\<close> and \<open>CancelCI\<close>.  The loop of \<open>reconcile\<close>, the HTTP API, the
  worker, the watchdog, onboarding and the dashboards are I/O around these parts.
\<close>

end
